(* ===== verification/Agent_Prelude.thy ===== *)
theory Agent_Prelude
  imports Main "HOL-Library.Char_ord" "HOL-Library.List_Lexorder"
begin

text \<open>
  The shared vocabulary of the development: exceptions as values, commands that
  keep their state when they throw, and \<open>std::map\<close> as a strictly sorted
  association list.  Every component theory imports this one.
\<close>

named_theorems cmd_simps "unfolding rules of the command combinators"
named_theorems preserves_intros "rules that lift an invariant through a command"
named_theorems quiet_intros "rules showing that a command throws nothing"

section \<open>Exceptions\<close>

text \<open>
  \<open>DMException\<close> carries sub-system, code and message (code/Utilities/DMException.h);
  \<open>StdException\<close> is any other \<open>std::exception\<close> with its \<open>what()\<close> text;
  \<open>Terminate\<close> is \<open>std::terminate\<close>, which an exception leaving a \<open>noexcept\<close>
  function causes and which no \<open>catch\<close> clause of the program catches.
\<close>

datatype exn = DMException string int string | StdException string | Terminate

fun catchable :: "exn \<Rightarrow> bool" where
  "catchable Terminate = False"
| "catchable _ = True"

lemma catchable_iff: "catchable e \<longleftrightarrow> e \<noteq> Terminate"
  by (cases e) auto

type_synonym 'a res = "exn + 'a"

definition rbind :: "'a res \<Rightarrow> ('a \<Rightarrow> 'b res) \<Rightarrow> 'b res" where
  "rbind r f = (case r of Inl e \<Rightarrow> Inl e | Inr x \<Rightarrow> f x)"

lemma rbind_simps [simp]: "rbind (Inl e) f = Inl e" "rbind (Inr x) f = f x"
  by (simp_all add: rbind_def)

lemma rbind_eq_Inr: "rbind r f = Inr y \<longleftrightarrow> (\<exists>x. r = Inr x \<and> f x = Inr y)"
  by (cases r) auto

fun rmap :: "('a \<Rightarrow> 'b res) \<Rightarrow> 'a list \<Rightarrow> 'b list res" where
  "rmap f [] = Inr []"
| "rmap f (x # xs) = rbind (f x) (\<lambda>y. rbind (rmap f xs) (\<lambda>ys. Inr (y # ys)))"

section \<open>Commands: state kept on exceptions\<close>

text \<open>
  A C++ member function that may throw is a command: it returns a result or an
  exception together with the state it leaves behind.  Nothing is rolled back
  when an exception is thrown, exactly as in the code.
\<close>

type_synonym ('s, 'a) cmd = "'s \<Rightarrow> 'a res \<times> 's"

definition cret :: "'a \<Rightarrow> ('s, 'a) cmd" where
  "cret x = (\<lambda>s. (Inr x, s))"

definition cthrow :: "exn \<Rightarrow> ('s, 'a) cmd" where
  "cthrow e = (\<lambda>s. (Inl e, s))"

definition cbind :: "('s, 'a) cmd \<Rightarrow> ('a \<Rightarrow> ('s, 'b) cmd) \<Rightarrow> ('s, 'b) cmd" where
  "cbind m f = (\<lambda>s. case m s of (r, s') \<Rightarrow> (case r of Inl e \<Rightarrow> (Inl e, s') | Inr x \<Rightarrow> f x s'))"

definition cseq :: "('s, 'a) cmd \<Rightarrow> ('s, 'b) cmd \<Rightarrow> ('s, 'b) cmd" where
  "cseq m n = cbind m (\<lambda>_. n)"

definition cget :: "('s \<Rightarrow> 'a) \<Rightarrow> ('s, 'a) cmd" where
  "cget f = (\<lambda>s. (Inr (f s), s))"

definition cmod :: "('s \<Rightarrow> 's) \<Rightarrow> ('s, unit) cmd" where
  "cmod f = (\<lambda>s. (Inr (), f s))"

definition clift :: "'a res \<Rightarrow> ('s, 'a) cmd" where
  "clift r = (\<lambda>s. (r, s))"

text \<open>\<open>ccatch\<close> is \<open>try { m } catch (const std::exception& e) { h e }\<close>.\<close>

definition ccatch :: "('s, 'a) cmd \<Rightarrow> (exn \<Rightarrow> ('s, 'a) cmd) \<Rightarrow> ('s, 'a) cmd" where
  "ccatch m h = (\<lambda>s. case m s of (r, s') \<Rightarrow>
     (case r of Inl e \<Rightarrow> if catchable e then h e s' else (Inl e, s') | Inr x \<Rightarrow> (Inr x, s')))"

text \<open>\<open>cnoexcept\<close> is the \<open>noexcept\<close> specifier of a member function.\<close>

definition cnoexcept :: "('s, 'a) cmd \<Rightarrow> ('s, 'a) cmd" where
  "cnoexcept m = (\<lambda>s. case m s of (r, s') \<Rightarrow> (case r of Inl e \<Rightarrow> Inl Terminate | Inr x \<Rightarrow> Inr x, s'))"

definition cwhen :: "bool \<Rightarrow> ('s, unit) cmd \<Rightarrow> ('s, unit) cmd" where
  "cwhen b m = (if b then m else cret ())"

fun cfor :: "('a \<Rightarrow> ('s, unit) cmd) \<Rightarrow> 'a list \<Rightarrow> ('s, unit) cmd" where
  "cfor f [] = cret ()"
| "cfor f (x # xs) = cseq (f x) (cfor f xs)"

text \<open>A command that may run for ever: \<open>None\<close> is not returning.\<close>

type_synonym ('s, 'a) ocmd = "'s \<Rightarrow> ('a res \<times> 's) option"

definition olift :: "('s, 'a) cmd \<Rightarrow> ('s, 'a) ocmd" where
  "olift m = (\<lambda>s. Some (m s))"

definition obind :: "('s, 'a) ocmd \<Rightarrow> ('a \<Rightarrow> ('s, 'b) ocmd) \<Rightarrow> ('s, 'b) ocmd" where
  "obind m f = (\<lambda>s. case m s of
     None \<Rightarrow> None
   | Some (r, s') \<Rightarrow> (case r of Inl e \<Rightarrow> Some (Inl e, s') | Inr x \<Rightarrow> f x s'))"

lemmas cmd_unfold [cmd_simps] =
  cret_def cthrow_def cbind_def cseq_def cget_def cmod_def clift_def ccatch_def cnoexcept_def cwhen_def

lemma cfor_append: "cfor f (xs @ ys) = cseq (cfor f xs) (cfor f ys)"
  by (induction xs) (auto simp: cmd_simps fun_eq_iff split: prod.splits sum.splits)

lemma cbind_ret: "cbind (cret x) f = f x" "cbind (clift (Inr x)) f = f x" "cseq (cret y) m = m"
  by (simp_all add: cmd_simps fun_eq_iff)

lemma cseq_assoc: "cseq (cseq a b) c = cseq a (cseq b c)"
  by (simp add: cmd_simps fun_eq_iff split: prod.splits sum.splits)

lemma cbind_cseq: "cbind (cseq a b) f = cseq a (cbind b f)"
  by (simp add: cmd_simps fun_eq_iff split: prod.splits sum.splits)

subsection \<open>Invariants and absence of exceptions\<close>

definition preserves :: "('s \<Rightarrow> bool) \<Rightarrow> ('s, 'a) cmd \<Rightarrow> bool" where
  "preserves I m \<longleftrightarrow> (\<forall>s. I s \<longrightarrow> I (snd (m s)))"

lemma preservesI: "(\<And>s. I s \<Longrightarrow> I (snd (m s))) \<Longrightarrow> preserves I m"
  by (simp add: preserves_def)

lemma preservesD: "preserves I m \<Longrightarrow> I s \<Longrightarrow> I (snd (m s))"
  by (simp add: preserves_def)

lemma preserves_basic [preserves_intros]:
  "preserves I (cret x)" "preserves I (cthrow e)" "preserves I (cget g)" "preserves I (clift r)"
  by (simp_all add: preserves_def cmd_simps)

lemma preserves_cmod [preserves_intros]: "(\<And>s. I s \<Longrightarrow> I (f s)) \<Longrightarrow> preserves I (cmod f)"
  by (simp add: preserves_def cmd_simps)

lemma preserves_cbind [preserves_intros]:
  assumes "preserves I m" and "\<And>x. preserves I (f x)"
  shows "preserves I (cbind m f)"
proof (rule preservesI)
  fix s assume "I s"
  then have I': "I (snd (m s))" by (rule preservesD [OF assms(1)])
  obtain r s' where m: "m s = (r, s')" by (cases "m s")
  show "I (snd (cbind m f s))"
  proof (cases r)
    case (Inl e)
    with m I' show ?thesis by (simp add: cbind_def)
  next
    case (Inr x)
    with m have "cbind m f s = f x s'" by (simp add: cbind_def)
    moreover from I' m have "I s'" by simp
    ultimately show ?thesis using preservesD [OF assms(2)] by metis
  qed
qed

lemma preserves_cseq [preserves_intros]:
  "preserves I m \<Longrightarrow> preserves I n \<Longrightarrow> preserves I (cseq m n)"
  unfolding cseq_def by (rule preserves_cbind)

lemma preserves_ccatch [preserves_intros]:
  assumes "preserves I m" and "\<And>e. preserves I (h e)"
  shows "preserves I (ccatch m h)"
  using assms by (fastforce simp: preserves_def ccatch_def split: prod.splits sum.splits)

lemma preserves_cnoexcept [preserves_intros]: "preserves I m \<Longrightarrow> preserves I (cnoexcept m)"
  by (fastforce simp: preserves_def cnoexcept_def split: prod.splits sum.splits)

lemma preserves_if [preserves_intros]:
  "(b \<Longrightarrow> preserves I m) \<Longrightarrow> (\<not> b \<Longrightarrow> preserves I n) \<Longrightarrow> preserves I (if b then m else n)"
  by simp

lemma preserves_cwhen [preserves_intros]: "(b \<Longrightarrow> preserves I m) \<Longrightarrow> preserves I (cwhen b m)"
  by (simp add: cwhen_def preserves_basic)

lemma preserves_cfor [preserves_intros]:
  "(\<And>x. x \<in> set xs \<Longrightarrow> preserves I (f x)) \<Longrightarrow> preserves I (cfor f xs)"
  by (induction xs) (simp_all add: preserves_basic preserves_cseq)

text \<open>A quiet command throws nothing that a caller could catch or see, except \<open>Terminate\<close>.\<close>

definition quiet :: "('s, 'a) cmd \<Rightarrow> bool" where
  "quiet m \<longleftrightarrow> (\<forall>s e. fst (m s) = Inl e \<longrightarrow> e = Terminate)"

lemma quiet_basic [quiet_intros]: "quiet (cret x)" "quiet (cmod f)" "quiet (cget g)"
  by (simp_all add: quiet_def cmd_simps)

lemma quiet_cbind [quiet_intros]: "quiet m \<Longrightarrow> (\<And>x. quiet (f x)) \<Longrightarrow> quiet (cbind m f)"
  unfolding quiet_def cbind_def
  by (intro allI impI, case_tac "m s", case_tac a) (simp_all, metis fst_conv)

lemma quiet_cseq [quiet_intros]: "quiet m \<Longrightarrow> quiet n \<Longrightarrow> quiet (cseq m n)"
  unfolding cseq_def by (rule quiet_cbind)

lemma quiet_ccatch [quiet_intros]: "(\<And>e. quiet (h e)) \<Longrightarrow> quiet (ccatch m h)"
  by (auto simp: quiet_def ccatch_def split: prod.splits sum.splits elim: catchable.elims)

lemma quiet_cnoexcept [quiet_intros]: "quiet (cnoexcept m)"
  by (auto simp: quiet_def cnoexcept_def split: prod.splits sum.splits)

lemma quiet_cfor [quiet_intros]: "(\<And>x. x \<in> set xs \<Longrightarrow> quiet (f x)) \<Longrightarrow> quiet (cfor f xs)"
  by (induction xs) (simp_all add: quiet_basic quiet_cseq)

section \<open>Ordered maps\<close>

text \<open>
  \<open>std::map<std::string, V>\<close> (and the object member map of \<open>Json::Value\<close>) iterates in
  the byte-wise lexicographic order of its keys.  The model keeps the entries in that
  order; \<open>map_of\<close> is \<open>find\<close>, \<open>sm_put\<close> is \<open>m[k] = v\<close>, \<open>sm_del\<close> is \<open>erase\<close>.
\<close>

type_synonym 'v smap = "(string \<times> 'v) list"

fun sm_put :: "'k::linorder \<Rightarrow> 'v \<Rightarrow> ('k \<times> 'v) list \<Rightarrow> ('k \<times> 'v) list" where
  "sm_put k v [] = [(k, v)]"
| "sm_put k v (e # m) =
     (if fst e < k then e # sm_put k v m else if fst e = k then (k, v) # m else (k, v) # e # m)"

definition sm_del :: "'k \<Rightarrow> ('k \<times> 'v) list \<Rightarrow> ('k \<times> 'v) list" where
  "sm_del k m = filter (\<lambda>e. fst e \<noteq> k) m"

definition sm_keys :: "('k \<times> 'v) list \<Rightarrow> 'k list" where
  "sm_keys m = map fst m"

definition sm_wf :: "('k::linorder \<times> 'v) list \<Rightarrow> bool" where
  "sm_wf m \<longleftrightarrow> sorted_wrt (<) (map fst m)"

definition sm_of :: "('k::linorder \<times> 'v) list \<Rightarrow> ('k \<times> 'v) list" where
  "sm_of kvs = fold (\<lambda>(k, v). sm_put k v) kvs []"

lemma sm_keys_simps [simp]: "sm_keys [] = []" "sm_keys (e # m) = fst e # sm_keys m"
  by (simp_all add: sm_keys_def)

lemma map_of_sm_put [simp]: "map_of (sm_put k v m) = (map_of m)(k \<mapsto> v)"
  by (induction m) (auto simp: fun_eq_iff)

lemma set_keys_sm_put: "fst ` set (sm_put k v m) = insert k (fst ` set m)"
  by (induction m) auto

lemma set_sm_keys: "set (sm_keys m) = dom (map_of m)"
  by (simp add: sm_keys_def dom_map_of_conv_image_fst)

lemma sm_wf_Nil [simp]: "sm_wf []"
  by (simp add: sm_wf_def)

lemma sm_wf_Cons: "sm_wf (e # m) \<longleftrightarrow> sm_wf m \<and> (\<forall>k \<in> fst ` set m. fst e < k)"
  by (auto simp: sm_wf_def)

lemma sm_wf_put [simp]: "sm_wf m \<Longrightarrow> sm_wf (sm_put k v m)"
  by (induction m) (auto simp: sm_wf_Cons set_keys_sm_put)

lemma sm_wf_del [simp]: "sm_wf m \<Longrightarrow> sm_wf (sm_del k m)"
  by (induction m) (auto simp: sm_wf_Cons sm_del_def)

lemma map_of_sm_del [simp]: "map_of (sm_del k m) = (map_of m)(k := None)"
  by (induction m) (auto simp: sm_del_def fun_eq_iff)

lemma sm_wf_distinct: "sm_wf m \<Longrightarrow> distinct (map fst m)"
  by (induction m) (auto simp: sm_wf_Cons)

lemma sm_wf_of [simp]: "sm_wf (sm_of kvs)"
proof -
  have "sm_wf m \<Longrightarrow> sm_wf (fold (\<lambda>(k, v). sm_put k v) kvs m)" for m :: "('a \<times> 'b) list"
    by (induction kvs arbitrary: m) auto
  then show ?thesis by (simp add: sm_of_def)
qed

text \<open>Two ordered maps with the same entries are the same list.\<close>

lemma sm_wf_least: "sm_wf (e # m) \<Longrightarrow> map_of m (fst e) = None"
  by (force simp: sm_wf_Cons map_of_eq_None_iff)

lemma sm_wf_head_eq:
  assumes "sm_wf ((k, v) # m)" "sm_wf ((k', v') # m')"
    and "map_of ((k, v) # m) = map_of ((k', v') # m')"
  shows "k = k'"
proof (rule ccontr)
  assume ne: "k \<noteq> k'"
  from assms(3) have "map_of ((k', v') # m') k = Some v" by (metis map_of_Cons_code(2))
  with ne have "k \<in> fst ` set m'" by (force dest: map_of_SomeD split: if_splits)
  with assms(2) have lt: "k' < k" by (auto simp: sm_wf_Cons)
  from assms(3) have "map_of ((k, v) # m) k' = Some v'" by (metis map_of_Cons_code(2))
  with ne have "k' \<in> fst ` set m" by (force dest: map_of_SomeD split: if_splits)
  with assms(1) have "k < k'" by (auto simp: sm_wf_Cons)
  with lt show False by simp
qed

lemma sm_ext: "sm_wf m \<Longrightarrow> sm_wf n \<Longrightarrow> map_of m = map_of n \<Longrightarrow> m = n"
proof (induction m arbitrary: n)
  case Nil
  then show ?case by (cases n) (auto simp: fun_eq_iff split: if_splits dest: spec)
next
  case (Cons e m)
  obtain k v where e: "e = (k, v)" by (cases e)
  show ?case
  proof (cases n)
    case Nil
    with Cons.prems(3) e show ?thesis by (auto simp: fun_eq_iff split: if_splits dest: spec)
  next
    case (Cons f n')
    obtain k' v' where f: "f = (k', v')" by (cases f)
    have kk: "k = k'" using sm_wf_head_eq Cons.prems Cons e f by metis
    have vv: "v = v'" using Cons.prems(3) Cons e f kk by (metis map_of_Cons_code(2) option.inject)
    have none: "map_of m k = None" "map_of n' k = None"
      using sm_wf_least Cons.prems(1,2) Cons e f kk by (metis fst_conv)+
    have "map_of m x = map_of n' x" for x
      using Cons.prems(3) Cons e f kk none by (cases "x = k") (auto simp: fun_eq_iff dest: spec [of _ x])
    then have "m = n'"
      using Cons.IH Cons.prems(1,2) Cons by (auto simp: sm_wf_Cons fun_eq_iff)
    with Cons e f kk vv show ?thesis by simp
  qed
qed

lemma sm_put_put: "sm_wf m \<Longrightarrow> sm_put k v (sm_put k w m) = sm_put k v m"
  by (rule sm_ext) (auto simp: fun_eq_iff)

lemma sm_put_commute:
  "sm_wf m \<Longrightarrow> k \<noteq> l \<Longrightarrow> sm_put k v (sm_put l w m) = sm_put l w (sm_put k v m)"
  by (rule sm_ext) (auto simp: fun_eq_iff)

lemma sm_put_same: "sm_wf m \<Longrightarrow> map_of m k = Some v \<Longrightarrow> sm_put k v m = m"
  by (rule sm_ext) (auto simp: fun_eq_iff)

lemma sm_wf_map_snd: "sm_wf (map (\<lambda>(k, v). (k, f k v)) m) \<longleftrightarrow> sm_wf m"
  by (induction m) (auto simp: sm_wf_Cons image_image split_def)

text \<open>The interface of \<open>std::map\<close> that the components rely on, and its client lemmas.\<close>

locale ordered_map =
  fixes lookup :: "'m \<Rightarrow> 'k::linorder \<Rightarrow> 'v option"
    and store :: "'k \<Rightarrow> 'v \<Rightarrow> 'm \<Rightarrow> 'm"
    and erase :: "'k \<Rightarrow> 'm \<Rightarrow> 'm"
    and keys :: "'m \<Rightarrow> 'k list"
    and wf :: "'m \<Rightarrow> bool"
  assumes lookup_store: "lookup (store k v m) = (lookup m)(k \<mapsto> v)"
    and lookup_erase: "lookup (erase k m) = (lookup m)(k := None)"
    and keys_sorted: "wf m \<Longrightarrow> sorted_wrt (<) (keys m)"
    and keys_lookup: "set (keys m) = dom (lookup m)"
    and wf_store: "wf m \<Longrightarrow> wf (store k v m)"
    and wf_erase: "wf m \<Longrightarrow> wf (erase k m)"
begin

lemma keys_store: "wf m \<Longrightarrow> keys (store k v m) = sorted_list_of_set (insert k (set (keys m)))"
proof -
  assume m: "wf m"
  have set: "set (keys (store k v m)) = insert k (set (keys m))"
    by (auto simp: keys_lookup lookup_store)
  have s: "sorted_wrt (<) (keys (store k v m))" using m by (simp add: wf_store keys_sorted)
  then show ?thesis
    by (metis set sorted_list_of_set.idem_if_sorted_distinct strict_sorted_iff)
qed

lemma keys_erase: "wf m \<Longrightarrow> keys (erase k m) = sorted_list_of_set (set (keys m) - {k})"
proof -
  assume m: "wf m"
  have set: "set (keys (erase k m)) = set (keys m) - {k}"
    by (auto simp: keys_lookup lookup_erase split: if_splits)
  have s: "sorted_wrt (<) (keys (erase k m))" using m by (simp add: wf_erase keys_sorted)
  then show ?thesis
    by (metis set sorted_list_of_set.idem_if_sorted_distinct strict_sorted_iff)
qed

lemma keys_distinct: "wf m \<Longrightarrow> distinct (keys m)"
  using keys_sorted strict_sorted_iff by blast

lemma size_store:
  "wf m \<Longrightarrow> length (keys (store k v m)) = (if lookup m k = None then Suc (length (keys m)) else length (keys m))"
proof -
  assume m: "wf m"
  have "length (keys (store k v m)) = card (insert k (set (keys m)))"
    using m by (metis keys_distinct distinct_card keys_store set_sorted_list_of_set wf_store List.finite_set finite.insertI)
  also have "\<dots> = (if lookup m k = None then Suc (length (keys m)) else length (keys m))"
    using m by (simp add: card_insert_if keys_distinct distinct_card)
      (simp add: keys_lookup domIff)
  finally show ?thesis .
qed

end

interpretation sm: ordered_map map_of sm_put sm_del sm_keys sm_wf
  by unfold_locales (simp_all add: set_sm_keys, simp add: sm_wf_def sm_keys_def)

section \<open>Lists\<close>

lemma sorted_wrt_less_distinct: "sorted_wrt (<) (xs :: 'a::linorder list) \<Longrightarrow> distinct xs"
  by (simp add: strict_sorted_iff)

end
