(* ===== verification/Errors.thy ===== *)
theory Errors
  imports Agent_Prelude
begin

text \<open>
  code/Utilities/DMErrors.h and the sub-system table of DMException.h / DMException.cpp.
  The enumerators of \<open>DMErrors\<close> are abbreviations for their values, so that they are
  the numbers the exceptions and the reported errors carry.
\<close>

section \<open>Error codes\<close>

abbreviation DM_ERROR_SUCCESS :: int where "DM_ERROR_SUCCESS \<equiv> 0"
abbreviation DM_ERROR_INVALID_JSON :: int where "DM_ERROR_INVALID_JSON \<equiv> 1000"
abbreviation DM_ERROR_INVALID_JSON_FORMAT :: int where "DM_ERROR_INVALID_JSON_FORMAT \<equiv> 1001"
abbreviation DM_ERROR_INVALID_REQUEST_JSON :: int where "DM_ERROR_INVALID_REQUEST_JSON \<equiv> 1002"
abbreviation DM_ERROR_INVALID_REQUEST_JSON_SCHEMA :: int where "DM_ERROR_INVALID_REQUEST_JSON_SCHEMA \<equiv> 1003"
abbreviation DM_ERROR_INVALID_RESPONSE_JSON :: int where "DM_ERROR_INVALID_RESPONSE_JSON \<equiv> 1004"
abbreviation DM_ERROR_INVALID_RESPONSE_JSON_SCHEMA :: int where "DM_ERROR_INVALID_RESPONSE_JSON_SCHEMA \<equiv> 1005"
abbreviation DM_ERROR_INVALID_DATETIME_FORMAT :: int where "DM_ERROR_INVALID_DATETIME_FORMAT \<equiv> 1006"
abbreviation DM_ERROR_INVALID_TIMEKIND :: int where "DM_ERROR_INVALID_TIMEKIND \<equiv> 1007"
abbreviation DM_ERROR_INVALID_DEPLOYMENT_STATUS :: int where "DM_ERROR_INVALID_DEPLOYMENT_STATUS \<equiv> 1009"
abbreviation DM_ERROR_INVALID_CONNECTION_STATUS :: int where "DM_ERROR_INVALID_CONNECTION_STATUS \<equiv> 1011"
abbreviation DM_ERROR_INVALID_OPERATION :: int where "DM_ERROR_INVALID_OPERATION \<equiv> 1012"
abbreviation DM_ERROR_INVALID_SECTION :: int where "DM_ERROR_INVALID_SECTION \<equiv> 1013"
abbreviation DM_ERROR_OPERATION_FAILED :: int where "DM_ERROR_OPERATION_FAILED \<equiv> 1014"
abbreviation DM_ERROR_INVALID_ARGUMENT :: int where "DM_ERROR_INVALID_ARGUMENT \<equiv> 1015"
abbreviation DM_ERROR_DPS_CLIENT_FAILED :: int where "DM_ERROR_DPS_CLIENT_FAILED \<equiv> 1016"
abbreviation DM_ERROR_PLUGIN_MANIFEST_MISSING_CODE_PUBLISH :: int
  where "DM_ERROR_PLUGIN_MANIFEST_MISSING_CODE_PUBLISH \<equiv> 1024"
abbreviation DM_ERROR_PLUGIN_MANIFEST_MISSING_CODE_DEVICES :: int
  where "DM_ERROR_PLUGIN_MANIFEST_MISSING_CODE_DEVICES \<equiv> 1025"
abbreviation DM_ERROR_PLUGIN_HANDLER_INVALID_DEPENDENCY :: int
  where "DM_ERROR_PLUGIN_HANDLER_INVALID_DEPENDENCY \<equiv> 1028"
abbreviation DM_PLUGIN_ERROR_MISSING_ENTRY_POINT :: int where "DM_PLUGIN_ERROR_MISSING_ENTRY_POINT \<equiv> 2000"
abbreviation DM_PLUGIN_ERROR_INVALID_OUTPUT_BUFFER :: int where "DM_PLUGIN_ERROR_INVALID_OUTPUT_BUFFER \<equiv> 2001"
abbreviation DM_PLUGIN_ERROR_INVALID_OPERATION :: int where "DM_PLUGIN_ERROR_INVALID_OPERATION \<equiv> 2002"
abbreviation DM_PLUGIN_ERROR_INVALID_PLUGINHOST_TARGETTYPE :: int
  where "DM_PLUGIN_ERROR_INVALID_PLUGINHOST_TARGETTYPE \<equiv> 2003"
abbreviation DM_PLUGIN_ERROR_INVALID_PLUGINHOST_OPERTION :: int
  where "DM_PLUGIN_ERROR_INVALID_PLUGINHOST_OPERTION \<equiv> 2004"
abbreviation DM_PLUGIN_ERROR_INVALID_MANIFEST_SCHEMA :: int
  where "DM_PLUGIN_ERROR_INVALID_MANIFEST_SCHEMA \<equiv> 2006"
abbreviation DM_PLUGIN_ERROR_MANIFEST_MISSING_CODE_FILENAME :: int
  where "DM_PLUGIN_ERROR_MANIFEST_MISSING_CODE_FILENAME \<equiv> 2007"
abbreviation DM_PLUGIN_ERROR_MANIFEST_MISSING_AGENT_PLUGIN_PROTOCOL_VERSION :: int
  where "DM_PLUGIN_ERROR_MANIFEST_MISSING_AGENT_PLUGIN_PROTOCOL_VERSION \<equiv> 2008"
abbreviation DM_PLUGIN_ERROR_MANIFEST_MISSING_DIRECT_ATTRIBUTE :: int
  where "DM_PLUGIN_ERROR_MANIFEST_MISSING_DIRECT_ATTRIBUTE \<equiv> 2009"
abbreviation DM_PLUGIN_ERROR_MANIFEST_MISSING_OUTOFPROC_ATTRIBUTE :: int
  where "DM_PLUGIN_ERROR_MANIFEST_MISSING_OUTOFPROC_ATTRIBUTE \<equiv> 2010"
abbreviation DM_PLUGIN_ERROR_MANIFEST_MISSING_KEEPALIVE_ATTRIBUTE :: int
  where "DM_PLUGIN_ERROR_MANIFEST_MISSING_KEEPALIVE_ATTRIBUTE \<equiv> 2011"
abbreviation DM_PLUGIN_ERROR_MANIFEST_INVALID_KEEPALIVE_ATTRIBUTE :: int
  where "DM_PLUGIN_ERROR_MANIFEST_INVALID_KEEPALIVE_ATTRIBUTE \<equiv> 2012"
abbreviation DM_PLUGIN_ERROR_INVALID_RAW_HANDLER :: int where "DM_PLUGIN_ERROR_INVALID_RAW_HANDLER \<equiv> 2013"
abbreviation DM_PLUGIN_ERROR_INVALID_RAW_METHOD :: int where "DM_PLUGIN_ERROR_INVALID_RAW_METHOD \<equiv> 2014"
abbreviation DM_PLUGIN_ERROR_INVALID_RAW_HANDLER_HOST_OPERATION :: int
  where "DM_PLUGIN_ERROR_INVALID_RAW_HANDLER_HOST_OPERATION \<equiv> 2015"
abbreviation DM_PLUGIN_ERROR_UNINITIALIZED_TRANSPORT :: int
  where "DM_PLUGIN_ERROR_UNINITIALIZED_TRANSPORT \<equiv> 2017"
abbreviation DM_PLUGIN_ERROR_INVALID_PROTOCOL_VERSION :: int
  where "DM_PLUGIN_ERROR_INVALID_PROTOCOL_VERSION \<equiv> 2018"
abbreviation DM_PLUGIN_ERROR_INVALID_INTERFACE_VERSION :: int
  where "DM_PLUGIN_ERROR_INVALID_INTERFACE_VERSION \<equiv> 2019"
abbreviation DM_MDM_ERROR_INVALID_SERVER_OPERATION :: int
  where "DM_MDM_ERROR_INVALID_SERVER_OPERATION \<equiv> 3001"
abbreviation DM_MDM_ERROR_UNINITIALIZED_MDMSERVER :: int
  where "DM_MDM_ERROR_UNINITIALIZED_MDMSERVER \<equiv> 3000"
abbreviation DM_ERROR_NOT_SUPPORTED :: int
  where "DM_ERROR_NOT_SUPPORTED \<equiv> 1008"
abbreviation DM_ERROR_MISSING_XML_PATH :: int
  where "DM_ERROR_MISSING_XML_PATH \<equiv> 1010"
abbreviation DM_SHELL_ERROR_NO_USER_PROCESS_FOUND :: int
  where "DM_SHELL_ERROR_NO_USER_PROCESS_FOUND \<equiv> 4000"
abbreviation DM_SHELL_ERROR_APP_INSTALL_TASK_CANCELLED :: int
  where "DM_SHELL_ERROR_APP_INSTALL_TASK_CANCELLED \<equiv> 4001"
abbreviation DM_SHELL_ERROR_APP_INSTALL_FAILED :: int
  where "DM_SHELL_ERROR_APP_INSTALL_FAILED \<equiv> 4002"
abbreviation DM_SHELL_ERROR_APP_UNINSTALL_FAILED :: int
  where "DM_SHELL_ERROR_APP_UNINSTALL_FAILED \<equiv> 4003"
abbreviation DM_SHELL_ERROR_INVALID_DESIRED_MULTIPLE_FOREGROUND_APPS :: int
  where "DM_SHELL_ERROR_INVALID_DESIRED_MULTIPLE_FOREGROUND_APPS \<equiv> 4004"
abbreviation DM_SHELL_ERROR_CONFLICT_UNINSTALL_FOREGROUND_APP :: int
  where "DM_SHELL_ERROR_CONFLICT_UNINSTALL_FOREGROUND_APP \<equiv> 4005"
abbreviation DM_SHEEL_ERROR_INVALID_DESIRED_NO_FOREGROUND_APPS :: int
  where "DM_SHEEL_ERROR_INVALID_DESIRED_NO_FOREGROUND_APPS \<equiv> 4006"

section \<open>Sub-systems\<close>

datatype DMSubsystem =
    DeviceAgent | Windows | RPC | XmlLite | Limpet | DPS | IotHub | MDM | MDMOperation
  | DeviceAgentPlugin | W32TM | BCDEdit | Linux | IotStartup

fun dmSubsystemsMap :: "DMSubsystem \<Rightarrow> string option" where
  "dmSubsystemsMap DeviceAgent = Some ''DeviceAgent''"
| "dmSubsystemsMap Windows = Some ''Windows''"
| "dmSubsystemsMap RPC = Some ''RPC''"
| "dmSubsystemsMap XmlLite = Some ''XmlLite''"
| "dmSubsystemsMap Limpet = Some ''Limpet''"
| "dmSubsystemsMap DPS = Some ''DPS''"
| "dmSubsystemsMap IotHub = Some ''IotHub''"
| "dmSubsystemsMap MDM = Some ''MDM''"
| "dmSubsystemsMap MDMOperation = Some ''MDMOperation''"
| "dmSubsystemsMap DeviceAgentPlugin = Some ''DeviceAgentPlugin''"
| "dmSubsystemsMap W32TM = Some ''W32TM''"
| "dmSubsystemsMap BCDEdit = Some ''BCDEdit''"
| "dmSubsystemsMap Linux = Some ''Linux''"
| "dmSubsystemsMap IotStartup = None"

text \<open>
  What \<open>throw DMException(subSystem, code, message)\<close> throws: the constructor looks the
  sub-system up with \<open>map::at\<close>, which throws \<open>std::out_of_range\<close> for a missing key.
\<close>

definition DMExc :: "DMSubsystem \<Rightarrow> int \<Rightarrow> string \<Rightarrow> exn" where
  "DMExc subSystem code message =
     (case dmSubsystemsMap subSystem of
        Some name \<Rightarrow> DMException name code message
      | None \<Rightarrow> StdException ''invalid map<K, T> key'')"

lemma DMExc_simps [simp]:
  "DMExc DeviceAgent c m = DMException ''DeviceAgent'' c m"
  "DMExc Windows c m = DMException ''Windows'' c m"
  "DMExc Limpet c m = DMException ''Limpet'' c m"
  "DMExc DPS c m = DMException ''DPS'' c m"
  "DMExc IotHub c m = DMException ''IotHub'' c m"
  "DMExc DeviceAgentPlugin c m = DMException ''DeviceAgentPlugin'' c m"
  "DMExc W32TM c m = DMException ''W32TM'' c m"
  "DMExc BCDEdit c m = DMException ''BCDEdit'' c m"
  "DMExc XmlLite c m = DMException ''XmlLite'' c m"
  "DMExc MDM c m = DMException ''MDM'' c m"
  "DMExc MDMOperation c m = DMException ''MDMOperation'' c m"
  "DMExc IotStartup c m = StdException ''invalid map<K, T> key''"
  by (simp_all add: DMExc_def)

lemma catchable_DMExc [simp]: "catchable (DMExc s c m)"
  by (simp add: DMExc_def split: option.splits)

abbreviation invalid_json_format :: "string \<Rightarrow> exn" where
  "invalid_json_format m \<equiv> DMException ''DeviceAgent'' DM_ERROR_INVALID_JSON_FORMAT m"

text \<open>The display message and the logging helpers do not change state; \<open>what()\<close> of an exception is used.\<close>

fun exn_what :: "exn \<Rightarrow> string" where
  "exn_what (StdException m) = m"
| "exn_what (DMException s c m) = ''Unknown exception''"
| "exn_what Terminate = ''''"

end
