(* ===== verification/Json_Value.thy ===== *)
theory Json_Value
  imports Errors
begin

text \<open>
  The part of \<open>Json::Value\<close> (code/Utilities/jsoncpp.cpp) the agent uses: the tagged
  union, the type tests, the conversions with their exceptions, member access
  through \<open>operator[]\<close> and \<open>getMemberNames\<close>; then \<open>JsonHelpers\<close>
  (device-agent/common/JsonHelpers.cpp), in particular the deep \<open>Merge\<close> that
  every desired-state handler caches its configuration with.

  A double \<open>m * 2 ^ e\<close> is kept as \<open>Dbl m e t\<close> where \<open>t\<close> is its rendering by the C
  runtime (\<open>valueToString\<close>), which is all the code ever does with it besides the
  range and integrality tests.  The parser produces no NaN and no infinity.
\<close>

section \<open>Values\<close>

datatype dbl = Dbl int int string

datatype json =
    JNull
  | JInt int
  | JUInt int
  | JReal dbl
  | JString string
  | JBool bool
  | JArray "json list"
  | JObject "(string \<times> json) list"

fun json_wf :: "json \<Rightarrow> bool" where
  "json_wf (JInt i) \<longleftrightarrow> - (2 ^ 63) \<le> i \<and> i < 2 ^ 63"
| "json_wf (JUInt i) \<longleftrightarrow> 0 \<le> i \<and> i < 2 ^ 64"
| "json_wf (JArray js) \<longleftrightarrow> list_all json_wf js"
| "json_wf (JObject m) \<longleftrightarrow> sm_wf m \<and> list_all (\<lambda>e. json_wf (snd e)) m"
| "json_wf _ \<longleftrightarrow> True"

definition minInt :: int where "minInt = - 2147483648"
definition maxInt :: int where "maxInt = 2147483647"
definition maxUInt :: int where "maxUInt = 4294967295"

lemmas int_limits = minInt_def maxInt_def maxUInt_def

text \<open>The exact comparisons on a double: below, above, integral, and the C++ cast to an integer.\<close>

fun dbl_ge :: "dbl \<Rightarrow> int \<Rightarrow> bool" where
  "dbl_ge (Dbl m e t) i = (if 0 \<le> e then i \<le> m * 2 ^ nat e else i * 2 ^ nat (- e) \<le> m)"

fun dbl_le :: "dbl \<Rightarrow> int \<Rightarrow> bool" where
  "dbl_le (Dbl m e t) i = (if 0 \<le> e then m * 2 ^ nat e \<le> i else m \<le> i * 2 ^ nat (- e))"

fun IsIntegral :: "dbl \<Rightarrow> bool" where
  "IsIntegral (Dbl m e t) = (0 \<le> e \<or> m mod 2 ^ nat (- e) = 0)"

fun dbl_trunc :: "dbl \<Rightarrow> int" where
  "dbl_trunc (Dbl m e t) = (if 0 \<le> e then m * 2 ^ nat e else sgn m * (\<bar>m\<bar> div 2 ^ nat (- e)))"

fun dbl_nonzero :: "dbl \<Rightarrow> bool" where
  "dbl_nonzero (Dbl m e t) = (m \<noteq> 0)"

section \<open>Type tests\<close>

fun isNull :: "json \<Rightarrow> bool" where "isNull JNull = True" | "isNull _ = False"
fun isBool :: "json \<Rightarrow> bool" where "isBool (JBool _) = True" | "isBool _ = False"
fun isString :: "json \<Rightarrow> bool" where "isString (JString _) = True" | "isString _ = False"
fun isArray :: "json \<Rightarrow> bool" where "isArray (JArray _) = True" | "isArray _ = False"
fun isObject :: "json \<Rightarrow> bool" where "isObject (JObject _) = True" | "isObject _ = False"

fun isInt :: "json \<Rightarrow> bool" where
  "isInt (JInt i) = (minInt \<le> i \<and> i \<le> maxInt)"
| "isInt (JUInt i) = (i \<le> maxInt)"
| "isInt (JReal d) = (dbl_ge d minInt \<and> dbl_le d maxInt \<and> IsIntegral d)"
| "isInt _ = False"

fun isUInt :: "json \<Rightarrow> bool" where
  "isUInt (JInt i) = (0 \<le> i \<and> i \<le> maxUInt)"
| "isUInt (JUInt i) = (i \<le> maxUInt)"
| "isUInt (JReal d) = (dbl_ge d 0 \<and> dbl_le d maxUInt \<and> IsIntegral d)"
| "isUInt _ = False"

section \<open>Conversions\<close>

fun string_of_nat :: "nat \<Rightarrow> string" where
  "string_of_nat n =
     (if n < 10 then [char_of (48 + n)] else string_of_nat (n div 10) @ [char_of (48 + n mod 10)])"

declare string_of_nat.simps [simp del]

definition valueToString :: "int \<Rightarrow> string" where
  "valueToString i = (if i < 0 then CHR ''-'' # string_of_nat (nat (- i)) else string_of_nat (nat i))"

fun asString :: "json \<Rightarrow> string res" where
  "asString JNull = Inr ''''"
| "asString (JString s) = Inr s"
| "asString (JBool b) = Inr (if b then ''true'' else ''false'')"
| "asString (JInt i) = Inr (valueToString i)"
| "asString (JUInt i) = Inr (valueToString i)"
| "asString (JReal (Dbl m e t)) = Inr t"
| "asString _ = Inl (StdException ''Type is not convertible to string'')"

fun asInt :: "json \<Rightarrow> int res" where
  "asInt (JInt i) = (if isInt (JInt i) then Inr i else Inl (StdException ''LargestInt out of Int range''))"
| "asInt (JUInt i) = (if isInt (JUInt i) then Inr i else Inl (StdException ''LargestUInt out of Int range''))"
| "asInt (JReal d) =
     (if dbl_ge d minInt \<and> dbl_le d maxInt then Inr (dbl_trunc d)
      else Inl (StdException ''double out of Int range''))"
| "asInt JNull = Inr 0"
| "asInt (JBool b) = Inr (if b then 1 else 0)"
| "asInt _ = Inl (StdException ''Value is not convertible to Int.'')"

fun asUInt :: "json \<Rightarrow> int res" where
  "asUInt (JInt i) = (if isUInt (JInt i) then Inr i else Inl (StdException ''LargestInt out of UInt range''))"
| "asUInt (JUInt i) = (if isUInt (JUInt i) then Inr i else Inl (StdException ''LargestUInt out of UInt range''))"
| "asUInt (JReal d) =
     (if dbl_ge d 0 \<and> dbl_le d maxUInt then Inr (dbl_trunc d)
      else Inl (StdException ''double out of UInt range''))"
| "asUInt JNull = Inr 0"
| "asUInt (JBool b) = Inr (if b then 1 else 0)"
| "asUInt _ = Inl (StdException ''Value is not convertible to UInt.'')"

fun asBool :: "json \<Rightarrow> bool res" where
  "asBool (JBool b) = Inr b"
| "asBool JNull = Inr False"
| "asBool (JInt i) = Inr (i \<noteq> 0)"
| "asBool (JUInt i) = Inr (i \<noteq> 0)"
| "asBool (JReal d) = Inr (dbl_nonzero d)"
| "asBool _ = Inl (StdException ''Value is not convertible to bool.'')"

section \<open>Members\<close>

text \<open>
  \<open>json_at\<close> is the \<open>const\<close> overload of \<open>operator[]\<close>, which yields null for a missing
  member; \<open>json_put v k w\<close> is the assignment \<open>v[k] = w\<close>, where a null \<open>v\<close> first becomes
  an empty object.
\<close>

fun json_at :: "json \<Rightarrow> string \<Rightarrow> json res" where
  "json_at JNull k = Inr JNull"
| "json_at (JObject m) k = Inr (case map_of m k of None \<Rightarrow> JNull | Some v \<Rightarrow> v)"
| "json_at _ k = Inl (StdException
     ''in Json::Value::find(key, end, found): requires objectValue or nullValue'')"

fun json_put :: "json \<Rightarrow> string \<Rightarrow> json \<Rightarrow> json res" where
  "json_put JNull k w = Inr (JObject [(k, w)])"
| "json_put (JObject m) k w = Inr (JObject (sm_put k w m))"
| "json_put _ k w = Inl (StdException
     ''in Json::Value::resolveReference(key, end): requires objectValue'')"

fun getMemberNames :: "json \<Rightarrow> string list res" where
  "getMemberNames JNull = Inr []"
| "getMemberNames (JObject m) = Inr (sm_keys m)"
| "getMemberNames _ = Inl (StdException
     ''in Json::Value::getMemberNames(), value must be objectValue'')"

text \<open>\<open>jobj kvs\<close> is \<open>Json::Value o(objectValue)\<close> followed by the assignments \<open>o[k] = v\<close> in order.\<close>

definition jobj :: "(string \<times> json) list \<Rightarrow> json" where
  "jobj kvs = JObject (sm_of kvs)"

definition jput :: "string \<Rightarrow> json \<Rightarrow> json \<Rightarrow> json" where
  "jput k w v = (case json_put v k w of Inr v' \<Rightarrow> v' | Inl _ \<Rightarrow> v)"

definition jget :: "json \<Rightarrow> string \<Rightarrow> json" where
  "jget v k = (case json_at v k of Inr w \<Rightarrow> w | Inl _ \<Rightarrow> JNull)"

lemma jget_simps [simp]:
  "jget JNull k = JNull" "jget (JObject m) k = (case map_of m k of None \<Rightarrow> JNull | Some v \<Rightarrow> v)"
  by (simp_all add: jget_def)

lemma jput_JObject [simp]: "jput k w (JObject m) = JObject (sm_put k w m)" "jput k w JNull = JObject [(k, w)]"
  by (simp_all add: jput_def)

lemma isNull_iff: "isNull v \<longleftrightarrow> v = JNull"
  by (cases v) auto

lemma isObject_iff: "isObject v \<longleftrightarrow> (\<exists>m. v = JObject m)"
  by (cases v) auto

lemma isString_iff: "isString v \<longleftrightarrow> (\<exists>s. v = JString s)"
  by (cases v) auto

lemma isBool_iff: "isBool v \<longleftrightarrow> (\<exists>b. v = JBool b)"
  by (cases v) auto

lemma isArray_iff: "isArray v \<longleftrightarrow> (\<exists>js. v = JArray js)"
  by (cases v) auto

lemma list_all_sm_put:
  "list_all (\<lambda>e. P (snd e)) m \<Longrightarrow> P v \<Longrightarrow> list_all (\<lambda>e. P (snd e)) (sm_put k v m)"
  by (induction m) auto

lemma json_wf_put [simp]: "json_wf (JObject m) \<Longrightarrow> json_wf v \<Longrightarrow> json_wf (JObject (sm_put k v m))"
  by (simp add: list_all_sm_put)

lemma json_wf_member: "json_wf (JObject m) \<Longrightarrow> map_of m k = Some v \<Longrightarrow> json_wf v"
  by (force dest: map_of_SomeD simp: list_all_iff)

lemma list_all_member: "list_all (\<lambda>e. P (snd e)) m \<Longrightarrow> map_of m k = Some v \<Longrightarrow> P v"
  by (force dest: map_of_SomeD simp: list_all_iff)

lemma json_wf_at: "json_wf v \<Longrightarrow> json_at v k = Inr w \<Longrightarrow> json_wf w"
  by (cases v) (auto simp del: json_wf.simps(4) split: option.splits dest: json_wf_member)

text \<open>What \<open>begin()\<close> to \<open>end()\<close> runs over, each entry with \<open>key().asString()\<close>.\<close>

fun json_entries :: "json \<Rightarrow> (string \<times> json) list" where
  "json_entries (JObject m) = m"
| "json_entries (JArray js) = zip (map string_of_nat [0..<length js]) js"
| "json_entries _ = []"

section \<open>JsonHelpers\<close>

text \<open>\<open>GetNamedInteger\<close>, \<open>GetNamedString\<close> and the variant with a default share their two guards.\<close>

definition json_parse_error :: "string \<Rightarrow> exn" where
  "json_parse_error m = DMException ''deviceManagement'' (- 2) m"

definition GetNamedInteger :: "json \<Rightarrow> string \<Rightarrow> int res" where
  "GetNamedInteger root name =
     (if isNull root then Inl (json_parse_error ''unexpected null json value.'')
      else if \<not> isObject root
      then Inl (json_parse_error ''unexpected json value type (object expected).'')
      else rbind (json_at root name) (\<lambda>value.
        if isNull value then Inl (json_parse_error (''missing json value: '' @ name))
        else asInt value))"

definition GetNamedString :: "json \<Rightarrow> string \<Rightarrow> string res" where
  "GetNamedString root name =
     (if isNull root then Inl (json_parse_error ''unexpected null json value.'')
      else if \<not> isObject root
      then Inl (json_parse_error ''unexpected json value type (object expected).'')
      else rbind (json_at root name) (\<lambda>value.
        if isNull value then Inl (json_parse_error (''missing json value: '' @ name))
        else asString value))"

definition GetNamedStringDefault :: "json \<Rightarrow> string \<Rightarrow> string \<Rightarrow> string res" where
  "GetNamedStringDefault root name defaultValue =
     (if isNull root then Inl (json_parse_error ''unexpected null json value.'')
      else if \<not> isObject root
      then Inl (json_parse_error ''unexpected json value type (object expected).'')
      else rbind (json_at root name) (\<lambda>value.
        if isNull value then Inr defaultValue else asString value))"

definition HasKey :: "json \<Rightarrow> string \<Rightarrow> bool" where
  "HasKey obj name =
     (if isNull obj \<or> \<not> isObject obj then False else \<not> isNull (jget obj name))"

subsection \<open>Merge\<close>

text \<open>
  \<open>merge_members\<close> is the loop over the members of the source: an object member is
  merged into an object member of the target, everything else is copied over it.
\<close>

function merge_members :: "(string \<times> json) list \<Rightarrow> (string \<times> json) list \<Rightarrow> (string \<times> json) list" where
  "merge_members [] t = t"
| "merge_members ((k, s) # ss) t =
     merge_members ss
       (sm_put k
         (case s of
            JObject so \<Rightarrow>
              (case map_of t k of
                 Some (JObject to) \<Rightarrow> JObject (merge_members so to)
               | _ \<Rightarrow> s)
          | _ \<Rightarrow> s) t)"
  by pat_completeness auto
termination
  by (relation "measure (\<lambda>(s, t). size_list (size_prod (\<lambda>_. 0) size) s)") auto

definition Merge :: "json \<Rightarrow> json \<Rightarrow> json res" where
  "Merge source target =
     (if isNull source then Inr target
      else case (source, target) of
        (JObject s, JObject t) \<Rightarrow> Inr (JObject (merge_members s t))
      | _ \<Rightarrow> Inl (DMExc DeviceAgent DM_ERROR_INVALID_JSON_FORMAT
               ''Both source and destination should be json objects for merging.''))"

definition merge_value :: "json \<Rightarrow> json option \<Rightarrow> json" where
  "merge_value s old =
     (case s of
        JObject so \<Rightarrow> (case old of Some (JObject to) \<Rightarrow> JObject (merge_members so to) | _ \<Rightarrow> s)
      | _ \<Rightarrow> s)"

lemma merge_value_objects [simp]:
  "merge_value (JObject m) (Some (JObject to)) = JObject (merge_members m to)"
  by (simp add: merge_value_def)

lemma merge_value_new [simp]: "merge_value s None = s"
  by (simp add: merge_value_def split: json.splits)

lemma merge_value_leaf: "\<not> isObject s \<Longrightarrow> merge_value s old = s"
  by (cases s) (auto simp: merge_value_def)

lemma merge_members_Cons:
  "merge_members ((k, s) # ss) t = merge_members ss (sm_put k (merge_value s (map_of t k)) t)"
  by (simp add: merge_value_def)

lemma map_of_merge_members:
  "sm_wf s \<Longrightarrow> map_of (merge_members s t) k =
     (case map_of s k of None \<Rightarrow> map_of t k | Some v \<Rightarrow> Some (merge_value v (map_of t k)))"
proof (induction s arbitrary: t)
  case Nil
  then show ?case by simp
next
  case (Cons e s)
  obtain k' v where e: "e = (k', v)" by (cases e)
  with Cons.prems have wf: "sm_wf s" and none: "map_of s k' = None"
    using sm_wf_least [OF Cons.prems] by (simp_all add: sm_wf_Cons)
  show ?case
    using Cons.IH [OF wf] none unfolding e merge_members_Cons
    by (auto split: option.splits)
qed

declare merge_members.simps(2) [simp del]

lemma sm_wf_merge_members: "sm_wf t \<Longrightarrow> sm_wf (merge_members s t)"
proof (induction s arbitrary: t)
  case (Cons e s)
  then show ?case by (cases e) (simp add: merge_members_Cons)
qed simp

subsection \<open>What a merge sets and keeps\<close>

text \<open>
  \<open>at_path v p\<close> is the value at the nested position \<open>p\<close>; \<open>mentions s p\<close> says that the
  source decides position \<open>p\<close>: it reaches \<open>p\<close>, or it has a non-object above it.
\<close>

fun at_path :: "json \<Rightarrow> string list \<Rightarrow> json option" where
  "at_path v [] = Some v"
| "at_path (JObject m) (k # p) = (case map_of m k of None \<Rightarrow> None | Some v \<Rightarrow> at_path v p)"
| "at_path _ (k # p) = None"

fun mentions :: "json \<Rightarrow> string list \<Rightarrow> bool" where
  "mentions (JObject m) (k # p) = (case map_of m k of None \<Rightarrow> False | Some v \<Rightarrow> mentions v p)"
| "mentions _ _ = True"

lemma at_path_nonobject: "\<not> isObject v \<Longrightarrow> at_path v p = Some w \<Longrightarrow> p = [] \<and> w = v"
  by (cases p; cases v) auto

lemma at_path_merge_value:
  assumes "json_wf s" and "at_path s p = Some v" and "\<not> isObject v"
  shows "at_path (merge_value s old) p = Some v"
  using assms
proof (induction p arbitrary: s old)
  case Nil
  then show ?case by (auto simp: merge_value_def split: json.splits)
next
  case (Cons k p)
  from Cons.prems(2) obtain m w where s: "s = JObject m" "map_of m k = Some w" "at_path w p = Some v"
    by (cases s) (auto split: option.splits)
  have wf: "sm_wf m" "json_wf w" using Cons.prems(1) s json_wf_member by auto
  show ?case
  proof (cases "\<exists>to. old = Some (JObject to)")
    case True
    then obtain to where old: "old = Some (JObject to)" by blast
    then show ?thesis
      using Cons.IH [OF wf(2) s(3) Cons.prems(3)] s(2)
      by (simp add: merge_value_def s(1) map_of_merge_members [OF wf(1)])
  next
    case False
    then have "merge_value s old = s" by (auto simp: merge_value_def s(1) split: option.splits json.splits)
    with Cons.prems(2) show ?thesis by simp
  qed
qed

lemma not_mentions: "\<not> mentions s p \<Longrightarrow> at_path s p = None"
proof (induction p arbitrary: s)
  case Nil
  then show ?case by (cases s) auto
next
  case (Cons k p)
  then show ?case by (cases s) (auto split: option.splits)
qed

lemma merge_value_other: "\<not> isObject old \<Longrightarrow> merge_value s (Some old) = s"
  by (cases old) (auto simp: merge_value_def split: json.splits)

lemma at_path_merge_keep:
  assumes "json_wf s" and "\<not> mentions s p"
  shows "at_path (merge_value s (Some old)) p = at_path old p"
  using assms
proof (induction p arbitrary: s old)
  case Nil
  then show ?case by (cases s) auto
next
  case (Cons k p)
  from Cons.prems(2) obtain m where s: "s = JObject m" by (cases s) auto
  have wf: "sm_wf m" using Cons.prems(1) s by simp
  show ?case
  proof (cases "isObject old")
    case True
    then obtain to where JObject: "old = JObject to" by (auto simp: isObject_iff)
    show ?thesis
    proof (cases "map_of m k")
      case None
      then show ?thesis by (simp add: JObject merge_value_def s map_of_merge_members [OF wf])
    next
      case (Some w)
      with Cons.prems s have w: "json_wf w" "\<not> mentions w p" by (auto dest: list_all_member)
      show ?thesis
      proof (cases "map_of to k")
        case None
        have "at_path w p = None" using w by (simp add: not_mentions)
        then show ?thesis
          using Some None by (simp add: JObject s map_of_merge_members [OF wf])
      next
        case old': (Some old')
        with Some Cons.IH [OF w, of old'] show ?thesis
          by (simp add: JObject s map_of_merge_members [OF wf])
      qed
    qed
  next
    case False
    moreover have "at_path s (k # p) = None" using Cons.prems(2) by (rule not_mentions)
    moreover have "at_path old (k # p) = None" using False by (cases old) auto
    ultimately show ?thesis by (simp add: merge_value_other)
  qed
qed

lemma Merge_value: "Merge (JObject s) (JObject t) = Inr (merge_value (JObject s) (Some (JObject t)))"
  by (simp add: Merge_def merge_value_def)

subsection \<open>Merging preserves well-formedness and is idempotent\<close>

lemma json_wf_merge_members:
  "json_wf (JObject s) \<Longrightarrow> json_wf (JObject t) \<Longrightarrow> json_wf (JObject (merge_members s t))"
proof (induction s t rule: merge_members.induct)
  case (1 t)
  then show ?case by simp
next
  case (2 k s ss t)
  have s: "json_wf s" and ss: "json_wf (JObject ss)"
    using "2.prems"(1) by (auto simp: sm_wf_Cons)
  have "json_wf (merge_value s (map_of t k))"
    using "2.IH"(1) s "2.prems"(2)
    by (auto simp: merge_value_def split: json.splits option.splits dest: list_all_member)
  then have "json_wf (JObject (sm_put k (merge_value s (map_of t k)) t))"
    using "2.prems"(2) by (rule json_wf_put [rotated])
  then show ?case
    using "2.IH"(2) ss by (simp add: merge_members_Cons merge_value_def)
qed

lemma merge_members_self: "json_wf (JObject m) \<Longrightarrow> merge_members m m = m"
proof (induction "size_list (size_prod (\<lambda>_. 0) size) m" arbitrary: m rule: less_induct)
  case less
  show ?case
  proof (rule sm_ext)
    show "sm_wf m" "sm_wf (merge_members m m)"
      using less.prems by (auto intro: sm_wf_merge_members)
    have "merge_value v (Some v) = v" if "map_of m k = Some v" for k v
    proof (cases "isObject v")
      case True
      then obtain n where v: "v = JObject n" by (auto simp: isObject_iff)
      have "(k, v) \<in> set m" using that by (rule map_of_SomeD)
      then have "size_list (size_prod (\<lambda>_. 0) size) n < size_list (size_prod (\<lambda>_. 0) size) m"
        by (induction m) (auto simp: v)
      moreover have "json_wf (JObject n)" using less.prems that v by (auto dest: list_all_member)
      ultimately show ?thesis using less.hyps by (simp add: merge_value_def v)
    qed (simp add: merge_value_other)
    then show "map_of (merge_members m m) = map_of m"
      using less.prems by (auto simp: fun_eq_iff map_of_merge_members split: option.splits)
  qed
qed

lemma merge_members_idem:
  "json_wf (JObject s) \<Longrightarrow> json_wf (JObject t) \<Longrightarrow>
     merge_members s (merge_members s t) = merge_members s t"
proof (induction "size_list (size_prod (\<lambda>_. 0) size) s" arbitrary: s t rule: less_induct)
  case less
  show ?case
  proof (rule sm_ext)
    show "sm_wf (merge_members s t)" "sm_wf (merge_members s (merge_members s t))"
      using less.prems by (auto intro: sm_wf_merge_members)
    have "merge_value v (Some (merge_value v (map_of t k))) = merge_value v (map_of t k)"
      if "map_of s k = Some v" for k v
    proof (cases "isObject v")
      case True
      then obtain n where v: "v = JObject n" by (auto simp: isObject_iff)
      have "(k, v) \<in> set s" using that by (rule map_of_SomeD)
      then have sz: "size_list (size_prod (\<lambda>_. 0) size) n < size_list (size_prod (\<lambda>_. 0) size) s"
        by (induction s) (auto simp: v)
      have wf: "json_wf (JObject n)" using less.prems(1) that v by (auto dest: list_all_member)
      show ?thesis
        using less.hyps [OF sz wf] merge_members_self [OF wf] less.prems(2)
        by (auto simp: merge_value_def v split: option.splits json.splits dest: list_all_member)
    qed (simp add: merge_value_leaf)
    then show "map_of (merge_members s (merge_members s t)) = map_of (merge_members s t)"
      using less.prems by (auto simp: fun_eq_iff map_of_merge_members split: option.splits)
  qed
qed

lemma Merge_Inr_object:
  assumes "Merge (JObject s) t = Inr r"
  obtains m where "t = JObject m" "r = JObject (merge_members s m)"
  using assms by (cases t) (auto simp: Merge_def)

section \<open>Properties\<close>

text \<open>
  C6: merging a desired patch into the cached configuration sets every leaf of the patch,
  keeps every position the patch does not mention, keeps the object well formed, and
  merging the same patch again changes nothing.
\<close>

theorem Merge_overlays:
  assumes "json_wf (JObject s)" and "json_wf (JObject t)"
  shows "\<exists>r. Merge (JObject s) (JObject t) = Inr r \<and> json_wf r \<and>
    (\<forall>p v. at_path (JObject s) p = Some v \<longrightarrow> \<not> isObject v \<longrightarrow> at_path r p = Some v) \<and>
    (\<forall>p. \<not> mentions (JObject s) p \<longrightarrow> at_path r p = at_path (JObject t) p) \<and>
    Merge (JObject s) r = Inr r"
proof (intro exI [of _ "JObject (merge_members s t)"] conjI allI impI)
  show "Merge (JObject s) (JObject t) = Inr (JObject (merge_members s t))" by (simp add: Merge_def)
  show "json_wf (JObject (merge_members s t))" by (rule json_wf_merge_members [OF assms])
  show "at_path (JObject (merge_members s t)) p = Some v"
    if "at_path (JObject s) p = Some v" "\<not> isObject v" for p v
    using at_path_merge_value [OF assms(1) that, of "Some (JObject t)"] by simp
  show "at_path (JObject (merge_members s t)) p = at_path (JObject t) p" if "\<not> mentions (JObject s) p" for p
    using at_path_merge_keep [OF assms(1) that, of "JObject t"] by simp
  show "Merge (JObject s) (JObject (merge_members s t)) = Inr (JObject (merge_members s t))"
    by (simp add: Merge_def merge_members_idem [OF assms])
qed

theorem Merge_overlays_witness:
  "\<exists>r. Merge (JObject [(''a'', JObject [(''b'', JInt 1)])]) (JObject [(''a'', JObject [(''c'', JInt 2)])]) = Inr r \<and>
     at_path r [''a'', ''b''] = Some (JInt 1) \<and> at_path r [''a'', ''c''] = Some (JInt 2)"
proof -
  let ?s = "[(''a'', JObject [(''b'', JInt 1)])]" and ?t = "[(''a'', JObject [(''c'', JInt 2)])]"
  obtain r where r: "Merge (JObject ?s) (JObject ?t) = Inr r"
    "\<forall>p v. at_path (JObject ?s) p = Some v \<longrightarrow> \<not> isObject v \<longrightarrow> at_path r p = Some v"
    "\<forall>p. \<not> mentions (JObject ?s) p \<longrightarrow> at_path r p = at_path (JObject ?t) p"
    using Merge_overlays [of ?s ?t] by (auto simp: sm_wf_def int_limits)
  have "at_path r [''a'', ''b''] = Some (JInt 1)" by (rule r(2) [rule_format]) simp_all
  moreover have "at_path r [''a'', ''c''] = at_path (JObject ?t) [''a'', ''c'']"
    by (rule r(3) [rule_format]) simp
  ultimately show ?thesis using r(1) by simp
qed

end
