(* ===== verification/Text_Utils.thy ===== *)
theory Text_Utils
  imports Json_Value
begin

text \<open>
  The string utilities of code/Utilities: \<open>SplitString\<close> and \<open>TrimString\<close> (DMString.h),
  \<open>Contains\<close> (DMString.cpp), the C runtime's \<open>stoi\<close> and \<open>sscanf("%d.%d.%d.%d")\<close> as the
  code uses them, the version checks of Version.cpp and the \<open>Version\<close> class of
  Version.h.  Strings are byte strings; \<open>WideToMultibyte\<close> and \<open>MultibyteToWide\<close> change
  the representation and not the text, so they do not appear.
\<close>

section \<open>SplitString\<close>

text \<open>
  The \<open>getline\<close> loop: a call that reaches the end of the stream before reading
  anything fails, so no item follows a trailing delimiter.
\<close>

function SplitString :: "char \<Rightarrow> string \<Rightarrow> string list" where
  "SplitString d s =
     (if s = [] then []
      else takeWhile (\<lambda>c. c \<noteq> d) s # SplitString d (tl (dropWhile (\<lambda>c. c \<noteq> d) s)))"
  by pat_completeness auto
termination
proof (relation "measure (\<lambda>(d, s). length s)")
  fix d :: char and s :: string
  assume "s \<noteq> []"
  then show "((d, tl (dropWhile (\<lambda>c. c \<noteq> d) s)), d, s) \<in> measure (\<lambda>(d, s). length s)"
    using length_dropWhile_le [of "\<lambda>c. c \<noteq> d" s] by (cases s) (auto simp: less_Suc_eq_le)
qed simp

declare SplitString.simps [simp del]

lemma SplitString_Nil [simp]: "SplitString d [] = []"
  by (simp add: SplitString.simps)

lemma takeWhile_no_delim: "d \<notin> set x \<Longrightarrow> takeWhile (\<lambda>c. c \<noteq> d) (x @ d # s) = x"
  by (induction x) auto

lemma dropWhile_no_delim: "d \<notin> set x \<Longrightarrow> dropWhile (\<lambda>c. c \<noteq> d) (x @ d # s) = d # s"
  by (induction x) auto

lemma SplitString_delim: "d \<notin> set x \<Longrightarrow> SplitString d (x @ d # s) = x # SplitString d s"
  by (subst SplitString.simps) (simp add: takeWhile_no_delim dropWhile_no_delim)

lemma SplitString_last: "d \<notin> set x \<Longrightarrow> x \<noteq> [] \<Longrightarrow> SplitString d x = [x]"
proof -
  assume d: "d \<notin> set x" and ne: "x \<noteq> []"
  have all: "\<forall>c \<in> set x. c \<noteq> d" using d by auto
  have t: "takeWhile (\<lambda>c. c \<noteq> d) x = x" using all by (simp add: takeWhile_eq_all_conv)
  have e: "dropWhile (\<lambda>c. c \<noteq> d) x = []" using all by (simp add: dropWhile_eq_Nil_conv)
  have "SplitString d x = x # SplitString d (tl [])"
    using ne unfolding SplitString.simps [of d x] t e by simp
  then show ?thesis by simp
qed

lemma SplitString_items: "x \<in> set (SplitString d s) \<Longrightarrow> d \<notin> set x"
proof (induction d s rule: SplitString.induct)
  case (1 d s)
  show ?case
  proof (cases "s = []")
    case False
    from 1 show ?thesis
      by (subst (asm) SplitString.simps) (auto simp: False dest: set_takeWhileD)
  qed (use 1 in simp)
qed

subsection \<open>Lists joined with a separator\<close>

text \<open>
  The loop \<open>if (text.size() != 0) text += ";"; text += item\<close>, which the reported
  schema, the summary object and the deployment list share.
\<close>

definition join_step :: "char \<Rightarrow> string \<Rightarrow> string \<Rightarrow> string" where
  "join_step d text item = (if text \<noteq> [] then text @ [d] else text) @ item"

definition join_items :: "char \<Rightarrow> string list \<Rightarrow> string" where
  "join_items d items = foldl (join_step d) [] items"

lemma join_step_nonempty: "item \<noteq> [] \<Longrightarrow> join_step d text item \<noteq> []"
  by (simp add: join_step_def)

lemma foldl_join_step:
  "acc \<noteq> [] \<Longrightarrow> foldl (join_step d) acc items = acc @ concat (map (\<lambda>x. d # x) items)"
  by (induction items arbitrary: acc) (simp_all add: join_step_def)

lemma SplitString_concat:
  "d \<notin> set x \<Longrightarrow> x \<noteq> [] \<Longrightarrow> (\<forall>y \<in> set ys. d \<notin> set y \<and> y \<noteq> []) \<Longrightarrow>
     SplitString d (x @ concat (map (\<lambda>y. d # y) ys)) = x # ys"
proof (induction ys arbitrary: x)
  case Nil
  then show ?case by (simp add: SplitString_last)
next
  case (Cons y ys)
  then show ?case by (simp add: SplitString_delim)
qed

lemma SplitString_join_items:
  assumes "\<forall>x \<in> set items. d \<notin> set x \<and> x \<noteq> []"
  shows "SplitString d (join_items d items) = items"
proof (cases items)
  case Nil
  then show ?thesis by (simp add: join_items_def)
next
  case (Cons x xs)
  with assms show ?thesis
    by (simp add: join_items_def join_step_def [of d "[]"] foldl_join_step SplitString_concat)
qed

section \<open>TrimString and Contains\<close>

definition find_first_not_of :: "string \<Rightarrow> string \<Rightarrow> nat option" where
  "find_first_not_of chars s = (let n = length (takeWhile (\<lambda>c. c \<in> set chars) s)
     in if n < length s then Some n else None)"

definition find_last_not_of :: "string \<Rightarrow> string \<Rightarrow> nat option" where
  "find_last_not_of chars s = (case find_first_not_of chars (rev s) of
     None \<Rightarrow> None | Some n \<Rightarrow> Some (length s - 1 - n))"

definition TrimString :: "string \<Rightarrow> string \<Rightarrow> string" where
  "TrimString s chars =
     (let trimmed = (case find_first_not_of chars s of Some p \<Rightarrow> drop p s | None \<Rightarrow> [])
      in case find_last_not_of chars trimmed of Some p \<Rightarrow> take (p + 1) trimmed | None \<Rightarrow> trimmed)"

lemma find_first_not_of_drop:
  "(case find_first_not_of chars s of Some p \<Rightarrow> drop p s | None \<Rightarrow> []) = dropWhile (\<lambda>c. c \<in> set chars) s"
proof -
  let ?n = "length (takeWhile (\<lambda>c. c \<in> set chars) s)"
  have "drop ?n s = dropWhile (\<lambda>c. c \<in> set chars) s" by (simp add: dropWhile_eq_drop)
  moreover have "\<not> ?n < length s \<Longrightarrow> drop ?n s = []" by simp
  ultimately show ?thesis by (auto simp: find_first_not_of_def Let_def)
qed

lemma find_last_not_of_take:
  "(case find_last_not_of chars s of Some p \<Rightarrow> take (p + 1) s | None \<Rightarrow> s) =
     (if \<forall>c \<in> set s. c \<in> set chars then s else rev (dropWhile (\<lambda>c. c \<in> set chars) (rev s)))"
proof -
  let ?P = "\<lambda>c. c \<in> set chars"
  let ?n = "length (takeWhile ?P (rev s))"
  have drop: "rev (dropWhile ?P (rev s)) = take (length s - ?n) s"
    by (simp add: dropWhile_eq_drop rev_drop)
  show ?thesis
  proof (cases "?n < length s")
    case True
    then have "length s - 1 - ?n + 1 = length s - ?n" by simp
    moreover have nall: "\<not> (\<forall>c \<in> set s. ?P c)"
      using True by (metis length_rev less_irrefl set_rev takeWhile_eq_all_conv)
    ultimately show ?thesis
      using True unfolding if_not_P [OF nall] drop
      by (simp add: find_last_not_of_def find_first_not_of_def Let_def)
  next
    case False
    then have "takeWhile ?P (rev s) = rev s"
      by (metis length_rev length_takeWhile_le nat_less_le takeWhile_eq_take take_all_iff not_less)
    then have "\<forall>c \<in> set s. ?P c" by (metis set_rev takeWhile_eq_all_conv)
    with False show ?thesis by (simp add: find_last_not_of_def find_first_not_of_def)
  qed
qed

text \<open>The two searches and substrings are exactly: drop the leading, then the trailing characters.\<close>

lemma TrimString_eq:
  "TrimString s chars =
     rev (dropWhile (\<lambda>c. c \<in> set chars) (rev (dropWhile (\<lambda>c. c \<in> set chars) s)))"
proof -
  define t where "t = dropWhile (\<lambda>c. c \<in> set chars) s"
  have main: "TrimString s chars = (if \<forall>c \<in> set t. c \<in> set chars then t
      else rev (dropWhile (\<lambda>c. c \<in> set chars) (rev t)))"
    unfolding TrimString_def Let_def find_first_not_of_drop t_def by (rule find_last_not_of_take)
  have "t = []" if "\<forall>c \<in> set t. c \<in> set chars"
    using that hd_dropWhile [of "\<lambda>c. c \<in> set chars" s] hd_in_set [of t] unfolding t_def by blast
  then show ?thesis using main unfolding t_def [symmetric] by (cases "t = []") auto
qed

text \<open>\<open>TrimString(s, suffix)\<close>: the first occurrence of the suffix must be the one at the end.\<close>

fun find_from :: "string \<Rightarrow> string \<Rightarrow> nat option" where
  "find_from needle [] = (if needle = [] then Some 0 else None)"
| "find_from needle (c # s) =
     (if take (length needle) (c # s) = needle then Some 0 else map_option Suc (find_from needle s))"

definition TrimSuffix :: "string \<Rightarrow> string \<Rightarrow> string" where
  "TrimSuffix s suffix =
     (case find_from suffix s of
        Some pos \<Rightarrow> if int pos = int (length s) - int (length suffix)
                    then take (length s - length suffix) s else s
      | None \<Rightarrow> s)"

definition towlower :: "char \<Rightarrow> char" where
  "towlower c = (let n = of_char c :: nat in if 65 \<le> n \<and> n \<le> 90 then char_of (n + 32) else c)"

definition Contains :: "string \<Rightarrow> string \<Rightarrow> bool" where
  "Contains container needle =
     (if length container < length needle then False
      else \<exists>i \<in> set [0..<length container - length needle + 1].
             \<forall>j \<in> set [0..<length needle].
               towlower (container ! (i + j)) = towlower (needle ! j))"

section \<open>Reading integers\<close>

definition isspace :: "char \<Rightarrow> bool" where
  "isspace c = (let n = of_char c :: nat in n = 32 \<or> 9 \<le> n \<and> n \<le> 13)"

definition isdigit :: "char \<Rightarrow> bool" where
  "isdigit c = (let n = of_char c :: nat in 48 \<le> n \<and> n \<le> 57)"

definition digits_value :: "string \<Rightarrow> nat" where
  "digits_value ds = foldl (\<lambda>acc c. acc * 10 + (of_char c - 48)) 0 ds"

text \<open>The common core of \<open>strtol\<close> and \<open>%d\<close>: blanks, an optional sign, digits, the rest.\<close>

definition scan_int :: "string \<Rightarrow> (int \<times> string) option" where
  "scan_int s =
     (let t = dropWhile isspace s;
          neg = (t \<noteq> [] \<and> hd t = CHR ''-'');
          u = (if t \<noteq> [] \<and> (hd t = CHR ''-'' \<or> hd t = CHR ''+'') then tl t else t);
          ds = takeWhile isdigit u
      in if ds = [] then None
         else Some (if neg then - int (digits_value ds) else int (digits_value ds),
                    dropWhile isdigit u))"

definition stoi :: "string \<Rightarrow> int res" where
  "stoi s =
     (case scan_int s of
        None \<Rightarrow> Inl (StdException ''invalid stoi argument'')
      | Some (v, _) \<Rightarrow>
          if minInt \<le> v \<and> v \<le> maxInt then Inr v
          else Inl (StdException ''stoi argument out of range''))"

subsection \<open>Printing and reading back\<close>

lemma of_char_digit: "(n :: nat) < 10 \<Longrightarrow> (of_char (char_of (48 + n) :: char) :: nat) = 48 + n"
  by (simp add: of_char_of take_bit_nat_eq_self)

lemma isdigit_digit: "(n :: nat) < 10 \<Longrightarrow> isdigit (char_of (48 + n))"
  by (simp add: isdigit_def of_char_digit Let_def)

lemma string_of_nat_nonempty [simp]: "string_of_nat n \<noteq> []"
  by (subst string_of_nat.simps) simp

lemma isdigit_string_of_nat: "c \<in> set (string_of_nat n) \<Longrightarrow> isdigit c"
proof (induction n rule: string_of_nat.induct)
  case (1 n)
  then show ?case
    by (subst (asm) (2) string_of_nat.simps) (auto split: if_splits intro: isdigit_digit)
qed

lemma digits_value_snoc: "digits_value (ds @ [c]) = digits_value ds * 10 + (of_char c - 48)"
  by (simp add: digits_value_def)

lemma digits_value_string_of_nat [simp]: "digits_value (string_of_nat n) = n"
proof (induction n rule: string_of_nat.induct)
  case (1 n)
  show ?case
  proof (cases "n < 10")
    case True
    then show ?thesis
      by (subst string_of_nat.simps) (simp add: digits_value_def of_char_digit)
  next
    case False
    with 1 show ?thesis
      by (subst string_of_nat.simps) (simp add: digits_value_snoc of_char_digit)
  qed
qed

lemma digits_value_zeros [simp]: "digits_value (replicate k (CHR ''0'') @ ds) = digits_value ds"
  by (induction k) (simp_all add: digits_value_def)

lemma isdigit_not: "isdigit c \<Longrightarrow> \<not> isspace c \<and> c \<noteq> CHR ''-'' \<and> c \<noteq> CHR ''+''"
  by (auto simp: isdigit_def isspace_def Let_def)

lemma scan_int_digits:
  assumes "ds \<noteq> []" "\<forall>c \<in> set ds. isdigit c" "rest = [] \<or> \<not> isdigit (hd rest)"
  shows "scan_int (ds @ rest) = Some (int (digits_value ds), rest)"
proof -
  obtain d ds' where ds: "ds = d # ds'" using assms(1) by (cases ds) auto
  have d: "\<not> isspace d" "d \<noteq> CHR ''-''" "d \<noteq> CHR ''+''" using assms(2) isdigit_not by (auto simp: ds)
  have "takeWhile isdigit (ds @ rest) = ds" "dropWhile isdigit (ds @ rest) = rest"
    using assms(2,3) by (cases rest; simp add: takeWhile_append dropWhile_append)+
  with d show ?thesis by (simp add: scan_int_def ds)
qed

lemma stoi_digits:
  "ds \<noteq> [] \<Longrightarrow> \<forall>c \<in> set ds. isdigit c \<Longrightarrow> digits_value ds \<le> 2147483647 \<Longrightarrow>
     stoi ds = Inr (int (digits_value ds))"
  using scan_int_digits [of ds "[]"] by (simp add: stoi_def int_limits)

section \<open>Versions\<close>

text \<open>
  \<open>VersionFormatCheck\<close> reports its errors with the code \<open>GetLastError()\<close>, the
  operating system's last error, here the parameter \<open>gle\<close>.
\<close>

definition VersionFormatCheck :: "int \<Rightarrow> string \<Rightarrow> int list res" where
  "VersionFormatCheck gle version =
     (if version = [] then Inl (DMExc DeviceAgentPlugin gle ''Version not found'')
      else let versionSplit = SplitString (CHR ''.'') version
        in if length versionSplit \<noteq> 3
           then Inl (DMExc DeviceAgentPlugin gle ''Version format is incorrect'')
           else case rmap stoi versionSplit of
             Inr a \<Rightarrow> Inr a
           | Inl (StdException what) \<Rightarrow> Inl (DMExc DeviceAgentPlugin gle
               (''Version format is incorrect. Error: '' @ what))
           | Inl e \<Rightarrow> Inl e)"

definition MajorVersionCompare :: "int \<Rightarrow> string \<Rightarrow> string \<Rightarrow> int res" where
  "MajorVersionCompare gle v1 v2 =
     rbind (VersionFormatCheck gle v1) (\<lambda>v1s.
     rbind (VersionFormatCheck gle v2) (\<lambda>v2s.
       if v1s ! 0 > v2s ! 0 then Inr 1
       else if v2s ! 0 > v1s ! 0 then Inr (- 1)
       else Inr 0))"

text \<open>
  The \<open>Version\<close> class reads up to four numbers separated by dots; a field that cannot
  be read keeps the value 0.
\<close>

record version =
  major :: int
  minor :: int
  revision :: int
  build :: int

fun scan_fields :: "nat \<Rightarrow> string \<Rightarrow> int list" where
  "scan_fields 0 s = []"
| "scan_fields (Suc n) s =
     (case scan_int s of
        None \<Rightarrow> []
      | Some (v, rest) \<Rightarrow>
          v # (if rest \<noteq> [] \<and> hd rest = CHR ''.'' then scan_fields n (tl rest) else []))"

definition Version :: "string \<Rightarrow> version" where
  "Version s =
     (let fs = scan_fields 4 s; field = (\<lambda>i. if i < length fs then fs ! i else 0)
      in \<lparr>major = field 0, minor = field 1, revision = field 2, build = field 3\<rparr>)"

definition version_less :: "version \<Rightarrow> version \<Rightarrow> bool" where
  "version_less v w =
     (if major v < major w then True
      else if minor v < minor w then True
      else if revision v < revision w then True
      else if build v < build w then True
      else False)"

definition version_eq :: "version \<Rightarrow> version \<Rightarrow> bool" where
  "version_eq v w \<longleftrightarrow> major v = major w \<and> minor v = minor w \<and>
     revision v = revision w \<and> build v = build w"

lemma rmap_length: "rmap f xs = Inr ys \<Longrightarrow> length ys = length xs"
  by (induction xs arbitrary: ys) (auto simp: rbind_eq_Inr)

lemma VersionFormatCheck_length: "VersionFormatCheck gle v = Inr a \<Longrightarrow> length a = 3"
  by (auto simp: VersionFormatCheck_def Let_def split: if_splits sum.splits exn.splits dest: rmap_length)

lemma VersionFormatCheck_exn:
  "VersionFormatCheck gle v = Inl e \<Longrightarrow> e \<noteq> Terminate \<and> catchable e"
proof -
  have "rmap stoi xs = Inl e \<Longrightarrow> \<exists>w. e = StdException w" for xs e
    by (induction xs) (auto simp: rbind_def stoi_def split: sum.splits option.splits if_splits)
  then show "VersionFormatCheck gle v = Inl e \<Longrightarrow> e \<noteq> Terminate \<and> catchable e"
    by (auto simp: VersionFormatCheck_def Let_def split: if_splits sum.splits exn.splits)
qed

text \<open>The interface version every handler declares.\<close>

definition InterfaceVersion :: string where
  "InterfaceVersion = ''1.0.0''"

lemma SplitString_1_0_0: "SplitString (CHR ''.'') ''1.0.0'' = [''1'', ''0'', ''0'']"
  by (simp add: SplitString.simps)

lemma stoi_0_1: "stoi ''0'' = Inr 0" "stoi ''1'' = Inr 1"
  by (simp_all add: stoi_def scan_int_def isspace_def isdigit_def digits_value_def int_limits Let_def)

lemma VersionFormatCheck_InterfaceVersion [simp]:
  "VersionFormatCheck gle InterfaceVersion = Inr [1, 0, 0]"
  by (simp add: VersionFormatCheck_def InterfaceVersion_def SplitString_1_0_0 stoi_0_1)

lemma MajorVersionCompare_InterfaceVersion:
  "MajorVersionCompare gle InterfaceVersion v = Inr 0 \<longleftrightarrow>
     (\<exists>a. VersionFormatCheck gle v = Inr a \<and> a ! 0 = 1)"
  by (auto simp: MajorVersionCompare_def rbind_def split: sum.splits)

section \<open>Properties\<close>

text \<open>
  The comparison of two \<open>Version\<close> objects holds as soon as one of the four numbers is
  smaller, so it is total up to equality but not an order: \<open>1.2\<close> and \<open>2.1\<close> are each less
  than the other.
\<close>

theorem version_less_is_no_order:
  "(version_less v w \<longleftrightarrow> major v < major w \<or> minor v < minor w \<or> revision v < revision w \<or> build v < build w) \<and>
   (version_eq v w \<longleftrightarrow> \<not> (version_less v w \<or> version_less w v)) \<and>
   version_less (Version ''1.2'') (Version ''2.1'') \<and> version_less (Version ''2.1'') (Version ''1.2'')"
proof -
  note reads = scan_int_def isspace_def isdigit_def digits_value_def Let_def
  have scans: "scan_int ''1.2'' = Some (1, ''.2'')" "scan_int ''2.1'' = Some (2, ''.1'')"
    by (simp_all add: reads)
  have last: "scan_int ''1'' = Some (1, '''')" "scan_int ''2'' = Some (2, '''')"
    by (simp_all add: reads)
  have "scan_fields (Suc (Suc n)) ''1.2'' = [1, 2]" "scan_fields (Suc (Suc n)) ''2.1'' = [2, 1]" for n
    unfolding scan_fields.simps scans by (simp_all add: last)
  from this [of 2] have fields: "scan_fields 4 ''1.2'' = [1, 2]" "scan_fields 4 ''2.1'' = [2, 1]"
    by (simp_all only: eval_nat_numeral BitM.simps)
  have "version_less (Version ''1.2'') (Version ''2.1'') \<and> version_less (Version ''2.1'') (Version ''1.2'')"
    unfolding Version_def fields Let_def by (simp add: version_less_def)
  moreover have "version_less v w \<longleftrightarrow> major v < major w \<or> minor v < minor w \<or> revision v < revision w \<or> build v < build w"
    "version_eq v w \<longleftrightarrow> \<not> (version_less v w \<or> version_less w v)"
    by (auto simp: version_less_def version_eq_def)
  ultimately show ?thesis by blast
qed

end
