(* ===== verification/Date_Time.thy ===== *)
theory Date_Time
  imports Text_Utils "HOL-Library.Word"
begin

text \<open>
  code/Utilities/DateTime.cpp: the date strings stamped on every reported object, the
  ISO 8601 reader for the desired time-zone transitions and the writer for the reported
  ones.  \<open>WORD\<close> fields are 16-bit words, so a number that does not fit is cut as
  \<open>static_cast<WORD>\<close> cuts it.
\<close>

type_synonym WORD = "16 word"

datatype TIME_KIND = LOCAL_TIME | UTC_TIME

record ISO8601DateTime =
  year :: WORD
  month :: WORD
  day :: WORD
  hour :: WORD
  minute :: WORD
  second :: WORD
  milliseconds :: WORD
  zoneHour :: WORD
  zoneMinute :: WORD
  timeKind :: TIME_KIND

record SYSTEMTIME =
  wYear :: WORD
  wMonth :: WORD
  wDayOfWeek :: WORD
  wDay :: WORD
  wHour :: WORD
  wMinute :: WORD
  wSecond :: WORD
  wMilliseconds :: WORD

section \<open>Writing\<close>

text \<open>\<open>setw(w) << setfill('0') << n\<close>.\<close>

definition pad :: "nat \<Rightarrow> nat \<Rightarrow> string" where
  "pad w n = replicate (w - length (string_of_nat n)) (CHR ''0'') @ string_of_nat n"

definition GetDateTimeString :: "nat \<Rightarrow> nat \<Rightarrow> nat \<Rightarrow> nat \<Rightarrow> nat \<Rightarrow> nat \<Rightarrow> string" where
  "GetDateTimeString y mo d h mi s =
     pad 2 y @ ''-'' @ pad 2 mo @ ''-'' @ pad 2 d @ ''T'' @
     pad 2 h @ '':'' @ pad 2 mi @ '':'' @ pad 2 s"

definition GetCurrentDateTimeString :: "SYSTEMTIME \<Rightarrow> string" where
  "GetCurrentDateTimeString t =
     GetDateTimeString (unat (wYear t)) (unat (wMonth t)) (unat (wDay t))
       (unat (wHour t)) (unat (wMinute t)) (unat (wSecond t))"

definition GetFormattedDateTimeString :: "nat \<Rightarrow> nat \<Rightarrow> nat \<Rightarrow> nat \<Rightarrow> nat \<Rightarrow> nat \<Rightarrow> string" where
  "GetFormattedDateTimeString y mo d h mi s =
     pad 2 y @ ''_'' @ pad 2 mo @ ''_'' @ pad 2 d @ ''_'' @
     pad 2 h @ ''_'' @ pad 2 mi @ ''_'' @ pad 2 s"

definition ISO8601FromSystemTime :: "SYSTEMTIME \<Rightarrow> string" where
  "ISO8601FromSystemTime t =
     pad 4 (unat (wYear t)) @ ''-'' @ pad 2 (unat (wMonth t)) @ ''-'' @ pad 2 (unat (wDay t)) @ ''T'' @
     pad 2 (unat (wHour t)) @ '':'' @ pad 2 (unat (wMinute t)) @ '':'' @ pad 2 (unat (wSecond t))"

section \<open>Reading\<close>

definition stoWORD :: "string \<Rightarrow> WORD res" where
  "stoWORD s = rbind (stoi s) (\<lambda>i. Inr (word_of_int i))"

definition datetime_error :: "string \<Rightarrow> exn" where
  "datetime_error m = DMExc DeviceAgent DM_ERROR_INVALID_DATETIME_FORMAT m"

text \<open>
  The zone of a time string: \<open>hh:mm:ss-zone\<close>, \<open>hh:mm:ss+zone\<close>, \<open>hh:mm:ssZ\<close> or none.
  The result is the time proper, the zone character (\<open>None\<close> for the NUL character) and
  the zone text.
\<close>

definition split_zone :: "string \<Rightarrow> string \<times> char option \<times> string" where
  "split_zone timeString =
     (let minus = SplitString (CHR ''-'') timeString; plus = SplitString (CHR ''+'') timeString
      in if length minus = 2 then (minus ! 0, Some (CHR ''-''), minus ! 1)
         else if length plus = 2 then (plus ! 0, Some (CHR ''+''), plus ! 1)
         else if length timeString > 0 \<and>
                 (last timeString = CHR ''Z'' \<or> last timeString = CHR ''z'')
         then (butlast timeString, Some (CHR ''Z''), [])
         else (timeString, None, []))"

definition read_zone :: "char option \<Rightarrow> string \<Rightarrow> (WORD \<times> WORD \<times> TIME_KIND) res" where
  "read_zone zoneChar zoneString =
     (if zoneChar = Some (CHR ''Z'') then Inr (0, 0, UTC_TIME)
      else case zoneChar of
        None \<Rightarrow> Inr (0, 0, LOCAL_TIME)
      | Some z \<Rightarrow>
          let parts = SplitString (CHR '':'') zoneString
          in if length parts \<noteq> 2
             then Inl (datetime_error
               ''Error: invalid date/time format. Time offset information must be in the form hh:mm.'')
             else rbind (stoWORD (parts ! 0)) (\<lambda>h.
                  rbind (stoWORD (parts ! 1)) (\<lambda>m.
                  Inr (if z = CHR ''-'' then - h else h, m, UTC_TIME))))"

definition ISO8601DateTimeFromString :: "string \<Rightarrow> ISO8601DateTime res" where
  "ISO8601DateTimeFromString dateTimeString =
     (let tokens = SplitString (CHR ''T'') dateTimeString
      in if length tokens \<noteq> 2 then Inl (datetime_error ''Error: invalid date/time format.'')
      else let dateComponents = SplitString (CHR ''-'') (tokens ! 0)
      in if length dateComponents \<noteq> 3
         then Inl (datetime_error
           ''Error: invalid date/time format. Date must be in the form YYYY-MM-DD.'')
      else rbind (stoWORD (dateComponents ! 0)) (\<lambda>y.
           rbind (stoWORD (dateComponents ! 1)) (\<lambda>mo.
           rbind (stoWORD (dateComponents ! 2)) (\<lambda>d.
      case split_zone (tokens ! 1) of (timeString, zoneChar, zoneString) \<Rightarrow>
      let timeComponents = SplitString (CHR '':'') timeString
      in if length timeComponents \<noteq> 3
         then Inl (datetime_error
           ''Error: invalid date/time format. Time must be in the form hh:mm:ss.'')
      else rbind (stoWORD (timeComponents ! 0)) (\<lambda>h.
           rbind (stoWORD (timeComponents ! 1)) (\<lambda>mi.
           rbind (stoWORD (timeComponents ! 2)) (\<lambda>s.
           rbind (read_zone zoneChar zoneString) (\<lambda>(zh, zm, kind).
      Inr \<lparr>year = y, month = mo, day = d, hour = h, minute = mi, second = s,
           milliseconds = 0, zoneHour = zh, zoneMinute = zm, timeKind = kind\<rparr>))))))))"

definition SystemTimeFromISO8601 :: "string \<Rightarrow> SYSTEMTIME res" where
  "SystemTimeFromISO8601 dateTimeString =
     rbind (ISO8601DateTimeFromString dateTimeString) (\<lambda>iso.
       if timeKind iso = UTC_TIME
       then Inl (DMExc DeviceAgent DM_ERROR_INVALID_TIMEKIND
         ''Error: Only local time is allowed. Cannot specify time zone offset.'')
       else Inr \<lparr>wYear = year iso, wMonth = month iso, wDayOfWeek = 0, wDay = day iso,
                 wHour = hour iso, wMinute = minute iso, wSecond = second iso,
                 wMilliseconds = milliseconds iso\<rparr>)"

section \<open>Padded numbers read back\<close>

lemma pad_nonempty [simp]: "pad w n \<noteq> []"
  by (simp add: pad_def)

lemma isdigit_pad: "c \<in> set (pad w n) \<Longrightarrow> isdigit c"
  by (auto simp: pad_def isdigit_def Let_def dest: isdigit_string_of_nat split: if_splits)

lemma digit_separators [simp]:
  "\<not> isdigit (CHR ''-'')" "\<not> isdigit (CHR '':'')" "\<not> isdigit (CHR ''T'')"
  "\<not> isdigit (CHR ''+'')" "\<not> isdigit (CHR ''Z'')" "\<not> isdigit (CHR ''z'')"
  by (simp_all add: isdigit_def)

lemma pad_no_separator [simp]: "\<not> isdigit d \<Longrightarrow> d \<notin> set (pad w n)"
  using isdigit_pad by blast

lemma stoWORD_pad [simp]: "stoWORD (pad w (unat (x :: WORD))) = Inr x"
proof -
  have "unat x < 65536" using unsigned_less [of x, where 'a = nat] by simp
  then have "stoi (pad w (unat x)) = Inr (int (unat x))"
    using stoi_digits [of "pad w (unat x)"] isdigit_pad by (simp add: pad_def)
  then show ?thesis by (simp add: stoWORD_def)
qed

lemma last_pad: "\<not> isdigit d \<Longrightarrow> last (pad w n) \<noteq> d"
  using isdigit_pad [OF last_in_set [OF pad_nonempty]] by blast

lemma SplitString_three:
  assumes "d \<notin> set a" "d \<notin> set b" "d \<notin> set c" "c \<noteq> []"
  shows "SplitString d (a @ d # b @ d # c) = [a, b, c]"
  using assms by (simp add: SplitString_delim SplitString_last)

lemma split_zone_local:
  "split_zone (pad 2 h @ CHR '':'' # pad 2 mi @ CHR '':'' # pad 2 s) =
     (pad 2 h @ CHR '':'' # pad 2 mi @ CHR '':'' # pad 2 s, None, [])"
  by (simp add: split_zone_def SplitString_last last_pad)

section \<open>Properties\<close>

text \<open>
  A time written for the reported configuration and read back as a desired one is the
  same time, field by field, except for the day of the week and the milliseconds, which the
  text does not carry.
\<close>

theorem SystemTime_ISO8601:
  "SystemTimeFromISO8601 (ISO8601FromSystemTime t) =
     Inr (t\<lparr>wDayOfWeek := 0, wMilliseconds := 0\<rparr>)"
proof -
  let ?date = "pad 4 (unat (wYear t)) @ CHR ''-'' # pad 2 (unat (wMonth t)) @ CHR ''-'' # pad 2 (unat (wDay t))"
  let ?time = "pad 2 (unat (wHour t)) @ CHR '':'' # pad 2 (unat (wMinute t)) @ CHR '':'' # pad 2 (unat (wSecond t))"
  have written: "ISO8601FromSystemTime t = ?date @ CHR ''T'' # ?time"
    by (simp add: ISO8601FromSystemTime_def)
  have tokens: "SplitString (CHR ''T'') (?date @ CHR ''T'' # ?time) = [?date, ?time]"
    by (subst SplitString_delim) (simp_all add: SplitString_last)
  show ?thesis
    unfolding written SystemTimeFromISO8601_def ISO8601DateTimeFromString_def tokens
    by (simp add: SplitString_three split_zone_local read_zone_def)
qed

end
