(* ===== verification/Dependency_Sort.thy ===== *)
theory Dependency_Sort
  imports Errors
begin

text \<open>
  \<open>DependencySort\<close> (code/Utilities/DependencySort.cpp): the order in which the agent
  applies the desired state to its handlers.  The class keeps the dependencies of every
  handler and, per dependency, the handlers waiting for it; \<open>SortDependency\<close> is Kahn's
  algorithm with a counter per handler.  The lemmas show that it returns an order that
  respects every dependency exactly when there is one.
\<close>

section \<open>The class\<close>

record DependencySort =
  dependencyMap :: "string list smap"
  dMap :: "string list smap"

definition DependencySort_new :: DependencySort where
  "DependencySort_new = \<lparr>dependencyMap = [], dMap = []\<rparr>"

definition waiting :: "string list smap \<Rightarrow> string \<Rightarrow> string list" where
  "waiting dm u = (case map_of dm u of None \<Rightarrow> [] | Some hs \<Rightarrow> hs)"

definition SetDependenciesMap :: "string \<Rightarrow> string list \<Rightarrow> DependencySort \<Rightarrow> DependencySort" where
  "SetDependenciesMap handler dependency ds =
     ds\<lparr>dMap := foldl (\<lambda>m a. sm_put a (waiting m a @ [handler]) m) (dMap ds) dependency,
        dependencyMap := sm_put handler dependency (dependencyMap ds)\<rparr>"

definition count_of :: "int smap \<Rightarrow> string \<Rightarrow> int" where
  "count_of dependencies h = (case map_of dependencies h of None \<Rightarrow> 0 | Some c \<Rightarrow> c)"

text \<open>The inner loop: \<open>if (--dependencies[*itr] == 0) q.push(*itr)\<close> for the handlers waiting for \<open>u\<close>.\<close>

fun release :: "string list \<Rightarrow> int smap \<Rightarrow> string list \<Rightarrow> int smap \<times> string list" where
  "release [] dependencies q = (dependencies, q)"
| "release (v # vs) dependencies q =
     (let c = count_of dependencies v - 1
      in release vs (sm_put v c dependencies) (if c = 0 then q @ [v] else q))"

definition positives :: "int smap \<Rightarrow> nat" where
  "positives dependencies = card {h \<in> dom (map_of dependencies). 0 < count_of dependencies h}"

lemma count_of_put [simp]: "count_of (sm_put v c m) h = (if h = v then c else count_of m h)"
  by (simp add: count_of_def)

lemma positives_put:
  "positives (sm_put v (count_of m v - 1) m) + (if count_of m v = 1 then 1 else 0) \<le> positives m"
proof -
  let ?P = "{h \<in> dom (map_of m). 0 < count_of m h}"
  let ?Q = "{h \<in> dom (map_of (sm_put v (count_of m v - 1) m)).
      0 < count_of (sm_put v (count_of m v - 1) m) h}"
  have fin: "finite ?P" by (rule finite_subset [OF _ finite_dom_map_of [of m]]) auto
  have dom: "v \<in> dom (map_of m)" if "count_of m v \<noteq> 0"
    using that by (auto simp: count_of_def split: option.splits)
  have sub: "?Q \<subseteq> ?P" using dom by (auto split: if_splits)
  show ?thesis
  proof (cases "count_of m v = 1")
    case True
    then have "v \<in> ?P" "v \<notin> ?Q" using dom by auto
    with sub have "card ?Q < card ?P" by (intro psubset_card_mono fin) blast
    with True show ?thesis by (simp add: positives_def)
  next
    case False
    with card_mono [OF fin sub] show ?thesis by (simp add: positives_def)
  qed
qed

lemma release_measure:
  "release vs m q = (m', q') \<Longrightarrow> positives m' + length q' \<le> positives m + length q"
proof (induction vs m q rule: release.induct)
  case (2 v vs m q)
  then show ?case using positives_put [of v m] by (auto simp: Let_def split: if_splits)
qed simp

text \<open>
  The main loop.  Every pass dequeues one handler, and a handler enters the queue only
  when its counter drops to 0, so the counters above 0 plus the queue get smaller.
\<close>

function sort_loop ::
  "string list smap \<Rightarrow> int smap \<Rightarrow> string list \<Rightarrow> string list \<Rightarrow> string list" where
  "sort_loop dm dependencies [] result = result"
| "sort_loop dm dependencies (u # q) result =
     (case release (waiting dm u) dependencies q of
        (dependencies', q') \<Rightarrow> sort_loop dm dependencies' q' (result @ [u]))"
  by pat_completeness auto
termination
proof (relation "measure (\<lambda>(dm, dependencies, q, result). positives dependencies + length q)",
    goal_cases)
  case (2 dm dependencies u q result x y)
  then have "positives x + length y \<le> positives dependencies + length q"
    by (intro release_measure [of "waiting dm u"]) simp
  then show ?case by simp
qed simp

definition initial_counts :: "DependencySort \<Rightarrow> int smap" where
  "initial_counts ds = map (\<lambda>(h, deps). (h, int (length deps))) (dependencyMap ds)"

definition SortDependency :: "DependencySort \<Rightarrow> string list res" where
  "SortDependency ds =
     (let dependencies = initial_counts ds;
          q = filter (\<lambda>h. count_of dependencies h = 0) (sm_keys dependencies);
          result = sort_loop (dMap ds) dependencies q []
      in if length result \<noteq> length (dependencyMap ds)
         then Inl (DMExc DeviceAgentPlugin DM_ERROR_PLUGIN_HANDLER_INVALID_DEPENDENCY
                ''Circular dependency found in the handlers.'')
         else Inr result)"

text \<open>\<open>HandlerInvokeSequence\<close> feeds the handler map into a fresh object and sorts it.\<close>

definition sort_handlers :: "string list smap \<Rightarrow> string list res" where
  "sort_handlers m =
     SortDependency (foldl (\<lambda>ds (h, deps). SetDependenciesMap h deps ds) DependencySort_new m)"

section \<open>The specification: an order that respects every dependency\<close>

definition deps_of :: "string list smap \<Rightarrow> string \<Rightarrow> string list" where
  "deps_of m h = (case map_of m h of None \<Rightarrow> [] | Some ds \<Rightarrow> ds)"

fun deps_first_rev :: "string list smap \<Rightarrow> string list \<Rightarrow> bool" where
  "deps_first_rev m [] = True"
| "deps_first_rev m (h # earlier) \<longleftrightarrow> set (deps_of m h) \<subseteq> set earlier \<and> deps_first_rev m earlier"

definition deps_first :: "string list smap \<Rightarrow> string list \<Rightarrow> bool" where
  "deps_first m order \<longleftrightarrow> deps_first_rev m (rev order)"

lemma deps_first_Nil [simp]: "deps_first m []"
  by (simp add: deps_first_def)

lemma deps_first_snoc [simp]:
  "deps_first m (xs @ [h]) \<longleftrightarrow> set (deps_of m h) \<subseteq> set xs \<and> deps_first m xs"
  by (simp add: deps_first_def)

lemma deps_first_append: "deps_first m (xs @ ys) \<Longrightarrow> deps_first m xs"
proof (induction ys rule: rev_induct)
  case (snoc y ys)
  then have "deps_first m ((xs @ ys) @ [y])" by simp
  then have "deps_first m (xs @ ys)" unfolding deps_first_snoc by blast
  then show ?case by (rule snoc.IH)
qed simp

lemma deps_first_before: "deps_first m (xs @ h # ys) \<Longrightarrow> d \<in> set (deps_of m h) \<Longrightarrow> d \<in> set xs"
proof -
  assume "deps_first m (xs @ h # ys)" and d: "d \<in> set (deps_of m h)"
  then have "deps_first m ((xs @ [h]) @ ys)" by simp
  then have "deps_first m (xs @ [h])" by (rule deps_first_append)
  with d show "d \<in> set xs" by auto
qed

section \<open>What the loop computes\<close>

lemma count_of_release:
  "release vs m q = (m', q') \<Longrightarrow> count_of m' h = count_of m h - int (count_list vs h)"
  by (induction vs m q arbitrary: m' q' rule: release.induct) (auto simp: Let_def split: if_splits)

text \<open>A handler is appended exactly when its counter, positive before, is used up by the loop.\<close>

lemma queue_release:
  assumes "release vs m q = (m', q')"
  shows "\<exists>new. q' = q @ new \<and> distinct new \<and>
           set new = {h. 0 < count_of m h \<and> count_of m h \<le> int (count_list vs h)}"
  using assms
proof (induction vs m q rule: release.induct)
  case (1 m q)
  then show ?case by auto
next
  case (2 v vs m q)
  let ?c = "count_of m v - 1"
  let ?m = "sm_put v ?c m"
  let ?q = "if ?c = 0 then q @ [v] else q"
  from "2.prems" have r: "release vs ?m ?q = (m', q')" by (simp add: Let_def)
  from "2.IH" [OF refl r] obtain new where new:
    "q' = ?q @ new" "distinct new"
    "set new = {h. 0 < count_of ?m h \<and> count_of ?m h \<le> int (count_list vs h)}" by blast
  show ?case
  proof (intro exI [of _ "if ?c = 0 then v # new else new"] conjI)
    show "q' = q @ (if ?c = 0 then v # new else new)" using new(1) by simp
    show "distinct (if ?c = 0 then v # new else new)" using new(2,3) by auto
    show "set (if ?c = 0 then v # new else new) =
        {h. 0 < count_of m h \<and> count_of m h \<le> int (count_list (v # vs) h)}"
      using new(3) by auto
  qed
qed

text \<open>\<open>edges_ok\<close>: the two maps of the class describe the same dependencies.\<close>

definition edges_ok :: "DependencySort \<Rightarrow> bool" where
  "edges_ok ds \<longleftrightarrow> sm_wf (dependencyMap ds) \<and>
     (\<forall>u h. count_list (waiting (dMap ds) u) h =
        (if h \<in> dom (map_of (dependencyMap ds)) then count_list (deps_of (dependencyMap ds) h) u else 0))"

lemma waiting_fold:
  "count_list (waiting (foldl (\<lambda>m a. sm_put a (waiting m a @ [handler]) m) dm deps) u) h =
     count_list (waiting dm u) h + (if h = handler then count_list deps u else 0)"
proof (induction deps arbitrary: dm)
  case (Cons a deps)
  have "waiting (sm_put a ws dm) u = (if u = a then ws else waiting dm u)" for ws
    by (simp add: waiting_def)
  with Cons show ?case by simp
qed simp

lemma SetDependenciesMap_edges_ok:
  assumes "edges_ok ds" and "handler \<notin> dom (map_of (dependencyMap ds))"
  shows "edges_ok (SetDependenciesMap handler deps ds)"
  using assms by (auto simp: edges_ok_def SetDependenciesMap_def waiting_fold deps_of_def)

lemma DependencySort_new_edges_ok: "edges_ok DependencySort_new"
  by (simp add: edges_ok_def DependencySort_new_def waiting_def)

lemma build_edges_ok:
  "distinct (map fst m) \<Longrightarrow> edges_ok ds \<Longrightarrow> fst ` set m \<inter> dom (map_of (dependencyMap ds)) = {} \<Longrightarrow>
     edges_ok (foldl (\<lambda>ds (h, deps). SetDependenciesMap h deps ds) ds m)"
proof (induction m arbitrary: ds)
  case (Cons e m)
  obtain h deps where e: "e = (h, deps)" by (cases e)
  have "edges_ok (SetDependenciesMap h deps ds)"
    using Cons.prems e by (intro SetDependenciesMap_edges_ok) auto
  moreover have "fst ` set m \<inter> dom (map_of (dependencyMap (SetDependenciesMap h deps ds))) = {}"
    using Cons.prems e by (auto simp: SetDependenciesMap_def)
  ultimately show ?case using Cons.IH Cons.prems(1) e by simp
qed simp

lemma build_dependencyMap:
  "map_of (dependencyMap (foldl (\<lambda>ds (h, deps). SetDependenciesMap h deps ds) ds m)) =
     foldl (\<lambda>f (h, deps). f(h \<mapsto> deps)) (map_of (dependencyMap ds)) m"
  by (induction m arbitrary: ds) (auto simp: SetDependenciesMap_def)

lemma foldl_update_distinct:
  "distinct (map fst m) \<Longrightarrow> foldl (\<lambda>f (h, deps). f(h \<mapsto> deps)) f m = f ++ map_of m"
proof (induction m arbitrary: f)
  case (Cons e m)
  obtain h deps where e: "e = (h, deps)" by (cases e)
  with Cons.prems have "map_of m h = None" by (auto simp: map_of_eq_None_iff)
  with Cons e show ?case by (auto simp: map_add_def fun_eq_iff split: option.splits)
qed simp

lemma build_sort:
  assumes "sm_wf m"
  defines "ds \<equiv> foldl (\<lambda>ds (h, deps). SetDependenciesMap h deps ds) DependencySort_new m"
  shows "edges_ok ds" and "dependencyMap ds = m"
proof -
  have dist: "distinct (map fst m)" using assms(1) by (rule sm_wf_distinct)
  show ok: "edges_ok ds"
    unfolding ds_def using dist DependencySort_new_edges_ok
    by (rule build_edges_ok) (simp add: DependencySort_new_def)
  have "map_of (dependencyMap ds) = map_of m"
    unfolding ds_def build_dependencyMap foldl_update_distinct [OF dist]
    by (simp add: DependencySort_new_def)
  moreover have "sm_wf (dependencyMap ds)" using ok by (simp add: edges_ok_def)
  ultimately show "dependencyMap ds = m" using assms(1) by (intro sm_ext)
qed

section \<open>The loop invariant\<close>

definition pending :: "string set \<Rightarrow> string list \<Rightarrow> nat" where
  "pending done deps = length (filter (\<lambda>d. d \<notin> done) deps)"

lemma pending_0: "pending done deps = 0 \<longleftrightarrow> set deps \<subseteq> done"
  by (auto simp: pending_def filter_empty_conv)

lemma pending_insert:
  "u \<notin> done \<Longrightarrow> pending done deps = pending (insert u done) deps + count_list deps u"
  by (induction deps) (auto simp: pending_def)

definition kahn_inv :: "DependencySort \<Rightarrow> int smap \<Rightarrow> string list \<Rightarrow> string list \<Rightarrow> bool" where
  "kahn_inv ds dependencies q result \<longleftrightarrow>
     distinct (result @ q) \<and>
     set (result @ q) = {h \<in> dom (map_of (dependencyMap ds)).
        set (deps_of (dependencyMap ds) h) \<subseteq> set result} \<and>
     (\<forall>h \<in> dom (map_of (dependencyMap ds)).
        count_of dependencies h = int (pending (set result) (deps_of (dependencyMap ds) h))) \<and>
     deps_first (dependencyMap ds) result"

lemma kahn_step:
  assumes inv: "kahn_inv ds dependencies (u # q) result" and ok: "edges_ok ds"
    and rel: "release (waiting (dMap ds) u) dependencies q = (dependencies', q')"
  shows "kahn_inv ds dependencies' q' (result @ [u])"
proof -
  let ?D = "dom (map_of (dependencyMap ds))" and ?deps = "deps_of (dependencyMap ds)"
  have u: "u \<in> ?D" "set (?deps u) \<subseteq> set result" "u \<notin> set result"
    using inv unfolding kahn_inv_def by auto
  have cnt: "count_of dependencies h = int (pending (insert u (set result)) (?deps h) + count_list (?deps h) u)"
    if "h \<in> ?D" for h
    using inv that pending_insert [OF u(3), of "?deps h"] unfolding kahn_inv_def by auto
  have wait: "count_list (waiting (dMap ds) u) h = (if h \<in> ?D then count_list (?deps h) u else 0)" for h
    using ok by (simp add: edges_ok_def)
  obtain new where new: "q' = q @ new" "distinct new"
    "set new = {h. 0 < count_of dependencies h \<and>
       count_of dependencies h \<le> int (count_list (waiting (dMap ds) u) h)}"
    using queue_release [OF rel] by blast
  have new_set: "set new = {h \<in> ?D. \<not> set (?deps h) \<subseteq> set result \<and> set (?deps h) \<subseteq> insert u (set result)}"
  proof -
    have "h \<in> set new \<longleftrightarrow> h \<in> ?D \<and> 0 < pending (set result) (?deps h) \<and>
        pending (insert u (set result)) (?deps h) = 0" for h
      using cnt [of h] pending_insert [OF u(3), of "?deps h"] new(3) wait [of h] by (cases "h \<in> ?D") auto
    then show ?thesis by (auto simp: pending_0 simp flip: neq0_conv)
  qed
  have old: "set (result @ u # q) = {h \<in> ?D. set (?deps h) \<subseteq> set result}" "distinct (result @ u # q)"
    using inv unfolding kahn_inv_def by blast+
  have "set new \<inter> set (result @ u # q) = {}" unfolding new_set old(1) by auto
  with new(1,2) old(2) have "distinct ((result @ [u]) @ q')" by auto
  moreover have "set ((result @ [u]) @ q') = set (result @ u # q) \<union> set new" using new(1) by auto
  then have "set ((result @ [u]) @ q') = {h \<in> ?D. set (?deps h) \<subseteq> set (result @ [u])}"
    unfolding new_set old(1) by auto
  moreover have "count_of dependencies' h = int (pending (set (result @ [u])) (?deps h))" if "h \<in> ?D" for h
    using count_of_release [OF rel, of h] cnt [OF that] wait [of h] that by simp
  moreover have "deps_first (dependencyMap ds) (result @ [u])"
    using u(2) inv unfolding deps_first_snoc kahn_inv_def by blast
  ultimately show ?thesis unfolding kahn_inv_def by blast
qed

lemma kahn_loop:
  assumes "edges_ok ds"
  shows "dm = dMap ds \<Longrightarrow> kahn_inv ds dependencies q result \<Longrightarrow>
    \<exists>dependencies'. kahn_inv ds dependencies' [] (sort_loop dm dependencies q result)"
proof (induction dm dependencies q result rule: sort_loop.induct)
  case (1 dm dependencies result)
  then show ?case by auto
next
  case (2 dm dependencies u q result)
  obtain dependencies' q' where rel: "release (waiting dm u) dependencies q = (dependencies', q')"
    by (cases "release (waiting dm u) dependencies q")
  have "kahn_inv ds dependencies' q' (result @ [u])"
    using kahn_step [OF "2.prems"(2) assms] rel "2.prems"(1) by simp
  with 2 rel show ?case by simp
qed

lemma map_of_initial_counts:
  "map_of (initial_counts ds) h = map_option (\<lambda>deps. int (length deps)) (map_of (dependencyMap ds) h)"
  unfolding initial_counts_def by (induction "dependencyMap ds") (auto simp: map_of_map)

lemma kahn_start:
  assumes "edges_ok ds"
  shows "kahn_inv ds (initial_counts ds)
    (filter (\<lambda>h. count_of (initial_counts ds) h = 0) (sm_keys (initial_counts ds))) []"
proof -
  have keys: "sm_keys (initial_counts ds) = sm_keys (dependencyMap ds)"
    by (auto simp: sm_keys_def initial_counts_def)
  have "distinct (sm_keys (dependencyMap ds))"
    using assms by (simp add: edges_ok_def sm_wf_distinct sm_keys_def)
  moreover have "count_of (initial_counts ds) h = int (length (deps_of (dependencyMap ds) h))" for h
    by (simp add: count_of_def map_of_initial_counts deps_of_def split: option.splits)
  ultimately show ?thesis
    by (auto simp: kahn_inv_def keys set_sm_keys pending_def)
qed

lemma sort_loop_result:
  assumes "edges_ok ds"
  defines "r \<equiv> sort_loop (dMap ds) (initial_counts ds)
    (filter (\<lambda>h. count_of (initial_counts ds) h = 0) (sm_keys (initial_counts ds))) []"
  shows "distinct r" and "deps_first (dependencyMap ds) r"
    and "set r = {h \<in> dom (map_of (dependencyMap ds)). set (deps_of (dependencyMap ds) h) \<subseteq> set r}"
  using kahn_loop [OF assms(1) refl kahn_start [OF assms(1)]]
  by (auto simp: kahn_inv_def r_def)

text \<open>An order that respects the dependencies cannot be stuck before the end.\<close>

lemma deps_first_closed:
  assumes "deps_first m order"
    and "\<And>h. h \<in> set order \<Longrightarrow> set (deps_of m h) \<subseteq> R \<Longrightarrow> h \<in> R"
  shows "set order \<subseteq> R"
  using assms by (induction order rule: rev_induct) auto

lemma dom_length: "sm_wf m \<Longrightarrow> length m = card (dom (map_of m))"
  by (metis distinct_card dom_map_of_conv_image_fst length_map set_map sm_wf_distinct)

lemma sort_handlers_cases:
  assumes wf: "sm_wf m"
  obtains r where "distinct r" "deps_first m r"
    "set r = {h \<in> dom (map_of m). set (deps_of m h) \<subseteq> set r}"
    "sort_handlers m = (if length r = length m then Inr r
       else Inl (DMExc DeviceAgentPlugin DM_ERROR_PLUGIN_HANDLER_INVALID_DEPENDENCY
                ''Circular dependency found in the handlers.''))"
proof -
  let ?ds = "foldl (\<lambda>ds (h, deps). SetDependenciesMap h deps ds) DependencySort_new m"
  note ok = build_sort(1) [OF wf] and eq = build_sort(2) [OF wf]
  show thesis
    by (rule that [OF sort_loop_result [OF ok, unfolded eq]])
      (simp add: sort_handlers_def SortDependency_def Let_def eq)
qed

lemma sort_handlers_sound:
  assumes wf: "sm_wf m" and sort: "sort_handlers m = Inr order"
  shows "distinct order \<and> set order = set (sm_keys m) \<and> deps_first m order"
proof -
  obtain r where r: "distinct r" "deps_first m r"
    "set r = {h \<in> dom (map_of m). set (deps_of m h) \<subseteq> set r}"
    "sort_handlers m = (if length r = length m then Inr r
       else Inl (DMExc DeviceAgentPlugin DM_ERROR_PLUGIN_HANDLER_INVALID_DEPENDENCY
                ''Circular dependency found in the handlers.''))"
    using sort_handlers_cases [OF wf] by blast
  from sort r(4) have "order = r" "length r = length m" by (auto split: if_splits)
  moreover have "set r = dom (map_of m)"
  proof (rule card_subset_eq [OF finite_dom_map_of])
    show "set r \<subseteq> dom (map_of m)" using r(3) by blast
    show "card (set r) = card (dom (map_of m))"
      using \<open>length r = length m\<close> r(1) dom_length [OF wf] by (simp add: distinct_card)
  qed
  ultimately show ?thesis
    using r(1,2) by (simp add: set_sm_keys)
qed

lemma sort_handlers_complete:
  assumes wf: "sm_wf m" and ord: "set order = set (sm_keys m)" "deps_first m order"
  shows "\<exists>r. sort_handlers m = Inr r"
proof -
  obtain r where r: "distinct r" "deps_first m r"
    "set r = {h \<in> dom (map_of m). set (deps_of m h) \<subseteq> set r}"
    "sort_handlers m = (if length r = length m then Inr r
       else Inl (DMExc DeviceAgentPlugin DM_ERROR_PLUGIN_HANDLER_INVALID_DEPENDENCY
                ''Circular dependency found in the handlers.''))"
    using sort_handlers_cases [OF wf] by blast
  have "set order \<subseteq> set r"
    using ord(2) by (rule deps_first_closed) (use r(3) ord(1) in \<open>auto simp: set_sm_keys\<close>)
  with r(3) ord(1) have "set r = dom (map_of m)" by (auto simp: set_sm_keys)
  then have "length r = length m" using r(1) dom_length [OF wf] by (metis distinct_card)
  with r(4) show ?thesis by simp
qed

lemma sort_handlers_error:
  "sm_wf m \<Longrightarrow> sort_handlers m = Inl e \<Longrightarrow>
     e = DMException ''DeviceAgentPlugin'' 1028 ''Circular dependency found in the handlers.''"
  by (erule sort_handlers_cases) (auto split: if_splits)

section \<open>The interface the handler host uses\<close>

text \<open>
  A scheduler orders handlers by their declared dependencies: the order it returns
  contains every handler once, each after its dependencies, and it fails only when
  there is no such order.
\<close>

locale handler_scheduler =
  fixes schedule :: "string list smap \<Rightarrow> string list res"
  assumes schedule_sound: "sm_wf m \<Longrightarrow> schedule m = Inr order \<Longrightarrow>
      distinct order \<and> set order = set (sm_keys m) \<and> deps_first m order"
    and schedule_complete: "sm_wf m \<Longrightarrow> set order = set (sm_keys m) \<Longrightarrow> deps_first m order \<Longrightarrow>
      \<exists>r. schedule m = Inr r"
begin

lemma schedulable_iff:
  "sm_wf m \<Longrightarrow> (\<exists>r. schedule m = Inr r) \<longleftrightarrow>
     (\<exists>order. set order = set (sm_keys m) \<and> deps_first m order)"
  using schedule_sound schedule_complete by metis

text \<open>Running only some of the handlers, in the scheduled order, still respects the dependencies.\<close>

lemma selected_after_dependencies:
  assumes "sm_wf m" "schedule m = Inr order" "filter P order = xs @ h # ys"
    "d \<in> set (deps_of m h)" "P d"
  shows "d \<in> set xs"
proof -
  have "\<exists>us vs. order = us @ h # vs \<and> xs = filter P us"
    using assms(3)
  proof (induction xs arbitrary: order)
    case Nil
    then show ?case by (auto simp: filter_eq_Cons_iff)
  next
    case (Cons x xs)
    then obtain us vs where o: "order = us @ x # vs" "\<forall>u \<in> set us. \<not> P u" "P x"
      "filter P vs = xs @ h # ys" by (auto simp: filter_eq_Cons_iff)
    with Cons.IH obtain us' vs' where "vs = us' @ h # vs'" "xs = filter P us'" by blast
    with o have "order = (us @ x # us') @ h # vs'" "x # xs = filter P (us @ x # us')" by auto
    then show ?case by blast
  qed
  then obtain us vs where order: "order = us @ h # vs" "xs = filter P us" by blast
  have "deps_first m order" using schedule_sound assms(1,2) by blast
  with order have "d \<in> set us" using deps_first_before assms(4) by blast
  with order assms(5) show ?thesis by simp
qed

text \<open>No handler can depend on itself or on a handler that is not registered.\<close>

lemma unschedulable_dependency:
  assumes "sm_wf m" "h \<in> set (sm_keys m)" "d \<in> set (deps_of m h)" "d = h \<or> d \<notin> set (sm_keys m)"
  shows "\<not> (\<exists>r. schedule m = Inr r)"
proof
  assume "\<exists>r. schedule m = Inr r"
  then obtain r where "schedule m = Inr r" by blast
  then have r: "distinct r" "set r = set (sm_keys m)" "deps_first m r"
    using schedule_sound assms(1) by blast+
  then obtain xs ys where "r = xs @ h # ys" using assms(2) by (metis split_list)
  with r deps_first_before [of m xs h ys d] assms(3,4) show False by auto
qed

end

interpretation kahn: handler_scheduler sort_handlers
  by unfold_locales (use sort_handlers_sound sort_handlers_complete in blast)+

section \<open>Properties\<close>

text \<open>
  C1: sorting the handlers by their dependencies returns an order that contains every
  handler exactly once, each after all its dependencies; when it throws, the error is the
  \<open>DM_ERROR_PLUGIN_HANDLER_INVALID_DEPENDENCY\<close> of the code and no such order exists.
\<close>

theorem sort_handlers_correct:
  assumes "sm_wf m"
  shows "case sort_handlers m of
      Inr order \<Rightarrow> distinct order \<and> set order = set (sm_keys m) \<and> deps_first m order
    | Inl e \<Rightarrow> e = DMException ''DeviceAgentPlugin'' 1028 ''Circular dependency found in the handlers.''
        \<and> (\<nexists>order. set order = set (sm_keys m) \<and> deps_first m order)"
  using sort_handlers_sound [OF assms] sort_handlers_error [OF assms] kahn.schedulable_iff [OF assms]
  by (auto split: sum.split)

theorem sort_handlers_correct_witness:
  "case sort_handlers [(''app'', [''net'']), (''net'', [])] of
      Inr order \<Rightarrow> distinct order \<and> set order = set (sm_keys [(''app'', [''net'']), (''net'', [])]) \<and>
        deps_first [(''app'', [''net'']), (''net'', [])] order
    | Inl e \<Rightarrow> e = DMException ''DeviceAgentPlugin'' 1028 ''Circular dependency found in the handlers.''
        \<and> (\<nexists>order. set order = set (sm_keys [(''app'', [''net'']), (''net'', [])]) \<and>
             deps_first [(''app'', [''net'']), (''net'', [])] order)"
  by (rule sort_handlers_correct) (simp add: sm_wf_def)

text \<open>
  A handler that depends on itself, or on a handler that is not registered, makes the
  sort fail with the message about a circular dependency, whatever the other handlers are.
\<close>

theorem missing_dependency_is_circular:
  assumes "sm_wf m" and "h \<in> set (sm_keys m)" and "d \<in> set (deps_of m h)"
    and "d = h \<or> d \<notin> set (sm_keys m)"
  shows "sort_handlers m =
    Inl (DMException ''DeviceAgentPlugin'' 1028 ''Circular dependency found in the handlers.'')"
  using kahn.unschedulable_dependency [OF assms] sort_handlers_error [OF assms(1)]
  by (cases "sort_handlers m") auto

theorem missing_dependency_is_circular_witness:
  "sort_handlers [(''app'', [''net''])] =
    Inl (DMException ''DeviceAgentPlugin'' 1028 ''Circular dependency found in the handlers.'')"
  by (rule missing_dependency_is_circular [where h = "''app''" and d = "''net''"])
    (simp_all add: sm_wf_def deps_of_def)

end
