(* ===== verification/Reporting.thy ===== *)
theory Reporting
  imports Date_Time
begin

text \<open>
  What a handler tells the cloud (device-agent/common): the error objects
  (ReportedError.cpp, ReportedErrorList.cpp), the \<open>__meta\<close> object (MetaData.cpp), the
  schema of a handler (ReportedSchema.cpp) and the \<open>__summary\<close> of all sections
  (ReportedSummary.cpp).  Operations that read the clock are commands over \<open>world\<close>.
\<close>

section \<open>The outside world\<close>

text \<open>
  \<open>times n\<close> is what the \<open>n\<close>-th \<open>GetLocalTime\<close> returns and \<open>tick\<close> counts the calls;
  \<open>lastError\<close> is what \<open>GetLastError\<close> returns; \<open>styled\<close> and \<open>parse\<close> are the writer
  \<open>toStyledString\<close> and the reader of the JSON library (\<open>Inl\<close> the list of errors of a text it rejects).
  Components extend this record with what else they can reach.
\<close>

record world =
  times :: "nat \<Rightarrow> SYSTEMTIME"
  tick :: nat
  lastError :: int
  styled :: "json \<Rightarrow> string"
  parse :: "string \<Rightarrow> string + json"

definition now :: "('w world_scheme, string) cmd" where
  "now = (\<lambda>w. (Inr (GetCurrentDateTimeString (times w (tick w))), w\<lparr>tick := Suc (tick w)\<rparr>))"

definition c_str :: "string \<Rightarrow> string" where
  "c_str s = takeWhile (\<lambda>c. c \<noteq> CHR 0x00) s"

section \<open>Deployment status\<close>

datatype DeploymentStatus = eSucceeded | eNotStarted | ePending | eFailed | eUnknown

datatype ConnectionStatus = eOffline | eOnline

datatype InvokeContext = eDesiredState | eDirectMethod

record InvokeResult =
  present :: bool
  code :: int
  payload :: string

definition InvokeResult_new :: InvokeResult where
  "InvokeResult_new = \<lparr>present = False, code = 0, payload = []\<rparr>"

definition InvokeResult_context :: "InvokeContext \<Rightarrow> InvokeResult" where
  "InvokeResult_context context = \<lparr>present = (context = eDirectMethod), code = 0, payload = []\<rparr>"

definition InvokeResult_full :: "InvokeContext \<Rightarrow> int \<Rightarrow> string \<Rightarrow> InvokeResult" where
  "InvokeResult_full context c p = \<lparr>present = (context = eDirectMethod), code = c, payload = p\<rparr>"

fun DeploymentStatusToString :: "DeploymentStatus \<Rightarrow> string" where
  "DeploymentStatusToString eSucceeded = ''succeeded''"
| "DeploymentStatusToString eNotStarted = ''notStarted''"
| "DeploymentStatusToString ePending = ''pending''"
| "DeploymentStatusToString eFailed = ''failed''"
| "DeploymentStatusToString eUnknown = ''''"

section \<open>Reported errors\<close>

record ReportedError =
  subsystem :: string
  err_context :: string
  err_code :: int
  message :: string
  parameters :: "string smap"

definition ReportedError_new :: ReportedError where
  "ReportedError_new =
     \<lparr>subsystem = ''unknown'', err_context = [], err_code = 0, message = [], parameters = []\<rparr>"

definition AddParameters :: "string \<Rightarrow> string \<Rightarrow> ReportedError \<Rightarrow> ReportedError" where
  "AddParameters name value e = e\<lparr>parameters := sm_put name value (parameters e)\<rparr>"

definition ReportedError_ToJsonObject :: "ReportedError \<Rightarrow> json" where
  "ReportedError_ToJsonObject e =
     (let parametersObject = jobj (map (\<lambda>(k, v). (c_str k, JString (c_str v))) (parameters e))
      in jobj [(''subsystem'', JString (subsystem e)),
               (''context'', JString (err_context e)),
               (''code'', JInt (err_code e)),
               (''message'', JString (message e)),
               (''parameters'', parametersObject)])"

type_synonym ReportedErrorList = "ReportedError smap"

definition Count :: "ReportedErrorList \<Rightarrow> nat" where
  "Count errorList = length errorList"

definition AddError :: "string \<Rightarrow> ReportedError \<Rightarrow> ReportedErrorList \<Rightarrow> ReportedErrorList" where
  "AddError operationId reportedError errorList = sm_put operationId reportedError errorList"

definition RemoveAll :: "ReportedErrorList \<Rightarrow> ReportedErrorList" where
  "RemoveAll errorList = []"

definition ReportedErrorList_ToJsonObject :: "ReportedErrorList \<Rightarrow> json" where
  "ReportedErrorList_ToJsonObject errorList =
     (if Count errorList \<noteq> 0
      then jobj (map (\<lambda>(k, e). (k, ReportedError_ToJsonObject e)) errorList)
      else JNull)"

lemma Count_AddError_pos [simp]: "Count (AddError k e errorList) \<noteq> 0"
  by (cases errorList) (simp_all add: Count_def AddError_def)

lemma sm_wf_appendD: "sm_wf (m @ n) \<Longrightarrow> sm_wf m"
  by (simp add: sm_wf_def sorted_wrt_append)

lemma sm_put_snoc: "sm_wf (m @ [(k, v)]) \<Longrightarrow> sm_put k v m = m @ [(k, v)]"
  by (induction m) (auto simp: sm_wf_Cons)

lemma sm_of_sorted: "sm_wf m \<Longrightarrow> sm_of m = m"
proof (induction m rule: rev_induct)
  case Nil
  then show ?case by (simp add: sm_of_def)
next
  case (snoc e m)
  obtain k v where e: "e = (k, v)" by (cases e)
  have "sm_of (m @ [e]) = sm_put k v (sm_of m)" by (simp add: sm_of_def e)
  also have "sm_of m = m" using snoc sm_wf_appendD by blast
  also have "sm_put k v m = m @ [e]" using snoc.prems by (simp add: e sm_put_snoc)
  finally show ?case .
qed

lemma sm_wf_map_value: "sm_wf (map (\<lambda>(k, v). (k, f v)) m) \<longleftrightarrow> sm_wf m"
  by (rule sm_wf_map_snd)

lemma map_of_map_value: "map_of (map (\<lambda>(k, v). (k, f v)) m) k = map_option f (map_of m k)"
  by (induction m) auto

lemma ReportedErrorList_entry:
  assumes "sm_wf errorList" and "map_of errorList k = Some e"
  shows "json_at (ReportedErrorList_ToJsonObject errorList) k = Inr (ReportedError_ToJsonObject e)"
proof -
  have "errorList \<noteq> []" using assms(2) by auto
  then have "ReportedErrorList_ToJsonObject errorList =
      JObject (map (\<lambda>(k, e). (k, ReportedError_ToJsonObject e)) errorList)"
    using assms(1)
    by (simp add: ReportedErrorList_ToJsonObject_def Count_def jobj_def sm_of_sorted sm_wf_map_value)
  then show ?thesis using assms(2) by (simp add: map_of_map_value)
qed

section \<open>MetaData\<close>

record MetaData =
  deploymentId :: string
  reportingMode :: string
  serviceInterfaceVersion :: string
  deviceInterfaceVersion :: string
  deploymentStatus :: DeploymentStatus
  timeStamp :: string

definition MetaData_new :: MetaData where
  "MetaData_new =
     \<lparr>deploymentId = ''unspecified'', reportingMode = ''detailed'', serviceInterfaceVersion = [],
      deviceInterfaceVersion = [], deploymentStatus = eNotStarted, timeStamp = []\<rparr>"

text \<open>The setters that stamp the time are commands over the world that return the new object.\<close>

definition SetDeploymentId :: "string \<Rightarrow> MetaData \<Rightarrow> ('w world_scheme, MetaData) cmd" where
  "SetDeploymentId d md = cbind now (\<lambda>t. cret (md\<lparr>deploymentId := d, timeStamp := t\<rparr>))"

definition SetDeploymentStatus :: "DeploymentStatus \<Rightarrow> MetaData \<Rightarrow> ('w world_scheme, MetaData) cmd" where
  "SetDeploymentStatus st md = cbind now (\<lambda>t. cret (md\<lparr>deploymentStatus := st, timeStamp := t\<rparr>))"

text \<open>
  The other members are commands over the object itself: \<open>FromJsonObject\<close> keeps the
  deployment id and the reporting mode it has read when the interface version is missing.
\<close>

definition SetDeviceInterfaceVersion :: "int \<Rightarrow> string \<Rightarrow> (MetaData, unit) cmd" where
  "SetDeviceInterfaceVersion gle v =
     cseq (clift (VersionFormatCheck gle v)) (cmod (deviceInterfaceVersion_update (\<lambda>_. v)))"

definition MetaData_FromJsonObject :: "json \<Rightarrow> (MetaData, unit) cmd" where
  "MetaData_FromJsonObject metaObject =
     cbind (cget deploymentId) (\<lambda>d.
     cbind (clift (GetNamedStringDefault metaObject ''deploymentId'' d)) (\<lambda>d'.
     cseq (cmod (deploymentId_update (\<lambda>_. d'))) (
     cbind (cget reportingMode) (\<lambda>m.
     cbind (clift (GetNamedStringDefault metaObject ''reportingMode'' m)) (\<lambda>m'.
     cseq (cmod (reportingMode_update (\<lambda>_. m'))) (
     cbind (clift (GetNamedString metaObject ''serviceInterfaceVersion'')) (\<lambda>v.
     cmod (serviceInterfaceVersion_update (\<lambda>_. v)))))))))"

definition FromJsonParentObject :: "json \<Rightarrow> (MetaData, unit) cmd" where
  "FromJsonParentObject metaParentObject =
     cbind (clift (json_at metaParentObject ''__meta'')) (\<lambda>metaObject.
       if isNull metaObject \<or> \<not> isObject metaObject then cret ()
       else MetaData_FromJsonObject metaObject)"

definition FromJsonObjectSubMeta :: "json \<Rightarrow> (MetaData, unit) cmd" where
  "FromJsonObjectSubMeta metaObject =
     cbind (cget reportingMode) (\<lambda>m.
     cbind (clift (GetNamedStringDefault metaObject ''reportingMode'' m)) (\<lambda>m'.
     cmod (reportingMode_update (\<lambda>_. m'))))"

definition FromJsonParentObjectSubMeta :: "json \<Rightarrow> (MetaData, unit) cmd" where
  "FromJsonParentObjectSubMeta metaParentObject =
     cbind (clift (json_at metaParentObject ''__meta'')) (\<lambda>metaObject.
       if isNull metaObject \<or> \<not> isObject metaObject then cret ()
       else FromJsonObjectSubMeta metaObject)"

definition MetaData_ToJsonObject :: "MetaData \<Rightarrow> json" where
  "MetaData_ToJsonObject md =
     jobj [(''deploymentId'', JString (deploymentId md)),
           (''deploymentStatus'', JString (DeploymentStatusToString (deploymentStatus md))),
           (''time'', JString (timeStamp md)),
           (''deviceInterfaceVersion'', JString (deviceInterfaceVersion md))]"

definition MetaData_ToJsonProperty :: "string \<Rightarrow> MetaData \<Rightarrow> json" where
  "MetaData_ToJsonProperty propertyName md =
     (if propertyName = ''deploymentId'' then jobj [(''deploymentId'', JString (deploymentId md))]
      else if propertyName = ''deploymentStatus''
      then jobj [(''deploymentStatus'', JString (DeploymentStatusToString (deploymentStatus md)))]
      else if propertyName = ''time'' then jobj [(''time'', JString (timeStamp md))]
      else if propertyName = ''deviceInterfaceVersion''
      then jobj [(''deviceInterfaceVersion'', JString (deviceInterfaceVersion md))]
      else jobj [])"

definition DeploymentStatusToJsonObject :: "DeploymentStatus \<Rightarrow> json" where
  "DeploymentStatusToJsonObject st =
     jobj [(''deploymentStatus'', JString (DeploymentStatusToString st))]"

lemma FromJsonParentObject_absent:
  "json_at parent ''__meta'' = Inr v \<Longrightarrow> \<not> isObject v \<Longrightarrow> FromJsonParentObject parent md = (Inr (), md)"
  by (simp add: FromJsonParentObject_def cmd_simps)

lemma FromJsonParentObject_keeps_reported:
  "deploymentStatus (snd (FromJsonParentObject parent md)) = deploymentStatus md"
  "timeStamp (snd (FromJsonParentObject parent md)) = timeStamp md"
  "deviceInterfaceVersion (snd (FromJsonParentObject parent md)) = deviceInterfaceVersion md"
  by (auto simp: FromJsonParentObject_def MetaData_FromJsonObject_def cmd_simps split: sum.splits)

section \<open>ReportedSchema\<close>

text \<open>\<open>std::set<std::string>\<close> is kept as the sorted list of its elements.\<close>

definition set_of :: "string list \<Rightarrow> string list" where
  "set_of xs = sorted_list_of_set (set xs)"

record ReportedSchema =
  interfaceType :: string
  tags :: "string list"
  interfaceVersion :: string

definition ReportedSchema_new :: "string \<Rightarrow> string \<Rightarrow> string \<Rightarrow> ReportedSchema" where
  "ReportedSchema_new ty ts v =
     \<lparr>interfaceType = ty, tags = set_of (SplitString (CHR '';'') ts), interfaceVersion = v\<rparr>"

definition HasTag :: "string \<Rightarrow> ReportedSchema \<Rightarrow> bool" where
  "HasTag tag s = (tag \<in> set (tags s))"

definition HasAnyTag :: "string list \<Rightarrow> ReportedSchema \<Rightarrow> bool" where
  "HasAnyTag ts s = list_ex (\<lambda>t. t \<in> set (tags s)) ts"

definition ReportedSchema_ToJsonValue :: "ReportedSchema \<Rightarrow> json" where
  "ReportedSchema_ToJsonValue s =
     jobj [(''type'', JString (interfaceType s)),
           (''tags'', JString (join_items (CHR '';'') (tags s))),
           (''interfaceVersion'', JString (interfaceVersion s))]"

text \<open>\<open>FromJsonValue\<close> reads the tags into a local variable that is never stored.\<close>

definition ReportedSchema_FromJsonValue :: "json \<Rightarrow> (ReportedSchema, unit) cmd" where
  "ReportedSchema_FromJsonValue v =
     cbind (clift (rbind (json_at v ''type'') asString)) (\<lambda>t.
     cseq (cmod (interfaceType_update (\<lambda>_. t))) (
     cbind (clift (rbind (json_at v ''tags'') asString)) (\<lambda>ts.
     cbind (clift (rbind (json_at v ''interfaceVersion'') asString)) (\<lambda>iv.
     cmod (interfaceVersion_update (\<lambda>_. iv))))))"

lemma ReportedSchema_FromJson_ToJson:
  "ReportedSchema_FromJsonValue (ReportedSchema_ToJsonValue s) s0 =
     (Inr (), s\<lparr>tags := tags s0\<rparr>)"
  by (simp add: ReportedSchema_FromJsonValue_def ReportedSchema_ToJsonValue_def jobj_def sm_of_def cmd_simps)

section \<open>ReportedSummary\<close>

record ReportedSummary =
  summaryId :: string
  summaryStatus :: DeploymentStatus
  sectionStatusMap :: "DeploymentStatus smap"
  deployments :: "string list"

definition ReportedSummary_new :: ReportedSummary where
  "ReportedSummary_new =
     \<lparr>summaryId = ''__summary'', summaryStatus = eNotStarted, sectionStatusMap = [], deployments = []\<rparr>"

definition GetSectionStatus :: "string \<Rightarrow> ReportedSummary \<Rightarrow> DeploymentStatus res" where
  "GetSectionStatus sectionName rs =
     (case map_of (sectionStatusMap rs) sectionName of
        None \<Rightarrow> Inl (DMExc DeviceAgent DM_ERROR_INVALID_SECTION ''Undefined section name'')
      | Some st \<Rightarrow> Inr st)"

definition SetSectionStatus :: "string \<Rightarrow> DeploymentStatus \<Rightarrow> ReportedSummary \<Rightarrow> ReportedSummary" where
  "SetSectionStatus sectionId st rs =
     rs\<lparr>sectionStatusMap := sm_put sectionId st (sectionStatusMap rs)\<rparr>"

definition AddDeployment :: "string \<Rightarrow> ReportedSummary \<Rightarrow> ReportedSummary" where
  "AddDeployment d rs = rs\<lparr>deployments := set_of (d # deployments rs)\<rparr>"

definition RemoveDeployment :: "string \<Rightarrow> ReportedSummary \<Rightarrow> ReportedSummary" where
  "RemoveDeployment d rs = rs\<lparr>deployments := filter (\<lambda>x. x \<noteq> d) (deployments rs)\<rparr>"

text \<open>The locals of the loop over the sections: counts are 32-bit \<open>unsigned int\<close>s.\<close>

record summary_locals =
  failedCount :: "32 word"
  failedSections :: string
  pendingCount :: "32 word"
  pendingSections :: string

definition summary_step :: "summary_locals \<Rightarrow> string \<times> DeploymentStatus \<Rightarrow> summary_locals" where
  "summary_step l p =
     (case snd p of
        eFailed \<Rightarrow> l\<lparr>failedCount := failedCount l + 1,
                    failedSections := join_step (CHR '';'') (failedSections l) (fst p)\<rparr>
      | ePending \<Rightarrow> l\<lparr>pendingCount := pendingCount l + 1,
                     pendingSections := join_step (CHR '';'') (pendingSections l) (fst p)\<rparr>
      | _ \<Rightarrow> l)"

definition summary_loop :: "DeploymentStatus smap \<Rightarrow> summary_locals" where
  "summary_loop m =
     foldl summary_step
       \<lparr>failedCount = 0, failedSections = [], pendingCount = 0, pendingSections = []\<rparr> m"

definition summary_object :: "ReportedSummary \<Rightarrow> string \<Rightarrow> json" where
  "summary_object rs t =
     (let l = summary_loop (sectionStatusMap rs)
      in jobj [(''failedCount'', JUInt (uint (failedCount l))),
               (''failedGroups'', JString (c_str (failedSections l))),
               (''pendingCount'', JUInt (uint (pendingCount l))),
               (''pendingGroups'', JString (pendingSections l)),
               (''deployments'', JString (c_str (join_items (CHR '';'') (deployments rs)))),
               (''time'', JString t)])"

definition ReportedSummary_ToJsonObject :: "ReportedSummary \<Rightarrow> ('w world_scheme, json) cmd" where
  "ReportedSummary_ToJsonObject rs = cbind now (\<lambda>t. cret (summary_object rs t))"

subsection \<open>The summary lists exactly the failed and the pending sections\<close>

definition sections_with :: "DeploymentStatus \<Rightarrow> DeploymentStatus smap \<Rightarrow> string list" where
  "sections_with st m = map fst (filter (\<lambda>p. snd p = st) m)"

lemma summary_step_cases:
  "summary_step l (k, eFailed) =
     l\<lparr>failedCount := failedCount l + 1, failedSections := join_step (CHR '';'') (failedSections l) k\<rparr>"
  "summary_step l (k, ePending) =
     l\<lparr>pendingCount := pendingCount l + 1, pendingSections := join_step (CHR '';'') (pendingSections l) k\<rparr>"
  "st \<noteq> eFailed \<Longrightarrow> st \<noteq> ePending \<Longrightarrow> summary_step l (k, st) = l"
  by (simp_all add: summary_step_def split: DeploymentStatus.splits)

lemma foldl_summary_step:
  "foldl summary_step l m =
     \<lparr>failedCount = failedCount l + of_nat (length (sections_with eFailed m)),
      failedSections = foldl (join_step (CHR '';'')) (failedSections l) (sections_with eFailed m),
      pendingCount = pendingCount l + of_nat (length (sections_with ePending m)),
      pendingSections = foldl (join_step (CHR '';'')) (pendingSections l) (sections_with ePending m)\<rparr>"
proof (induction m arbitrary: l)
  case Nil
  then show ?case by (simp add: sections_with_def)
next
  case (Cons p m)
  obtain k st where p: "p = (k, st)" by (cases p)
  show ?case
    unfolding p foldl_Cons Cons.IH
    by (cases st) (simp_all add: sections_with_def summary_step_cases)
qed

lemma summary_loop_eq:
  "summary_loop m =
     \<lparr>failedCount = of_nat (length (sections_with eFailed m)),
      failedSections = join_items (CHR '';'') (sections_with eFailed m),
      pendingCount = of_nat (length (sections_with ePending m)),
      pendingSections = join_items (CHR '';'') (sections_with ePending m)\<rparr>"
  by (simp add: summary_loop_def foldl_summary_step join_items_def)

lemma set_sections_with:
  "sm_wf m \<Longrightarrow> set (sections_with st m) = {k. map_of m k = Some st}"
  by (auto simp: sections_with_def sm_wf_distinct dest: map_of_SomeD intro!: image_eqI [of _ fst])

lemma distinct_sections_with: "sm_wf m \<Longrightarrow> distinct (sections_with st m)"
  unfolding sections_with_def using sm_wf_distinct distinct_map_filter by blast

lemma c_str_clean: "CHR 0x00 \<notin> set s \<Longrightarrow> c_str s = s"
  by (simp add: c_str_def takeWhile_eq_all_conv) metis

lemma c_str_append: "c_str (a @ b) = (if CHR 0x00 \<in> set a then c_str a else a @ c_str b)"
  by (induction a) (auto simp: c_str_def)

lemma c_str_NUL: "c_str (s @ [CHR 0x00]) = c_str s"
  by (induction s) (simp_all add: c_str_def)

section \<open>Properties\<close>

lemma SplitString_sections:
  assumes "sm_wf m" and "\<forall>k. k \<in> set (sm_keys m) \<longrightarrow> CHR '';'' \<notin> set k \<and> k \<noteq> []"
  shows "distinct (SplitString (CHR '';'') (join_items (CHR '';'') (sections_with st m))) \<and>
    set (SplitString (CHR '';'') (join_items (CHR '';'') (sections_with st m))) = {k. map_of m k = Some st}"
proof -
  have "\<forall>x \<in> set (sections_with st m). CHR '';'' \<notin> set x \<and> x \<noteq> []"
    using assms(2) by (auto simp: sections_with_def sm_keys_def)
  then show ?thesis
    by (simp add: SplitString_join_items distinct_sections_with [OF assms(1)] set_sections_with [OF assms(1)])
qed

lemma unat_section_count:
  assumes "sm_wf m" and "length m < 2 ^ 32"
  shows "unat (of_nat (length (sections_with st m)) :: 32 word) = card {k. map_of m k = Some st}"
proof -
  have "length (sections_with st m) < 2 ^ 32"
    unfolding sections_with_def length_map by (rule le_less_trans [OF length_filter_le assms(2)])
  then have "unat (of_nat (length (sections_with st m)) :: 32 word) = length (sections_with st m)"
    by (simp add: unsigned_of_nat take_bit_nat_eq_self)
  also have "\<dots> = card {k. map_of m k = Some st}"
    using distinct_card [OF distinct_sections_with [OF assms(1)], of st] set_sections_with [OF assms(1), of st] by simp
  finally show ?thesis .
qed

text \<open>
  C23: the two counters and the two lists of the summary are exactly the failed and the
  pending sections, each once; the 32-bit counters do not wrap because a section is counted
  at most once.
\<close>

theorem summary_exact:
  assumes "sm_wf m" and "length m < 2 ^ 32"
    and "\<forall>k. k \<in> set (sm_keys m) \<longrightarrow> CHR '';'' \<notin> set k \<and> k \<noteq> []"
  shows "let l = summary_loop m in
    unat (failedCount l) = card {k. map_of m k = Some eFailed} \<and>
    unat (pendingCount l) = card {k. map_of m k = Some ePending} \<and>
    distinct (SplitString (CHR '';'') (failedSections l)) \<and>
    set (SplitString (CHR '';'') (failedSections l)) = {k. map_of m k = Some eFailed} \<and>
    distinct (SplitString (CHR '';'') (pendingSections l)) \<and>
    set (SplitString (CHR '';'') (pendingSections l)) = {k. map_of m k = Some ePending}"
  using SplitString_sections [OF assms(1,3)] unat_section_count [OF assms(1,2)]
  by (simp add: Let_def summary_loop_eq)

theorem summary_exact_witness:
  "set (SplitString (CHR '';'') (failedSections (summary_loop
     [(''a'', eFailed), (''b'', ePending), (''c'', eFailed)]))) = {''a'', ''c''}"
proof -
  let ?m = "[(''a'', eFailed), (''b'', ePending), (''c'', eFailed)]"
  have "{k. map_of ?m k = Some eFailed} = {''a'', ''c''}" by (auto split: if_splits)
  then show ?thesis using summary_exact [of ?m] by (simp add: sm_wf_def Let_def)
qed

end
