(* ===== verification/Handler_Base.thy ===== *)
theory Handler_Base
  imports Reporting
begin

text \<open>
  What every handler is built from (device-agent/common): the accessors of the desired
  configuration and \<open>RunOperation\<close> (Operation.cpp) and the base class of the handlers
  (HandlerBase.cpp).  A handler member function is a command over \<open>ctx\<close>: the object,
  the world, and the two locals every \<open>Invoke\<close> declares, the reported object and the
  error list.  A derived class extends the record \<open>HandlerBase\<close>.
\<close>

section \<open>Reading the desired configuration\<close>

text \<open>\<open>OperationModelT<T>\<close> is an option: \<open>present\<close> tells whether \<open>value\<close> is meaningful.\<close>

definition TryGetJsonValue :: "json \<Rightarrow> string \<Rightarrow> json option res" where
  "TryGetJsonValue jsonObject propertyName =
     (if isNull jsonObject then Inr None
      else if isString jsonObject
      then rbind (asString jsonObject) (\<lambda>s.
        if s = ''Refreshing'' then Inr None
        else Inl (invalid_json_format ''Group root is invalid''))
      else if \<not> isObject jsonObject
      then Inl (invalid_json_format ''Group root is not a valid object'')
      else rbind (json_at jsonObject propertyName) (\<lambda>value.
        if \<not> isNull value then Inr (Some value) else Inr None))"

definition TryGetIntJsonValue :: "json \<Rightarrow> string \<Rightarrow> int option res" where
  "TryGetIntJsonValue groupRoot propertyName =
     rbind (TryGetJsonValue groupRoot propertyName) (\<lambda>model.
       case model of
         None \<Rightarrow> Inr None
       | Some v \<Rightarrow>
           if \<not> isInt v then Inl (invalid_json_format ''Property value is not of integer type'')
           else rbind (asInt v) (\<lambda>i. Inr (Some i)))"

definition TryGetBoolJsonValue :: "json \<Rightarrow> string \<Rightarrow> bool option res" where
  "TryGetBoolJsonValue groupRoot propertyName =
     rbind (TryGetJsonValue groupRoot propertyName) (\<lambda>model.
       case model of
         None \<Rightarrow> Inr None
       | Some v \<Rightarrow>
           if \<not> isBool v then Inl (invalid_json_format ''Property value is not of boolean type'')
           else rbind (asBool v) (\<lambda>b. Inr (Some b)))"

definition TryGetStringJsonValue :: "json \<Rightarrow> string \<Rightarrow> string option res" where
  "TryGetStringJsonValue groupRoot propertyName =
     rbind (TryGetJsonValue groupRoot propertyName) (\<lambda>model.
       case model of
         None \<Rightarrow> Inr None
       | Some v \<Rightarrow>
           if \<not> isString v then Inl (invalid_json_format ''Property value is not of string type'')
           else rbind (asString v) (\<lambda>s. Inr (Some s)))"

definition GetStringJsonValue :: "json \<Rightarrow> string \<Rightarrow> string res" where
  "GetStringJsonValue groupRoot propertyName =
     rbind (TryGetStringJsonValue groupRoot propertyName) (\<lambda>model.
       case model of
         None \<Rightarrow> Inl (invalid_json_format ''Property not found'')
       | Some s \<Rightarrow> Inr s)"

definition IsRefreshing :: "json \<Rightarrow> bool res" where
  "IsRefreshing desiredConfig =
     (if isNull desiredConfig then Inl (invalid_json_format ''Desired configuration is Null'')
      else if isString desiredConfig
      then rbind (asString desiredConfig) (\<lambda>s. Inr (s = ''Refreshing''))
      else Inr False)"

lemma TryGetJsonValue_member:
  "TryGetJsonValue (JObject m) p =
     Inr (case map_of m p of None \<Rightarrow> None | Some v \<Rightarrow> if isNull v then None else Some v)"
  by (simp add: TryGetJsonValue_def split: option.splits)

lemma TryGetJsonValue_Some:
  "TryGetJsonValue j p = Inr (Some v) \<longleftrightarrow>
     (\<exists>m. j = JObject m \<and> map_of m p = Some v \<and> \<not> isNull v)"
  by (cases j) (auto simp: TryGetJsonValue_def split: option.splits)

lemma TryGetIntJsonValue_range:
  assumes "json_wf j" and "TryGetIntJsonValue j p = Inr (Some i)"
  shows "minInt \<le> i \<and> i \<le> maxInt"
proof -
  from assms(2) obtain mo where mo: "TryGetJsonValue j p = Inr mo"
    by (auto simp: TryGetIntJsonValue_def rbind_eq_Inr)
  with assms(2) obtain v where some: "mo = Some v" and asInt: "isInt v" "asInt v = Inr i"
    by (cases mo) (auto simp: TryGetIntJsonValue_def rbind_eq_Inr split: if_splits)
  from mo some assms(1) have "json_wf v"
    by (auto simp: TryGetJsonValue_Some dest: list_all_member)
  with asInt have v: "isInt v" "asInt v = Inr i" "json_wf v" by simp_all
  then show ?thesis
  proof (cases v)
    case (JReal d)
    obtain m e t where d: "d = Dbl m e t" by (cases d)
    show ?thesis
    proof (cases "0 \<le> e")
      case False
      let ?q = "2 ^ nat (- e) :: int"
      have "0 < ?q" by simp
      have b: "minInt * ?q \<le> m" "m \<le> maxInt * ?q" "m mod ?q = 0" "i = sgn m * (\<bar>m\<bar> div ?q)"
        using v JReal d False by (auto split: if_splits)
      then obtain k where "m = k * ?q" by (metis mult.commute mod_0_imp_dvd dvdE)
      with b \<open>0 < ?q\<close> have "i = k" "minInt \<le> k" "k \<le> maxInt"
        by (auto simp: sgn_mult abs_mult mult_sgn_abs)
      then show ?thesis by simp
    qed (use v JReal d in \<open>auto split: if_splits\<close>)
  qed (auto simp: int_limits split: if_splits)
qed

section \<open>Handlers in their context\<close>

text \<open>\<open>IRawHandlerHost\<close>, the calls a handler makes on its host.\<close>

record 'w IRawHandlerHost =
  hi_Report :: "string \<Rightarrow> DeploymentStatus \<Rightarrow> json \<Rightarrow> ('w, unit) cmd"
  hi_SendEvent :: "string \<Rightarrow> string \<Rightarrow> json \<Rightarrow> ('w, unit) cmd"

record 'w HandlerBase =
  handlerId :: string
  isConfigured :: bool
  metaData :: MetaData
  iPluginHost :: "'w IRawHandlerHost option"
  deploymentStatusJson :: json
  handlerConfig :: json
  reportedSchema :: ReportedSchema

record ('h, 'w) ctx =
  this :: 'h
  wld :: 'w
  reported :: json
  errs :: ReportedErrorList

definition ctx_new :: "'h \<Rightarrow> 'w \<Rightarrow> ('h, 'w) ctx" where
  "ctx_new h w = \<lparr>this = h, wld = w, reported = JObject [], errs = []\<rparr>"

text \<open>A command on a part of the context: on the world and on the metadata object.\<close>

definition on_world :: "('w, 'a) cmd \<Rightarrow> (('h, 'w) ctx, 'a) cmd" where
  "on_world m = (\<lambda>c. case m (wld c) of (r, w') \<Rightarrow> (r, c\<lparr>wld := w'\<rparr>))"

definition on_meta :: "(MetaData, 'a) cmd \<Rightarrow> ((('w, 'z) HandlerBase_scheme, 'w) ctx, 'a) cmd" where
  "on_meta m = (\<lambda>c. case m (metaData (this c)) of
     (r, md') \<Rightarrow> (r, c\<lparr>this := (this c)\<lparr>metaData := md'\<rparr>\<rparr>))"

definition set_this :: "('h \<Rightarrow> 'h) \<Rightarrow> (('h, 'w) ctx, unit) cmd" where
  "set_this f = cmod (\<lambda>c. c\<lparr>this := f (this c)\<rparr>)"

definition report_put :: "string \<Rightarrow> json \<Rightarrow> (('h, 'w) ctx, unit) cmd" where
  "report_put k v = cbind (cget reported) (\<lambda>r. cbind (clift (json_put r k v)) (\<lambda>r'.
     cmod (reported_update (\<lambda>_. r'))))"

lemmas ctx_simps = on_world_def on_meta_def set_this_def report_put_def

section \<open>RunOperation\<close>

fun reported_of :: "string \<Rightarrow> exn \<Rightarrow> ReportedError" where
  "reported_of subGroupId (DMException s c m) =
     \<lparr>subsystem = s, err_context = subGroupId, err_code = c, message = m, parameters = []\<rparr>"
| "reported_of subGroupId e =
     \<lparr>subsystem = ''unknown'', err_context = subGroupId, err_code = - 1, message = exn_what e,
      parameters = []\<rparr>"

definition RunOperation :: "string \<Rightarrow> (('h, 'w) ctx, unit) cmd \<Rightarrow> (('h, 'w) ctx, bool) cmd" where
  "RunOperation subGroupId Action =
     ccatch (cseq Action (cret True))
       (\<lambda>e. cseq (cmod (errs_update (AddError subGroupId (reported_of subGroupId e)))) (cret False))"

lemma RunOperation_ok [simp]: "Action c = (Inr (), c') \<Longrightarrow> RunOperation g Action c = (Inr True, c')"
  by (simp add: RunOperation_def cmd_simps)

lemma RunOperation_exn [simp]:
  "Action c = (Inl e, c') \<Longrightarrow> catchable e \<Longrightarrow>
     RunOperation g Action c = (Inr False, c'\<lparr>errs := AddError g (reported_of g e) (errs c')\<rparr>)"
  by (simp add: RunOperation_def cmd_simps)

lemma RunOperation_terminate: "Action c = (Inl Terminate, c') \<Longrightarrow> RunOperation g Action c = (Inl Terminate, c')"
  by (simp add: RunOperation_def cmd_simps)

lemma quiet_RunOperation [quiet_intros]: "quiet (RunOperation g Action)"
  unfolding RunOperation_def by (intro quiet_intros)

lemma preserves_RunOperation [preserves_intros]:
  assumes "preserves I Action"
    and "\<And>c e. I c \<Longrightarrow> I (errs_update (AddError g (reported_of g e)) c)"
  shows "preserves I (RunOperation g Action)"
  unfolding RunOperation_def
  by (intro preserves_intros assms(1)) (use assms(2) in simp)

section \<open>HandlerBase\<close>

definition HandlerBase_SetDeploymentStatus ::
    "DeploymentStatus \<Rightarrow> (('w world_scheme, 'z) HandlerBase_scheme, 'w world_scheme) ctx \<Rightarrow>
     unit res \<times> (('w world_scheme, 'z) HandlerBase_scheme, 'w world_scheme) ctx" where
  "HandlerBase_SetDeploymentStatus st =
     cbind (cget (metaData \<circ> this)) (\<lambda>md.
     cbind (on_world (SetDeploymentStatus st md)) (\<lambda>md'.
     set_this (\<lambda>h. h\<lparr>metaData := md',
       deploymentStatusJson := jobj [(''__meta'', MetaData_ToJsonProperty ''deploymentStatus'' md')]\<rparr>)))"

definition HandlerBase_new ::
    "string \<Rightarrow> ReportedSchema \<Rightarrow> ('w world_scheme, 'w world_scheme HandlerBase) cmd" where
  "HandlerBase_new i schema =
     cbind (SetDeploymentId ''unspecified'' MetaData_new) (\<lambda>md.
     cbind (SetDeploymentStatus eNotStarted md) (\<lambda>md'.
     cret \<lparr>handlerId = i, isConfigured = False, metaData = md', iPluginHost = None,
           deploymentStatusJson = jobj [(''__meta'', MetaData_ToJsonProperty ''deploymentStatus'' md')],
           handlerConfig = JNull, reportedSchema = schema\<rparr>))"

text \<open>A call through a null host pointer ends the process, as an access violation does.\<close>

definition host_call ::
    "('w IRawHandlerHost \<Rightarrow> ('w, unit) cmd) \<Rightarrow> ((('w, 'z) HandlerBase_scheme, 'w) ctx, unit) cmd" where
  "host_call f = cbind (cget (iPluginHost \<circ> this)) (\<lambda>host.
     case host of None \<Rightarrow> cthrow Terminate | Some h \<Rightarrow> on_world (f h))"

definition FinalizeAndReport ::
    "(('w world_scheme, 'z) HandlerBase_scheme, 'w world_scheme) ctx \<Rightarrow>
     unit res \<times> (('w world_scheme, 'z) HandlerBase_scheme, 'w world_scheme) ctx" where
  "FinalizeAndReport =
     cbind (cget errs) (\<lambda>errorList.
     cbind (cget (metaData \<circ> this)) (\<lambda>md.
     let st = (if Count errorList = 0 then eSucceeded else eFailed) in
     cbind (on_world (SetDeploymentStatus st md)) (\<lambda>md'.
     cseq (set_this (\<lambda>h. h\<lparr>metaData := md'\<rparr>)) (
     cseq (report_put ''__meta'' (MetaData_ToJsonObject md')) (
     cseq (report_put ''__errors'' (ReportedErrorList_ToJsonObject errorList)) (
     cbind (cget (handlerId \<circ> this)) (\<lambda>i.
     cbind (cget reported) (\<lambda>reportedObject.
     host_call (\<lambda>h. hi_Report h (c_str i) st reportedObject)))))))))"

definition HandlerBase_SendEvent ::
    "string \<Rightarrow> json \<Rightarrow> ((('w, 'z) HandlerBase_scheme, 'w) ctx, unit) cmd" where
  "HandlerBase_SendEvent eventName eventObject =
     cbind (cget (handlerId \<circ> this)) (\<lambda>i. host_call (\<lambda>h. hi_SendEvent h (c_str i) eventName eventObject))"

definition ReportRefreshing :: "((('w, 'z) HandlerBase_scheme, 'w) ctx, unit) cmd" where
  "ReportRefreshing =
     cbind (cget (handlerId \<circ> this)) (\<lambda>i.
       host_call (\<lambda>h. hi_Report h (c_str i) ePending (JString ''Refreshing'')))"

definition SetConfig :: "json \<Rightarrow> ((('w, 'z) HandlerBase_scheme, 'w) ctx, unit) cmd" where
  "SetConfig config = set_this (\<lambda>h. h\<lparr>handlerConfig := config\<rparr>)"

definition HandlerBase_Stop :: "((('w, 'z) HandlerBase_scheme, 'w) ctx, unit) cmd" where
  "HandlerBase_Stop = cret ()"

definition HandlerBase_SetHandlerHost ::
    "'w IRawHandlerHost option \<Rightarrow> ((('w, 'z) HandlerBase_scheme, 'w) ctx, unit) cmd" where
  "HandlerBase_SetHandlerHost host = set_this (\<lambda>h. h\<lparr>iPluginHost := host\<rparr>)"

definition HandlerBase_GetDeploymentStatus :: "('w, 'z) HandlerBase_scheme \<Rightarrow> DeploymentStatus" where
  "HandlerBase_GetDeploymentStatus h = deploymentStatus (metaData h)"


subsection \<open>What a handler reports\<close>

text \<open>
  The metadata object after \<open>FinalizeAndReport\<close>, the object it hands to the host and the
  context at the moment of that call; the report carries the status and the errors.
\<close>

definition final_status :: "('h, 'w) ctx \<Rightarrow> DeploymentStatus" where
  "final_status c = (if errs c = [] then eSucceeded else eFailed)"

definition final_meta :: "(('w world_scheme, 'z) HandlerBase_scheme, 'w world_scheme) ctx \<Rightarrow> MetaData" where
  "final_meta c = (metaData (this c))\<lparr>deploymentStatus := final_status c,
     timeStamp := GetCurrentDateTimeString (times (wld c) (tick (wld c)))\<rparr>"

definition final_object :: "(('w world_scheme, 'z) HandlerBase_scheme, 'w world_scheme) ctx \<Rightarrow> json" where
  "final_object c = jput ''__errors'' (ReportedErrorList_ToJsonObject (errs c))
     (jput ''__meta'' (MetaData_ToJsonObject (final_meta c)) (reported c))"

definition final_ctx ::
    "(('w world_scheme, 'z) HandlerBase_scheme, 'w world_scheme) ctx \<Rightarrow>
     (('w world_scheme, 'z) HandlerBase_scheme, 'w world_scheme) ctx" where
  "final_ctx c = c\<lparr>this := (this c)\<lparr>metaData := final_meta c\<rparr>,
     wld := (wld c)\<lparr>tick := Suc (tick (wld c))\<rparr>, reported := final_object c\<rparr>"

text \<open>Members can be assigned to an object and to null, which becomes an object.\<close>

definition takes_members :: "json \<Rightarrow> bool" where
  "takes_members v \<longleftrightarrow> isObject v \<or> v = JNull"

lemma takes_members_simps [simp]: "takes_members (JObject m)" "takes_members JNull"
  "isObject v \<Longrightarrow> takes_members v"
  by (simp_all add: takes_members_def)

lemma takes_members_put: "takes_members r \<Longrightarrow> json_put r k v = Inr r' \<Longrightarrow> isObject r'"
  by (auto simp: takes_members_def isObject_iff)

lemma FinalizeAndReport_eq:
  assumes "takes_members (reported c)" and "iPluginHost (this c) = Some h"
  shows "FinalizeAndReport c =
    (case hi_Report h (c_str (handlerId (this c))) (final_status c) (final_object c) (wld (final_ctx c))
     of (r, w) \<Rightarrow> (r, (final_ctx c)\<lparr>wld := w\<rparr>))"
proof -
  from assms(1) have "reported c = JNull \<or> (\<exists>m. reported c = JObject m)"
    by (auto simp: takes_members_def isObject_iff)
  then show ?thesis
    using assms(2)
    by (auto simp: FinalizeAndReport_def cmd_simps ctx_simps SetDeploymentStatus_def now_def
      host_call_def final_ctx_def final_object_def final_meta_def final_status_def Count_def
      split: prod.splits)
qed

lemma final_object_members:
  assumes "takes_members (reported c)"
  shows "json_at (final_object c) ''__meta'' = Inr (MetaData_ToJsonObject (final_meta c))"
    and "json_at (final_object c) ''__errors'' = Inr (ReportedErrorList_ToJsonObject (errs c))"
    and "k \<noteq> ''__meta'' \<Longrightarrow> k \<noteq> ''__errors'' \<Longrightarrow> json_at (final_object c) k = json_at (reported c) k"
  using assms by (auto simp: final_object_def takes_members_def isObject_iff)

lemma MetaData_ToJsonObject_status [simp]:
  "json_at (MetaData_ToJsonObject md) ''deploymentStatus'' =
     Inr (JString (DeploymentStatusToString (deploymentStatus md)))"
  by (simp add: MetaData_ToJsonObject_def jobj_def sm_of_def)


section \<open>The shape of every \<open>Invoke\<close>\<close>

text \<open>
  Every handler's \<open>Invoke\<close> is \<open>noexcept\<close>, declares an empty reported object and an empty
  error list, runs its work under \<open>RunOperation\<close> with its own id, and calls
  \<open>FinalizeAndReport\<close>; it then builds its result from the locals.
\<close>

definition fresh_locals :: "(('h, 'w) ctx, unit) cmd" where
  "fresh_locals = cmod (\<lambda>c. c\<lparr>reported := JObject [], errs := []\<rparr>)"

definition Invoke_reporting ::
    "((('w world_scheme, 'z) HandlerBase_scheme, 'w world_scheme) ctx, unit) cmd \<Rightarrow>
     ((('w world_scheme, 'z) HandlerBase_scheme, 'w world_scheme) ctx, 'a) cmd \<Rightarrow>
     ((('w world_scheme, 'z) HandlerBase_scheme, 'w world_scheme) ctx, 'a) cmd" where
  "Invoke_reporting action result =
     cnoexcept (cseq fresh_locals (
       cbind (cget (handlerId \<circ> this)) (\<lambda>i.
       cseq (RunOperation i action) (cseq FinalizeAndReport result))))"

definition handler_inv :: "string \<Rightarrow> 'w IRawHandlerHost option \<Rightarrow> (('w, 'z) HandlerBase_scheme, 'w) ctx \<Rightarrow> bool" where
  "handler_inv i host c \<longleftrightarrow>
     takes_members (reported c) \<and> handlerId (this c) = i \<and> iPluginHost (this c) = host"

lemma preserves_on_world [preserves_intros]: "preserves (handler_inv i h) (on_world m)"
  by (auto simp: preserves_def on_world_def handler_inv_def split: prod.splits)

lemma preserves_on_meta [preserves_intros]: "preserves (handler_inv i h) (on_meta m)"
  by (auto simp: preserves_def on_meta_def handler_inv_def split: prod.splits)

lemma preserves_set_this [preserves_intros]:
  "(\<And>x. handlerId (f x) = handlerId x \<and> iPluginHost (f x) = iPluginHost x) \<Longrightarrow>
     preserves (handler_inv i h) (set_this f)"
  by (auto simp: preserves_def set_this_def cmd_simps handler_inv_def)

lemma preserves_report_put [preserves_intros]: "preserves (handler_inv i h) (report_put k v)"
  by (auto simp: preserves_def report_put_def cmd_simps handler_inv_def dest: takes_members_put split: sum.splits)

lemma preserves_SetConfig [preserves_intros]: "preserves (handler_inv i h) (SetConfig v)"
  unfolding SetConfig_def by (intro preserves_intros) simp

locale raw_handler =
  fixes action :: "json \<Rightarrow> ((('w world_scheme, 'z) HandlerBase_scheme, 'w world_scheme) ctx, unit) cmd"
    and result :: "json \<Rightarrow> (('w world_scheme, 'z) HandlerBase_scheme, 'w world_scheme) ctx \<Rightarrow> InvokeResult"
    and invoke :: "json \<Rightarrow> ((('w world_scheme, 'z) HandlerBase_scheme, 'w world_scheme) ctx, InvokeResult) cmd"
  assumes invoke_shape: "invoke p = Invoke_reporting (action p) (cget (result p))"
    and action_keeps: "preserves (handler_inv i h) (action p)"
begin

text \<open>\<open>Invoke\<close> lets no exception out: it returns or the process ends.\<close>

lemma invoke_quiet: "quiet (invoke p)"
  unfolding invoke_shape Invoke_reporting_def by (rule quiet_cnoexcept)

text \<open>A returning \<open>Invoke\<close> has ended with \<open>FinalizeAndReport\<close> on a well-formed context.\<close>

lemma invoke_reports:
  assumes "invoke p c = (Inr r, c')"
  obtains c1 where "FinalizeAndReport c1 = (Inr (), c')" "r = result p c'"
    "handler_inv (handlerId (this c)) (iPluginHost (this c)) c1"
proof -
  let ?i = "handlerId (this c)"
  let ?c0 = "c\<lparr>reported := JObject [], errs := []\<rparr>"
  have inv0: "handler_inv ?i (iPluginHost (this c)) ?c0" by (simp add: handler_inv_def)
  obtain b c1 where op: "RunOperation ?i (action p) ?c0 = (b, c1)" by (cases "RunOperation ?i (action p) ?c0")
  have "preserves (handler_inv ?i (iPluginHost (this c))) (RunOperation ?i (action p))"
    by (intro preserves_intros action_keeps) (simp add: handler_inv_def)
  from preservesD [OF this inv0] op have inv1: "handler_inv ?i (iPluginHost (this c)) c1" by simp
  from assms op obtain c2 where "FinalizeAndReport c1 = (Inr (), c2)" "c' = c2" "r = result p c2"
    by (auto simp: invoke_shape Invoke_reporting_def fresh_locals_def cmd_simps
      split: sum.splits prod.splits)
  then show thesis using that inv1 by blast
qed

text \<open>
  The status a handler is left with is \<open>succeeded\<close> exactly when its error list is empty,
  and that status and that list are what the host was given.
\<close>

lemma invoke_status:
  assumes "invoke p c = (Inr r, c')" and "iPluginHost (this c) = Some h"
  shows "deploymentStatus (metaData (this c')) = (if errs c' = [] then eSucceeded else eFailed)"
    and "json_at (reported c') ''__errors'' = Inr (ReportedErrorList_ToJsonObject (errs c'))"
    and "json_at (reported c') ''__meta'' = Inr (MetaData_ToJsonObject (metaData (this c')))"
    and "\<exists>w. hi_Report h (c_str (handlerId (this c))) (deploymentStatus (metaData (this c')))
           (reported c') w = (Inr (), wld c')"
    and "handlerId (this c') = handlerId (this c)"
    and "iPluginHost (this c') = Some h"
proof -
  from assms obtain c1 where fin: "FinalizeAndReport c1 = (Inr (), c')"
    and inv: "handler_inv (handlerId (this c)) (Some h) c1"
    using invoke_reports by metis
  from inv have obj: "takes_members (reported c1)" and host: "iPluginHost (this c1) = Some h"
    and i: "handlerId (this c1) = handlerId (this c)" by (simp_all add: handler_inv_def)
  from fin obtain w where w: "hi_Report h (c_str (handlerId (this c))) (final_status c1) (final_object c1)
      (wld (final_ctx c1)) = (Inr (), w)" and c': "c' = (final_ctx c1)\<lparr>wld := w\<rparr>"
    by (auto simp: FinalizeAndReport_eq [OF obj host] i split: prod.splits)
  show "deploymentStatus (metaData (this c')) = (if errs c' = [] then eSucceeded else eFailed)"
    by (simp add: c' final_ctx_def final_meta_def final_status_def)
  show "json_at (reported c') ''__errors'' = Inr (ReportedErrorList_ToJsonObject (errs c'))"
    "json_at (reported c') ''__meta'' = Inr (MetaData_ToJsonObject (metaData (this c')))"
    using final_object_members(1,2) [OF obj] by (simp_all add: c' final_ctx_def)
  show "\<exists>w. hi_Report h (c_str (handlerId (this c))) (deploymentStatus (metaData (this c')))
           (reported c') w = (Inr (), wld c')"
    using w by (auto simp: c' final_ctx_def final_meta_def)
  show "handlerId (this c') = handlerId (this c)" "iPluginHost (this c') = Some h"
    using i host by (simp_all add: c' final_ctx_def)
qed

lemma invoke_code:
  assumes "invoke p c = (Inr r, c')"
  shows "r = result p c'"
  using assms invoke_reports by metis

end

section \<open>Properties\<close>

text \<open>
  C24: an operation that throws does not stop its handler: \<open>RunOperation\<close> answers false and
  keeps what the operation did, and the following \<open>FinalizeAndReport\<close> tells the host that
  the section failed, with the exception recorded under the operation's id.
\<close>

theorem failed_operation_is_reported:
  assumes "Action c = (Inl e, c')" and "catchable e" and "isObject (reported c')"
    and "iPluginHost (this c') = Some h" and "sm_wf (errs c')"
  shows "\<exists>c1 obj. RunOperation g Action c = (Inr False, c1) \<and> this c1 = this c' \<and> wld c1 = wld c' \<and>
    FinalizeAndReport c1 =
      (case hi_Report h (c_str (handlerId (this c'))) eFailed obj (wld (final_ctx c1)) of
         (r, w) \<Rightarrow> (r, (final_ctx c1)\<lparr>wld := w\<rparr>)) \<and>
    (\<exists>es. json_at obj ''__errors'' = Inr es \<and> json_at es g = Inr (ReportedError_ToJsonObject (reported_of g e)))"
proof -
  let ?c1 = "c'\<lparr>errs := AddError g (reported_of g e) (errs c')\<rparr>"
  have failed: "final_status ?c1 = eFailed"
    using Count_AddError_pos [of g "reported_of g e" "errs c'"] by (simp add: final_status_def Count_def)
  have entry: "json_at (ReportedErrorList_ToJsonObject (errs ?c1)) g =
      Inr (ReportedError_ToJsonObject (reported_of g e))"
    by (rule ReportedErrorList_entry) (simp_all add: AddError_def assms(5))
  have obj: "takes_members (reported ?c1)" and host: "iPluginHost (this ?c1) = Some h"
    using assms(3,4) by simp_all
  have "FinalizeAndReport ?c1 =
      (case hi_Report h (c_str (handlerId (this c'))) eFailed (final_object ?c1) (wld (final_ctx ?c1)) of
         (r, w) \<Rightarrow> (r, (final_ctx ?c1)\<lparr>wld := w\<rparr>))"
    unfolding FinalizeAndReport_eq [OF obj host] failed by simp
  moreover have "RunOperation g Action c = (Inr False, ?c1)"
    using assms(1,2) by (rule RunOperation_exn)
  ultimately show ?thesis
    using final_object_members(2) [OF obj] entry
    by (intro exI [of _ ?c1] exI [of _ "final_object ?c1"]) auto
qed

definition sample_base :: "world HandlerBase" where
  "sample_base = \<lparr>handlerId = ''time'', isConfigured = True, metaData = MetaData_new,
     iPluginHost = Some \<lparr>hi_Report = (\<lambda>i st v. cret ()), hi_SendEvent = (\<lambda>i n v. cret ())\<rparr>,
     deploymentStatusJson = JNull, handlerConfig = JNull, reportedSchema = ReportedSchema_new ''raw'' ''dm'' ''1.0.0''\<rparr>"

definition sample_world :: world where
  "sample_world = \<lparr>times = (\<lambda>n. \<lparr>wYear = 2019, wMonth = 1, wDayOfWeek = 0, wDay = 1, wHour = 0, wMinute = 0,
     wSecond = 0, wMilliseconds = 0\<rparr>), tick = 0, lastError = 0, styled = (\<lambda>v. ''''), parse = (\<lambda>t. Inl '''')\<rparr>"

theorem failed_operation_is_reported_witness:
  "\<exists>c1. RunOperation ''zone'' (cthrow (DMException ''agent'' 7 ''no zone'')) (ctx_new sample_base sample_world) =
     (Inr False, c1) \<and> this c1 = sample_base"
  using failed_operation_is_reported [where Action = "cthrow (DMException ''agent'' 7 ''no zone'')"
      and c = "ctx_new sample_base sample_world" and c' = "ctx_new sample_base sample_world" and e = "DMException ''agent'' 7 ''no zone''" and g = "''zone''"
      and h = "\<lparr>hi_Report = (\<lambda>i st v. cret ()), hi_SendEvent = (\<lambda>i n v. cret ())\<rparr>"]
  by (auto simp: cthrow_def ctx_new_def sample_base_def)

end
