(* ===== verification/Static_Handlers.thy ===== *)
theory Static_Handlers
  imports Handler_Base
begin

text \<open>
  The two handlers the agent registers itself (device-agent/agent/Handlers):
  \<open>ClearReportedCmdHandler\<close>, a direct method that nulls every reported section, and
  \<open>DeviceSchemasHandler\<close>, which reports the schemas of the handlers a desired filter
  selects.  Both are interpretations of \<open>raw_handler\<close>.
\<close>

definition check_version ::
    "string \<Rightarrow> ((('w world_scheme, 'z) HandlerBase_scheme, 'w world_scheme) ctx, unit) cmd \<Rightarrow>
     ((('w world_scheme, 'z) HandlerBase_scheme, 'w world_scheme) ctx, unit) cmd" where
  "check_version supported body =
     cbind (cget (serviceInterfaceVersion \<circ> metaData \<circ> this)) (\<lambda>v.
     cbind (cget (lastError \<circ> wld)) (\<lambda>gle.
     cbind (clift (MajorVersionCompare gle supported v)) (\<lambda>cmp.
       if cmp = 0 then body
       else cthrow (DMExc DeviceAgentPlugin DM_PLUGIN_ERROR_INVALID_INTERFACE_VERSION
         ''Service solution is trying to talk with Interface Version that is not supported.''))))"

definition set_device_version ::
    "string \<Rightarrow> ((('w world_scheme, 'z) HandlerBase_scheme, 'w world_scheme) ctx, unit) cmd" where
  "set_device_version v =
     cbind (cget (lastError \<circ> wld)) (\<lambda>gle. on_meta (SetDeviceInterfaceVersion gle v))"

lemma preserves_check_version [preserves_intros]:
  "preserves I body \<Longrightarrow> preserves I (check_version v body)"
  unfolding check_version_def by (intro preserves_intros)

lemma preserves_set_device_version [preserves_intros]: "preserves (handler_inv i h) (set_device_version v)"
  unfolding set_device_version_def by (intro preserves_intros)

section \<open>ClearReportedCmdHandler\<close>

definition ClearReportedCmdHandler_new ::
    "('w world_scheme, 'w world_scheme HandlerBase) cmd" where
  "ClearReportedCmdHandler_new =
     HandlerBase_new ''clearReportedCmd'' (ReportedSchema_new ''raw'' ''dm'' InterfaceVersion)"

definition ClearReported_Start :: "json \<Rightarrow> ((('w, 'z) HandlerBase_scheme, 'w) ctx, bool) cmd" where
  "ClearReported_Start config = cseq (SetConfig config) (cret True)"

definition ClearReported_OnConnectionStatusChanged ::
    "ConnectionStatus \<Rightarrow> ((('w, 'z) HandlerBase_scheme, 'w) ctx, unit) cmd" where
  "ClearReported_OnConnectionStatusChanged st = cret ()"

definition cleared_properties :: "string \<Rightarrow> string list \<Rightarrow> json" where
  "cleared_properties self handlerIds =
     jobj (map (\<lambda>h. (c_str h, JNull)) (filter (\<lambda>h. h \<noteq> self) handlerIds))"

text \<open>The two callbacks of the constructor are \<open>None\<close> when they are empty functions.\<close>

definition ClearReported_action ::
    "string list option \<Rightarrow> (json \<Rightarrow> ('w world_scheme, unit) cmd) option \<Rightarrow> json \<Rightarrow>
     ((('w world_scheme, 'z) HandlerBase_scheme, 'w world_scheme) ctx, unit) cmd" where
  "ClearReported_action getHandlerIds reportAll jsonParameters =
     cseq (on_meta (FromJsonParentObject jsonParameters)) (
     check_version InterfaceVersion (
       cbind (cget (handlerId \<circ> this)) (\<lambda>self.
       let handlerIds = (case getHandlerIds of None \<Rightarrow> [] | Some ids \<Rightarrow> ids);
           reportedProperties = cleared_properties self handlerIds
       in cseq (case reportAll of None \<Rightarrow> cret () | Some ra \<Rightarrow> on_world (ra reportedProperties))
            (set_device_version InterfaceVersion))))"

definition ClearReported_result ::
    "json \<Rightarrow> (('w world_scheme, 'z) HandlerBase_scheme, 'w world_scheme) ctx \<Rightarrow> InvokeResult" where
  "ClearReported_result jsonParameters c =
     (let r = InvokeResult_full eDirectMethod 200 ''{}''
      in if Count (errs c) \<noteq> 0
         then r\<lparr>code := 400,
                payload := styled (wld c) (jget (ReportedErrorList_ToJsonObject (errs c)) (handlerId (this c)))\<rparr>
         else r)"

definition ClearReported_Invoke ::
    "string list option \<Rightarrow> (json \<Rightarrow> ('w world_scheme, unit) cmd) option \<Rightarrow> json \<Rightarrow>
     ((('w world_scheme, 'z) HandlerBase_scheme, 'w world_scheme) ctx, InvokeResult) cmd" where
  "ClearReported_Invoke getHandlerIds reportAll jsonParameters =
     Invoke_reporting (ClearReported_action getHandlerIds reportAll jsonParameters)
       (cget (ClearReported_result jsonParameters))"

interpretation clearReported: raw_handler
  "ClearReported_action ids ra" "ClearReported_result" "ClearReported_Invoke ids ra"
  for ids and ra :: "(json \<Rightarrow> ('w world_scheme, unit) cmd) option"
proof (unfold_locales, goal_cases)
  case (1 p)
  show ?case by (simp add: ClearReported_Invoke_def)
next
  case (2 i h p)
  show ?case
    unfolding ClearReported_action_def Let_def
    by (intro preserves_intros) (auto split: option.split intro: preserves_intros)
qed

lemma sm_keys_fold_put:
  "set (sm_keys (fold (\<lambda>(k, v). sm_put k v) kvs m)) = set (sm_keys m) \<union> fst ` set kvs"
  by (induction kvs arbitrary: m) (auto simp: set_sm_keys)

lemma map_of_fold_put_const:
  "map_of (fold (\<lambda>(k, v). sm_put k v) (map (\<lambda>h. (f h, v)) hs) m) k =
     (if k \<in> f ` set hs then Some v else map_of m k)"
  by (induction hs arbitrary: m) auto

lemma cleared_properties_at:
  "json_at (cleared_properties self ids) k = Inr JNull"
  "getMemberNames (cleared_properties self ids) = Inr ks \<Longrightarrow>
     set ks = c_str ` (set ids - {self})"
  by (auto simp: cleared_properties_def jobj_def sm_of_def map_of_fold_put_const sm_keys_fold_put
    image_image split: option.splits)

section \<open>DeviceSchemasHandler\<close>

record GroupsModel =
  gm_all :: bool
  gm_configured :: bool
  listedGroups :: "string list"

record TypesModel =
  tm_all :: bool
  listedTypes :: "string list"

record TagsModel =
  listedTags :: "string list"

record ReportingModel =
  groupsModel :: GroupsModel
  types :: TypesModel
  rm_tags :: TagsModel

definition GroupsModel_FromJson :: "json \<Rightarrow> GroupsModel res" where
  "GroupsModel_FromJson parent =
     rbind (json_at parent ''groups'') (\<lambda>groupsValue.
       if isNull groupsValue \<or> \<not> isString groupsValue
       then Inl (invalid_json_format ''Missing groups value'')
       else rbind (asString groupsValue) (\<lambda>groupsString.
         let groups = set_of (SplitString (CHR '';'') groupsString)
         in if ''all'' \<in> set groups
            then if length groups \<noteq> 1
                 then Inl (invalid_json_format ''Missing all group in device schema'')
                 else Inr \<lparr>gm_all = True, gm_configured = False, listedGroups = []\<rparr>
            else Inr \<lparr>gm_all = False, gm_configured = (''configured'' \<in> set groups),
                      listedGroups = filter (\<lambda>g. g \<noteq> ''configured'') groups\<rparr>))"

definition TypesModel_FromJson :: "json \<Rightarrow> TypesModel res" where
  "TypesModel_FromJson parent =
     rbind (json_at parent ''types'') (\<lambda>typesValue.
       if isNull typesValue \<or> \<not> isString typesValue
       then Inl (invalid_json_format ''Missing types value in device schema'')
       else rbind (asString typesValue) (\<lambda>typesString.
         let ts = set_of (SplitString (CHR '';'') typesString)
         in if ''all'' \<in> set ts
            then if length ts \<noteq> 1
                 then Inl (invalid_json_format ''Missing all group in device schema'')
                 else Inr \<lparr>tm_all = True, listedTypes = []\<rparr>
            else Inr \<lparr>tm_all = False, listedTypes = ts\<rparr>))"

definition TagsModel_FromJson :: "json \<Rightarrow> TagsModel res" where
  "TagsModel_FromJson parent =
     rbind (json_at parent ''tags'') (\<lambda>tagsValue.
       if isNull tagsValue \<or> \<not> isString tagsValue
       then Inl (invalid_json_format ''Missing tags value'')
       else rbind (asString tagsValue) (\<lambda>tagsString.
         Inr \<lparr>listedTags = set_of (SplitString (CHR '';'') tagsString)\<rparr>))"

definition ReportingModel_FromJson :: "json \<Rightarrow> ReportingModel res" where
  "ReportingModel_FromJson parent =
     rbind (json_at parent ''reporting'') (\<lambda>reportingValue.
       if isNull reportingValue \<or> \<not> isObject reportingValue
       then Inl (invalid_json_format ''Missing reporting value'')
       else rbind (GroupsModel_FromJson reportingValue) (\<lambda>g.
            rbind (TypesModel_FromJson reportingValue) (\<lambda>t.
            rbind (TagsModel_FromJson reportingValue) (\<lambda>tg.
            Inr \<lparr>groupsModel = g, types = t, rm_tags = tg\<rparr>))))"

text \<open>
  What the handler reads of an entry of the host's handler map: the results of \<open>GetId\<close>,
  \<open>IsConfigured\<close> and \<open>GetReportedSchema\<close>, the last two of which throw when the handler is
  a proxy whose plug-in does not answer.
\<close>

record handler_view =
  hv_id :: string
  hv_configured :: "bool res"
  hv_schema :: "ReportedSchema res"

definition IsGroupIncluded :: "GroupsModel \<Rightarrow> handler_view \<Rightarrow> bool res" where
  "IsGroupIncluded gm h =
     (if gm_all gm then Inr True
      else rbind (if gm_configured gm then hv_configured h else Inr False) (\<lambda>configured.
        if configured then Inr True
        else Inr (hv_id h \<in> set (listedGroups gm))))"

definition IsTypeIncluded :: "TypesModel \<Rightarrow> ReportedSchema \<Rightarrow> bool" where
  "IsTypeIncluded tm schema =
     (if tm_all tm then True else interfaceType schema \<in> set (listedTypes tm))"

record 'w DeviceSchemasHandler = "'w HandlerBase" +
  groupDesiredConfigJson :: json
  reportingModel :: ReportingModel

definition DeviceSchemasHandler_new :: "('w world_scheme, 'w world_scheme DeviceSchemasHandler) cmd" where
  "DeviceSchemasHandler_new =
     cbind (HandlerBase_new ''__deviceSchemas'' (ReportedSchema_new ''raw'' ''dm'' InterfaceVersion)) (\<lambda>hb.
     cret (HandlerBase.extend hb (DeviceSchemasHandler.fields (JObject [])
       \<lparr>groupsModel = \<lparr>gm_all = True, gm_configured = False, listedGroups = []\<rparr>,
        types = \<lparr>tm_all = True, listedTypes = []\<rparr>, rm_tags = \<lparr>listedTags = []\<rparr>\<rparr>)))"

definition view_of :: "('w, 'z) HandlerBase_scheme \<Rightarrow> handler_view" where
  "view_of h = \<lparr>hv_id = handlerId h, hv_configured = Inr (isConfigured h), hv_schema = Inr (reportedSchema h)\<rparr>"

definition BuildReported_step ::
    "ReportingModel \<Rightarrow> string \<times> handler_view \<Rightarrow> (('h, 'w) ctx, unit) cmd" where
  "BuildReported_step rm p =
     cbind (clift (IsGroupIncluded (groupsModel rm) (snd p))) (\<lambda>included.
       if \<not> included then cret ()
       else cbind (clift (hv_schema (snd p))) (\<lambda>schema.
         if \<not> IsTypeIncluded (types rm) schema then cret ()
         else if length (listedTags (rm_tags rm)) \<noteq> 0 \<and> \<not> HasAnyTag (listedTags (rm_tags rm)) schema
         then cret ()
         else report_put (fst p) (ReportedSchema_ToJsonValue schema)))"

text \<open>
  \<open>rawHandlerMap\<close> is the host's map seen through the stored pointer; it is a function of
  the handler itself because the map's entry for this handler is this very object.
\<close>

definition BuildReported ::
    "(('w, 'z) DeviceSchemasHandler_scheme \<Rightarrow> (string \<times> handler_view) list) \<Rightarrow>
     ((('w, 'z) DeviceSchemasHandler_scheme, 'w) ctx, unit) cmd" where
  "BuildReported rawHandlerMap =
     cbind (cget this) (\<lambda>h. cfor (BuildReported_step (reportingModel h)) (rawHandlerMap h))"

definition EmptyReported ::
    "(('w, 'z) DeviceSchemasHandler_scheme \<Rightarrow> (string \<times> handler_view) list) \<Rightarrow>
     ((('w, 'z) DeviceSchemasHandler_scheme, 'w) ctx, unit) cmd" where
  "EmptyReported rawHandlerMap =
     cbind (cget this) (\<lambda>h. cfor (\<lambda>p. report_put (fst p) JNull) (rawHandlerMap h))"

definition DeviceSchemas_SetSubGroup ::
    "json \<Rightarrow> ((('w, 'z) DeviceSchemasHandler_scheme, 'w) ctx, unit) cmd" where
  "DeviceSchemas_SetSubGroup groupRoot =
     cbind (clift (ReportingModel_FromJson groupRoot)) (\<lambda>rm.
     set_this (\<lambda>h. h\<lparr>reportingModel := rm, isConfigured := True\<rparr>))"

definition DeviceSchemas_Start :: "json \<Rightarrow> ((('w, 'z) HandlerBase_scheme, 'w) ctx, bool) cmd" where
  "DeviceSchemas_Start config = cseq (SetConfig config) (cret True)"

definition DeviceSchemas_OnConnectionStatusChanged ::
    "(('w world_scheme, 'z) DeviceSchemasHandler_scheme \<Rightarrow> (string \<times> handler_view) list) \<Rightarrow> ConnectionStatus \<Rightarrow>
     ((('w world_scheme, 'z) DeviceSchemasHandler_scheme, 'w world_scheme) ctx, unit) cmd" where
  "DeviceSchemas_OnConnectionStatusChanged rawHandlerMap st =
     (if st = eOffline then cret ()
      else cbind (cget (handlerConfig \<circ> this)) (\<lambda>config.
           cbind (clift (json_at config ''reportOnConnect'')) (\<lambda>reportOnConnect.
           if \<not> isNull reportOnConnect \<and> isBool reportOnConnect
           then cbind (clift (asBool reportOnConnect)) (\<lambda>b.
                if b then cseq fresh_locals (cseq (BuildReported rawHandlerMap) FinalizeAndReport)
                else cret ())
           else cret ())))"

definition DeviceSchemas_action ::
    "(('w world_scheme, 'z) DeviceSchemasHandler_scheme \<Rightarrow> (string \<times> handler_view) list) \<Rightarrow> json \<Rightarrow>
     ((('w world_scheme, 'z) DeviceSchemasHandler_scheme, 'w world_scheme) ctx, unit) cmd" where
  "DeviceSchemas_action rawHandlerMap desired =
     cbind (clift (IsRefreshing desired)) (\<lambda>refreshing.
       if refreshing then cret ()
       else cbind (cget (groupDesiredConfigJson \<circ> this)) (\<lambda>cached.
            cbind (clift (Merge desired cached)) (\<lambda>merged.
            cseq (set_this (groupDesiredConfigJson_update (\<lambda>_. merged))) (
            cseq (on_meta (FromJsonParentObject desired)) (
            check_version InterfaceVersion (
              cseq (DeviceSchemas_SetSubGroup merged) (
              cbind (cget (reportingMode \<circ> metaData \<circ> this)) (\<lambda>mode.
              cseq (if mode = ''detailed'' then BuildReported rawHandlerMap else EmptyReported rawHandlerMap)
                (set_device_version InterfaceVersion)))))))))"

definition DeviceSchemas_result ::
    "json \<Rightarrow> (('w world_scheme, 'z) HandlerBase_scheme, 'w world_scheme) ctx \<Rightarrow> InvokeResult" where
  "DeviceSchemas_result desired c = InvokeResult_context eDesiredState"

definition DeviceSchemas_Invoke ::
    "(('w world_scheme, 'z) DeviceSchemasHandler_scheme \<Rightarrow> (string \<times> handler_view) list) \<Rightarrow> json \<Rightarrow>
     ((('w world_scheme, 'z) DeviceSchemasHandler_scheme, 'w world_scheme) ctx, InvokeResult) cmd" where
  "DeviceSchemas_Invoke rawHandlerMap desired =
     Invoke_reporting (DeviceSchemas_action rawHandlerMap desired) (cget (DeviceSchemas_result desired))"

lemma preserves_BuildReported [preserves_intros]:
  "preserves (handler_inv i h) (BuildReported m)" "preserves (handler_inv i h) (EmptyReported m)"
  unfolding BuildReported_def EmptyReported_def BuildReported_step_def
  by (intro preserves_intros)+

lemma preserves_DeviceSchemas_action: "preserves (handler_inv i h) (DeviceSchemas_action m p)"
  unfolding DeviceSchemas_action_def DeviceSchemas_SetSubGroup_def
  by (intro preserves_intros) simp_all

interpretation deviceSchemas: raw_handler
  "DeviceSchemas_action m" "DeviceSchemas_result" "DeviceSchemas_Invoke m"
  for m :: "('w world_scheme, 'z) DeviceSchemasHandler_scheme \<Rightarrow> (string \<times> handler_view) list"
  by unfold_locales (simp_all add: DeviceSchemas_Invoke_def preserves_DeviceSchemas_action)

subsection \<open>The reported schemas are exactly the selected ones\<close>

definition view_answers :: "handler_view \<Rightarrow> bool" where
  "view_answers h \<longleftrightarrow> \<not> isl (hv_configured h) \<and> \<not> isl (hv_schema h)"

definition selected_schema :: "ReportingModel \<Rightarrow> handler_view \<Rightarrow> bool" where
  "selected_schema rm h \<longleftrightarrow>
     (gm_all (groupsModel rm) \<or> gm_configured (groupsModel rm) \<and> projr (hv_configured h) \<or>
      hv_id h \<in> set (listedGroups (groupsModel rm))) \<and>
     (tm_all (types rm) \<or> interfaceType (projr (hv_schema h)) \<in> set (listedTypes (types rm))) \<and>
     (listedTags (rm_tags rm) = [] \<or>
      set (listedTags (rm_tags rm)) \<inter> set (tags (projr (hv_schema h))) \<noteq> {})"

lemma BuildReported_step_eq:
  assumes "view_answers (snd p)"
  shows "BuildReported_step rm p =
     (if selected_schema rm (snd p)
      then report_put (fst p) (ReportedSchema_ToJsonValue (projr (hv_schema (snd p)))) else cret ())"
proof -
  from assms obtain b sc where "hv_configured (snd p) = Inr b" "hv_schema (snd p) = Inr sc"
    by (auto simp: view_answers_def isl_def) (metis sum.collapse(2) sum.disc(1) isl_def)
  then show ?thesis
    by (auto simp: BuildReported_step_def selected_schema_def IsGroupIncluded_def IsTypeIncluded_def
      HasAnyTag_def list_ex_iff cmd_simps)
qed

lemma cfor_BuildReported:
  "reported c = JObject m \<Longrightarrow> list_all (\<lambda>p. view_answers (snd p)) ps \<Longrightarrow>
     cfor (BuildReported_step rm) ps c =
       (Inr (), c\<lparr>reported := JObject (fold (\<lambda>p. sm_put (fst p) (ReportedSchema_ToJsonValue (projr (hv_schema (snd p)))))
          (filter (\<lambda>p. selected_schema rm (snd p)) ps) m)\<rparr>)"
  by (induction ps arbitrary: c m)
    (simp_all add: BuildReported_step_eq cmd_simps report_put_def)

lemma map_of_fold_schemas:
  "distinct (map fst ps) \<Longrightarrow>
     map_of (fold (\<lambda>p. sm_put (fst p) (f (snd p))) ps m) k =
       (case map_of ps k of None \<Rightarrow> map_of m k | Some v \<Rightarrow> Some (f v))"
proof (induction ps arbitrary: m)
  case (Cons p ps)
  obtain a v where p: "p = (a, v)" by (cases p)
  from Cons.prems p have none: "map_of ps a = None" by (simp add: map_of_eq_None_iff)
  from Cons.prems p have "distinct (map fst ps)" by simp
  with Cons.IH p none show ?case by (cases "k = a") (simp_all split: option.splits)
qed simp

lemma map_of_filter_value:
  "distinct (map fst ps) \<Longrightarrow>
     map_of (filter (\<lambda>p. P (snd p)) ps) k =
       (case map_of ps k of None \<Rightarrow> None | Some v \<Rightarrow> if P v then Some v else None)"
proof (induction ps)
  case (Cons p ps)
  obtain a v where p: "p = (a, v)" by (cases p)
  from Cons.prems p have none: "map_of ps a = None" by (simp add: map_of_eq_None_iff)
  from Cons p none show ?case by (cases "k = a") simp_all
qed simp

section \<open>Properties\<close>

text \<open>
  In detailed mode the device-schemas handler reports, under the id of every handler
  that the desired groups, types and tags select, that handler's schema, and reports
  nothing under any other id.
\<close>

theorem BuildReported_reports:
  assumes "distinct (map fst (rawHandlerMap (this c)))" and "reported c = JObject []"
    and "list_all (\<lambda>p. view_answers (snd p)) (rawHandlerMap (this c))"
  shows "\<exists>m. BuildReported rawHandlerMap c = (Inr (), c\<lparr>reported := JObject m\<rparr>) \<and>
    (\<forall>k. map_of m k =
      (case map_of (rawHandlerMap (this c)) k of
         None \<Rightarrow> None
       | Some h \<Rightarrow> if selected_schema (reportingModel (this c)) h
                   then Some (ReportedSchema_ToJsonValue (projr (hv_schema h))) else None))"
proof -
  let ?ps = "filter (\<lambda>p. selected_schema (reportingModel (this c)) (snd p)) (rawHandlerMap (this c))"
  have d: "distinct (map fst ?ps)" using assms(1) distinct_map_filter by blast
  show ?thesis
    using d assms
    by (auto simp: BuildReported_def cmd_simps cfor_BuildReported
      map_of_fold_schemas [where f = "\<lambda>v. ReportedSchema_ToJsonValue (projr (hv_schema v))"]
      map_of_filter_value [where P = "selected_schema (reportingModel (this c))"] split: option.splits)
qed

definition sample_schemas :: "world DeviceSchemasHandler" where
  "sample_schemas = \<lparr>handlerId = ''__deviceSchemas'', isConfigured = True, metaData = MetaData_new,
     iPluginHost = None, deploymentStatusJson = JNull, handlerConfig = JNull,
     reportedSchema = ReportedSchema_new ''raw'' ''dm'' InterfaceVersion, groupDesiredConfigJson = JNull,
     reportingModel = \<lparr>groupsModel = \<lparr>gm_all = False, gm_configured = True, listedGroups = [''reboot'']\<rparr>,
       types = \<lparr>tm_all = True, listedTypes = []\<rparr>, rm_tags = \<lparr>listedTags = []\<rparr>\<rparr>\<rparr>"

definition sample_views :: "(string \<times> handler_view) list" where
  "sample_views = map (\<lambda>(i, b). (i, \<lparr>hv_id = i, hv_configured = Inr b,
     hv_schema = Inr \<lparr>interfaceType = ''raw'', tags = [''dm''], interfaceVersion = ''1.0.0''\<rparr>\<rparr>))
     [(''reboot'', False), (''time'', True), (''wifi'', False)]"

theorem BuildReported_reports_witness:
  "\<exists>m. BuildReported (\<lambda>_. sample_views) (ctx_new sample_schemas sample_world) =
       (Inr (), (ctx_new sample_schemas sample_world)\<lparr>reported := JObject m\<rparr>) \<and>
     map_of m ''wifi'' = None \<and> map_of m ''reboot'' \<noteq> None \<and> map_of m ''time'' \<noteq> None"
proof -
  let ?c = "ctx_new sample_schemas sample_world"
  have "distinct (map fst sample_views)" "list_all (\<lambda>p. view_answers (snd p)) sample_views"
    by (simp_all add: sample_views_def view_answers_def)
  then obtain m where "BuildReported (\<lambda>_. sample_views) ?c = (Inr (), ?c\<lparr>reported := JObject m\<rparr>)"
    and m: "\<forall>k. map_of m k = (case map_of sample_views k of None \<Rightarrow> None
       | Some h \<Rightarrow> if selected_schema (reportingModel (this ?c)) h
                   then Some (ReportedSchema_ToJsonValue (projr (hv_schema h))) else None)"
    using BuildReported_reports [of "\<lambda>_. sample_views" ?c] by (auto simp: ctx_new_def)
  then show ?thesis
    by (auto simp: m sample_views_def selected_schema_def ctx_new_def sample_schemas_def)
qed

end
