(* ===== verification/Service_Params.thy ===== *)
theory Service_Params
  imports Text_Utils
begin

text \<open>
  The agent's configuration: \<open>ServiceParameters\<close> (device-agent/agent/ServiceParameters.cpp),
  read from the JSON file beside the executable with a default for every setting, and
  \<open>PluginManifest\<close> (PluginManifest.cpp), the description of one plug-in.  \<open>Load\<close> and
  \<open>FromJsonFile\<close> mutate the object as they read, so an exception leaves the fields read so far.
\<close>

section \<open>Paths\<close>

definition is_slash :: "char \<Rightarrow> bool" where
  "is_slash c = (c = CHR 0x5C \<or> c = CHR ''/'')"

definition is_letter :: "char \<Rightarrow> bool" where
  "is_letter c = (let n = of_char c :: nat in 65 \<le> n \<and> n \<le> 90 \<or> 97 \<le> n \<and> n \<le> 122)"

text \<open>A Windows path is absolute when it has a root name (drive or server) and a root directory.\<close>

fun is_absolute :: "string \<Rightarrow> bool" where
  "is_absolute (a # b # c # p) =
     (is_letter a \<and> b = CHR '':'' \<and> is_slash c \<or>
      is_slash a \<and> is_slash b \<and> \<not> is_slash c \<and> list_ex is_slash p)"
| "is_absolute _ = False"

definition MakePathAbsolute :: "string \<Rightarrow> string \<Rightarrow> string" where
  "MakePathAbsolute root fileName =
     (if \<not> is_absolute fileName then root @ [CHR 0x5C] @ fileName else fileName)"

section \<open>ServiceParameters\<close>

record ServiceParameters =
  textLogFilesPath :: string
  pluginManifestsPath :: string
  pluginsDataPath :: string
  sasExpiryInterval :: int
  sasRenewalGracePeriod :: int
  dpsIsEnabled :: bool
  dpsUri :: string
  dpsScopeId :: string
  deviceSlotNumber :: int
  dmModuleSlotNumber :: int
  connectionString :: string
  dmModuleId :: string
  azureInterfaceType :: string
  otherModules :: "int smap"
  handlerParametersMap :: "json smap"
  validDpsScopeId :: bool

text \<open>The manual-reset event is set exactly when the scope id is not empty.\<close>

definition SetDpsScopeId :: "string \<Rightarrow> ServiceParameters \<Rightarrow> ServiceParameters" where
  "SetDpsScopeId s sp =
     (let sp = sp\<lparr>dpsScopeId := s\<rparr>
      in if length (dpsScopeId sp) \<noteq> 0 then sp\<lparr>validDpsScopeId := True\<rparr>
         else sp\<lparr>validDpsScopeId := False\<rparr>)"

definition ServiceParameters_new :: ServiceParameters where
  "ServiceParameters_new =
     SetDpsScopeId ''''
       \<lparr>textLogFilesPath = '''', pluginManifestsPath = '''', pluginsDataPath = ''DMData'',
        sasExpiryInterval = 24 * 3600, sasRenewalGracePeriod = 3600, dpsIsEnabled = True,
        dpsUri = '''', dpsScopeId = '''', deviceSlotNumber = 0, dmModuleSlotNumber = 0,
        connectionString = '''', dmModuleId = ''WindowsIoTDM'', azureInterfaceType = ''raw'',
        otherModules = [], handlerParametersMap = [], validDpsScopeId = False\<rparr>"

text \<open>\<open>WaitDpsScopeId\<close> returns only while the event is set; \<open>None\<close> is a call that blocks.\<close>

definition WaitDpsScopeId :: "ServiceParameters \<Rightarrow> unit option" where
  "WaitDpsScopeId sp = (if validDpsScopeId sp then Some () else None)"

definition ReadJsonString :: "json \<Rightarrow> string \<Rightarrow> string \<Rightarrow> string res" where
  "ReadJsonString root name defaultValue =
     rbind (json_at root name) (\<lambda>jsonValue.
       if isNull jsonValue \<or> \<not> isString jsonValue then Inr defaultValue else asString jsonValue)"

definition ReadJsonUInt :: "json \<Rightarrow> string \<Rightarrow> int \<Rightarrow> int res" where
  "ReadJsonUInt root name defaultValue =
     rbind (json_at root name) (\<lambda>jsonValue.
       if isNull jsonValue \<or> \<not> isUInt jsonValue then Inr defaultValue else asUInt jsonValue)"

definition ReadJsonBoolean :: "json \<Rightarrow> string \<Rightarrow> bool \<Rightarrow> bool res" where
  "ReadJsonBoolean root name defaultValue =
     rbind (json_at root name) (\<lambda>jsonValue.
       if isNull jsonValue \<or> \<not> isBool jsonValue then Inr defaultValue else asBool jsonValue)"

definition ReadModules_entry :: "json \<Rightarrow> string \<Rightarrow> (ServiceParameters, unit) cmd" where
  "ReadModules_entry jsonValue key =
     cbind (clift (rbind (json_at jsonValue key) asUInt)) (\<lambda>n. cmod (otherModules_update (sm_put key n)))"

definition ReadMap_entry :: "json \<Rightarrow> string \<Rightarrow> (ServiceParameters, unit) cmd" where
  "ReadMap_entry jsonValue key =
     cbind (clift (json_at jsonValue key)) (\<lambda>v. cmod (handlerParametersMap_update (sm_put key v)))"

definition ReadModules :: "json \<Rightarrow> string \<Rightarrow> (ServiceParameters, unit) cmd" where
  "ReadModules root name =
     cseq (cmod (otherModules_update (\<lambda>_. []))) (
     cbind (clift (json_at root name)) (\<lambda>jsonValue.
       if isNull jsonValue \<or> \<not> isObject jsonValue then cret ()
       else cbind (clift (getMemberNames jsonValue)) (cfor (ReadModules_entry jsonValue))))"

definition ReadMap :: "json \<Rightarrow> string \<Rightarrow> (ServiceParameters, unit) cmd" where
  "ReadMap root name =
     cseq (cmod (handlerParametersMap_update (\<lambda>_. []))) (
     cbind (clift (json_at root name)) (\<lambda>jsonValue.
       if isNull jsonValue \<or> \<not> isObject jsonValue then cret ()
       else cbind (clift (getMemberNames jsonValue)) (cfor (ReadMap_entry jsonValue))))"

text \<open>
  \<open>read_into r upd\<close> is a call that reads a setting into a member.  The two registry
  values override the file only in debug builds, where they are \<open>Some\<close> when present.
\<close>

definition read_into :: "'a res \<Rightarrow> ('a \<Rightarrow> ServiceParameters \<Rightarrow> ServiceParameters) \<Rightarrow> (ServiceParameters, unit) cmd" where
  "read_into r upd = cbind (clift r) (\<lambda>v. cmod (upd v))"

definition ReadDPSScopeId :: "string option \<Rightarrow> json \<Rightarrow> (ServiceParameters, unit) cmd" where
  "ReadDPSScopeId registryIdScope configurations =
     (case registryIdScope of
        Some s \<Rightarrow> cmod (SetDpsScopeId s)
      | None \<Rightarrow> read_into (ReadJsonString configurations ''dpsScopeId'' '''') SetDpsScopeId)"

definition ReadTPMSlotNumbers :: "int option \<Rightarrow> json \<Rightarrow> (ServiceParameters, unit) cmd" where
  "ReadTPMSlotNumbers registrySlotId configurations =
     (case registrySlotId of
        Some n \<Rightarrow> cmod (\<lambda>sp. sp\<lparr>deviceSlotNumber := n, dmModuleSlotNumber := n\<rparr>)
      | None \<Rightarrow>
          cseq (read_into (ReadJsonUInt configurations ''deviceSlotNumber'' 0)
                 (\<lambda>n. deviceSlotNumber_update (\<lambda>_. n)))
            (read_into (ReadJsonUInt configurations ''dmModuleSlotNumber'' 0)
                 (\<lambda>n. dmModuleSlotNumber_update (\<lambda>_. n))))"

text \<open>\<open>file\<close> is what \<open>TryParseJSONFile\<close> reads, \<open>None\<close> when it fails.\<close>

definition Load ::
    "string \<Rightarrow> json option \<Rightarrow> string option \<Rightarrow> int option \<Rightarrow> (ServiceParameters, unit) cmd" where
  "Load rootPath file registryIdScope registrySlotId =
     (case file of None \<Rightarrow> cret () | Some configurations \<Rightarrow>
       cseq (read_into (ReadJsonString configurations ''textLogFilesPath'' '''')
              (\<lambda>s. textLogFilesPath_update (\<lambda>_. s))) (
       cseq (cmod (textLogFilesPath_update (MakePathAbsolute rootPath))) (
       cseq (read_into (ReadJsonString configurations ''pluginManifestsPath'' '''')
              (\<lambda>s. pluginManifestsPath_update (\<lambda>_. s))) (
       cseq (cmod (pluginManifestsPath_update (MakePathAbsolute rootPath))) (
       cseq (read_into (ReadJsonString configurations ''pluginsDataPath'' ''DMData'')
              (\<lambda>s. pluginsDataPath_update (\<lambda>_. s))) (
       cseq (cmod (pluginsDataPath_update (MakePathAbsolute rootPath))) (
       cseq (read_into (ReadJsonUInt configurations ''sasExpiryInterval'' (24 * 3600))
              (\<lambda>n. sasExpiryInterval_update (\<lambda>_. n))) (
       cseq (read_into (ReadJsonUInt configurations ''sasRenewalGracePeriod'' 3600)
              (\<lambda>n. sasRenewalGracePeriod_update (\<lambda>_. n))) (
       cseq (read_into (ReadJsonBoolean configurations ''dpsEnabled'' True)
              (\<lambda>b. dpsIsEnabled_update (\<lambda>_. b))) (
       cseq (read_into (ReadJsonString configurations ''dpsUri'' '''') (\<lambda>s. dpsUri_update (\<lambda>_. s))) (
       cseq (ReadDPSScopeId registryIdScope configurations) (
       cseq (ReadTPMSlotNumbers registrySlotId configurations) (
       cseq (read_into (ReadJsonString configurations ''connectionString'' '''')
              (\<lambda>s. connectionString_update (\<lambda>_. s))) (
       cseq (read_into (ReadJsonString configurations ''dmModuleId'' ''WindowsIoTDM'')
              (\<lambda>s. dmModuleId_update (\<lambda>_. s))) (
       cseq (read_into (ReadJsonString configurations ''azureInterfaceType'' ''raw'')
              (\<lambda>s. azureInterfaceType_update (\<lambda>_. s))) (
       cseq (ReadModules configurations ''otherModuleIds'')
         (ReadMap configurations ''handlers'')))))))))))))))))"

text \<open>
  \<open>Save\<close> returns the content the file is rewritten with, if it is.  The text the JSON library
  writes is taken to be read back as the same value; a write that fails is not looked at by
  the code and leaves the file as it was.
\<close>

definition Save :: "json option \<Rightarrow> ServiceParameters \<Rightarrow> json option res" where
  "Save file sp =
     (case file of
        None \<Rightarrow> Inr None
      | Some configurations \<Rightarrow>
          rbind (json_put configurations ''dpsScopeId'' (JString (dpsScopeId sp))) (\<lambda>j. Inr (Some j)))"

definition GetHandlerParameters :: "string \<Rightarrow> ServiceParameters \<Rightarrow> json option" where
  "GetHandlerParameters h sp = map_of (handlerParametersMap sp) h"


subsection \<open>The scope id and its event\<close>

definition scope_event_inv :: "ServiceParameters \<Rightarrow> bool" where
  "scope_event_inv sp \<longleftrightarrow> (validDpsScopeId sp \<longleftrightarrow> dpsScopeId sp \<noteq> [])"

lemma scope_event_inv_Set [simp]: "scope_event_inv (SetDpsScopeId s sp)"
  by (simp add: scope_event_inv_def SetDpsScopeId_def Let_def)

lemma scope_event_inv_new [simp]: "scope_event_inv ServiceParameters_new"
  by (simp add: ServiceParameters_new_def)

lemma preserves_read_into [preserves_intros]:
  "(\<And>v s. r = Inr v \<Longrightarrow> I s \<Longrightarrow> I (upd v s)) \<Longrightarrow> preserves I (read_into r upd)"
  by (auto simp: read_into_def preserves_def cmd_simps split: sum.splits)

lemma preserves_ReadMap:
  "(\<And>f s. I s \<Longrightarrow> I (handlerParametersMap_update f s)) \<Longrightarrow> preserves I (ReadMap root name)"
  unfolding ReadMap_def ReadMap_entry_def by (intro preserves_intros) simp_all

text \<open>\<open>Load\<close> keeps what each of the updates it makes keeps.\<close>

lemma preserves_Load:
  assumes settings: "\<And>f s. I s \<Longrightarrow> I (textLogFilesPath_update f s)"
      "\<And>f s. I s \<Longrightarrow> I (pluginManifestsPath_update f s)" "\<And>f s. I s \<Longrightarrow> I (pluginsDataPath_update f s)"
      "\<And>f s. I s \<Longrightarrow> I (dpsIsEnabled_update f s)" "\<And>f s. I s \<Longrightarrow> I (dpsUri_update f s)"
      "\<And>f s. I s \<Longrightarrow> I (connectionString_update f s)" "\<And>f s. I s \<Longrightarrow> I (dmModuleId_update f s)"
      "\<And>f s. I s \<Longrightarrow> I (azureInterfaceType_update f s)"
      "\<And>f s. I s \<Longrightarrow> I (sasExpiryInterval_update f s)" "\<And>f s. I s \<Longrightarrow> I (sasRenewalGracePeriod_update f s)"
      "\<And>f s. I s \<Longrightarrow> I (deviceSlotNumber_update f s)" "\<And>f s. I s \<Longrightarrow> I (dmModuleSlotNumber_update f s)"
      "\<And>f s. I s \<Longrightarrow> I (otherModules_update f s)" "\<And>f s. I s \<Longrightarrow> I (handlerParametersMap_update f s)"
      "\<And>v s. I s \<Longrightarrow> I (SetDpsScopeId v s)"
  shows "preserves I (Load rootPath file reg slot)"
proof -
  have dps: "preserves I (ReadDPSScopeId reg j)" for j
    unfolding ReadDPSScopeId_def using settings
    by (cases reg) (auto intro!: preserves_intros)
  have both: "I (s\<lparr>deviceSlotNumber := n, dmModuleSlotNumber := n\<rparr>)" if "I s" for s n
    by (intro settings that)
  have tpm: "preserves I (ReadTPMSlotNumbers slot j)" for j
    unfolding ReadTPMSlotNumbers_def using settings both
    by (cases slot) (auto intro!: preserves_intros)
  have modules: "preserves I (ReadModules j name)" for j name
    unfolding ReadModules_def ReadModules_entry_def by (intro preserves_intros) (simp_all add: settings)
  have "preserves I (Load rootPath (Some j) reg slot)" for j
    unfolding Load_def option.case
    by (intro preserves_intros preserves_ReadMap dps tpm modules) (auto intro: settings)
  then show ?thesis
    by (cases "file") (simp_all add: Load_def preserves_intros)
qed

lemma Load_keeps_scope_event: "preserves scope_event_inv (Load root file reg slot)"
  by (rule preserves_Load) (simp_all, simp_all add: scope_event_inv_def)

subsection \<open>Defaults, and saving the scope id\<close>

text \<open>What the three readers make of a member of the configuration object.\<close>

definition string_setting :: "json smap \<Rightarrow> string \<Rightarrow> string \<Rightarrow> string" where
  "string_setting m k d = (case map_of m k of Some (JString s) \<Rightarrow> s | _ \<Rightarrow> d)"

text \<open>The 32-bit unsigned number a value is, if it is one: an integer, or a double without a fraction.\<close>

fun unsigned_value :: "json \<Rightarrow> int option" where
  "unsigned_value (JInt i) = (if i \<in> {0..4294967295} then Some i else None)"
| "unsigned_value (JUInt i) = (if i \<le> 4294967295 then Some i else None)"
| "unsigned_value (JReal (Dbl m e t)) =
     (if 0 \<le> e then (if m * 2 ^ nat e \<in> {0..4294967295} then Some (m * 2 ^ nat e) else None)
      else if 2 ^ nat (- e) dvd m \<and> m div 2 ^ nat (- e) \<in> {0..4294967295} then Some (m div 2 ^ nat (- e))
      else None)"
| "unsigned_value _ = None"

definition uint_setting :: "json smap \<Rightarrow> string \<Rightarrow> int \<Rightarrow> int" where
  "uint_setting m k d =
     (case map_of m k of
        Some v \<Rightarrow> (case unsigned_value v of Some n \<Rightarrow> n | None \<Rightarrow> d)
      | None \<Rightarrow> d)"

definition bool_setting :: "json smap \<Rightarrow> string \<Rightarrow> bool \<Rightarrow> bool" where
  "bool_setting m k d = (case map_of m k of Some (JBool b) \<Rightarrow> b | _ \<Rightarrow> d)"

lemma ReadJsonString_setting: "ReadJsonString (JObject m) k d = Inr (string_setting m k d)"
  by (auto simp: ReadJsonString_def string_setting_def split: option.splits json.splits)

lemma ReadJsonBoolean_setting: "ReadJsonBoolean (JObject m) k d = Inr (bool_setting m k d)"
  by (auto simp: ReadJsonBoolean_def bool_setting_def split: option.splits json.splits)

lemma unsigned_real:
  "(isUInt (JReal d) \<longleftrightarrow> unsigned_value (JReal d) = Some (dbl_trunc d)) \<and>
   (unsigned_value (JReal d) = None \<or> unsigned_value (JReal d) = Some (dbl_trunc d))"
proof -
  obtain m e t where d: "d = Dbl m e t" by (cases d)
  show ?thesis
  proof (cases "0 \<le> e")
    case False
    let ?q = "2 ^ nat (- e) :: int"
    have q: "0 < ?q" by simp
    have trunc: "sgn m * (\<bar>m\<bar> div ?q) = m div ?q" if "?q dvd m"
      using that q by (auto elim!: dvdE simp: abs_mult sgn_mult sgn_mult_abs)
    have "0 \<le> m \<longleftrightarrow> 0 \<le> m div ?q" using q by (simp add: pos_imp_zdiv_nonneg_iff)
    moreover have "m \<le> 4294967295 * ?q \<longleftrightarrow> m div ?q \<le> 4294967295" if "?q dvd m"
      using that q by (auto elim!: dvdE simp: mult.commute)
    ultimately show ?thesis
      using False trunc by (auto simp: d int_limits mod_eq_0_iff_dvd)
  qed (auto simp: d int_limits)
qed

lemma isUInt_value: "isUInt v \<longleftrightarrow> unsigned_value v \<noteq> None"
proof (cases v)
  case (JReal d)
  then show ?thesis using unsigned_real [of d] by auto
qed (auto simp: int_limits)

lemma asUInt_value: "unsigned_value v = Some n \<Longrightarrow> asUInt v = Inr n"
proof (cases v)
  case (JReal d)
  assume n: "unsigned_value v = Some n"
  with JReal have "isUInt (JReal d)" "n = dbl_trunc d" using unsigned_real [of d] by auto
  with JReal show ?thesis by simp
qed (auto simp: int_limits split: if_splits)

lemma ReadJsonUInt_setting: "ReadJsonUInt (JObject m) k d = Inr (uint_setting m k d)"
proof (cases "map_of m k")
  case (Some v)
  then show ?thesis
    using asUInt_value [of v]
    by (cases "unsigned_value v") (auto simp: ReadJsonUInt_def uint_setting_def isNull_iff isUInt_value)
qed (simp add: ReadJsonUInt_def uint_setting_def)

text \<open>
  The ids of the other modules are read without a test of their type: a null, a boolean and a
  double with a fraction are converted, anything else that is no unsigned number throws.
\<close>

definition modules_readable :: "json smap \<Rightarrow> bool" where
  "modules_readable m =
     (case map_of m ''otherModuleIds'' of
        Some (JObject om) \<Rightarrow> list_all (\<lambda>k. \<not> isl (asUInt (jget (JObject om) k))) (sm_keys om)
      | _ \<Rightarrow> True)"

definition module_ids :: "json smap \<Rightarrow> string \<rightharpoonup> int" where
  "module_ids m =
     (case map_of m ''otherModuleIds'' of
        Some (JObject om) \<Rightarrow> (\<lambda>k. map_option (projr \<circ> asUInt) (map_of om k))
      | _ \<Rightarrow> Map.empty)"

definition handler_parameters :: "json smap \<Rightarrow> string \<rightharpoonup> json" where
  "handler_parameters m =
     (case map_of m ''handlers'' of Some (JObject hm) \<Rightarrow> map_of hm | _ \<Rightarrow> Map.empty)"

lemma cfor_modules:
  assumes "list_all (\<lambda>k. \<not> isl (asUInt (jget (JObject om) k))) ks" and "set ks \<subseteq> dom (map_of om)"
  shows "\<exists>g. (\<forall>sp. cfor (ReadModules_entry (JObject om)) ks sp = (Inr (), otherModules_update g sp)) \<and>
    (\<forall>r. map_of (g r) = (\<lambda>k. if k \<in> set ks then map_option (projr \<circ> asUInt) (map_of om k) else map_of r k))"
  using assms
proof (induction ks)
  case Nil
  show ?case by (rule exI [of _ "\<lambda>r. r"]) (simp add: cmd_simps)
next
  case (Cons k ks)
  from Cons.prems obtain n where n: "asUInt (jget (JObject om) k) = Inr n"
    by (cases "asUInt (jget (JObject om) k)") auto
  from Cons.prems(2) obtain v where v: "map_of om k = Some v" by auto
  from n have "ReadModules_entry (JObject om) k sp = (Inr (), otherModules_update (sm_put k n) sp)" for sp
    by (simp add: ReadModules_entry_def cmd_simps)
  moreover from Cons obtain g where
    "\<forall>sp. cfor (ReadModules_entry (JObject om)) ks sp = (Inr (), otherModules_update g sp)"
    "\<forall>r. map_of (g r) = (\<lambda>k. if k \<in> set ks then map_option (projr \<circ> asUInt) (map_of om k) else map_of r k)" by auto
  ultimately show ?case
    using n v by (intro exI [of _ "g \<circ> sm_put k n"]) (auto simp: cseq_def cbind_def comp_def fun_eq_iff)
qed

lemma cfor_modules_fails:
  "\<not> list_all (\<lambda>k. \<not> isl (asUInt (jget (JObject om) k))) ks \<Longrightarrow>
    \<exists>e sp'. cfor (ReadModules_entry (JObject om)) ks sp = (Inl e, sp')"
proof (induction ks arbitrary: sp)
  case (Cons k ks)
  show ?case
  proof (cases "asUInt (jget (JObject om) k)")
    case (Inl e)
    then have "ReadModules_entry (JObject om) k sp = (Inl e, sp)" by (simp add: ReadModules_entry_def cmd_simps)
    then show ?thesis by (simp add: cseq_def cbind_def)
  next
    case (Inr n)
    then have "ReadModules_entry (JObject om) k sp = (Inr (), otherModules_update (sm_put k n) sp)"
      by (simp add: ReadModules_entry_def cmd_simps)
    moreover have "\<not> list_all (\<lambda>k. \<not> isl (asUInt (jget (JObject om) k))) ks" using Cons.prems Inr by auto
    ultimately show ?thesis using Cons.IH by (simp add: cseq_def cbind_def)
  qed
qed simp

lemma ReadModules_ok:
  assumes "modules_readable m"
  shows "\<exists>r. (\<forall>sp. ReadModules (JObject m) ''otherModuleIds'' sp = (Inr (), sp\<lparr>otherModules := r\<rparr>)) \<and>
    map_of r = module_ids m"
proof (cases "\<exists>om. map_of m ''otherModuleIds'' = Some (JObject om)")
  case True
  then obtain om where om: "map_of m ''otherModuleIds'' = Some (JObject om)" by blast
  with assms have "list_all (\<lambda>k. \<not> isl (asUInt (jget (JObject om) k))) (sm_keys om)"
    by (simp add: modules_readable_def)
  from cfor_modules [OF this] obtain g where g:
    "\<forall>sp. cfor (ReadModules_entry (JObject om)) (sm_keys om) sp = (Inr (), otherModules_update g sp)"
    "\<forall>r. map_of (g r) = (\<lambda>k. if k \<in> set (sm_keys om) then map_option (projr \<circ> asUInt) (map_of om k) else map_of r k)"
    by (auto simp: set_sm_keys)
  with om have "ReadModules (JObject m) ''otherModuleIds'' sp = (Inr (), sp\<lparr>otherModules := g []\<rparr>)" for sp
    by (simp add: ReadModules_def cmd_simps)
  moreover have "map_of (g []) = module_ids m"
    using g(2) om by (auto simp: module_ids_def fun_eq_iff set_sm_keys domIff)
  ultimately show ?thesis by blast
next
  case False
  then have "\<not> isObject (jget (JObject m) ''otherModuleIds'')" by (auto simp: isObject_iff split: option.splits)
  then have "ReadModules (JObject m) ''otherModuleIds'' sp = (Inr (), sp\<lparr>otherModules := []\<rparr>)" for sp
    by (simp add: ReadModules_def cmd_simps)
  moreover have "module_ids m = Map.empty" using False by (auto simp: module_ids_def split: option.splits json.splits)
  ultimately show ?thesis by (intro exI [of _ "[]"]) simp
qed

lemma ReadModules_fails:
  assumes "\<not> modules_readable m"
  shows "\<exists>e sp'. ReadModules (JObject m) ''otherModuleIds'' sp = (Inl e, sp')"
proof -
  from assms obtain om where om: "map_of m ''otherModuleIds'' = Some (JObject om)"
    "\<not> list_all (\<lambda>k. \<not> isl (asUInt (jget (JObject om) k))) (sm_keys om)"
    by (auto simp: modules_readable_def split: option.splits json.splits)
  from cfor_modules_fails [OF om(2)] om(1) show ?thesis by (simp add: ReadModules_def cmd_simps)
qed

lemma cfor_map:
  assumes "set ks \<subseteq> dom (map_of om)"
  shows "\<exists>g. (\<forall>sp. cfor (ReadMap_entry (JObject om)) ks sp = (Inr (), handlerParametersMap_update g sp)) \<and>
    (\<forall>r. map_of (g r) = (\<lambda>k. if k \<in> set ks then map_of om k else map_of r k))"
  using assms
proof (induction ks)
  case Nil
  show ?case by (rule exI [of _ "\<lambda>r. r"]) (simp add: cmd_simps)
next
  case (Cons k ks)
  from Cons.prems obtain v where v: "map_of om k = Some v" by auto
  then have "ReadMap_entry (JObject om) k sp = (Inr (), handlerParametersMap_update (sm_put k v) sp)" for sp
    by (simp add: ReadMap_entry_def cmd_simps)
  moreover from Cons obtain g where
    "\<forall>sp. cfor (ReadMap_entry (JObject om)) ks sp = (Inr (), handlerParametersMap_update g sp)"
    "\<forall>r. map_of (g r) = (\<lambda>k. if k \<in> set ks then map_of om k else map_of r k)" by auto
  ultimately show ?case
    using v by (intro exI [of _ "g \<circ> sm_put k v"]) (auto simp: cseq_def cbind_def comp_def fun_eq_iff)
qed

lemma ReadMap_ok:
  "\<exists>r. (\<forall>sp. ReadMap (JObject m) ''handlers'' sp = (Inr (), sp\<lparr>handlerParametersMap := r\<rparr>)) \<and>
    map_of r = handler_parameters m"
proof (cases "\<exists>om. map_of m ''handlers'' = Some (JObject om)")
  case True
  then obtain om where om: "map_of m ''handlers'' = Some (JObject om)" by blast
  obtain g where g:
    "\<forall>sp. cfor (ReadMap_entry (JObject om)) (sm_keys om) sp = (Inr (), handlerParametersMap_update g sp)"
    "\<forall>r. map_of (g r) = (\<lambda>k. if k \<in> set (sm_keys om) then map_of om k else map_of r k)"
    using cfor_map [of "sm_keys om" om] by (auto simp: set_sm_keys)
  with om have "ReadMap (JObject m) ''handlers'' sp = (Inr (), sp\<lparr>handlerParametersMap := g []\<rparr>)" for sp
    by (simp add: ReadMap_def cmd_simps)
  moreover have "map_of (g []) = handler_parameters m"
    using g(2) om by (auto simp: handler_parameters_def fun_eq_iff set_sm_keys domIff)
  ultimately show ?thesis by blast
next
  case False
  then have "\<not> isObject (jget (JObject m) ''handlers'')" by (auto simp: isObject_iff split: option.splits)
  then have "ReadMap (JObject m) ''handlers'' sp = (Inr (), sp\<lparr>handlerParametersMap := []\<rparr>)" for sp
    by (simp add: ReadMap_def cmd_simps)
  moreover have "handler_parameters m = Map.empty"
    using False by (auto simp: handler_parameters_def split: option.splits json.splits)
  ultimately show ?thesis by (intro exI [of _ "[]"]) simp
qed

text \<open>The settings a configuration object stands for; \<open>om\<close> and \<open>hm\<close> are the two maps read from it.\<close>

definition settings_of :: "string \<Rightarrow> json smap \<Rightarrow> int smap \<Rightarrow> json smap \<Rightarrow> ServiceParameters" where
  "settings_of rootPath m om hm = 
      \<lparr>textLogFilesPath = MakePathAbsolute rootPath (string_setting m ''textLogFilesPath'' ''''),
       pluginManifestsPath = MakePathAbsolute rootPath (string_setting m ''pluginManifestsPath'' ''''),
       pluginsDataPath = MakePathAbsolute rootPath (string_setting m ''pluginsDataPath'' ''DMData''),
       sasExpiryInterval = uint_setting m ''sasExpiryInterval'' 86400,
       sasRenewalGracePeriod = uint_setting m ''sasRenewalGracePeriod'' 3600,
       dpsIsEnabled = bool_setting m ''dpsEnabled'' True, dpsUri = string_setting m ''dpsUri'' '''',
       dpsScopeId = string_setting m ''dpsScopeId'' '''', deviceSlotNumber = uint_setting m ''deviceSlotNumber'' 0,
       dmModuleSlotNumber = uint_setting m ''dmModuleSlotNumber'' 0,
       connectionString = string_setting m ''connectionString'' '''',
       dmModuleId = string_setting m ''dmModuleId'' ''WindowsIoTDM'',
       azureInterfaceType = string_setting m ''azureInterfaceType'' ''raw'',
       otherModules = om, handlerParametersMap = hm,
       validDpsScopeId = (string_setting m ''dpsScopeId'' '''' \<noteq> '''')\<rparr>"

lemma read_into_Inr: "read_into (Inr v) upd sp = (Inr (), upd v sp)"
  by (simp add: read_into_def cmd_simps)

lemma cseq_Inr: "m s = (Inr x, s') \<Longrightarrow> cseq m n s = n s'"
  by (simp add: cseq_def cbind_def)

lemma cmod_apply: "cmod f s = (Inr (), f s)"
  by (simp add: cmod_def)

lemma SetDpsScopeId_eq: "SetDpsScopeId s sp = sp\<lparr>dpsScopeId := s, validDpsScopeId := (s \<noteq> [])\<rparr>"
  by (simp add: SetDpsScopeId_def Let_def)

lemma Load_settings:
  assumes "modules_readable m"
  shows "\<exists>om hm. map_of om = module_ids m \<and> map_of hm = handler_parameters m \<and>
    (\<forall>n. map_of n ''otherModuleIds'' = map_of m ''otherModuleIds'' \<longrightarrow>
      map_of n ''handlers'' = map_of m ''handlers'' \<longrightarrow>
      Load rootPath (Some (JObject n)) None None sp = (Inr (), settings_of rootPath n om hm))"
proof -
  from ReadModules_ok [OF assms] obtain om where
    R0: "\<And>sp. ReadModules (JObject m) ''otherModuleIds'' sp = (Inr (), sp\<lparr>otherModules := om\<rparr>)"
    and om: "map_of om = module_ids m" by metis
  from ReadMap_ok obtain hm where
    H0: "\<And>sp. ReadMap (JObject m) ''handlers'' sp = (Inr (), sp\<lparr>handlerParametersMap := hm\<rparr>)"
    and hm: "map_of hm = handler_parameters m" by metis
  note reads = ReadJsonString_setting ReadJsonBoolean_setting ReadJsonUInt_setting
  have tpm: "ReadTPMSlotNumbers None (JObject n) sp = (Inr (),
      sp\<lparr>deviceSlotNumber := uint_setting n ''deviceSlotNumber'' 0,
         dmModuleSlotNumber := uint_setting n ''dmModuleSlotNumber'' 0\<rparr>)" for n sp
    by (simp add: ReadTPMSlotNumbers_def reads cseq_Inr [OF read_into_Inr] read_into_Inr)
  have dps: "ReadDPSScopeId None (JObject n) sp =
      (Inr (), SetDpsScopeId (string_setting n ''dpsScopeId'' '''') sp)" for n sp
    by (simp add: ReadDPSScopeId_def reads read_into_Inr)
  have "Load rootPath (Some (JObject n)) None None sp = (Inr (), settings_of rootPath n om hm)"
    if "map_of n ''otherModuleIds'' = map_of m ''otherModuleIds''" "map_of n ''handlers'' = map_of m ''handlers''" for n
  proof -
    have R: "ReadModules (JObject n) ''otherModuleIds'' sp = (Inr (), sp\<lparr>otherModules := om\<rparr>)" for sp
      using R0 that(1) by (simp add: ReadModules_def)
    have H: "ReadMap (JObject n) ''handlers'' sp = (Inr (), sp\<lparr>handlerParametersMap := hm\<rparr>)" for sp
      using H0 that(2) by (simp add: ReadMap_def)
    show ?thesis
      unfolding settings_of_def Load_def option.case reads
      by (cases sp) (simp add: cseq_Inr [OF read_into_Inr] cseq_Inr [OF cmod_apply] cseq_Inr [OF tpm]
        cseq_Inr [OF dps] cseq_Inr [OF R] H SetDpsScopeId_eq)
  qed
  then show ?thesis using om hm by blast
qed

lemma Load_fails:
  assumes "\<not> modules_readable m"
  shows "\<exists>e sp'. Load rootPath (Some (JObject m)) None None sp = (Inl e, sp')"
proof -
  note reads = ReadJsonString_setting ReadJsonBoolean_setting ReadJsonUInt_setting
  have tpm: "ReadTPMSlotNumbers None (JObject m) sp = (Inr (),
      sp\<lparr>deviceSlotNumber := uint_setting m ''deviceSlotNumber'' 0,
         dmModuleSlotNumber := uint_setting m ''dmModuleSlotNumber'' 0\<rparr>)" for sp
    by (simp add: ReadTPMSlotNumbers_def reads cseq_Inr [OF read_into_Inr] read_into_Inr)
  have dps: "ReadDPSScopeId None (JObject m) sp =
      (Inr (), SetDpsScopeId (string_setting m ''dpsScopeId'' '''') sp)" for sp
    by (simp add: ReadDPSScopeId_def reads read_into_Inr)
  have fails: "\<exists>e sp'. cseq (ReadModules (JObject m) ''otherModuleIds'') n sp = (Inl e, sp')" for n sp
    using ReadModules_fails [OF assms, of sp] by (auto simp: cseq_def cbind_def)
  show ?thesis
    unfolding Load_def option.case reads
    by (simp only: cseq_Inr [OF read_into_Inr] cseq_Inr [OF cmod_apply] cseq_Inr [OF tpm] cseq_Inr [OF dps] fails)
qed

lemma settings_after_Save:
  "settings_of rootPath (sm_put ''dpsScopeId'' (JString s) m) om hm = SetDpsScopeId s (settings_of rootPath m om hm)"
  "modules_readable (sm_put ''dpsScopeId'' v m) = modules_readable m"
  by (simp_all add: settings_of_def string_setting_def uint_setting_def bool_setting_def
    modules_readable_def SetDpsScopeId_eq)

lemma Save_object: "Save (Some (JObject m)) sp = Inr (Some (JObject (sm_put ''dpsScopeId'' (JString (dpsScopeId sp)) m)))"
  by (simp add: Save_def)

section \<open>PluginManifest\<close>

record HandlerConfiguration =
  hc_id :: string
  hc_dependencies :: "string list"

definition HandlerConfiguration_new :: "json \<Rightarrow> HandlerConfiguration res" where
  "HandlerConfiguration_new value =
     rbind (json_at value ''id'') (\<lambda>handlerIdSetting.
       if isNull handlerIdSetting \<or> \<not> isString handlerIdSetting
       then Inl (DMExc DeviceAgent DM_ERROR_PLUGIN_MANIFEST_MISSING_CODE_PUBLISH
         ''Invalid json schema - plug-in manifest file missing attribute `id`.'')
       else rbind (asString handlerIdSetting) (\<lambda>i.
            rbind (json_at value ''dependencyList'') (\<lambda>dependencyList.
              if \<not> isNull dependencyList
              then (case dependencyList of
                      JArray ds \<Rightarrow> rbind (rmap asString ds) (\<lambda>deps.
                        Inr \<lparr>hc_id = i, hc_dependencies = deps\<rparr>)
                    | _ \<Rightarrow> Inl (DMExc DeviceAgent DM_ERROR_PLUGIN_MANIFEST_MISSING_CODE_DEVICES
                        ''Invalid json schema - plug-in manifest contains 'dependencyList', but is not an Array.''))
              else Inr \<lparr>hc_id = i, hc_dependencies = []\<rparr>)))"

record PluginManifest =
  codeFileName :: string
  isDirect :: bool
  isOutOfProc :: bool
  keepAliveTime :: int
  agentPluginProtocolVersion :: string
  handlerInfoList :: "HandlerConfiguration smap"

definition manifest_check :: "json \<Rightarrow> string \<Rightarrow> (json \<Rightarrow> bool) \<Rightarrow> int \<Rightarrow> string \<Rightarrow> json res" where
  "manifest_check value name is_type code message =
     rbind (json_at value name) (\<lambda>v.
       if isNull v \<or> \<not> is_type v then Inl (DMExc DeviceAgent code message) else Inr v)"

definition FromJson_handler :: "json \<Rightarrow> (PluginManifest, unit) cmd" where
  "FromJson_handler v =
     cbind (clift (HandlerConfiguration_new v)) (\<lambda>handlerInfo.
       cmod (handlerInfoList_update (sm_put (hc_id handlerInfo) handlerInfo)))"

text \<open>The two last blocks of \<open>FromJsonFile\<close>: the process settings and the handlers.\<close>

definition FromJson_keepAlive :: "json \<Rightarrow> (PluginManifest, unit) cmd" where
  "FromJson_keepAlive value =
     cbind (clift (manifest_check value ''keepAliveTime'' isInt DM_PLUGIN_ERROR_MANIFEST_MISSING_KEEPALIVE_ATTRIBUTE
       ''Invalid json schema - plug-in manifest file missing attribute `keepAliveTime` or has an invalid type.'')) (\<lambda>v.
     cbind (clift (asInt v)) (\<lambda>t.
     cseq (cmod (keepAliveTime_update (\<lambda>_. t))) (
     if t < - 1 then cthrow (DMExc DeviceAgent DM_PLUGIN_ERROR_MANIFEST_INVALID_KEEPALIVE_ATTRIBUTE
       ''Invalid json schema - plug-in manifest file invalid attribute `keepAliveTime` value.'')
     else cret ())))"

definition FromJson_process :: "json \<Rightarrow> (PluginManifest, unit) cmd" where
  "FromJson_process value =
     cbind (clift (manifest_check value ''outOfProc'' isBool DM_PLUGIN_ERROR_MANIFEST_MISSING_OUTOFPROC_ATTRIBUTE
       ''Invalid json schema - plug-in manifest file missing attribute `outOfProc` or has an invalid type.'')) (\<lambda>v.
     cbind (clift (asBool v)) (\<lambda>outOfProc.
     cseq (cmod (isOutOfProc_update (\<lambda>_. outOfProc))) (
     cwhen outOfProc (FromJson_keepAlive value))))"

definition FromJson_handlers :: "json \<Rightarrow> (PluginManifest, unit) cmd" where
  "FromJson_handlers value =
     cbind (clift (json_at value ''handlers'')) (\<lambda>handlersSetting.
       if \<not> isNull handlersSetting
       then (case handlersSetting of
               JArray hs \<Rightarrow> cfor FromJson_handler hs
             | _ \<Rightarrow> cthrow (DMExc DeviceAgent DM_ERROR_PLUGIN_MANIFEST_MISSING_CODE_DEVICES
                 ''Invalid json schema - plug-in manifest contains 'handlers', but is not an Array.''))
       else cret ())"

text \<open>\<open>FromJsonFile\<close>, from the value \<open>ParseJSONFile\<close> returned (or the exception it threw).\<close>

definition FromJsonFile :: "json res \<Rightarrow> (PluginManifest, unit) cmd" where
  "FromJsonFile parsed =
     cbind (clift parsed) (\<lambda>value.
     if isNull value \<or> \<not> isObject value
     then cthrow (DMExc DeviceAgent DM_PLUGIN_ERROR_INVALID_MANIFEST_SCHEMA
       ''Invalid json schema - plug-in manifest file.'')
     else
     cbind (clift (manifest_check value ''codeFileName'' isString DM_PLUGIN_ERROR_MANIFEST_MISSING_CODE_FILENAME
       ''Invalid json schema - plug-in manifest file missing binary `file name`.'')) (\<lambda>v.
     cbind (clift (asString v)) (\<lambda>s.
     cseq (cmod (codeFileName_update (\<lambda>_. s))) (
     cbind (clift (manifest_check value ''agentPluginProtocolVersion'' isString
       DM_PLUGIN_ERROR_MANIFEST_MISSING_AGENT_PLUGIN_PROTOCOL_VERSION
       ''Invalid json schema - plug-in manifest file missing `agent-plugin protocol version` or has an invalid type.'')) (\<lambda>v.
     cbind (clift (asString v)) (\<lambda>s.
     cseq (cmod (agentPluginProtocolVersion_update (\<lambda>_. s))) (
     cbind (clift (manifest_check value ''direct'' isBool DM_PLUGIN_ERROR_MANIFEST_MISSING_DIRECT_ATTRIBUTE
       ''Invalid json schema - plug-in manifest file missing attribute `direct` or has an invalid type.'')) (\<lambda>v.
     cbind (clift (asBool v)) (\<lambda>direct.
     cseq (cmod (isDirect_update (\<lambda>_. direct))) (
     cseq (cwhen (\<not> direct) (FromJson_process value)) (FromJson_handlers value)))))))))))"

subsection \<open>The process settings\<close>

lemma cbind_clift_Inr: "cbind (clift r) f s = (Inr x, s') \<longleftrightarrow> (\<exists>v. r = Inr v \<and> f v s = (Inr x, s'))"
  by (cases r) (auto simp: cbind_def clift_def)

lemma cseq_cmod_apply: "cseq (cmod f) n s = n (f s)"
  by (simp add: cseq_def cbind_def cmod_def)

lemma cseq_Inr_iff: "cseq m n s = (Inr x, s') \<longleftrightarrow> (\<exists>y t. m s = (Inr y, t) \<and> n t = (Inr x, s'))"
  by (auto simp: cseq_def cbind_def split: prod.splits sum.splits)

text \<open>A part of the manifest that reading the handlers does not touch.\<close>

lemma FromJson_handlers_keeps:
  "(\<And>f m. K (handlerInfoList_update f m) = K m) \<Longrightarrow> preserves (\<lambda>m. K m = k) (FromJson_handlers v)"
  unfolding FromJson_handlers_def FromJson_handler_def
  by (intro preserves_intros) (auto split: json.split intro!: preserves_intros simp: fun_eq_iff)

definition process_fields :: "PluginManifest \<Rightarrow> bool \<times> bool \<times> int" where
  "process_fields m = (isDirect m, isOutOfProc m, keepAliveTime m)"

lemma cwhen_Inr: "cwhen b c m = (Inr (), m') \<longleftrightarrow> (if b then c m = (Inr (), m') else m' = m)"
  by (auto simp: cwhen_def cret_def)

lemma guard_Inr: "(if c then cthrow e else k) m = (Inr x, m') \<longleftrightarrow> \<not> c \<and> k m = (Inr x, m')"
  by (simp add: cthrow_def)

lemma FromJson_process_fields:
  assumes "FromJson_process v m = (Inr (), m')"
  shows "isDirect m' = isDirect m \<and>
    (if isOutOfProc m' then - 1 \<le> keepAliveTime m' else keepAliveTime m' = keepAliveTime m)"
proof -
  from assms obtain b where
    "if b then FromJson_keepAlive v (isOutOfProc_update (\<lambda>_. b) m) = (Inr (), m') else m' = isOutOfProc_update (\<lambda>_. b) m"
    unfolding FromJson_process_def cbind_clift_Inr cseq_cmod_apply cwhen_Inr by blast
  then show ?thesis
    unfolding FromJson_keepAlive_def cbind_clift_Inr cseq_cmod_apply guard_Inr by (cases b) (auto simp: cret_def)
qed

section \<open>Properties\<close>

text \<open>
  After any \<open>Load\<close>, also one that an exception cut short, waiting for the DPS scope id
  returns exactly when the scope id is not empty.
\<close>

theorem WaitDpsScopeId_after_Load:
  assumes "scope_event_inv sp"
  shows "WaitDpsScopeId (snd (Load rootPath f reg slot sp)) = Some () \<longleftrightarrow>
    dpsScopeId (snd (Load rootPath f reg slot sp)) \<noteq> []"
  using preservesD [OF Load_keeps_scope_event assms]
  by (simp add: scope_event_inv_def WaitDpsScopeId_def)

theorem WaitDpsScopeId_after_Load_witness:
  "WaitDpsScopeId (snd (Load ''C:'' (Some (JObject [(''dpsScopeId'', JString ''0ne'')])) None None ServiceParameters_new))
     = Some () \<longleftrightarrow>
   dpsScopeId (snd (Load ''C:'' (Some (JObject [(''dpsScopeId'', JString ''0ne'')])) None None ServiceParameters_new)) \<noteq> []"
  by (rule WaitDpsScopeId_after_Load) simp

text \<open>
  C30: reading a configuration file (release build) takes every setting for what it is worth: a
  text, a boolean or a 32-bit unsigned number (also one written as a double without fraction)
  is taken over, and a setting that is missing or of another type or range gets its default;
  the three paths are made absolute, the modules and the handlers' parameters are exactly
  those of their objects, and nothing of the parameters before remains.  \<open>Load\<close> throws
  exactly when the slot of another module is nothing that converts to an unsigned number.
\<close>

theorem Load_reads_settings:
  "if modules_readable m
   then \<exists>om hm. map_of om = module_ids m \<and> map_of hm = handler_parameters m \<and>
     Load rootPath (Some (JObject m)) None None sp = (Inr (),
      \<lparr>textLogFilesPath = MakePathAbsolute rootPath (string_setting m ''textLogFilesPath'' ''''),
       pluginManifestsPath = MakePathAbsolute rootPath (string_setting m ''pluginManifestsPath'' ''''),
       pluginsDataPath = MakePathAbsolute rootPath (string_setting m ''pluginsDataPath'' ''DMData''),
       sasExpiryInterval = uint_setting m ''sasExpiryInterval'' 86400,
       sasRenewalGracePeriod = uint_setting m ''sasRenewalGracePeriod'' 3600,
       dpsIsEnabled = bool_setting m ''dpsEnabled'' True, dpsUri = string_setting m ''dpsUri'' '''',
       dpsScopeId = string_setting m ''dpsScopeId'' '''', deviceSlotNumber = uint_setting m ''deviceSlotNumber'' 0,
       dmModuleSlotNumber = uint_setting m ''dmModuleSlotNumber'' 0,
       connectionString = string_setting m ''connectionString'' '''',
       dmModuleId = string_setting m ''dmModuleId'' ''WindowsIoTDM'',
       azureInterfaceType = string_setting m ''azureInterfaceType'' ''raw'',
       otherModules = om, handlerParametersMap = hm,
       validDpsScopeId = (string_setting m ''dpsScopeId'' '''' \<noteq> '''')\<rparr>)
   else \<exists>e sp'. Load rootPath (Some (JObject m)) None None sp = (Inl e, sp')"
proof (cases "modules_readable m")
  case True
  then show ?thesis using Load_settings [OF True, of rootPath sp] unfolding settings_of_def by auto
qed (simp add: Load_fails)

theorem Load_reads_settings_witness:
  "\<exists>p. Load ''C:'' (Some (JObject [(''sasExpiryInterval'', JReal (Dbl 60 0 ''60.0'')),
       (''sasRenewalGracePeriod'', JInt (- 5))])) None None ServiceParameters_new = (Inr (), p) \<and>
     sasExpiryInterval p = 60 \<and> sasRenewalGracePeriod p = 3600"
proof -
  let ?m = "[(''sasExpiryInterval'', JReal (Dbl 60 0 ''60.0'')), (''sasRenewalGracePeriod'', JInt (- 5))]"
  have "modules_readable ?m" by (simp add: modules_readable_def)
  then obtain p where "Load ''C:'' (Some (JObject ?m)) None None ServiceParameters_new = (Inr (), p)"
    "sasExpiryInterval p = uint_setting ?m ''sasExpiryInterval'' 86400"
    "sasRenewalGracePeriod p = uint_setting ?m ''sasRenewalGracePeriod'' 3600"
    using Load_reads_settings [of ?m "''C:''" ServiceParameters_new] by auto
  moreover have "uint_setting ?m ''sasExpiryInterval'' 86400 = 60" "uint_setting ?m ''sasRenewalGracePeriod'' 3600 = 3600"
    by (simp_all add: uint_setting_def)
  ultimately show ?thesis by auto
qed

text \<open>
  C29: saving the parameters and loading the file again yields the parameters that loading
  the original file yields, with the saved scope id in place: the settings other than the
  scope id, and the members the agent does not know, are untouched.
\<close>

theorem Save_then_Load:
  assumes "modules_readable m" and "Save (Some (JObject m)) sp = Inr (Some j)"
  shows "\<exists>p. Load rootPath (Some (JObject m)) None None sp' = (Inr (), p) \<and>
    Load rootPath (Some j) None None sp' = (Inr (), SetDpsScopeId (dpsScopeId sp) p) \<and>
    (\<forall>k. k \<noteq> ''dpsScopeId'' \<longrightarrow> json_at j k = json_at (JObject m) k)"
proof -
  have j: "j = JObject (sm_put ''dpsScopeId'' (JString (dpsScopeId sp)) m)"
    using assms(2) by (simp add: Save_object)
  obtain om hm where load: "\<forall>n. map_of n ''otherModuleIds'' = map_of m ''otherModuleIds'' \<longrightarrow>
      map_of n ''handlers'' = map_of m ''handlers'' \<longrightarrow>
      Load rootPath (Some (JObject n)) None None sp' = (Inr (), settings_of rootPath n om hm)"
    using Load_settings [OF assms(1)] by blast
  from load [rule_format, of m] load [rule_format, of "sm_put ''dpsScopeId'' (JString (dpsScopeId sp)) m"]
  show ?thesis by (auto simp: j settings_after_Save(1))
qed

theorem Save_then_Load_witness:
  "\<exists>q. Load ''C:'' (Some (JObject [(''dpsScopeId'', JString ''0ne'')])) None None (SetDpsScopeId ''0ne'' ServiceParameters_new) =
     (Inr (), q)"
  using Save_then_Load [of "[]" "SetDpsScopeId ''0ne'' ServiceParameters_new" "JObject [(''dpsScopeId'', JString ''0ne'')]" "''C:''"]
  by (auto simp: modules_readable_def Save_def SetDpsScopeId_eq)

text \<open>
  A plug-in manifest that is accepted with \<open>direct: false, outOfProc: true\<close> has a
  keep-alive time of at least -1; for a direct plug-in the process settings are never
  assigned, and for an in-process one the keep-alive time is not.
\<close>

theorem manifest_process_settings:
  assumes "FromJsonFile parsed m = (Inr (), m')"
  shows "if isDirect m' then isOutOfProc m' = isOutOfProc m \<and> keepAliveTime m' = keepAliveTime m
    else if isOutOfProc m' then - 1 \<le> keepAliveTime m' else keepAliveTime m' = keepAliveTime m"
proof -
  from assms obtain v a b d where
    "cseq (cwhen (\<not> d) (FromJson_process v)) (FromJson_handlers v)
       (isDirect_update (\<lambda>_. d) (agentPluginProtocolVersion_update (\<lambda>_. b) (codeFileName_update (\<lambda>_. a) m))) = (Inr (), m')"
    unfolding FromJsonFile_def cbind_clift_Inr guard_Inr cseq_cmod_apply by blast
  moreover define m1 where
    "m1 = isDirect_update (\<lambda>_. d) (agentPluginProtocolVersion_update (\<lambda>_. b) (codeFileName_update (\<lambda>_. a) m))"
  ultimately obtain m2 where proc: "cwhen (\<not> d) (FromJson_process v) m1 = (Inr (), m2)"
    and handlers: "FromJson_handlers v m2 = (Inr (), m')"
    unfolding cseq_Inr_iff by auto
  have start: "isDirect m1 = d" "isOutOfProc m1 = isOutOfProc m" "keepAliveTime m1 = keepAliveTime m"
    by (simp_all add: m1_def)
  have "preserves (\<lambda>m. process_fields m = k) (FromJson_handlers v)" for k
    by (rule FromJson_handlers_keeps) (simp add: process_fields_def)
  from preservesD [OF this refl, of m2] have "process_fields m' = process_fields m2" using handlers by simp
  moreover have "isDirect m2 = isDirect m1 \<and> (if isDirect m1 then m2 = m1
      else if isOutOfProc m2 then - 1 \<le> keepAliveTime m2 else keepAliveTime m2 = keepAliveTime m1)"
    using proc FromJson_process_fields [of v m1 m2] start(1) by (cases d) (auto simp: cwhen_Inr)
  ultimately show ?thesis using start by (auto simp: process_fields_def split: if_splits)
qed

definition sample_manifest :: json where
  "sample_manifest = JObject [(''agentPluginProtocolVersion'', JString ''1.0.0''), (''codeFileName'', JString ''a.dll''),
     (''direct'', JBool False), (''keepAliveTime'', JInt 30), (''outOfProc'', JBool True)]"

definition PluginManifest_blank :: PluginManifest where
  "PluginManifest_blank = \<lparr>codeFileName = [], isDirect = False, isOutOfProc = False, keepAliveTime = 0,
     agentPluginProtocolVersion = [], handlerInfoList = []\<rparr>"

theorem manifest_process_settings_witness:
  "\<exists>m'. FromJsonFile (Inr sample_manifest) PluginManifest_blank = (Inr (), m') \<and> - 1 \<le> keepAliveTime m'"
proof -
  have "FromJsonFile (Inr sample_manifest) PluginManifest_blank = (Inr (),
      \<lparr>codeFileName = ''a.dll'', isDirect = False, isOutOfProc = True, keepAliveTime = 30,
       agentPluginProtocolVersion = ''1.0.0'', handlerInfoList = []\<rparr>)"
    by (simp add: FromJsonFile_def FromJson_process_def FromJson_keepAlive_def FromJson_handlers_def manifest_check_def sample_manifest_def
      PluginManifest_blank_def int_limits cmd_simps)
  from manifest_process_settings [OF this] this show ?thesis by simp
qed

end
