(* ===== verification/Raw_Host.thy ===== *)
theory Raw_Host
  imports Static_Handlers Dependency_Sort Service_Params
begin

text \<open>
  \<open>AzureRawHost\<close> (device-agent/agent/Raw/AzureRawHost.cpp): the object that keeps the
  registered handlers, dispatches desired properties and direct methods to them, and sends
  what they report to the IoT hub.  The hub SDK and the dynamically loaded handlers are not
  part of the repository's agent: the SDK's results are a stream in the state, a dynamic
  handler is a record of its virtual functions.
\<close>

section \<open>What the host lets its handlers reach\<close>

text \<open>
  \<open>hubResults n\<close> is the result of the \<open>n\<close>-th call of the SDK (0 is \<open>IOTHUB_CLIENT_OK\<close>);
  \<open>sentReports\<close> and \<open>sentEvents\<close> are what the SDK accepted; \<open>deviceClient\<close> and
  \<open>moduleClient\<close> are the two client handles, 0 the null handle, and \<open>destroyedClients\<close> lists
  the handles that were given back to the SDK.
\<close>

record hostcore = world +
  summary :: ReportedSummary
  deviceClient :: nat
  moduleClient :: nat
  destroyedClients :: "nat list"
  hubResults :: "nat \<Rightarrow> int"
  hubCalls :: nat
  sentReports :: "string list"
  sentEvents :: "(string \<times> string \<times> string) list"
  notifications :: bool

definition hub_call :: "('x hostcore_scheme, int) cmd" where
  "hub_call = (\<lambda>w. (Inr (hubResults w (hubCalls w)), w\<lparr>hubCalls := Suc (hubCalls w)\<rparr>))"

definition hub_throw :: "int \<Rightarrow> string \<Rightarrow> ('x hostcore_scheme, unit) cmd" where
  "hub_throw result msg = (if result \<noteq> 0 then cthrow (DMExc IotHub result msg) else cret ())"

definition ReportAll_text :: "string \<Rightarrow> ('x hostcore_scheme, unit) cmd" where
  "ReportAll_text text =
     cbind (cget deviceClient) (\<lambda>device.
     cbind (cget moduleClient) (\<lambda>module.
     if device \<noteq> 0 then
       cbind hub_call (\<lambda>result.
       cseq (hub_throw result ''IoTHubDeviceClient_SendReportedState failed!'')
         (cmod (sentReports_update (\<lambda>l. l @ [text]))))
     else if module \<noteq> 0 then
       cbind hub_call (\<lambda>result.
       cseq (hub_throw result ''IoTHubModuleClient_SendReportedState failed!'')
         (cmod (sentReports_update (\<lambda>l. l @ [text]))))
     else cret ()))"

definition ReportAll :: "json \<Rightarrow> ('x hostcore_scheme, unit) cmd" where
  "ReportAll v = cbind (cget (\<lambda>w. styled w v)) ReportAll_text"

definition Report :: "string \<Rightarrow> DeploymentStatus \<Rightarrow> json \<Rightarrow> ('x hostcore_scheme, unit) cmd" where
  "Report hid st value =
     cseq (cmod (summary_update (SetSectionStatus hid st))) (
     cbind (cget summary) (\<lambda>rs.
     cbind (ReportedSummary_ToJsonObject rs) (\<lambda>j.
     ReportAll (jobj [(summaryId rs, j), (hid, value)]))))"

text \<open>
  \<open>SendEvent\<close> never throws: every failure is only logged.  Creating the message is a call
  of the SDK too, a non-zero result standing for a null handle.
\<close>

definition SendEvent :: "string \<Rightarrow> string \<Rightarrow> json \<Rightarrow> ('x hostcore_scheme, unit) cmd" where
  "SendEvent hid eventName messageData =
     cbind (cget (\<lambda>w. styled w messageData)) (\<lambda>messageString.
     cbind hub_call (\<lambda>created.
     if created = 0 then
       let sent = (c_str eventName, c_str hid, c_str messageString);
           send = cbind hub_call (\<lambda>result.
             if result = 0 then cmod (sentEvents_update (\<lambda>l. l @ [sent])) else cret ())
       in cbind (cget deviceClient) (\<lambda>device.
          cbind (cget moduleClient) (\<lambda>module. cseq (cwhen (device \<noteq> 0) send) (cwhen (module \<noteq> 0) send)))
     else cret ()))"

definition raw_host_if :: "'x hostcore_scheme IRawHandlerHost" where
  "raw_host_if = \<lparr>hi_Report = Report, hi_SendEvent = SendEvent\<rparr>"

definition EnableIoTHubNotifications :: "bool \<Rightarrow> ('x hostcore_scheme, unit) cmd" where
  "EnableIoTHubNotifications enable =
     cbind (cget deviceClient) (\<lambda>device.
     cbind (cget moduleClient) (\<lambda>module.
     if device \<noteq> 0 then
       cbind hub_call (\<lambda>r1. cseq (hub_throw r1 ''IoTHubDeviceClient_SetDeviceMethodCallback failed!'') (
       cbind hub_call (\<lambda>r2. cseq (hub_throw r2 ''IoTHubDeviceClient_SetDeviceTwinCallback failed!'')
         (cmod (notifications_update (\<lambda>_. enable))))))
     else if module \<noteq> 0 then
       cbind hub_call (\<lambda>r1. cseq (hub_throw r1 ''IoTHubModuleClient_SetModuleMethodCallback failed!'') (
       cbind hub_call (\<lambda>r2. cseq (hub_throw r2 ''IoTHubModuleClient_SetModuleTwinCallback failed!'')
         (cmod (notifications_update (\<lambda>_. enable))))))
     else cret ()))"

section \<open>Handlers\<close>

text \<open>The virtual functions of a dynamically created \<open>IRawHandler\<close> with state \<open>'d\<close>.\<close>

record ('w, 'd) IRawHandler =
  rh_GetId :: "'d \<Rightarrow> string"
  rh_IsConfigured :: "'d \<Rightarrow> bool res"
  rh_GetReportedSchema :: "'d \<Rightarrow> ReportedSchema res"
  rh_GetDeploymentStatusJson :: "'d \<Rightarrow> json res"
  rh_Start :: "json \<Rightarrow> ('d \<times> 'w, bool) cmd"
  rh_Stop :: "('d \<times> 'w, unit) cmd"
  rh_OnConnectionStatusChanged :: "ConnectionStatus \<Rightarrow> ('d \<times> 'w, unit) cmd"
  rh_SetDeploymentStatus :: "DeploymentStatus \<Rightarrow> ('d \<times> 'w, unit) cmd"
  rh_Invoke :: "json \<Rightarrow> ('d \<times> 'w, InvokeResult) cmd"
  rh_SetHandlerHost :: "'w IRawHandlerHost option \<Rightarrow> ('d \<times> 'w, unit) cmd"

text \<open>The object behind a \<open>shared_ptr<IRawHandler>\<close>; \<open>NullObj\<close> is the null pointer.\<close>

datatype ('x, 'd) handler_obj =
    ClearReportedObj "'x hostcore_scheme HandlerBase"
  | DeviceSchemasObj "'x hostcore_scheme DeviceSchemasHandler"
  | DynamicObj 'd
  | NullObj

datatype RawHandlerState = eInactive | eActive

record ('x, 'd) RawHandlerInfo =
  state :: RawHandlerState
  rawHandler :: "('x, 'd) handler_obj"
  dependencies :: "string list"

record ('x, 'd) AzureRawHost =
  rawHandlerMap :: "('x, 'd) RawHandlerInfo smap"
  rawHandlerSequence :: "string list"
  serviceParameters :: ServiceParameters
  core :: "'x hostcore_scheme"

subsection \<open>Virtual calls\<close>

type_synonym ('x, 'd, 'a) obj_cmd =
  "('x, 'd) handler_obj \<times> 'x hostcore_scheme \<Rightarrow> 'a res \<times> ('x, 'd) handler_obj \<times> 'x hostcore_scheme"

definition with_ctx ::
    "('h \<Rightarrow> ('x, 'd) handler_obj) \<Rightarrow> (('h, 'x hostcore_scheme) ctx, 'a) cmd \<Rightarrow> 'h \<Rightarrow> 'x hostcore_scheme \<Rightarrow>
     'a res \<times> ('x, 'd) handler_obj \<times> 'x hostcore_scheme" where
  "with_ctx wrap m h w = (case m (ctx_new h w) of (r, c) \<Rightarrow> (r, wrap (this c), wld c))"

definition with_dyn ::
    "('d \<times> 'x hostcore_scheme, 'a) cmd \<Rightarrow> 'd \<Rightarrow> 'x hostcore_scheme \<Rightarrow>
     'a res \<times> ('x, 'd) handler_obj \<times> 'x hostcore_scheme" where
  "with_dyn m d w = (case m (d, w) of (r, d', w') \<Rightarrow> (r, DynamicObj d', w'))"

fun obj_GetId :: "('x hostcore_scheme, 'd) IRawHandler \<Rightarrow> ('x, 'd) handler_obj \<Rightarrow> string" where
  "obj_GetId ops (ClearReportedObj h) = handlerId h"
| "obj_GetId ops (DeviceSchemasObj h) = handlerId h"
| "obj_GetId ops (DynamicObj d) = rh_GetId ops d"
| "obj_GetId ops NullObj = ''''"

fun obj_view :: "('x hostcore_scheme, 'd) IRawHandler \<Rightarrow> ('x, 'd) handler_obj \<Rightarrow> handler_view" where
  "obj_view ops (ClearReportedObj h) = view_of h"
| "obj_view ops (DeviceSchemasObj h) = view_of h"
| "obj_view ops (DynamicObj d) =
     \<lparr>hv_id = rh_GetId ops d, hv_configured = rh_IsConfigured ops d, hv_schema = rh_GetReportedSchema ops d\<rparr>"
| "obj_view ops NullObj = \<lparr>hv_id = '''', hv_configured = Inl Terminate, hv_schema = Inl Terminate\<rparr>"

text \<open>The map the schema handler looks at: its own entry is the handler object itself.\<close>

definition map_views ::
    "('x hostcore_scheme, 'd) IRawHandler \<Rightarrow> ('x, 'd) RawHandlerInfo smap \<Rightarrow>
     'x hostcore_scheme DeviceSchemasHandler \<Rightarrow> (string \<times> handler_view) list" where
  "map_views ops m self =
     map (\<lambda>(k, info). (k, case rawHandler info of
       DeviceSchemasObj _ \<Rightarrow> view_of self | h \<Rightarrow> obj_view ops h)) m"

fun obj_SetDeploymentStatus ::
    "('x hostcore_scheme, 'd) IRawHandler \<Rightarrow> DeploymentStatus \<Rightarrow> ('x, 'd, unit) obj_cmd" where
  "obj_SetDeploymentStatus ops st (ClearReportedObj h, w) =
     with_ctx ClearReportedObj (HandlerBase_SetDeploymentStatus st) h w"
| "obj_SetDeploymentStatus ops st (DeviceSchemasObj h, w) =
     with_ctx DeviceSchemasObj (HandlerBase_SetDeploymentStatus st) h w"
| "obj_SetDeploymentStatus ops st (DynamicObj d, w) = with_dyn (rh_SetDeploymentStatus ops st) d w"
| "obj_SetDeploymentStatus ops st (NullObj, w) = (Inl Terminate, NullObj, w)"

fun obj_GetDeploymentStatusJson ::
    "('x hostcore_scheme, 'd) IRawHandler \<Rightarrow> ('x, 'd) handler_obj \<Rightarrow> json res" where
  "obj_GetDeploymentStatusJson ops (ClearReportedObj h) = Inr (deploymentStatusJson h)"
| "obj_GetDeploymentStatusJson ops (DeviceSchemasObj h) = Inr (deploymentStatusJson h)"
| "obj_GetDeploymentStatusJson ops (DynamicObj d) = rh_GetDeploymentStatusJson ops d"
| "obj_GetDeploymentStatusJson ops NullObj = Inl Terminate"

fun obj_Start ::
    "('x hostcore_scheme, 'd) IRawHandler \<Rightarrow> json \<Rightarrow> ('x, 'd, bool) obj_cmd" where
  "obj_Start ops config (ClearReportedObj h, w) = with_ctx ClearReportedObj (ClearReported_Start config) h w"
| "obj_Start ops config (DeviceSchemasObj h, w) = with_ctx DeviceSchemasObj (DeviceSchemas_Start config) h w"
| "obj_Start ops config (DynamicObj d, w) = with_dyn (rh_Start ops config) d w"
| "obj_Start ops config (NullObj, w) = (Inl Terminate, NullObj, w)"

fun obj_Stop :: "('x hostcore_scheme, 'd) IRawHandler \<Rightarrow> ('x, 'd, unit) obj_cmd" where
  "obj_Stop ops (ClearReportedObj h, w) = with_ctx ClearReportedObj HandlerBase_Stop h w"
| "obj_Stop ops (DeviceSchemasObj h, w) = with_ctx DeviceSchemasObj HandlerBase_Stop h w"
| "obj_Stop ops (DynamicObj d, w) = with_dyn (rh_Stop ops) d w"
| "obj_Stop ops (NullObj, w) = (Inl Terminate, NullObj, w)"

fun obj_SetHandlerHost ::
    "('x hostcore_scheme, 'd) IRawHandler \<Rightarrow> 'x hostcore_scheme IRawHandlerHost option \<Rightarrow>
     ('x, 'd, unit) obj_cmd" where
  "obj_SetHandlerHost ops host (ClearReportedObj h, w) =
     with_ctx ClearReportedObj (HandlerBase_SetHandlerHost host) h w"
| "obj_SetHandlerHost ops host (DeviceSchemasObj h, w) =
     with_ctx DeviceSchemasObj (HandlerBase_SetHandlerHost host) h w"
| "obj_SetHandlerHost ops host (DynamicObj d, w) = with_dyn (rh_SetHandlerHost ops host) d w"
| "obj_SetHandlerHost ops host (NullObj, w) = (Inl Terminate, NullObj, w)"

fun obj_OnConnectionStatusChanged ::
    "('x hostcore_scheme, 'd) IRawHandler \<Rightarrow>
     ('x hostcore_scheme DeviceSchemasHandler \<Rightarrow> (string \<times> handler_view) list) \<Rightarrow>
     ConnectionStatus \<Rightarrow> ('x, 'd, unit) obj_cmd" where
  "obj_OnConnectionStatusChanged ops views st (ClearReportedObj h, w) =
     with_ctx ClearReportedObj (ClearReported_OnConnectionStatusChanged st) h w"
| "obj_OnConnectionStatusChanged ops views st (DeviceSchemasObj h, w) =
     with_ctx DeviceSchemasObj (DeviceSchemas_OnConnectionStatusChanged views st) h w"
| "obj_OnConnectionStatusChanged ops views st (DynamicObj d, w) =
     with_dyn (rh_OnConnectionStatusChanged ops st) d w"
| "obj_OnConnectionStatusChanged ops views st (NullObj, w) = (Inl Terminate, NullObj, w)"

fun obj_Invoke ::
    "('x hostcore_scheme, 'd) IRawHandler \<Rightarrow> string list \<Rightarrow>
     ('x hostcore_scheme DeviceSchemasHandler \<Rightarrow> (string \<times> handler_view) list) \<Rightarrow>
     json \<Rightarrow> ('x, 'd, InvokeResult) obj_cmd" where
  "obj_Invoke ops handlerIds views p (ClearReportedObj h, w) =
     with_ctx ClearReportedObj (ClearReported_Invoke (Some handlerIds) (Some ReportAll) p) h w"
| "obj_Invoke ops handlerIds views p (DeviceSchemasObj h, w) =
     with_ctx DeviceSchemasObj (DeviceSchemas_Invoke views p) h w"
| "obj_Invoke ops handlerIds views p (DynamicObj d, w) = with_dyn (rh_Invoke ops p) d w"
| "obj_Invoke ops handlerIds views p (NullObj, w) = (Inl Terminate, NullObj, w)"

text \<open>A call on the object of one entry of the map, and a command on the rest of the host.\<close>

definition at_handler ::
    "string \<Rightarrow> ('x, 'd, 'a) obj_cmd \<Rightarrow> (('x, 'd) AzureRawHost, 'a) cmd" where
  "at_handler k m = (\<lambda>host. case map_of (rawHandlerMap host) k of
       None \<Rightarrow> (Inl Terminate, host)
     | Some info \<Rightarrow> (case m (rawHandler info, core host) of
         (r, obj, w) \<Rightarrow> (r, host\<lparr>rawHandlerMap := sm_put k (info\<lparr>rawHandler := obj\<rparr>) (rawHandlerMap host),
                               core := w\<rparr>)))"

definition on_core :: "('x hostcore_scheme, 'a) cmd \<Rightarrow> (('x, 'd) AzureRawHost, 'a) cmd" where
  "on_core m = (\<lambda>host. case m (core host) of (r, w) \<Rightarrow> (r, host\<lparr>core := w\<rparr>))"

section \<open>The host\<close>

definition AzureRawHost_new :: "ServiceParameters \<Rightarrow> 'x hostcore_scheme \<Rightarrow> ('x, 'd) AzureRawHost" where
  "AzureRawHost_new sp w =
     \<lparr>rawHandlerMap = [], rawHandlerSequence = [], serviceParameters = sp,
      core = w\<lparr>summary := ReportedSummary_new, deviceClient := 0, moduleClient := 0\<rparr>\<rparr>"

definition BuildHandlerConfig :: "ServiceParameters \<Rightarrow> string \<Rightarrow> json res" where
  "BuildHandlerConfig sp hid =
     (let handlerConfig = jobj [(''textLogFilesPath'', JString (textLogFilesPath sp)),
                                (''pluginsDataPath'', JString (pluginsDataPath sp))]
      in case GetHandlerParameters hid sp of
           None \<Rightarrow> Inr handlerConfig
         | Some handlerParameters \<Rightarrow>
             rbind (getMemberNames handlerParameters) (\<lambda>keys.
               Inr (fold (\<lambda>key. jput key (jget handlerParameters key)) keys handlerConfig)))"

definition RegisterStaticHandler ::
    "('x hostcore_scheme, 'd) IRawHandler \<Rightarrow> ('x, 'd) handler_obj \<Rightarrow> (('x, 'd) AzureRawHost, unit) cmd" where
  "RegisterStaticHandler ops handler =
     cbind (cget rawHandlerMap) (\<lambda>m.
     if map_of m (obj_GetId ops handler) \<noteq> None then cret ()
     else cbind (on_core (\<lambda>w. case obj_SetHandlerHost ops (Some raw_host_if) (handler, w) of
                    (r, obj, w') \<Rightarrow> (case r of Inl e \<Rightarrow> Inl e | Inr _ \<Rightarrow> Inr obj, w'))) (\<lambda>obj.
          cmod (rawHandlerMap_update (sm_put (obj_GetId ops obj)
            \<lparr>state = eInactive, rawHandler = obj, dependencies = []\<rparr>))))"

definition RegisterStaticHandlers ::
    "('x hostcore_scheme, 'd) IRawHandler \<Rightarrow> (('x, 'd) AzureRawHost, unit) cmd" where
  "RegisterStaticHandlers ops =
     cbind (on_core ClearReportedCmdHandler_new) (\<lambda>h1.
     cseq (RegisterStaticHandler ops (ClearReportedObj h1)) (
     cbind (on_core DeviceSchemasHandler_new) (\<lambda>h2.
     RegisterStaticHandler ops (DeviceSchemasObj h2))))"

text \<open>\<open>create\<close> is the plug-in's \<open>CreateRawHandler\<close>.\<close>

definition RegisterDynamicHandler ::
    "('x hostcore_scheme, 'd) IRawHandler \<Rightarrow> (string \<Rightarrow> ('x hostcore_scheme, 'd) cmd) \<Rightarrow>
     string \<Rightarrow> string list \<Rightarrow> (('x, 'd) AzureRawHost, unit) cmd" where
  "RegisterDynamicHandler ops create hid deps =
     cbind (cget rawHandlerMap) (\<lambda>m.
     if map_of m hid \<noteq> None then cret ()
     else cbind (on_core (create hid)) (\<lambda>d.
          cbind (on_core (\<lambda>w. case rh_SetHandlerHost ops (Some raw_host_if) (d, w) of
                    (r, d', w') \<Rightarrow> (case r of Inl e \<Rightarrow> Inl e | Inr _ \<Rightarrow> Inr d', w'))) (\<lambda>d'.
          cmod (rawHandlerMap_update (sm_put hid
            \<lparr>state = eInactive, rawHandler = DynamicObj d', dependencies = deps\<rparr>)))))"

definition UnregisterDynamicHandler :: "string \<Rightarrow> (('x, 'd) AzureRawHost, unit) cmd" where
  "UnregisterDynamicHandler hid =
     cbind (cget rawHandlerMap) (\<lambda>m.
     if map_of m hid \<noteq> None then cmod (rawHandlerMap_update (sm_del hid)) else cret ())"

definition dependencies_of :: "('x, 'd) RawHandlerInfo smap \<Rightarrow> string list smap" where
  "dependencies_of m = map (\<lambda>(k, info). (k, dependencies info)) m"

definition HandlerInvokeSequence :: "(('x, 'd) AzureRawHost, unit) cmd" where
  "HandlerInvokeSequence =
     cbind (cget rawHandlerMap) (\<lambda>m.
     cbind (clift (sort_handlers (dependencies_of m))) (\<lambda>order.
     cmod (rawHandlerSequence_update (\<lambda>_. order))))"

definition GetHandlerIds :: "('x, 'd) AzureRawHost \<Rightarrow> string list" where
  "GetHandlerIds host = map fst (rawHandlerMap host)"

record InvokeHandlerResult =
  found :: bool
  active :: bool
  invokeResult :: InvokeResult

definition InvokeHandler ::
    "('x hostcore_scheme, 'd) IRawHandler \<Rightarrow> string \<Rightarrow> json \<Rightarrow> (('x, 'd) AzureRawHost, InvokeHandlerResult) cmd" where
  "InvokeHandler ops hid parametersJson =
     cbind (cget rawHandlerMap) (\<lambda>m.
     case map_of m hid of
       None \<Rightarrow> cret \<lparr>found = False, active = False, invokeResult = InvokeResult_new\<rparr>
     | Some info \<Rightarrow>
         if state info = eInactive
         then cret \<lparr>found = True, active = False, invokeResult = InvokeResult_new\<rparr>
         else ccatch
           (cbind (at_handler hid (obj_Invoke ops (map fst m) (map_views ops m) parametersJson))
              (\<lambda>r. cret \<lparr>found = True, active = True, invokeResult = r\<rparr>))
           (\<lambda>ex. cret \<lparr>found = True, active = True, invokeResult = InvokeResult_new\<rparr>))"

text \<open>
  One round of the loop of \<open>MarkStatus\<close>: \<open>rp\<close> is \<open>reportedProperties\<close>.  An exception of
  the handler marks its section \<open>eUnknown\<close>.
\<close>

definition mark_section ::
    "('x hostcore_scheme, 'd) IRawHandler \<Rightarrow> DeploymentStatus \<Rightarrow> string \<Rightarrow> json \<Rightarrow>
     (('x, 'd) AzureRawHost, json) cmd" where
  "mark_section ops st key rp =
     cbind (cget (\<lambda>host. map_of (rawHandlerMap host) key)) (\<lambda>entry.
     case entry of None \<Rightarrow> cret rp | Some info \<Rightarrow>
     let hid = obj_GetId ops (rawHandler info) in
     ccatch
       (cseq (on_core (cmod (summary_update (SetSectionStatus hid st)))) (
        cseq (at_handler key (obj_SetDeploymentStatus ops st)) (
        cbind (cget (\<lambda>host. case map_of (rawHandlerMap host) key of
            None \<Rightarrow> Inl Terminate | Some info' \<Rightarrow> obj_GetDeploymentStatusJson ops (rawHandler info'))) (\<lambda>r.
        cbind (clift r) (\<lambda>j. cret (jput hid j rp))))))
       (\<lambda>ex. cseq (on_core (cmod (summary_update (SetSectionStatus hid eUnknown))))
          (cret (jput hid (DeploymentStatusToJsonObject eUnknown) rp))))"

fun mark_loop ::
    "('x hostcore_scheme, 'd) IRawHandler \<Rightarrow> json \<Rightarrow> DeploymentStatus \<Rightarrow> string list \<Rightarrow> json \<Rightarrow>
     (('x, 'd) AzureRawHost, json) cmd" where
  "mark_loop ops desiredProperties st [] rp = cret rp"
| "mark_loop ops desiredProperties st (key # keys) rp =
     cbind (cget (\<lambda>host. map_of (rawHandlerMap host) key)) (\<lambda>entry.
     if entry = None then mark_loop ops desiredProperties st keys rp
     else cbind (clift (json_at desiredProperties key)) (\<lambda>desiredConfig.
       if isNull desiredConfig \<or> \<not> isObject desiredConfig
       then mark_loop ops desiredProperties st keys rp
       else cbind (mark_section ops st key rp) (mark_loop ops desiredProperties st keys)))"

definition MarkStatus ::
    "('x hostcore_scheme, 'd) IRawHandler \<Rightarrow> json \<Rightarrow> DeploymentStatus \<Rightarrow> (('x, 'd) AzureRawHost, unit) cmd" where
  "MarkStatus ops desiredProperties st =
     cbind (clift (getMemberNames desiredProperties)) (\<lambda>keys.
     cbind (mark_loop ops desiredProperties st keys (JObject [])) (\<lambda>rp.
     on_core (
       cbind (cget summary) (\<lambda>rs.
       cbind (ReportedSummary_ToJsonObject rs) (\<lambda>j.
       ReportAll (jput (summaryId rs) j rp))))))"

datatype DEVICE_TWIN_UPDATE_STATE = DEVICE_TWIN_UPDATE_COMPLETE | DEVICE_TWIN_UPDATE_PARTIAL

definition JsonObjectFromString :: "string \<Rightarrow> ('w world_scheme, json) cmd" where
  "JsonObjectFromString s =
     cbind (cget (\<lambda>w. parse w s)) (\<lambda>r.
       case r of Inl errorsList \<Rightarrow> cthrow (DMExc DeviceAgent DM_ERROR_INVALID_JSON errorsList)
               | Inr root \<Rightarrow> cret root)"

definition desired_of :: "DEVICE_TWIN_UPDATE_STATE \<Rightarrow> json \<Rightarrow> json" where
  "desired_of updateState root =
     (if updateState = DEVICE_TWIN_UPDATE_COMPLETE
      then (if HasKey root ''desired'' then jget root ''desired'' else JNull)
      else root)"

text \<open>
  \<open>assert\<close>: builds with \<open>NDEBUG\<close> leave it out, in the others a failing one ends the process.
\<close>

definition cassert :: "bool \<Rightarrow> bool \<Rightarrow> ('s, unit) cmd" where
  "cassert ndebug b = (if ndebug \<or> b then cret () else cthrow Terminate)"

definition apply_desired ::
    "('x hostcore_scheme, 'd) IRawHandler \<Rightarrow> bool \<Rightarrow> json \<Rightarrow> string list \<Rightarrow> string \<Rightarrow> (('x, 'd) AzureRawHost, unit) cmd" where
  "apply_desired ops ndebug desiredProperties keys handlerKey =
     (if handlerKey \<in> set keys
      then cbind (clift (json_at desiredProperties handlerKey)) (\<lambda>p.
           cbind (InvokeHandler ops handlerKey p) (\<lambda>result.
           cassert ndebug (found result \<and> active result \<longrightarrow> \<not> present (invokeResult result))))
      else cret ())"

definition OnDeviceTwinReceived ::
    "('x hostcore_scheme, 'd) IRawHandler \<Rightarrow> bool \<Rightarrow> DEVICE_TWIN_UPDATE_STATE \<Rightarrow> string \<Rightarrow>
     (('x, 'd) AzureRawHost, unit) cmd" where
  "OnDeviceTwinReceived ops ndebug updateState payload_text =
     cbind (on_core (JsonObjectFromString payload_text)) (\<lambda>root.
     let desiredProperties = desired_of updateState root in
     cseq (MarkStatus ops desiredProperties ePending) (
     cbind (clift (getMemberNames desiredProperties)) (\<lambda>keys.
     cbind (cget rawHandlerSequence) (\<lambda>sequence.
     cbind (cget rawHandlerMap) (\<lambda>m.
     if length sequence = 0 \<and> length m \<noteq> 0
     then MarkStatus ops desiredProperties eFailed
     else cfor (apply_desired ops ndebug desiredProperties keys) sequence)))))"

text \<open>
  \<open>OnDirectMethodInvoked\<close> returns the status and the response buffer, \<open>None\<close> when
  \<open>malloc\<close> fails.
\<close>

definition direct_reply :: "InvokeHandlerResult \<Rightarrow> int \<times> string" where
  "direct_reply result =
     (if \<not> found result then (400, ''{ \"message\": \"Handler not found.\" }'')
      else if \<not> active result then (400, ''{ \"message\": \"Handler not active.\" }'')
      else (code (invokeResult result), payload (invokeResult result)))"

definition OnDirectMethodInvoked ::
    "('x hostcore_scheme, 'd) IRawHandler \<Rightarrow> bool \<Rightarrow> bool \<Rightarrow> string \<Rightarrow> string \<Rightarrow>
     (('x, 'd) AzureRawHost, int \<times> string option) cmd" where
  "OnDirectMethodInvoked ops ndebug malloc_ok methodName payload_text =
     cbind (on_core (JsonObjectFromString payload_text)) (\<lambda>parametersJson.
     cbind (InvokeHandler ops methodName parametersJson) (\<lambda>result.
     cseq (cassert ndebug (found result \<and> active result \<longrightarrow> present (invokeResult result)))
       (cret (if \<not> malloc_ok then (- 1, None)
           else (fst (direct_reply result), Some (snd (direct_reply result)))))))"

definition set_state :: "string \<Rightarrow> RawHandlerState \<Rightarrow> ('x, 'd) AzureRawHost \<Rightarrow> ('x, 'd) AzureRawHost" where
  "set_state k st host =
     (case map_of (rawHandlerMap host) k of None \<Rightarrow> host
      | Some info \<Rightarrow> host\<lparr>rawHandlerMap := sm_put k (info\<lparr>state := st\<rparr>) (rawHandlerMap host)\<rparr>)"

definition start_handler ::
    "('x hostcore_scheme, 'd) IRawHandler \<Rightarrow> string \<Rightarrow> (('x, 'd) AzureRawHost, unit) cmd" where
  "start_handler ops k =
     cbind (cget (\<lambda>host. case map_of (rawHandlerMap host) k of
       None \<Rightarrow> '''' | Some info \<Rightarrow> obj_GetId ops (rawHandler info))) (\<lambda>hid.
     ccatch
       (cbind (cget (\<lambda>host. BuildHandlerConfig (serviceParameters host) hid)) (\<lambda>r.
        cbind (clift r) (\<lambda>handlerConfig.
        cbind (at_handler k (obj_Start ops handlerConfig)) (\<lambda>b.
        cmod (set_state k (if b then eActive else eInactive))))))
       (\<lambda>ex. cret ()))"

definition SignalStart :: "('x hostcore_scheme, 'd) IRawHandler \<Rightarrow> (('x, 'd) AzureRawHost, unit) cmd" where
  "SignalStart ops = cbind (cget GetHandlerIds) (cfor (start_handler ops))"

definition SignalStop :: "('x hostcore_scheme, 'd) IRawHandler \<Rightarrow> (('x, 'd) AzureRawHost, unit) cmd" where
  "SignalStop ops = cbind (cget GetHandlerIds) (cfor (\<lambda>k. at_handler k (obj_Stop ops)))"

definition SignalConnectionStatusChanged ::
    "('x hostcore_scheme, 'd) IRawHandler \<Rightarrow> ConnectionStatus \<Rightarrow> (('x, 'd) AzureRawHost, unit) cmd" where
  "SignalConnectionStatusChanged ops st =
     cbind (cget GetHandlerIds) (cfor (\<lambda>k.
       cbind (cget rawHandlerMap) (\<lambda>m.
       if map_option state (map_of m k) \<noteq> Some eActive then cret ()
       else ccatch (at_handler k (obj_OnConnectionStatusChanged ops (map_views ops m) st)) (\<lambda>ex. cret ()))))"

text \<open>\<open>destroy_client get set\<close>: destroy the handle and forget it, unless it is null.\<close>

definition destroy_client ::
    "('x hostcore_scheme \<Rightarrow> nat) \<Rightarrow> ((nat \<Rightarrow> nat) \<Rightarrow> 'x hostcore_scheme \<Rightarrow> 'x hostcore_scheme) \<Rightarrow>
     'x hostcore_scheme \<Rightarrow> 'x hostcore_scheme" where
  "destroy_client get_handle upd w =
     (if get_handle w \<noteq> 0
      then upd (\<lambda>_. 0) (w\<lparr>destroyedClients := destroyedClients w @ [get_handle w]\<rparr>) else w)"

definition Destroy :: "('x hostcore_scheme, 'd) IRawHandler \<Rightarrow> (('x, 'd) AzureRawHost, unit) cmd" where
  "Destroy ops =
     cseq (cbind (cget GetHandlerIds) (cfor (\<lambda>k.
       cseq (at_handler k (obj_SetHandlerHost ops None))
         (at_handler k (\<lambda>(obj, w). (Inr (), NullObj, w))))))
       (on_core (cmod (\<lambda>w. destroy_client moduleClient moduleClient_update
          (destroy_client deviceClient deviceClient_update w))))"

definition InitializeDeviceConnection :: "nat \<Rightarrow> ('x, 'd) AzureRawHost \<Rightarrow> ('x, 'd) AzureRawHost" where
  "InitializeDeviceConnection clientHandle host = host\<lparr>core := (core host)\<lparr>deviceClient := clientHandle\<rparr>\<rparr>"

definition InitializeModuleConnection :: "nat \<Rightarrow> ('x, 'd) AzureRawHost \<Rightarrow> ('x, 'd) AzureRawHost" where
  "InitializeModuleConnection moduleHandle host = host\<lparr>core := (core host)\<lparr>moduleClient := moduleHandle\<rparr>\<rparr>"

definition SetServiceParameters :: "ServiceParameters \<Rightarrow> ('x, 'd) AzureRawHost \<Rightarrow> ('x, 'd) AzureRawHost" where
  "SetServiceParameters sp host = host\<lparr>serviceParameters := sp\<rparr>"

end
