(* ===== verification/Host_Dispatch.thy ===== *)
theory Host_Dispatch
  imports Raw_Host
begin

text \<open>
  What \<open>AzureRawHost\<close> guarantees: the calls it makes on one handler leave the others alone,
  an absent or inactive handler is never called, the sections it marks and the reports it
  sends, and the order in which the desired state reaches the handlers.
\<close>

section \<open>Frame: what a call on a handler leaves alone\<close>

definition shape :: "('x, 'd) AzureRawHost \<Rightarrow> (string \<times> RawHandlerState \<times> string list) list" where
  "shape host = map (\<lambda>(k, info). (k, state info, dependencies info)) (rawHandlerMap host)"

definition host_wf :: "('x, 'd) AzureRawHost \<Rightarrow> bool" where
  "host_wf host \<longleftrightarrow> sm_wf (rawHandlerMap host)"

lemma map_sm_put: "map (\<lambda>(k, v). (k, f v)) (sm_put k v m) = sm_put k (f v) (map (\<lambda>(k, v). (k, f v)) m)"
  by (induction m) auto

lemma shape_update:
  assumes "host_wf host" and "map_of (rawHandlerMap host) k = Some info"
  shows "shape (host\<lparr>rawHandlerMap := sm_put k (info\<lparr>rawHandler := obj\<rparr>) (rawHandlerMap host), core := w\<rparr>) =
    shape host"
proof -
  let ?f = "\<lambda>info :: ('a, 'b) RawHandlerInfo. (state info, dependencies info)"
  have e: "shape h = map (\<lambda>(k, v). (k, ?f v)) (rawHandlerMap h)" for h :: "('a, 'b) AzureRawHost"
    by (simp add: shape_def)
  have "map_of (map (\<lambda>(k, v). (k, ?f v)) (rawHandlerMap host)) k = Some (?f info)"
    using assms(2) by (simp add: map_of_map_value [where f = ?f])
  moreover have "sm_wf (map (\<lambda>(k, v). (k, ?f v)) (rawHandlerMap host))"
    using assms(1) by (simp add: host_wf_def sm_wf_map_value [where f = ?f])
  ultimately show ?thesis
    by (simp add: e map_sm_put [where f = ?f] sm_put_same)
qed

text \<open>
  \<open>host_frame s sq sp\<close>: the handler map has the shape \<open>s\<close> (keys, states, dependencies) and
  the sequence and the parameters are the given ones.
\<close>

definition host_frame ::
    "(string \<times> RawHandlerState \<times> string list) list \<Rightarrow> string list \<Rightarrow> ServiceParameters \<Rightarrow>
     ('x, 'd) AzureRawHost \<Rightarrow> bool" where
  "host_frame s sq sp host \<longleftrightarrow>
     host_wf host \<and> shape host = s \<and> rawHandlerSequence host = sq \<and> serviceParameters host = sp"

lemma preserves_at_handler [preserves_intros]: "preserves (host_frame s sq sp) (at_handler k m)"
  by (rule preservesI)
    (auto simp: at_handler_def host_frame_def shape_update, simp_all add: host_wf_def shape_update
      split: option.splits prod.splits)

lemma preserves_on_core [preserves_intros]: "preserves (host_frame s sq sp) (on_core m)"
  by (rule preservesI) (simp add: on_core_def host_frame_def host_wf_def shape_def split: prod.splits)

lemma preserves_InvokeHandler [preserves_intros]: "preserves (host_frame s sq sp) (InvokeHandler ops k p)"
  unfolding InvokeHandler_def
  by (intro preserves_intros) (auto split: option.split intro!: preserves_intros)

lemma preserves_mark_section [preserves_intros]:
  "preserves (host_frame s sq sp) (mark_section ops st key rp)"
  unfolding mark_section_def
  by (intro preserves_intros) (auto split: option.split simp: Let_def intro!: preserves_intros)

lemma preserves_mark_loop [preserves_intros]:
  "preserves (host_frame s sq sp) (mark_loop ops desired st keys rp)"
  by (induction keys arbitrary: rp) (auto intro!: preserves_intros)

lemma preserves_MarkStatus [preserves_intros]: "preserves (host_frame s sq sp) (MarkStatus ops desired st)"
  unfolding MarkStatus_def by (intro preserves_intros)

lemma preserves_cassert [preserves_intros]: "preserves I (cassert ndebug b)"
  unfolding cassert_def by (intro preserves_intros)

lemma preserves_apply_desired [preserves_intros]:
  "preserves (host_frame s sq sp) (apply_desired ops ndebug desired keys k)"
  unfolding apply_desired_def by (intro preserves_intros)

lemma preserves_OnDeviceTwinReceived [preserves_intros]:
  "preserves (host_frame s sq sp) (OnDeviceTwinReceived ops ndebug u t)"
  unfolding OnDeviceTwinReceived_def Let_def by (intro preserves_intros)

lemma preserves_OnDirectMethodInvoked [preserves_intros]:
  "preserves (host_frame s sq sp) (OnDirectMethodInvoked ops ndebug b n t)"
  unfolding OnDirectMethodInvoked_def by (intro preserves_intros)

lemma shape_map_of: "map_of (shape host) k = map_option (\<lambda>i. (state i, dependencies i)) (map_of (rawHandlerMap host) k)"
  unfolding shape_def by (rule map_of_map_value)

lemma shape_state:
  "shape host = shape host' \<Longrightarrow>
     map_option state (map_of (rawHandlerMap host) k) = map_option state (map_of (rawHandlerMap host') k)"
  using shape_map_of [of host k] shape_map_of [of host' k]
  by (cases "map_of (rawHandlerMap host) k"; cases "map_of (rawHandlerMap host') k") auto

section \<open>Dispatch\<close>

lemma InvokeHandler_missing:
  "map_of (rawHandlerMap host) k = None \<Longrightarrow>
     InvokeHandler ops k p host = (Inr \<lparr>found = False, active = False, invokeResult = InvokeResult_new\<rparr>, host)"
  by (simp add: InvokeHandler_def cmd_simps)

lemma InvokeHandler_inactive:
  "map_of (rawHandlerMap host) k = Some info \<Longrightarrow> state info = eInactive \<Longrightarrow>
     InvokeHandler ops k p host = (Inr \<lparr>found = True, active = False, invokeResult = InvokeResult_new\<rparr>, host)"
  by (simp add: InvokeHandler_def cmd_simps)

lemma InvokeHandler_active:
  assumes "map_of (rawHandlerMap host) k = Some info" and "state info = eActive"
    and "obj_Invoke ops (map fst (rawHandlerMap host)) (map_views ops (rawHandlerMap host)) p
           (rawHandler info, core host) = (r, obj, w)"
  shows "InvokeHandler ops k p host =
    (case r of
       Inr ir \<Rightarrow> Inr \<lparr>found = True, active = True, invokeResult = ir\<rparr>
     | Inl e \<Rightarrow> if catchable e then Inr \<lparr>found = True, active = True, invokeResult = InvokeResult_new\<rparr>
               else Inl e,
     host\<lparr>rawHandlerMap := sm_put k (info\<lparr>rawHandler := obj\<rparr>) (rawHandlerMap host), core := w\<rparr>)"
  using assms by (simp add: InvokeHandler_def at_handler_def cmd_simps split: sum.splits)

lemma quiet_InvokeHandler: "quiet (InvokeHandler ops k p)"
  unfolding InvokeHandler_def
  by (intro quiet_intros) (auto split: option.split intro!: quiet_intros)

section \<open>What a report does\<close>

definition attached :: "'x hostcore_scheme \<Rightarrow> bool" where
  "attached w \<longleftrightarrow> deviceClient w \<noteq> 0 \<or> moduleClient w \<noteq> 0"

lemma ReportAll_ok:
  assumes "ReportAll v w = (Inr (), w')"
  shows "w' = (if attached w
    then w\<lparr>hubCalls := Suc (hubCalls w), sentReports := sentReports w @ [styled w v]\<rparr> else w)"
    and "attached w \<Longrightarrow> hubResults w (hubCalls w) = 0"
  using assms
  by (auto simp: ReportAll_def ReportAll_text_def hub_call_def hub_throw_def attached_def cmd_simps
    split: if_splits)

lemma ReportAll_exn:
  "ReportAll v w = (Inl e, w') \<Longrightarrow>
     \<exists>msg. e = DMException ''IotHub'' (hubResults w (hubCalls w)) msg \<and> w' = w\<lparr>hubCalls := Suc (hubCalls w)\<rparr>"
  by (auto simp: ReportAll_def ReportAll_text_def hub_call_def hub_throw_def cmd_simps split: if_splits)

lemma ReportAll_summary: "summary (snd (ReportAll v w)) = summary w"
  by (simp add: ReportAll_def ReportAll_text_def hub_call_def hub_throw_def cmd_simps)

text \<open>A report is sent together with the summary that already counts it.\<close>

lemma Report_ok:
  assumes "Report hid st v w = (Inr (), w')"
  shows "summary w' = SetSectionStatus hid st (summary w)"
    and "attached w \<Longrightarrow> sentReports w' = sentReports w @
      [styled w (jobj [(summaryId (summary w), summary_object (SetSectionStatus hid st (summary w))
          (GetCurrentDateTimeString (times w (tick w)))), (hid, v)])]"
proof -
  let ?rs = "SetSectionStatus hid st (summary w)"
  let ?w = "(summary_update (SetSectionStatus hid st) w)\<lparr>tick := Suc (tick w)\<rparr>"
  let ?v = "jobj [(summaryId ?rs, summary_object ?rs (GetCurrentDateTimeString (times w (tick w)))), (hid, v)]"
  from assms have r: "ReportAll ?v ?w = (Inr (), w')"
    by (simp add: Report_def ReportedSummary_ToJsonObject_def now_def cmd_simps)
  have i: "summaryId ?rs = summaryId (summary w)" by (simp add: SetSectionStatus_def)
  from ReportAll_summary [of ?v ?w] r show "summary w' = ?rs" by simp
  assume "attached w"
  then have "attached ?w" by (simp add: attached_def)
  with ReportAll_ok(1) [OF r] show "sentReports w' = sentReports w @
      [styled w (jobj [(summaryId (summary w), summary_object ?rs
          (GetCurrentDateTimeString (times w (tick w)))), (hid, v)])]"
    by (simp add: i)
qed

lemma GetSectionStatus_Set [simp]:
  "GetSectionStatus k (SetSectionStatus k' st rs) = (if k = k' then Inr st else GetSectionStatus k rs)"
  by (simp add: GetSectionStatus_def SetSectionStatus_def)

lemma quiet_SendEvent: "quiet (SendEvent hid n v)"
  unfolding SendEvent_def hub_call_def cwhen_def Let_def
  by (intro quiet_intros) (auto simp: quiet_def cmd_simps)

section \<open>The handlers the agent registers itself\<close>

lemma handler_base_calls:
  "iPluginHost (this (snd (HandlerBase_SetHandlerHost host c))) = host"
  "handlerId (this (snd (HandlerBase_SetHandlerHost host c))) = handlerId (this c)"
  by (simp_all add: HandlerBase_SetHandlerHost_def set_this_def cmd_simps)

lemma RegisterStaticHandler_static:
  assumes "map_of (rawHandlerMap host) (handlerId h) = None"
  shows "RegisterStaticHandler ops (ClearReportedObj h) host =
      (Inr (), host\<lparr>rawHandlerMap := sm_put (handlerId h)
         \<lparr>state = eInactive, rawHandler = ClearReportedObj (h\<lparr>iPluginHost := Some raw_host_if\<rparr>),
          dependencies = []\<rparr> (rawHandlerMap host)\<rparr>)"
  using assms
  by (simp add: RegisterStaticHandler_def on_core_def with_ctx_def ctx_new_def
    HandlerBase_SetHandlerHost_def set_this_def cmd_simps)

lemma RegisterStaticHandler_schemas:
  assumes "map_of (rawHandlerMap host) (handlerId h) = None"
  shows "RegisterStaticHandler ops (DeviceSchemasObj h) host =
      (Inr (), host\<lparr>rawHandlerMap := sm_put (handlerId h)
         \<lparr>state = eInactive, rawHandler = DeviceSchemasObj (h\<lparr>iPluginHost := Some raw_host_if\<rparr>),
          dependencies = []\<rparr> (rawHandlerMap host)\<rparr>)"
  using assms
  by (simp add: RegisterStaticHandler_def on_core_def with_ctx_def ctx_new_def
    HandlerBase_SetHandlerHost_def set_this_def cmd_simps)

lemma registered_is_kept:
  "map_of (rawHandlerMap host) (obj_GetId ops h) = Some info \<Longrightarrow> RegisterStaticHandler ops h host = (Inr (), host)"
  "map_of (rawHandlerMap host) k = Some info \<Longrightarrow> RegisterDynamicHandler ops create k deps host = (Inr (), host)"
  by (simp_all add: RegisterStaticHandler_def RegisterDynamicHandler_def cmd_simps)

text \<open>
  Invoking the registered \<open>clearReportedCmd\<close>: its section of the summary ends as
  succeeded or failed, and the method's code tells which.
\<close>

lemma ClearReported_dispatch:
  assumes entry: "map_of (rawHandlerMap host) k = Some info" "state info = eActive"
      "rawHandler info = ClearReportedObj h"
    and host_if: "iPluginHost h = Some raw_host_if"
    and nul: "CHR 0x00 \<notin> set (handlerId h)"
    and inv: "InvokeHandler ops k p host = (Inr res, host')"
  shows "present (invokeResult res) \<and>
    (code (invokeResult res) = 200 \<and> GetSectionStatus (handlerId h) (summary (core host')) = Inr eSucceeded \<or>
     code (invokeResult res) = 400 \<and> GetSectionStatus (handlerId h) (summary (core host')) = Inr eFailed)"
proof -
  let ?inv = "ClearReported_Invoke (Some (map fst (rawHandlerMap host))) (Some ReportAll) p"
  obtain r c where m: "?inv (ctx_new h (core host)) = (r, c)" by fastforce
  then have call: "obj_Invoke ops (map fst (rawHandlerMap host)) (map_views ops (rawHandlerMap host)) p
      (rawHandler info, core host) = (r, ClearReportedObj (this c), wld c)"
    by (simp add: entry(3) with_ctx_def)
  have r: "\<exists>ir. r = Inr ir"
  proof (cases r)
    case (Inl e)
    with m clearReported.invoke_quiet have "e = Terminate" by (metis fst_conv quiet_def)
    with Inl inv InvokeHandler_active [OF entry(1,2) call] show ?thesis by simp
  qed simp
  then obtain ir where ir: "r = Inr ir" by blast
  with inv InvokeHandler_active [OF entry(1,2) call]
  have res: "invokeResult res = ir" "core host' = wld c" by auto
  have host: "iPluginHost (this (ctx_new h (core host))) = Some raw_host_if"
    by (simp add: ctx_new_def host_if)
  note st = clearReported.invoke_status [OF m [unfolded ir] host]
  note code = clearReported.invoke_code [OF m [unfolded ir]]
  from st(4) obtain w where "Report (handlerId h) (deploymentStatus (metaData (this c))) (reported c) w =
      (Inr (), wld c)"
    by (auto simp: raw_host_if_def ctx_new_def c_str_clean [OF nul])
  from Report_ok(1) [OF this] st(1) have
    "GetSectionStatus (handlerId h) (summary (wld c)) = Inr (if errs c = [] then eSucceeded else eFailed)"
    by simp
  with code res show ?thesis
    by (auto simp: ClearReported_result_def InvokeResult_full_def Count_def split: if_splits)
qed

section \<open>Marking the desired sections\<close>

text \<open>
  What is relied on from a dynamic handler: being told a status does not change its id, report,
  or end the process.  It may well throw, as the proxy of a marshalled handler does for a status
  that has no name.
\<close>

definition marks_quietly :: "('x hostcore_scheme, 'd) IRawHandler \<Rightarrow> bool" where
  "marks_quietly ops \<longleftrightarrow>
     (\<forall>st d w. case rh_SetDeploymentStatus ops st (d, w) of (r, d', w') \<Rightarrow>
        r \<noteq> Inl Terminate \<and> rh_GetId ops d' = rh_GetId ops d \<and> summary w' = summary w) \<and>
     (\<forall>d. rh_GetDeploymentStatusJson ops d \<noteq> Inl Terminate)"

text \<open>A handler that takes a status, whatever the world, and one that throws at it.\<close>

definition status_taken ::
    "('x hostcore_scheme, 'd) IRawHandler \<Rightarrow> DeploymentStatus \<Rightarrow> ('x, 'd) handler_obj \<Rightarrow> 'x hostcore_scheme \<Rightarrow> bool" where
  "status_taken ops st h w = (case obj_SetDeploymentStatus ops st (h, w) of (r, h', w') \<Rightarrow>
     \<not> isl r \<and> \<not> isl (obj_GetDeploymentStatusJson ops h'))"

definition takes_status ::
    "('x hostcore_scheme, 'd) IRawHandler \<Rightarrow> DeploymentStatus \<Rightarrow> ('x, 'd) handler_obj \<Rightarrow> bool" where
  "takes_status ops st h \<longleftrightarrow> (\<forall>w. status_taken ops st h w)"

definition refuses_status ::
    "('x hostcore_scheme, 'd) IRawHandler \<Rightarrow> DeploymentStatus \<Rightarrow> ('x, 'd) handler_obj \<Rightarrow> bool" where
  "refuses_status ops st h \<longleftrightarrow> (\<forall>w. \<not> status_taken ops st h w)"

definition ids_ok :: "('x hostcore_scheme, 'd) IRawHandler \<Rightarrow> ('x, 'd) AzureRawHost \<Rightarrow> bool" where
  "ids_ok ops host \<longleftrightarrow> host_wf host \<and>
     (\<forall>k info. map_of (rawHandlerMap host) k = Some info \<longrightarrow>
        obj_GetId ops (rawHandler info) = k \<and> rawHandler info \<noteq> NullObj)"

text \<open>\<open>same_handlers\<close>: the same entries, in the same states, with the same ids.\<close>

definition same_handlers ::
    "('x hostcore_scheme, 'd) IRawHandler \<Rightarrow> ('x, 'd) AzureRawHost \<Rightarrow> ('x, 'd) AzureRawHost \<Rightarrow> bool" where
  "same_handlers ops host host' \<longleftrightarrow> ids_ok ops host' \<and> shape host' = shape host \<and>
     rawHandlerSequence host' = rawHandlerSequence host"

lemma same_handlers_refl: "ids_ok ops host \<Longrightarrow> same_handlers ops host host"
  by (simp add: same_handlers_def)

lemma same_handlers_trans:
  "same_handlers ops h1 h2 \<Longrightarrow> same_handlers ops h2 h3 \<Longrightarrow> same_handlers ops h1 h3"
  by (simp add: same_handlers_def)

lemma same_handlers_core:
  "same_handlers ops host (host\<lparr>core := w\<rparr>) \<longleftrightarrow> ids_ok ops host"
  by (simp add: same_handlers_def ids_ok_def host_wf_def shape_def)

lemma same_handlers_at:
  assumes "ids_ok ops host" and "map_of (rawHandlerMap host) k = Some info"
    and "obj_GetId ops obj = k" "obj \<noteq> NullObj"
  shows "same_handlers ops host
    (host\<lparr>rawHandlerMap := sm_put k (info\<lparr>rawHandler := obj\<rparr>) (rawHandlerMap host), core := w\<rparr>)"
  using assms shape_update [where host = host and k = k and info = info and obj = obj and w = w]
  by (auto simp: same_handlers_def ids_ok_def host_wf_def)

lemma registered_same:
  "same_handlers ops host host' \<Longrightarrow>
     (map_of (rawHandlerMap host') k = None) = (map_of (rawHandlerMap host) k = None)"
  using shape_map_of [of host k] shape_map_of [of host' k] by (auto simp: same_handlers_def)

text \<open>The agent's own two handlers take every status; any handler keeps its id and the summary.\<close>

lemma static_takes_status: "takes_status ops st (ClearReportedObj h)" "takes_status ops st (DeviceSchemasObj g)"
  by (simp_all add: takes_status_def status_taken_def with_ctx_def ctx_new_def HandlerBase_SetDeploymentStatus_def
      SetDeploymentStatus_def now_def on_world_def set_this_def cmd_simps)

lemma obj_SetDeploymentStatus_keeps:
  assumes "marks_quietly ops" and "h \<noteq> NullObj" and "obj_SetDeploymentStatus ops st (h, w) = (r, h', w')"
  shows "r \<noteq> Inl Terminate" "obj_GetId ops h' = obj_GetId ops h" "h' \<noteq> NullObj" "summary w' = summary w"
    "obj_GetDeploymentStatusJson ops h' \<noteq> Inl Terminate"
proof -
  have "r \<noteq> Inl Terminate \<and> obj_GetId ops h' = obj_GetId ops h \<and> h' \<noteq> NullObj \<and> summary w' = summary w \<and>
      obj_GetDeploymentStatusJson ops h' \<noteq> Inl Terminate"
  proof (cases h)
    case (DynamicObj d)
    obtain r1 d1 w1 where d: "rh_SetDeploymentStatus ops st (d, w) = (r1, d1, w1)" by (rule prod_cases3)
    note quietly = assms(1) [unfolded marks_quietly_def]
    have "r1 \<noteq> Inl Terminate \<and> rh_GetId ops d1 = rh_GetId ops d \<and> summary w1 = summary w"
      using conjunct1 [OF quietly, THEN spec, of st, THEN spec, of d, THEN spec, of w] d by simp
    moreover have "rh_GetDeploymentStatusJson ops d1 \<noteq> Inl Terminate"
      using conjunct2 [OF quietly] by blast
    ultimately show ?thesis using assms(3) d DynamicObj by (auto simp: with_dyn_def)
  qed (use assms(2,3) in \<open>auto simp: with_ctx_def ctx_new_def HandlerBase_SetDeploymentStatus_def
      SetDeploymentStatus_def now_def on_world_def set_this_def cmd_simps\<close>)
  then show "r \<noteq> Inl Terminate" "obj_GetId ops h' = obj_GetId ops h" "h' \<noteq> NullObj" "summary w' = summary w"
    "obj_GetDeploymentStatusJson ops h' \<noteq> Inl Terminate" by blast+
qed

text \<open>One section: marked when the handler takes the status, unknown when it throws.\<close>

definition marked_as :: "bool \<Rightarrow> DeploymentStatus \<Rightarrow> DeploymentStatus" where
  "marked_as taken st = (if taken then st else eUnknown)"

lemma mark_section_marks:
  assumes ops: "marks_quietly ops" and ids: "ids_ok ops host"
    and entry: "map_of (rawHandlerMap host) key = Some info"
  obtains j host' b where "mark_section ops st key rp host = (Inr (jput key j rp), host')"
    "same_handlers ops host host'"
    "\<And>k. GetSectionStatus k (summary (core host')) =
       (if k = key then Inr (marked_as b st) else GetSectionStatus k (summary (core host)))"
    "\<And>k. k \<noteq> key \<Longrightarrow> map_of (rawHandlerMap host') k = map_of (rawHandlerMap host) k"
    "takes_status ops st (rawHandler info) \<longrightarrow> b" "refuses_status ops st (rawHandler info) \<longrightarrow> \<not> b"
proof -
  let ?w = "summary_update (SetSectionStatus key st) (core host)"
  let ?b = "status_taken ops st (rawHandler info) ?w"
  from ids entry have hid: "obj_GetId ops (rawHandler info) = key" and null: "rawHandler info \<noteq> NullObj"
    by (auto simp: ids_ok_def)
  obtain r h' w' where set: "obj_SetDeploymentStatus ops st (rawHandler info, ?w) = (r, h', w')"
    by (rule prod_cases3)
  note keeps = obj_SetDeploymentStatus_keeps [OF ops null set]
  let ?host = "\<lambda>w. host\<lparr>rawHandlerMap := sm_put key (info\<lparr>rawHandler := h'\<rparr>) (rawHandlerMap host), core := w\<rparr>"
  let ?w2 = "summary_update (SetSectionStatus key eUnknown) w'"
  have same: "same_handlers ops host (?host w)" for w
    by (rule same_handlers_at [OF ids entry _ keeps(3)]) (simp add: keeps(2) hid)
  have catch: "catchable e" if "r = Inl e \<or> obj_GetDeploymentStatusJson ops h' = Inl e" for e
    using that keeps(1,5) by (cases e) auto
  have b: "takes_status ops st (rawHandler info) \<longrightarrow> ?b" "refuses_status ops st (rawHandler info) \<longrightarrow> \<not> ?b"
    by (simp_all add: takes_status_def refuses_status_def)
  show ?thesis
  proof (cases ?b)
    case True
    then obtain j where j: "r = Inr ()" "obj_GetDeploymentStatusJson ops h' = Inr j"
      using set by (cases r; cases "obj_GetDeploymentStatusJson ops h'") (auto simp: status_taken_def)
    have run: "mark_section ops st key rp host = (Inr (jput key j rp), ?host w')"
      using entry set j hid by (simp add: mark_section_def on_core_def at_handler_def cmd_simps)
    show ?thesis
      by (rule that [OF run same _ _ b]) (use True keeps(4) in \<open>auto simp: marked_as_def\<close>)
  next
    case False
    have run: "mark_section ops st key rp host =
        (Inr (jput key (DeploymentStatusToJsonObject eUnknown) rp), ?host ?w2)"
    proof (cases r)
      case (Inl e)
      with entry set hid catch [of e] show ?thesis
        by (simp add: mark_section_def on_core_def at_handler_def cmd_simps)
    next
      case (Inr u)
      with False set obtain e where "obj_GetDeploymentStatusJson ops h' = Inl e"
        by (cases "obj_GetDeploymentStatusJson ops h'") (auto simp: status_taken_def)
      with Inr entry set hid catch [of e] show ?thesis
        by (simp add: mark_section_def on_core_def at_handler_def cmd_simps)
    qed
    show ?thesis
      by (rule that [OF run same _ _ b]) (use False keeps(4) in \<open>auto simp: marked_as_def\<close>)
  qed
qed

definition marked :: "json smap \<Rightarrow> ('x, 'd) AzureRawHost \<Rightarrow> string \<Rightarrow> bool" where
  "marked m host k \<longleftrightarrow> map_of (rawHandlerMap host) k \<noteq> None \<and> isObject (jget (JObject m) k)"

lemma marked_same: "same_handlers ops host host' \<Longrightarrow> marked m host' k = marked m host k"
  by (simp add: marked_def registered_same)

lemma mark_loop_step:
  "mark_loop ops (JObject m) st (k # ks) rp host =
     (if marked m host k then cbind (mark_section ops st k rp) (mark_loop ops (JObject m) st ks) host
      else mark_loop ops (JObject m) st ks rp host)"
  by (auto simp: marked_def cmd_simps isNull_iff isObject_iff split: option.split)

text \<open>\<open>f\<close> tells which of the handlers took the status.\<close>

definition outcome_fits ::
    "('x hostcore_scheme, 'd) IRawHandler \<Rightarrow> DeploymentStatus \<Rightarrow> ('x, 'd) AzureRawHost \<Rightarrow> string list \<Rightarrow>
     (string \<Rightarrow> bool) \<Rightarrow> bool" where
  "outcome_fits ops st host ks f \<longleftrightarrow> (\<forall>k \<in> set ks. \<forall>info. map_of (rawHandlerMap host) k = Some info \<longrightarrow>
     (takes_status ops st (rawHandler info) \<longrightarrow> f k) \<and> (refuses_status ops st (rawHandler info) \<longrightarrow> \<not> f k))"

lemma mark_loop_marks:
  assumes "marks_quietly ops" and "ids_ok ops host" and "distinct ks"
  shows "\<exists>rp' host' f. mark_loop ops (JObject m) st ks rp host = (Inr rp', host') \<and>
    same_handlers ops host host' \<and> outcome_fits ops st host ks f \<and>
    (\<forall>k. GetSectionStatus k (summary (core host')) =
       (if k \<in> set ks \<and> marked m host k then Inr (marked_as (f k) st) else GetSectionStatus k (summary (core host))))"
  using assms(2,3)
proof (induction ks arbitrary: rp host)
  case Nil
  then show ?case by (simp add: cmd_simps same_handlers_refl outcome_fits_def)
next
  case (Cons k ks)
  show ?case
  proof (cases "marked m host k")
    case False
    from Cons.IH [OF Cons.prems(1), of rp] Cons.prems(2) obtain rp' host' f where
      IH: "mark_loop ops (JObject m) st ks rp host = (Inr rp', host')" "same_handlers ops host host'"
      "outcome_fits ops st host ks f"
      "\<forall>k. GetSectionStatus k (summary (core host')) =
         (if k \<in> set ks \<and> marked m host k then Inr (marked_as (f k) st) else GetSectionStatus k (summary (core host)))"
      by auto
    define g where "g = f(k := \<exists>info. map_of (rawHandlerMap host) k = Some info \<and> takes_status ops st (rawHandler info))"
    have "\<not> takes_status ops st h" if "refuses_status ops st h" for h
      using that by (simp add: takes_status_def refuses_status_def)
    then have "outcome_fits ops st host (k # ks) g"
      using IH(3) Cons.prems(2) by (auto simp: outcome_fits_def g_def)
    moreover have "GetSectionStatus i (summary (core host')) =
        (if i \<in> set (k # ks) \<and> marked m host i then Inr (marked_as (g i) st) else GetSectionStatus i (summary (core host)))" for i
      using IH(4) False by (auto simp: g_def)
    ultimately show ?thesis
      using IH(1,2) False by (auto simp: mark_loop_step simp del: mark_loop.simps)
  next
    case True
    then obtain info where info: "map_of (rawHandlerMap host) k = Some info" by (auto simp: marked_def)
    obtain j host1 b where one: "mark_section ops st k rp host = (Inr (jput k j rp), host1)"
      "same_handlers ops host host1"
      "\<And>i. GetSectionStatus i (summary (core host1)) =
         (if i = k then Inr (marked_as b st) else GetSectionStatus i (summary (core host)))"
      "\<And>i. i \<noteq> k \<Longrightarrow> map_of (rawHandlerMap host1) i = map_of (rawHandlerMap host) i"
      "takes_status ops st (rawHandler info) \<longrightarrow> b" "refuses_status ops st (rawHandler info) \<longrightarrow> \<not> b"
      using mark_section_marks [OF assms(1) Cons.prems(1) info] by metis
    from one(2) have "ids_ok ops host1" by (simp add: same_handlers_def)
    from Cons.IH [OF this, of "jput k j rp"] Cons.prems(2) obtain rp' host' f where
      rest: "mark_loop ops (JObject m) st ks (jput k j rp) host1 = (Inr rp', host')"
      "same_handlers ops host1 host'" "outcome_fits ops st host1 ks f"
      "\<forall>k. GetSectionStatus k (summary (core host')) =
         (if k \<in> set ks \<and> marked m host1 k then Inr (marked_as (f k) st) else GetSectionStatus k (summary (core host1)))"
      by auto
    define g where "g = f(k := b)"
    have k: "k \<notin> set ks" using Cons.prems(2) by simp
    have "outcome_fits ops st host (k # ks) g"
      using rest(3) one(4-6) info k by (auto simp: outcome_fits_def g_def)
    moreover have "GetSectionStatus i (summary (core host')) =
        (if i \<in> set (k # ks) \<and> marked m host i then Inr (marked_as (g i) st) else GetSectionStatus i (summary (core host)))" for i
      using rest(4) one(3) True k marked_same [OF one(2)] by (auto simp: g_def)
    moreover have "mark_loop ops (JObject m) st (k # ks) rp host = (Inr rp', host')"
      using one(1) rest(1) True by (simp add: mark_loop_step cbind_def del: mark_loop.simps)
    ultimately show ?thesis using same_handlers_trans [OF one(2) rest(2)] by blast
  qed
qed

text \<open>
  \<open>MarkStatus\<close> gives exactly the registered sections the desired object configures the
  new status, or the unknown one, whether or not the report then reaches the hub.
\<close>

lemma MarkStatus_marks:
  assumes "marks_quietly ops" and "ids_ok ops host" and "sm_wf m" and "MarkStatus ops (JObject m) st host = (r, host')"
  shows "\<exists>f. outcome_fits ops st host (sm_keys m) f \<and> (\<forall>k. GetSectionStatus k (summary (core host')) =
      (if k \<in> set (sm_keys m) \<and> marked m host k then Inr (marked_as (f k) st)
       else GetSectionStatus k (summary (core host))))"
    and "same_handlers ops host host'"
proof -
  have "distinct (sm_keys m)" using sm_wf_distinct [OF assms(3)] by (simp add: sm_keys_def)
  from mark_loop_marks [OF assms(1,2) this, of m st "JObject []"] obtain rp' host1 f where
    loop: "mark_loop ops (JObject m) st (sm_keys m) (JObject []) host = (Inr rp', host1)"
      "same_handlers ops host host1" "outcome_fits ops st host (sm_keys m) f"
      "\<forall>k. GetSectionStatus k (summary (core host1)) =
        (if k \<in> set (sm_keys m) \<and> marked m host k then Inr (marked_as (f k) st)
         else GetSectionStatus k (summary (core host)))"
    by blast
  let ?v = "jput (summaryId (summary (core host1)))
     (summary_object (summary (core host1)) (GetCurrentDateTimeString (times (core host1) (tick (core host1))))) rp'"
  let ?w1 = "(core host1)\<lparr>tick := Suc (tick (core host1))\<rparr>"
  obtain w where w: "ReportAll ?v ?w1 = (r, w)" and h': "host' = host1\<lparr>core := w\<rparr>"
    using assms(4) loop(1)
    by (auto simp: MarkStatus_def on_core_def ReportedSummary_ToJsonObject_def now_def cmd_simps
      split: prod.splits)
  have s: "summary w = summary (core host1)" using ReportAll_summary [of ?v ?w1] w by simp
  show "\<exists>f. outcome_fits ops st host (sm_keys m) f \<and> (\<forall>k. GetSectionStatus k (summary (core host')) =
      (if k \<in> set (sm_keys m) \<and> marked m host k then Inr (marked_as (f k) st)
       else GetSectionStatus k (summary (core host))))"
    using loop(3,4) by (intro exI [of _ f]) (simp add: h' s)
  show "same_handlers ops host host'"
    using loop(2) same_handlers_core [of ops host1 w] by (auto simp: h' same_handlers_def)
qed

section \<open>The order in which desired state is applied\<close>

definition active_entry :: "('x, 'd) AzureRawHost \<Rightarrow> string \<Rightarrow> bool" where
  "active_entry host k \<longleftrightarrow> map_option state (map_of (rawHandlerMap host) k) = Some eActive"

definition active_in :: "(string \<times> RawHandlerState \<times> string list) list \<Rightarrow> string \<Rightarrow> bool" where
  "active_in s k \<longleftrightarrow> map_option fst (map_of s k) = Some eActive"

lemma active_in_shape: "active_in (shape host) k = active_entry host k"
  by (cases "map_of (rawHandlerMap host) k") (simp_all add: active_in_def active_entry_def shape_map_of)

text \<open>A handler that is not active is not called.\<close>

lemma InvokeHandler_not_active:
  assumes "\<not> active_entry host k"
  shows "InvokeHandler ops k p host =
    (Inr \<lparr>found = (k \<in> dom (map_of (rawHandlerMap host))), active = False, invokeResult = InvokeResult_new\<rparr>, host)"
proof (cases "map_of (rawHandlerMap host) k")
  case None
  then show ?thesis by (simp add: InvokeHandler_missing domIff)
next
  case (Some info)
  with assms have "state info = eInactive" by (cases "state info") (simp_all add: active_entry_def)
  with Some show ?thesis by (simp add: InvokeHandler_inactive domI)
qed

text \<open>The call of an active handler in the loop over the sequence, with the assertion behind it.\<close>

definition twin_call ::
    "('x hostcore_scheme, 'd) IRawHandler \<Rightarrow> bool \<Rightarrow> string \<Rightarrow> json \<Rightarrow> (('x, 'd) AzureRawHost, unit) cmd" where
  "twin_call ops ndebug k p =
     cbind (InvokeHandler ops k p) (\<lambda>r. cassert ndebug (found r \<and> active r \<longrightarrow> \<not> present (invokeResult r)))"

lemma preserves_twin_call [preserves_intros]: "preserves (host_frame s sq sp) (twin_call ops ndebug k p)"
  unfolding twin_call_def by (intro preserves_intros)

text \<open>The loop calls exactly the named handlers that are active, in the order of the sequence.\<close>

lemma twin_loop:
  "host_frame s sq sp host \<Longrightarrow>
     cfor (apply_desired ops ndebug (JObject m) keys) ks host =
     cfor (\<lambda>k. twin_call ops ndebug k (jget (JObject m) k)) (filter (\<lambda>k. k \<in> set keys \<and> active_in s k) ks) host"
proof (induction ks arbitrary: host)
  case (Cons k ks)
  have shape: "shape host = s" using Cons.prems by (simp add: host_frame_def)
  show ?case
  proof (cases "k \<in> set keys \<and> active_in s k")
    case True
    then have call: "apply_desired ops ndebug (JObject m) keys k = twin_call ops ndebug k (jget (JObject m) k)"
      by (simp add: apply_desired_def twin_call_def cbind_ret)
    obtain r host1 where run: "twin_call ops ndebug k (jget (JObject m) k) host = (r, host1)" by fastforce
    have "host_frame s sq sp host1"
      using preservesD [OF preserves_twin_call [of s sq sp ops ndebug k "jget (JObject m) k"] Cons.prems] run by simp
    from Cons.IH [OF this] True call run show ?thesis by (cases r) (simp_all add: cseq_def cbind_def)
  next
    case False
    have "apply_desired ops ndebug (JObject m) keys k host = (Inr (), host)"
    proof (cases "k \<in> set keys")
      case True
      with False have "\<not> active_entry host k" using active_in_shape [of host k] shape by simp
      note inv = InvokeHandler_not_active [OF this]
      show ?thesis using True by (simp add: apply_desired_def cbind_ret) (simp add: cbind_def inv cassert_def cret_def)
    qed (simp add: apply_desired_def cret_def)
    with Cons False show ?thesis by (auto simp: cseq_def cbind_def)
  qed
qed simp

lemma OnDeviceTwinReceived_calls:
  assumes "host_wf host" and "rawHandlerSequence host = [] \<longrightarrow> rawHandlerMap host = []"
    and "parse (core host) t = Inr root" and "desired_of u root = JObject m"
  shows "OnDeviceTwinReceived ops ndebug u t host =
    cseq (MarkStatus ops (JObject m) ePending)
      (cfor (\<lambda>k. twin_call ops ndebug k (jget (JObject m) k))
        (filter (\<lambda>k. k \<in> set (sm_keys m) \<and> active_entry host k) (rawHandlerSequence host))) host"
proof -
  let ?frame = "host_frame (shape host) (rawHandlerSequence host) (serviceParameters host)"
  obtain r host1 where mark: "MarkStatus ops (JObject m) ePending host = (r, host1)" by fastforce
  have frame: "?frame host1"
    using preservesD [OF preserves_MarkStatus [of "shape host" "rawHandlerSequence host" "serviceParameters host"
      ops "JObject m" ePending]] mark assms(1) by (fastforce simp: host_frame_def)
  then have seq: "rawHandlerSequence host1 = rawHandlerSequence host" "shape host1 = shape host"
    by (simp_all add: host_frame_def)
  have len: "length (rawHandlerMap host1) = length (rawHandlerMap host)" using arg_cong [OF seq(2), of length] by (simp add: shape_def)
  have parsed: "on_core (JsonObjectFromString t) host = (Inr root, host)"
    using assms(3) by (simp add: on_core_def JsonObjectFromString_def cmd_simps)
  have run: "OnDeviceTwinReceived ops ndebug u t host =
      (case r of Inl e \<Rightarrow> (Inl e, host1) |
        Inr _ \<Rightarrow> cfor (apply_desired ops ndebug (JObject m) (sm_keys m)) (rawHandlerSequence host) host1)"
    using parsed mark assms(2,4) len
    by (auto simp: OnDeviceTwinReceived_def Let_def cbind_def cseq_def clift_def cget_def seq split: sum.splits)
  show ?thesis
    unfolding run twin_loop [OF frame] active_in_shape using mark by (cases r) (simp_all add: cseq_def cbind_def)
qed

section \<open>Properties\<close>

text \<open>A small host for the witnesses: two dynamic handlers, \<open>app\<close> depending on \<open>net\<close>, and no connection.\<close>

definition sample_ops :: "(string list hostcore_scheme, string) IRawHandler" where
  "sample_ops = \<lparr>rh_GetId = (\<lambda>d. d), rh_IsConfigured = (\<lambda>d. Inr True),
     rh_GetReportedSchema = (\<lambda>d. Inr (ReportedSchema_new ''raw'' ''dm'' ''1.0.0'')),
     rh_GetDeploymentStatusJson = (\<lambda>d. Inr (JObject [])),
     rh_Start = (\<lambda>config. cret True), rh_Stop = cret (),
     rh_OnConnectionStatusChanged = (\<lambda>st. cret ()), rh_SetDeploymentStatus = (\<lambda>st. cret ()),
     rh_Invoke = (\<lambda>p (d, w). (Inr InvokeResult_new, d, hostcore.more_update (\<lambda>l. l @ [d]) w)),
     rh_SetHandlerHost = (\<lambda>h. cret ())\<rparr>"

definition sample_core :: "(string \<Rightarrow> string + json) \<Rightarrow> string list hostcore_scheme" where
  "sample_core prs =
     \<lparr>times = (\<lambda>n. \<lparr>wYear = 2019, wMonth = 1, wDayOfWeek = 0, wDay = 1, wHour = 0, wMinute = 0, wSecond = 0,
        wMilliseconds = 0\<rparr>), tick = 0, lastError = 0, styled = (\<lambda>v. ''''), parse = prs,
      summary = ReportedSummary_new, deviceClient = 0, moduleClient = 0, destroyedClients = [], hubResults = (\<lambda>n. 0),
      hubCalls = 0, sentReports = [], sentEvents = [], notifications = False, \<dots> = []\<rparr>"

definition sample_host :: "(string \<Rightarrow> string + json) \<Rightarrow> (string list, string) AzureRawHost" where
  "sample_host prs =
     \<lparr>rawHandlerMap =
        [(''app'', \<lparr>state = eActive, rawHandler = DynamicObj ''app'', dependencies = [''net'']\<rparr>),
         (''net'', \<lparr>state = eActive, rawHandler = DynamicObj ''net'', dependencies = []\<rparr>)],
      rawHandlerSequence = [], serviceParameters = ServiceParameters_new, core = sample_core prs\<rparr>"

definition sample_desired :: json where
  "sample_desired = JObject [(''app'', JObject []), (''net'', JObject [])]"

lemma sample_ops_ok: "marks_quietly sample_ops"
  by (simp add: marks_quietly_def sample_ops_def cret_def)

lemma sample_host_ok:
  "ids_ok sample_ops (sample_host prs)" "host_wf (sample_host prs)" "parse (core (sample_host prs)) t = prs t"
  "active_entry (sample_host prs) ''net''"
  by (auto simp: ids_ok_def host_wf_def sample_host_def sample_ops_def sample_core_def sm_wf_def active_entry_def)

lemma sample_sequence:
  "HandlerInvokeSequence (sample_host prs) = (Inr (), (sample_host prs)\<lparr>rawHandlerSequence := [''net'', ''app'']\<rparr>)"
proof -
  have "sort_handlers [(''app'', [''net'']), (''net'', [])] = Inr [''net'', ''app'']" by code_simp
  then show ?thesis by (simp add: HandlerInvokeSequence_def sample_host_def dependencies_of_def cmd_simps)
qed

text \<open>
  C2: when a twin update is applied after the invoke sequence has been computed, what the host
  does is to mark the desired sections pending and then to invoke, with what the update holds
  for them, exactly the active handlers it names, the agent's own and the plug-ins', each once
  and after those of its dependencies that are invoked too.
\<close>

theorem twin_respects_dependencies:
  assumes "host_wf host" and "HandlerInvokeSequence host = (Inr (), host1)"
    and "parse (core host) t = Inr root" and "desired_of u root = JObject m"
  shows "\<exists>ks. OnDeviceTwinReceived ops ndebug u t host1 =
      cseq (MarkStatus ops (JObject m) ePending)
        (cfor (\<lambda>k. twin_call ops ndebug k (jget (JObject m) k)) ks) host1 \<and>
    distinct ks \<and> set ks = {k. k \<in> set (sm_keys m) \<and> active_entry host k} \<and>
    (\<forall>xs k ys d. ks = xs @ k # ys \<longrightarrow> d \<in> set (deps_of (dependencies_of (rawHandlerMap host)) k) \<longrightarrow>
       d \<in> set ks \<longrightarrow> d \<in> set xs)"
proof -
  let ?deps = "dependencies_of (rawHandlerMap host)"
  let ?P = "\<lambda>k. k \<in> set (sm_keys m) \<and> active_entry host k"
  have wf: "sm_wf ?deps" using assms(1) by (simp add: dependencies_of_def sm_wf_map_snd host_wf_def)
  obtain order where order: "sort_handlers ?deps = Inr order" "host1 = host\<lparr>rawHandlerSequence := order\<rparr>"
    using assms(2) by (auto simp: HandlerInvokeSequence_def cmd_simps split: sum.splits)
  note sound = kahn.schedule_sound [OF wf order(1)]
  have keys: "set order = dom (map_of (rawHandlerMap host))"
    using sound by (simp add: set_sm_keys dependencies_of_def dom_map_of_conv_image_fst image_image split_def)
  then have "order = [] \<longrightarrow> rawHandlerMap host = []" by (auto simp: dom_map_of_conv_image_fst)
  then have "rawHandlerSequence host1 = [] \<longrightarrow> rawHandlerMap host1 = []" by (simp add: order(2))
  moreover have "host_wf host1" "parse (core host1) t = Inr root" using assms(1,3) by (simp_all add: order(2) host_wf_def)
  ultimately have "OnDeviceTwinReceived ops ndebug u t host1 =
      cseq (MarkStatus ops (JObject m) ePending) (cfor (\<lambda>k. twin_call ops ndebug k (jget (JObject m) k))
        (filter (\<lambda>k. k \<in> set (sm_keys m) \<and> active_entry host1 k) (rawHandlerSequence host1))) host1"
    using assms(4) by (intro OnDeviceTwinReceived_calls)
  moreover have "filter (\<lambda>k. k \<in> set (sm_keys m) \<and> active_entry host1 k) (rawHandlerSequence host1) = filter ?P order"
    by (simp add: order(2) active_entry_def)
  ultimately have "OnDeviceTwinReceived ops ndebug u t host1 =
      cseq (MarkStatus ops (JObject m) ePending) (cfor (\<lambda>k. twin_call ops ndebug k (jget (JObject m) k)) (filter ?P order)) host1"
    by (simp only:)
  moreover have "set (filter ?P order) = {k. ?P k}"
    by (auto simp: keys active_entry_def split: option.splits)
  moreover have "\<forall>xs k ys d. filter ?P order = xs @ k # ys \<longrightarrow> d \<in> set (deps_of ?deps k) \<longrightarrow>
      d \<in> set (filter ?P order) \<longrightarrow> d \<in> set xs"
  proof (intro allI impI)
    fix xs k ys d
    assume ks: "filter ?P order = xs @ k # ys" "d \<in> set (deps_of ?deps k)" and d: "d \<in> set (filter ?P order)"
    from d have P: "?P d" by (simp only: set_filter mem_Collect_eq)
    show "d \<in> set xs" by (rule kahn.selected_after_dependencies [OF wf order(1) ks P])
  qed
  moreover have "distinct (filter ?P order)" using sound by simp
  ultimately show ?thesis by (intro exI [of _ "filter ?P order"] conjI)
qed

theorem twin_respects_dependencies_witness:
  "\<exists>ks. distinct ks \<and> set ks = {''app'', ''net''} \<and>
     OnDeviceTwinReceived sample_ops False DEVICE_TWIN_UPDATE_PARTIAL ''{}''
       ((sample_host (\<lambda>t. Inr sample_desired))\<lparr>rawHandlerSequence := [''net'', ''app'']\<rparr>) =
     cseq (MarkStatus sample_ops sample_desired ePending)
       (cfor (\<lambda>k. twin_call sample_ops False k (jget sample_desired k)) ks)
       ((sample_host (\<lambda>t. Inr sample_desired))\<lparr>rawHandlerSequence := [''net'', ''app'']\<rparr>)"
proof -
  let ?host = "sample_host (\<lambda>t. Inr sample_desired)"
  let ?m = "[(''app'', JObject []), (''net'', JObject [])]"
  have root: "desired_of DEVICE_TWIN_UPDATE_PARTIAL sample_desired = JObject ?m"
    by (simp add: desired_of_def sample_desired_def)
  have "parse (core ?host) ''{}'' = Inr sample_desired" by (simp add: sample_host_ok(3))
  from twin_respects_dependencies [OF sample_host_ok(2) sample_sequence this root, of sample_ops False]
  obtain ks where ks: "distinct ks" "set ks = {k. k \<in> set (sm_keys ?m) \<and> active_entry ?host k}"
    "OnDeviceTwinReceived sample_ops False DEVICE_TWIN_UPDATE_PARTIAL ''{}'' (?host\<lparr>rawHandlerSequence := [''net'', ''app'']\<rparr>) =
      cseq (MarkStatus sample_ops (JObject ?m) ePending)
        (cfor (\<lambda>k. twin_call sample_ops False k (jget (JObject ?m) k)) ks) (?host\<lparr>rawHandlerSequence := [''net'', ''app'']\<rparr>)"
    by blast
  have "{k. k \<in> set (sm_keys ?m) \<and> active_entry ?host k} = {''app'', ''net''}"
    by (auto simp: active_entry_def sample_host_def)
  with ks show ?thesis by (intro exI [of _ ks]) (simp add: sample_desired_def)
qed

text \<open>
  C5: \<open>MarkStatus\<close> touches the summary status of exactly the sections that are desired as
  objects and have a registered handler.  Such a section gets the new status when its handler
  takes it, and is unknown when the handler throws at it or its status cannot be read back; every
  other section keeps its status, and the handlers' states, dependencies and sequence stay as
  they are, whether or not the report fails.  It is relied on that being told a status does not
  make a plug-in's handler report, change its id or end the process.
\<close>

theorem MarkStatus_exact:
  assumes "marks_quietly ops" and "ids_ok ops host" and "sm_wf m"
  shows "case MarkStatus ops (JObject m) st host of (r, host') \<Rightarrow>
    (\<forall>k. if k \<in> set (sm_keys m) \<and> marked m host k
       then GetSectionStatus k (summary (core host')) \<in> {Inr st, Inr eUnknown}
       else GetSectionStatus k (summary (core host')) = GetSectionStatus k (summary (core host))) \<and>
    (\<forall>k info. k \<in> set (sm_keys m) \<longrightarrow> marked m host k \<longrightarrow> map_of (rawHandlerMap host) k = Some info \<longrightarrow>
      (takes_status ops st (rawHandler info) \<longrightarrow> GetSectionStatus k (summary (core host')) = Inr st) \<and>
      (refuses_status ops st (rawHandler info) \<longrightarrow> GetSectionStatus k (summary (core host')) = Inr eUnknown)) \<and>
    same_handlers ops host host'"
proof -
  obtain r host' where run: "MarkStatus ops (JObject m) st host = (r, host')" by fastforce
  obtain f where f: "outcome_fits ops st host (sm_keys m) f"
    and s: "\<And>k. GetSectionStatus k (summary (core host')) =
      (if k \<in> set (sm_keys m) \<and> marked m host k then Inr (marked_as (f k) st)
       else GetSectionStatus k (summary (core host)))"
    using MarkStatus_marks(1) [OF assms run] by blast
  have "\<forall>k. if k \<in> set (sm_keys m) \<and> marked m host k
       then GetSectionStatus k (summary (core host')) \<in> {Inr st, Inr eUnknown}
       else GetSectionStatus k (summary (core host')) = GetSectionStatus k (summary (core host))"
    by (simp add: s marked_as_def)
  moreover have "\<forall>k info. k \<in> set (sm_keys m) \<longrightarrow> marked m host k \<longrightarrow> map_of (rawHandlerMap host) k = Some info \<longrightarrow>
      (takes_status ops st (rawHandler info) \<longrightarrow> GetSectionStatus k (summary (core host')) = Inr st) \<and>
      (refuses_status ops st (rawHandler info) \<longrightarrow> GetSectionStatus k (summary (core host')) = Inr eUnknown)"
    using f by (simp add: s marked_as_def outcome_fits_def)
  ultimately show ?thesis using MarkStatus_marks(2) [OF assms run] by (simp add: run)
qed

text \<open>A handler that takes no status, beside one that takes every status.\<close>

definition picky_ops :: "(string list hostcore_scheme, string) IRawHandler" where
  "picky_ops = sample_ops\<lparr>rh_SetDeploymentStatus := (\<lambda>st (d, w).
     (if d = ''net'' then Inl (StdException ''refused'') else Inr (), d, w))\<rparr>"

theorem MarkStatus_exact_witness:
  "case MarkStatus picky_ops sample_desired ePending (sample_host (\<lambda>t. Inr JNull))
   of (r, host') \<Rightarrow> GetSectionStatus ''app'' (summary (core host')) = Inr ePending \<and>
     GetSectionStatus ''net'' (summary (core host')) = Inr eUnknown \<and>
     GetSectionStatus ''time'' (summary (core host')) = GetSectionStatus ''time'' ReportedSummary_new"
proof -
  let ?host = "sample_host (\<lambda>t. Inr JNull)" and ?m = "[(''app'', JObject []), (''net'', JObject [])]"
  have "marks_quietly picky_ops" by (simp add: marks_quietly_def picky_ops_def sample_ops_def)
  moreover have "ids_ok picky_ops ?host"
    by (auto simp: ids_ok_def host_wf_def sample_host_def picky_ops_def sample_ops_def sm_wf_def)
  moreover have "takes_status picky_ops ePending (DynamicObj ''app'')"
    "refuses_status picky_ops ePending (DynamicObj ''net'')"
    by (simp_all add: takes_status_def refuses_status_def status_taken_def with_dyn_def picky_ops_def sample_ops_def)
  moreover have "marked ?m ?host ''app''" "marked ?m ?host ''net''" "\<not> marked ?m ?host ''time''"
    by (simp_all add: marked_def sample_host_def)
  moreover have "map_of (rawHandlerMap ?host) ''app'' = Some \<lparr>state = eActive, rawHandler = DynamicObj ''app'', dependencies = [''net'']\<rparr>"
    "map_of (rawHandlerMap ?host) ''net'' = Some \<lparr>state = eActive, rawHandler = DynamicObj ''net'', dependencies = []\<rparr>"
    "summary (core ?host) = ReportedSummary_new" "sample_desired = JObject ?m" "sm_wf ?m"
    by (simp_all add: sample_host_def sample_core_def sample_desired_def sm_wf_def)
  moreover obtain r host' where "MarkStatus picky_ops sample_desired ePending ?host = (r, host')" by fastforce
  ultimately show ?thesis
    using MarkStatus_exact [of picky_ops ?host ?m ePending] by auto
qed

text \<open>
  C3: invoking a handler lets no exception of the handler escape but the end of the process.
  An absent or inactive handler is answered as such and the host is left alone; an active one is
  called once, its result handed on (an empty one when it throws), and the host afterwards is what
  that call left: its object and the world it reached, every other entry, all states,
  dependencies, the sequence and the parameters as they were.
\<close>

theorem InvokeHandler_contained:
  assumes "host_wf host"
  shows "case InvokeHandler ops k p host of (r, host') \<Rightarrow>
    (if active_entry host k
     then \<exists>info. map_of (rawHandlerMap host) k = Some info \<and>
       (case obj_Invoke ops (map fst (rawHandlerMap host)) (map_views ops (rawHandlerMap host)) p
          (rawHandler info, core host) of (answer, obj, w) \<Rightarrow>
        r = (if answer = Inl Terminate then Inl Terminate
             else Inr \<lparr>found = True, active = True,
               invokeResult = (case answer of Inr ir \<Rightarrow> ir | Inl e \<Rightarrow> InvokeResult_new)\<rparr>) \<and>
        core host' = w \<and>
        map_of (rawHandlerMap host') = (map_of (rawHandlerMap host))(k \<mapsto> info\<lparr>rawHandler := obj\<rparr>)) \<and>
       shape host' = shape host \<and> rawHandlerSequence host' = rawHandlerSequence host \<and>
       serviceParameters host' = serviceParameters host
     else r = Inr \<lparr>found = (k \<in> dom (map_of (rawHandlerMap host))), active = False,
            invokeResult = InvokeResult_new\<rparr> \<and> host' = host)"
proof (cases "active_entry host k")
  case True
  then obtain info where info: "map_of (rawHandlerMap host) k = Some info" "state info = eActive"
    by (auto simp: active_entry_def)
  obtain answer obj w where call: "obj_Invoke ops (map fst (rawHandlerMap host))
      (map_views ops (rawHandlerMap host)) p (rawHandler info, core host) = (answer, obj, w)"
    by (rule prod_cases3)
  have "catchable e \<longleftrightarrow> e \<noteq> Terminate" for e by (rule catchable_iff)
  then show ?thesis
    using True call info(1) InvokeHandler_active [OF info call]
      shape_update [OF assms info(1), where obj = obj and w = w]
    by (cases answer) auto
next
  case False
  then show ?thesis using InvokeHandler_not_active [OF False, of ops p] by simp
qed

theorem InvokeHandler_contained_witness:
  "case InvokeHandler sample_ops ''net'' JNull (sample_host (\<lambda>t. Inr JNull)) of (r, host') \<Rightarrow>
     r = Inr \<lparr>found = True, active = True, invokeResult = InvokeResult_new\<rparr> \<and>
     hostcore.more (core host') = [''net''] \<and> shape host' = shape (sample_host (\<lambda>t. Inr JNull))"
  using InvokeHandler_contained [OF sample_host_ok(2) [of "\<lambda>t. Inr JNull"], where ops = sample_ops and k = "''net''" and p = JNull]
    sample_host_ok(4) [of "\<lambda>t. Inr JNull"]
  by (simp add: sample_host_def sample_ops_def sample_core_def with_dyn_def split: prod.splits)

text \<open>
  C4: the answer to a direct method, on every branch.  An unknown and an inactive handler are
  answered with 400 and a message without touching the host; an active handler's code and payload
  are passed on, provided its result is present.  The handler that throws or leaves its result
  empty violates the assertion behind the call: it ends the process, and in a build without
  assertions it is answered with its code, 0 where it threw, and payload.  A response that cannot be
  allocated gives -1.
\<close>

theorem direct_method_reply:
  assumes "parse (core host) t = Inr ps"
  shows "OnDirectMethodInvoked ops ndebug malloc_ok k t host =
    (let reply = (\<lambda>c s. Inr (if malloc_ok then (c, Some s) else (- 1, None)))
     in case map_of (rawHandlerMap host) k of
       None \<Rightarrow> (reply 400 ''{ \"message\": \"Handler not found.\" }'', host)
     | Some info \<Rightarrow>
         if state info = eInactive then (reply 400 ''{ \"message\": \"Handler not active.\" }'', host)
         else case obj_Invoke ops (map fst (rawHandlerMap host)) (map_views ops (rawHandlerMap host)) ps
                (rawHandler info, core host) of (r, obj, w) \<Rightarrow>
           (case r of
              Inr ir \<Rightarrow> if present ir \<or> ndebug then reply (code ir) (payload ir) else Inl Terminate
            | Inl e \<Rightarrow> if catchable e \<and> ndebug then reply 0 [] else Inl Terminate,
            host\<lparr>rawHandlerMap := sm_put k (info\<lparr>rawHandler := obj\<rparr>) (rawHandlerMap host), core := w\<rparr>))"
proof -
  have parsed: "on_core (JsonObjectFromString t) host = (Inr ps, host)"
    using assms by (simp add: on_core_def JsonObjectFromString_def cmd_simps)
  note reply = OnDirectMethodInvoked_def cbind_def cseq_def cret_def cassert_def cthrow_def direct_reply_def Let_def
  show ?thesis
  proof (cases "map_of (rawHandlerMap host) k")
    case None
    with parsed show ?thesis by (simp add: reply InvokeHandler_missing)
  next
    case (Some info)
    show ?thesis
    proof (cases "state info")
      case eInactive
      with parsed Some show ?thesis by (simp add: reply InvokeHandler_inactive)
    next
      case eActive
      obtain r obj w where call: "obj_Invoke ops (map fst (rawHandlerMap host))
          (map_views ops (rawHandlerMap host)) ps (rawHandler info, core host) = (r, obj, w)"
        by (rule prod_cases3)
      have "e = Terminate" if "\<not> catchable e" for e using that by (simp add: catchable_iff)
      with parsed Some eActive InvokeHandler_active [OF Some eActive call] call show ?thesis
        by (cases r) (auto simp: reply InvokeResult_new_def)
    qed
  qed
qed

theorem direct_method_reply_witness:
  "fst (OnDirectMethodInvoked sample_ops False True ''reboot'' ''{}'' (sample_host (\<lambda>t. Inr JNull))) =
     Inr (400, Some ''{ \"message\": \"Handler not found.\" }'') \<and>
   fst (OnDirectMethodInvoked sample_ops False True ''net'' ''{}'' (sample_host (\<lambda>t. Inr JNull))) = Inl Terminate \<and>
   fst (OnDirectMethodInvoked sample_ops True True ''net'' ''{}'' (sample_host (\<lambda>t. Inr JNull))) = Inr (0, Some [])"
  using direct_method_reply [of "sample_host (\<lambda>t. Inr JNull)" "''{}''" JNull sample_ops False True "''reboot''"]
    direct_method_reply [of "sample_host (\<lambda>t. Inr JNull)" "''{}''" JNull sample_ops False True "''net''"]
    direct_method_reply [of "sample_host (\<lambda>t. Inr JNull)" "''{}''" JNull sample_ops True True "''net''"]
  by (simp add: sample_host_def sample_core_def sample_ops_def with_dyn_def InvokeResult_new_def)

text \<open>
  C7: a report that succeeds has recorded the handler's status in the summary, and, when a
  client is connected, has sent one message that holds the handler's value together with
  the summary that already counts it.
\<close>

theorem Report_sends_summary:
  assumes "Report hid st v w = (Inr (), w')"
  shows "summary w' = SetSectionStatus hid st (summary w) \<and>
    sentReports w' = sentReports w @
      (if attached w
       then [styled w (jobj [(summaryId (summary w), summary_object (SetSectionStatus hid st (summary w))
          (GetCurrentDateTimeString (times w (tick w)))), (hid, v)])]
       else [])"
  using Report_ok [OF assms] assms
  by (auto simp: Report_def ReportAll_def ReportAll_text_def attached_def ReportedSummary_ToJsonObject_def
    now_def cmd_simps split: if_splits)

theorem Report_sends_summary_witness:
  "length (sentReports (snd (Report ''net'' eSucceeded JNull ((sample_core (\<lambda>t. Inr JNull))\<lparr>deviceClient := 1\<rparr>)))) = 1"
proof -
  let ?w = "(sample_core (\<lambda>t. Inr JNull))\<lparr>deviceClient := 1\<rparr>"
  have "\<not> isl (fst (Report ''net'' eSucceeded JNull ?w))" by code_simp
  then have "Report ''net'' eSucceeded JNull ?w = (Inr (), snd (Report ''net'' eSucceeded JNull ?w))"
    by (cases "Report ''net'' eSucceeded JNull ?w"; cases "fst (Report ''net'' eSucceeded JNull ?w)") auto
  from Report_sends_summary [OF this] show ?thesis
    by (simp add: attached_def sample_core_def)
qed

text \<open>
  The \<open>clearReportedCmd\<close> method of the agent: invoking it answers 200 when its section
  of the summary ends as succeeded and 400 when it ends as failed, never anything else; the
  only other outcome is the end of the process.
\<close>

theorem ClearReported_answers:
  assumes "map_of (rawHandlerMap host) k = Some info" and "state info = eActive"
    and "rawHandler info = ClearReportedObj h" and "iPluginHost h = Some raw_host_if"
    and "CHR 0x00 \<notin> set (handlerId h)"
  shows "case InvokeHandler ops k p host of (r, host') \<Rightarrow> (case r of
      Inl e \<Rightarrow> e = Terminate
    | Inr res \<Rightarrow> present (invokeResult res) \<and>
        (code (invokeResult res) = 200 \<and> GetSectionStatus (handlerId h) (summary (core host')) = Inr eSucceeded \<or>
         code (invokeResult res) = 400 \<and> GetSectionStatus (handlerId h) (summary (core host')) = Inr eFailed))"
  using ClearReported_dispatch [OF assms] quiet_InvokeHandler [of ops k p]
  by (auto simp: quiet_def split: prod.split sum.split) (metis fst_conv)

definition sample_clear :: "string list hostcore_scheme HandlerBase" where
  "sample_clear = (projr (fst (ClearReportedCmdHandler_new (sample_core (\<lambda>t. Inr JNull)))))
     \<lparr>iPluginHost := Some raw_host_if\<rparr>"

definition sample_clear_host :: "(string list, string) AzureRawHost" where
  "sample_clear_host = (sample_host (\<lambda>t. Inr JNull))\<lparr>rawHandlerMap :=
     [(''clearReportedCmd'', \<lparr>state = eActive, rawHandler = ClearReportedObj sample_clear, dependencies = []\<rparr>)]\<rparr>"

theorem ClearReported_answers_witness:
  "case InvokeHandler sample_ops ''clearReportedCmd'' JNull sample_clear_host of (r, host') \<Rightarrow> (case r of
      Inl e \<Rightarrow> e = Terminate
    | Inr res \<Rightarrow> present (invokeResult res) \<and>
        (code (invokeResult res) = 200 \<and>
           GetSectionStatus (handlerId sample_clear) (summary (core host')) = Inr eSucceeded \<or>
         code (invokeResult res) = 400 \<and>
           GetSectionStatus (handlerId sample_clear) (summary (core host')) = Inr eFailed))"
proof -
  have entry: "map_of (rawHandlerMap sample_clear_host) ''clearReportedCmd'' =
      Some \<lparr>state = eActive, rawHandler = ClearReportedObj sample_clear, dependencies = []\<rparr>"
    by (simp add: sample_clear_host_def)
  have h: "iPluginHost sample_clear = Some raw_host_if" by (simp add: sample_clear_def)
  have "CHR 0x00 \<in> set (handlerId sample_clear) \<longleftrightarrow> False" by code_simp
  then have nul: "CHR 0x00 \<notin> set (handlerId sample_clear)" by simp
  show ?thesis by (rule ClearReported_answers [OF entry _ _ h nul]) simp_all
qed

end
