(* ===== verification/Ipc_Transport.thy ===== *)
theory Ipc_Transport
  imports Errors "HOL-Library.Word"
begin

text \<open>
  The wire format between the agent and an out-of-process plug-in
  (device-agent/common/Plugins: Message.cpp, PluginNamedPipeBaseTransport.cpp): a message is
  its 12-byte header and its data, cut into packets of at most \<open>IPC_BUFFER_SIZE\<close> bytes that
  carry their index, the packet count and their payload size.  Bytes are characters;
  structures are copied to the pipe as little-endian fields of a 64-bit build.
\<close>

section \<open>Little-endian fields\<close>

definition le_bytes :: "nat \<Rightarrow> nat \<Rightarrow> string" where
  "le_bytes n x = map (\<lambda>i. char_of (x div 256 ^ i)) [0..<n]"

fun le_value :: "string \<Rightarrow> nat" where
  "le_value [] = 0"
| "le_value (c # cs) = of_char c + 256 * le_value cs"

lemma length_le_bytes [simp]: "length (le_bytes n x) = n"
  by (simp add: le_bytes_def)

lemma le_bytes_Suc: "le_bytes (Suc n) x = char_of x # le_bytes n (x div 256)"
proof -
  have "[0..<Suc n] = 0 # map Suc [0..<n]" by (simp add: map_Suc_upt upt_conv_Cons)
  then show ?thesis by (simp add: le_bytes_def comp_def div_mult2_eq del: upt_Suc)
qed

lemma le_value_le_bytes: "le_value (le_bytes n x) = x mod 256 ^ n"
proof (induction n arbitrary: x)
  case 0
  then show ?case by (simp add: le_bytes_def)
next
  case (Suc n)
  have "x mod (256 * 256 ^ n) = x mod 256 + 256 * (x div 256 mod 256 ^ n)"
    by (simp add: mod_mult2_eq)
  with Suc show ?case by (simp add: le_bytes_Suc)
qed

lemma le_value_bound: "le_value bs < 256 ^ length bs"
proof (induction bs)
  case (Cons c bs)
  have "Suc (le_value bs) \<le> 256 ^ length bs" using Cons by simp
  then have le: "256 * Suc (le_value bs) \<le> 256 * 256 ^ length bs" by (intro mult_le_mono2)
  have "le_value (c # bs) < 256 * Suc (le_value bs)" by simp
  also note le
  finally show ?case by simp
qed simp

section \<open>Messages and packets\<close>

type_synonym size_t = "64 word"

lemma unat_size: "n < 2 ^ 64 \<Longrightarrow> unat (of_nat n :: size_t) = n"
  by (simp add: unsigned_of_nat take_bit_nat_eq_self)

abbreviation IPC_BUFFER_SIZE :: nat where "IPC_BUFFER_SIZE \<equiv> 20480"

text \<open>Message types and call types are the values of the enumerations of Message.h.\<close>

abbreviation Undefined :: nat where "Undefined \<equiv> 0"
abbreviation Request :: nat where "Request \<equiv> 1"
abbreviation Response :: nat where "Response \<equiv> 2"

abbreviation NoCall :: nat where "NoCall \<equiv> 0"
abbreviation PluginCreateCall :: nat where "PluginCreateCall \<equiv> 1"
abbreviation PluginInvokeCall :: nat where "PluginInvokeCall \<equiv> 2"
abbreviation PluginShutdownCall :: nat where "PluginShutdownCall \<equiv> 3"
abbreviation ReverseInvokeCall :: nat where "ReverseInvokeCall \<equiv> 4"

record Message =
  messageType :: nat
  callType :: nat
  errorCode :: nat
  data :: string

definition Message_new :: Message where
  "Message_new = \<lparr>messageType = Undefined, callType = NoCall, errorCode = 0, data = []\<rparr>"

definition Message_wf :: "Message \<Rightarrow> bool" where
  "Message_wf m \<longleftrightarrow> messageType m < 2 ^ 32 \<and> callType m < 2 ^ 32 \<and> errorCode m < 2 ^ 32 \<and>
     length (data m) < 2 ^ 63"

definition Message_HeaderSize :: nat where
  "Message_HeaderSize = 4 + 4 + 4"

definition PayloadSize :: "Message \<Rightarrow> nat" where
  "PayloadSize m = length (data m)"

definition SetData :: "string \<Rightarrow> Message \<Rightarrow> Message" where
  "SetData newData m = m\<lparr>data := newData\<rparr>"

record Packet =
  index :: size_t
  count :: size_t
  payloadSize :: size_t
  payload :: string

definition Packet_HeaderSize :: nat where
  "Packet_HeaderSize = 8 * 3"

definition MaxPayloadSize :: nat where
  "MaxPayloadSize = IPC_BUFFER_SIZE - 8 * 3"

definition Message_header :: "Message \<Rightarrow> string" where
  "Message_header m = le_bytes 4 (messageType m) @ le_bytes 4 (callType m) @ le_bytes 4 (errorCode m)"

text \<open>
  The loop of \<open>MessageToPackets\<close>: \<open>dataToWriteSize\<close> is a \<open>size_t\<close> that wraps around after
  the last packet; a packet keeps the bytes of its payload that were copied.
\<close>

function packet_loop :: "string \<Rightarrow> nat \<Rightarrow> nat \<Rightarrow> size_t \<Rightarrow> Packet list" where
  "packet_loop dataToWrite i packetCount dataToWriteSize =
     (if i < packetCount then
        let size = (if dataToWriteSize > of_nat MaxPayloadSize then of_nat MaxPayloadSize else dataToWriteSize)
        in \<lparr>index = of_nat i, count = of_nat packetCount, payloadSize = size,
            payload = take (unat size) (drop (i * MaxPayloadSize) dataToWrite)\<rparr>
           # packet_loop dataToWrite (Suc i) packetCount (dataToWriteSize - of_nat MaxPayloadSize)
      else [])"
  by pat_completeness auto
termination by (relation "measure (\<lambda>(d, i, n, s). n - i)") auto

declare packet_loop.simps [simp del]

definition MessageToPackets :: "Message \<Rightarrow> Packet list" where
  "MessageToPackets message =
     (let dataToWrite = Message_header message @ data message;
          dataToWriteSize = Message_HeaderSize + PayloadSize message;
          packetCount = dataToWriteSize div MaxPayloadSize + 1
      in packet_loop dataToWrite 0 packetCount (of_nat dataToWriteSize))"

text \<open>
  \<open>PacketsToMessage\<close> copies packet \<open>i\<close> to the offset \<open>i * MaxPayloadSize\<close> of a buffer of
  the total size and reads the message back from it.
\<close>

definition copy_at :: "nat \<Rightarrow> string \<Rightarrow> string \<Rightarrow> string" where
  "copy_at off bs buf = take off buf @ bs @ drop (off + length bs) buf"

definition packets_buffer :: "Packet list \<Rightarrow> string" where
  "packets_buffer packets =
     fold (\<lambda>(i, p). copy_at (i * MaxPayloadSize) (take (unat (payloadSize p)) (payload p)))
       (enumerate 0 packets)
       (replicate (sum_list (map (unat \<circ> payloadSize) packets)) (CHR 0x00))"

definition message_of_buffer :: "string \<Rightarrow> Message" where
  "message_of_buffer buf =
     \<lparr>messageType = le_value (take 4 buf), callType = le_value (take 4 (drop 4 buf)),
      errorCode = le_value (take 4 (drop 8 buf)), data = drop Message_HeaderSize buf\<rparr>"

definition PacketsToMessage :: "Packet list \<Rightarrow> Message" where
  "PacketsToMessage packets = message_of_buffer (packets_buffer packets)"

lemma MaxPayloadSize_eq: "MaxPayloadSize = 20456"
  by (simp add: MaxPayloadSize_def)

lemma length_Message_header [simp]: "length (Message_header m) = 12"
  by (simp add: Message_header_def)

lemma message_of_buffer_header: "Message_wf m \<Longrightarrow> message_of_buffer (Message_header m @ data m) = m"
  by (cases m) (simp add: message_of_buffer_def Message_header_def Message_wf_def Message_HeaderSize_def
    le_value_le_bytes)

subsection \<open>The packets of a message\<close>

text \<open>The \<open>i\<close>-th packet of \<open>bs\<close>: all but the last are full.\<close>

definition packet_of :: "string \<Rightarrow> nat \<Rightarrow> nat \<Rightarrow> Packet" where
  "packet_of bs n i =
     \<lparr>index = of_nat i, count = of_nat n,
      payloadSize = of_nat (length (take MaxPayloadSize (drop (i * MaxPayloadSize) bs))),
      payload = take MaxPayloadSize (drop (i * MaxPayloadSize) bs)\<rparr>"

lemma packet_loop_eq:
  assumes "length bs < 2 ^ 64" and "n = length bs div MaxPayloadSize + 1" and "i \<le> n"
  shows "packet_loop bs i n (of_nat (length bs) - of_nat (i * MaxPayloadSize)) = map (packet_of bs n) [i..<n]"
  using assms(3)
proof (induction "n - i" arbitrary: i)
  case 0
  then show ?case by (simp add: packet_loop.simps)
next
  case (Suc k)
  then have i: "i < n" by simp
  then have le: "i * MaxPayloadSize \<le> length bs"
    using assms(2) by (metis Suc_eq_plus1 less_Suc_eq_le div_times_less_eq_dividend le_trans mult_le_mono1)
  let ?rest = "length bs - i * MaxPayloadSize"
  let ?s = "of_nat (length bs) - of_nat (i * MaxPayloadSize) :: size_t"
  have s: "?s = of_nat ?rest" using le by (simp add: of_nat_diff)
  have r: "?rest < 2 ^ 64" using assms(1) by simp
  have us: "unat ?s = ?rest" unfolding s by (rule unat_size) (rule r)
  have max: "unat (of_nat MaxPayloadSize :: size_t) = MaxPayloadSize"
    by (simp add: MaxPayloadSize_eq)
  have cmp: "?s > of_nat MaxPayloadSize \<longleftrightarrow> ?rest > MaxPayloadSize"
    unfolding word_less_nat_alt us max by simp
  let ?size = "if ?s > of_nat MaxPayloadSize then of_nat MaxPayloadSize else ?s"
  have size: "?size = of_nat (min MaxPayloadSize ?rest)"
  proof (cases "?rest > MaxPayloadSize")
    case True
    then have "?s > of_nat MaxPayloadSize" by (simp only: cmp)
    then have "?size = of_nat MaxPayloadSize" by (simp only: if_True)
    moreover have "min MaxPayloadSize ?rest = MaxPayloadSize" using True by simp
    ultimately show ?thesis by (simp only:)
  next
    case False
    then have "\<not> ?s > of_nat MaxPayloadSize" using cmp by blast
    then have "?size = ?s" by (simp only: if_False)
    moreover have "min MaxPayloadSize ?rest = ?rest" using False by simp
    ultimately show ?thesis by (simp only: s)
  qed
  have usize: "unat ?size = min MaxPayloadSize ?rest"
    using max us cmp by (auto simp: min_def)
  have t: "take (min MaxPayloadSize ?rest) (drop (i * MaxPayloadSize) bs) =
      take MaxPayloadSize (drop (i * MaxPayloadSize) bs)" by (simp add: min_def)
  have l: "length (take MaxPayloadSize (drop (i * MaxPayloadSize) bs)) = min MaxPayloadSize ?rest"
    by (simp add: min.commute)
  have first: "\<lparr>index = of_nat i, count = of_nat n, payloadSize = ?size,
      payload = take (unat ?size) (drop (i * MaxPayloadSize) bs)\<rparr> = packet_of bs n i"
    unfolding usize unfolding size packet_of_def t l ..
  have step: "?s - of_nat MaxPayloadSize = of_nat (length bs) - of_nat (Suc i * MaxPayloadSize)"
    by (simp add: algebra_simps)
  from Suc i have "packet_loop bs (Suc i) n (?s - of_nat MaxPayloadSize) = map (packet_of bs n) [Suc i..<n]"
    unfolding step by (intro Suc.hyps(1)) simp_all
  with i first show ?case
    by (subst packet_loop.simps) (simp only: if_True Let_def upt_conv_Cons list.map)
qed

definition packet_total :: "string \<Rightarrow> nat" where
  "packet_total bs = length bs div MaxPayloadSize + 1"

lemma MessageToPackets_eq:
  assumes "Message_wf m"
  shows "MessageToPackets m =
    map (packet_of (Message_header m @ data m) (packet_total (Message_header m @ data m)))
      [0..<packet_total (Message_header m @ data m)]"
proof -
  let ?bs = "Message_header m @ data m"
  have len: "length ?bs = Message_HeaderSize + PayloadSize m"
    by (simp add: Message_HeaderSize_def PayloadSize_def)
  have "length ?bs < 2 ^ 64" using assms by (simp add: Message_wf_def)
  from packet_loop_eq [OF this refl, of 0] show ?thesis
    by (simp add: MessageToPackets_def packet_total_def flip: len)
qed

lemma packet_offset_le: "i < packet_total bs \<Longrightarrow> i * MaxPayloadSize \<le> length bs"
proof -
  assume "i < packet_total bs"
  then have "i \<le> length bs div MaxPayloadSize" by (simp add: packet_total_def)
  then have "i * MaxPayloadSize \<le> length bs div MaxPayloadSize * MaxPayloadSize" by (rule mult_le_mono1)
  also have "\<dots> \<le> length bs" by simp
  finally show ?thesis .
qed

lemma packet_total_covers: "length bs < packet_total bs * MaxPayloadSize"
proof -
  have M: "0 < MaxPayloadSize" by (simp add: MaxPayloadSize_eq)
  have "length bs = length bs div MaxPayloadSize * MaxPayloadSize + length bs mod MaxPayloadSize"
    by simp
  also have "\<dots> < length bs div MaxPayloadSize * MaxPayloadSize + MaxPayloadSize"
    using M by (intro add_strict_left_mono) simp
  finally show ?thesis by (simp add: packet_total_def)
qed

lemma packet_of_size:
  "unat (payloadSize (packet_of bs n i)) = length (payload (packet_of bs n i))"
  "length (payload (packet_of bs n i)) \<le> MaxPayloadSize"
proof -
  have "length (take MaxPayloadSize (drop (i * MaxPayloadSize) bs)) < 2 ^ 64"
    by (simp add: MaxPayloadSize_eq min_less_iff_disj)
  from unat_size [OF this]
  show "unat (payloadSize (packet_of bs n i)) = length (payload (packet_of bs n i))"
    by (simp only: packet_of_def Packet.simps)
qed (simp add: packet_of_def)

lemma concat_packets:
  "concat (map (\<lambda>i. payload (packet_of bs n i)) [0..<k]) = take (k * MaxPayloadSize) bs"
proof (induction k)
  case (Suc k)
  have "take (k * MaxPayloadSize) bs @ take MaxPayloadSize (drop (k * MaxPayloadSize) bs) =
      take (k * MaxPayloadSize + MaxPayloadSize) bs" by (rule take_add [symmetric])
  with Suc show ?case by (simp add: packet_of_def add.commute)
qed simp

lemma copy_next:
  assumes "off \<le> length bs" and "c = take w (drop off bs)"
  shows "copy_at off c (take off bs @ replicate (length bs - off) z) =
    take (off + w) bs @ replicate (length bs - (off + w)) z"
proof -
  have "take (off + w) bs = take off bs @ c" unfolding assms(2) by (rule take_add)
  moreover have "length bs - off - length c = length bs - (off + w)"
    unfolding assms(2) by (simp add: min_def)
  ultimately show ?thesis using assms(1) by (simp add: copy_at_def)
qed

lemma packets_buffer_packets:
  "packets_buffer (map (packet_of bs (packet_total bs)) [0..<packet_total bs]) = bs"
proof -
  let ?n = "packet_total bs"
  let ?P = "packet_of bs ?n"
  let ?step = "\<lambda>(i, p). copy_at (i * MaxPayloadSize) (take (unat (payloadSize p)) (payload p))"
  have total: "sum_list (map (unat \<circ> payloadSize) (map ?P [0..<?n])) = length bs"
  proof -
    have "sum_list (map (unat \<circ> payloadSize) (map ?P [0..<?n])) =
        length (concat (map (\<lambda>i. payload (?P i)) [0..<?n]))"
      by (simp add: length_concat comp_def packet_of_size(1))
    also have "\<dots> = length bs" using packet_total_covers [of bs] by (simp add: concat_packets)
    finally show ?thesis .
  qed
  have part: "fold ?step (map (\<lambda>i. (i, ?P i)) [0..<k]) (replicate (length bs) z) =
      take (k * MaxPayloadSize) bs @ replicate (length bs - k * MaxPayloadSize) z" if "k \<le> ?n" for k z
    using that
  proof (induction k)
    case (Suc k)
    then have le: "k * MaxPayloadSize \<le> length bs" by (intro packet_offset_le) simp
    have c: "take (unat (payloadSize (?P k))) (payload (?P k)) = take MaxPayloadSize (drop (k * MaxPayloadSize) bs)"
      by (simp add: packet_of_size(1)) (simp add: packet_of_def)
    from Suc copy_next [OF le c] show ?case by (simp add: add.commute)
  qed simp
  have enum: "enumerate 0 (map ?P [0..<?n]) = map (\<lambda>i. (i, ?P i)) [0..<?n]"
    by (simp add: enumerate_eq_zip zip_map2 zip_same_conv_map comp_def)
  show ?thesis
    unfolding packets_buffer_def total enum part [OF order_refl]
    using packet_total_covers [of bs] by simp
qed

lemma PacketsToMessage_MessageToPackets: "Message_wf m \<Longrightarrow> PacketsToMessage (MessageToPackets m) = m"
  by (simp add: PacketsToMessage_def MessageToPackets_eq packets_buffer_packets message_of_buffer_header)

lemma MessageToPackets_bounds:
  assumes "Message_wf m" and "p \<in> set (MessageToPackets m)"
  shows "Packet_HeaderSize + unat (payloadSize p) \<le> IPC_BUFFER_SIZE"
    and "length (payload p) = unat (payloadSize p)"
    and "unat (index p) < unat (count p)" and "unat (count p) = length (MessageToPackets m)"
proof -
  let ?bs = "Message_header m @ data m"
  let ?n = "packet_total ?bs"
  from assms obtain i where i: "i < ?n" "p = packet_of ?bs ?n i"
    by (auto simp: MessageToPackets_eq)
  have "?n \<le> length ?bs + 1" by (simp add: packet_total_def MaxPayloadSize_eq)
  also have "length ?bs + 1 < 2 ^ 64" using assms(1) by (simp add: Message_wf_def)
  finally have n: "?n < 2 ^ 64" .
  have count: "unat (count p) = ?n" unfolding i(2) packet_of_def Packet.simps by (rule unat_size [OF n])
  then show "unat (count p) = length (MessageToPackets m)" by (simp add: MessageToPackets_eq [OF assms(1)])
  have "unat (index p) = i" unfolding i(2) packet_of_def Packet.simps
    by (rule unat_size) (use i(1) n in linarith)
  with i(1) count show "unat (index p) < unat (count p)" by simp
  show "length (payload p) = unat (payloadSize p)" by (simp add: i(2) packet_of_size)
  show "Packet_HeaderSize + unat (payloadSize p) \<le> IPC_BUFFER_SIZE"
    using packet_of_size(2) [of ?bs ?n i]
    by (simp add: i(2) packet_of_size(1) MaxPayloadSize_def Packet_HeaderSize_def)
qed

section \<open>Properties\<close>

definition sample_message :: Message where
  "sample_message = \<lparr>messageType = Request, callType = PluginInvokeCall, errorCode = 0, data = ''{}''\<rparr>"

lemma sample_message_wf: "Message_wf sample_message"
  by (simp add: sample_message_def Message_wf_def)

text \<open>
  C22: splitting a message into packets and putting the packets together again yields the
  message, for every length of the data, also when it fills the last packet exactly.
\<close>

theorem packets_round_trip:
  assumes "Message_wf m"
  shows "PacketsToMessage (MessageToPackets m) = m"
  by (simp add: PacketsToMessage_def MessageToPackets_eq [OF assms] packets_buffer_packets
    message_of_buffer_header [OF assms])

theorem packets_round_trip_witness: "PacketsToMessage (MessageToPackets sample_message) = sample_message"
  by (rule packets_round_trip [OF sample_message_wf])

text \<open>
  Every packet fits into the buffer of the pipe, carries exactly the bytes it announces,
  has an index below its count, and the count is the number of packets: the subtraction on
  the unsigned remaining size never makes a size wrong.
\<close>

theorem packets_fit:
  assumes "Message_wf m" and "p \<in> set (MessageToPackets m)"
  shows "Packet_HeaderSize + unat (payloadSize p) \<le> IPC_BUFFER_SIZE \<and>
    length (payload p) = unat (payloadSize p) \<and> unat (index p) < unat (count p) \<and>
    unat (count p) = length (MessageToPackets m)"
  using MessageToPackets_bounds [OF assms] by simp

theorem packets_fit_witness:
  "Packet_HeaderSize + unat (payloadSize (hd (MessageToPackets sample_message))) \<le> IPC_BUFFER_SIZE"
proof -
  have "MessageToPackets sample_message \<noteq> []"
    by (simp add: MessageToPackets_eq [OF sample_message_wf] packet_total_def)
  then show ?thesis using packets_fit [OF sample_message_wf hd_in_set] by blast
qed

end
