(* ===== verification/Ipc_Pipe.thy ===== *)
theory Ipc_Pipe
  imports Ipc_Transport
begin

text \<open>
  Reading and writing messages on a named pipe (\<open>WriteMessage\<close> and \<open>ReadMessage\<close> of
  PluginNamedPipeBaseTransport.cpp).  \<open>ReadFile\<close> and \<open>WriteFile\<close> are parameters;
  \<open>message_pipe\<close> states the documented behaviour of a message-mode pipe the code relies on.
\<close>

section \<open>The calls of the operating system\<close>

text \<open>A read succeeds, stops inside a message with \<open>ERROR_MORE_DATA\<close>, or fails.\<close>

datatype read_status = ReadOk | ReadMoreData | ReadFailed int

type_synonym 'p read_file = "nat \<Rightarrow> 'p \<Rightarrow> read_status \<times> string \<times> 'p"
type_synonym 'p write_file = "string \<Rightarrow> 'p \<Rightarrow> bool \<times> nat \<times> 'p"

definition message_pipe :: "'p read_file \<Rightarrow> 'p write_file \<Rightarrow> ('p \<Rightarrow> string list) \<Rightarrow> bool" where
  "message_pipe ReadFile WriteFile contents \<longleftrightarrow>
     (\<forall>bs p. \<exists>p'. WriteFile bs p = (True, length bs, p') \<and> contents p' = contents p @ [bs]) \<and>
     (\<forall>n p bs rest. contents p = bs # rest \<longrightarrow> (\<exists>p'.
        if length bs \<le> n then ReadFile n p = (ReadOk, bs, p') \<and> contents p' = rest
        else ReadFile n p = (ReadMoreData, take n bs, p') \<and> contents p' = drop n bs # rest))"

section \<open>WriteMessage\<close>

definition packet_bytes :: "Packet \<Rightarrow> string" where
  "packet_bytes p =
     le_bytes 8 (unat (index p)) @ le_bytes 8 (unat (count p)) @ le_bytes 8 (unat (payloadSize p)) @
     take (unat (payloadSize p)) (payload p)"

definition write_packet :: "'p write_file \<Rightarrow> int \<Rightarrow> Packet \<Rightarrow> ('p, unit) cmd" where
  "write_packet WriteFile gle packet =
     (\<lambda>p. case WriteFile (packet_bytes packet) p of (fSuccess, cbWritten, p') \<Rightarrow>
        (if \<not> fSuccess \<or> Packet_HeaderSize + unat (payloadSize packet) \<noteq> cbWritten
         then Inl (DMExc Windows gle ''WriteFile to named pipe failed'') else Inr (), p'))"

definition WriteMessage :: "'p write_file \<Rightarrow> int \<Rightarrow> Message \<Rightarrow> ('p, unit) cmd" where
  "WriteMessage WriteFile gle message = cfor (write_packet WriteFile gle) (MessageToPackets message)"

section \<open>ReadMessage\<close>

text \<open>The header of a \<open>Packet\<close>, zero from the constructor where the read was short.\<close>

definition packet_of_header :: "string \<Rightarrow> Packet" where
  "packet_of_header bs =
     (let h = take 24 (bs @ replicate 24 (CHR 0x00))
      in \<lparr>index = of_nat (le_value (take 8 h)), count = of_nat (le_value (take 8 (drop 8 h))),
          payloadSize = of_nat (le_value (drop 16 h)), payload = []\<rparr>)"

text \<open>
  The loop of \<open>ReadMessage\<close>: the inner \<open>None\<close> is the null result of a failed read; the outer
  \<open>None\<close> is a loop that does not end, or a payload announced larger than the buffer of the
  packet, which the code reads past its end.
\<close>

partial_function (option) read_packets ::
    "'p read_file \<Rightarrow> Packet list \<Rightarrow> 'p \<Rightarrow> (Packet list option \<times> 'p) option" where
  "read_packets ReadFile packets p =
     (case ReadFile Packet_HeaderSize p of (status, header, p1) \<Rightarrow>
        if (status \<noteq> ReadOk \<and> status \<noteq> ReadMoreData) \<or> length header = 0 then Some (None, p1)
        else
          let packet = packet_of_header header
          in if unat (payloadSize packet) > MaxPayloadSize then None
             else if payloadSize packet \<noteq> 0
             then (case ReadFile (unat (payloadSize packet)) p1 of (status, body, p2) \<Rightarrow>
                if status \<noteq> ReadOk \<or> length body = 0 then Some (None, p2)
                else let packets' = packets @ [packet\<lparr>payload := body\<rparr>]
                     in if index packet = count packet - 1 then Some (Some packets', p2)
                        else read_packets ReadFile packets' p2)
             else let packets' = packets @ [packet]
                  in if index packet = count packet - 1 then Some (Some packets', p1)
                     else read_packets ReadFile packets' p1)"

definition ReadMessage :: "'p read_file \<Rightarrow> 'p \<Rightarrow> (Message option \<times> 'p) option" where
  "ReadMessage ReadFile p =
     (case read_packets ReadFile [] p of
        None \<Rightarrow> None
      | Some (packets, p') \<Rightarrow> Some (map_option PacketsToMessage packets, p'))"

section \<open>What is written is what is read\<close>

lemma message_pipe_write:
  assumes "message_pipe R W contents"
  obtains p' where "W bs p = (True, length bs, p')" "contents p' = contents p @ [bs]"
  using assms unfolding message_pipe_def by metis

lemma message_pipe_read_whole:
  assumes "message_pipe R W contents" "contents p = bs # rest" "length bs \<le> n"
  obtains p' where "R n p = (ReadOk, bs, p')" "contents p' = rest"
  using assms unfolding message_pipe_def by metis

lemma message_pipe_read_part:
  assumes "message_pipe R W contents" "contents p = bs # rest" "n < length bs"
  obtains p' where "R n p = (ReadMoreData, take n bs, p')" "contents p' = drop n bs # rest"
  using assms unfolding message_pipe_def by (metis not_le)

lemma length_packet_bytes:
  "length (payload p) = unat (payloadSize p) \<Longrightarrow>
     length (packet_bytes p) = Packet_HeaderSize + unat (payloadSize p)"
  by (simp add: packet_bytes_def Packet_HeaderSize_def)

lemma cfor_write_packets:
  assumes pipe: "message_pipe R W contents"
  shows "list_all (\<lambda>p. length (payload p) = unat (payloadSize p)) packets \<Longrightarrow>
    \<exists>p'. cfor (write_packet W gle) packets p = (Inr (), p') \<and>
      contents p' = contents p @ map packet_bytes packets"
proof (induction packets arbitrary: p)
  case Nil
  then show ?case by (simp add: cmd_simps)
next
  case (Cons q qs)
  obtain p1 where w: "W (packet_bytes q) p = (True, length (packet_bytes q), p1)"
    "contents p1 = contents p @ [packet_bytes q]" by (rule message_pipe_write [OF pipe])
  from Cons.prems have "write_packet W gle q p = (Inr (), p1)"
    using w(1) by (simp add: write_packet_def length_packet_bytes)
  with Cons.IH [of p1] Cons.prems w(2) show ?case by (auto simp: cseq_def cbind_def)
qed

lemma WriteMessage_contents:
  assumes "message_pipe R W contents" and "Message_wf m"
  shows "\<exists>p'. WriteMessage W gle m p = (Inr (), p') \<and>
    contents p' = contents p @ map packet_bytes (MessageToPackets m)"
  unfolding WriteMessage_def
  by (rule cfor_write_packets [OF assms(1)]) (use MessageToPackets_bounds(2) [OF assms(2)] in \<open>auto simp: list_all_iff\<close>)

lemma of_unat_mod: "of_nat (unat (w :: size_t) mod 18446744073709551616) = w"
proof -
  have "unat w < 18446744073709551616" using unsigned_less [of w] by simp
  then show ?thesis by simp
qed

lemma packet_of_header_bytes:
  assumes "length (payload q) = unat (payloadSize q)"
  shows "packet_of_header (take Packet_HeaderSize (packet_bytes q)) = q\<lparr>payload := []\<rparr>"
proof -
  have "take 24 (take Packet_HeaderSize (packet_bytes q) @ replicate 24 (CHR 0x00)) =
      le_bytes 8 (unat (index q)) @ le_bytes 8 (unat (count q)) @ le_bytes 8 (unat (payloadSize q))"
    by (simp add: packet_bytes_def Packet_HeaderSize_def)
  then show ?thesis
    by (cases q) (simp add: packet_of_header_def le_value_le_bytes of_unat_mod)
qed

text \<open>One round of the loop on a pipe whose first message is the packet \<open>q\<close>.\<close>

lemma read_one_packet:
  assumes pipe: "message_pipe R W contents" and c: "contents p = packet_bytes q # rest"
    and q: "length (payload q) = unat (payloadSize q)" "unat (payloadSize q) \<le> MaxPayloadSize"
  obtains p' where "contents p' = rest"
    "read_packets R packets p =
       (if index q = count q - 1 then Some (Some (packets @ [q]), p') else read_packets R (packets @ [q]) p')"
proof (cases "payloadSize q = 0")
  case True
  with q have e: "payload q = []" by simp
  then have q0: "q\<lparr>payload := []\<rparr> = q" by (cases q) simp
  have l: "length (packet_bytes q) = 24" using q True by (simp add: length_packet_bytes Packet_HeaderSize_def)
  obtain p' where r: "R Packet_HeaderSize p = (ReadOk, packet_bytes q, p')" "contents p' = rest"
    by (rule message_pipe_read_whole [OF pipe c, of Packet_HeaderSize]) (simp_all add: l Packet_HeaderSize_def)
  have h: "packet_of_header (packet_bytes q) = q"
    using packet_of_header_bytes [OF q(1)] l by (simp add: Packet_HeaderSize_def q0)
  have ne: "packet_bytes q \<noteq> []" using l by auto
  show ?thesis
    by (rule that [OF r(2)], subst read_packets.simps) (simp add: r(1) h True Let_def ne)
next
  case False
  then have pos: "0 < unat (payloadSize q)" using unat_gt_0 by blast
  have l: "length (packet_bytes q) = 24 + unat (payloadSize q)"
    using q by (simp add: length_packet_bytes Packet_HeaderSize_def)
  obtain p1 where r: "R Packet_HeaderSize p = (ReadMoreData, take Packet_HeaderSize (packet_bytes q), p1)"
    and c1: "contents p1 = drop Packet_HeaderSize (packet_bytes q) # rest"
    by (rule message_pipe_read_part [OF pipe c, of Packet_HeaderSize]) (use l pos in \<open>simp_all add: Packet_HeaderSize_def\<close>)
  have d: "drop Packet_HeaderSize (packet_bytes q) = payload q"
    using q by (simp add: packet_bytes_def Packet_HeaderSize_def)
  obtain p' where r': "R (unat (payloadSize q)) p1 = (ReadOk, payload q, p')" "contents p' = rest"
    by (rule message_pipe_read_whole [OF pipe c1 [unfolded d], of "unat (payloadSize q)"]) (use q in simp_all)
  have h: "packet_of_header (take Packet_HeaderSize (packet_bytes q)) = q\<lparr>payload := []\<rparr>"
    by (rule packet_of_header_bytes [OF q(1)])
  have ne: "take Packet_HeaderSize (packet_bytes q) \<noteq> []" "payload q \<noteq> []"
    using l q(1) pos by (auto simp: Packet_HeaderSize_def)
  have restored: "q\<lparr>payload := []\<rparr>\<lparr>payload := payload q\<rparr> = q" by (cases q) simp
  show ?thesis
    by (rule that [OF r'(2)], subst read_packets.simps)
      (use q(2) ne False in \<open>simp add: r h r'(1) Let_def restored\<close>)
qed

lemma read_packets_of:
  assumes pipe: "message_pipe R W contents"
  shows "i < n \<Longrightarrow> n < 2 ^ 64 \<Longrightarrow> contents p = map packet_bytes (map (packet_of bs n) [i..<n]) @ rest \<Longrightarrow>
    \<exists>p'. read_packets R acc p = Some (Some (acc @ map (packet_of bs n) [i..<n]), p') \<and> contents p' = rest"
proof (induction "n - i" arbitrary: i acc p)
  case 0
  then show ?case by simp
next
  case (Suc k)
  let ?q = "packet_of bs n i"
  from Suc.prems have c: "contents p = packet_bytes ?q # (map packet_bytes (map (packet_of bs n) [Suc i..<n]) @ rest)"
    by (simp add: upt_conv_Cons)
  have len: "length (payload ?q) = unat (payloadSize ?q)" "unat (payloadSize ?q) \<le> MaxPayloadSize"
    using packet_of_size by metis+
  obtain p1 where p1: "contents p1 = map packet_bytes (map (packet_of bs n) [Suc i..<n]) @ rest"
    "read_packets R acc p =
      (if index ?q = count ?q - 1 then Some (Some (acc @ [?q]), p1) else read_packets R (acc @ [?q]) p1)"
    by (rule read_one_packet [OF pipe c len])
  have last: "index ?q = count ?q - 1 \<longleftrightarrow> Suc i = n"
  proof
    have c1: "count ?q - 1 = of_nat (n - 1)" using Suc.prems(1) by (simp add: packet_of_def of_nat_diff)
    show "Suc i = n" if "index ?q = count ?q - 1"
    proof -
      from that c1 have "(of_nat i :: size_t) = of_nat (n - 1)" by (simp add: packet_of_def)
      then have "unat (of_nat i :: size_t) = unat (of_nat (n - 1) :: size_t)" by (rule arg_cong)
      moreover have "unat (of_nat i :: size_t) = i"
        by (rule unat_size) (use Suc.prems(1,2) in linarith)
      moreover have "unat (of_nat (n - 1) :: size_t) = n - 1"
        by (rule unat_size) (use Suc.prems(2) in linarith)
      ultimately show ?thesis using Suc.prems(1) by linarith
    qed
    show "index ?q = count ?q - 1" if "Suc i = n"
      using c1 that by (auto simp: packet_of_def)
  qed
  show ?case
  proof (cases "Suc i = n")
    case True
    with p1 last show ?thesis by (auto simp: upt_conv_Cons [of i] Suc.prems(1))
  next
    case False
    then have "Suc i < n" using Suc.prems(1) by simp
    from Suc.hyps(1) [OF _ this Suc.prems(2) p1(1), of "acc @ [?q]"] Suc.hyps(2) p1(2) last False Suc.prems(1)
    show ?thesis by (simp add: upt_conv_Cons [of i])
  qed
qed

lemma packet_total_bound: "Message_wf m \<Longrightarrow> packet_total (Message_header m @ data m) < 2 ^ 64"
proof -
  let ?bs = "Message_header m @ data m"
  assume "Message_wf m"
  then have "length ?bs + 1 < 2 ^ 64" by (simp add: Message_wf_def)
  moreover have "packet_total ?bs \<le> length ?bs + 1" by (simp add: packet_total_def MaxPayloadSize_eq)
  ultimately show ?thesis by linarith
qed

lemma ReadMessage_packets:
  assumes pipe: "message_pipe R W contents" and m: "Message_wf m"
    and c: "contents p = map packet_bytes (MessageToPackets m) @ rest"
  shows "\<exists>p'. ReadMessage R p = Some (Some m, p') \<and> contents p' = rest"
proof -
  let ?bs = "Message_header m @ data m"
  have pos: "0 < packet_total ?bs" by (simp add: packet_total_def)
  have c': "contents p = map packet_bytes (map (packet_of ?bs (packet_total ?bs)) [0..<packet_total ?bs]) @ rest"
    using c by (simp add: MessageToPackets_eq [OF m])
  from read_packets_of [OF pipe pos packet_total_bound [OF m] c', of "[]"] obtain p' where
    "read_packets R [] p = Some (Some (MessageToPackets m), p')" "contents p' = rest"
    by (auto simp: MessageToPackets_eq [OF m])
  then show ?thesis by (simp add: ReadMessage_def PacketsToMessage_MessageToPackets [OF m])
qed

text \<open>Several messages written one after the other are read back in the same order.\<close>

fun read_messages :: "'p read_file \<Rightarrow> nat \<Rightarrow> 'p \<Rightarrow> (Message list \<times> 'p) option" where
  "read_messages R 0 p = Some ([], p)"
| "read_messages R (Suc n) p =
     (case ReadMessage R p of
        Some (Some m, p') \<Rightarrow> map_option (\<lambda>(ms, p''). (m # ms, p'')) (read_messages R n p')
      | _ \<Rightarrow> None)"

lemma write_messages_contents:
  assumes "message_pipe R W contents"
  shows "list_all Message_wf ms \<Longrightarrow> \<exists>p'. cfor (WriteMessage W gle) ms p = (Inr (), p') \<and>
    contents p' = contents p @ concat (map (\<lambda>m. map packet_bytes (MessageToPackets m)) ms)"
proof (induction ms arbitrary: p)
  case Nil
  then show ?case by (simp add: cmd_simps)
next
  case (Cons m ms)
  then obtain p1 where "WriteMessage W gle m p = (Inr (), p1)"
    "contents p1 = contents p @ map packet_bytes (MessageToPackets m)"
    using WriteMessage_contents [OF assms, of m gle p] by auto
  with Cons.IH [of p1] Cons.prems show ?case by (auto simp: cseq_def cbind_def)
qed

lemma read_messages_contents:
  assumes "message_pipe R W contents"
  shows "list_all Message_wf ms \<Longrightarrow>
    contents p = concat (map (\<lambda>m. map packet_bytes (MessageToPackets m)) ms) @ rest \<Longrightarrow>
    \<exists>p'. read_messages R (length ms) p = Some (ms, p') \<and> contents p' = rest"
proof (induction ms arbitrary: p)
  case (Cons m ms)
  then obtain p1 where "ReadMessage R p = Some (Some m, p1)"
    "contents p1 = concat (map (\<lambda>m. map packet_bytes (MessageToPackets m)) ms) @ rest"
    using ReadMessage_packets [OF assms, of m p] by auto
  with Cons.IH [of p1] Cons.prems show ?case by auto
qed simp

section \<open>The shutdown request of the agent\<close>

text \<open>
  \<open>SendShutdownToPluginHost\<close> (PluginNamedPipeAgentTransport.cpp) writes the bytes of the
  \<open>Message\<close> object itself: the three header fields, four bytes of padding and the three null
  pointers of the empty vector, without a packet header.
\<close>

definition Message_object_bytes :: "string \<Rightarrow> Message \<Rightarrow> string" where
  "Message_object_bytes padding m = Message_header m @ padding @ replicate 24 (CHR 0x00)"

definition shutdown_message :: Message where
  "shutdown_message = \<lparr>messageType = Request, callType = PluginShutdownCall, errorCode = 0, data = []\<rparr>"

definition SendShutdown :: "'p write_file \<Rightarrow> string \<Rightarrow> 'p \<Rightarrow> bool \<times> 'p" where
  "SendShutdown WriteFile padding p =
     (let bs = Message_object_bytes padding shutdown_message
      in case WriteFile bs p of (fSuccess, cbWritten, p') \<Rightarrow> (fSuccess \<and> cbWritten = length bs, p'))"

lemma le_value_zeros [simp]: "le_value (replicate n (CHR 0x00)) = 0"
  by (induction n) simp_all

lemma le_value_append: "le_value (a @ b) = le_value a + 256 ^ length a * le_value b"
  by (induction a) (simp_all add: algebra_simps)

text \<open>The plug-in reads it as two packet headers, neither of which is the last of a message.\<close>

lemma shutdown_first_header:
  assumes "length padding = 4"
  shows "packet_of_header (take 24 (Message_object_bytes padding shutdown_message)) =
    \<lparr>index = of_nat (1 + 3 * 2 ^ 32), count = of_nat (le_value padding * 2 ^ 32), payloadSize = 0, payload = []\<rparr>"
proof -
  let ?h = "take 24 (Message_object_bytes padding shutdown_message)"
  have h: "?h = le_bytes 4 1 @ le_bytes 4 3 @ le_bytes 4 0 @ padding @ replicate 8 (CHR 0x00)"
    using assms by (simp add: Message_object_bytes_def Message_header_def shutdown_message_def)
  show ?thesis
    unfolding packet_of_header_def h using assms
    by (simp add: le_value_append le_value_le_bytes)
qed

lemma shutdown_second_header:
  "packet_of_header (replicate 16 (CHR 0x00)) = \<lparr>index = 0, count = 0, payloadSize = 0, payload = []\<rparr>"
proof -
  have "take 24 (replicate 16 (CHR 0x00) @ replicate 24 (CHR 0x00)) = replicate 24 (CHR 0x00)"
    by (simp flip: replicate_add)
  then show ?thesis by (simp add: packet_of_header_def Let_def)
qed

lemma read_shutdown_bytes:
  assumes pipe: "message_pipe R W contents" and pad: "length padding = 4"
    and c: "contents p = [Message_object_bytes padding shutdown_message]"
  shows "\<exists>p' acc. contents p' = [] \<and> read_packets R [] p = read_packets R acc p'"
proof -
  let ?bs = "Message_object_bytes padding shutdown_message"
  have l: "length ?bs = 40" using pad by (simp add: Message_object_bytes_def)
  obtain p1 where r1: "R Packet_HeaderSize p = (ReadMoreData, take 24 ?bs, p1)"
    and c1: "contents p1 = [drop 24 ?bs]"
    by (rule message_pipe_read_part [OF pipe c, of Packet_HeaderSize]) (simp_all add: l Packet_HeaderSize_def)
  have d: "drop 24 ?bs = replicate 16 (CHR 0x00)"
    using pad by (simp add: Message_object_bytes_def)
  obtain p2 where r2: "R Packet_HeaderSize p1 = (ReadOk, replicate 16 (CHR 0x00), p2)"
    and c2: "contents p2 = []"
    by (rule message_pipe_read_whole [OF pipe c1 [unfolded d], of Packet_HeaderSize]) (simp_all add: Packet_HeaderSize_def)
  have ne1: "(of_nat (1 + 3 * 2 ^ 32) :: size_t) \<noteq> of_nat (le_value padding * 2 ^ 32) - 1"
  proof
    assume "(of_nat (1 + 3 * 2 ^ 32) :: size_t) = of_nat (le_value padding * 2 ^ 32) - 1"
    then have "(of_nat (2 + 3 * 2 ^ 32) :: size_t) = of_nat (le_value padding * 2 ^ 32)"
      by (simp add: algebra_simps)
    then have eq: "unat (of_nat (2 + 3 * 2 ^ 32) :: size_t) = unat (of_nat (le_value padding * 2 ^ 32) :: size_t)"
      by (rule arg_cong)
    have u1: "unat (of_nat (2 + 3 * 2 ^ 32) :: size_t) = 2 + 3 * 2 ^ 32" by (rule unat_size) simp
    have "le_value padding < 4294967296" using le_value_bound [of padding] pad by simp
    then have "le_value padding * 2 ^ 32 < 2 ^ 64" by simp
    then have u2: "unat (of_nat (le_value padding * 2 ^ 32) :: size_t) = le_value padding * 2 ^ 32"
      by (rule unat_size)
    have "2 + 3 * 2 ^ 32 = le_value padding * 2 ^ 32" using eq unfolding u1 u2 .
    then have "2147483648 * le_value padding = 6442450945" by simp
    then have "even (2147483648 * le_value padding) = even (6442450945 :: nat)" by (rule arg_cong)
    then show False by simp
  qed
  have nonempty: "take 24 ?bs \<noteq> []" using l by auto
  let ?q1 = "packet_of_header (take 24 ?bs)" and ?q2 = "packet_of_header (replicate 16 (CHR 0x00))"
  have "read_packets R [] p = read_packets R [?q1] p1"
    by (subst read_packets.simps)
      (use nonempty ne1 in \<open>simp add: r1 shutdown_first_header [OF pad] Let_def del: of_nat_add\<close>)
  also have "\<dots> = read_packets R [?q1, ?q2] p2"
    by (subst read_packets.simps) (simp add: r2 shutdown_second_header Let_def)
  finally show ?thesis using c2 by blast
qed

section \<open>Properties\<close>

text \<open>A message-mode pipe as a list of messages, for the witnesses.\<close>

definition list_write :: "string list write_file" where
  "list_write bs p = (True, length bs, p @ [bs])"

definition list_read :: "string list read_file" where
  "list_read n p = (case p of
      [] \<Rightarrow> (ReadFailed 109, [], [])
    | bs # rest \<Rightarrow> if length bs \<le> n then (ReadOk, bs, rest) else (ReadMoreData, take n bs, drop n bs # rest))"

lemma list_message_pipe: "message_pipe list_read list_write (\<lambda>p. p)"
  by (auto simp: message_pipe_def list_read_def list_write_def)

text \<open>
  C21: messages written to a message-mode pipe one after the other are read back as the same
  messages in the same order, and nothing is left on the pipe: reading ends, and the packets
  of one message never run into the next.
\<close>

theorem messages_round_trip:
  assumes "message_pipe R W contents" and "list_all Message_wf ms" and "contents p = []"
  shows "\<exists>p1 p2. cfor (WriteMessage W gle) ms p = (Inr (), p1) \<and>
    read_messages R (length ms) p1 = Some (ms, p2) \<and> contents p2 = []"
  using write_messages_contents [OF assms(1,2), of gle p] read_messages_contents [OF assms(1,2), of _ "[]"]
    assms(3) by auto

theorem messages_round_trip_witness:
  "\<exists>p1 p2. cfor (WriteMessage list_write 0) [sample_message, sample_message] [] = (Inr (), p1) \<and>
     read_messages list_read 2 p1 = Some ([sample_message, sample_message], p2) \<and> p2 = []"
  using messages_round_trip [OF list_message_pipe, of "[sample_message, sample_message]" "[]" 0]
  by (simp add: sample_message_wf numeral_2_eq_2)

text \<open>
  The shutdown request of the agent is not a message on the wire: the plug-in's reader
  takes the raw bytes for two packets that do not end a message and goes on waiting for
  packets, so the request is not delivered.
\<close>

theorem shutdown_is_not_read:
  assumes "message_pipe R W contents" and "length padding = 4" and "contents p = []"
  shows "\<exists>p1 p2 acc. SendShutdown W padding p = (True, p1) \<and>
    read_packets R [] p1 = read_packets R acc p2 \<and> contents p2 = []"
proof -
  let ?bs = "Message_object_bytes padding shutdown_message"
  obtain p1 where w: "W ?bs p = (True, length ?bs, p1)" and c: "contents p1 = contents p @ [?bs]"
    by (rule message_pipe_write [OF assms(1)])
  from c assms(3) have "contents p1 = [?bs]" by simp
  from read_shutdown_bytes [OF assms(1,2) this] w show ?thesis
    by (auto simp: SendShutdown_def Let_def)
qed

theorem shutdown_is_not_read_witness:
  "\<exists>p1 p2 acc. SendShutdown list_write (replicate 4 (CHR 0x00)) [] = (True, p1) \<and>
     read_packets list_read [] p1 = read_packets list_read acc p2 \<and> p2 = []"
  by (rule shutdown_is_not_read [OF list_message_pipe]) simp_all

end
