(* ===== verification/Ipc_Dispatch.thy ===== *)
theory Ipc_Dispatch
  imports Ipc_Transport
begin

text \<open>
  The threads of a transport (device-agent/common/Plugins: MessageQueue.cpp and
  PluginNamedPipeBaseTransport.cpp): \<open>RunMessageMonitor\<close> sorts what arrives on the pipe into
  two queues and signals an auto-reset event after each push; \<open>RunRequestMonitor\<close> waits for
  the request event and processes one request per wake-up; \<open>SendAndGetResponse\<close> waits for the
  response event and takes one response.  Each atomic action of a thread is one step.
\<close>

section \<open>MessageQueue\<close>

type_synonym 'a MessageQueue = "'a list"

definition Push :: "'a \<Rightarrow> 'a MessageQueue \<Rightarrow> 'a MessageQueue" where
  "Push msg q = q @ [msg]"

definition Pop :: "'a MessageQueue \<Rightarrow> 'a option \<times> 'a MessageQueue" where
  "Pop q = (case q of [] \<Rightarrow> (None, []) | front # rest \<Rightarrow> (Some front, rest))"

definition Size :: "'a MessageQueue \<Rightarrow> nat" where
  "Size q = length q mod 2 ^ 32"

definition Clear :: "'a MessageQueue \<Rightarrow> 'a MessageQueue" where
  "Clear q = []"

text \<open>The contract of a queue: \<open>items\<close> is what it holds, oldest first.\<close>

locale fifo =
  fixes push :: "'a \<Rightarrow> 'q \<Rightarrow> 'q" and pop :: "'q \<Rightarrow> 'a option \<times> 'q" and items :: "'q \<Rightarrow> 'a list"
  assumes items_push: "items (push x q) = items q @ [x]"
    and pop_empty: "items q = [] \<Longrightarrow> fst (pop q) = None \<and> items (snd (pop q)) = []"
    and pop_front: "items q = x # xs \<Longrightarrow> fst (pop q) = Some x \<and> items (snd (pop q)) = xs"
begin

fun pops :: "nat \<Rightarrow> 'q \<Rightarrow> 'a list \<times> 'q" where
  "pops 0 q = ([], q)"
| "pops (Suc n) q = (case pop q of
      (None, q') \<Rightarrow> ([], q')
    | (Some x, q') \<Rightarrow> (case pops n q' of (xs, q'') \<Rightarrow> (x # xs, q'')))"

lemma pop_iff: "pop q = (Some x, q') \<Longrightarrow> items q = x # items q'"
  using pop_empty pop_front by (cases "items q") fastforce+

lemma pop_none_iff: "pop q = (None, q') \<Longrightarrow> items q = [] \<and> items q' = []"
  using pop_empty pop_front by (cases "items q") fastforce+

lemma pops_eq: "fst (pops n q) = take n (items q) \<and> items (snd (pops n q)) = drop n (items q)"
proof (induction n arbitrary: q)
  case (Suc n)
  show ?case
  proof (cases "pop q")
    case (Pair r q')
    then show ?thesis
      using Suc.IH [of q'] pop_iff pop_none_iff by (cases r) (fastforce split: prod.splits)+
  qed
qed simp

lemma items_fold: "items (fold push xs q) = items q @ xs"
  by (induction xs arbitrary: q) (simp_all add: items_push)

lemma push_pop_order: "items q = [] \<Longrightarrow> fst (pops (length xs) (fold push xs q)) = xs"
  by (simp add: pops_eq items_fold)

end

interpretation mq: fifo Push Pop "\<lambda>q. q"
  by unfold_locales (auto simp: Push_def Pop_def)

section \<open>The threads\<close>

datatype Signal = NoSignal | SignalRequest | SignalResponse

text \<open>\<open>RunRequestMonitor\<close>: waiting, woken by the event, processing a request, or returned.\<close>

datatype Worker = Waiting | Woken | Processing Message | Stopped

text \<open>A thread in \<open>SendAndGetResponse\<close>; \<open>GotNull\<close> is a response that was not there.\<close>

datatype Caller = NotCalling | AwaitsResponse | HasResponse | GotNull

record Dispatcher =
  incoming :: "Message list"
  requestQueue :: "Message MessageQueue"
  responseQueue :: "Message MessageQueue"
  toSignal :: Signal
  requestEvent :: bool
  responseEvent :: bool
  shutdownEvent :: bool
  worker :: Worker
  caller :: Caller
  arrived :: "Message list"
  processed :: "Message list"
  delivered :: "Message list"

definition Dispatcher_new :: Dispatcher where
  "Dispatcher_new = \<lparr>incoming = [], requestQueue = [], responseQueue = [], toSignal = NoSignal,
     requestEvent = False, responseEvent = False, shutdownEvent = False, worker = Waiting,
     caller = NotCalling, arrived = [], processed = [], delivered = []\<rparr>"

text \<open>
  \<open>Initialize\<close> over a transport whose threads have returned: the events are reset, the queues
  cleared, the pipe is a new one and the threads are started; what arrived, was processed and was
  delivered is counted from here.
\<close>

definition Initialize :: "Dispatcher \<Rightarrow> Dispatcher" where
  "Initialize s = s\<lparr>incoming := [], requestQueue := Clear (requestQueue s), responseQueue := Clear (responseQueue s),
     toSignal := NoSignal, requestEvent := False, responseEvent := False, shutdownEvent := False,
     worker := Waiting, arrived := [], processed := [], delivered := []\<rparr>"

lemma Initialize_new: "caller s = NotCalling \<Longrightarrow> Initialize s = Dispatcher_new"
  by (simp add: Initialize_def Dispatcher_new_def Clear_def)

text \<open>What the other process and the owner of the transport do.\<close>

inductive env_step :: "Dispatcher \<Rightarrow> Dispatcher \<Rightarrow> bool" where
  arrive: "env_step s (s\<lparr>incoming := incoming s @ [m], arrived := arrived s @ [m]\<rparr>)"
| call: "caller s = NotCalling \<Longrightarrow> env_step s (s\<lparr>caller := AwaitsResponse\<rparr>)"
| shutdown: "env_step s (s\<lparr>shutdownEvent := True\<rparr>)"
| initialize: "worker s = Stopped \<Longrightarrow> toSignal s = NoSignal \<Longrightarrow> caller s = NotCalling \<Longrightarrow> env_step s (Initialize s)"

text \<open>
  What the threads do.  \<open>WaitForMultipleObjects\<close> prefers the request event, its first handle.  A
  request that has been taken stays with the worker until \<open>finish\<close>, the return of
  \<open>ProcessRequestMessage\<close>, which may come after any number of other steps; a call that never
  returns is a run in which the worker stays in \<open>Processing\<close>.
\<close>

inductive thread_step :: "Dispatcher \<Rightarrow> Dispatcher \<Rightarrow> bool" where
  read_request: "toSignal s = NoSignal \<Longrightarrow> incoming s = m # rest \<Longrightarrow> messageType m = Request \<Longrightarrow>
    thread_step s (s\<lparr>incoming := rest, requestQueue := Push m (requestQueue s), toSignal := SignalRequest\<rparr>)"
| read_response: "toSignal s = NoSignal \<Longrightarrow> incoming s = m # rest \<Longrightarrow> messageType m = Response \<Longrightarrow>
    thread_step s (s\<lparr>incoming := rest, responseQueue := Push m (responseQueue s), toSignal := SignalResponse\<rparr>)"
| read_other: "toSignal s = NoSignal \<Longrightarrow> incoming s = m # rest \<Longrightarrow>
    messageType m \<noteq> Request \<Longrightarrow> messageType m \<noteq> Response \<Longrightarrow> thread_step s (s\<lparr>incoming := rest\<rparr>)"
| signal_request: "toSignal s = SignalRequest \<Longrightarrow>
    thread_step s (s\<lparr>toSignal := NoSignal, requestEvent := True\<rparr>)"
| signal_response: "toSignal s = SignalResponse \<Longrightarrow>
    thread_step s (s\<lparr>toSignal := NoSignal, responseEvent := True\<rparr>)"
| wake: "worker s = Waiting \<Longrightarrow> requestEvent s \<Longrightarrow>
    thread_step s (s\<lparr>worker := Woken, requestEvent := False\<rparr>)"
| take: "worker s = Woken \<Longrightarrow> Pop (requestQueue s) = (Some m, q) \<Longrightarrow>
    thread_step s (s\<lparr>worker := Processing m, requestQueue := q\<rparr>)"
| nothing: "worker s = Woken \<Longrightarrow> Pop (requestQueue s) = (None, q) \<Longrightarrow>
    thread_step s (s\<lparr>worker := Waiting, requestQueue := q\<rparr>)"
| finish: "worker s = Processing m \<Longrightarrow>
    thread_step s (s\<lparr>worker := Waiting, processed := processed s @ [m]\<rparr>)"
| stop: "worker s = Waiting \<Longrightarrow> \<not> requestEvent s \<Longrightarrow> shutdownEvent s \<Longrightarrow> thread_step s (s\<lparr>worker := Stopped\<rparr>)"
| wake_caller: "caller s = AwaitsResponse \<Longrightarrow> responseEvent s \<Longrightarrow>
    thread_step s (s\<lparr>caller := HasResponse, responseEvent := False\<rparr>)"
| take_response: "caller s = HasResponse \<Longrightarrow> Pop (responseQueue s) = (Some m, q) \<Longrightarrow>
    thread_step s (s\<lparr>caller := NotCalling, responseQueue := q, delivered := delivered s @ [m]\<rparr>)"
| take_null: "caller s = HasResponse \<Longrightarrow> Pop (responseQueue s) = (None, q) \<Longrightarrow>
    thread_step s (s\<lparr>caller := GotNull, responseQueue := q\<rparr>)"

inductive_cases env_stepE: "env_step s s'"
inductive_cases thread_stepE: "thread_step s s'"

definition any_step :: "Dispatcher \<Rightarrow> Dispatcher \<Rightarrow> bool" where
  "any_step s s' \<longleftrightarrow> env_step s s' \<or> thread_step s s'"

definition reachable :: "Dispatcher \<Rightarrow> bool" where
  "reachable s \<longleftrightarrow> any_step\<^sup>*\<^sup>* Dispatcher_new s"

lemma reachable_induct [consumes 1, case_names init env thread]:
  assumes "reachable s" and "P Dispatcher_new"
    and "\<And>s s'. reachable s \<Longrightarrow> P s \<Longrightarrow> env_step s s' \<Longrightarrow> P s'"
    and "\<And>s s'. reachable s \<Longrightarrow> P s \<Longrightarrow> thread_step s s' \<Longrightarrow> P s'"
  shows "P s"
proof -
  have "any_step\<^sup>*\<^sup>* Dispatcher_new s" using assms(1) by (simp add: reachable_def)
  then have "reachable s \<and> P s"
  proof (induction rule: rtranclp_induct)
    case base
    show ?case using assms(2) by (simp add: reachable_def)
  next
    case (step t u)
    then have "reachable u" by (meson reachable_def rtranclp.rtrancl_into_rtrancl)
    moreover have "P u" using step assms(3,4) unfolding any_step_def by blast
    ultimately show ?case by simp
  qed
  then show ?thesis by simp
qed

section \<open>First in, first out\<close>

fun busy :: "Worker \<Rightarrow> Message list" where
  "busy (Processing m) = [m]"
| "busy _ = []"

definition requests :: "Message list \<Rightarrow> Message list" where
  "requests = filter (\<lambda>m. messageType m = Request)"

definition responses :: "Message list \<Rightarrow> Message list" where
  "responses = filter (\<lambda>m. messageType m = Response)"

definition fifo_inv :: "Dispatcher \<Rightarrow> bool" where
  "fifo_inv s \<longleftrightarrow>
     processed s @ busy (worker s) @ requestQueue s @ requests (incoming s) = requests (arrived s) \<and>
     delivered s @ responseQueue s @ responses (incoming s) = responses (arrived s)"

lemma fifo_inv_env: "fifo_inv s \<Longrightarrow> env_step s s' \<Longrightarrow> fifo_inv s'"
  by (erule env_stepE) (auto simp: fifo_inv_def requests_def responses_def Initialize_def Clear_def)

lemma fifo_inv_thread: "fifo_inv s \<Longrightarrow> thread_step s s' \<Longrightarrow> fifo_inv s'"
  by (erule thread_stepE)
    (auto simp: fifo_inv_def requests_def responses_def mq.items_push dest!: mq.pop_iff mq.pop_none_iff)

lemma reachable_fifo: "reachable s \<Longrightarrow> fifo_inv s"
proof (induction rule: reachable_induct)
  case init
  show ?case by (simp add: fifo_inv_def Dispatcher_new_def requests_def responses_def)
next
  case (env s s')
  then show ?case by (blast intro: fifo_inv_env)
next
  case (thread s s')
  then show ?case by (blast intro: fifo_inv_thread)
qed

section \<open>The threads come to rest\<close>

definition work_left :: "Dispatcher \<Rightarrow> nat" where
  "work_left s = 5 * length (incoming s) + (if toSignal s = NoSignal then 0 else 3)
     + (if requestEvent s then 2 else 0) + (if responseEvent s then 2 else 0) + length (requestQueue s)
     + (case worker s of Waiting \<Rightarrow> 1 | Woken \<Rightarrow> 2 | Processing m \<Rightarrow> 2 | Stopped \<Rightarrow> 0)
     + (if caller s = HasResponse then 1 else 0)"

lemma work_left_decreases: "thread_step s s' \<Longrightarrow> work_left s' < work_left s"
  by (erule thread_stepE)
    (auto simp: work_left_def mq.items_push dest!: mq.pop_iff mq.pop_none_iff split: Worker.splits)

lemma thread_steps_bounded: "(thread_step ^^ n) s s' \<Longrightarrow> n + work_left s' \<le> work_left s"
proof (induction n arbitrary: s')
  case (Suc n)
  then obtain t where "(thread_step ^^ n) s t" "thread_step t s'" by auto
  with Suc.IH [of t] work_left_decreases [of t s'] show ?case by simp
qed simp

definition quiescent :: "Dispatcher \<Rightarrow> bool" where
  "quiescent s \<longleftrightarrow> (\<forall>s'. \<not> thread_step s s')"

lemma quiescent_iff:
  "quiescent s \<longleftrightarrow> (toSignal s = NoSignal \<and> incoming s = [] \<and>
     (worker s = Stopped \<or> worker s = Waiting \<and> \<not> requestEvent s \<and> \<not> shutdownEvent s) \<and>
     (caller s = NotCalling \<or> caller s = GotNull \<or> caller s = AwaitsResponse \<and> \<not> responseEvent s))"
  (is "_ \<longleftrightarrow> ?rest")
proof
  assume q: "quiescent s"
  have none: "\<not> thread_step s s'" for s' using q by (simp add: quiescent_def)
  have sig: "toSignal s = NoSignal"
    using none thread_step.signal_request thread_step.signal_response by (cases "toSignal s") blast+
  have inc: "incoming s = []"
  proof (cases "incoming s")
    case (Cons m rest)
    with sig none show ?thesis
      using thread_step.read_request thread_step.read_response thread_step.read_other by metis
  qed
  have work: "worker s = Stopped \<or> worker s = Waiting \<and> \<not> requestEvent s \<and> \<not> shutdownEvent s"
  proof (cases "worker s")
    case Woken
    obtain r q where "Pop (requestQueue s) = (r, q)" by (cases "Pop (requestQueue s)")
    with Woken none show ?thesis
      using thread_step.take thread_step.nothing by (cases r) metis+
  qed (use none thread_step.wake thread_step.stop thread_step.finish in metis)+
  have call: "caller s = NotCalling \<or> caller s = GotNull \<or> caller s = AwaitsResponse \<and> \<not> responseEvent s"
  proof (cases "caller s")
    case HasResponse
    obtain r q where "Pop (responseQueue s) = (r, q)" by (cases "Pop (responseQueue s)")
    with HasResponse none show ?thesis
      using thread_step.take_response thread_step.take_null by (cases r) metis+
  qed (use none thread_step.wake_caller in blast)+
  from sig inc work call show ?rest by simp
next
  assume ?rest
  then show "quiescent s" unfolding quiescent_def by (auto elim: thread_stepE)
qed

lemma comes_to_rest: "\<exists>s'. thread_step\<^sup>*\<^sup>* s s' \<and> quiescent s'"
proof (induction "work_left s" arbitrary: s rule: less_induct)
  case less
  show ?case
  proof (cases "quiescent s")
    case False
    then obtain t where t: "thread_step s t" by (auto simp: quiescent_def)
    with less work_left_decreases obtain s' where "thread_step\<^sup>*\<^sup>* t s'" "quiescent s'" by blast
    with t show ?thesis by (meson converse_rtranclp_into_rtranclp)
  qed auto
qed

lemma reachable_threads: "reachable s \<Longrightarrow> thread_step\<^sup>*\<^sup>* s s' \<Longrightarrow> reachable s'"
  unfolding reachable_def
  by (erule rtranclp_trans, erule rtranclp_mono [THEN predicate2D, rotated]) (simp add: le_fun_def any_step_def)

section \<open>Lost and kept wake-ups\<close>

definition outstanding :: "Dispatcher \<Rightarrow> nat" where
  "outstanding s = length (busy (worker s)) + length (requestQueue s) + length (requests (incoming s))"

text \<open>The other process sends a request only when it has the answer to the one before.\<close>

definition sync_step :: "Dispatcher \<Rightarrow> Dispatcher \<Rightarrow> bool" where
  "sync_step s s' \<longleftrightarrow> any_step s s' \<and> outstanding s' \<le> 1"

definition wake_inv :: "Dispatcher \<Rightarrow> bool" where
  "wake_inv s \<longleftrightarrow> outstanding s \<le> 1 \<and>
     (requestQueue s \<noteq> [] \<longrightarrow> requestEvent s \<or> toSignal s = SignalRequest \<or> worker s = Woken) \<and>
     (worker s = Stopped \<longrightarrow> shutdownEvent s)"

lemma wake_inv_env: "wake_inv s \<Longrightarrow> env_step s s' \<Longrightarrow> outstanding s' \<le> 1 \<Longrightarrow> wake_inv s'"
  by (erule env_stepE) (auto simp: wake_inv_def Initialize_def Clear_def)

lemma wake_inv_thread: "wake_inv s \<Longrightarrow> thread_step s s' \<Longrightarrow> outstanding s' \<le> 1 \<Longrightarrow> wake_inv s'"
  by (erule thread_stepE)
    (auto simp: wake_inv_def outstanding_def Suc_le_eq dest!: mq.pop_iff mq.pop_none_iff)

lemma sync_wake_inv: "sync_step\<^sup>*\<^sup>* Dispatcher_new s \<Longrightarrow> wake_inv s"
proof (induction rule: rtranclp_induct)
  case base
  show ?case by (simp add: wake_inv_def outstanding_def Dispatcher_new_def requests_def)
next
  case (step s s')
  then have "outstanding s' \<le> 1" "env_step s s' \<or> thread_step s s'" by (simp_all add: sync_step_def any_step_def)
  with step.IH show ?case using wake_inv_env wake_inv_thread by metis
qed

lemma sync_reachable: "sync_step\<^sup>*\<^sup>* Dispatcher_new s \<Longrightarrow> reachable s"
  unfolding reachable_def
  by (erule rtranclp_mono [THEN predicate2D, rotated]) (simp add: le_fun_def sync_step_def)

lemma all_processed:
  assumes "sync_step\<^sup>*\<^sup>* Dispatcher_new s" and "quiescent s" and "\<not> shutdownEvent s"
  shows "processed s = requests (arrived s)"
proof -
  have inv: "wake_inv s" by (rule sync_wake_inv [OF assms(1)])
  have rest: "toSignal s = NoSignal" "incoming s = []" "worker s = Waiting" "\<not> requestEvent s"
    using assms(2,3) inv unfolding quiescent_iff wake_inv_def by auto
  then have "requestQueue s = []" using inv by (auto simp: wake_inv_def)
  with rest reachable_fifo [OF sync_reachable [OF assms(1)]] show ?thesis
    by (simp add: fifo_inv_def requests_def)
qed

text \<open>Two requests that arrive before the first is taken: the event is set once.\<close>

definition lost_request :: "Message \<Rightarrow> Message \<Rightarrow> Dispatcher" where
  "lost_request m1 m2 = Dispatcher_new\<lparr>arrived := [m1, m2], processed := [m1], requestQueue := [m2]\<rparr>"

lemma reachable_next:
  "reachable s \<Longrightarrow> env_step s s' \<Longrightarrow> reachable s'"
  "reachable s \<Longrightarrow> thread_step s s' \<Longrightarrow> reachable s'"
  unfolding reachable_def by (auto intro: rtranclp.rtrancl_into_rtrancl simp: any_step_def)

lemma lost_request_reachable:
  assumes m: "messageType m1 = Request" "messageType m2 = Request"
  shows "reachable (lost_request m1 m2)"
proof -
  note thread_next = reachable_next(2)
  have "reachable Dispatcher_new" by (simp add: reachable_def)
  from reachable_next(1) [OF this env_step.arrive [where m = m1]]
  have "reachable (Dispatcher_new\<lparr>incoming := [m1], arrived := [m1]\<rparr>)" by (simp add: Dispatcher_new_def)
  from reachable_next(1) [OF this env_step.arrive [where m = m2]]
  have "reachable (Dispatcher_new\<lparr>incoming := [m1, m2], arrived := [m1, m2]\<rparr>)"
    by (simp add: Dispatcher_new_def)
  from thread_next [OF this thread_step.read_request [where m = m1]] m
  have "reachable (Dispatcher_new\<lparr>incoming := [m2], arrived := [m1, m2], requestQueue := [m1],
      toSignal := SignalRequest\<rparr>)" by (simp add: Dispatcher_new_def Push_def)
  from thread_next [OF this thread_step.signal_request]
  have "reachable (Dispatcher_new\<lparr>incoming := [m2], arrived := [m1, m2], requestQueue := [m1],
      requestEvent := True\<rparr>)" by (simp add: Dispatcher_new_def)
  from thread_next [OF this thread_step.read_request [where m = m2]] m
  have "reachable (Dispatcher_new\<lparr>arrived := [m1, m2], requestQueue := [m1, m2], requestEvent := True,
      toSignal := SignalRequest\<rparr>)" by (simp add: Dispatcher_new_def Push_def)
  from thread_next [OF this thread_step.signal_request]
  have "reachable (Dispatcher_new\<lparr>arrived := [m1, m2], requestQueue := [m1, m2], requestEvent := True\<rparr>)"
    by (simp add: Dispatcher_new_def)
  from thread_next [OF this thread_step.wake]
  have "reachable (Dispatcher_new\<lparr>arrived := [m1, m2], requestQueue := [m1, m2], worker := Woken\<rparr>)"
    by (simp add: Dispatcher_new_def)
  from thread_next [OF this thread_step.take [where m = m1 and q = "[m2]"]]
  have "reachable (Dispatcher_new\<lparr>arrived := [m1, m2], requestQueue := [m2], worker := Processing m1\<rparr>)"
    by (simp add: Dispatcher_new_def Pop_def)
  from thread_next [OF this thread_step.finish [where m = m1]]
  show ?thesis by (simp add: lost_request_def Dispatcher_new_def)
qed

lemma lost_request_rests:
  "quiescent (lost_request m1 m2)" "\<not> shutdownEvent (lost_request m1 m2)"
  "requestQueue (lost_request m1 m2) = [m2]"
  by (simp_all add: quiescent_iff lost_request_def Dispatcher_new_def)

section \<open>Properties\<close>

text \<open>
  C13: in every reachable state of the transport's threads, whatever the interleaving, the
  requests processed, being processed, queued and still on the pipe are, in this order,
  exactly the requests that arrived since the transport was initialized; and likewise for the responses: nothing is lost from
  the queues, doubled or overtaken.
\<close>

theorem dispatch_is_fifo:
  assumes "reachable s"
  shows "processed s @ busy (worker s) @ requestQueue s @ requests (incoming s) = requests (arrived s) \<and>
    delivered s @ responseQueue s @ responses (incoming s) = responses (arrived s)"
  using reachable_fifo [OF assms] by (simp add: fifo_inv_def)

theorem dispatch_is_fifo_witness:
  "processed (lost_request sample_message sample_message) @ [sample_message] = [sample_message, sample_message]"
proof -
  have "messageType sample_message = Request" by (simp add: sample_message_def)
  from dispatch_is_fifo [OF lost_request_reachable [OF this this]] this show ?thesis
    by (simp add: lost_request_def Dispatcher_new_def requests_def)
qed

text \<open>
  C15: the threads come to rest: without further arrivals every run of the threads is at most
  \<open>work_left\<close> steps long, and from every state there is a run to a state of rest.
\<close>

theorem dispatch_terminates:
  "((thread_step ^^ n) s s' \<longrightarrow> n \<le> work_left s) \<and> (\<exists>t. thread_step\<^sup>*\<^sup>* s t \<and> quiescent t)"
  using thread_steps_bounded [of n s s'] comes_to_rest [of s] by auto

theorem dispatch_terminates_witness:
  "\<exists>t. thread_step\<^sup>*\<^sup>* (Dispatcher_new\<lparr>incoming := [sample_message]\<rparr>) t \<and> quiescent t"
  using dispatch_terminates [of 0 "Dispatcher_new\<lparr>incoming := [sample_message]\<rparr>"] by blast

text \<open>
  C14: when the other side sends a request only after the previous one was answered, no wake-up
  is lost: whenever the threads have come to rest, the worker not stuck in a request, and no
  shutdown has been asked for, every request that arrived has been processed.  After a shutdown a
  request may stay in the queue.
\<close>

theorem synchronous_requests_are_processed:
  assumes "sync_step\<^sup>*\<^sup>* Dispatcher_new s" and "quiescent s" and "\<not> shutdownEvent s"
  shows "processed s = requests (arrived s)"
  by (rule all_processed [OF assms])

lemma sync_next:
  "sync_step\<^sup>*\<^sup>* Dispatcher_new s \<Longrightarrow> env_step s s' \<Longrightarrow> outstanding s' \<le> 1 \<Longrightarrow> sync_step\<^sup>*\<^sup>* Dispatcher_new s'"
  "sync_step\<^sup>*\<^sup>* Dispatcher_new s \<Longrightarrow> thread_step s s' \<Longrightarrow> outstanding s' \<le> 1 \<Longrightarrow> sync_step\<^sup>*\<^sup>* Dispatcher_new s'"
  by (auto intro: rtranclp.rtrancl_into_rtrancl simp: sync_step_def any_step_def)

lemma one_request_served:
  assumes m: "messageType m = Request"
  shows "sync_step\<^sup>*\<^sup>* Dispatcher_new (Dispatcher_new\<lparr>arrived := [m], processed := [m]\<rparr>)"
proof -
  note step = sync_next(2) and defs = Dispatcher_new_def outstanding_def requests_def Push_def Pop_def
  have "sync_step\<^sup>*\<^sup>* Dispatcher_new (Dispatcher_new\<lparr>incoming := [m], arrived := [m]\<rparr>)"
    using sync_next(1) [OF rtranclp.rtrancl_refl env_step.arrive [where m = m]] m by (simp add: defs)
  from step [OF this thread_step.read_request [where m = m and rest = "[]"]] m
  have "sync_step\<^sup>*\<^sup>* Dispatcher_new (Dispatcher_new\<lparr>arrived := [m], requestQueue := [m], toSignal := SignalRequest\<rparr>)"
    by (simp add: defs)
  from step [OF this thread_step.signal_request]
  have "sync_step\<^sup>*\<^sup>* Dispatcher_new (Dispatcher_new\<lparr>arrived := [m], requestQueue := [m], requestEvent := True\<rparr>)"
    by (simp add: defs)
  from step [OF this thread_step.wake]
  have "sync_step\<^sup>*\<^sup>* Dispatcher_new (Dispatcher_new\<lparr>arrived := [m], requestQueue := [m], worker := Woken\<rparr>)"
    by (simp add: defs)
  from step [OF this thread_step.take [where m = m and q = "[]"]]
  have "sync_step\<^sup>*\<^sup>* Dispatcher_new (Dispatcher_new\<lparr>arrived := [m], worker := Processing m\<rparr>)"
    by (simp add: defs)
  from step [OF this thread_step.finish [where m = m]] show ?thesis by (simp add: defs)
qed

theorem synchronous_requests_are_processed_witness:
  "processed (Dispatcher_new\<lparr>arrived := [sample_message], processed := [sample_message]\<rparr>) =
     requests (arrived (Dispatcher_new\<lparr>arrived := [sample_message], processed := [sample_message]\<rparr>))"
proof (rule synchronous_requests_are_processed)
  show "sync_step\<^sup>*\<^sup>* Dispatcher_new (Dispatcher_new\<lparr>arrived := [sample_message], processed := [sample_message]\<rparr>)"
    by (rule one_request_served) (simp add: sample_message_def)
qed (simp_all add: quiescent_iff Dispatcher_new_def)

text \<open>
  Without that discipline a wake-up can be lost: two requests that arrive before the
  first is taken set the auto-reset event once, and the threads come to rest with the second
  request in the queue and no shutdown asked for.
\<close>

theorem wake_up_can_be_lost:
  assumes "messageType m1 = Request" and "messageType m2 = Request"
  shows "\<exists>s. reachable s \<and> quiescent s \<and> \<not> shutdownEvent s \<and> arrived s = [m1, m2] \<and>
    processed s = [m1] \<and> requestQueue s = [m2]"
  by (rule exI [of _ "lost_request m1 m2"])
    (simp add: lost_request_reachable [OF assms] lost_request_rests, simp add: lost_request_def)

theorem wake_up_can_be_lost_witness:
  "\<exists>s. reachable s \<and> quiescent s \<and> \<not> shutdownEvent s \<and> requestQueue s = [sample_message]"
  using wake_up_can_be_lost [of sample_message sample_message] by (auto simp: sample_message_def)

end
