(* ===== verification/Cross_Binary.thy ===== *)
theory Cross_Binary
  imports Reporting
begin

text \<open>
  The JSON envelopes that carry calls between the agent and a marshalled plug-in
  (device-agent/common/Plugins: CrossBinaryRequest.cpp, CrossBinaryResponse.cpp,
  PluginHelpers.cpp) and the two ends that produce and consume them.  \<open>sty\<close> and \<open>prs\<close> are
  the writer and the reader of the JSON library; \<open>carried\<close> says that a particular value
  survives being written, passed as a C string and read.
\<close>

definition carried :: "(json \<Rightarrow> string) \<Rightarrow> (string \<Rightarrow> string + json) \<Rightarrow> json \<Rightarrow> bool" where
  "carried sty prs v \<longleftrightarrow> prs (c_str (sty v)) = Inr v"

section \<open>Requests\<close>

record CrossBinaryRequest =
  targetType :: string
  targetId :: string
  targetMethod :: string
  targetParameters :: json

definition request_json :: "string \<Rightarrow> string \<Rightarrow> string \<Rightarrow> json \<Rightarrow> json" where
  "request_json ty i m p =
     jobj [(''type'', JString ty), (''id'', JString i), (''method'', JString m), (''parameters'', p)]"

definition BuildRequest :: "(json \<Rightarrow> string) \<Rightarrow> string \<Rightarrow> string \<Rightarrow> string \<Rightarrow> json \<Rightarrow> string" where
  "BuildRequest sty ty i m p = sty (request_json ty i m p)"

definition Request_FromJson :: "json \<Rightarrow> CrossBinaryRequest res" where
  "Request_FromJson value =
     (if isNull value \<or> \<not> isObject value
      then Inl (DMExc DeviceAgent DM_ERROR_INVALID_REQUEST_JSON_SCHEMA ''Invalid request json schema.'')
      else rbind (rbind (json_at value ''type'') asString) (\<lambda>ty.
           rbind (rbind (json_at value ''id'') asString) (\<lambda>i.
           rbind (rbind (json_at value ''method'') asString) (\<lambda>m.
           rbind (json_at value ''parameters'') (\<lambda>p.
           Inr \<lparr>targetType = ty, targetId = i, targetMethod = m, targetParameters = p\<rparr>)))))"

definition Request_FromJsonString :: "(string \<Rightarrow> string + json) \<Rightarrow> string \<Rightarrow> CrossBinaryRequest res" where
  "Request_FromJsonString prs value =
     (case prs value of
        Inl errs \<Rightarrow> Inl (DMExc DeviceAgent DM_ERROR_INVALID_REQUEST_JSON ''Failed to parse plug-in request.'')
      | Inr jsonInput \<Rightarrow> Request_FromJson jsonInput)"

lemma Request_round_trip:
  "Request_FromJson (request_json ty i m p) =
     Inr \<lparr>targetType = ty, targetId = i, targetMethod = m, targetParameters = p\<rparr>"
  by (simp add: Request_FromJson_def request_json_def jobj_def sm_of_def)

section \<open>Responses\<close>

record CrossBinaryResponse =
  success :: bool
  cbr_payload :: json

definition CreateFromSuccess :: "json \<Rightarrow> CrossBinaryResponse" where
  "CreateFromSuccess p = \<lparr>success = True, cbr_payload = p\<rparr>"

text \<open>The overloads of \<open>CreateFromException\<close> for the two kinds of exception the code catches.\<close>

fun CreateFromException :: "exn \<Rightarrow> CrossBinaryResponse" where
  "CreateFromException (DMException s c m) =
     \<lparr>success = False, cbr_payload = jobj [(''errorType'', JString ''DMException''),
        (''errorSubSystem'', JString s), (''errorCode'', JInt c), (''errorMessage'', JString m)]\<rparr>"
| "CreateFromException e =
     \<lparr>success = False, cbr_payload = jobj [(''errorType'', JString ''StdException''),
        (''errorMessage'', JString (c_str (exn_what e)))]\<rparr>"

definition CrossBinaryResponse_ToJson :: "CrossBinaryResponse \<Rightarrow> json" where
  "CrossBinaryResponse_ToJson r = jobj [(''success'', JBool (success r)), (''payload'', cbr_payload r)]"

definition ThrowDMException :: "json \<Rightarrow> 'a res" where
  "ThrowDMException p =
     rbind (rbind (json_at p ''errorSubSystem'') asString) (\<lambda>s.
     rbind (rbind (json_at p ''errorCode'') asInt) (\<lambda>c.
     rbind (rbind (json_at p ''errorMessage'') asString) (\<lambda>m.
     Inl (DMException s c m))))"

definition ThrowStdException :: "json \<Rightarrow> 'a res" where
  "ThrowStdException p =
     rbind (rbind (json_at p ''errorMessage'') asString) (\<lambda>m. Inl (StdException (c_str m)))"

definition GetPayloadFromJson :: "json \<Rightarrow> json res" where
  "GetPayloadFromJson jsonObject =
     (if isNull jsonObject \<or> \<not> isObject jsonObject
      then Inl (DMExc DeviceAgent DM_ERROR_INVALID_RESPONSE_JSON_SCHEMA
        ''Failed to parse plug-in response: invalid type.'')
      else rbind (json_at jsonObject ''success'') (\<lambda>successValue.
        if isNull successValue \<or> \<not> isBool successValue
        then Inl (DMExc DeviceAgent DM_ERROR_INVALID_RESPONSE_JSON_SCHEMA
          ''Failed to parse plug-in response: invalid type or missing 'success'.'')
        else rbind (asBool successValue) (\<lambda>ok.
             rbind (json_at jsonObject ''payload'') (\<lambda>p.
             if \<not> ok
             then rbind (rbind (json_at p ''errorType'') asString) (\<lambda>errorType.
                  if errorType = ''DMException'' then ThrowDMException p
                  else if errorType = ''StdException'' then ThrowStdException p
                  else Inr p)
             else Inr p))))"

definition GetPayloadFromJsonString :: "(string \<Rightarrow> string + json) \<Rightarrow> string \<Rightarrow> json res" where
  "GetPayloadFromJsonString prs s =
     (case prs s of
        Inl errs \<Rightarrow> Inl (DMExc DeviceAgent DM_ERROR_INVALID_RESPONSE_JSON
          ''Failed to parse json to construct CrossBinaryResponse.'')
      | Inr jsonObject \<Rightarrow> GetPayloadFromJson jsonObject)"

text \<open>What a serving end answers to the outcome of a call, and the outcomes the envelope can carry.\<close>

definition response_of :: "json res \<Rightarrow> json" where
  "response_of r = CrossBinaryResponse_ToJson
     (case r of Inr p \<Rightarrow> CreateFromSuccess p | Inl e \<Rightarrow> CreateFromException e)"

fun portable :: "'a res \<Rightarrow> bool" where
  "portable (Inr p) = True"
| "portable (Inl (DMException s c m)) = (minInt \<le> c \<and> c \<le> maxInt)"
| "portable (Inl (StdException m)) = (CHR 0x00 \<notin> set m)"
| "portable (Inl Terminate) = False"

lemma response_round_trip: "portable r \<Longrightarrow> GetPayloadFromJson (response_of r) = r"
  by (induction r rule: portable.induct)
    (simp_all add: GetPayloadFromJson_def response_of_def CrossBinaryResponse_ToJson_def
      CreateFromSuccess_def ThrowDMException_def ThrowStdException_def jobj_def sm_of_def c_str_clean)

section \<open>The two ends of a call\<close>

text \<open>
  \<open>PluginStub::Invoke\<close> and \<open>AgentStub::ReverseInvoke\<close> on a request string: both are
  \<open>noexcept\<close> and turn every exception of \<open>serve\<close> into a response.
\<close>

type_synonym 's server = "string \<Rightarrow> string \<Rightarrow> string \<Rightarrow> json \<Rightarrow> ('s, json) cmd"

definition serve_text ::
    "(json \<Rightarrow> string) \<Rightarrow> (string \<Rightarrow> string + json) \<Rightarrow> 's server \<Rightarrow> string \<Rightarrow> ('s, string) cmd" where
  "serve_text sty prs serve jsonInputString =
     cnoexcept (ccatch
       (cbind (clift (Request_FromJsonString prs jsonInputString)) (\<lambda>request.
        cbind (serve (targetType request) (targetId request) (targetMethod request) (targetParameters request)) (\<lambda>out.
        cret (sty (CrossBinaryResponse_ToJson (CreateFromSuccess out))))))
       (\<lambda>ex. cret (sty (CrossBinaryResponse_ToJson (CreateFromException ex)))))"

text \<open>
  The exported C functions \<open>PluginInvoke\<close> (PluginExports.h) and \<open>AgentStub::ReverseInvoke\<close>
  on buffers: the result code and the allocated answer.
\<close>

definition exported_invoke ::
    "(json \<Rightarrow> string) \<Rightarrow> (string \<Rightarrow> string + json) \<Rightarrow> 's server \<Rightarrow> string option \<Rightarrow> ('s, int \<times> string option) cmd" where
  "exported_invoke sty prs serve input =
     (case input of
        None \<Rightarrow> cret (DM_ERROR_INVALID_ARGUMENT, None)
      | Some buffer \<Rightarrow> cbind (serve_text sty prs serve (c_str buffer)) (\<lambda>resultString.
          cret (DM_ERROR_SUCCESS, Some resultString)))"

text \<open>\<open>PluginBinaryProxy::Invoke\<close>; \<open>pluginInvoke\<close> is the entry point, \<open>None\<close> when not loaded.\<close>

definition PluginBinaryProxy_Invoke ::
    "(json \<Rightarrow> string) \<Rightarrow> (string \<Rightarrow> string + json) \<Rightarrow>
     (string option \<Rightarrow> ('s, int \<times> string option) cmd) option \<Rightarrow> 's server" where
  "PluginBinaryProxy_Invoke sty prs pluginInvoke ty i m p =
     (case pluginInvoke of
        None \<Rightarrow> cthrow (DMExc DeviceAgent DM_PLUGIN_ERROR_MISSING_ENTRY_POINT
          ''Failed to find entry point PluginInvoke.'')
      | Some PluginInvoke \<Rightarrow>
          cbind (PluginInvoke (Some (BuildRequest sty ty i m p))) (\<lambda>(retCode, responseBuffer).
          if retCode \<noteq> DM_ERROR_SUCCESS
          then cthrow (DMExc DeviceAgent retCode ''PluginInvoke returned error.'')
          else case responseBuffer of
            None \<Rightarrow> cthrow (DMExc DeviceAgent DM_PLUGIN_ERROR_INVALID_OUTPUT_BUFFER
              ''PluginInvoke returned invalid buffer.'')
          | Some buffer \<Rightarrow> clift (GetPayloadFromJsonString prs (c_str buffer))))"

text \<open>\<open>AgentBinaryProxy::ReverseInvoke\<close>, the same in the other direction.\<close>

definition AgentBinaryProxy_ReverseInvoke ::
    "(string \<Rightarrow> string + json) \<Rightarrow> (string option \<Rightarrow> ('s, int \<times> string option) cmd) \<Rightarrow>
     string \<Rightarrow> ('s, json) cmd" where
  "AgentBinaryProxy_ReverseInvoke prs agentReverseInvoke jsonInputString =
     cbind (agentReverseInvoke (Some jsonInputString)) (\<lambda>(retCode, responseBuffer).
       if retCode \<noteq> DM_ERROR_SUCCESS
       then cthrow (DMExc DeviceAgent retCode ''AgentReverseInvoke returned error.'')
       else case responseBuffer of
         None \<Rightarrow> cthrow (DMExc DeviceAgent DM_PLUGIN_ERROR_INVALID_OUTPUT_BUFFER
           ''AgentReverseInvoke returned invalid buffer.'')
       | Some buffer \<Rightarrow> clift (GetPayloadFromJsonString prs (c_str buffer)))"

lemma serve_text_ok:
  assumes "carried sty prs (request_json ty i m p)"
  shows "serve_text sty prs serve (c_str (BuildRequest sty ty i m p)) s =
    (case serve ty i m p s of (r, s') \<Rightarrow>
       (case r of Inr out \<Rightarrow> Inr (sty (response_of r))
        | Inl e \<Rightarrow> if catchable e then Inr (sty (response_of r)) else Inl Terminate, s'))"
  using assms
  by (auto simp: serve_text_def Request_FromJsonString_def BuildRequest_def carried_def Request_round_trip
    response_of_def cmd_simps split: sum.splits prod.splits)

lemma c_str_idem [simp]: "c_str (c_str s) = c_str s"
  by (simp add: c_str_def takeWhile_takeWhile)

text \<open>A call through the envelope is the call itself, for every outcome the envelope can carry.\<close>

lemma invoke_transparent:
  assumes "carried sty prs (request_json ty i m p)"
    and "serve ty i m p s = (r, s')" and "portable r" and "carried sty prs (response_of r)"
  shows "PluginBinaryProxy_Invoke sty prs (Some (exported_invoke sty prs serve)) ty i m p s = (r, s')"
    and "AgentBinaryProxy_ReverseInvoke prs (exported_invoke sty prs serve) (BuildRequest sty ty i m p) s = (r, s')"
proof -
  have "serve_text sty prs serve (c_str (BuildRequest sty ty i m p)) s = (Inr (sty (response_of r)), s')"
    using assms(2,3) by (cases r rule: portable.cases) (simp_all add: serve_text_ok [OF assms(1)])
  moreover have "GetPayloadFromJsonString prs (c_str (sty (response_of r))) = r"
    using assms(3,4) by (simp add: GetPayloadFromJsonString_def carried_def response_round_trip)
  ultimately show
    "PluginBinaryProxy_Invoke sty prs (Some (exported_invoke sty prs serve)) ty i m p s = (r, s')"
    "AgentBinaryProxy_ReverseInvoke prs (exported_invoke sty prs serve) (BuildRequest sty ty i m p) s = (r, s')"
    by (simp_all add: PluginBinaryProxy_Invoke_def AgentBinaryProxy_ReverseInvoke_def exported_invoke_def cmd_simps)
qed

section \<open>Statuses as text\<close>

definition PH_DeploymentStatusToString :: "DeploymentStatus \<Rightarrow> string res" where
  "PH_DeploymentStatusToString st =
     (case st of
        eSucceeded \<Rightarrow> Inr ''succeeded''
      | ePending \<Rightarrow> Inr ''pending''
      | eFailed \<Rightarrow> Inr ''failed''
      | _ \<Rightarrow> Inl (DMExc DeviceAgent DM_ERROR_INVALID_DEPLOYMENT_STATUS ''Invalid deployment status value.''))"

definition DeploymentStatusFromString :: "string \<Rightarrow> DeploymentStatus res" where
  "DeploymentStatusFromString s =
     (if s = ''succeeded'' then Inr eSucceeded
      else if s = ''pending'' then Inr ePending
      else if s = ''failed'' then Inr eFailed
      else Inl (DMExc DeviceAgent DM_ERROR_INVALID_DEPLOYMENT_STATUS ''Invalid deployment status string value.''))"

fun ConnectionStatusToString :: "ConnectionStatus \<Rightarrow> string" where
  "ConnectionStatusToString eOffline = ''offline''"
| "ConnectionStatusToString eOnline = ''online''"

definition ConnectionStatusFromString :: "string \<Rightarrow> ConnectionStatus res" where
  "ConnectionStatusFromString s =
     (if s = ''offline'' then Inr eOffline
      else if s = ''online'' then Inr eOnline
      else Inl (DMExc DeviceAgent DM_ERROR_INVALID_CONNECTION_STATUS ''Invalid connection status string value.''))"

lemma ConnectionStatus_round_trip [simp]: "ConnectionStatusFromString (ConnectionStatusToString c) = Inr c"
  by (cases c) (simp_all add: ConnectionStatusFromString_def)

lemma DeploymentStatus_round_trip:
  "PH_DeploymentStatusToString st = Inr s \<Longrightarrow> DeploymentStatusFromString s = Inr st"
  "(\<exists>s. PH_DeploymentStatusToString st = Inr s) \<longleftrightarrow> st \<in> {eSucceeded, ePending, eFailed}"
  by (cases st; auto simp: PH_DeploymentStatusToString_def DeploymentStatusFromString_def)+

section \<open>Properties\<close>

text \<open>For the witnesses: a writer and a reader that carry the two values \<open>a\<close> and \<open>b\<close>.\<close>

definition sample_sty :: "json \<Rightarrow> json \<Rightarrow> string" where
  "sample_sty a v = (if v = a then ''q'' else ''r'')"

definition sample_prs :: "json \<Rightarrow> json \<Rightarrow> string \<Rightarrow> string + json" where
  "sample_prs a b t = (if t = ''q'' then Inr a else if t = ''r'' then Inr b else Inl ''bad'')"

lemma carried_sample: "carried (sample_sty a) (sample_prs a b) a" "carried (sample_sty a) (sample_prs a b) b"
  by (simp_all add: carried_def sample_sty_def sample_prs_def c_str_def)

text \<open>
  C9: a call through the JSON envelope, in either direction, has the outcome and the effect
  of the call itself, exceptions included: the same value, or the same exception with its
  sub-system, code and message, as long as the texts survive writing and reading, error
  codes fit an \<open>int\<close> and messages hold no NUL.
\<close>

theorem calls_are_transparent:
  assumes "carried sty prs (request_json ty i m p)"
    and "serve ty i m p s = (r, s')" and "portable r" and "carried sty prs (response_of r)"
  shows "PluginBinaryProxy_Invoke sty prs (Some (exported_invoke sty prs serve)) ty i m p s = (r, s') \<and>
    AgentBinaryProxy_ReverseInvoke prs (exported_invoke sty prs serve) (BuildRequest sty ty i m p) s = (r, s')"
  by (rule conjI; rule invoke_transparent, (rule assms)+)

theorem calls_are_transparent_witness:
  "\<exists>sty prs. PluginBinaryProxy_Invoke sty prs (Some (exported_invoke sty prs
      (\<lambda>ty i m p n. (Inl (DMException ''DeviceAgent'' (- 7) ''no''), Suc n)))) ''raw'' ''time'' ''start'' JNull 0 =
     (Inl (DMException ''DeviceAgent'' (- 7) ''no''), Suc 0)"
proof -
  let ?a = "request_json ''raw'' ''time'' ''start'' JNull"
  let ?r = "Inl (DMException ''DeviceAgent'' (- 7) ''no'') :: json res"
  have "portable ?r" by (simp add: int_limits)
  then have "PluginBinaryProxy_Invoke (sample_sty ?a) (sample_prs ?a (response_of ?r))
      (Some (exported_invoke (sample_sty ?a) (sample_prs ?a (response_of ?r)) (\<lambda>ty i m p n. (?r, Suc n))))
      ''raw'' ''time'' ''start'' JNull 0 = (?r, Suc 0)"
    using calls_are_transparent [where serve = "\<lambda>ty i m p n. (?r, Suc n)" and s = 0 and r = ?r and s' = "Suc 0"
        and ty = "''raw''" and i = "''time''" and m = "''start''" and p = JNull]
    by (simp add: carried_sample)
  then show ?thesis by blast
qed

end
