(* ===== verification/Plugin_Handlers.thy ===== *)
theory Plugin_Handlers
  imports Cross_Binary
begin

text \<open>
  A marshalled handler, from both sides: \<open>RawHandlerStub\<close> and \<open>PluginStub\<close>
  (device-agent/plugin-common), which route a request to the handler object inside the
  plug-in, and \<open>RawHandlerProxy\<close> and \<open>PluginProxy\<close> (device-agent/agent/Plugins), which the
  agent uses as if they were the handler and the plug-in.
\<close>

section \<open>The plug-in side\<close>

text \<open>The virtual functions of a handler with state \<open>'d\<close> inside a plug-in with world \<open>'w\<close>.\<close>

record ('d, 'w) handler_ops =
  op_Start :: "json \<Rightarrow> ('d \<times> 'w, bool) cmd"
  op_Stop :: "('d \<times> 'w, unit) cmd"
  op_OnConnectionStatusChanged :: "ConnectionStatus \<Rightarrow> ('d \<times> 'w, unit) cmd"
  op_GetHandlerType :: "('d \<times> 'w, string) cmd"
  op_IsConfigured :: "('d \<times> 'w, bool) cmd"
  op_GetDeploymentStatus :: "('d \<times> 'w, DeploymentStatus) cmd"
  op_SetDeploymentStatus :: "DeploymentStatus \<Rightarrow> ('d \<times> 'w, unit) cmd"
  op_Invoke :: "json \<Rightarrow> ('d \<times> 'w, InvokeResult) cmd"
  op_GetDeploymentStatusJson :: "('d \<times> 'w, json) cmd"
  op_GetReportedSchema :: "('d \<times> 'w, ReportedSchema) cmd"
  op_SetHandlerHost :: "('d \<times> 'w, unit) cmd"

text \<open>\<open>_rawFactoryMap\<close>, \<open>_rawHandlerMap\<close> and what the factories and the handlers can reach.\<close>

record ('d, 'w) RawHandlerStub =
  rawFactoryMap :: "('w, 'd) cmd smap"
  rawHandlers :: "'d smap"
  plugin_world :: 'w

definition RegisterHandler :: "string \<Rightarrow> ('w, 'd) cmd \<Rightarrow> ('d, 'w) RawHandlerStub \<Rightarrow> ('d, 'w) RawHandlerStub" where
  "RegisterHandler i factory st =
     (if map_of (rawFactoryMap st) i \<noteq> None then st
      else st\<lparr>rawFactoryMap := sm_put i factory (rawFactoryMap st)\<rparr>)"

definition UnregisterHandler :: "string \<Rightarrow> ('d, 'w) RawHandlerStub \<Rightarrow> ('d, 'w) RawHandlerStub" where
  "UnregisterHandler i st = st\<lparr>rawFactoryMap := sm_del i (rawFactoryMap st)\<rparr>"

text \<open>A call on the handler object stored under \<open>i\<close>.\<close>

definition at_target :: "string \<Rightarrow> ('d \<times> 'w, 'a) cmd \<Rightarrow> (('d, 'w) RawHandlerStub, 'a) cmd" where
  "at_target i m = (\<lambda>st. case map_of (rawHandlers st) i of
       None \<Rightarrow> (Inl Terminate, st)
     | Some d \<Rightarrow> (case m (d, plugin_world st) of
         (r, d', w') \<Rightarrow> (r, st\<lparr>rawHandlers := sm_put i d' (rawHandlers st), plugin_world := w'\<rparr>)))"

definition CreateHandler :: "('d, 'w) handler_ops \<Rightarrow> json \<Rightarrow> (('d, 'w) RawHandlerStub, json) cmd" where
  "CreateHandler ops config =
     cbind (clift (rbind (json_at config ''id'') asString)) (\<lambda>i.
     cbind (cget rawFactoryMap) (\<lambda>factories.
     case map_of factories i of
       None \<Rightarrow> cthrow (DMExc DeviceAgent DM_PLUGIN_ERROR_INVALID_RAW_HANDLER ''Invalid raw handler id.'')
     | Some factory \<Rightarrow> (\<lambda>st. case factory (plugin_world st) of (r, w1) \<Rightarrow>
         (case r of
            Inl e \<Rightarrow> (Inl e, st\<lparr>plugin_world := w1\<rparr>)
          | Inr d \<Rightarrow> (case op_SetHandlerHost ops (d, w1) of (r', d', w2) \<Rightarrow>
              (case r' of
                 Inl e \<Rightarrow> (Inl e, st\<lparr>plugin_world := w2\<rparr>)
               | Inr _ \<Rightarrow> (Inr JNull, st\<lparr>rawHandlers := sm_put i d' (rawHandlers st), plugin_world := w2\<rparr>)))))))"

definition DestroyHandler :: "('d, 'w) handler_ops \<Rightarrow> json \<Rightarrow> (('d, 'w) RawHandlerStub, json) cmd" where
  "DestroyHandler ops config =
     cbind (clift (rbind (json_at config ''id'') asString)) (\<lambda>i.
     cbind (cget rawHandlers) (\<lambda>handlers.
     if map_of handlers i = None then cret JNull
     else cseq (at_target i (op_Stop ops))
          (cseq (cmod (rawHandlers_update (sm_del i))) (cret JNull))))"

definition GetHandlersInfo :: "('d, 'w) RawHandlerStub \<Rightarrow> json" where
  "GetHandlersInfo st =
     jobj [(''result'', JArray (map (\<lambda>p. jobj [(''id'', JString (fst p)), (''type'', JString ''handlerTypeRaw'')])
        (rawFactoryMap st)))]"

text \<open>The parameters of the two calls that take an enumerator.\<close>

definition value_parameter :: "string \<Rightarrow> string \<Rightarrow> json \<Rightarrow> string res" where
  "value_parameter bad bad_schema ps =
     (if isNull ps \<or> \<not> isObject ps then Inl (DMExc DeviceAgent DM_ERROR_INVALID_ARGUMENT bad)
      else rbind (json_at ps ''value'') (\<lambda>v.
        if isNull v \<or> \<not> isString v then Inl (DMExc DeviceAgent DM_ERROR_INVALID_ARGUMENT bad_schema)
        else asString v))"

definition HandleInvoke ::
    "(string \<Rightarrow> string + json) \<Rightarrow> ('d, 'w) handler_ops \<Rightarrow> json \<Rightarrow> ('d \<times> 'w, json) cmd" where
  "HandleInvoke prs ops ps =
     cbind (op_Invoke ops ps) (\<lambda>r.
     cbind (if present r
            then (case prs (payload r) of
                    Inl errs \<Rightarrow> cthrow (invalid_json_format
                      ''Failed to parse direct method returned payload. Not a valid json value.'')
                  | Inr v \<Rightarrow> cret v)
            else cret JNull) (\<lambda>payloadJson.
     cret (jobj [(''present'', JBool (present r)), (''code'', JInt (code r)), (''payload'', payloadJson)])))"

definition HandleMethod ::
    "(string \<Rightarrow> string + json) \<Rightarrow> ('d, 'w) handler_ops \<Rightarrow> string \<Rightarrow> json \<Rightarrow> ('d \<times> 'w, json) cmd" where
  "HandleMethod prs ops m ps =
     (if m = ''start'' then cbind (op_Start ops ps) (\<lambda>active. cret (jobj [(''result'', JBool active)]))
      else if m = ''stop'' then cseq (op_Stop ops) (cret JNull)
      else if m = ''onConnectionStatusChanged'' then
        cbind (clift (rbind (value_parameter ''Invalid input for HandleOnConnectionStatusChanged''
                        ''Invalid input schema for HandleOnConnectionStatusChanged'' ps) ConnectionStatusFromString)) (\<lambda>c.
        cseq (op_OnConnectionStatusChanged ops c) (cret JNull))
      else if m = ''handlerType'' then cbind (op_GetHandlerType ops) (\<lambda>t. cret (jobj [(''result'', JString t)]))
      else if m = ''isConfigured'' then cbind (op_IsConfigured ops) (\<lambda>b. cret (jobj [(''result'', JBool b)]))
      else if m = ''getDeploymentStatus'' then
        cbind (op_GetDeploymentStatus ops) (\<lambda>st.
        cbind (clift (PH_DeploymentStatusToString st)) (\<lambda>s. cret (jobj [(''result'', JString s)])))
      else if m = ''setDeploymentStatus'' then
        cbind (clift (rbind (value_parameter ''Invalid input for HandleSetDeploymentStatus''
                        ''Invalid input schema for HandleSetDeploymentStatus'' ps) DeploymentStatusFromString)) (\<lambda>st.
        cseq (op_SetDeploymentStatus ops st) (cret JNull))
      else if m = ''invoke'' then HandleInvoke prs ops ps
      else if m = ''getDeploymentStatusJson'' then
        cbind (op_GetDeploymentStatusJson ops) (\<lambda>j. cret (jobj [(''result'', j)]))
      else if m = ''getReportedSchema'' then
        cbind (op_GetReportedSchema ops) (\<lambda>s. cret (jobj [(''result'', ReportedSchema_ToJsonValue s)]))
      else cthrow (DMExc DeviceAgent DM_PLUGIN_ERROR_INVALID_RAW_METHOD ''Unknown raw configuration method.''))"

definition RouteToHandler ::
    "(string \<Rightarrow> string + json) \<Rightarrow> ('d, 'w) handler_ops \<Rightarrow> string \<Rightarrow> string \<Rightarrow> json \<Rightarrow>
     (('d, 'w) RawHandlerStub, json) cmd" where
  "RouteToHandler prs ops i m ps =
     cbind (cget rawHandlers) (\<lambda>handlers.
     if map_of handlers i = None
     then cthrow (DMExc DeviceAgent DM_PLUGIN_ERROR_INVALID_RAW_HANDLER ''Unknown raw configuration handler.'')
     else at_target i (HandleMethod prs ops m ps))"

text \<open>\<open>PluginStub::Invoke\<close> on a decoded request; the host functions are those \<open>Initialize\<close> registers.\<close>

definition PluginStub_Invoke ::
    "(string \<Rightarrow> string + json) \<Rightarrow> ('d, 'w) handler_ops \<Rightarrow> ('d, 'w) RawHandlerStub server" where
  "PluginStub_Invoke prs ops ty i m ps =
     (if ty = ''host'' then
        (if m = ''getHandlersInfo'' then cget GetHandlersInfo
         else if m = ''createRawHandler'' then CreateHandler ops ps
         else if m = ''destroyRawHandler'' then DestroyHandler ops ps
         else cthrow (DMExc DeviceAgent DM_PLUGIN_ERROR_INVALID_PLUGINHOST_OPERTION ''Unknown host operation.''))
      else if ty = ''raw'' then RouteToHandler prs ops i m ps
      else cthrow (DMExc DeviceAgent DM_PLUGIN_ERROR_INVALID_OPERATION ''Unknown host operation.''))"

section \<open>The agent side\<close>

text \<open>\<open>call\<close> is \<open>IPluginBinaryProxy::Invoke\<close>; a proxy has no state besides its id.\<close>

definition raw_result :: "(json \<Rightarrow> bool) \<Rightarrow> string \<Rightarrow> json \<Rightarrow> json res" where
  "raw_result is_type msg p =
     rbind (json_at p ''result'') (\<lambda>jsonResult.
       if isNull jsonResult \<or> \<not> is_type jsonResult then Inl (invalid_json_format msg)
       else Inr jsonResult)"

definition Proxy_GetHandlerType :: "'s server \<Rightarrow> string \<Rightarrow> ('s, string) cmd" where
  "Proxy_GetHandlerType call i =
     cbind (call ''raw'' i ''handlerType'' JNull) (\<lambda>p.
     clift (rbind (raw_result isString ''RawHandlerProxy::GetHandlerType. Bad result format.'' p) asString))"

definition Proxy_Start :: "'s server \<Rightarrow> string \<Rightarrow> json \<Rightarrow> ('s, bool) cmd" where
  "Proxy_Start call i config =
     cbind (call ''raw'' i ''start'' config) (\<lambda>p.
     clift (rbind (raw_result isBool ''RawHandlerProxy::Start. Bad result format.'' p) asBool))"

definition Proxy_Stop :: "'s server \<Rightarrow> string \<Rightarrow> ('s, unit) cmd" where
  "Proxy_Stop call i = cseq (call ''raw'' i ''stop'' JNull) (cret ())"

definition Proxy_OnConnectionStatusChanged :: "'s server \<Rightarrow> string \<Rightarrow> ConnectionStatus \<Rightarrow> ('s, unit) cmd" where
  "Proxy_OnConnectionStatusChanged call i st =
     cseq (call ''raw'' i ''onConnectionStatusChanged'' (jobj [(''value'', JString (ConnectionStatusToString st))]))
       (cret ())"

definition Proxy_IsConfigured :: "'s server \<Rightarrow> string \<Rightarrow> ('s, bool) cmd" where
  "Proxy_IsConfigured call i =
     cbind (call ''raw'' i ''isConfigured'' JNull) (\<lambda>p.
     clift (rbind (raw_result isInt ''RawHandlerProxy::IsConfigured. Bad result format.'' p) asBool))"

definition Proxy_SetDeploymentStatus :: "'s server \<Rightarrow> string \<Rightarrow> DeploymentStatus \<Rightarrow> ('s, unit) cmd" where
  "Proxy_SetDeploymentStatus call i st =
     cbind (clift (PH_DeploymentStatusToString st)) (\<lambda>s.
     cseq (call ''raw'' i ''setDeploymentStatus'' (jobj [(''value'', JString s)])) (cret ()))"

definition Proxy_GetDeploymentStatus :: "'s server \<Rightarrow> string \<Rightarrow> ('s, DeploymentStatus) cmd" where
  "Proxy_GetDeploymentStatus call i =
     cbind (call ''raw'' i ''getDeploymentStatus'' JNull) (\<lambda>p.
     clift (rbind (rbind (raw_result isString ''RawHandlerProxy::GetDeploymentStatus. Bad result format.'' p) asString)
       DeploymentStatusFromString))"

definition Proxy_Invoke :: "(json \<Rightarrow> string) \<Rightarrow> 's server \<Rightarrow> string \<Rightarrow> json \<Rightarrow> ('s, InvokeResult) cmd" where
  "Proxy_Invoke sty call i ps =
     cbind (call ''raw'' i ''invoke'' ps) (\<lambda>p.
     cbind (clift (rbind (json_at p ''present'') asBool)) (\<lambda>pr.
     cbind (clift (rbind (json_at p ''code'') asInt)) (\<lambda>c.
     cbind (clift (json_at p ''payload'')) (\<lambda>v.
     cret \<lparr>present = pr, code = c, payload = sty v\<rparr>))))"

definition Proxy_GetDeploymentStatusJson :: "'s server \<Rightarrow> string \<Rightarrow> ('s, json) cmd" where
  "Proxy_GetDeploymentStatusJson call i =
     cbind (call ''raw'' i ''getDeploymentStatusJson'' JNull) (\<lambda>p.
     clift (raw_result isObject ''RawHandlerProxy::GetDeploymentStatusJson. Bad result format.'' p))"

definition Proxy_GetReportedSchema :: "'s server \<Rightarrow> string \<Rightarrow> ('s, ReportedSchema) cmd" where
  "Proxy_GetReportedSchema call i =
     cbind (call ''raw'' i ''getReportedSchema'' JNull) (\<lambda>p.
     cbind (clift (raw_result isObject ''RawHandlerProxy::GetReportedSchema. Bad result format.'' p)) (\<lambda>v.
     clift (case ReportedSchema_FromJsonValue v \<lparr>interfaceType = [], tags = [], interfaceVersion = []\<rparr> of
       (Inl e, s) \<Rightarrow> Inl e | (Inr _, s) \<Rightarrow> Inr s)))"

definition PluginProxy_CreateRawHandler :: "'s server \<Rightarrow> string \<Rightarrow> ('s, string) cmd" where
  "PluginProxy_CreateRawHandler call i =
     cseq (call ''host'' '''' ''createRawHandler'' (jobj [(''id'', JString i)])) (cret i)"

definition PluginProxy_DestroyRawHandler :: "'s server \<Rightarrow> string \<Rightarrow> ('s, unit) cmd" where
  "PluginProxy_DestroyRawHandler call i =
     cseq (call ''host'' '''' ''destroyRawHandler'' (jobj [(''id'', JString i)])) (cret ())"

text \<open>\<open>HandlerInfo\<close>: id and type; the dependencies stay empty, they come from the manifest.\<close>

definition info_of_json :: "json \<Rightarrow> (string \<times> string) res" where
  "info_of_json v =
     (if \<not> isObject v then Inl (DMExc DeviceAgent DM_ERROR_INVALID_RESPONSE_JSON_SCHEMA
        ''PluginProxy::GetHandlersInfo received invalid json.'')
      else rbind (rbind (json_at v ''id'') asString) (\<lambda>i.
           rbind (rbind (json_at v ''type'') asString) (\<lambda>t. Inr (i, t))))"

definition PluginProxy_GetHandlersInfo :: "'s server \<Rightarrow> ('s, (string \<times> string) list) cmd" where
  "PluginProxy_GetHandlersInfo call =
     cbind (call ''host'' '''' ''getHandlersInfo'' JNull) (\<lambda>p.
     clift (rbind (json_at p ''result'') (\<lambda>r.
       case r of
         JArray vs \<Rightarrow> rmap info_of_json vs
       | _ \<Rightarrow> Inl (DMExc DeviceAgent DM_ERROR_INVALID_RESPONSE_JSON_SCHEMA
           ''PluginProxy::GetHandlersInfo received invalid json.''))))"

section \<open>A marshalled handler behaves as the handler\<close>

text \<open>
  The contract of \<open>IPluginBinaryProxy\<close>: the outcome of a call is the outcome of serving it,
  for the requests and outcomes that \<open>ok\<close> admits.
\<close>

locale binary_channel =
  fixes call :: "'s server" and serve :: "'s server"
    and ok :: "string \<Rightarrow> string \<Rightarrow> string \<Rightarrow> json \<Rightarrow> json res \<Rightarrow> bool"
  assumes transparent: "ok ty i m p r \<Longrightarrow> serve ty i m p s = (r, s') \<Longrightarrow> call ty i m p s = (r, s')"
begin

lemma call_eq: "ok ty i m p (fst (serve ty i m p s)) \<Longrightarrow> call ty i m p s = serve ty i m p s"
  using transparent by (metis prod.collapse)

end

definition envelope_ok ::
    "(json \<Rightarrow> string) \<Rightarrow> (string \<Rightarrow> string + json) \<Rightarrow> string \<Rightarrow> string \<Rightarrow> string \<Rightarrow> json \<Rightarrow> json res \<Rightarrow> bool" where
  "envelope_ok sty prs ty i m p r \<longleftrightarrow>
     carried sty prs (request_json ty i m p) \<and> portable r \<and> carried sty prs (response_of r)"

interpretation envelope: binary_channel
  "PluginBinaryProxy_Invoke sty prs (Some (exported_invoke sty prs serve))" serve "envelope_ok sty prs"
  for sty prs serve
  by unfold_locales (simp add: envelope_ok_def invoke_transparent(1))

text \<open>What the stub answers for an outcome of the handler, \<open>f\<close> being the encoding of the result.\<close>

fun wrapped :: "('a \<Rightarrow> json) \<Rightarrow> 'a res \<Rightarrow> json res" where
  "wrapped f (Inl e) = Inl e"
| "wrapped f (Inr x) = Inr (f x)"

definition result_object :: "json \<Rightarrow> json" where
  "result_object j = jobj [(''result'', j)]"

lemma at_target_wrapped:
  "at_target i (cbind m (\<lambda>x. cret (f x))) st = (case at_target i m st of (r, st') \<Rightarrow> (wrapped f r, st'))"
  by (auto simp: at_target_def cmd_simps split: option.splits prod.splits sum.splits)

lemma raw_result_object: "is_type j \<Longrightarrow> \<not> isNull j \<Longrightarrow> raw_result is_type msg (result_object j) = Inr j"
  by (simp add: raw_result_def result_object_def jobj_def sm_of_def)

lemma raw_result_bad: "isNull j \<or> \<not> is_type j \<Longrightarrow> raw_result is_type msg (result_object j) = Inl (invalid_json_format msg)"
  by (auto simp: raw_result_def result_object_def jobj_def sm_of_def)

lemma serve_raw:
  "map_of (rawHandlers st) i = Some d \<Longrightarrow>
   PluginStub_Invoke prs ops ''raw'' i m p st = at_target i (HandleMethod prs ops m p) st"
  by (simp add: PluginStub_Invoke_def RouteToHandler_def cmd_simps)

locale marshalled = binary_channel call "PluginStub_Invoke prs ops" ok
  for call :: "('d, 'w) RawHandlerStub server" and prs :: "string \<Rightarrow> string + json"
    and ops :: "('d, 'w) handler_ops" and ok
begin

lemma call_result:
  assumes "map_of (rawHandlers st) i = Some d"
    and "HandleMethod prs ops m p = cbind h (\<lambda>x. cret (f x))"
    and "at_target i h st = (r, st')" and "ok ''raw'' i m p (wrapped f r)"
  shows "call ''raw'' i m p st = (wrapped f r, st')"
  using assms by (intro transparent) (simp_all add: serve_raw at_target_wrapped)

lemma proxy_Start:
  assumes "map_of (rawHandlers st) i = Some d" and "at_target i (op_Start ops config) st = (r, st')"
    and "ok ''raw'' i ''start'' config (wrapped (\<lambda>b. result_object (JBool b)) r)"
  shows "Proxy_Start call i config st = (r, st')"
  using call_result [OF assms(1) _ assms(2,3)]
  by (cases r) (simp_all add: Proxy_Start_def HandleMethod_def result_object_def [symmetric]
    cbind_def clift_def raw_result_object)

lemma proxy_GetHandlerType:
  assumes "map_of (rawHandlers st) i = Some d" and "at_target i (op_GetHandlerType ops) st = (r, st')"
    and "ok ''raw'' i ''handlerType'' JNull (wrapped (\<lambda>t. result_object (JString t)) r)"
  shows "Proxy_GetHandlerType call i st = (r, st')"
  using call_result [OF assms(1) _ assms(2,3)]
  by (cases r) (simp_all add: Proxy_GetHandlerType_def HandleMethod_def result_object_def [symmetric]
    cbind_def clift_def raw_result_object)

lemma proxy_Stop:
  assumes "map_of (rawHandlers st) i = Some d" and "at_target i (op_Stop ops) st = (r, st')"
    and "ok ''raw'' i ''stop'' JNull (wrapped (\<lambda>_. JNull) r)"
  shows "Proxy_Stop call i st = (r, st')"
  using call_result [OF assms(1) _ assms(2,3)]
  by (cases r) (simp_all add: Proxy_Stop_def HandleMethod_def cseq_def cbind_def cret_def)

lemma proxy_OnConnectionStatusChanged:
  fixes c :: ConnectionStatus
  defines "p \<equiv> jobj [(''value'', JString (ConnectionStatusToString c))]"
  assumes "map_of (rawHandlers st) i = Some d" and "at_target i (op_OnConnectionStatusChanged ops c) st = (r, st')"
    and "ok ''raw'' i ''onConnectionStatusChanged'' p (wrapped (\<lambda>_. JNull) r)"
  shows "Proxy_OnConnectionStatusChanged call i c st = (r, st')"
proof -
  have "HandleMethod prs ops ''onConnectionStatusChanged'' p
      = cbind (op_OnConnectionStatusChanged ops c) (\<lambda>_. cret JNull)"
    by (simp add: HandleMethod_def p_def value_parameter_def jobj_def sm_of_def clift_def cbind_def cseq_def)
  from call_result [OF assms(2) this assms(3,4)] show ?thesis
    by (cases r) (simp_all add: Proxy_OnConnectionStatusChanged_def p_def [symmetric] cseq_def cbind_def cret_def)
qed

lemma proxy_SetDeploymentStatus:
  assumes "PH_DeploymentStatusToString c = Inr s"
    and "map_of (rawHandlers st) i = Some d" and "at_target i (op_SetDeploymentStatus ops c) st = (r, st')"
    and "ok ''raw'' i ''setDeploymentStatus'' (jobj [(''value'', JString s)]) (wrapped (\<lambda>_. JNull) r)"
  shows "Proxy_SetDeploymentStatus call i c st = (r, st')"
proof -
  have "HandleMethod prs ops ''setDeploymentStatus'' (jobj [(''value'', JString s)])
      = cbind (op_SetDeploymentStatus ops c) (\<lambda>_. cret JNull)"
    using DeploymentStatus_round_trip(1) [OF assms(1)]
    by (simp add: HandleMethod_def value_parameter_def jobj_def sm_of_def clift_def cbind_def cseq_def)
  from call_result [OF assms(2) this assms(3,4)] assms(1) show ?thesis
    by (cases r) (simp_all add: Proxy_SetDeploymentStatus_def cseq_def cbind_def cret_def clift_def)
qed

lemma proxy_GetDeploymentStatus:
  assumes "map_of (rawHandlers st) i = Some d" and "at_target i (op_GetDeploymentStatus ops) st = (Inr c, st')"
    and "PH_DeploymentStatusToString c = Inr s"
    and "ok ''raw'' i ''getDeploymentStatus'' JNull (Inr (result_object (JString s)))"
  shows "Proxy_GetDeploymentStatus call i st = (Inr c, st')"
proof -
  have "at_target i (HandleMethod prs ops ''getDeploymentStatus'' JNull) st = (Inr (result_object (JString s)), st')"
    using assms(2,3) by (auto simp: HandleMethod_def result_object_def at_target_def cbind_def clift_def cret_def
      split: option.splits prod.splits sum.splits)
  then have "call ''raw'' i ''getDeploymentStatus'' JNull st = (Inr (result_object (JString s)), st')"
    using assms(1,4) by (intro transparent) (simp_all add: serve_raw)
  then show ?thesis
    using DeploymentStatus_round_trip(1) [OF assms(3)]
    by (simp add: Proxy_GetDeploymentStatus_def cbind_def clift_def raw_result_object)
qed

text \<open>The answer to \<open>isConfigured\<close> is a Boolean and the proxy accepts integers only.\<close>

lemma proxy_IsConfigured:
  assumes "map_of (rawHandlers st) i = Some d" and "at_target i (op_IsConfigured ops) st = (Inr b, st')"
    and "ok ''raw'' i ''isConfigured'' JNull (Inr (result_object (JBool b)))"
  shows "Proxy_IsConfigured call i st
    = (Inl (invalid_json_format ''RawHandlerProxy::IsConfigured. Bad result format.''), st')"
  using call_result [OF assms(1) _ assms(2), of "''isConfigured''" JNull "\<lambda>b. result_object (JBool b)"] assms(3)
  by (simp add: Proxy_IsConfigured_def HandleMethod_def result_object_def [symmetric]
    cbind_def clift_def raw_result_bad)

end

text \<open>The result of a direct method: what the agent's copy of an \<open>InvokeResult\<close> becomes.\<close>

definition payload_value :: "(string \<Rightarrow> string + json) \<Rightarrow> InvokeResult \<Rightarrow> json res" where
  "payload_value prs x =
     (if present x
      then (case prs (payload x) of
              Inl errs \<Rightarrow> Inl (invalid_json_format
                ''Failed to parse direct method returned payload. Not a valid json value.'')
            | Inr v \<Rightarrow> Inr v)
      else Inr JNull)"

definition invoke_object :: "InvokeResult \<Rightarrow> json \<Rightarrow> json" where
  "invoke_object x v = jobj [(''present'', JBool (present x)), (''code'', JInt (code x)), (''payload'', v)]"

context marshalled
begin

lemma proxy_Invoke:
  assumes "map_of (rawHandlers st) i = Some d" and "at_target i (op_Invoke ops p) st = (Inr x, st')"
    and "payload_value prs x = Inr v" and "minInt \<le> code x" "code x \<le> maxInt"
    and "ok ''raw'' i ''invoke'' p (Inr (invoke_object x v))"
  shows "Proxy_Invoke sty call i p st = (Inr (x\<lparr>payload := sty v\<rparr>), st')"
proof -
  have "at_target i (HandleMethod prs ops ''invoke'' p) st = (Inr (invoke_object x v), st')"
    using assms(2,3)
    by (auto simp: HandleMethod_def HandleInvoke_def payload_value_def invoke_object_def at_target_def
      cbind_def cthrow_def cret_def split: option.splits prod.splits sum.splits if_splits)
  then have "call ''raw'' i ''invoke'' p st = (Inr (invoke_object x v), st')"
    using assms(1,6) by (intro transparent) (simp_all add: serve_raw)
  then show ?thesis
    using assms(4,5)
    by (simp add: Proxy_Invoke_def cbind_def clift_def cret_def invoke_object_def jobj_def sm_of_def)
qed

lemma proxy_GetReportedSchema:
  assumes "map_of (rawHandlers st) i = Some d" and "at_target i (op_GetReportedSchema ops) st = (Inr x, st')"
    and "ok ''raw'' i ''getReportedSchema'' JNull (Inr (result_object (ReportedSchema_ToJsonValue x)))"
  shows "Proxy_GetReportedSchema call i st = (Inr (x\<lparr>tags := []\<rparr>), st')"
proof -
  have "call ''raw'' i ''getReportedSchema'' JNull st = (Inr (result_object (ReportedSchema_ToJsonValue x)), st')"
    using call_result [OF assms(1) _ assms(2), of "''getReportedSchema''" JNull
      "\<lambda>s. result_object (ReportedSchema_ToJsonValue s)"] assms(3)
    by (simp add: HandleMethod_def result_object_def)
  moreover have "isObject (ReportedSchema_ToJsonValue x)" "\<not> isNull (ReportedSchema_ToJsonValue x)"
    by (simp_all add: ReportedSchema_ToJsonValue_def jobj_def)
  ultimately show ?thesis
    by (simp add: Proxy_GetReportedSchema_def cbind_def clift_def raw_result_object
      ReportedSchema_FromJson_ToJson)
qed

end

interpretation in_proc: marshalled
  "PluginBinaryProxy_Invoke sty prs (Some (exported_invoke sty prs (PluginStub_Invoke prs ops)))"
  prs ops "envelope_ok sty prs" for sty prs ops
  by unfold_locales (rule envelope.transparent)

section \<open>Properties\<close>

definition sample_ph_ops :: "(nat, unit) handler_ops" where
  "sample_ph_ops = \<lparr>op_Start = (\<lambda>p. cret True), op_Stop = cret (),
     op_OnConnectionStatusChanged = (\<lambda>c. cret ()), op_GetHandlerType = cret ''raw'', op_IsConfigured = cret True,
     op_GetDeploymentStatus = cret eSucceeded, op_SetDeploymentStatus = (\<lambda>st. cret ()),
     op_Invoke = (\<lambda>p (n, w). (Inr \<lparr>present = False, code = 200, payload = []\<rparr>, Suc n, w)),
     op_GetDeploymentStatusJson = cret (JObject []),
     op_GetReportedSchema = cret \<lparr>interfaceType = ''raw'', tags = [''dm''], interfaceVersion = ''1.0.0''\<rparr>,
     op_SetHandlerHost = cret ()\<rparr>"

definition sample_stub :: "(nat, unit) RawHandlerStub" where
  "sample_stub = \<lparr>rawFactoryMap = [], rawHandlers = [(''reboot'', 0)], plugin_world = ()\<rparr>"

lemma sample_stub_calls:
  "map_of (rawHandlers sample_stub) ''reboot'' = Some 0"
  "at_target ''reboot'' (op_Invoke sample_ph_ops p) sample_stub =
     (Inr \<lparr>present = False, code = 200, payload = []\<rparr>, sample_stub\<lparr>rawHandlers := [(''reboot'', 1)]\<rparr>)"
  "at_target ''reboot'' (op_IsConfigured sample_ph_ops) sample_stub = (Inr True, sample_stub)"
  "at_target ''reboot'' (op_GetReportedSchema sample_ph_ops) sample_stub =
     (Inr \<lparr>interfaceType = ''raw'', tags = [''dm''], interfaceVersion = ''1.0.0''\<rparr>, sample_stub)"
  by (simp_all add: sample_stub_def sample_ph_ops_def at_target_def cret_def)

lemma envelope_sample:
  "portable r \<Longrightarrow> \<exists>sty prs. envelope_ok sty prs ty i m p r"
  unfolding envelope_ok_def using carried_sample by blast

text \<open>
  C11: invoking a handler of a marshalled plug-in through the agent's proxy runs the handler's
  own \<open>Invoke\<close> once, with its effect, and returns its \<open>present\<close> and \<open>code\<close>; the payload is
  the text the agent's JSON writer gives for the value the handler returned.
\<close>

theorem proxied_Invoke:
  assumes "map_of (rawHandlers st) i = Some d" and "at_target i (op_Invoke ops p) st = (Inr x, st')"
    and "payload_value prs x = Inr v" and "minInt \<le> code x" and "code x \<le> maxInt"
    and "envelope_ok sty prs ''raw'' i ''invoke'' p (Inr (invoke_object x v))"
  shows "Proxy_Invoke sty
      (PluginBinaryProxy_Invoke sty prs (Some (exported_invoke sty prs (PluginStub_Invoke prs ops)))) i p st
    = (Inr (x\<lparr>payload := sty v\<rparr>), st')"
  by (rule in_proc.proxy_Invoke [OF assms])

theorem proxied_Invoke_witness:
  "\<exists>sty prs. Proxy_Invoke sty (PluginBinaryProxy_Invoke sty prs
      (Some (exported_invoke sty prs (PluginStub_Invoke prs sample_ph_ops)))) ''reboot'' JNull sample_stub
    = (Inr \<lparr>present = False, code = 200, payload = sty JNull\<rparr>, sample_stub\<lparr>rawHandlers := [(''reboot'', 1)]\<rparr>)"
proof -
  let ?x = "\<lparr>present = False, code = 200, payload = []\<rparr>"
  have "portable (Inr (invoke_object ?x JNull))" by simp
  from envelope_sample [OF this] obtain sty prs
    where "envelope_ok sty prs ''raw'' ''reboot'' ''invoke'' JNull (Inr (invoke_object ?x JNull))" by blast
  from proxied_Invoke [OF sample_stub_calls(1,2) _ _ _ this] show ?thesis
    by (auto simp: payload_value_def int_limits)
qed

text \<open>
  Asking the agent's proxy whether a marshalled handler is configured never succeeds:
  whatever the handler answers, the proxy throws, because the answer is a Boolean and it
  accepts integers only.
\<close>

theorem proxied_IsConfigured_throws:
  assumes "map_of (rawHandlers st) i = Some d" and "at_target i (op_IsConfigured ops) st = (Inr b, st')"
    and "envelope_ok sty prs ''raw'' i ''isConfigured'' JNull (Inr (result_object (JBool b)))"
  shows "Proxy_IsConfigured
      (PluginBinaryProxy_Invoke sty prs (Some (exported_invoke sty prs (PluginStub_Invoke prs ops)))) i st
    = (Inl (invalid_json_format ''RawHandlerProxy::IsConfigured. Bad result format.''), st')"
  by (rule in_proc.proxy_IsConfigured [OF assms])

theorem proxied_IsConfigured_throws_witness:
  "\<exists>sty prs. Proxy_IsConfigured (PluginBinaryProxy_Invoke sty prs
      (Some (exported_invoke sty prs (PluginStub_Invoke prs sample_ph_ops)))) ''reboot'' sample_stub
    = (Inl (invalid_json_format ''RawHandlerProxy::IsConfigured. Bad result format.''), sample_stub)"
proof -
  have "portable (Inr (result_object (JBool True)))" by simp
  from envelope_sample [OF this] obtain sty prs
    where "envelope_ok sty prs ''raw'' ''reboot'' ''isConfigured'' JNull (Inr (result_object (JBool True)))" by blast
  from proxied_IsConfigured_throws [OF sample_stub_calls(1,3) this] show ?thesis by blast
qed

text \<open>
  The schema the agent reports for a marshalled handler is the handler's own with the
  tags removed: the proxy reads them and drops them.
\<close>

theorem proxied_schema_has_no_tags:
  assumes "map_of (rawHandlers st) i = Some d" and "at_target i (op_GetReportedSchema ops) st = (Inr x, st')"
    and "envelope_ok sty prs ''raw'' i ''getReportedSchema'' JNull (Inr (result_object (ReportedSchema_ToJsonValue x)))"
  shows "Proxy_GetReportedSchema
      (PluginBinaryProxy_Invoke sty prs (Some (exported_invoke sty prs (PluginStub_Invoke prs ops)))) i st
    = (Inr (x\<lparr>tags := []\<rparr>), st')"
  by (rule in_proc.proxy_GetReportedSchema [OF assms])

theorem proxied_schema_has_no_tags_witness:
  "\<exists>sty prs. Proxy_GetReportedSchema (PluginBinaryProxy_Invoke sty prs
      (Some (exported_invoke sty prs (PluginStub_Invoke prs sample_ph_ops)))) ''reboot'' sample_stub
    = (Inr \<lparr>interfaceType = ''raw'', tags = [], interfaceVersion = ''1.0.0''\<rparr>, sample_stub)"
proof -
  let ?x = "\<lparr>interfaceType = ''raw'', tags = [''dm''], interfaceVersion = ''1.0.0''\<rparr>"
  have "portable (Inr (result_object (ReportedSchema_ToJsonValue ?x)))" by simp
  from envelope_sample [OF this] obtain sty prs
    where "envelope_ok sty prs ''raw'' ''reboot'' ''getReportedSchema'' JNull
      (Inr (result_object (ReportedSchema_ToJsonValue ?x)))" by blast
  from proxied_schema_has_no_tags [OF sample_stub_calls(1,4) this] show ?thesis by auto
qed

end
