(* ===== verification/Plugin_Host.thy ===== *)
theory Plugin_Host
  imports Plugin_Handlers Handler_Base
begin

text \<open>
  The way back, from a marshalled handler to the agent: \<open>RawHandlerHostProxy\<close> and
  \<open>MdmServerProxy\<close> (device-agent/plugin-common) inside the plug-in, \<open>AgentStub\<close>
  (device-agent/agent/Plugins) inside the agent.
\<close>

section \<open>The agent stub\<close>

text \<open>
  The base-64 conversions of the operating system are parameters: \<open>enc\<close> and \<open>dec\<close> are
  \<open>CryptBinaryToStringA\<close> and \<open>CryptStringToBinaryA\<close> or the value of \<open>GetLastError\<close>.
\<close>

definition StringToBase64 :: "(string \<Rightarrow> int + string) \<Rightarrow> string \<Rightarrow> string res" where
  "StringToBase64 enc bufferString =
     (case enc (bufferString @ [CHR 0x00]) of
        Inl err \<Rightarrow> Inl (DMExc Windows err ''Error: cannot convert binary stream to base64.'')
      | Inr s \<Rightarrow> Inr s)"

definition Base64ToString :: "(string \<Rightarrow> int + string) \<Rightarrow> string \<Rightarrow> string res" where
  "Base64ToString dec base64string =
     (case dec base64string of
        Inl err \<Rightarrow> Inl (DMExc Windows err ''Error: cannot obtain the required size to decode buffer from base64.'')
      | Inr buffer \<Rightarrow> Inr (c_str buffer))"

lemma Base64_round_trip:
  "enc (s @ [CHR 0x00]) = Inr t \<Longrightarrow> dec t = Inr (s @ [CHR 0x00]) \<Longrightarrow>
   rbind (StringToBase64 enc s) (Base64ToString dec) = Inr (c_str s)"
  by (simp add: StringToBase64_def Base64ToString_def c_str_NUL)

text \<open>What the agent offers to its plug-ins: its handler host and the MDM server.\<close>

record 'w AgentServices =
  ag_host :: "'w IRawHandlerHost"
  ag_RunSyncML :: "string \<Rightarrow> string \<Rightarrow> ('w, string) cmd"
  ag_enc :: "string \<Rightarrow> int + string"
  ag_dec :: "string \<Rightarrow> int + string"

definition InvokeRunSyncML :: "'w AgentServices \<Rightarrow> json \<Rightarrow> ('w, json) cmd" where
  "InvokeRunSyncML ag ps =
     cbind (clift (rbind (json_at ps ''sid'') asString)) (\<lambda>sid.
     cbind (clift (rbind (rbind (json_at ps ''inputSyncML'') asString) (Base64ToString (ag_dec ag)))) (\<lambda>inSyncML.
     cbind (ag_RunSyncML ag sid inSyncML) (\<lambda>outSyncML.
     cbind (clift (StringToBase64 (ag_enc ag) outSyncML)) (\<lambda>out64.
     cret (jobj [(''outputSyncML'', JString out64)])))))"

definition InvokeReport :: "'w AgentServices \<Rightarrow> json \<Rightarrow> ('w, json) cmd" where
  "InvokeReport ag ps =
     cbind (clift (rbind (json_at ps ''id'') asString)) (\<lambda>i.
     cbind (clift (rbind (rbind (json_at ps ''deploymentStatus'') asString) DeploymentStatusFromString)) (\<lambda>st.
     cbind (clift (json_at ps ''value'')) (\<lambda>v.
     cseq (hi_Report (ag_host ag) i st v) (cret JNull))))"

definition InvokeSendEvent :: "'w AgentServices \<Rightarrow> json \<Rightarrow> ('w, json) cmd" where
  "InvokeSendEvent ag ps =
     cbind (clift (rbind (json_at ps ''interfaceName'') asString)) (\<lambda>interfaceName.
     cbind (clift (rbind (json_at ps ''eventName'') asString)) (\<lambda>eventName.
     cbind (clift (json_at ps ''messageData'')) (\<lambda>eventData.
     cseq (hi_SendEvent (ag_host ag) interfaceName eventName eventData) (cret JNull))))"

definition AgentStub_ReverseInvoke :: "'w AgentServices \<Rightarrow> 'w server" where
  "AgentStub_ReverseInvoke ag ty i m ps =
     (if ty = ''mdmServer'' then
        (if m = ''runSyncML'' then InvokeRunSyncML ag ps
         else cthrow (DMExc DeviceAgent DM_MDM_ERROR_INVALID_SERVER_OPERATION ''Invalid MDM server operation.''))
      else if ty = ''pluginHost'' then
        (if m = ''report'' then InvokeReport ag ps
         else if m = ''sendEvent'' then InvokeSendEvent ag ps
         else cthrow (DMExc DeviceAgent DM_PLUGIN_ERROR_INVALID_RAW_HANDLER_HOST_OPERATION
           ''Invalid raw handler host operation.''))
      else cthrow (DMExc DeviceAgent DM_PLUGIN_ERROR_INVALID_PLUGINHOST_TARGETTYPE
        ''Invalid plugin host target type.''))"

section \<open>The proxies inside the plug-in\<close>

text \<open>\<open>rcall\<close> is \<open>AgentBinaryProxy::ReverseInvoke\<close> on a request built from its four parts.\<close>

definition HostProxy_Report :: "'s server \<Rightarrow> string \<Rightarrow> DeploymentStatus \<Rightarrow> json \<Rightarrow> ('s, unit) cmd" where
  "HostProxy_Report rcall i st value =
     cbind (clift (PH_DeploymentStatusToString st)) (\<lambda>s.
     cseq (rcall ''pluginHost'' '''' ''report''
             (jobj [(''id'', JString i), (''deploymentStatus'', JString s), (''value'', value)]))
       (cret ()))"

definition HostProxy_SendEvent :: "'s server \<Rightarrow> string \<Rightarrow> string \<Rightarrow> json \<Rightarrow> ('s, unit) cmd" where
  "HostProxy_SendEvent rcall i eventName value =
     cseq (rcall ''pluginHost'' '''' ''sendEvent''
             (jobj [(''interfaceName'', JString i), (''eventName'', JString eventName), (''messageData'', value)]))
       (cret ())"

definition host_proxy_if :: "'s server \<Rightarrow> 's IRawHandlerHost" where
  "host_proxy_if rcall = \<lparr>hi_Report = HostProxy_Report rcall, hi_SendEvent = HostProxy_SendEvent rcall\<rparr>"

definition MdmServerProxy_RunSyncML ::
    "(string \<Rightarrow> int + string) \<Rightarrow> (string \<Rightarrow> int + string) \<Rightarrow> 's server \<Rightarrow> string \<Rightarrow> string \<Rightarrow> ('s, string) cmd" where
  "MdmServerProxy_RunSyncML enc dec rcall sid syncML =
     cbind (clift (StringToBase64 enc syncML)) (\<lambda>in64.
     cbind (rcall ''mdmServer'' '''' ''runSyncML''
             (jobj [(''sid'', JString sid), (''inputSyncML'', JString in64)])) (\<lambda>p.
     clift (rbind (rbind (json_at p ''outputSyncML'') asString) (Base64ToString dec))))"

section \<open>The host seen through the proxy is the host\<close>

locale reverse_channel = binary_channel rcall "AgentStub_ReverseInvoke ag" ok
  for rcall :: "'w server" and ag :: "'w AgentServices" and ok
begin

lemma proxy_Report:
  assumes "PH_DeploymentStatusToString st = Inr s" and "hi_Report (ag_host ag) i st v w = (r, w')"
    and "ok ''pluginHost'' '''' ''report''
      (jobj [(''id'', JString i), (''deploymentStatus'', JString s), (''value'', v)]) (wrapped (\<lambda>_. JNull) r)"
  shows "hi_Report (host_proxy_if rcall) i st v w = (r, w')"
proof -
  have "AgentStub_ReverseInvoke ag ''pluginHost'' '''' ''report''
      (jobj [(''id'', JString i), (''deploymentStatus'', JString s), (''value'', v)]) w = (wrapped (\<lambda>_. JNull) r, w')"
    using assms(2) DeploymentStatus_round_trip(1) [OF assms(1)]
    by (cases r) (simp_all add: AgentStub_ReverseInvoke_def InvokeReport_def jobj_def sm_of_def
      cbind_def cseq_def clift_def cret_def)
  from transparent [OF assms(3) this] assms(1) show ?thesis
    by (cases r) (simp_all add: host_proxy_if_def HostProxy_Report_def cbind_def cseq_def clift_def cret_def)
qed

lemma proxy_SendEvent:
  assumes "hi_SendEvent (ag_host ag) i e v w = (r, w')"
    and "ok ''pluginHost'' '''' ''sendEvent''
      (jobj [(''interfaceName'', JString i), (''eventName'', JString e), (''messageData'', v)]) (wrapped (\<lambda>_. JNull) r)"
  shows "hi_SendEvent (host_proxy_if rcall) i e v w = (r, w')"
proof -
  have "AgentStub_ReverseInvoke ag ''pluginHost'' '''' ''sendEvent''
      (jobj [(''interfaceName'', JString i), (''eventName'', JString e), (''messageData'', v)]) w
      = (wrapped (\<lambda>_. JNull) r, w')"
    using assms(1)
    by (cases r) (simp_all add: AgentStub_ReverseInvoke_def InvokeSendEvent_def jobj_def sm_of_def
      cbind_def cseq_def clift_def cret_def)
  from transparent [OF assms(2) this] show ?thesis
    by (cases r) (simp_all add: host_proxy_if_def HostProxy_SendEvent_def cbind_def cseq_def clift_def cret_def)
qed

lemma proxy_RunSyncML:
  assumes "enc (syncML @ [CHR 0x00]) = Inr a" "ag_dec ag a = Inr (syncML @ [CHR 0x00])"
    and "ag_RunSyncML ag sid (c_str syncML) w = (Inr out, w')"
    and "ag_enc ag (out @ [CHR 0x00]) = Inr b" "dec b = Inr (out @ [CHR 0x00])"
    and "ok ''mdmServer'' '''' ''runSyncML'' (jobj [(''sid'', JString sid), (''inputSyncML'', JString a)])
      (Inr (jobj [(''outputSyncML'', JString b)]))"
  shows "MdmServerProxy_RunSyncML enc dec rcall sid syncML w = (Inr (c_str out), w')"
proof -
  have "AgentStub_ReverseInvoke ag ''mdmServer'' '''' ''runSyncML''
      (jobj [(''sid'', JString sid), (''inputSyncML'', JString a)]) w = (Inr (jobj [(''outputSyncML'', JString b)]), w')"
    using assms(2-4)
    by (simp add: AgentStub_ReverseInvoke_def InvokeRunSyncML_def Base64ToString_def StringToBase64_def
      jobj_def sm_of_def cbind_def clift_def cret_def c_str_NUL)
  from transparent [OF assms(6) this] assms(1,5) show ?thesis
    by (simp add: MdmServerProxy_RunSyncML_def StringToBase64_def Base64ToString_def jobj_def sm_of_def
      cbind_def clift_def c_str_NUL)
qed

end

definition in_proc_reverse ::
    "(json \<Rightarrow> string) \<Rightarrow> (string \<Rightarrow> string + json) \<Rightarrow> 's server \<Rightarrow> 's server" where
  "in_proc_reverse sty prs serve ty i m p =
     AgentBinaryProxy_ReverseInvoke prs (exported_invoke sty prs serve) (BuildRequest sty ty i m p)"

interpretation reverse: reverse_channel "in_proc_reverse sty prs (AgentStub_ReverseInvoke ag)" ag
  "envelope_ok sty prs" for sty prs ag
  by unfold_locales (simp add: envelope_ok_def in_proc_reverse_def invoke_transparent(2))

section \<open>Properties\<close>

text \<open>
  C12: a report a marshalled handler makes through the proxy of its host is the report of the
  host itself: the same section, status and value, with the host's outcome handed back to
  the handler.
\<close>

theorem proxied_report_is_the_report:
  assumes "PH_DeploymentStatusToString st = Inr s" and "hi_Report (ag_host ag) i st v w = (r, w')"
    and "envelope_ok sty prs ''pluginHost'' '''' ''report''
      (jobj [(''id'', JString i), (''deploymentStatus'', JString s), (''value'', v)]) (wrapped (\<lambda>_. JNull) r)"
  shows "hi_Report (host_proxy_if (in_proc_reverse sty prs (AgentStub_ReverseInvoke ag))) i st v w = (r, w')"
  by (rule reverse.proxy_Report [OF assms])

theorem proxied_report_is_the_report_witness:
  "\<exists>sty prs. hi_Report (host_proxy_if (in_proc_reverse sty prs (AgentStub_ReverseInvoke
      \<lparr>ag_host = \<lparr>hi_Report = (\<lambda>i st v l. (Inr (), l @ [(i, st, v)])), hi_SendEvent = (\<lambda>i n v. cret ())\<rparr>,
       ag_RunSyncML = (\<lambda>sid s. cret s), ag_enc = Inr, ag_dec = Inr\<rparr>))) ''time'' eFailed JNull []
    = (Inr (), [(''time'', eFailed, JNull)])"
proof -
  let ?ag = "\<lparr>ag_host = \<lparr>hi_Report = (\<lambda>i st v l. (Inr (), l @ [(i, st, v)])), hi_SendEvent = (\<lambda>i n v. cret ())\<rparr>,
    ag_RunSyncML = (\<lambda>sid s. cret s), ag_enc = Inr, ag_dec = Inr\<rparr> :: (string \<times> DeploymentStatus \<times> json) list AgentServices"
  have s: "PH_DeploymentStatusToString eFailed = Inr ''failed''" by (simp add: PH_DeploymentStatusToString_def)
  have r: "hi_Report (ag_host ?ag) ''time'' eFailed JNull [] = (Inr (), [(''time'', eFailed, JNull)])" by simp
  have "portable (wrapped (\<lambda>_. JNull) (Inr () :: unit res))" by simp
  from envelope_sample [OF this] obtain sty prs where "envelope_ok sty prs ''pluginHost'' '''' ''report''
      (jobj [(''id'', JString ''time''), (''deploymentStatus'', JString ''failed''), (''value'', JNull)])
      (wrapped (\<lambda>_. JNull) (Inr () :: unit res))" by blast
  from proxied_report_is_the_report [where ag = ?ag, OF s r this] show ?thesis by blast
qed

end
