(* ===== verification/Out_Of_Proc.thy ===== *)
theory Out_Of_Proc
  imports Plugin_Handlers Ipc_Transport
begin

text \<open>
  A plug-in in a process of its own: \<open>OutOfProcPluginBinaryProxy\<close>
  (device-agent/agent/Plugins), which remembers what it told the handlers and replays it
  when the plug-in process is started again, and \<open>ProcessRequestMessage\<close> of the transport's
  two ends (device-agent/common/Plugins).
\<close>

section \<open>Serving a request message\<close>

definition dword :: "int \<Rightarrow> nat" where
  "dword c = nat (c mod 2 ^ 32)"

definition long_of_dword :: "nat \<Rightarrow> int" where
  "long_of_dword n = (if n < 2 ^ 31 then int n else int n - 2 ^ 32)"

lemma dword_bound: "dword c < 2 ^ 32"
  by (simp add: dword_def nat_less_iff)

text \<open>\<open>Payload()\<close> of an empty message is a null pointer.\<close>

definition payload_ptr :: "Message \<Rightarrow> string option" where
  "payload_ptr msg = (if data msg = [] then None else Some (data msg))"

definition response_message :: Message where
  "response_message = \<lparr>messageType = Response, callType = NoCall, errorCode = dword DM_ERROR_SUCCESS, data = []\<rparr>"

definition z_data :: "string \<Rightarrow> Message \<Rightarrow> Message" where
  "z_data s = SetData (c_str s @ [CHR 0x00])"

type_synonym 's entry_point = "string option \<Rightarrow> ('s, int \<times> string option) cmd"

text \<open>The plug-in's end; \<open>pclose\<close> closes the transport and signals the shutdown of the process.\<close>

definition Plugin_ProcessRequestMessage ::
    "('s, int) cmd \<Rightarrow> 's entry_point \<Rightarrow> ('s, unit) cmd \<Rightarrow> Message \<Rightarrow> ('s, Message) cmd" where
  "Plugin_ProcessRequestMessage pluginCreate pluginInvoke pclose requestMessage =
     (if callType requestMessage = PluginInvokeCall then
        cbind (pluginInvoke (payload_ptr requestMessage)) (\<lambda>(retCode, responseData).
        case responseData of
          None \<Rightarrow> cthrow Terminate
        | Some d \<Rightarrow> cret (z_data d (response_message\<lparr>errorCode := dword retCode\<rparr>)))
      else if callType requestMessage = PluginCreateCall then
        cbind pluginCreate (\<lambda>retCode.
        cret (if dword retCode = dword DM_ERROR_SUCCESS
              then z_data ''Plugin Create Succeeded'' (response_message\<lparr>errorCode := dword retCode\<rparr>)
              else z_data ''Plugin Create Failed'' (response_message\<lparr>errorCode := dword retCode\<rparr>)))
      else if callType requestMessage = PluginShutdownCall then
        cseq pclose (cret response_message)
      else cret response_message)"

text \<open>The agent's end; \<open>None\<close> stands for a plug-in host that is not initialized yet.\<close>

definition Agent_ProcessRequestMessage :: "'s entry_point option \<Rightarrow> Message \<Rightarrow> ('s, Message) cmd" where
  "Agent_ProcessRequestMessage pluginReverseInvoke requestMessage =
     (case pluginReverseInvoke of
        None \<Rightarrow> cret response_message
      | Some reverseInvoke \<Rightarrow>
          cbind (reverseInvoke (payload_ptr requestMessage)) (\<lambda>(retCode, responseData).
          case responseData of
            None \<Rightarrow> cthrow Terminate
          | Some d \<Rightarrow> cret (z_data d (response_message\<lparr>errorCode := dword retCode\<rparr>))))"

section \<open>The proxy\<close>

text \<open>\<open>asCString\<close> as the code uses it, converted to a string.\<close>

fun asCString :: "json \<Rightarrow> string res" where
  "asCString (JString s) = Inr (c_str s)"
| "asCString _ = Inl (StdException ''in Json::Value::asCString(): requires stringValue'')"

record HandlerState =
  started :: bool
  startParams :: json
  updateConnectionParams :: json

definition HandlerState_new :: HandlerState where
  "HandlerState_new = \<lparr>started = False, startParams = JNull, updateConnectionParams = JNull\<rparr>"

record 's OutOfProc =
  transport :: "'s option"
  rawHandlersStates :: "HandlerState smap"

text \<open>\<open>m[targetId].member = value\<close>, which inserts a default entry first.\<close>

definition update_entry ::
    "string \<Rightarrow> (HandlerState \<Rightarrow> HandlerState) \<Rightarrow> HandlerState smap \<Rightarrow> HandlerState smap" where
  "update_entry i f states =
     sm_put i (f (case map_of states i of None \<Rightarrow> HandlerState_new | Some h \<Rightarrow> h)) states"

definition CacheHandlerState :: "string \<Rightarrow> string \<Rightarrow> string \<Rightarrow> json \<Rightarrow> (HandlerState smap, unit) cmd" where
  "CacheHandlerState ty i m p =
     (let no_map = (ty \<noteq> ''raw'' \<and> m \<noteq> ''createRawHandler'') in
      if ty = ''host'' then
        (if m = ''createRawHandler'' then
           cbind (clift (rbind (json_at p ''id'') asCString)) (\<lambda>hid.
           cmod (\<lambda>states. if map_of states hid = None then sm_put hid HandlerState_new states else states))
         else cret ())
      else if m = ''start'' then
        (if no_map then cthrow Terminate
         else cmod (update_entry i (\<lambda>h. h\<lparr>started := True, startParams := p\<rparr>)))
      else if m = ''stop'' then
        (if no_map then cthrow Terminate else cmod (update_entry i (\<lambda>h. h\<lparr>started := False\<rparr>)))
      else if m = ''onConnectionStatusChanged'' then
        (if no_map then cthrow Terminate else cmod (update_entry i (\<lambda>h. h\<lparr>updateConnectionParams := p\<rparr>)))
      else cret ())"

definition on_states :: "(HandlerState smap, 'a) cmd \<Rightarrow> ('s OutOfProc, 'a) cmd" where
  "on_states c st = (case c (rawHandlersStates st) of (r, x) \<Rightarrow> (r, st\<lparr>rawHandlersStates := x\<rparr>))"

definition on_transport :: "('s, 'a) cmd \<Rightarrow> ('s OutOfProc, 'a) cmd" where
  "on_transport c st = (case transport st of
      None \<Rightarrow> (Inl Terminate, st)
    | Some l \<Rightarrow> (case c l of (r, l') \<Rightarrow> (r, st\<lparr>transport := Some l'\<rparr>)))"

text \<open>
  The request over the transport; \<open>send\<close> is \<open>SendAndGetResponse\<close>, which \<open>Pipe_Calls\<close> gives over two
  pipes, their failures included.
\<close>

definition invoke_message :: "string \<Rightarrow> Message" where
  "invoke_message request = SetData (request @ [CHR 0x00])
     \<lparr>messageType = Request, callType = PluginInvokeCall, errorCode = dword DM_ERROR_SUCCESS, data = []\<rparr>"

definition transport_invoke ::
    "(json \<Rightarrow> string) \<Rightarrow> (string \<Rightarrow> string + json) \<Rightarrow> (Message \<Rightarrow> ('s, Message) cmd) \<Rightarrow> 's server" where
  "transport_invoke sty prs send ty i m p =
     cbind (send (invoke_message (BuildRequest sty ty i m p))) (\<lambda>response.
     if errorCode response \<noteq> dword DM_ERROR_SUCCESS
     then cthrow (DMExc DeviceAgent (long_of_dword (errorCode response)) ''PluginInvoke returned error.'')
     else case payload_ptr response of
       None \<Rightarrow> cthrow Terminate
     | Some d \<Rightarrow>
         (if c_str d = [] then cthrow (DMExc DeviceAgent DM_PLUGIN_ERROR_INVALID_OUTPUT_BUFFER
            ''PluginInvoke returned invalid buffer.'')
          else clift (GetPayloadFromJsonString prs (c_str d))))"

definition OutOfProc_Invoke ::
    "(json \<Rightarrow> string) \<Rightarrow> (string \<Rightarrow> string + json) \<Rightarrow> (Message \<Rightarrow> ('s, Message) cmd) \<Rightarrow> 's OutOfProc server" where
  "OutOfProc_Invoke sty prs send ty i m p =
     cbind (cget transport) (\<lambda>t.
     if t = None then cthrow (DMExc DeviceAgent DM_PLUGIN_ERROR_UNINITIALIZED_TRANSPORT
       ''Transport is not initialized'')
     else cseq (on_states (CacheHandlerState ty i m p))
            (on_transport (transport_invoke sty prs send ty i m p)))"

definition SendCreatePluginRequest :: "(Message \<Rightarrow> ('s, Message) cmd) \<Rightarrow> ('s OutOfProc, unit) cmd" where
  "SendCreatePluginRequest send =
     cbind (on_transport (send (z_data ''Create Request''
        \<lparr>messageType = Request, callType = PluginCreateCall, errorCode = dword DM_ERROR_SUCCESS, data = []\<rparr>)))
       (\<lambda>response.
     if errorCode response \<noteq> dword DM_ERROR_SUCCESS
     then cthrow (DMExc DeviceAgent (long_of_dword (errorCode response)) ''PluginCreate returned error.'')
     else cret ())"

text \<open>The loop runs over the map while \<open>Invoke\<close> assigns to its entries; each turn reads the current entry.\<close>

definition replay_handler :: "'s OutOfProc server \<Rightarrow> string \<Rightarrow> string \<Rightarrow> string \<Rightarrow> ('s OutOfProc, unit) cmd" where
  "replay_handler inv_call jsonTargetTypeName jsonCreateMethodName handlerId =
     cseq (inv_call ''host'' '''' jsonCreateMethodName (jobj [(''id'', JString handlerId)])) (
     cbind (cget (\<lambda>st. the (map_of (rawHandlersStates st) handlerId))) (\<lambda>h.
     cseq (if started h then inv_call jsonTargetTypeName handlerId ''start'' (startParams h)
           else inv_call jsonTargetTypeName handlerId ''stop'' (startParams h)) (
     cbind (cget (\<lambda>st. the (map_of (rawHandlersStates st) handlerId))) (\<lambda>h'.
     cseq (inv_call jsonTargetTypeName handlerId ''onConnectionStatusChanged'' (updateConnectionParams h'))
       (cret ())))))"

definition SendCachedHandlerState ::
    "'s OutOfProc server \<Rightarrow> string \<Rightarrow> string \<Rightarrow> ('s OutOfProc, unit) cmd" where
  "SendCachedHandlerState inv_call jsonTargetTypeName jsonCreateMethodName =
     cbind (cget (\<lambda>st. sm_keys (rawHandlersStates st))) (\<lambda>ids.
     cfor (replay_handler inv_call jsonTargetTypeName jsonCreateMethodName) ids)"

definition OnPluginLoaded ::
    "(json \<Rightarrow> string) \<Rightarrow> (string \<Rightarrow> string + json) \<Rightarrow> (Message \<Rightarrow> ('s, Message) cmd) \<Rightarrow> ('s OutOfProc, unit) cmd" where
  "OnPluginLoaded sty prs send =
     cseq (SendCreatePluginRequest send)
       (SendCachedHandlerState (OutOfProc_Invoke sty prs send) ''raw'' ''createRawHandler'')"

section \<open>Calls reach the plug-in unchanged\<close>

definition oop_ok ::
    "(json \<Rightarrow> string) \<Rightarrow> (string \<Rightarrow> string + json) \<Rightarrow> string \<Rightarrow> string \<Rightarrow> string \<Rightarrow> json \<Rightarrow> json res \<Rightarrow> bool" where
  "oop_ok sty prs ty i m p r \<longleftrightarrow> envelope_ok sty prs ty i m p r \<and> c_str (sty (response_of r)) \<noteq> []"

lemma transport_invoke_eq:
  assumes "oop_ok sty prs ty i m p r" and "serve ty i m p s = (r, s')"
  shows "transport_invoke sty prs (Plugin_ProcessRequestMessage pcreate (exported_invoke sty prs serve) pclose) ty i m p s
    = (r, s')"
proof -
  have ok: "carried sty prs (request_json ty i m p)" "portable r" "carried sty prs (response_of r)"
    using assms(1) by (simp_all add: oop_ok_def envelope_ok_def)
  have "serve_text sty prs serve (c_str (BuildRequest sty ty i m p)) s = (Inr (sty (response_of r)), s')"
    using ok(2) assms(2) by (cases r rule: portable.cases) (simp_all add: serve_text_ok [OF ok(1)])
  moreover have "GetPayloadFromJsonString prs (c_str (sty (response_of r))) = r"
    using ok(2,3) by (simp add: GetPayloadFromJsonString_def carried_def response_round_trip)
  ultimately show ?thesis
    using assms(1)
    by (simp add: transport_invoke_def Plugin_ProcessRequestMessage_def invoke_message_def payload_ptr_def
      SetData_def exported_invoke_def z_data_def response_message_def c_str_NUL oop_ok_def
      cbind_def clift_def cret_def)
qed

interpretation pipe_channel: binary_channel
  "transport_invoke sty prs (Plugin_ProcessRequestMessage pcreate (exported_invoke sty prs serve) pclose)" serve
  "oop_ok sty prs" for sty prs pcreate pclose serve
  by unfold_locales (rule transport_invoke_eq)

interpretation out_of_proc: marshalled
  "transport_invoke sty prs
     (Plugin_ProcessRequestMessage pcreate (exported_invoke sty prs (PluginStub_Invoke prs ops)) pclose)"
  prs ops "oop_ok sty prs" for sty prs pcreate pclose ops
  by unfold_locales (rule transport_invoke_eq)

lemma OutOfProc_Invoke_eq:
  assumes "transport st = Some s" and "CacheHandlerState ty i m p (rawHandlersStates st) = (Inr (), c)"
    and "transport_invoke sty prs send ty i m p s = (r, s')"
  shows "OutOfProc_Invoke sty prs send ty i m p st
    = (r, st\<lparr>transport := Some s', rawHandlersStates := c\<rparr>)"
  using assms
  by (simp add: OutOfProc_Invoke_def cbind_def cseq_def cget_def on_states_def on_transport_def)

section \<open>What is replayed\<close>

text \<open>The requests that a map of handler states stands for.\<close>

type_synonym request = "string \<times> string \<times> string \<times> json"

fun handler_requests :: "string \<times> HandlerState \<Rightarrow> request list" where
  "handler_requests (i, h) =
     [(''host'', '''', ''createRawHandler'', jobj [(''id'', JString i)]),
      (''raw'', i, if started h then ''start'' else ''stop'', startParams h),
      (''raw'', i, ''onConnectionStatusChanged'', updateConnectionParams h)]"

definition replay_requests :: "HandlerState smap \<Rightarrow> request list" where
  "replay_requests states = concat (map handler_requests states)"

definition send_request :: "'s server \<Rightarrow> request \<Rightarrow> ('s, unit) cmd" where
  "send_request srv q = (case q of (ty, i, m, p) \<Rightarrow> cseq (srv ty i m p) (cret ()))"

lemma cache_create:
  "c_str i = i \<Longrightarrow> map_of states i = Some h \<Longrightarrow>
   CacheHandlerState ''host'' '''' ''createRawHandler'' (jobj [(''id'', JString i)]) states = (Inr (), states)"
  by (simp add: CacheHandlerState_def jobj_def sm_of_def cbind_def clift_def cmod_def)

lemma cache_replay:
  assumes "sm_wf states" and "map_of states i = Some h"
  shows "started h \<Longrightarrow> CacheHandlerState ''raw'' i ''start'' (startParams h) states = (Inr (), states)"
    and "\<not> started h \<Longrightarrow> CacheHandlerState ''raw'' i ''stop'' (startParams h) states = (Inr (), states)"
    and "CacheHandlerState ''raw'' i ''onConnectionStatusChanged'' (updateConnectionParams h) states = (Inr (), states)"
proof -
  have "started h \<Longrightarrow> h\<lparr>started := True, startParams := startParams h\<rparr> = h"
    "\<not> started h \<Longrightarrow> h\<lparr>started := False\<rparr> = h"
    "h\<lparr>updateConnectionParams := updateConnectionParams h\<rparr> = h"
    by (cases h; simp)+
  then show "started h \<Longrightarrow> CacheHandlerState ''raw'' i ''start'' (startParams h) states = (Inr (), states)"
    "\<not> started h \<Longrightarrow> CacheHandlerState ''raw'' i ''stop'' (startParams h) states = (Inr (), states)"
    "CacheHandlerState ''raw'' i ''onConnectionStatusChanged'' (updateConnectionParams h) states = (Inr (), states)"
    using assms by (simp_all add: CacheHandlerState_def Let_def cmod_def update_entry_def sm_put_same)
qed

lemma on_transport_states [simp]: "rawHandlersStates (snd (on_transport c st)) = rawHandlersStates st"
  by (simp add: on_transport_def split: option.split prod.split)

lemma on_transport_set [simp]: "transport (snd (on_transport c st)) = None \<longleftrightarrow> transport st = None"
  by (simp add: on_transport_def split: option.split prod.split)

lemma on_transport_cbind:
  "on_transport (cbind a f) st = cbind (on_transport a) (\<lambda>x. on_transport (f x)) st"
  by (auto simp: on_transport_def cbind_def split: option.split prod.split sum.split)

lemma on_transport_cret: "transport st \<noteq> None \<Longrightarrow> on_transport (cret x) st = cret x st"
  by (auto simp: on_transport_def cret_def)

lemma cbind_cong_state:
  "m st = m' st \<Longrightarrow> (\<And>x. fst (m st) = Inr x \<Longrightarrow> f x (snd (m st)) = f' x (snd (m st))) \<Longrightarrow>
   cbind m f st = cbind m' f' st"
  by (auto simp: cbind_def split: prod.split sum.split)

lemma cbind_assoc: "cbind (cbind m f) g = cbind m (\<lambda>x. cbind (f x) g)"
  by (auto simp: cbind_def fun_eq_iff split: prod.split sum.split)

lemma cbind_cret: "cbind (cret x) f = f x"
  by (simp add: cbind_def cret_def)

lemma OutOfProc_Invoke_uncached:
  assumes "transport st \<noteq> None"
    and "CacheHandlerState ty i m p (rawHandlersStates st) = (Inr (), rawHandlersStates st)"
  shows "OutOfProc_Invoke sty prs send ty i m p st = on_transport (transport_invoke sty prs send ty i m p) st"
  using assms by (auto simp: OutOfProc_Invoke_def cbind_def cseq_def cget_def on_states_def)

lemma replay_handler_eq:
  fixes send :: "Message \<Rightarrow> ('s, Message) cmd"
  assumes "transport st \<noteq> None" and "sm_wf (rawHandlersStates st)"
    and "map_of (rawHandlersStates st) i = Some h" and "c_str i = i"
  shows "replay_handler (OutOfProc_Invoke sty prs send) ''raw'' ''createRawHandler'' i st
    = on_transport (cfor (send_request (transport_invoke sty prs send)) (handler_requests (i, h))) st"
proof -
  let ?call = "OutOfProc_Invoke sty prs send" and ?send = "transport_invoke sty prs send"
  define ok where "ok x \<longleftrightarrow> transport x \<noteq> None \<and> rawHandlersStates x = rawHandlersStates st"
    for x :: "'s OutOfProc"
  have ok_next: "ok x \<Longrightarrow> ok (snd (on_transport c x))" for x and c :: "('s, 'a) cmd"
    by (simp add: ok_def)
  have create: "ok x \<Longrightarrow> ?call ''host'' '''' ''createRawHandler'' (jobj [(''id'', JString i)]) x
      = on_transport (?send ''host'' '''' ''createRawHandler'' (jobj [(''id'', JString i)])) x" for x
    using assms(3,4) by (intro OutOfProc_Invoke_uncached) (simp_all add: ok_def cache_create)
  have run: "ok x \<Longrightarrow> ?call ''raw'' i (if started h then ''start'' else ''stop'') (startParams h) x
      = on_transport (?send ''raw'' i (if started h then ''start'' else ''stop'') (startParams h)) x" for x
    using assms(2,3) by (intro OutOfProc_Invoke_uncached) (simp_all add: ok_def cache_replay)
  have conn: "ok x \<Longrightarrow> ?call ''raw'' i ''onConnectionStatusChanged'' (updateConnectionParams h) x
      = on_transport (?send ''raw'' i ''onConnectionStatusChanged'' (updateConnectionParams h)) x" for x
    using assms(2,3) by (intro OutOfProc_Invoke_uncached) (simp_all add: ok_def cache_replay)
  have entry: "ok x \<Longrightarrow> cbind (cget (\<lambda>st. the (map_of (rawHandlersStates st) i))) f x = f h x"
    for x and f :: "HandlerState \<Rightarrow> ('s OutOfProc, 'a) cmd"
    using assms(3) by (simp add: ok_def cbind_def cget_def)
  have step: "cseq m n x = on_transport (cseq c d) x"
    if "ok x" "m x = on_transport c x" "\<And>y. ok y \<Longrightarrow> n y = on_transport d y"
    for m :: "('s OutOfProc, json) cmd" and n :: "('s OutOfProc, unit) cmd" and c d x
    unfolding cseq_def on_transport_cbind
    by (rule cbind_cong_state [where m = m and m' = "on_transport c", OF that(2)]) (simp add: that ok_next)
  have last: "ok y \<Longrightarrow> cret () y = on_transport (cret ()) y" for y
    by (simp add: ok_def on_transport_cret)
  have conn_step: "cbind (cget (\<lambda>st. the (map_of (rawHandlersStates st) i))) (\<lambda>h'.
      cseq (?call ''raw'' i ''onConnectionStatusChanged'' (updateConnectionParams h')) (cret ())) y
    = on_transport (cseq (?send ''raw'' i ''onConnectionStatusChanged'' (updateConnectionParams h)) (cret ())) y"
    if "ok y" for y
    unfolding entry [OF that] by (rule step [OF that]) (rule conn [OF that], erule last)
  have run_step: "cbind (cget (\<lambda>st. the (map_of (rawHandlersStates st) i))) (\<lambda>h.
      cseq (if started h then ?call ''raw'' i ''start'' (startParams h) else ?call ''raw'' i ''stop'' (startParams h))
       (cbind (cget (\<lambda>st. the (map_of (rawHandlersStates st) i))) (\<lambda>h'.
      cseq (?call ''raw'' i ''onConnectionStatusChanged'' (updateConnectionParams h')) (cret ())))) y
    = on_transport (cseq (?send ''raw'' i (if started h then ''start'' else ''stop'') (startParams h))
        (cseq (?send ''raw'' i ''onConnectionStatusChanged'' (updateConnectionParams h)) (cret ()))) y"
    if "ok y" for y
    unfolding entry [OF that] by (rule step [OF that], use run [OF that] in \<open>simp split: if_splits\<close>) (erule conn_step)
  have "ok st" using assms(1) by (simp add: ok_def)
  have "replay_handler ?call ''raw'' ''createRawHandler'' i st
    = on_transport (cseq (?send ''host'' '''' ''createRawHandler'' (jobj [(''id'', JString i)]))
        (cseq (?send ''raw'' i (if started h then ''start'' else ''stop'') (startParams h))
        (cseq (?send ''raw'' i ''onConnectionStatusChanged'' (updateConnectionParams h)) (cret ())))) st"
    unfolding replay_handler_def
    by (rule step [OF \<open>ok st\<close>]) (rule create [OF \<open>ok st\<close>], erule run_step)
  then show ?thesis
    by (simp add: send_request_def cseq_def cbind_assoc cbind_cret)
qed

lemma replay_loop_eq:
  fixes send :: "Message \<Rightarrow> ('s, Message) cmd"
  assumes "sm_wf states" and "\<forall>i \<in> fst ` set states. c_str i = i" and "set es \<subseteq> set states"
    and "transport st \<noteq> None" and "rawHandlersStates st = states"
  shows "cfor (replay_handler (OutOfProc_Invoke sty prs send) ''raw'' ''createRawHandler'') (map fst es) st
    = on_transport (cfor (send_request (transport_invoke sty prs send)) (replay_requests es)) st"
  using assms(3-5)
proof (induction es arbitrary: st)
  case Nil
  then show ?case by (simp add: replay_requests_def on_transport_cret)
next
  case (Cons e es)
  obtain i h where e: "e = (i, h)" by (cases e)
  have look: "map_of states i = Some h"
    using Cons.prems(1) e sm_wf_distinct [OF assms(1)] by (simp add: map_of_eq_Some_iff)
  have "c_str i = i" using assms(2) Cons.prems(1) e by force
  then have head: "replay_handler (OutOfProc_Invoke sty prs send) ''raw'' ''createRawHandler'' i st
      = on_transport (cfor (send_request (transport_invoke sty prs send)) (handler_requests (i, h))) st"
    using replay_handler_eq Cons.prems look assms(1) by metis
  have split: "cfor (send_request (transport_invoke sty prs send)) (replay_requests (e # es))
      = cbind (cfor (send_request (transport_invoke sty prs send)) (handler_requests (i, h)))
          (\<lambda>_. cfor (send_request (transport_invoke sty prs send)) (replay_requests es))"
    unfolding replay_requests_def by (simp only: list.map concat.simps cfor_append cseq_def e)
  show ?case
    unfolding split on_transport_cbind
    using Cons.prems by (simp add: e cseq_def del: handler_requests.simps) (rule cbind_cong_state, rule head, simp add: head Cons.IH)
qed

lemma SendCachedHandlerState_eq:
  assumes "sm_wf (rawHandlersStates st)" and "\<forall>i \<in> fst ` set (rawHandlersStates st). c_str i = i"
    and "transport st \<noteq> None"
  shows "SendCachedHandlerState (OutOfProc_Invoke sty prs send) ''raw'' ''createRawHandler'' st
    = on_transport (cfor (send_request (transport_invoke sty prs send)) (replay_requests (rawHandlersStates st))) st"
  using replay_loop_eq [OF assms(1,2) order_refl assms(3) refl]
  by (simp add: SendCachedHandlerState_def cbind_def cget_def sm_keys_def)

section \<open>What is remembered\<close>

text \<open>The entry of a handler as a function of the requests sent so far, most recent last.\<close>

fun remember :: "string \<Rightarrow> HandlerState option \<Rightarrow> request \<Rightarrow> HandlerState option" where
  "remember i e (ty, j, m, p) =
     (let h = (case e of None \<Rightarrow> HandlerState_new | Some h \<Rightarrow> h) in
      if ty = ''host'' \<and> m = ''createRawHandler'' \<and> json_at p ''id'' = Inr (JString i) then Some h
      else if ty = ''raw'' \<and> j = i then
        (if m = ''start'' then Some (h\<lparr>started := True, startParams := p\<rparr>)
         else if m = ''stop'' then Some (h\<lparr>started := False\<rparr>)
         else if m = ''onConnectionStatusChanged'' then Some (h\<lparr>updateConnectionParams := p\<rparr>)
         else e)
      else e)"

text \<open>The requests the agent sends: to the host or to a raw handler, with plain identifiers.\<close>

fun agent_request :: "request \<Rightarrow> bool" where
  "agent_request (ty, j, m, p) \<longleftrightarrow> c_str j = j \<and>
     (ty = ''raw'' \<or> ty = ''host'' \<and> (m = ''createRawHandler'' \<longrightarrow> (\<exists>i. json_at p ''id'' = Inr (JString i) \<and> c_str i = i)))"

definition cache_request :: "request \<Rightarrow> (HandlerState smap, unit) cmd" where
  "cache_request q = (case q of (ty, i, m, p) \<Rightarrow> CacheHandlerState ty i m p)"

definition cache_inv :: "HandlerState smap \<Rightarrow> bool" where
  "cache_inv states \<longleftrightarrow> sm_wf states \<and> (\<forall>i \<in> fst ` set states. c_str i = i)"

lemma cache_inv_put: "cache_inv states \<Longrightarrow> c_str i = i \<Longrightarrow> cache_inv (sm_put i h states)"
  by (simp add: cache_inv_def set_keys_sm_put)

lemma cache_request_host:
  assumes "json_at p ''id'' = Inr (JString k)" and "c_str k = k"
  shows "cache_request (''host'', j, ''createRawHandler'', p) states
    = (Inr (), if map_of states k = None then sm_put k HandlerState_new states else states)"
  using assms by (simp add: cache_request_def CacheHandlerState_def cmd_simps)

lemma cache_request_other:
  "m \<noteq> ''createRawHandler'' \<Longrightarrow> cache_request (''host'', j, m, p) states = (Inr (), states)"
  by (simp add: cache_request_def CacheHandlerState_def cmd_simps)

lemma cache_request_raw:
  "cache_request (''raw'', j, m, p) states = (Inr (),
     if m = ''start'' then update_entry j (\<lambda>h. h\<lparr>started := True, startParams := p\<rparr>) states
     else if m = ''stop'' then update_entry j (\<lambda>h. h\<lparr>started := False\<rparr>) states
     else if m = ''onConnectionStatusChanged'' then update_entry j (\<lambda>h. h\<lparr>updateConnectionParams := p\<rparr>) states
     else states)"
  by (simp add: cache_request_def CacheHandlerState_def Let_def cmd_simps)

lemma cache_request_step:
  assumes "agent_request q"
  shows "fst (cache_request q states) = Inr () \<and>
    (\<forall>i. map_of (snd (cache_request q states)) i = remember i (map_of states i) q) \<and>
    (cache_inv states \<longrightarrow> cache_inv (snd (cache_request q states)))"
proof -
  obtain ty j m p where q: "q = (ty, j, m, p)" by (cases q)
  consider (raw) "ty = ''raw''" | (create) "ty = ''host''" "m = ''createRawHandler''"
    | (other) "ty = ''host''" "m \<noteq> ''createRawHandler''"
    using assms q by auto
  then show ?thesis
  proof cases
    case raw
    then show ?thesis using assms
      by (auto simp: q cache_request_raw update_entry_def Let_def cache_inv_put)
  next
    case create
    then obtain k where k: "json_at p ''id'' = Inr (JString k)" "c_str k = k" using assms q by auto
    then show ?thesis
      by (auto simp: q create cache_request_host Let_def cache_inv_put split: option.splits)
  next
    case other
    then show ?thesis by (simp add: q cache_request_other)
  qed
qed

lemma cache_requests:
  "\<forall>q \<in> set qs. agent_request q \<Longrightarrow> cache_inv states \<Longrightarrow>
   fst (cfor cache_request qs states) = Inr () \<and>
   (\<forall>i. map_of (snd (cfor cache_request qs states)) i = foldl (remember i) (map_of states i) qs) \<and>
   cache_inv (snd (cfor cache_request qs states))"
proof (induction qs arbitrary: states)
  case Nil
  then show ?case by (simp add: cret_def)
next
  case (Cons q qs)
  obtain c where c: "cache_request q states = (Inr (), c)"
    using cache_request_step [of q states] Cons.prems(1) by (metis list.set_intros(1) prod.collapse)
  have ci: "cache_inv c" and ce: "map_of c i = remember i (map_of states i) q" for i
    using cache_request_step [of q states] Cons.prems c by auto
  show ?case using Cons.IH [of c] Cons.prems ci c by (simp add: cseq_def cbind_def ce)
qed

text \<open>A destroyed handler stays remembered, and a handler that was never told its connection status
  is sent a null one, which the stub refuses.\<close>

lemma destroy_is_not_remembered: "remember i e (''host'', j, ''destroyRawHandler'', p) = e"
  by simp

lemma null_connection_status:
  assumes "sm_wf (rawHandlers st)" and "map_of (rawHandlers st) i = Some d"
  shows "PluginStub_Invoke prs ops ''raw'' i ''onConnectionStatusChanged'' JNull st
    = (Inl (DMExc DeviceAgent DM_ERROR_INVALID_ARGUMENT ''Invalid input for HandleOnConnectionStatusChanged''), st)"
  using assms by (simp add: serve_raw at_target_def HandleMethod_def value_parameter_def cbind_def clift_def sm_put_same)

section \<open>Properties\<close>

text \<open>
  C8: after any history of requests, the proxy sends to a restarted plug-in, for every
  handler it remembers, in the order of their ids: the creation, the last start or stop
  with the parameters of the last start, and the last connection status, over the transport
  and without changing what it remembers.
\<close>

theorem restart_replays_history:
  assumes "list_all agent_request qs" and "transport st \<noteq> None"
    and "rawHandlersStates st = snd (cfor cache_request qs [])"
  shows "SendCachedHandlerState (OutOfProc_Invoke sty prs send) ''raw'' ''createRawHandler'' st
      = on_transport (cfor (send_request (transport_invoke sty prs send))
          (concat (map handler_requests (rawHandlersStates st)))) st \<and>
    sorted_wrt (<) (map fst (rawHandlersStates st)) \<and>
    (\<forall>i. map_of (rawHandlersStates st) i = foldl (remember i) None qs)"
proof -
  have inv: "cache_inv (rawHandlersStates st)"
    and entries: "\<forall>i. map_of (rawHandlersStates st) i = foldl (remember i) None qs"
    using cache_requests [of qs "[]"] assms(1,3) by (simp_all add: cache_inv_def list_all_iff)
  then show ?thesis
    using SendCachedHandlerState_eq [OF _ _ assms(2)] by (simp add: cache_inv_def sm_wf_def replay_requests_def)
qed

theorem restart_replays_history_witness:
  "map_of (snd (cfor cache_request [(''raw'', ''time'', ''start'', JInt 1), (''raw'', ''time'', ''stop'', JNull)] [])) ''time'' =
     Some \<lparr>started = False, startParams = JInt 1, updateConnectionParams = JNull\<rparr>"
proof -
  let ?qs = "[(''raw'', ''time'', ''start'', JInt 1), (''raw'', ''time'', ''stop'', JNull)]"
  let ?st = "\<lparr>transport = Some (), rawHandlersStates = snd (cfor cache_request ?qs [])\<rparr>"
  have "list_all agent_request ?qs" by (simp add: c_str_def)
  from restart_replays_history [where st = ?st, OF this] show ?thesis by (simp add: HandlerState_new_def)
qed

lemma remember_connection:
  "list_all (\<lambda>(ty, j, m, p). m \<noteq> ''onConnectionStatusChanged'') qs \<Longrightarrow>
   (\<forall>h. e = Some h \<longrightarrow> updateConnectionParams h = JNull) \<Longrightarrow>
   foldl (remember i) e qs = Some h \<Longrightarrow> updateConnectionParams h = JNull"
proof (induction qs arbitrary: e)
  case (Cons q qs)
  obtain ty j m p where q: "q = (ty, j, m, p)" by (cases q)
  have "\<forall>h. remember i e q = Some h \<longrightarrow> updateConnectionParams h = JNull"
    using Cons.prems(1,2) by (cases e) (auto simp: q Let_def HandlerState_new_def)
  with Cons show ?case by simp
qed simp

text \<open>
  A handler that was created or started while no connection status had been sent is
  replayed with a null status, and the plug-in's stub refuses that request with
  \<open>DM_ERROR_INVALID_ARGUMENT\<close>.
\<close>

theorem unknown_connection_status_is_refused:
  assumes "list_all (\<lambda>(ty, j, m, p). m \<noteq> ''onConnectionStatusChanged'') qs"
    and "foldl (remember i) None qs = Some h"
    and "sm_wf (rawHandlers st)" and "map_of (rawHandlers st) i = Some d"
  shows "PluginStub_Invoke prs ops ''raw'' i ''onConnectionStatusChanged'' (updateConnectionParams h) st
    = (Inl (DMExc DeviceAgent DM_ERROR_INVALID_ARGUMENT ''Invalid input for HandleOnConnectionStatusChanged''), st)"
  using remember_connection [OF assms(1) _ assms(2)] null_connection_status [OF assms(3,4)] by simp

theorem unknown_connection_status_is_refused_witness:
  "\<exists>h. foldl (remember ''reboot'') None [(''raw'', ''reboot'', ''start'', JNull)] = Some h \<and>
     PluginStub_Invoke (\<lambda>t. Inr JNull) sample_ph_ops ''raw'' ''reboot'' ''onConnectionStatusChanged''
       (updateConnectionParams h) sample_stub
     = (Inl (DMExc DeviceAgent DM_ERROR_INVALID_ARGUMENT ''Invalid input for HandleOnConnectionStatusChanged''), sample_stub)"
proof -
  let ?h = "HandlerState_new\<lparr>started := True, startParams := JNull\<rparr>"
  have h: "foldl (remember ''reboot'') None [(''raw'', ''reboot'', ''start'', JNull)] = Some ?h" by simp
  have wf: "sm_wf (rawHandlers sample_stub)" by (simp add: sample_stub_def sm_wf_def)
  show ?thesis
    using unknown_connection_status_is_refused [OF _ h wf sample_stub_calls(1)] h by simp
qed

end
