(* ===== verification/Pipe_Calls.thy ===== *)
theory Pipe_Calls
  imports Out_Of_Proc Ipc_Pipe
begin

text \<open>
  A call of the agent on a plug-in in another process, all the way: the request is cut into
  packets and written to one named pipe, read, put together and processed by the plug-in's
  threads, and the response comes back over the other pipe in the same way
  (\<open>SendAndGetResponse\<close>, \<open>RunMessageMonitor\<close> and \<open>RunRequestMonitor\<close> of
  PluginNamedPipeBaseTransport.cpp).  One request is followed at a time, and a handler that calls
  the agent back while it serves the request is not; how the threads interleave requests and
  responses is \<open>Ipc_Dispatch\<close>.
\<close>

section \<open>One exchange over the two pipes\<close>

text \<open>The two pipes between agent and plug-in, and the state of the plug-in's process.\<close>

record ('p, 's) link =
  requestPipe :: 'p
  responsePipe :: 'p
  plugin :: 's

text \<open>
  The plug-in's threads on one request.  \<open>None\<close>: no response is ever written, because the pipe
  has ended, what was read is not a request, or the processing or the writing threw, which the
  monitor only logs.
\<close>

definition plugin_turn ::
    "'p read_file \<Rightarrow> 'p write_file \<Rightarrow> int \<Rightarrow> (Message \<Rightarrow> ('s, Message) cmd) \<Rightarrow> ('p, 's) link \<Rightarrow> ('p, 's) link option" where
  "plugin_turn ReadFile WriteFile gle process l =
     (case ReadMessage ReadFile (requestPipe l) of
        Some (Some requestMessage, p) \<Rightarrow>
          if messageType requestMessage \<noteq> Request then None
          else (case process requestMessage (plugin l) of
             (Inl e, s) \<Rightarrow> None
           | (Inr response, s) \<Rightarrow> (case WriteMessage WriteFile gle response (responsePipe l) of
               (Inl e, q) \<Rightarrow> None
             | (Inr u, q) \<Rightarrow> Some (l\<lparr>requestPipe := p, responsePipe := q, plugin := s\<rparr>)))
      | _ \<Rightarrow> None)"

text \<open>
  The agent's side.  A request that cannot be written throws; \<open>None\<close> is waiting for ever on a
  response that does not come.
\<close>

definition SendAndGetResponse ::
    "'p read_file \<Rightarrow> 'p write_file \<Rightarrow> int \<Rightarrow> (Message \<Rightarrow> ('s, Message) cmd) \<Rightarrow>
     Message \<Rightarrow> (('p, 's) link, Message) ocmd" where
  "SendAndGetResponse ReadFile WriteFile gle process msg l =
     (case WriteMessage WriteFile gle msg (requestPipe l) of
        (Inl e, p) \<Rightarrow> Some (Inl e, l\<lparr>requestPipe := p\<rparr>)
      | (Inr u, p) \<Rightarrow> (case plugin_turn ReadFile WriteFile gle process (l\<lparr>requestPipe := p\<rparr>) of
          None \<Rightarrow> None
        | Some l1 \<Rightarrow> (case ReadMessage ReadFile (responsePipe l1) of
            Some (Some response, q) \<Rightarrow>
              if messageType response = Response then Some (Inr response, l1\<lparr>responsePipe := q\<rparr>) else None
          | _ \<Rightarrow> None)))"

text \<open>
  The exchange as a call of the proxy; \<open>waiting\<close> stands for whatever would come after a wait
  that does not end.
\<close>

definition over_pipes ::
    "(('p, 's) link, Message) cmd \<Rightarrow> 'p read_file \<Rightarrow> 'p write_file \<Rightarrow> int \<Rightarrow> (Message \<Rightarrow> ('s, Message) cmd) \<Rightarrow>
     Message \<Rightarrow> (('p, 's) link, Message) cmd" where
  "over_pipes waiting ReadFile WriteFile gle process msg l =
     (case SendAndGetResponse ReadFile WriteFile gle process msg l of None \<Rightarrow> waiting l | Some x \<Rightarrow> x)"

section \<open>The exchange is the processing of the message\<close>

lemma write_then_read:
  assumes pipe: "message_pipe R W contents" and "Message_wf m" and "contents p = []"
  obtains p1 p2 where "WriteMessage W gle m p = (Inr (), p1)" "ReadMessage R p1 = Some (Some m, p2)" "contents p2 = []"
proof -
  obtain p1 where w: "WriteMessage W gle m p = (Inr (), p1)"
    "contents p1 = contents p @ map packet_bytes (MessageToPackets m)"
    using WriteMessage_contents [OF assms(1,2)] by blast
  with assms(3) have "contents p1 = map packet_bytes (MessageToPackets m) @ []" by simp
  from ReadMessage_packets [OF pipe assms(2) this] w(1) that show ?thesis by blast
qed

lemma over_pipes_answers:
  assumes pipe: "message_pipe R W contents" and "contents (requestPipe l) = []" "contents (responsePipe l) = []"
    and "Message_wf m" "messageType m = Request" "process m (plugin l) = (Inr response, s')"
    and "Message_wf response" "messageType response = Response"
  obtains l' where "over_pipes waiting R W gle process m l = (Inr response, l')" "plugin l' = s'"
    "contents (requestPipe l') = []" "contents (responsePipe l') = []"
proof -
  obtain p1 p2 where p: "WriteMessage W gle m (requestPipe l) = (Inr (), p1)" "ReadMessage R p1 = Some (Some m, p2)"
    "contents p2 = []" by (rule write_then_read [OF pipe assms(4,2)])
  obtain q1 q2 where q: "WriteMessage W gle response (responsePipe l) = (Inr (), q1)"
    "ReadMessage R q1 = Some (Some response, q2)" "contents q2 = []" by (rule write_then_read [OF pipe assms(7,3)])
  have "over_pipes waiting R W gle process m l =
      (Inr response, l\<lparr>requestPipe := p2, responsePipe := q2, plugin := s'\<rparr>)"
    using p q assms(5,6,8) by (simp add: over_pipes_def SendAndGetResponse_def plugin_turn_def)
  then show ?thesis by (rule that) (simp_all add: p(3) q(3))
qed

text \<open>What the proxy makes of a response does not depend on where it came from.\<close>

lemma transport_invoke_response:
  assumes "send (invoke_message (BuildRequest sty ty i m p)) s = (Inr response, s1)"
    and "send' (invoke_message (BuildRequest sty ty i m p)) l = (Inr response, l1)"
    and "transport_invoke sty prs send ty i m p s = (r, s')"
  shows "transport_invoke sty prs send' ty i m p l = (r, l1)"
  using assms by (auto simp: transport_invoke_def cmd_simps split: if_splits option.splits)

definition invoke_response :: "(json \<Rightarrow> string) \<Rightarrow> json res \<Rightarrow> Message" where
  "invoke_response sty r =
     z_data (sty (response_of r)) (response_message\<lparr>errorCode := dword DM_ERROR_SUCCESS\<rparr>)"

lemma plugin_response:
  assumes "oop_ok sty prs ty i m p r" and "serve ty i m p s = (r, s')"
  shows "Plugin_ProcessRequestMessage pcreate (exported_invoke sty prs serve) pclose
      (invoke_message (BuildRequest sty ty i m p)) s = (Inr (invoke_response sty r), s')"
proof -
  have ok: "carried sty prs (request_json ty i m p)" "portable r"
    using assms(1) by (simp_all add: oop_ok_def envelope_ok_def)
  have "serve_text sty prs serve (c_str (BuildRequest sty ty i m p)) s = (Inr (sty (response_of r)), s')"
    using ok(2) assms(2) by (cases r rule: portable.cases) (simp_all add: serve_text_ok [OF ok(1)])
  then show ?thesis
    by (simp add: Plugin_ProcessRequestMessage_def invoke_message_def payload_ptr_def SetData_def
      exported_invoke_def invoke_response_def response_message_def c_str_NUL cbind_def cret_def)
qed

lemma invoke_messages_wf:
  "length (BuildRequest sty ty i m p) < 2 ^ 62 \<Longrightarrow> Message_wf (invoke_message (BuildRequest sty ty i m p))"
  "length (sty (response_of r)) < 2 ^ 62 \<Longrightarrow> Message_wf (invoke_response sty r)"
proof -
  have le: "length (c_str t) \<le> length t" for t by (simp add: c_str_def length_takeWhile_le)
  show "Message_wf (invoke_message (BuildRequest sty ty i m p))" if "length (BuildRequest sty ty i m p) < 2 ^ 62"
    using that dword_bound [of DM_ERROR_SUCCESS] by (simp add: Message_wf_def invoke_message_def SetData_def)
  show "Message_wf (invoke_response sty r)" if "length (sty (response_of r)) < 2 ^ 62"
    using that le [of "sty (response_of r)"] dword_bound [of DM_ERROR_SUCCESS]
    by (simp add: Message_wf_def invoke_response_def z_data_def SetData_def response_message_def)
qed

section \<open>Properties\<close>

text \<open>
  C10: a call to a plug-in in another process, whose request and response travel in packets over
  two message-mode pipes, returns, with the outcome of the call itself, and leaves the plug-in in
  the state that call leaves and both pipes empty; and the proxy's memory of every handler
  advances by exactly this request: the creation, a start with its parameters, a stop, or the
  connection status, and nothing else.
\<close>

theorem out_of_proc_call:
  assumes "message_pipe R W contents" and "transport st = Some l"
    and "contents (requestPipe l) = []" and "contents (responsePipe l) = []"
    and "agent_request (ty, i, m, p)" and "serve ty i m p (plugin l) = (r, s')" and "oop_ok sty prs ty i m p r"
    and "length (BuildRequest sty ty i m p) < 2 ^ 62" and "length (sty (response_of r)) < 2 ^ 62"
  shows "\<exists>l' c. OutOfProc_Invoke sty prs (over_pipes waiting R W gle
        (Plugin_ProcessRequestMessage pcreate (exported_invoke sty prs serve) pclose)) ty i m p st =
      (r, st\<lparr>transport := Some l', rawHandlersStates := c\<rparr>) \<and>
    plugin l' = s' \<and> contents (requestPipe l') = [] \<and> contents (responsePipe l') = [] \<and>
    (\<forall>k. map_of c k = remember k (map_of (rawHandlersStates st) k) (ty, i, m, p))"
proof -
  let ?process = "Plugin_ProcessRequestMessage pcreate (exported_invoke sty prs serve) pclose"
  let ?msg = "invoke_message (BuildRequest sty ty i m p)"
  obtain c where c: "CacheHandlerState ty i m p (rawHandlersStates st) = (Inr (), c)"
    and k: "\<forall>k. map_of c k = remember k (map_of (rawHandlersStates st) k) (ty, i, m, p)"
    using cache_request_step [OF assms(5), of "rawHandlersStates st"]
    by (cases "CacheHandlerState ty i m p (rawHandlersStates st)") (auto simp: cache_request_def)
  have types: "messageType ?msg = Request" "messageType (invoke_response sty r) = Response"
    by (simp_all add: invoke_message_def SetData_def invoke_response_def z_data_def response_message_def)
  note answer = plugin_response [OF assms(7), of serve "plugin l" s' pcreate pclose, OF assms(6)]
  obtain l' where l': "over_pipes waiting R W gle ?process ?msg l = (Inr (invoke_response sty r), l')"
    "plugin l' = s'" "contents (requestPipe l') = []" "contents (responsePipe l') = []"
    by (rule over_pipes_answers [where process = ?process and m = ?msg and response = "invoke_response sty r", OF assms(1,3,4) invoke_messages_wf(1) [where sty = sty, OF assms(8)] types(1) answer
        invoke_messages_wf(2) [where sty = sty and r = r, OF assms(9)] types(2)])
  have "transport_invoke sty prs (over_pipes waiting R W gle ?process) ty i m p l = (r, l')"
    by (rule transport_invoke_response [where send = ?process and sty = sty and ty = ty and i = i and m = m and p = p and s = "plugin l" and s' = s' and send' = "over_pipes waiting R W gle ?process", OF answer l'(1)])
      (rule transport_invoke_eq [where serve = serve, OF assms(7,6)])
  from OutOfProc_Invoke_eq [OF assms(2) c this] k l'(2-4) show ?thesis by blast
qed

theorem out_of_proc_call_witness:
  "\<exists>sty prs l' c. OutOfProc_Invoke sty prs (over_pipes (cthrow Terminate) list_read list_write 0
      (Plugin_ProcessRequestMessage (cret 0) (exported_invoke sty prs (\<lambda>ty i m p n. (Inr (JInt 1), Suc n))) (cret ())))
      ''raw'' ''time'' ''start'' JNull
      \<lparr>transport = Some \<lparr>requestPipe = [], responsePipe = [], plugin = 0\<rparr>, rawHandlersStates = []\<rparr>
     = (Inr (JInt 1), \<lparr>transport = Some l', rawHandlersStates = c\<rparr>) \<and> plugin l' = 1 \<and>
     map_of c ''time'' = Some \<lparr>started = True, startParams = JNull, updateConnectionParams = JNull\<rparr>"
proof -
  let ?a = "request_json ''raw'' ''time'' ''start'' JNull" and ?r = "Inr (JInt 1) :: json res"
  let ?sty = "sample_sty ?a" and ?prs = "sample_prs ?a (response_of ?r)"
  let ?l = "\<lparr>requestPipe = [], responsePipe = [], plugin = 0\<rparr> :: (string list, nat) link"
  let ?st = "\<lparr>transport = Some ?l, rawHandlersStates = []\<rparr>"
  have ok: "oop_ok ?sty ?prs ''raw'' ''time'' ''start'' JNull ?r"
    by (simp add: oop_ok_def envelope_ok_def carried_sample) (simp add: sample_sty_def c_str_def)
  have req: "agent_request (''raw'', ''time'', ''start'', JNull)" by (simp add: c_str_def)
  have short: "length (BuildRequest ?sty ''raw'' ''time'' ''start'' JNull) < 2 ^ 62"
    "length (?sty (response_of ?r)) < 2 ^ 62"
    by (simp_all add: BuildRequest_def sample_sty_def)
  have st: "transport ?st = Some ?l" and pipes: "requestPipe ?l = []" "responsePipe ?l = []" by simp_all
  obtain l' c where call: "OutOfProc_Invoke ?sty ?prs (over_pipes (cthrow Terminate) list_read list_write 0
      (Plugin_ProcessRequestMessage (cret 0) (exported_invoke ?sty ?prs
        (\<lambda>ty i m p n. (?r, Suc n))) (cret ()))) ''raw'' ''time'' ''start'' JNull ?st
      = (?r, ?st\<lparr>transport := Some l', rawHandlersStates := c\<rparr>)" "plugin l' = Suc (plugin ?l)"
    and c: "\<forall>k. map_of c k = remember k (map_of (rawHandlersStates ?st) k) (''raw'', ''time'', ''start'', JNull)"
    using out_of_proc_call [where serve = "\<lambda>ty i m p n. (?r, Suc n)" and pcreate = "cret 0" and pclose = "cret ()"
        and waiting = "cthrow Terminate" and gle = 0, OF list_message_pipe st pipes req refl ok short] by blast
  have "map_of c ''time'' = Some \<lparr>started = True, startParams = JNull, updateConnectionParams = JNull\<rparr>"
    using c by (simp add: HandlerState_new_def Let_def)
  with call show ?thesis by (intro exI [of _ ?sty] exI [of _ ?prs] exI [of _ l'] exI [of _ c]) simp
qed

text \<open>
  A request whose first packet the pipe does not take is answered by the error of Windows, with
  the plug-in untouched and the request already remembered; it will be replayed to the next
  process of the plug-in.
\<close>

theorem broken_pipe_is_reported:
  assumes "transport st = Some l" and "CacheHandlerState ty i m p (rawHandlersStates st) = (Inr (), c)"
    and "\<And>bs. W bs (requestPipe l) = (False, written, requestPipe l)"
  shows "OutOfProc_Invoke sty prs (over_pipes waiting R W gle process) ty i m p st =
    (Inl (DMExc Windows gle ''WriteFile to named pipe failed''), st\<lparr>rawHandlersStates := c\<rparr>)"
proof -
  let ?msg = "invoke_message (BuildRequest sty ty i m p)"
  have "MessageToPackets ?msg \<noteq> []"
    unfolding MessageToPackets_def Let_def by (subst packet_loop.simps) (simp add: Let_def)
  then obtain q qs where "MessageToPackets ?msg = q # qs" by (cases "MessageToPackets ?msg") auto
  then have "WriteMessage W gle ?msg (requestPipe l) =
      (Inl (DMExc Windows gle ''WriteFile to named pipe failed''), requestPipe l)"
    using assms(3) by (simp add: WriteMessage_def write_packet_def cmd_simps)
  then have "transport_invoke sty prs (over_pipes waiting R W gle process) ty i m p l =
      (Inl (DMExc Windows gle ''WriteFile to named pipe failed''), l)"
    by (simp add: transport_invoke_def over_pipes_def SendAndGetResponse_def cbind_def)
  from OutOfProc_Invoke_eq [OF assms(1,2) this] show ?thesis using assms(1) by simp
qed

end
