(* ===== verification/Service_Control.thy ===== *)
theory Service_Control
  imports Service_Params "HOL-Library.Word"
begin

text \<open>
  The Windows service around the agent: \<open>ServiceManager\<close> (device-agent/agent/ServiceManager.cpp),
  which starts, stops and waits for services, and \<open>DMService\<close> (DMService.cpp), the agent's
  own status machine and the loop that runs the client and constructs it again when it
  fails.  The service control manager is a record of calls on a state.
\<close>

section \<open>ServiceManager\<close>

datatype service_state = SERVICE_STOPPED | SERVICE_START_PENDING | SERVICE_STOP_PENDING | SERVICE_RUNNING
  | SERVICE_CONTINUE_PENDING | SERVICE_PAUSE_PENDING | SERVICE_PAUSED

text \<open>
  The calls of the operating system: each answers success, or a value on success.
  \<open>QueryServiceConfig\<close> is given the size of its buffer and answers success, the size needed
  and the start type.
\<close>

record 's scm_api =
  os_OpenSCManager :: "'s \<Rightarrow> bool \<times> 's"
  os_OpenService :: "string \<Rightarrow> 's \<Rightarrow> bool \<times> 's"
  os_QueryServiceStatus :: "string \<Rightarrow> 's \<Rightarrow> service_state option \<times> 's"
  os_QueryServiceConfig :: "string \<Rightarrow> nat \<Rightarrow> 's \<Rightarrow> (bool \<times> nat \<times> int) \<times> 's"
  os_StartService :: "string \<Rightarrow> 's \<Rightarrow> bool \<times> 's"
  os_ControlStop :: "string \<Rightarrow> 's \<Rightarrow> bool \<times> 's"
  os_ChangeServiceConfig :: "string \<Rightarrow> int \<Rightarrow> 's \<Rightarrow> bool \<times> 's"
  os_CreateService :: "string \<Rightarrow> 's \<Rightarrow> bool \<times> 's"
  os_DeleteService :: "string \<Rightarrow> 's \<Rightarrow> bool \<times> 's"
  os_GetLastError :: "'s \<Rightarrow> int"
  os_Sleep :: "nat \<Rightarrow> 's \<Rightarrow> 's"

text \<open>\<open>if (!call) throw DMException(DMSubsystem::Windows, GetLastError(), message)\<close>.\<close>

definition os_try :: "'s scm_api \<Rightarrow> string \<Rightarrow> ('s \<Rightarrow> bool \<times> 's) \<Rightarrow> ('s, unit) cmd" where
  "os_try api message call s =
     (case call s of (ok, s') \<Rightarrow>
       (if ok then Inr () else Inl (DMExc Windows (os_GetLastError api s') message), s'))"

definition open_service :: "'s scm_api \<Rightarrow> string \<Rightarrow> ('s, unit) cmd" where
  "open_service api serviceName =
     cseq (os_try api ''OpenSCManager() failed.'' (os_OpenSCManager api))
       (os_try api ''OpenService() failed.'' (os_OpenService api serviceName))"

definition query_status :: "'s scm_api \<Rightarrow> string \<Rightarrow> ('s, service_state) cmd" where
  "query_status api serviceName s =
     (case os_QueryServiceStatus api serviceName s of
        (None, s') \<Rightarrow> (Inl (DMExc Windows (os_GetLastError api s') ''QueryServiceStatus() failed.''), s')
      | (Some st, s') \<Rightarrow> (Inr st, s'))"

definition GetStatus :: "'s scm_api \<Rightarrow> string \<Rightarrow> ('s, service_state) cmd" where
  "GetStatus api serviceName = cseq (open_service api serviceName) (query_status api serviceName)"

text \<open>\<open>maxWaitInSeconds\<close> is decremented by the test of the loop and again at the end of its body.\<close>

partial_function (option) WaitStatus ::
    "'s scm_api \<Rightarrow> string \<Rightarrow> service_state \<Rightarrow> 32 word \<Rightarrow> 's \<Rightarrow> (unit res \<times> 's) option" where
  "WaitStatus api serviceName status maxWaitInSeconds s =
     (if maxWaitInSeconds = 0 then Some (Inr (), s)
      else (case GetStatus api serviceName s of (r, s1) \<Rightarrow>
        (case r of
           Inl e \<Rightarrow> Some (Inl e, s1)
         | Inr st \<Rightarrow>
             if status = st then Some (Inr (), s1)
             else WaitStatus api serviceName status (maxWaitInSeconds - 1 - 1) (os_Sleep api 1000 s1))))"

definition GetStartType :: "'s scm_api \<Rightarrow> string \<Rightarrow> ('s, int) cmd" where
  "GetStartType api serviceName =
     cseq (open_service api serviceName) (\<lambda>s.
       case os_QueryServiceConfig api serviceName 0 s of ((ok, bytesNeeded, _), s1) \<Rightarrow>
       if \<not> ok \<and> os_GetLastError api s1 \<noteq> 122
       then (Inl (DMExc Windows (os_GetLastError api s1) ''QueryServiceConfig() failed.''), s1)
       else (case os_QueryServiceConfig api serviceName bytesNeeded s1 of ((ok, _, startType), s2) \<Rightarrow>
         if \<not> ok then (Inl (DMExc Windows (os_GetLastError api s2) ''QueryServiceConfig() failed.''), s2)
         else (Inr startType, s2)))"

definition StartStop :: "'s scm_api \<Rightarrow> string \<Rightarrow> bool \<Rightarrow> ('s, unit) cmd" where
  "StartStop api serviceName start =
     cseq (open_service api serviceName) (
     cbind (query_status api serviceName) (\<lambda>st.
       if start
       then (if st = SERVICE_RUNNING then cret ()
             else os_try api ''StartService() failed.'' (os_StartService api serviceName))
       else (if st \<noteq> SERVICE_RUNNING then cret ()
             else os_try api ''ControlService() failed.'' (os_ControlStop api serviceName))))"

definition ServiceManager_Start :: "'s scm_api \<Rightarrow> string \<Rightarrow> ('s, unit) cmd" where
  "ServiceManager_Start api serviceName = StartStop api serviceName True"

definition ServiceManager_Stop :: "'s scm_api \<Rightarrow> string \<Rightarrow> ('s, unit) cmd" where
  "ServiceManager_Stop api serviceName = StartStop api serviceName False"

definition SetStartType :: "'s scm_api \<Rightarrow> string \<Rightarrow> int \<Rightarrow> ('s, unit) cmd" where
  "SetStartType api serviceName startType =
     cseq (open_service api serviceName)
       (os_try api ''ChangeServiceConfig() to change service to auto start.''
          (os_ChangeServiceConfig api serviceName startType))"

subsection \<open>Waiting\<close>

text \<open>The abstract wait: ask at most \<open>n\<close> times, a second apart.\<close>

fun poll :: "'s scm_api \<Rightarrow> string \<Rightarrow> service_state \<Rightarrow> nat \<Rightarrow> 's \<Rightarrow> unit res \<times> 's" where
  "poll api serviceName status 0 s = (Inr (), s)"
| "poll api serviceName status (Suc n) s =
     (case GetStatus api serviceName s of (r, s1) \<Rightarrow>
       (case r of
          Inl e \<Rightarrow> (Inl e, s1)
        | Inr st \<Rightarrow> if status = st then (Inr (), s1) else poll api serviceName status n (os_Sleep api 1000 s1)))"

lemma even_wait_step:
  assumes "Suc n < 2 ^ 31"
  shows "(of_nat (2 * Suc n) :: 32 word) \<noteq> 0" and "(of_nat (2 * Suc n) :: 32 word) - 1 - 1 = of_nat (2 * n)"
proof -
  have "unat (of_nat (2 * Suc n) :: 32 word) = 2 * Suc n"
    using assms by (simp add: unsigned_of_nat take_bit_nat_eq_self del: of_nat_mult of_nat_Suc)
  then show "(of_nat (2 * Suc n) :: 32 word) \<noteq> 0" by (metis unat_0 nat.simps(3) mult_is_0 numeral_2_eq_2)
  show "(of_nat (2 * Suc n) :: 32 word) - 1 - 1 = of_nat (2 * n)" by (simp add: algebra_simps)
qed

lemma WaitStatus_even:
  "n < 2 ^ 31 \<Longrightarrow> WaitStatus api serviceName status (of_nat (2 * n)) s = Some (poll api serviceName status n s)"
proof (induction n arbitrary: s)
  case 0
  then show ?case by (simp add: WaitStatus.simps)
next
  case (Suc n)
  then have n: "n < 2 ^ 31" by simp
  show ?case
    by (subst WaitStatus.simps)
      (simp only: even_wait_step [OF Suc.prems] Suc.IH [OF n] if_False poll.simps split: prod.split sum.split, simp)
qed

lemma odd_wait_step: "odd (m :: 32 word) \<Longrightarrow> m \<noteq> 0 \<and> odd (m - 1 - 1)"
  by auto

lemma WaitStatus_Some_not_odd:
  "WaitStatus api serviceName status m s = Some y \<Longrightarrow>
     odd m \<longrightarrow> (\<exists>s. \<forall>st s'. GetStatus api serviceName s = (Inr st, s') \<longrightarrow> st = status)"
proof (rule WaitStatus.raw_induct [where P = "\<lambda>api serviceName status m s y. odd m \<longrightarrow>
    (\<exists>s. \<forall>st s'. GetStatus api serviceName s = (Inr st, s') \<longrightarrow> st = status)"])
  fix WS :: "'a scm_api \<Rightarrow> string \<Rightarrow> service_state \<Rightarrow> 32 word \<Rightarrow> 'a \<Rightarrow> (unit res \<times> 'a) option"
    and api :: "'a scm_api" and serviceName status and m :: "32 word" and s y
  let ?answers = "\<exists>s. \<forall>st s'. GetStatus api serviceName s = (Inr st, s') \<longrightarrow> st = status"
  assume IH: "\<And>api serviceName status m s y. WS api serviceName status m s = Some y \<Longrightarrow>
      odd m \<longrightarrow> (\<exists>s. \<forall>st s'. GetStatus api serviceName s = (Inr st, s') \<longrightarrow> st = status)"
    and body: "(if m = 0 then Some (Inr (), s)
      else case GetStatus api serviceName s of (r, s1) \<Rightarrow>
        (case r of Inl e \<Rightarrow> Some (Inl e, s1)
         | Inr st \<Rightarrow> if status = st then Some (Inr (), s1)
                    else WS api serviceName status (m - 1 - 1) (os_Sleep api 1000 s1))) = Some y"
  show "odd m \<longrightarrow> ?answers"
  proof (rule impI, rule ccontr)
    assume odd: "odd m" and never: "\<not> ?answers"
    obtain st s1 where st: "GetStatus api serviceName s = (Inr st, s1)" "status \<noteq> st" using never by metis
    have "WS api serviceName status (m - 1 - 1) (os_Sleep api 1000 s1) = Some y"
      using body odd_wait_step [OF odd] st by simp
    from IH [OF this] odd_wait_step [OF odd] never show False by blast
  qed
qed

lemma WaitStatus_odd:
  assumes "\<And>s. \<exists>st s'. GetStatus api serviceName s = (Inr st, s') \<and> st \<noteq> status" and "odd m"
  shows "WaitStatus api serviceName status m s = None"
proof (rule ccontr)
  assume "WaitStatus api serviceName status m s \<noteq> None"
  then obtain y where "WaitStatus api serviceName status m s = Some y" by auto
  from WaitStatus_Some_not_odd [OF this] assms show False by metis
qed

lemma even_unat_iff: "even (unat (m :: 32 word)) \<longleftrightarrow> even m"
  by transfer (simp add: even_take_bit_eq even_nat_iff)

lemma even_word_of_nat:
  assumes "even (m :: 32 word)"
  shows "m = of_nat (2 * (unat m div 2))" and "unat m div 2 < 2 ^ 31"
proof -
  have "even (unat m)" using assms by (simp add: even_unat_iff)
  then have "2 * (unat m div 2) = unat m" by simp
  then show "m = of_nat (2 * (unat m div 2))" by simp
  have "unat m < 2 ^ 32" using unsigned_less [of m] by simp
  then show "unat m div 2 < 2 ^ 31" by simp
qed

text \<open>
  A wait of an even number of seconds asks for the status at most half that many times (the
  counter is decremented twice a round), so it ends; a wait of an odd number of seconds never
  meets the zero it tests for, and does not return while the status is another one.\<close>

theorem WaitStatus_rounds:
  "(even m \<longrightarrow> WaitStatus api serviceName status m s = Some (poll api serviceName status (unat m div 2) s)) \<and>
   (odd m \<and> (\<forall>s. \<exists>st s'. GetStatus api serviceName s = (Inr st, s') \<and> st \<noteq> status) \<longrightarrow>
     WaitStatus api serviceName status m s = None)"
proof (rule conjI)
  show "even m \<longrightarrow> WaitStatus api serviceName status m s = Some (poll api serviceName status (unat m div 2) s)"
    using WaitStatus_even [OF even_word_of_nat(2), of m api serviceName status s] even_word_of_nat(1) [of m] by metis
  show "odd m \<and> (\<forall>s. \<exists>st s'. GetStatus api serviceName s = (Inr st, s') \<and> st \<noteq> status) \<longrightarrow>
      WaitStatus api serviceName status m s = None"
    by (intro impI WaitStatus_odd) auto
qed

text \<open>A service control manager whose one service stays stopped; the state counts its calls.\<close>

definition idle_scm :: "nat scm_api" where
  "idle_scm =
     \<lparr>os_OpenSCManager = \<lambda>s. (True, s), os_OpenService = \<lambda>_ s. (True, s),
      os_QueryServiceStatus = \<lambda>_ s. (Some SERVICE_STOPPED, Suc s),
      os_QueryServiceConfig = \<lambda>_ _ s. ((True, 0, 2), s), os_StartService = \<lambda>_ s. (True, s),
      os_ControlStop = \<lambda>_ s. (True, s), os_ChangeServiceConfig = \<lambda>_ _ s. (True, s),
      os_CreateService = \<lambda>_ s. (True, s), os_DeleteService = \<lambda>_ s. (True, s), os_GetLastError = \<lambda>_. 0, os_Sleep = \<lambda>_ s. s\<rparr>"

lemma idle_scm_GetStatus: "GetStatus idle_scm nm s = (Inr SERVICE_STOPPED, Suc s)"
  by (simp add: GetStatus_def open_service_def os_try_def query_status_def idle_scm_def cmd_simps)

theorem WaitStatus_rounds_witness:
  "WaitStatus idle_scm ''w32time'' SERVICE_RUNNING 1 0 = None"
  using WaitStatus_rounds [of 1 idle_scm "''w32time''" SERVICE_RUNNING 0]
  by (simp add: idle_scm_GetStatus)

section \<open>DMService\<close>

text \<open>
  \<open>SERVICE_STATUS\<close> without the fields that are never written again.  \<open>checkPoint\<close> is the static
  counter of \<open>SetServiceStatus\<close>; \<open>reported\<close> lists what was handed to the service control
  manager, which refuses the \<open>n\<close>-th report when \<open>scmAccepts n\<close> is false.  \<open>stopEvent\<close> is \<open>None\<close>
  until the worker creates the event, then says whether it is set.
\<close>

record SERVICE_STATUS =
  dwCurrentState :: service_state
  dwWin32ExitCode :: int
  dwCheckPoint :: "32 word"
  dwWaitHint :: int

record DMService =
  svcStatus :: SERVICE_STATUS
  checkPoint :: "32 word"
  reported :: "SERVICE_STATUS list"
  scmAccepts :: "nat \<Rightarrow> bool"
  lastErrorCode :: nat
  eventSourceOpens :: bool
  eventLog :: "string list"
  threadStarts :: bool
  workerStarted :: bool
  eventCreated :: bool
  stopEvent :: "bool option"

definition WriteErrorLogEntry :: "string \<Rightarrow> 'x DMService_scheme \<Rightarrow> 'x DMService_scheme" where
  "WriteErrorLogEntry text svc =
     (if eventSourceOpens svc
      then svc\<lparr>eventLog := eventLog svc @ [text @ '' failed w/err '' @ string_of_nat (lastErrorCode svc)]\<rparr>
      else svc)"

definition SetServiceStatus :: "service_state \<Rightarrow> ('x DMService_scheme, unit) cmd" where
  "SetServiceStatus currentState =
     cmod (\<lambda>svc.
       let final = currentState = SERVICE_RUNNING \<or> currentState = SERVICE_STOPPED;
           st = (svcStatus svc)\<lparr>dwCurrentState := currentState, dwWin32ExitCode := 0, dwWaitHint := 0,
                  dwCheckPoint := (if final then 0 else checkPoint svc)\<rparr>;
           svc1 = svc\<lparr>svcStatus := st, checkPoint := (if final then checkPoint svc else checkPoint svc + 1),
                      reported := reported svc @ [st]\<rparr>
       in if scmAccepts svc (length (reported svc)) then svc1
          else WriteErrorLogEntry ''Error: Could not set service status. Error Code '' svc1)"

definition EnsureReported :: "('s, unit) cmd \<Rightarrow> ('s, unit) cmd" where
  "EnsureReported Action = ccatch Action (\<lambda>e. cret ())"

definition OnStart :: "('x DMService_scheme, unit) cmd" where
  "OnStart = (\<lambda>svc. if threadStarts svc then (Inr (), svc\<lparr>workerStarted := True\<rparr>)
                    else (Inl (StdException ''resource unavailable try again''), svc))"

text \<open>\<open>SetEvent\<close> of the null handle fails, which \<open>OnStop\<close> does not look at.\<close>

definition OnStop :: "('x DMService_scheme, unit) cmd" where
  "OnStop = cmod (stopEvent_update (map_option (\<lambda>_. True)))"

definition Start :: "('x DMService_scheme, unit) cmd" where
  "Start = EnsureReported (cseq (SetServiceStatus SERVICE_START_PENDING)
     (cseq OnStart (SetServiceStatus SERVICE_RUNNING)))"

definition Stop :: "('x DMService_scheme, unit) cmd" where
  "Stop = EnsureReported (cseq (SetServiceStatus SERVICE_STOP_PENDING)
     (cseq OnStop (SetServiceStatus SERVICE_STOPPED)))"

definition Pause :: "('x DMService_scheme, unit) cmd" where
  "Pause = EnsureReported (cseq (SetServiceStatus SERVICE_PAUSE_PENDING) (SetServiceStatus SERVICE_PAUSED))"

definition Continue :: "('x DMService_scheme, unit) cmd" where
  "Continue = EnsureReported (cseq (SetServiceStatus SERVICE_CONTINUE_PENDING) (SetServiceStatus SERVICE_RUNNING))"

definition Shutdown :: "('x DMService_scheme, unit) cmd" where
  "Shutdown = EnsureReported (SetServiceStatus SERVICE_STOPPED)"

datatype service_control = SERVICE_CONTROL_STOP | SERVICE_CONTROL_PAUSE | SERVICE_CONTROL_CONTINUE
  | SERVICE_CONTROL_SHUTDOWN | SERVICE_CONTROL_INTERROGATE | OTHER_CONTROL

fun ServiceCtrlHandler :: "service_control \<Rightarrow> ('x DMService_scheme, unit) cmd" where
  "ServiceCtrlHandler SERVICE_CONTROL_STOP = Stop"
| "ServiceCtrlHandler SERVICE_CONTROL_PAUSE = Pause"
| "ServiceCtrlHandler SERVICE_CONTROL_CONTINUE = Continue"
| "ServiceCtrlHandler SERVICE_CONTROL_SHUTDOWN = Shutdown"
| "ServiceCtrlHandler SERVICE_CONTROL_INTERROGATE = cret ()"
| "ServiceCtrlHandler OTHER_CONTROL = cret ()"

text \<open>
  The worker.  \<open>run\<close>, \<open>None\<close> when it does not return, is \<open>AzureDMClient::Create()->Run(...)\<close> with the destruction of the client,
  \<open>load\<close> is \<open>ServiceParameters::Load\<close>.  An exception that leaves the thread's function
  terminates the process.
\<close>

partial_function (option) RunClient_loop ::
    "('s, unit) ocmd \<Rightarrow> ('s, unit) cmd \<Rightarrow> (nat \<Rightarrow> 's \<Rightarrow> 's) \<Rightarrow> 's \<Rightarrow> (unit res \<times> 's) option" where
  "RunClient_loop run load sleep s =
     (case run s of
        None \<Rightarrow> None
      | Some rs \<Rightarrow>
          (case ccatch (cseq (\<lambda>_. rs) (cret False)) (\<lambda>e. cret True) s of (r, s1) \<Rightarrow>
            (case r of
               Inl e \<Rightarrow> Some (Inl e, s1)
             | Inr failureOccured \<Rightarrow>
                 if \<not> failureOccured then Some (Inr (), s1)
                 else (case load (sleep (60 * 1000) s1) of (l, s2) \<Rightarrow>
                   (case l of Inl e \<Rightarrow> Some (Inl e, s2) | Inr _ \<Rightarrow> RunClient_loop run load sleep s2)))))"

definition RunClient ::
    "('x DMService_scheme, unit) ocmd \<Rightarrow> ('x DMService_scheme, unit) cmd \<Rightarrow>
     (nat \<Rightarrow> 'x DMService_scheme \<Rightarrow> 'x DMService_scheme) \<Rightarrow>
     'x DMService_scheme \<Rightarrow> (unit res \<times> 'x DMService_scheme) option" where
  "RunClient run load sleep svc =
     (if eventCreated svc then RunClient_loop run load sleep (svc\<lparr>stopEvent := Some False\<rparr>)
      else Some (Inr (), svc\<lparr>stopEvent := None\<rparr>))"

definition ServiceWorkerThread ::
    "('x DMService_scheme, unit) ocmd \<Rightarrow> ('x DMService_scheme, unit) cmd \<Rightarrow>
     (nat \<Rightarrow> 'x DMService_scheme \<Rightarrow> 'x DMService_scheme) \<Rightarrow>
     'x DMService_scheme \<Rightarrow> (unit res \<times> 'x DMService_scheme) option" where
  "ServiceWorkerThread run load sleep svc =
     map_option (\<lambda>(r, s). (case r of Inl e \<Rightarrow> Inl Terminate | Inr u \<Rightarrow> Inr u, s)) (RunClient run load sleep svc)"

definition DMService_new :: "(nat \<Rightarrow> bool) \<Rightarrow> bool \<Rightarrow> bool \<Rightarrow> bool \<Rightarrow> DMService" where
  "DMService_new accepts sourceOpens starts creates =
     \<lparr>svcStatus = \<lparr>dwCurrentState = SERVICE_START_PENDING, dwWin32ExitCode = 0, dwCheckPoint = 0, dwWaitHint = 0\<rparr>,
      checkPoint = 1, reported = [], scmAccepts = accepts, lastErrorCode = 0, eventSourceOpens = sourceOpens,
      eventLog = [], threadStarts = starts, workerStarted = False, eventCreated = creates, stopEvent = None\<rparr>"

text \<open>The service's entry point: \<open>registered\<close> says whether the control handler could be registered.\<close>

definition ServiceMain :: "bool \<Rightarrow> ('x DMService_scheme, unit) cmd" where
  "ServiceMain registered =
     (if registered then Start
      else (\<lambda>svc. (Inl (DMExc Windows (int (lastErrorCode svc)) ''Failed to register service control handler''), svc)))"

subsection \<open>Installing and removing the service\<close>

definition Install :: "'s scm_api \<Rightarrow> bool \<Rightarrow> string \<Rightarrow> 's \<Rightarrow> 's" where
  "Install api haveModuleName serviceName s =
     (if \<not> haveModuleName then s
      else (case os_OpenSCManager api s of (opened, s1) \<Rightarrow>
        if \<not> opened then s1 else snd (os_CreateService api serviceName s1)))"

text \<open>The wait of \<open>Uninstall\<close> has no limit: it asks as long as the stop is pending.\<close>

partial_function (option) wait_stop_pending :: "'s scm_api \<Rightarrow> string \<Rightarrow> 's \<Rightarrow> 's option" where
  "wait_stop_pending api serviceName s =
     (case os_QueryServiceStatus api serviceName s of (st, s1) \<Rightarrow>
        if st = Some SERVICE_STOP_PENDING
        then wait_stop_pending api serviceName (os_Sleep api 1000 s1) else Some s1)"

definition Uninstall :: "'s scm_api \<Rightarrow> string \<Rightarrow> 's \<Rightarrow> 's option" where
  "Uninstall api serviceName s =
     (case os_OpenSCManager api s of (connected, s1) \<Rightarrow>
       if \<not> connected then Some s1
       else (case os_OpenService api serviceName s1 of (opened, s2) \<Rightarrow>
         if \<not> opened then Some s2
         else (case os_ControlStop api serviceName s2 of (stopped, s3) \<Rightarrow>
           map_option (\<lambda>s4. snd (os_DeleteService api serviceName s4))
             (if stopped then wait_stop_pending api serviceName (os_Sleep api 1000 s3) else Some s3))))"

subsection \<open>Controls\<close>

lemma SetServiceStatus_steps [simp]:
  "fst (SetServiceStatus st svc) = Inr ()"
  "stopEvent (snd (SetServiceStatus st svc)) = stopEvent svc"
  "eventCreated (snd (SetServiceStatus st svc)) = eventCreated svc"
  "workerStarted (snd (SetServiceStatus st svc)) = workerStarted svc"
  "threadStarts (snd (SetServiceStatus st svc)) = threadStarts svc"
  "checkPoint (snd (SetServiceStatus st svc)) =
     (if st = SERVICE_RUNNING \<or> st = SERVICE_STOPPED then checkPoint svc else checkPoint svc + 1)"
  "map (\<lambda>r. (dwCurrentState r, dwCheckPoint r)) (reported (snd (SetServiceStatus st svc))) =
     map (\<lambda>r. (dwCurrentState r, dwCheckPoint r)) (reported svc) @
     [(st, if st = SERVICE_RUNNING \<or> st = SERVICE_STOPPED then 0 else checkPoint svc)]"
  by (auto simp: SetServiceStatus_def WriteErrorLogEntry_def cmd_simps Let_def)

lemma cseq_SetServiceStatus [simp]: "cseq (SetServiceStatus st) m svc = m (snd (SetServiceStatus st svc))"
  by (cases "SetServiceStatus st svc") (use SetServiceStatus_steps(1) [of st svc] in \<open>auto simp: cmd_simps\<close>)

lemma EnsureReported_SetServiceStatus [simp]:
  "EnsureReported (SetServiceStatus st) svc = SetServiceStatus st svc"
  by (cases "SetServiceStatus st svc")
    (use SetServiceStatus_steps(1) [of st svc] in \<open>auto simp: EnsureReported_def cmd_simps\<close>)

lemma EnsureReported_cseq_SetServiceStatus [simp]:
  "EnsureReported (cseq (SetServiceStatus st) m) svc = EnsureReported m (snd (SetServiceStatus st svc))"
  by (simp add: EnsureReported_def ccatch_def)

lemma EnsureReported_OnStop [simp]:
  "EnsureReported (cseq OnStop m) svc = EnsureReported m (svc\<lparr>stopEvent := map_option (\<lambda>_. True) (stopEvent svc)\<rparr>)"
proof -
  have "stopEvent_update (map_option (\<lambda>_. True)) svc = svc\<lparr>stopEvent := map_option (\<lambda>_. True) (stopEvent svc)\<rparr>" by simp
  then show ?thesis by (simp only: EnsureReported_def OnStop_def cmd_simps split_conv sum.case)
qed

lemmas control_defs = Stop_def Pause_def Continue_def Shutdown_def

lemma EnsureReported_quiet: "fst (m s) \<noteq> Inl Terminate \<Longrightarrow> fst (EnsureReported m s) = Inr ()"
  by (auto simp: EnsureReported_def cmd_simps catchable_iff split: prod.split sum.split)

text \<open>
  C27: Every control is answered without an exception by the reports the service promises for it,
  pending states numbered by the check point counter and final ones with check point 0 (paused
  counts as pending); only a stop sets the stop event, and only when the worker has created it:
  a stop that comes earlier is reported as done and lost, since the worker's event starts unset.\<close>

theorem service_controls:
  "fst (ServiceCtrlHandler c svc) = Inr () \<and>
   map (\<lambda>r. (dwCurrentState r, dwCheckPoint r)) (reported (snd (ServiceCtrlHandler c svc))) =
     map (\<lambda>r. (dwCurrentState r, dwCheckPoint r)) (reported svc) @
     (case c of
        SERVICE_CONTROL_STOP \<Rightarrow> [(SERVICE_STOP_PENDING, checkPoint svc), (SERVICE_STOPPED, 0)]
      | SERVICE_CONTROL_PAUSE \<Rightarrow> [(SERVICE_PAUSE_PENDING, checkPoint svc), (SERVICE_PAUSED, checkPoint svc + 1)]
      | SERVICE_CONTROL_CONTINUE \<Rightarrow> [(SERVICE_CONTINUE_PENDING, checkPoint svc), (SERVICE_RUNNING, 0)]
      | SERVICE_CONTROL_SHUTDOWN \<Rightarrow> [(SERVICE_STOPPED, 0)]
      | _ \<Rightarrow> []) \<and>
   stopEvent (snd (ServiceCtrlHandler c svc)) =
     (if c = SERVICE_CONTROL_STOP then map_option (\<lambda>_. True) (stopEvent svc) else stopEvent svc) \<and>
   (stopEvent svc = None \<and> eventCreated svc \<longrightarrow>
     RunClient run load sleep (snd (ServiceCtrlHandler SERVICE_CONTROL_STOP svc)) =
     RunClient_loop run load sleep ((snd (ServiceCtrlHandler SERVICE_CONTROL_STOP svc))\<lparr>stopEvent := Some False\<rparr>))"
proof (intro conjI)
  show "fst (ServiceCtrlHandler c svc) = Inr ()" by (cases c) (simp_all add: control_defs cret_def)
  show "map (\<lambda>r. (dwCurrentState r, dwCheckPoint r)) (reported (snd (ServiceCtrlHandler c svc))) =
     map (\<lambda>r. (dwCurrentState r, dwCheckPoint r)) (reported svc) @
     (case c of
        SERVICE_CONTROL_STOP \<Rightarrow> [(SERVICE_STOP_PENDING, checkPoint svc), (SERVICE_STOPPED, 0)]
      | SERVICE_CONTROL_PAUSE \<Rightarrow> [(SERVICE_PAUSE_PENDING, checkPoint svc), (SERVICE_PAUSED, checkPoint svc + 1)]
      | SERVICE_CONTROL_CONTINUE \<Rightarrow> [(SERVICE_CONTINUE_PENDING, checkPoint svc), (SERVICE_RUNNING, 0)]
      | SERVICE_CONTROL_SHUTDOWN \<Rightarrow> [(SERVICE_STOPPED, 0)]
      | _ \<Rightarrow> [])"
    by (cases c) (simp_all add: control_defs cret_def)
  show stop: "stopEvent (snd (ServiceCtrlHandler c svc)) =
     (if c = SERVICE_CONTROL_STOP then map_option (\<lambda>_. True) (stopEvent svc) else stopEvent svc)"
    by (cases c) (simp_all add: control_defs cret_def)
  show "stopEvent svc = None \<and> eventCreated svc \<longrightarrow>
     RunClient run load sleep (snd (ServiceCtrlHandler SERVICE_CONTROL_STOP svc)) =
     RunClient_loop run load sleep ((snd (ServiceCtrlHandler SERVICE_CONTROL_STOP svc))\<lparr>stopEvent := Some False\<rparr>)"
    by (simp add: RunClient_def control_defs)
qed

definition sample_service :: DMService where
  "sample_service = DMService_new (\<lambda>_. True) True True True"

lemma sample_service_fields [simp]:
  "eventCreated sample_service" "stopEvent sample_service = None" "reported sample_service = []"
  by (simp_all add: sample_service_def DMService_new_def)

theorem service_controls_witness:
  "RunClient (olift (cret ())) (cret ()) (\<lambda>_ s. s) (snd (ServiceCtrlHandler SERVICE_CONTROL_STOP sample_service)) =
   RunClient_loop (olift (cret ())) (cret ()) (\<lambda>_ s. s)
     ((snd (ServiceCtrlHandler SERVICE_CONTROL_STOP sample_service))\<lparr>stopEvent := Some False\<rparr>)"
  using service_controls [of SERVICE_CONTROL_STOP sample_service "olift (cret ())" "cret ()" "\<lambda>_ s. s"]
  by simp

subsection \<open>The worker\<close>

text \<open>
  \<open>recoveries run load sleep n s\<close> is the state after \<open>n\<close> runs that failed, each followed by the
  pause and a configuration read that succeeded; \<open>None\<close> if one of them went another way.
\<close>

fun recoveries ::
    "('s, unit) ocmd \<Rightarrow> ('s, unit) cmd \<Rightarrow> (nat \<Rightarrow> 's \<Rightarrow> 's) \<Rightarrow> nat \<Rightarrow> 's \<Rightarrow> 's option" where
  "recoveries run load sleep 0 s = Some s"
| "recoveries run load sleep (Suc n) s =
     (case run s of
        Some (Inl e, s1) \<Rightarrow> if \<not> catchable e then None
                           else (case load (sleep 60000 s1) of (l, s2) \<Rightarrow>
                             (case l of Inl _ \<Rightarrow> None | Inr _ \<Rightarrow> recoveries run load sleep n s2))
      | _ \<Rightarrow> None)"

lemma RunClient_loop_recoveries:
  "recoveries run load sleep n s = Some s' \<Longrightarrow>
     RunClient_loop run load sleep s = RunClient_loop run load sleep s'"
proof (induction n arbitrary: s)
  case (Suc n)
  then show ?case
    by (subst RunClient_loop.simps) (auto simp: cmd_simps split: option.splits prod.splits sum.splits if_splits)
qed simp

lemma RunClient_loop_once:
  "run s = Some (Inr (), s') \<Longrightarrow> RunClient_loop run load sleep s = Some (Inr (), s')"
  "run s = Some (Inl Terminate, s') \<Longrightarrow> RunClient_loop run load sleep s = Some (Inl Terminate, s')"
  "run s = Some (Inl e, s1) \<Longrightarrow> catchable e \<Longrightarrow> load (sleep 60000 s1) = (Inl e', s') \<Longrightarrow>
     RunClient_loop run load sleep s = Some (Inl e', s')"
  by (subst RunClient_loop.simps, simp add: cmd_simps)+

text \<open>
  C28: The worker runs the client until it ends without an exception, however many runs fail before
  that, with a pause of a minute and a fresh configuration read before each new one; but the
  configuration is read outside the reported block, so a failure to read it (as a failure to
  stop quietly) ends the process.\<close>

theorem worker_recovers:
  assumes "eventCreated svc"
    and "recoveries run load sleep n (svc\<lparr>stopEvent := Some False\<rparr>) = Some s"
  shows "(run s = Some (Inr (), s') \<longrightarrow> ServiceWorkerThread run load sleep svc = Some (Inr (), s')) \<and>
    (run s = Some (Inl e, s1) \<and> catchable e \<and> load (sleep 60000 s1) = (Inl e', s') \<longrightarrow>
      ServiceWorkerThread run load sleep svc = Some (Inl Terminate, s'))"
proof -
  have loop: "RunClient run load sleep svc = RunClient_loop run load sleep s"
    using assms RunClient_loop_recoveries [of run load sleep n _ s] by (simp add: RunClient_def)
  show ?thesis
    by (simp add: ServiceWorkerThread_def loop RunClient_loop_once(1) RunClient_loop_once(3))
qed

text \<open>A client that fails while the service has reported nothing yet, and a read that reports.\<close>

definition sample_run :: "(DMService, unit) ocmd" where
  "sample_run = (\<lambda>svc. Some (if reported svc = [] then Inl (StdException ''offline'') else Inr (), svc))"

theorem worker_recovers_witness:
  "ServiceWorkerThread sample_run (SetServiceStatus SERVICE_RUNNING) (\<lambda>_ s. s) sample_service =
     Some (Inr (), snd (SetServiceStatus SERVICE_RUNNING (sample_service\<lparr>stopEvent := Some False\<rparr>)))"
proof -
  let ?s = "sample_service\<lparr>stopEvent := Some False\<rparr>"
  let ?s' = "snd (SetServiceStatus SERVICE_RUNNING ?s)"
  have report: "SetServiceStatus SERVICE_RUNNING ?s = (Inr (), ?s')"
    by (metis SetServiceStatus_steps(1) prod.collapse)
  have "sample_run ?s = Some (Inl (StdException ''offline''), ?s)" by (simp add: sample_run_def)
  then have once: "recoveries sample_run (SetServiceStatus SERVICE_RUNNING) (\<lambda>_ s. s) 1 ?s = Some ?s'"
    by (simp, subst report, simp)
  have "reported ?s' \<noteq> []"
    using arg_cong [OF SetServiceStatus_steps(7) [of SERVICE_RUNNING ?s], of length]
    by (auto simp del: SetServiceStatus_steps(7))
  then have "sample_run ?s' = Some (Inr (), ?s')" by (auto simp: sample_run_def)
  then show ?thesis
    using conjunct1 [OF worker_recovers [OF sample_service_fields(1) once]] by blast
qed

end
