(* ===== verification/DM_Client.thy ===== *)
theory DM_Client
  imports Host_Dispatch "HOL-Library.Word"
begin

text \<open>
  \<open>AzureDMClient\<close> (device-agent/agent/AzureDMClient.cpp): it creates the host, loads the
  plug-ins the manifests name, connects to the hub with a connection string from the
  configuration, the TPM or the provisioning service, and renews the connection before its
  token expires; and \<open>LocalDMClient\<close> (LocalDMClient.cpp), the local entry points of the bridge.
  The TPM, the provisioning client, the hub SDK, the clock and the loaded plug-ins are a
  record of calls.
\<close>

section \<open>The client and its surroundings\<close>

datatype plugin_kind = DirectPlugin string | ProxiedPlugin string bool int

record HandlerInfo =
  hi_id :: string
  hi_dependencies :: "string list"

text \<open>
  \<open>e_wait_stop\<close> is \<open>WaitForSingleObject(stopEvent, n)\<close> (true: signalled).  The calls that wait act
  on the whole host: the hub may deliver twin updates and methods meanwhile.  \<open>e_scope\<close> is the
  scope id the bridge sets while the client waits for one, \<open>None\<close> if it never does.
\<close>

record ('x, 'd, 'p) client_env =
  e_platform_init :: "'x hostcore_scheme \<Rightarrow> int \<times> 'x hostcore_scheme"
  e_platform_deinit :: "'x hostcore_scheme \<Rightarrow> 'x hostcore_scheme"
  e_tick :: "'x hostcore_scheme \<Rightarrow> 64 word"
  e_wait_stop :: "nat \<Rightarrow> ('x, 'd) AzureRawHost \<Rightarrow> bool \<times> ('x, 'd) AzureRawHost"
  e_sleep :: "nat \<Rightarrow> ('x, 'd) AzureRawHost \<Rightarrow> ('x, 'd) AzureRawHost"
  e_InitializeTpm :: "'x hostcore_scheme \<Rightarrow> int \<times> 'x hostcore_scheme"
  e_DeinitializeTpm :: "'x hostcore_scheme \<Rightarrow> 'x hostcore_scheme"
  e_GetAzureConnectionString :: "int \<Rightarrow> int \<Rightarrow> 'x hostcore_scheme \<Rightarrow> (int \<times> string) \<times> 'x hostcore_scheme"
  e_scope :: "'x hostcore_scheme \<Rightarrow> string option \<times> 'x hostcore_scheme"
  e_InitializeDps :: "'x hostcore_scheme \<Rightarrow> int \<times> 'x hostcore_scheme"
  e_DeinitializeDps :: "'x hostcore_scheme \<Rightarrow> 'x hostcore_scheme"
  e_RegisterDevice :: "int \<Rightarrow> string \<Rightarrow> string \<Rightarrow> int \<Rightarrow> string \<Rightarrow> int smap \<Rightarrow> 'x hostcore_scheme \<Rightarrow> int \<times> 'x hostcore_scheme"
  e_CreateDevice :: "string \<Rightarrow> 'x hostcore_scheme \<Rightarrow> nat \<times> 'x hostcore_scheme"
  e_CreateModule :: "string \<Rightarrow> 'x hostcore_scheme \<Rightarrow> nat \<times> 'x hostcore_scheme"
  e_SetOption :: "nat \<Rightarrow> string \<Rightarrow> 'x hostcore_scheme \<Rightarrow> 'x hostcore_scheme"
  e_StartBridge :: "'x hostcore_scheme \<Rightarrow> 'x hostcore_scheme"
  e_StopBridge :: "'x hostcore_scheme \<Rightarrow> 'x hostcore_scheme"
  e_Manifests :: "string \<Rightarrow> 'x hostcore_scheme \<Rightarrow> (string \<times> bool) list res"
  e_ParseFile :: "string \<Rightarrow> 'x hostcore_scheme \<Rightarrow> json res"
  e_BlankManifest :: PluginManifest
  e_LoadPlugin :: "plugin_kind \<Rightarrow> ('x hostcore_scheme, 'p) cmd"
  e_HandlersInfo :: "'p \<Rightarrow> ('x hostcore_scheme, HandlerInfo list) cmd"
  e_CreateRawHandler :: "'p \<Rightarrow> string \<Rightarrow> ('x hostcore_scheme, 'd) cmd"
  e_Unload :: "'p \<Rightarrow> ('x hostcore_scheme, unit) cmd"

text \<open>
  \<open>hostSet\<close> says whether \<open>_activeHandlerHost\<close> points to a host, \<open>theHost\<close> being that host (its
  \<open>core\<close> is the world, also when there is no host); \<open>stubHost\<close> and \<open>stubMdm\<close> whether the agent
  stub has been given a host and the MDM server.
\<close>

record ('x, 'd, 'p) AzureDMClient =
  theHost :: "('x, 'd) AzureRawHost"
  hostSet :: bool
  stubHost :: bool
  stubMdm :: bool
  dmDevice :: nat
  dmModule :: nat
  sasTokenTimestampInTicks :: "64 word"
  params :: ServiceParameters
  pluginsMap :: "'p smap"

definition AzureDMClient_new :: "ServiceParameters \<Rightarrow> 'x hostcore_scheme \<Rightarrow> ('x, 'd, 'p) AzureDMClient" where
  "AzureDMClient_new sp w =
     \<lparr>theHost = \<lparr>rawHandlerMap = [], rawHandlerSequence = [], serviceParameters = sp, core = w\<rparr>,
      hostSet = False, stubHost = False, stubMdm = False, dmDevice = 0, dmModule = 0,
      sasTokenTimestampInTicks = 0, params = sp, pluginsMap = []\<rparr>"

definition world_of :: "('x, 'd, 'p) AzureDMClient \<Rightarrow> 'x hostcore_scheme" where
  "world_of c = core (theHost c)"

definition on_the_host :: "(('x, 'd) AzureRawHost, 'a) cmd \<Rightarrow> (('x, 'd, 'p) AzureDMClient, 'a) cmd" where
  "on_the_host m = (\<lambda>c. case m (theHost c) of (r, h) \<Rightarrow> (r, c\<lparr>theHost := h\<rparr>))"

definition on_world :: "('x hostcore_scheme, 'a) cmd \<Rightarrow> (('x, 'd, 'p) AzureDMClient, 'a) cmd" where
  "on_world m = on_the_host (on_core m)"

text \<open>A call through \<open>_activeHandlerHost\<close>: a null pointer ends the process.\<close>

definition active :: "(('x, 'd) AzureRawHost, 'a) cmd \<Rightarrow> (('x, 'd, 'p) AzureDMClient, 'a) cmd" where
  "active m = (\<lambda>c. if hostSet c then on_the_host m c else (Inl Terminate, c))"

text \<open>A call of the surroundings that answers a value, and one that answers nothing.\<close>

definition ask :: "('x hostcore_scheme \<Rightarrow> 'a \<times> 'x hostcore_scheme) \<Rightarrow> (('x, 'd, 'p) AzureDMClient, 'a) cmd" where
  "ask f = on_world (\<lambda>w. case f w of (a, w') \<Rightarrow> (Inr a, w'))"

definition tell :: "('x hostcore_scheme \<Rightarrow> 'x hostcore_scheme) \<Rightarrow> (('x, 'd, 'p) AzureDMClient, unit) cmd" where
  "tell f = on_world (cmod f)"

text \<open>\<open>shared_ptr<void> guard(nullptr, f)\<close>: \<open>f\<close> runs when the block is left, also by an exception.\<close>

definition finally_do :: "('s, 'a) cmd \<Rightarrow> ('s, unit) cmd \<Rightarrow> ('s, 'a) cmd" where
  "finally_do m f = (\<lambda>s. case m s of (r, s1) \<Rightarrow> (case f s1 of (f_r, s2) \<Rightarrow>
     (case f_r of Inl e \<Rightarrow> Inl Terminate | Inr _ \<Rightarrow> r, s2)))"

section \<open>The connection string\<close>

definition GetConnectionString_tpm ::
    "('x, 'd, 'p) client_env \<Rightarrow> int \<Rightarrow> int \<Rightarrow> (('x, 'd, 'p) AzureDMClient, string) cmd" where
  "GetConnectionString_tpm env dmSlot sasTokenExpiryInterval =
     cbind (ask (e_InitializeTpm env)) (\<lambda>hr.
     if hr < 0 then cret ''''
     else finally_do
       (cbind (ask (e_GetAzureConnectionString env dmSlot sasTokenExpiryInterval)) (\<lambda>(hr, wide).
        if hr < 0 then cthrow (DMExc Limpet hr ''TpmSupport::GetAzureConnectionString failed!'')
        else cret (c_str wide)))
       (tell (e_DeinitializeTpm env)))"

text \<open>\<open>WaitDpsScopeId\<close>, with the bridge setting the scope id meanwhile; \<open>None\<close>: it waits for ever.\<close>

definition wait_scope ::
    "('x, 'd, 'p) client_env \<Rightarrow> ('x, 'd, 'p) AzureDMClient \<Rightarrow> ('x, 'd, 'p) AzureDMClient option" where
  "wait_scope env c =
     (if WaitDpsScopeId (params c) = Some () then Some c
      else (case e_scope env (world_of c) of (answer, w) \<Rightarrow>
        (case answer of
           None \<Rightarrow> None
         | Some scopeId \<Rightarrow>
             let sp = SetDpsScopeId scopeId (params c)
             in if WaitDpsScopeId sp = Some ()
                then Some (c\<lparr>params := sp, theHost := SetServiceParameters sp ((theHost c)\<lparr>core := w\<rparr>)\<rparr>)
                else None)))"

definition provision ::
    "('x, 'd, 'p) client_env \<Rightarrow> (('x, 'd, 'p) AzureDMClient, unit) cmd" where
  "provision env =
     cbind (cget params) (\<lambda>sp.
     cbind (ask (e_InitializeDps env)) (\<lambda>hr.
     if hr < 0 then cthrow (DMExc DPS hr ''InitializeDpsClient failed!'')
     else finally_do
       (cbind (ask (e_RegisterDevice env (deviceSlotNumber sp) (dpsUri sp) (dpsScopeId sp) (dmModuleSlotNumber sp)
           (dmModuleId sp) (otherModules sp))) (\<lambda>hr.
        if hr < 0 then cthrow (DMExc DPS hr ''AzureDpsRegisterDevice failed!'') else cret ()))
       (tell (e_DeinitializeDps env))))"

definition ProvisionDevice :: "('x, 'd, 'p) client_env \<Rightarrow> (('x, 'd, 'p) AzureDMClient, unit) ocmd" where
  "ProvisionDevice env c = map_option (provision env) (wait_scope env c)"

record ConnectionStringInfo =
  connection :: string
  timestamp :: "64 word"

text \<open>One attempt to read the string from the TPM: an exception is logged and answers no string.\<close>

definition read_tpm :: "('x, 'd, 'p) client_env \<Rightarrow> (('x, 'd, 'p) AzureDMClient, string) cmd" where
  "read_tpm env =
     cbind (cget params) (\<lambda>sp.
     ccatch (GetConnectionString_tpm env (dmModuleSlotNumber sp) (sasExpiryInterval sp)) (\<lambda>ex. cret ''''))"

partial_function (option) connection_loop ::
    "('x, 'd, 'p) client_env \<Rightarrow> bool \<Rightarrow> (('x, 'd, 'p) AzureDMClient, ConnectionStringInfo) ocmd" where
  "connection_loop env triedDps c =
     (let timestamp = e_tick env (world_of c) in
      case read_tpm env c of (r, c1) \<Rightarrow>
        (case r of
           Inl e \<Rightarrow> Some (Inl e, c1)
         | Inr s \<Rightarrow>
             if length s \<noteq> 0 then Some (Inr \<lparr>connection = s, timestamp = timestamp\<rparr>, c1)
             else if dpsIsEnabled (params c1)
             then (if triedDps
                   then Some (Inl (DMExc DeviceAgent DM_ERROR_DPS_CLIENT_FAILED
                     ''Unable to retrieve the connection string for IoT Hub!''), c1)
                   else (case ProvisionDevice env c1 of
                           None \<Rightarrow> None
                         | Some (p, c2) \<Rightarrow>
                             (case p of Inl e \<Rightarrow> Some (Inl e, c2) | Inr _ \<Rightarrow> connection_loop env True c2)))
             else connection_loop env triedDps (c1\<lparr>theHost := e_sleep env (10 * 1000) (theHost c1)\<rparr>)))"

definition GetConnectionString ::
    "('x, 'd, 'p) client_env \<Rightarrow> (('x, 'd, 'p) AzureDMClient, ConnectionStringInfo) ocmd" where
  "GetConnectionString env c =
     (if length (connectionString (params c)) \<noteq> 0
      then Some (Inr \<lparr>connection = connectionString (params c), timestamp = e_tick env (world_of c)\<rparr>, c)
      else connection_loop env False c)"

section \<open>The connection\<close>

definition create_device_client ::
    "('x, 'd, 'p) client_env \<Rightarrow> string \<Rightarrow> (('x, 'd, 'p) AzureDMClient, unit) cmd" where
  "create_device_client env s =
     cbind (ask (e_CreateDevice env (c_str s))) (\<lambda>clientHandle.
     if clientHandle = 0
     then cthrow (DMExc IotHub DM_ERROR_OPERATION_FAILED ''IoTHubDeviceClient_CreateFromConnectionString failed!'')
     else cseq (cmod (dmDevice_update (\<lambda>_. clientHandle))) (
          cseq (tell (e_SetOption env clientHandle ''logtrace'')) (
          cseq (tell (e_SetOption env clientHandle ''product_info''))
            (active (cmod (InitializeDeviceConnection clientHandle))))))"

definition create_module_client ::
    "('x, 'd, 'p) client_env \<Rightarrow> string \<Rightarrow> (('x, 'd, 'p) AzureDMClient, unit) cmd" where
  "create_module_client env s =
     cbind (ask (e_CreateModule env (c_str s))) (\<lambda>clientHandle.
     if clientHandle = 0
     then cthrow (DMExc IotHub DM_ERROR_OPERATION_FAILED ''IoTHubModuleClient_CreateFromConnectionString failed!'')
     else cseq (cmod (dmModule_update (\<lambda>_. clientHandle))) (
          cseq (tell (e_SetOption env clientHandle ''logtrace'')) (
          cseq (tell (e_SetOption env clientHandle ''product_info''))
            (active (cmod (InitializeModuleConnection clientHandle))))))"

definition InitializeIoTHubConnection ::
    "('x, 'd, 'p) client_env \<Rightarrow> (('x, 'd, 'p) AzureDMClient, unit) ocmd" where
  "InitializeIoTHubConnection env =
     obind (olift (cbind (ask (e_platform_init env)) (\<lambda>initResult.
       if initResult \<noteq> 0 then cthrow (DMExc IotHub initResult ''Azure platform_init failed!'') else cret ()))) (\<lambda>_.
     obind (GetConnectionString env) (\<lambda>info.
     olift (cseq (cmod (sasTokenTimestampInTicks_update (\<lambda>_. timestamp info))) (
       cbind (cget params) (\<lambda>sp.
       if deviceSlotNumber sp = dmModuleSlotNumber sp
       then create_device_client env (connection info)
       else create_module_client env (connection info))))))"

text \<open>\<open>IoTHubDeviceClient_Destroy\<close> and \<open>IoTHubModuleClient_Destroy\<close> give a handle back to the SDK.\<close>

definition sdk_destroy :: "nat \<Rightarrow> 'x hostcore_scheme \<Rightarrow> 'x hostcore_scheme" where
  "sdk_destroy h w = w\<lparr>destroyedClients := destroyedClients w @ [h]\<rparr>"

definition DeinitializeIoTHubConnection :: "('x, 'd, 'p) client_env \<Rightarrow> (('x, 'd, 'p) AzureDMClient, unit) cmd" where
  "DeinitializeIoTHubConnection env =
     cseq (cbind (cget dmDevice) (\<lambda>h. cwhen (h \<noteq> 0)
       (cseq (tell (sdk_destroy h)) (cmod (dmDevice_update (\<lambda>_. 0)))))) (
     cseq (cbind (cget dmModule) (\<lambda>h. cwhen (h \<noteq> 0)
       (cseq (tell (sdk_destroy h)) (cmod (dmModule_update (\<lambda>_. 0))))))
       (tell (e_platform_deinit env)))"

definition Deinitialize ::
    "('x, 'd, 'p) client_env \<Rightarrow> ('x hostcore_scheme, 'd) IRawHandler \<Rightarrow> (('x, 'd, 'p) AzureDMClient, unit) cmd" where
  "Deinitialize env ops =
     cseq (cmod (stubHost_update (\<lambda>_. False))) (
     cseq (active (Destroy ops)) (
     cseq (cmod (hostSet_update (\<lambda>_. False))) (
     cseq (tell (e_StopBridge env)) (DeinitializeIoTHubConnection env))))"

text \<open>The destructor is \<open>noexcept\<close>.\<close>

definition destructor ::
    "('x, 'd, 'p) client_env \<Rightarrow> ('x hostcore_scheme, 'd) IRawHandler \<Rightarrow> (('x, 'd, 'p) AzureDMClient, unit) cmd" where
  "destructor env ops =
     cnoexcept (cseq (cbind (cget pluginsMap) (cfor (\<lambda>(_, p). on_world (e_Unload env p)))) (Deinitialize env ops))"

section \<open>Plug-ins\<close>

definition Client_RegisterDynamicHandler ::
    "('x, 'd, 'p) client_env \<Rightarrow> ('x hostcore_scheme, 'd) IRawHandler \<Rightarrow> 'p \<Rightarrow> HandlerInfo \<Rightarrow>
     (('x, 'd, 'p) AzureDMClient, unit) cmd" where
  "Client_RegisterDynamicHandler env ops plugin handlerInfo =
     ccatch (active (RegisterDynamicHandler ops (e_CreateRawHandler env plugin) (hi_id handlerInfo)
       (hi_dependencies handlerInfo))) (\<lambda>ex. cret ())"

definition with_manifest :: "PluginManifest \<Rightarrow> HandlerInfo \<Rightarrow> HandlerInfo" where
  "with_manifest manifest handler =
     (case map_of (handlerInfoList manifest) (hi_id handler) of
        None \<Rightarrow> handler
      | Some configuration \<Rightarrow> handler\<lparr>hi_dependencies := hc_dependencies configuration\<rparr>)"

definition kind_of :: "PluginManifest \<Rightarrow> plugin_kind" where
  "kind_of manifest =
     (if isDirect manifest then DirectPlugin (codeFileName manifest)
      else ProxiedPlugin (codeFileName manifest) (isOutOfProc manifest)
        (if isOutOfProc manifest then keepAliveTime manifest else - 1))"

definition process_manifest ::
    "('x, 'd, 'p) client_env \<Rightarrow> ('x hostcore_scheme, 'd) IRawHandler \<Rightarrow> string \<Rightarrow>
     (('x, 'd, 'p) AzureDMClient, unit) cmd" where
  "process_manifest env ops manifestFileName =
     cbind (cget world_of) (\<lambda>w.
     cbind (clift (case FromJsonFile (e_ParseFile env manifestFileName w) (e_BlankManifest env) of
        (r, manifest) \<Rightarrow> (case r of Inl e \<Rightarrow> Inl e | Inr _ \<Rightarrow> Inr manifest))) (\<lambda>manifest.
     cbind (clift (MajorVersionCompare (lastError w) ''1.0.0'' (agentPluginProtocolVersion manifest))) (\<lambda>cmp.
     if cmp \<noteq> 0 then cthrow (DMExc DeviceAgentPlugin DM_PLUGIN_ERROR_INVALID_PROTOCOL_VERSION
       ''Plugin built against a different version of the device agent.'')
     else
     cbind (on_world (e_LoadPlugin env (kind_of manifest))) (\<lambda>plugin.
     cbind (on_world (e_HandlersInfo env plugin)) (\<lambda>handlersInfo.
     cseq (cfor (Client_RegisterDynamicHandler env ops plugin) (map (with_manifest manifest) handlersInfo))
       (cmod (pluginsMap_update (sm_put (codeFileName manifest) plugin))))))))"

definition process_manifests ::
    "('x, 'd, 'p) client_env \<Rightarrow> ('x hostcore_scheme, 'd) IRawHandler \<Rightarrow> (string \<times> bool) list \<Rightarrow>
     (('x, 'd, 'p) AzureDMClient, unit) cmd" where
  "process_manifests env ops files =
     cfor (\<lambda>(manifestFileName, regular).
       if \<not> regular then cret ()
       else ccatch (process_manifest env ops manifestFileName) (\<lambda>ex. cret ())) files"

definition EnumeratePlugins ::
    "('x, 'd, 'p) client_env \<Rightarrow> ('x hostcore_scheme, 'd) IRawHandler \<Rightarrow> string \<Rightarrow>
     (('x, 'd, 'p) AzureDMClient, unit) cmd" where
  "EnumeratePlugins env ops manifestsPath =
     cbind (cget world_of) (\<lambda>w.
     cbind (clift (e_Manifests env manifestsPath w)) (process_manifests env ops))"

text \<open>Only a \<open>DMException\<close> is caught here.\<close>

definition Client_HandlerInvokeSequence :: "(('x, 'd, 'p) AzureDMClient, unit) cmd" where
  "Client_HandlerInvokeSequence =
     (\<lambda>c. case active HandlerInvokeSequence c of (r, c1) \<Rightarrow>
       (case r of Inl (DMException subSystem n msg) \<Rightarrow> Inr () | _ \<Rightarrow> r, c1))"

section \<open>Run\<close>

definition create_host :: "(('x, 'd, 'p) AzureDMClient, unit) cmd" where
  "create_host = cmod (\<lambda>c. c\<lparr>theHost := AzureRawHost_new (params c) (world_of c), hostSet := True, stubHost := True\<rparr>)"

definition set_up ::
    "('x, 'd, 'p) client_env \<Rightarrow> ('x hostcore_scheme, 'd) IRawHandler \<Rightarrow> ServiceParameters \<Rightarrow>
     (('x, 'd, 'p) AzureDMClient, unit) cmd" where
  "set_up env ops sp =
     cseq (cmod (params_update (\<lambda>_. sp))) (
     cseq (cwhen (azureInterfaceType sp = ''raw'') create_host) (
     cseq (cmod (stubMdm_update (\<lambda>_. True))) (
     cseq (active (cmod (SetServiceParameters sp))) (
     cseq (tell (e_StartBridge env)) (
     cseq (active (RegisterStaticHandlers ops)) (
     cseq (EnumeratePlugins env ops (pluginManifestsPath sp)) (
     active (SignalStart ops))))))))"

text \<open>The settings are \<open>unsigned int\<close>: the products wrap at 32 bits, the difference at 64.\<close>

definition seconds_in_ticks :: "int \<Rightarrow> 64 word" where
  "seconds_in_ticks s = ucast ((word_of_int s :: 32 word) * 1000)"

definition renewalStartInTicks :: "ServiceParameters \<Rightarrow> 64 word" where
  "renewalStartInTicks sp = seconds_in_ticks (sasExpiryInterval sp) - seconds_in_ticks (sasRenewalGracePeriod sp)"

record loop_state =
  firstTime :: bool
  connected :: bool
  renewalAbsoluteStart :: "64 word"

definition disconnect ::
    "('x, 'd, 'p) client_env \<Rightarrow> ('x hostcore_scheme, 'd) IRawHandler \<Rightarrow> (('x, 'd, 'p) AzureDMClient, unit) cmd" where
  "disconnect env ops =
     cseq (active (on_core (EnableIoTHubNotifications False))) (
     cseq (active (SignalConnectionStatusChanged ops eOffline)) (DeinitializeIoTHubConnection env))"

definition connect ::
    "('x, 'd, 'p) client_env \<Rightarrow> ('x hostcore_scheme, 'd) IRawHandler \<Rightarrow> (('x, 'd, 'p) AzureDMClient, unit) ocmd" where
  "connect env ops =
     obind (InitializeIoTHubConnection env) (\<lambda>_.
     olift (cseq (active (on_core (EnableIoTHubNotifications True)))
       (active (SignalConnectionStatusChanged ops eOnline))))"

definition pause :: "('x, 'd, 'p) client_env \<Rightarrow> nat \<Rightarrow> (('x, 'd, 'p) AzureDMClient, unit) cmd" where
  "pause env n = cmod (\<lambda>c. c\<lparr>theHost := e_sleep env n (theHost c)\<rparr>)"

definition stop_signalled :: "('x, 'd, 'p) client_env \<Rightarrow> (('x, 'd, 'p) AzureDMClient, bool) cmd" where
  "stop_signalled env = on_the_host (\<lambda>h. case e_wait_stop env 10 h of (b, h') \<Rightarrow> (Inr b, h'))"

text \<open>One round of the loop; it answers \<open>None\<close> to leave the loop, or the state for the next round.\<close>

definition reconnect ::
    "('x, 'd, 'p) client_env \<Rightarrow> ('x hostcore_scheme, 'd) IRawHandler \<Rightarrow> 64 word \<Rightarrow> loop_state \<Rightarrow>
     (('x, 'd, 'p) AzureDMClient, loop_state) ocmd" where
  "reconnect env ops start ls =
     obind (olift (cwhen (connected ls) (disconnect env ops))) (\<lambda>_.
     obind (connect env ops) (\<lambda>_.
     olift (cbind (cget sasTokenTimestampInTicks) (\<lambda>t.
       cret \<lparr>firstTime = False, connected = True, renewalAbsoluteStart = t + start\<rparr>))))"

definition run_round ::
    "('x, 'd, 'p) client_env \<Rightarrow> ('x hostcore_scheme, 'd) IRawHandler \<Rightarrow> 64 word \<Rightarrow> loop_state \<Rightarrow>
     (('x, 'd, 'p) AzureDMClient, loop_state option) ocmd" where
  "run_round env ops start ls =
     obind (olift (stop_signalled env)) (\<lambda>stop.
     if stop then olift (cret None)
     else obind (olift (cget (e_tick env \<circ> world_of))) (\<lambda>now.
       obind (if firstTime ls \<or> now > renewalAbsoluteStart ls then reconnect env ops start ls
              else olift (cret ls)) (\<lambda>ls1.
       olift (cseq (cwhen (connected ls1) (pause env 1000)) (cret (Some ls1))))))"

partial_function (option) run_loop ::
    "('x, 'd, 'p) client_env \<Rightarrow> ('x hostcore_scheme, 'd) IRawHandler \<Rightarrow> 64 word \<Rightarrow> loop_state \<Rightarrow>
     ('x, 'd, 'p) AzureDMClient \<Rightarrow> (unit res \<times> ('x, 'd, 'p) AzureDMClient) option" where
  "run_loop env ops start ls c =
     (case run_round env ops start ls c of
        None \<Rightarrow> None
      | Some (r, c1) \<Rightarrow>
          (case r of
             Inl e \<Rightarrow> Some (Inl e, c1)
           | Inr after \<Rightarrow> (case after of None \<Rightarrow> Some (Inr (), c1) | Some ls1 \<Rightarrow> run_loop env ops start ls1 c1)))"

definition stop_client ::
    "('x, 'd, 'p) client_env \<Rightarrow> ('x hostcore_scheme, 'd) IRawHandler \<Rightarrow> (('x, 'd, 'p) AzureDMClient, unit) cmd" where
  "stop_client env ops =
     cseq (active (on_core (EnableIoTHubNotifications False))) (
     cseq (active (SignalConnectionStatusChanged ops eOffline)) (
     cseq (active (SignalStop ops)) (Deinitialize env ops)))"

definition Run ::
    "('x, 'd, 'p) client_env \<Rightarrow> ('x hostcore_scheme, 'd) IRawHandler \<Rightarrow> ServiceParameters \<Rightarrow>
     (('x, 'd, 'p) AzureDMClient, unit) ocmd" where
  "Run env ops sp =
     obind (olift (cseq (set_up env ops sp) (
       cbind (cget (renewalStartInTicks \<circ> params)) (\<lambda>start.
       cseq Client_HandlerInvokeSequence (cret start))))) (\<lambda>start.
     obind (run_loop env ops start \<lparr>firstTime = True, connected = False, renewalAbsoluteStart = 0\<rparr>) (\<lambda>_.
     olift (stop_client env ops)))"

text \<open>\<open>AzureDMClient::Create()->Run(...)\<close>, the client destroyed when the block is left.\<close>

definition run_client ::
    "('x, 'd, 'p) client_env \<Rightarrow> ('x hostcore_scheme, 'd) IRawHandler \<Rightarrow> ServiceParameters \<times> 'x hostcore_scheme \<Rightarrow>
     (unit res \<times> ServiceParameters \<times> 'x hostcore_scheme) option" where
  "run_client env ops = (\<lambda>(sp, w).
     case Run env ops sp (AzureDMClient_new sp w) of
       None \<Rightarrow> None
     | Some (r, c) \<Rightarrow> (case destructor env ops c of (d, c1) \<Rightarrow>
         Some (case d of Inl e \<Rightarrow> Inl Terminate | Inr _ \<Rightarrow> r, params c1, world_of c1)))"

section \<open>LocalDMClient\<close>

definition InvokeReboot ::
    "('x hostcore_scheme, 'd) IRawHandler \<Rightarrow> (('x, 'd) AzureRawHost, unit) cmd" where
  "InvokeReboot ops =
     cseq (InvokeHandler ops ''StartRebootCmd''
       (jobj [(''__meta'', jobj [(''serviceInterfaceVersion'', JString ''1.0.0'')])])) (cret ())"

text \<open>The file is written with the contents \<open>Save\<close> builds; \<open>old\<close> is what it held.\<close>

definition SetScopeId :: "json option \<Rightarrow> string \<Rightarrow> ServiceParameters \<Rightarrow> ServiceParameters \<times> json option res" where
  "SetScopeId old scopeId sp = (let sp1 = SetDpsScopeId (c_str scopeId) sp in (sp1, Save old sp1))"

section \<open>The choice of the connection string\<close>

lemma ocmd_apply [simp]: "olift m c = Some (m c)"
  by (simp add: olift_def)

lemma obind_olift [simp]:
  "obind (olift m) f c = (case m c of (r, c1) \<Rightarrow> (case r of Inl e \<Rightarrow> Some (Inl e, c1) | Inr x \<Rightarrow> f x c1))"
  by (simp add: obind_def olift_def)

text \<open>The parts of the client that calls of the surroundings and of the host leave alone.\<close>

definition client_frame :: "('x, 'd, 'p) AzureDMClient \<Rightarrow> bool \<times> bool \<times> bool \<times> nat \<times> nat \<times> ServiceParameters \<times> 'p smap" where
  "client_frame c = (hostSet c, stubHost c, stubMdm c, dmDevice c, dmModule c, params c, pluginsMap c)"

lemma preserves_on_the_host [preserves_intros]: "preserves (\<lambda>c. client_frame c = fr) (on_the_host m)"
  by (rule preservesI) (simp add: on_the_host_def client_frame_def split: prod.split)

lemma preserves_active [preserves_intros]: "preserves (\<lambda>c. client_frame c = fr) (active m)"
  by (rule preservesI)
    (simp add: active_def preservesD [OF preserves_on_the_host])

lemma preserves_surroundings [preserves_intros]:
  "preserves (\<lambda>c. client_frame c = fr) (on_world m')"
  "preserves (\<lambda>c. client_frame c = fr) (ask f)"
  "preserves (\<lambda>c. client_frame c = fr) (tell g)"
  by (simp_all add: ask_def tell_def on_world_def preserves_on_the_host)

lemma preserves_finally_do [preserves_intros]: "preserves I m \<Longrightarrow> preserves I f \<Longrightarrow> preserves I (finally_do m f)"
  by (auto simp: preserves_def finally_do_def split: prod.split)

lemma preserves_read_tpm [preserves_intros]: "preserves (\<lambda>c. client_frame c = fr) (read_tpm env)"
  unfolding read_tpm_def GetConnectionString_tpm_def
  by (intro preserves_intros) (simp add: preserves_basic split: prod.split)

lemma read_tpm_params: "read_tpm env c = (r, c1) \<Longrightarrow> params c1 = params c"
  using preservesD [OF preserves_read_tpm [of "client_frame c" env], of c] by (simp add: client_frame_def)

lemma preserves_provision [preserves_intros]: "preserves (\<lambda>c. client_frame c = fr) (provision env)"
  unfolding provision_def by (intro preserves_intros)

lemma ProvisionDevice_keeps:
  assumes "ProvisionDevice env c = Some (r, c2)"
  shows "dpsIsEnabled (params c2) = dpsIsEnabled (params c)"
proof -
  obtain c1 where c1: "wait_scope env c = Some c1" and p: "provision env c1 = (r, c2)"
    using assms by (auto simp: ProvisionDevice_def)
  have "params c2 = params c1"
    using preservesD [OF preserves_provision [of "client_frame c1" env], of c1] p by (simp add: client_frame_def)
  moreover have "dpsIsEnabled (params c1) = dpsIsEnabled (params c)"
    using c1 by (auto simp: wait_scope_def SetDpsScopeId_def Let_def split: if_splits prod.splits option.splits)
  ultimately show ?thesis by simp
qed

text \<open>One attempt: the time is taken before the TPM is asked.\<close>

definition attempt :: "('x, 'd, 'p) client_env \<Rightarrow> (('x, 'd, 'p) AzureDMClient, ConnectionStringInfo) ocmd" where
  "attempt env =
     olift (cbind (cget (e_tick env \<circ> world_of)) (\<lambda>t.
       cbind (read_tpm env) (\<lambda>s. cret \<lparr>connection = s, timestamp = t\<rparr>)))"

definition dps_failed :: exn where
  "dps_failed = DMExc DeviceAgent DM_ERROR_DPS_CLIENT_FAILED ''Unable to retrieve the connection string for IoT Hub!''"

lemma connection_loop_tried:
  "dpsIsEnabled (params c) \<Longrightarrow>
   connection_loop env True c =
     obind (attempt env) (\<lambda>b. olift (if connection b \<noteq> '''' then cret b else cthrow dps_failed)) c"
  by (subst connection_loop.simps)
    (auto simp: attempt_def cmd_simps dps_failed_def read_tpm_params Let_def split: prod.split sum.split)

lemma connection_loop_dps:
  "dpsIsEnabled (params c) \<Longrightarrow>
   connection_loop env False c =
     obind (attempt env) (\<lambda>a. if connection a \<noteq> '''' then olift (cret a)
       else obind (ProvisionDevice env) (\<lambda>_. connection_loop env True)) c"
  by (subst connection_loop.simps)
    (auto simp: attempt_def cmd_simps obind_def read_tpm_params Let_def split: prod.split sum.split option.split)

lemma obind_cong_state:
  "(\<And>r c1. m c = Some (Inr r, c1) \<Longrightarrow> f r c1 = g r c1) \<Longrightarrow> obind m f c = obind m g c"
  by (auto simp: obind_def split: option.split sum.split)

lemma attempt_params: "attempt env c = Some (r, c1) \<Longrightarrow> params c1 = params c"
  by (auto simp: attempt_def cmd_simps read_tpm_params split: prod.splits sum.splits)

text \<open>The state after \<open>n\<close> attempts that gave no string, with a pause of ten seconds after each.\<close>

fun waits :: "('x, 'd, 'p) client_env \<Rightarrow> nat \<Rightarrow> ('x, 'd, 'p) AzureDMClient \<Rightarrow> ('x, 'd, 'p) AzureDMClient option" where
  "waits env 0 c = Some c"
| "waits env (Suc n) c =
     (case read_tpm env c of
        (Inr [], c1) \<Rightarrow> waits env n (c1\<lparr>theHost := e_sleep env 10000 (theHost c1)\<rparr>)
      | _ \<Rightarrow> None)"

lemma connection_loop_waits:
  "\<not> dpsIsEnabled (params c) \<Longrightarrow> waits env n c = Some c' \<Longrightarrow>
     connection_loop env False c = connection_loop env False c' \<and> \<not> dpsIsEnabled (params c')"
proof (induction n arbitrary: c)
  case (Suc n)
  then obtain c1 where c1: "read_tpm env c = (Inr [], c1)"
    and w: "waits env n (c1\<lparr>theHost := e_sleep env 10000 (theHost c1)\<rparr>) = Some c'"
    by (auto split: prod.splits sum.splits list.splits)
  have "\<not> dpsIsEnabled (params (c1\<lparr>theHost := e_sleep env 10000 (theHost c1)\<rparr>))"
    using Suc.prems(1) read_tpm_params [OF c1] by simp
  from Suc.IH [OF this w] show ?case
    using Suc.prems(1) read_tpm_params [OF c1] by (subst connection_loop.simps) (simp add: c1 Let_def)
qed simp

text \<open>
  C25: The configured connection string is used when there is one.  Otherwise, with provisioning
  enabled, the client reads the TPM, provisions the device once if that gives nothing, reads the
  TPM a second time, and fails with DM_ERROR_DPS_CLIENT_FAILED if there is still nothing; an
  exception of the TPM counts as nothing, one of the provisioning is passed on.  With provisioning
  disabled it reads the TPM every ten seconds and returns the first string it finds.  The time
  stamp is taken before the successful read.\<close>

theorem connection_string_choice:
  "(GetConnectionString env c =
     (if connectionString (params c) \<noteq> ''''
      then Some (Inr \<lparr>connection = connectionString (params c), timestamp = e_tick env (world_of c)\<rparr>, c)
      else if dpsIsEnabled (params c)
      then obind (attempt env) (\<lambda>a. if connection a \<noteq> '''' then olift (cret a)
        else obind (ProvisionDevice env) (\<lambda>_. obind (attempt env) (\<lambda>b.
          olift (if connection b \<noteq> '''' then cret b else cthrow dps_failed)))) c
      else connection_loop env False c)) \<and>
   (connectionString (params c) = '''' \<and> \<not> dpsIsEnabled (params c) \<and> waits env n c = Some c1 \<and>
   read_tpm env c1 = (Inr s, c2) \<and> s \<noteq> '''' \<longrightarrow>
     GetConnectionString env c = Some (Inr \<lparr>connection = s, timestamp = e_tick env (world_of c1)\<rparr>, c2))"
proof (rule conjI)
  have dps: "connection_loop env False c =
      obind (attempt env) (\<lambda>a. if connection a \<noteq> '''' then olift (cret a)
        else obind (ProvisionDevice env) (\<lambda>_. obind (attempt env) (\<lambda>b.
          olift (if connection b \<noteq> '''' then cret b else cthrow dps_failed)))) c"
    if "dpsIsEnabled (params c)"
    unfolding connection_loop_dps [OF that]
  proof (rule obind_cong_state)
    fix a c1 assume a: "attempt env c = Some (Inr a, c1)"
    have "dpsIsEnabled (params c1)" using that attempt_params [OF a] by simp
    then show "(if connection a \<noteq> '''' then olift (cret a)
        else obind (ProvisionDevice env) (\<lambda>_. connection_loop env True)) c1 =
      (if connection a \<noteq> '''' then olift (cret a)
        else obind (ProvisionDevice env) (\<lambda>_. obind (attempt env) (\<lambda>b.
          olift (if connection b \<noteq> '''' then cret b else cthrow dps_failed)))) c1"
      by (auto intro!: obind_cong_state connection_loop_tried dest: ProvisionDevice_keeps)
  qed
  show "GetConnectionString env c =
     (if connectionString (params c) \<noteq> ''''
      then Some (Inr \<lparr>connection = connectionString (params c), timestamp = e_tick env (world_of c)\<rparr>, c)
      else if dpsIsEnabled (params c)
      then obind (attempt env) (\<lambda>a. if connection a \<noteq> '''' then olift (cret a)
        else obind (ProvisionDevice env) (\<lambda>_. obind (attempt env) (\<lambda>b.
          olift (if connection b \<noteq> '''' then cret b else cthrow dps_failed)))) c
      else connection_loop env False c)"
    by (simp add: GetConnectionString_def dps)
  show "connectionString (params c) = '''' \<and> \<not> dpsIsEnabled (params c) \<and> waits env n c = Some c1 \<and>
     read_tpm env c1 = (Inr s, c2) \<and> s \<noteq> '''' \<longrightarrow>
       GetConnectionString env c = Some (Inr \<lparr>connection = s, timestamp = e_tick env (world_of c1)\<rparr>, c2)"
  proof (intro impI, elim conjE)
    assume e: "connectionString (params c) = ''''" and d: "\<not> dpsIsEnabled (params c)"
      and w: "waits env n c = Some c1" and r: "read_tpm env c1 = (Inr s, c2)" "s \<noteq> ''''"
    have "connection_loop env False c1 = Some (Inr \<lparr>connection = s, timestamp = e_tick env (world_of c1)\<rparr>, c2)"
      by (subst connection_loop.simps) (simp add: r Let_def)
    then show "GetConnectionString env c = Some (Inr \<lparr>connection = s, timestamp = e_tick env (world_of c1)\<rparr>, c2)"
      using connection_loop_waits [OF d w] e by (simp add: GetConnectionString_def)
  qed
qed

text \<open>A device whose TPM holds a connection string, a hub that hands out handle 7, and one broken manifest.\<close>

definition sample_env :: "(string list, string, unit) client_env" where
  "sample_env =
     \<lparr>e_platform_init = \<lambda>w. (0, w), e_platform_deinit = \<lambda>w. w, e_tick = \<lambda>w. 0,
      e_wait_stop = \<lambda>n h. (True, h), e_sleep = \<lambda>n h. h,
      e_InitializeTpm = \<lambda>w. (0, w), e_DeinitializeTpm = \<lambda>w. w,
      e_GetAzureConnectionString = \<lambda>slot expiry w. ((0, ''HostName=hub''), w),
      e_scope = \<lambda>w. (None, w), e_InitializeDps = \<lambda>w. (0, w), e_DeinitializeDps = \<lambda>w. w,
      e_RegisterDevice = \<lambda>a b c d e f w. (0, w), e_CreateDevice = \<lambda>s w. (7, w), e_CreateModule = \<lambda>s w. (8, w),
      e_SetOption = \<lambda>h s w. w, e_StartBridge = \<lambda>w. w, e_StopBridge = \<lambda>w. w,
      e_Manifests = \<lambda>p w. Inr [(''broken.json'', True), (''plugins'', False)],
      e_ParseFile = \<lambda>f w. Inl (StdException f),
      e_BlankManifest = \<lparr>codeFileName = '''', isDirect = False, isOutOfProc = False, keepAliveTime = 0,
        agentPluginProtocolVersion = '''', handlerInfoList = []\<rparr>,
      e_LoadPlugin = \<lambda>k. cret (), e_HandlersInfo = \<lambda>p. cret [], e_CreateRawHandler = \<lambda>p i. cret i,
      e_Unload = \<lambda>p. cret ()\<rparr>"

definition sample_client :: "(string \<Rightarrow> string + json) \<Rightarrow> (string list, string, unit) AzureDMClient" where
  "sample_client prs =
     (AzureDMClient_new ServiceParameters_new (sample_core prs))
       \<lparr>theHost := AzureRawHost_new ServiceParameters_new (sample_core prs), hostSet := True\<rparr>"

theorem connection_string_choice_witness:
  "map_option fst (GetConnectionString sample_env ((sample_client (\<lambda>_. Inl ''''))\<lparr>params :=
     ServiceParameters_new\<lparr>dpsIsEnabled := False\<rparr>\<rparr>)) = Some (Inr \<lparr>connection = ''HostName=hub'', timestamp = 0\<rparr>)"
proof -
  let ?c = "(sample_client (\<lambda>_. Inl ''''))\<lparr>params := ServiceParameters_new\<lparr>dpsIsEnabled := False\<rparr>\<rparr>"
  have "read_tpm sample_env ?c = (Inr ''HostName=hub'', ?c)"
    by (simp add: read_tpm_def GetConnectionString_tpm_def finally_do_def ask_def tell_def on_world_def on_the_host_def
        on_core_def cmd_simps sample_env_def sample_client_def AzureDMClient_new_def c_str_def)
  then show ?thesis
    using conjunct2 [OF connection_string_choice [of sample_env ?c 0 ?c "''HostName=hub''" ?c]]
    by (simp add: ServiceParameters_new_def sample_env_def SetDpsScopeId_def)
qed

end
