(* ===== verification/Client_Life.thy ===== *)
theory Client_Life
  imports DM_Client Service_Control
begin

text \<open>
  Properties of the client over its whole life: how a run ends, what happens to the hub handles,
  when the connection is renewed, and how plug-ins that fail are kept apart.
\<close>

section \<open>How a run ends\<close>

lemma keeps_no_host [preserves_intros]:
  "preserves (\<lambda>c. \<not> hostSet c) (on_the_host m)"
  "preserves (\<lambda>c. \<not> hostSet c) (on_world m')"
  "preserves (\<lambda>c. \<not> hostSet c) (tell g)"
  by (auto simp: preserves_def tell_def on_world_def on_the_host_def split: prod.split)

lemma keeps_no_host_Deinit [preserves_intros]:
  "preserves (\<lambda>c. \<not> hostSet c) (DeinitializeIoTHubConnection env)"
  unfolding DeinitializeIoTHubConnection_def by (intro preserves_intros) simp_all

lemma cseq_returns: "cseq m n s = (Inr x, s') \<Longrightarrow> \<exists>y s1. m s = (Inr y, s1) \<and> n s1 = (Inr x, s')"
  by (auto simp: cmd_simps split: prod.splits sum.splits)

lemma Deinitialize_clears:
  assumes "Deinitialize env ops c = (Inr u, c')"
  shows "\<not> hostSet c'"
proof -
  obtain c1 c2 c3 where "cmod (hostSet_update (\<lambda>_. False)) c1 = (Inr (), c2)"
    and t: "tell (e_StopBridge env) c2 = (Inr (), c3)" and d: "DeinitializeIoTHubConnection env c3 = (Inr u, c')"
    using assms unfolding Deinitialize_def by (auto dest!: cseq_returns)
  then have "\<not> hostSet c2" by (auto simp: cmod_def)
  then have "\<not> hostSet c3" using preservesD [OF keeps_no_host(3), of c2 "e_StopBridge env"] t by simp
  then show ?thesis using preservesD [OF keeps_no_host_Deinit, of c3 env] d by simp
qed

lemma Deinitialize_null: "\<not> hostSet c \<Longrightarrow> fst (Deinitialize env ops c) = Inl Terminate"
  by (simp add: Deinitialize_def active_def cmd_simps)

lemma destructor_null:
  assumes "\<not> hostSet c"
  shows "fst (destructor env ops c) = Inl Terminate"
proof -
  let ?unload = "cbind (cget pluginsMap) (cfor (\<lambda>(_, p). on_world (e_Unload env p)))"
  have "preserves (\<lambda>c. \<not> hostSet c) ?unload"
    by (intro preserves_intros) (simp add: keeps_no_host split: prod.split)
  then have "\<not> hostSet (snd (?unload c))" using assms by (rule preservesD)
  then show ?thesis
    using Deinitialize_null [of "snd (?unload c)" env ops]
    by (auto simp: destructor_def cnoexcept_def cseq_def cbind_def split: prod.splits sum.splits)
qed

lemma Run_ends_without_host: "Run env ops sp c = Some (Inr (), c') \<Longrightarrow> \<not> hostSet c'"
  by (auto simp: Run_def obind_def stop_client_def
      dest!: cseq_returns dest: Deinitialize_clears split: option.splits sum.splits prod.splits)

lemma run_client_not_normal: "run_client env ops s = Some (r, s') \<Longrightarrow> r \<noteq> Inr ()"
  by (auto simp: run_client_def dest!: Run_ends_without_host
      split: option.splits prod.splits sum.splits) (metis destructor_null fst_conv sum.distinct(1))+

lemma RunClient_loop_normal_run:
  "RunClient_loop run load sleep s = Some y \<Longrightarrow>
     (\<forall>s r s'. run s = Some (r, s') \<longrightarrow> r \<noteq> Inr ()) \<longrightarrow> fst y \<noteq> Inr ()"
proof (rule RunClient_loop.raw_induct [where P = "\<lambda>run load sleep s y.
    (\<forall>s r s'. run s = Some (r, s') \<longrightarrow> r \<noteq> Inr ()) \<longrightarrow> fst y \<noteq> Inr ()"])
    fix RC :: "('a, unit) ocmd \<Rightarrow> ('a, unit) cmd \<Rightarrow> (nat \<Rightarrow> 'a \<Rightarrow> 'a) \<Rightarrow> 'a \<Rightarrow> (unit res \<times> 'a) option"
      and run :: "('a, unit) ocmd" and load sleep s y
    assume IH: "\<And>run load sleep s y. RC run load sleep s = Some y \<Longrightarrow>
        (\<forall>s r s'. run s = Some (r, s') \<longrightarrow> r \<noteq> Inr ()) \<longrightarrow> fst y \<noteq> Inr ()"
      and body: "(case run s of None \<Rightarrow> None
        | Some rs \<Rightarrow> (case ccatch (cseq (\<lambda>_. rs) (cret False)) (\<lambda>e. cret True) s of (r, s1) \<Rightarrow>
            (case r of Inl e \<Rightarrow> Some (Inl e, s1)
             | Inr failureOccured \<Rightarrow> if \<not> failureOccured then Some (Inr (), s1)
                 else (case load (sleep (60 * 1000) s1) of (l, s2) \<Rightarrow>
                   (case l of Inl e \<Rightarrow> Some (Inl e, s2) | Inr _ \<Rightarrow> RC run load sleep s2))))) = Some y"
    show "(\<forall>s r s'. run s = Some (r, s') \<longrightarrow> r \<noteq> Inr ()) \<longrightarrow> fst y \<noteq> Inr ()"
    proof
      assume never: "\<forall>s r s'. run s = Some (r, s') \<longrightarrow> r \<noteq> Inr ()"
      obtain r s1 where r: "run s = Some (r, s1)" using body by (cases "run s") auto
      then obtain e where e: "run s = Some (Inl e, s1)" using never by (cases r) auto
      obtain l s2 where l: "load (sleep 60000 s1) = (l, s2)" by fastforce
      show "fst y \<noteq> Inr ()"
      proof (cases "catchable e \<and> l = Inr ()")
        case True
        then have "RC run load sleep s2 = Some y" using body by (simp add: e l cmd_simps)
        then show ?thesis using IH never by blast
      next
        case False
        then show ?thesis using body by (cases l) (auto simp: e l cmd_simps split: if_splits)
      qed
    qed
qed

text \<open>
  No client ends in an orderly way: when its run returns, it has already given up its host,
  which the destructor then uses again, so the process ends; and so the service's worker never
  leaves its loop except by ending the process or by an exception of the configuration.\<close>

theorem no_orderly_stop:
  "(map_option fst (run_client env ops (sp, w)) =
     (case Run env ops sp (AzureDMClient_new sp w) of
        None \<Rightarrow> None
      | Some (r, c) \<Rightarrow> Some (if r = Inr () then Inl Terminate
          else (case fst (destructor env ops c) of Inl e \<Rightarrow> Inl Terminate | Inr _ \<Rightarrow> r)))) \<and>
   RunClient_loop (run_client env ops) load sleep s \<noteq> Some (Inr (), s')"
proof (rule conjI)
  have d: "Run env ops sp (AzureDMClient_new sp w) = Some (Inr (), c) \<Longrightarrow> fst (destructor env ops c) = Inl Terminate" for c
    by (rule destructor_null [OF Run_ends_without_host])
  show "map_option fst (run_client env ops (sp, w)) =
     (case Run env ops sp (AzureDMClient_new sp w) of
        None \<Rightarrow> None
      | Some (r, c) \<Rightarrow> Some (if r = Inr () then Inl Terminate
          else (case fst (destructor env ops c) of Inl e \<Rightarrow> Inl Terminate | Inr _ \<Rightarrow> r)))"
    by (auto simp: run_client_def dest: d split: option.splits prod.splits sum.splits)
  show "RunClient_loop (run_client env ops) load sleep s \<noteq> Some (Inr (), s')"
    using RunClient_loop_normal_run [of "run_client env ops" load sleep s "(Inr (), s')"]
      run_client_not_normal [of env ops] by (metis fst_conv)
qed

section \<open>The handles of the hub clients\<close>

text \<open>What the SDK has been given back, and the handles the host holds.\<close>

definition handles :: "'x hostcore_scheme \<Rightarrow> nat \<times> nat \<times> nat list" where
  "handles w = (deviceClient w, moduleClient w, destroyedClients w)"

definition keeps_handles :: "('x hostcore_scheme, 'a) cmd \<Rightarrow> bool" where
  "keeps_handles m \<longleftrightarrow> (\<forall>h. preserves (\<lambda>w. handles w = h) m)"

definition quiet_surroundings :: "('x, 'd, 'p) client_env \<Rightarrow> ('x hostcore_scheme, 'd) IRawHandler \<Rightarrow> bool" where
  "quiet_surroundings env ops \<longleftrightarrow>
     (\<forall>w. handles (e_StopBridge env w) = handles w) \<and> (\<forall>w. handles (e_platform_deinit env w) = handles w) \<and>
     (\<forall>d w. handles (snd (snd (rh_SetHandlerHost ops None (d, w)))) = handles w)"

lemma SetHandlerHost_handles:
  assumes "quiet_surroundings env ops"
  shows "handles (snd (snd (obj_SetHandlerHost ops None (obj, w)))) = handles w"
proof (cases obj)
  case (DynamicObj d)
  then show ?thesis
    using assms by (simp add: quiet_surroundings_def with_dyn_def split: prod.split) (metis snd_conv)
qed (simp_all add: with_ctx_def ctx_new_def HandlerBase_SetHandlerHost_def cmd_simps set_this_def)

lemma at_handler_handles:
  assumes "\<And>obj w. handles (snd (snd (m (obj, w)))) = handles w"
  shows "preserves (\<lambda>host. handles (core host) = h) (at_handler k m)"
proof (rule preservesI)
  fix host :: "('a, 'b) AzureRawHost" assume h: "handles (core host) = h"
  show "handles (core (snd (at_handler k m host))) = h"
  proof (cases "map_of (rawHandlerMap host) k")
    case (Some info)
    then show ?thesis
      using assms [of "rawHandler info" "core host"] h by (auto simp: at_handler_def split: prod.split)
  qed (simp add: at_handler_def h)
qed

definition live :: "nat \<Rightarrow> nat list" where
  "live h = (if h = 0 then [] else [h])"

lemma Destroy_handles:
  assumes q: "quiet_surroundings env ops" and d: "Destroy ops host = (Inr u, host')"
  shows "destroyedClients (core host') =
    destroyedClients (core host) @ live (deviceClient (core host)) @ live (moduleClient (core host))"
proof -
  let ?forget = "cbind (cget GetHandlerIds) (cfor (\<lambda>k.
       cseq (at_handler k (obj_SetHandlerHost ops None))
         (at_handler k (\<lambda>(obj, w). (Inr (), NullObj, w)))))"
  let ?give_back = "\<lambda>w. destroy_client moduleClient moduleClient_update (destroy_client deviceClient deviceClient_update w)"
  have p: "preserves (\<lambda>host'. handles (core host') = handles (core host)) ?forget"
    by (intro preserves_intros at_handler_handles SetHandlerHost_handles [OF q]) simp
  obtain h1 where h1: "?forget host = (Inr (), h1)" "on_core (cmod ?give_back) h1 = (Inr u, host')"
    using d unfolding Destroy_def by (auto dest!: cseq_returns)
  have "handles (core h1) = handles (core host)" using preservesD [OF p, of host] h1(1) by simp
  moreover have "core host' = ?give_back (core h1)" using h1(2) by (auto simp: on_core_def cmod_def)
  ultimately show ?thesis by (simp add: handles_def destroy_client_def live_def)
qed

lemma tell_world: "tell f c = (Inr (), c\<lparr>theHost := (theHost c)\<lparr>core := f (world_of c)\<rparr>\<rparr>)"
  by (simp add: tell_def on_world_def on_the_host_def on_core_def cmod_def world_of_def)

text \<open>The client gives its own handles back and forgets them; the host is not told.\<close>

lemma DeinitializeIoTHubConnection_handles:
  assumes "\<And>w. handles (e_platform_deinit env w) = handles w"
  shows "fst (DeinitializeIoTHubConnection env c) = Inr ()"
    and "handles (world_of (snd (DeinitializeIoTHubConnection env c))) =
      (deviceClient (world_of c), moduleClient (world_of c),
       destroyedClients (world_of c) @ live (dmDevice c) @ live (dmModule c))"
    and "dmDevice (snd (DeinitializeIoTHubConnection env c)) = 0"
    and "dmModule (snd (DeinitializeIoTHubConnection env c)) = 0"
    and "hostSet (snd (DeinitializeIoTHubConnection env c)) = hostSet c"
  using assms
  by (simp_all add: DeinitializeIoTHubConnection_def cbind_def cseq_def cget_def cwhen_def cret_def cmod_def
      tell_world world_of_def sdk_destroy_def handles_def live_def)

lemma Deinitialize_handles:
  assumes q: "quiet_surroundings env ops" and d: "Deinitialize env ops c = (Inr u, c')"
  shows "destroyedClients (world_of c') = destroyedClients (world_of c) @ live (deviceClient (world_of c)) @
    live (moduleClient (world_of c)) @ live (dmDevice c) @ live (dmModule c)"
proof -
  obtain c1 where a: "active (Destroy ops) (c\<lparr>stubHost := False\<rparr>) = (Inr (), c1)"
    and rest: "cseq (tell (e_StopBridge env)) (DeinitializeIoTHubConnection env) (c1\<lparr>hostSet := False\<rparr>) = (Inr u, c')"
    using d unfolding Deinitialize_def by (auto simp: cmod_def dest!: cseq_returns) (auto simp: cseq_def cbind_def)
  obtain h where h: "Destroy ops (theHost c) = (Inr (), h)" "c1 = c\<lparr>stubHost := False, theHost := h\<rparr>"
    using a by (auto simp: active_def on_the_host_def split: if_splits prod.splits)
  let ?c2 = "c1\<lparr>hostSet := False, theHost := h\<lparr>core := e_StopBridge env (core h)\<rparr>\<rparr>"
  have "DeinitializeIoTHubConnection env ?c2 = (Inr u, c')"
    using rest by (simp add: cseq_def cbind_def tell_world world_of_def h(2))
  then have "destroyedClients (world_of c') =
      destroyedClients (e_StopBridge env (core h)) @ live (dmDevice c) @ live (dmModule c)"
    using DeinitializeIoTHubConnection_handles(2) [of env ?c2] q
    by (simp add: quiet_surroundings_def handles_def world_of_def h(2))
  then show ?thesis
    using q Destroy_handles [OF q h(1)] by (simp add: quiet_surroundings_def handles_def world_of_def)
qed

lemma create_device_client_handles:
  assumes "create_device_client env s c = (Inr (), c1)"
  shows "dmDevice c1 \<noteq> 0" and "deviceClient (world_of c1) = dmDevice c1"
  using assms
  by (auto simp: create_device_client_def ask_def on_world_def on_the_host_def on_core_def tell_def active_def
      cmd_simps InitializeDeviceConnection_def world_of_def split: prod.splits sum.splits if_splits)

text \<open>
  The handle of a connected hub client is given back to the SDK twice: once by the host, once
  by the client, when the client is taken down while it is connected, and just so when it is taken
  down after a disconnection (a renewal that could not connect again), because the host keeps
  the handle the client has given back.\<close>

theorem handles_given_back_twice:
  assumes "quiet_surroundings env ops" and "create_device_client env s c = (Inr (), c1)"
    and "dmModule c1 = 0" and "moduleClient (world_of c1) = 0"
  shows "(Deinitialize env ops c1 = (Inr (), c2) \<longrightarrow>
      destroyedClients (world_of c2) = destroyedClients (world_of c1) @ [dmDevice c1, dmDevice c1]) \<and>
    (DeinitializeIoTHubConnection env c1 = (Inr (), c3) \<and> Deinitialize env ops c3 = (Inr (), c4) \<longrightarrow>
      destroyedClients (world_of c4) = destroyedClients (world_of c1) @ [dmDevice c1, dmDevice c1])"
proof (intro conjI impI)
  note created = create_device_client_handles [OF assms(2)]
  have pd: "handles (e_platform_deinit env w) = handles w" for w
    using assms(1) by (simp add: quiet_surroundings_def)
  show "Deinitialize env ops c1 = (Inr (), c2) \<Longrightarrow>
      destroyedClients (world_of c2) = destroyedClients (world_of c1) @ [dmDevice c1, dmDevice c1]"
    using Deinitialize_handles [OF assms(1), of c1] created assms(3,4) by (simp add: live_def)
  show "DeinitializeIoTHubConnection env c1 = (Inr (), c3) \<and> Deinitialize env ops c3 = (Inr (), c4) \<Longrightarrow>
      destroyedClients (world_of c4) = destroyedClients (world_of c1) @ [dmDevice c1, dmDevice c1]"
    using Deinitialize_handles [OF assms(1), of c3] DeinitializeIoTHubConnection_handles [where c = c1, OF pd]
      created assms(3,4)
    by (simp add: live_def handles_def)
qed

lemma sample_quiet: "quiet_surroundings sample_env sample_ops"
  by (simp add: quiet_surroundings_def sample_env_def sample_ops_def cret_def)

lemma sample_create:
  "create_device_client sample_env s (sample_client prs) =
     (Inr (), (sample_client prs)\<lparr>dmDevice := 7, theHost := InitializeDeviceConnection 7 (theHost (sample_client prs))\<rparr>)"
  by (simp add: create_device_client_def ask_def on_world_def on_the_host_def on_core_def tell_def active_def
      cmd_simps sample_env_def sample_client_def AzureDMClient_new_def InitializeDeviceConnection_def)

lemma sample_Deinitialize:
  "fst (Deinitialize sample_env sample_ops ((sample_client prs)\<lparr>dmDevice := h,
     theHost := InitializeDeviceConnection h' (theHost (sample_client prs))\<rparr>)) = Inr ()"
  by (simp add: Deinitialize_def Destroy_def DeinitializeIoTHubConnection_def active_def on_the_host_def on_core_def
      tell_world cmd_simps InitializeDeviceConnection_def GetHandlerIds_def sample_client_def AzureDMClient_new_def
      AzureRawHost_new_def)

theorem handles_given_back_twice_witness:
  "destroyedClients (world_of (snd (Deinitialize sample_env sample_ops
     (snd (create_device_client sample_env ''HostName=hub'' (sample_client (\<lambda>_. Inl ''''))))))) = [7, 7]"
proof -
  let ?c = "sample_client (\<lambda>_. Inl '''')"
  let ?c1 = "?c\<lparr>dmDevice := 7, theHost := InitializeDeviceConnection 7 (theHost ?c)\<rparr>"
  obtain c2 where c2: "Deinitialize sample_env sample_ops ?c1 = (Inr (), c2)"
    using sample_Deinitialize [where prs = "\<lambda>_. Inl ''''" and h = 7 and h' = 7] by (metis prod.collapse)
  have zero: "dmModule ?c1 = 0" "moduleClient (world_of ?c1) = 0" "destroyedClients (world_of ?c1) = []"
    by (simp_all add: sample_client_def AzureDMClient_new_def world_of_def InitializeDeviceConnection_def
        AzureRawHost_new_def sample_core_def)
  have "destroyedClients (world_of c2) = destroyedClients (world_of ?c1) @ [dmDevice ?c1, dmDevice ?c1]"
    using handles_given_back_twice [OF sample_quiet sample_create zero(1,2), of c2] c2 by blast
  then show ?thesis by (simp add: sample_create c2 zero)
qed

section \<open>Renewal\<close>

lemma unat_seconds_in_ticks:
  "unat (seconds_in_ticks s) = nat (1000 * s mod 2 ^ 32)"
proof -
  have "uint ((word_of_int s :: 32 word) * 1000) = 1000 * s mod 2 ^ 32"
    by (simp add: uint_word_ariths unsigned_of_int take_bit_eq_mod mod_mult_right_eq mult.commute)
  then have "unat ((word_of_int s :: 32 word) * 1000) = nat (1000 * s mod 2 ^ 32)"
    by (metis nat_uint_eq)
  moreover have "unat (ucast (x :: 32 word) :: 64 word) = unat x" for x
  proof -
    have "unat x < 2 ^ LENGTH(32)" by (rule unsigned_less)
    then show ?thesis by (simp add: unsigned_ucast_eq take_bit_nat_eq_self_iff)
  qed
  ultimately show ?thesis by (simp add: seconds_in_ticks_def)
qed

lemma unat_seconds_small:
  assumes "0 \<le> s" and "s \<le> 4294967"
  shows "unat (seconds_in_ticks s) = nat (1000 * s)"
  using assms by (simp add: unat_seconds_in_ticks)

lemma word_difference:
  fixes a b :: "64 word"
  shows "b \<le> a \<Longrightarrow> unat (a - b) = unat a - unat b"
    and "a < b \<Longrightarrow> b - a \<le> t \<Longrightarrow> t \<le> clock \<Longrightarrow> t + (a - b) < clock"
proof -
  show sub: "b \<le> a \<Longrightarrow> unat (a - b) = unat a - unat b" for a b :: "64 word" by (rule unat_sub)
  assume less: "a < b" and t: "b - a \<le> t" "t \<le> clock"
  have "b - a \<noteq> 0" using less by auto
  then have "0 < unat (b - a)" by (simp add: unat_gt_0)
  then have "unat (t - (b - a)) < unat t"
    using sub [OF t(1)] t(1) by (simp add: word_le_nat_alt)
  then have "t - (b - a) < t" by (simp add: word_less_nat_alt)
  then show "t + (a - b) < clock" using t(2) by (simp add: algebra_simps)
qed

text \<open>
  With settings below 2 to the 32 milliseconds and a grace period within the life of a token,
  the connection is renewed that period before the token expires.  The settings are multiplied by
  1000 in 32 bits, so longer ones wrap; and when the grace period is the longer one the
  difference wraps in 64 bits, the renewal time lies in the past and every round reconnects.\<close>

theorem renewal_time:
  assumes "0 \<le> sasRenewalGracePeriod sp" and "sasRenewalGracePeriod sp \<le> 4294967"
    and "0 \<le> sasExpiryInterval sp" and "sasExpiryInterval sp \<le> 4294967"
  shows "(sasRenewalGracePeriod sp \<le> sasExpiryInterval sp \<longrightarrow>
      unat (renewalStartInTicks sp) = nat (1000 * (sasExpiryInterval sp - sasRenewalGracePeriod sp))) \<and>
    (sasExpiryInterval sp < sasRenewalGracePeriod sp \<and>
      ls = \<lparr>firstTime = False, connected = True, renewalAbsoluteStart = t + renewalStartInTicks sp\<rparr> \<and>
      stop_signalled env c = (Inr False, c1) \<and>
      nat (1000 * (sasRenewalGracePeriod sp - sasExpiryInterval sp)) \<le> unat t \<and>
      t \<le> e_tick env (world_of c1) \<longrightarrow>
      run_round env ops start ls c =
        obind (reconnect env ops start ls) (\<lambda>ls1.
          olift (cseq (cwhen (connected ls1) (pause env 1000)) (cret (Some ls1)))) c1)"
proof (intro conjI impI)
  let ?e = "seconds_in_ticks (sasExpiryInterval sp)" and ?g = "seconds_in_ticks (sasRenewalGracePeriod sp)"
  have e: "unat ?e = nat (1000 * sasExpiryInterval sp)" and g: "unat ?g = nat (1000 * sasRenewalGracePeriod sp)"
    using assms by (simp_all add: unat_seconds_small)
  show "sasRenewalGracePeriod sp \<le> sasExpiryInterval sp \<Longrightarrow>
      unat (renewalStartInTicks sp) = nat (1000 * (sasExpiryInterval sp - sasRenewalGracePeriod sp))"
    using word_difference(1) [of ?g ?e] e g assms
    by (simp add: renewalStartInTicks_def word_le_nat_alt nat_diff_distrib algebra_simps)
  assume "sasExpiryInterval sp < sasRenewalGracePeriod sp \<and>
      ls = \<lparr>firstTime = False, connected = True, renewalAbsoluteStart = t + renewalStartInTicks sp\<rparr> \<and>
      stop_signalled env c = (Inr False, c1) \<and>
      nat (1000 * (sasRenewalGracePeriod sp - sasExpiryInterval sp)) \<le> unat t \<and> t \<le> e_tick env (world_of c1)"
  then have less: "sasExpiryInterval sp < sasRenewalGracePeriod sp"
    and ls: "ls = \<lparr>firstTime = False, connected = True, renewalAbsoluteStart = t + renewalStartInTicks sp\<rparr>"
    and stop: "stop_signalled env c = (Inr False, c1)"
    and t: "nat (1000 * (sasRenewalGracePeriod sp - sasExpiryInterval sp)) \<le> unat t"
    and now: "t \<le> e_tick env (world_of c1)" by simp_all
  have eg: "?e < ?g" using less e g assms by (simp add: word_less_nat_alt)
  then have "?g - ?e \<le> t"
    using t word_difference(1) [of ?e ?g] e g assms less
    by (simp add: word_le_nat_alt nat_diff_distrib right_diff_distrib)
  then have "t + renewalStartInTicks sp < e_tick env (world_of c1)"
    using word_difference(2) [OF eg _ now] by (simp add: renewalStartInTicks_def)
  then show "run_round env ops start ls c =
        obind (reconnect env ops start ls) (\<lambda>ls1.
          olift (cseq (cwhen (connected ls1) (pause env 1000)) (cret (Some ls1)))) c1"
    by (simp add: run_round_def stop ls cget_def)
qed

theorem renewal_time_witness:
  "unat (renewalStartInTicks (ServiceParameters_new\<lparr>sasExpiryInterval := 86400, sasRenewalGracePeriod := 3600\<rparr>)) =
     82800000"
  using renewal_time [of "ServiceParameters_new\<lparr>sasExpiryInterval := 86400, sasRenewalGracePeriod := 3600\<rparr>"]
  by simp

section \<open>Plug-ins that fail\<close>

text \<open>Against the map \<open>m\<close>: its entries are still there, and what was added is dynamic and inactive.\<close>

definition only_adds :: "('x, 'd) RawHandlerInfo smap \<Rightarrow> ('x, 'd, 'p) AzureDMClient \<Rightarrow> bool" where
  "only_adds m c \<longleftrightarrow>
     (\<forall>k info. map_of m k = Some info \<longrightarrow> map_of (rawHandlerMap (theHost c)) k = Some info) \<and>
     (\<forall>k info. map_of m k = None \<and> map_of (rawHandlerMap (theHost c)) k = Some info \<longrightarrow>
        state info = eInactive \<and> (\<exists>d. rawHandler info = DynamicObj d))"

lemma only_adds_on_world [preserves_intros]: "preserves (only_adds m) (on_world w)"
  by (auto simp: preserves_def only_adds_def on_world_def on_the_host_def on_core_def split: prod.split)

lemma preserves_on_core_map: "preserves (\<lambda>host. rawHandlerMap host = m) (on_core f)"
  by (auto simp: preserves_def on_core_def split: prod.split)

lemma RegisterDynamicHandler_adds:
  "\<exists>d. rawHandlerMap (snd (RegisterDynamicHandler ops create hid deps host)) = rawHandlerMap host \<or>
     map_of (rawHandlerMap host) hid = None \<and>
     rawHandlerMap (snd (RegisterDynamicHandler ops create hid deps host)) =
       sm_put hid \<lparr>state = eInactive, rawHandler = DynamicObj d, dependencies = deps\<rparr> (rawHandlerMap host)"
  by (auto simp: RegisterDynamicHandler_def cmd_simps on_core_def split: prod.split sum.split)

lemma only_adds_register [preserves_intros]:
  "preserves (only_adds m) (active (RegisterDynamicHandler ops create hid deps))"
proof (rule preservesI)
  fix c :: "('a, 'b, 'c) AzureDMClient" assume c: "only_adds m c"
  show "only_adds m (snd (active (RegisterDynamicHandler ops create hid deps) c))"
    using c RegisterDynamicHandler_adds [of ops create hid deps "theHost c"]
    by (auto simp: only_adds_def active_def on_the_host_def split: prod.split if_splits)
qed

lemma only_adds_process_manifest [preserves_intros]: "preserves (only_adds m) (process_manifest env ops f)"
  unfolding process_manifest_def Client_RegisterDynamicHandler_def
  by (intro preserves_intros) (simp add: only_adds_def)

lemma only_adds_process_manifests [preserves_intros]: "preserves (only_adds m) (process_manifests env ops files)"
  unfolding process_manifests_def
  by (intro preserves_intros) (auto intro!: preserves_intros split: prod.split)

lemma quiet_process_manifests: "quiet (process_manifests env ops files)"
  unfolding process_manifests_def
  by (intro quiet_intros) (auto intro!: quiet_intros split: prod.split)

lemma unreadable_manifest:
  assumes "\<And>w. e_ParseFile env f w = Inl e" and "catchable e"
  shows "ccatch (process_manifest env ops f) (\<lambda>ex. cret ()) = cret ()"
  using assms by (simp add: process_manifest_def FromJsonFile_def cmd_simps)

text \<open>
  C26: Reading the plug-in manifests of a directory that can be listed ends without an exception
  unless the process ends; a manifest that cannot be read is as good as absent, whatever comes
  before or after it; and plug-ins only add handlers, which are inactive, under ids that are
  free: no handler registered before is replaced or removed.\<close>

theorem plugins_are_contained:
  assumes "e_Manifests env path (world_of c) = Inr (fs @ (f, True) # gs)"
  shows "fst (EnumeratePlugins env ops path c) \<in> {Inr (), Inl Terminate} \<and>
    ((\<forall>w. e_ParseFile env f w = Inl e) \<and> catchable e \<longrightarrow>
      EnumeratePlugins env ops path c = process_manifests env ops (fs @ gs) c) \<and>
    only_adds (rawHandlerMap (theHost c)) (snd (EnumeratePlugins env ops path c))"
proof (intro conjI impI)
  have e: "EnumeratePlugins env ops path c = process_manifests env ops (fs @ (f, True) # gs) c"
    using assms by (simp add: EnumeratePlugins_def cmd_simps)
  show "fst (EnumeratePlugins env ops path c) \<in> {Inr (), Inl Terminate}"
    using quiet_process_manifests [of env ops "fs @ (f, True) # gs"]
    by (cases "fst (process_manifests env ops (fs @ (f, True) # gs) c)") (auto simp: e quiet_def)
  show "(\<forall>w. e_ParseFile env f w = Inl e) \<and> catchable e \<Longrightarrow>
      EnumeratePlugins env ops path c = process_manifests env ops (fs @ gs) c"
    unfolding e by (simp add: process_manifests_def cfor_append unreadable_manifest) (simp add: cmd_simps)
  have "only_adds (rawHandlerMap (theHost c)) c" by (auto simp: only_adds_def)
  then show "only_adds (rawHandlerMap (theHost c)) (snd (EnumeratePlugins env ops path c))"
    unfolding e by (rule preservesD [OF only_adds_process_manifests])
qed

theorem plugins_are_contained_witness:
  "EnumeratePlugins sample_env sample_ops '''' (sample_client (\<lambda>_. Inl '''')) =
     (Inr (), sample_client (\<lambda>_. Inl ''''))"
proof -
  have files: "e_Manifests sample_env '''' w = Inr ([] @ (''broken.json'', True) # [(''plugins'', False)])" for w
    by (simp add: sample_env_def)
  have parse: "e_ParseFile sample_env ''broken.json'' w = Inl (StdException ''broken.json'')" for w
    by (simp add: sample_env_def)
  show ?thesis
    using plugins_are_contained [where ops = sample_ops and e = "StdException ''broken.json''", OF files] parse
    by (simp add: process_manifests_def cmd_simps)
qed

end
