(* ===== verification/Xml_Reader.thy ===== *)
theory Xml_Reader
  imports Reporting
begin

text \<open>
  device-agent/common/CSPs/SyncMLHelpers.cpp: the three readers of the XML that the MDM
  server answers with.  They drive the pull parser XmlLite, a library of the platform: it
  enters as the record \<open>xml_lite\<close>, the results of its calls and the nodes \<open>Read\<close>
  yields for a text, and what is proved holds for every such record.  The main theorem
  states the item reader against the document tree.
\<close>

section \<open>The pull parser\<close>

text \<open>\<open>FAILED(hr)\<close>; a call that fills an out parameter answers the failing \<open>HRESULT\<close> or the value.\<close>

definition FAILED :: "int \<Rightarrow> bool" where
  "FAILED hr \<longleftrightarrow> hr < 0"

type_synonym 'a hres = "int + 'a"

datatype xml_node =
    Element_Node "string hres" "string hres" bool
  | EndElement_Node "string hres" "string hres"
  | Text_Node "string hres"
  | Whitespace_Node "string hres"
  | Other_Node

record xml_lite =
  xl_stream :: int
  xl_create :: int
  xl_property :: int
  xl_input :: int
  xl_nodes :: "string \<Rightarrow> xml_node list"

definition xml_error :: "int \<Rightarrow> string \<Rightarrow> exn" where
  "xml_error hr m = DMExc XmlLite hr m"

fun hr_get :: "string \<Rightarrow> 'a hres \<Rightarrow> 'a res" where
  "hr_get m (Inl hr) = Inl (xml_error hr m)"
| "hr_get m (Inr v) = Inr v"

text \<open>The beginning of every reader: the stream over a copy of the text, then the reader on it.\<close>

definition open_reader :: "xml_lite \<Rightarrow> string \<Rightarrow> string \<Rightarrow> xml_node list res" where
  "open_reader xl streamMessage source =
     (if FAILED (xl_stream xl) then Inl (DMExc Windows (xl_stream xl) streamMessage)
      else if FAILED (xl_create xl) then Inl (xml_error (xl_create xl) ''Error: Failed to create xml reader.'')
      else if FAILED (xl_property xl)
      then Inl (xml_error (xl_property xl) ''Error: XmlReaderProperty_DtdProcessing() failed.'')
      else if FAILED (xl_input xl) then Inl (xml_error (xl_input xl) ''Error: SetInput() failed.'')
      else Inr (xl_nodes xl source))"

definition qname :: "string \<Rightarrow> string \<Rightarrow> string" where
  "qname prefix localName = (if prefix \<noteq> [] then prefix @ '':'' @ localName else localName)"

definition element_name :: "string hres \<Rightarrow> string hres \<Rightarrow> string res" where
  "element_name prefix localName =
     rbind (hr_get ''Error: GetPrefix() failed.'' prefix) (\<lambda>p.
     rbind (hr_get ''Error: GetLocalName() failed.'' localName) (\<lambda>n.
     Inr (qname p n)))"

definition node_text :: "string hres \<Rightarrow> string res" where
  "node_text v = hr_get ''Error: GetValue() failed.'' v"

text \<open>The current path: every name on the stack followed by a backslash.\<close>

definition backslash :: char where
  "backslash = CHR 0x5C"

definition xml_path :: "string list \<Rightarrow> string" where
  "xml_path pathStack = concat (map (\<lambda>it. it @ [backslash]) pathStack)"

definition item_names :: "string list" where
  "item_names = [''SyncML'', ''SyncBody'', ''Results'', ''Item'']"

definition uri_names :: "string list" where
  "uri_names = item_names @ [''Source'', ''LocURI'']"

definition data_names :: "string list" where
  "data_names = item_names @ [''Data'']"

definition RESULTS_XML_PATH :: string where
  "RESULTS_XML_PATH = xml_path data_names"

definition STATUS_XML_PATH :: string where
  "STATUS_XML_PATH = xml_path [''SyncML'', ''SyncBody'', ''Status'', ''Data'']"

definition resultPath :: string where
  "resultPath = xml_path [''SyncML'', ''SyncBody'', ''Results'']"

section \<open>ReadXmlStructData\<close>

record item_locals =
  il_stack :: "string list"
  il_path :: string
  il_uri :: string
  il_value :: string

definition item_locals_new :: item_locals where
  "item_locals_new = \<lparr>il_stack = [], il_path = [], il_uri = [], il_value = []\<rparr>"

definition struct_open :: "string \<Rightarrow> item_locals \<Rightarrow> item_locals" where
  "struct_open name l =
     (let stack = il_stack l @ [name]; l' = l\<lparr>il_stack := stack, il_path := xml_path stack\<rparr>
      in if il_path l' = xml_path item_names then l'\<lparr>il_value := [], il_uri := []\<rparr> else l')"

definition struct_close ::
    "(string list \<Rightarrow> string \<Rightarrow> ('s, unit) cmd) \<Rightarrow> item_locals \<Rightarrow> ('s, item_locals) cmd" where
  "struct_close handler l =
     (let pop = (\<lambda>l. l\<lparr>il_stack := butlast (il_stack l), il_path := xml_path (butlast (il_stack l))\<rparr>)
      in if il_path l = xml_path item_names
         then cseq (handler (SplitString (CHR ''/'') (il_uri l)) (il_value l))
                (cret (pop (l\<lparr>il_value := [], il_uri := []\<rparr>)))
         else cret (pop l))"

definition struct_text :: "string \<Rightarrow> item_locals \<Rightarrow> item_locals" where
  "struct_text s l =
     (if il_path l = xml_path uri_names then l\<lparr>il_uri := s\<rparr>
      else if il_path l = xml_path data_names then l\<lparr>il_value := s\<rparr>
      else l)"

fun struct_node ::
    "(string list \<Rightarrow> string \<Rightarrow> ('s, unit) cmd) \<Rightarrow> xml_node \<Rightarrow> item_locals \<Rightarrow> ('s, item_locals) cmd" where
  "struct_node handler (Element_Node p n isEmpty) l =
     cbind (clift (element_name p n)) (\<lambda>name. cret (if isEmpty then l else struct_open name l))"
| "struct_node handler (EndElement_Node p n) l =
     cbind (clift (element_name p n)) (\<lambda>_. struct_close handler l)"
| "struct_node handler (Text_Node v) l = cbind (clift (node_text v)) (\<lambda>s. cret (struct_text s l))"
| "struct_node handler (Whitespace_Node v) l = cbind (clift (node_text v)) (\<lambda>s. cret (struct_text s l))"
| "struct_node handler Other_Node l = cret l"

fun struct_loop ::
    "(string list \<Rightarrow> string \<Rightarrow> ('s, unit) cmd) \<Rightarrow> xml_node list \<Rightarrow> item_locals \<Rightarrow> ('s, item_locals) cmd" where
  "struct_loop handler [] l = cret l"
| "struct_loop handler (n # ns) l = cbind (struct_node handler n l) (struct_loop handler ns)"

definition ReadXmlStructData ::
    "xml_lite \<Rightarrow> string \<Rightarrow> (string list \<Rightarrow> string \<Rightarrow> ('s, unit) cmd) \<Rightarrow> ('s, unit) cmd" where
  "ReadXmlStructData xl resultSyncML handler =
     cbind (clift (open_reader xl ''CreateStreamOnHGlobal call failed.'' resultSyncML)) (\<lambda>nodes.
     cseq (struct_loop handler nodes item_locals_new) (cret ()))"

section \<open>ReadXmlValue\<close>

text \<open>The end of an element pops the stack and leaves \<open>currentPath\<close> as it is.\<close>

record value_locals =
  vl_stack :: "string list"
  vl_path :: string
  vl_value :: string
  valueFound :: bool
  pathFound :: bool

definition value_locals_new :: value_locals where
  "value_locals_new = \<lparr>vl_stack = [], vl_path = [], vl_value = [], valueFound = False, pathFound = False\<rparr>"

definition value_open :: "string \<Rightarrow> string \<Rightarrow> value_locals \<Rightarrow> value_locals" where
  "value_open target name l =
     (let stack = vl_stack l @ [name]; l' = l\<lparr>vl_stack := stack, vl_path := xml_path stack\<rparr>
      in if target = vl_path l' then l'\<lparr>pathFound := True\<rparr> else l')"

definition value_text :: "string \<Rightarrow> string \<Rightarrow> value_locals \<Rightarrow> value_locals" where
  "value_text target s l =
     (if target = vl_path l then l\<lparr>vl_value := s, valueFound := True\<rparr> else l)"

fun value_node :: "string \<Rightarrow> xml_node \<Rightarrow> value_locals \<Rightarrow> value_locals res" where
  "value_node target (Element_Node p n isEmpty) l =
     rbind (element_name p n) (\<lambda>name. Inr (if isEmpty then l else value_open target name l))"
| "value_node target (EndElement_Node p n) l =
     rbind (element_name p n) (\<lambda>_. Inr (l\<lparr>vl_stack := butlast (vl_stack l)\<rparr>))"
| "value_node target (Text_Node v) l = rbind (node_text v) (\<lambda>s. Inr (value_text target s l))"
| "value_node target (Whitespace_Node v) l = rbind (node_text v) (\<lambda>s. Inr (value_text target s l))"
| "value_node target Other_Node l = Inr l"

fun value_loop :: "string \<Rightarrow> xml_node list \<Rightarrow> value_locals \<Rightarrow> value_locals res" where
  "value_loop target [] l = Inr l"
| "value_loop target (n # ns) l =
     (if valueFound l then Inr l else rbind (value_node target n l) (value_loop target ns))"

definition missing_path :: "string \<Rightarrow> exn" where
  "missing_path targetXmlPath =
     DMExc DeviceAgent DM_ERROR_MISSING_XML_PATH (targetXmlPath @ '' not found.'')"

definition ReadXmlValue :: "xml_lite \<Rightarrow> string \<Rightarrow> string \<Rightarrow> string res" where
  "ReadXmlValue xl resultSyncML targetXmlPath =
     rbind (open_reader xl ''Failed to create stream object'' resultSyncML) (\<lambda>nodes.
     rbind (value_loop targetXmlPath nodes value_locals_new) (\<lambda>l.
     if \<not> pathFound l then Inl (missing_path targetXmlPath) else Inr (vl_value l)))"

section \<open>ReadXmlStatus\<close>

record status_locals =
  sl_stack :: "string list"
  sl_path :: string
  sl_found :: bool
  returnCodes :: "32 word list"

definition status_locals_new :: status_locals where
  "status_locals_new = \<lparr>sl_stack = [], sl_path = [], sl_found = False, returnCodes = []\<rparr>"

definition status_open :: "string \<Rightarrow> string \<Rightarrow> status_locals \<Rightarrow> status_locals" where
  "status_open target name l =
     (let stack = sl_stack l @ [name]; l' = l\<lparr>sl_stack := stack, sl_path := xml_path stack\<rparr>
      in if target = sl_path l' then l'\<lparr>sl_found := True\<rparr> else l')"

definition status_text :: "string \<Rightarrow> string \<Rightarrow> status_locals \<Rightarrow> status_locals res" where
  "status_text target s l =
     (if target = sl_path l
      then rbind (stoi s) (\<lambda>i. Inr (l\<lparr>returnCodes := returnCodes l @ [word_of_int i]\<rparr>))
      else Inr l)"

fun status_node :: "string \<Rightarrow> xml_node \<Rightarrow> status_locals \<Rightarrow> status_locals res" where
  "status_node target (Element_Node p n isEmpty) l =
     rbind (element_name p n) (\<lambda>name. Inr (if isEmpty then l else status_open target name l))"
| "status_node target (EndElement_Node p n) l =
     rbind (element_name p n) (\<lambda>_. Inr (l\<lparr>sl_stack := butlast (sl_stack l)\<rparr>))"
| "status_node target (Text_Node v) l = rbind (node_text v) (\<lambda>s. status_text target s l)"
| "status_node target (Whitespace_Node v) l = rbind (node_text v) (\<lambda>s. status_text target s l)"
| "status_node target Other_Node l = Inr l"

fun status_loop :: "string \<Rightarrow> xml_node list \<Rightarrow> status_locals \<Rightarrow> status_locals res" where
  "status_loop target [] l = Inr l"
| "status_loop target (n # ns) l =
     (if sl_path l = resultPath then Inr l else rbind (status_node target n l) (status_loop target ns))"

definition ReadXmlStatus :: "xml_lite \<Rightarrow> string \<Rightarrow> string \<Rightarrow> 32 word list res" where
  "ReadXmlStatus xl resultSyncML targetXmlPath =
     rbind (open_reader xl ''Failed to create stream object'' resultSyncML) (\<lambda>nodes.
     rbind (status_loop targetXmlPath nodes status_locals_new) (\<lambda>l.
     if \<not> sl_found l then Inl (missing_path targetXmlPath) else Inr (returnCodes l)))"

section \<open>Documents\<close>

text \<open>
  A document as a tree, and the nodes XmlLite yields for it: an element without content
  (\<open><a/>\<close>) has no end node, white space is a node of its own.
\<close>

datatype xml =
    XEmpty string string
  | XElem string string "xml list"
  | XText bool string

fun xml_events :: "xml \<Rightarrow> xml_node list" where
  "xml_events (XEmpty p n) = [Element_Node (Inr p) (Inr n) True]"
| "xml_events (XElem p n ts) =
     Element_Node (Inr p) (Inr n) False # concat (map xml_events ts) @ [EndElement_Node (Inr p) (Inr n)]"
| "xml_events (XText ws s) = [if ws then Whitespace_Node (Inr s) else Text_Node (Inr s)]"

text \<open>No name of a document holds a backslash.\<close>

fun xml_names_ok :: "xml \<Rightarrow> bool" where
  "xml_names_ok (XElem p n ts) \<longleftrightarrow> backslash \<notin> set (qname p n) \<and> list_all xml_names_ok ts"
| "xml_names_ok _ \<longleftrightarrow> True"

text \<open>
  The reference: \<open>texts_at q p t\<close> are the texts directly under the elements of path \<open>q\<close> in the
  tree \<open>t\<close> that stands at path \<open>p\<close>, \<open>elements_at\<close> the contents of those elements, both in
  document order; an item gives the last of the texts of its \<open>LocURI\<close> and of its \<open>Data\<close>.
\<close>

fun texts_at :: "string list \<Rightarrow> string list \<Rightarrow> xml \<Rightarrow> string list" where
  "texts_at q p (XElem pre n ts) = concat (map (texts_at q (p @ [qname pre n])) ts)"
| "texts_at q p (XText ws s) = (if p = q then [s] else [])"
| "texts_at q p (XEmpty pre n) = []"

fun elements_at :: "string list \<Rightarrow> string list \<Rightarrow> xml \<Rightarrow> xml list list" where
  "elements_at q p (XElem pre n ts) =
     (if p @ [qname pre n] = q then [ts] else []) @
     concat (map (elements_at q (p @ [qname pre n])) ts)"
| "elements_at q p _ = []"

definition last_text :: "string list \<Rightarrow> xml list \<Rightarrow> string" where
  "last_text q ts = last ([] # concat (map (texts_at q item_names) ts))"

definition item_of :: "xml list \<Rightarrow> string list \<times> string" where
  "item_of ts = (SplitString (CHR ''/'') (last_text uri_names ts), last_text data_names ts)"

definition items_of :: "xml list \<Rightarrow> (string list \<times> string) list" where
  "items_of doc = map item_of (concat (map (elements_at item_names []) doc))"

subsection \<open>Paths as strings and as lists\<close>

lemma xml_path_inj:
  "\<forall>x \<in> set p. backslash \<notin> set x \<Longrightarrow> \<forall>x \<in> set q. backslash \<notin> set x \<Longrightarrow> xml_path p = xml_path q \<longleftrightarrow> p = q"
proof (induction p arbitrary: q)
  case Nil
  then show ?case by (cases q) (simp_all add: xml_path_def)
next
  case (Cons x p)
  show ?case
  proof (cases q)
    case Nil
    then show ?thesis by (simp add: xml_path_def)
  next
    case (Cons y q')
    have cut: "takeWhile (\<lambda>c. c \<noteq> backslash) (xml_path (z # r)) = z"
      "dropWhile (\<lambda>c. c \<noteq> backslash) (xml_path (z # r)) = backslash # xml_path r"
      if "backslash \<notin> set z" for z r
      using takeWhile_no_delim [OF that, of "xml_path r"] dropWhile_no_delim [OF that, of "xml_path r"]
      by (simp_all add: xml_path_def)
    have ok: "backslash \<notin> set x" "backslash \<notin> set y" using Cons.prems Cons by simp_all
    have "x = y \<and> xml_path p = xml_path q'" if e: "xml_path (x # p) = xml_path (y # q')"
    proof
      show "x = y" using cut(1) [OF ok(1), of p] cut(1) [OF ok(2), of q'] e by simp
      show "xml_path p = xml_path q'" using cut(2) [OF ok(1), of p] cut(2) [OF ok(2), of q'] e by simp
    qed
    moreover have "xml_path p = xml_path q' \<longleftrightarrow> p = q'" using Cons.IH Cons.prems Cons by simp
    ultimately show ?thesis using Cons by auto
  qed
qed

definition plain_path :: "string list \<Rightarrow> bool" where
  "plain_path p \<longleftrightarrow> (\<forall>x \<in> set p. backslash \<notin> set x)"

lemma plain_path_snoc [simp]: "plain_path (p @ [n]) \<longleftrightarrow> plain_path p \<and> backslash \<notin> set n"
  by (auto simp: plain_path_def)

lemma plain_constants [simp]: "plain_path item_names" "plain_path uri_names" "plain_path data_names"
  by (simp_all add: plain_path_def item_names_def uri_names_def data_names_def backslash_def)

lemma path_eq [simp]: "plain_path p \<Longrightarrow> plain_path q \<Longrightarrow> xml_path p = xml_path q \<longleftrightarrow> p = q"
  using xml_path_inj by (simp add: plain_path_def)

lemma path_lengths [simp]: "length item_names = 4" "length uri_names = 6" "length data_names = 5"
  by (simp_all add: item_names_def uri_names_def data_names_def)

subsection \<open>The item reader follows the tree\<close>

type_synonym item_track = "(string list \<times> string) list \<times> string \<times> string"

fun track_enter :: "string list \<Rightarrow> item_track \<Rightarrow> item_track" where
  "track_enter p (is, u, v) = (if p = item_names then (is, [], []) else (is, u, v))"

fun track_leave :: "string list \<Rightarrow> item_track \<Rightarrow> item_track" where
  "track_leave p (is, u, v) =
     (if p = item_names then (is @ [(SplitString (CHR ''/'') u, v)], [], []) else (is, u, v))"

fun track_text :: "string list \<Rightarrow> string \<Rightarrow> item_track \<Rightarrow> item_track" where
  "track_text p s (is, u, v) =
     (if p = uri_names then (is, s, v) else if p = data_names then (is, u, s) else (is, u, v))"

fun track :: "string list \<Rightarrow> xml \<Rightarrow> item_track \<Rightarrow> item_track" where
  "track p (XElem pre n ts) a =
     (let q = p @ [qname pre n] in track_leave q (fold (track q) ts (track_enter q a)))"
| "track p (XText ws s) a = track_text p s a"
| "track p (XEmpty pre n) a = a"

fun track_run ::
    "(string list \<Rightarrow> string \<Rightarrow> ('s, unit) cmd) \<Rightarrow> string list \<Rightarrow> xml_node list \<Rightarrow> item_track \<Rightarrow> ('s, item_locals) cmd" where
  "track_run h p ns (is, u, v) =
     cseq (cfor (\<lambda>(a, b). h a b) is)
       (struct_loop h ns \<lparr>il_stack = p, il_path = xml_path p, il_uri = u, il_value = v\<rparr>)"

lemma track_run_open:
  assumes "plain_path p" and "backslash \<notin> set (qname pre n)"
  shows "track_run h p (Element_Node (Inr pre) (Inr n) False # ns) a =
     track_run h (p @ [qname pre n]) ns (track_enter (p @ [qname pre n]) a)"
  using assms by (cases a) (simp add: element_name_def cbind_ret struct_open_def Let_def)

lemma track_run_close:
  assumes "plain_path p" and "backslash \<notin> set (qname pre n)"
  shows "track_run h (p @ [qname pre n]) (EndElement_Node (Inr pre) (Inr n) # ns) a =
     track_run h p ns (track_leave (p @ [qname pre n]) a)"
proof (cases "p @ [qname pre n] = item_names")
  case True
  then have "butlast item_names = p" by (metis butlast_snoc)
  with True assms show ?thesis
    by (cases a) (simp add: element_name_def cbind_ret struct_close_def Let_def cfor_append cseq_assoc cbind_cseq)
next
  case False
  with assms show ?thesis by (cases a) (simp add: element_name_def cbind_ret struct_close_def Let_def)
qed

lemma track_run_text:
  assumes "plain_path p"
  shows "track_run h p (Text_Node (Inr s) # ns) a = track_run h p ns (track_text p s a)"
    and "track_run h p (Whitespace_Node (Inr s) # ns) a = track_run h p ns (track_text p s a)"
  using assms by (cases a; simp add: node_text_def cbind_ret struct_text_def)+

lemma track_run_events:
  "plain_path p \<Longrightarrow> xml_names_ok t \<Longrightarrow> track_run h p (xml_events t @ rest) a = track_run h p rest (track p t a)"
proof (induction t arbitrary: p a rest)
  case (XEmpty pre n)
  then show ?case by (cases a) (simp add: element_name_def cbind_ret)
next
  case (XText ws s)
  then show ?case by (simp add: track_run_text)
next
  case (XElem pre n ts)
  let ?q = "p @ [qname pre n]"
  have ok: "backslash \<notin> set (qname pre n)" and q: "plain_path ?q" using XElem.prems by simp_all
  have children: "list_all xml_names_ok us \<Longrightarrow> set us \<subseteq> set ts \<Longrightarrow>
      track_run h ?q (concat (map xml_events us) @ rest') b = track_run h ?q rest' (fold (track ?q) us b)"
    for us b rest'
    by (induction us arbitrary: b) (simp_all add: XElem.IH [OF _ q])
  have "track_run h p (xml_events (XElem pre n ts) @ rest) a =
      track_run h ?q (concat (map xml_events ts) @ EndElement_Node (Inr pre) (Inr n) # rest) (track_enter ?q a)"
    using track_run_open [OF XElem.prems(1) ok] by simp
  also have "\<dots> = track_run h ?q (EndElement_Node (Inr pre) (Inr n) # rest) (fold (track ?q) ts (track_enter ?q a))"
    using XElem.prems(2) by (intro children) simp_all
  also have "\<dots> = track_run h p rest (track p (XElem pre n ts) a)"
    using track_run_close [OF XElem.prems(1) ok] by (simp add: Let_def)
  finally show ?case .
qed

subsection \<open>What the tree holds at a path\<close>

lemma path_longer: "length q < length p \<Longrightarrow> p \<noteq> q \<and> p @ [n] \<noteq> q"
  by auto

lemma elements_at_below: "length q \<le> length p \<Longrightarrow> elements_at q p t = []"
proof (induction t arbitrary: p)
  case (XElem pre n ts)
  then have "p @ [qname pre n] \<noteq> q" by auto
  with XElem show ?case by simp
qed simp_all

text \<open>Text counts for an element only inside it.\<close>

lemma texts_at_outside: "take (length p) q \<noteq> p \<Longrightarrow> texts_at q p t = []"
proof (induction t arbitrary: p)
  case (XElem pre n ts)
  have "take (length (p @ [qname pre n])) q \<noteq> p @ [qname pre n]"
  proof
    assume "take (length (p @ [qname pre n])) q = p @ [qname pre n]"
    then have "take (length p) (take (length (p @ [qname pre n])) q) = p" by simp
    then show False using XElem.prems by simp
  qed
  then show ?case using XElem.IH by simp
qed auto

lemma last_append_nonempty: "last (x # ys @ zs) = last (last (x # ys) # zs)"
  by (cases zs) simp_all

lemma track_inside:
  "length item_names \<le> length p \<Longrightarrow>
     track p t (is, u, v) = (is, last (u # texts_at uri_names p t), last (v # texts_at data_names p t))"
proof (induction t arbitrary: p u v)
  case (XElem pre n ts)
  let ?q = "p @ [qname pre n]"
  have "length ?q > length item_names" using XElem.prems by simp
  then have q: "?q \<noteq> item_names" "length item_names \<le> length ?q" by (metis less_irrefl, simp)
  have "set us \<subseteq> set ts \<Longrightarrow> fold (track ?q) us (is, x, y) =
      (is, last (x # concat (map (texts_at uri_names ?q) us)), last (y # concat (map (texts_at data_names ?q) us)))"
    for us x y
  proof (induction us arbitrary: x y)
    case (Cons w us)
    then show ?case by (simp add: XElem.IH [OF _ q(2)] last_append_nonempty del: last.simps)
  qed simp
  from this [of ts u v] q show ?case by (simp add: Let_def del: last.simps)
qed (auto simp: uri_names_def data_names_def)

lemma track_inside_list:
  "length item_names \<le> length p \<Longrightarrow> fold (track p) ts (is, u, v) =
     (is, last (u # concat (map (texts_at uri_names p) ts)), last (v # concat (map (texts_at data_names p) ts)))"
proof (induction ts arbitrary: u v)
  case (Cons t ts)
  then show ?case by (simp add: track_inside last_append_nonempty del: last.simps)
qed simp

lemma track_outside:
  "length p < length item_names \<Longrightarrow>
     track p t (is, [], []) = (is @ map item_of (elements_at item_names p t), [], [])"
proof (induction t arbitrary: p "is")
  case (XElem pre n ts)
  let ?q = "p @ [qname pre n]"
  consider (item) "?q = item_names" | (other) "?q \<noteq> item_names" "length ?q = 4" | (above) "length ?q < 4"
    using XElem.prems by (cases "length ?q = 4") auto
  then show ?case
  proof cases
    case item
    then show ?thesis
      by (simp add: Let_def track_inside_list item_of_def last_text_def elements_at_below)
  next
    case other
    have "take (length ?q) uri_names \<noteq> ?q" "take (length ?q) data_names \<noteq> ?q"
      using other by (simp_all add: uri_names_def data_names_def)
    then have none: "texts_at uri_names ?q t = []" "texts_at data_names ?q t = []" for t
      by (simp_all add: texts_at_outside)
    have "elements_at item_names ?q t = []" for t using other by (intro elements_at_below) simp
    with none other show ?thesis by (simp add: Let_def track_inside_list)
  next
    case above
    then have q: "?q \<noteq> item_names" "length ?q < length item_names" by (metis path_lengths(1) less_irrefl, simp)
    have "set us \<subseteq> set ts \<Longrightarrow> fold (track ?q) us (js, [], []) =
        (js @ map item_of (concat (map (elements_at item_names ?q) us)), [], [])" for us js
      by (induction us arbitrary: js) (simp_all add: XElem.IH [OF _ q(2)])
    from this [of ts "is"] q(1) show ?thesis by (simp add: Let_def)
  qed
qed (auto simp: uri_names_def data_names_def)

lemma track_document:
  "fold (track []) doc (is, [], []) = (is @ map item_of (concat (map (elements_at item_names []) doc)), [], [])"
  by (induction doc arbitrary: "is") (simp_all add: track_outside)

lemma track_run_document:
  "list_all xml_names_ok doc \<Longrightarrow>
     track_run h [] (concat (map xml_events doc) @ rest) a = track_run h [] rest (fold (track []) doc a)"
  by (induction doc arbitrary: a) (simp_all add: track_run_events plain_path_def)

subsection \<open>The value reader and the elements of its path\<close>

definition value_ok :: "string list \<Rightarrow> string list \<Rightarrow> value_locals \<Rightarrow> bool" where
  "value_ok q p l \<longleftrightarrow>
     (vl_path l = xml_path q \<longrightarrow> pathFound l) \<and> (valueFound l \<longrightarrow> pathFound l) \<and>
     (\<not> valueFound l \<longrightarrow> vl_stack l = p)"

text \<open>What reading the nodes of a part of the document does to the reader.\<close>

definition value_reads ::
    "string list \<Rightarrow> string list \<Rightarrow> string list \<Rightarrow> xml_node list \<Rightarrow> bool \<Rightarrow> bool" where
  "value_reads q p p' ns b \<longleftrightarrow> (\<forall>l. value_ok q p l \<longrightarrow>
     (\<exists>l'. value_loop (xml_path q) ns l = Inr l' \<and> value_ok q p' l' \<and> (pathFound l' \<longleftrightarrow> pathFound l \<or> b)))"

lemma value_loop_found [simp]: "valueFound l \<Longrightarrow> value_loop target ns l = Inr l"
  by (cases ns) simp_all

lemma value_loop_append: "value_loop target (ms @ ns) l = rbind (value_loop target ms l) (value_loop target ns)"
proof (induction ms arbitrary: l)
  case (Cons n ms)
  then show ?case by (cases "value_node target n l") simp_all
qed simp

lemma value_reads_append:
  assumes "value_reads q p p' ms b" and "value_reads q p' p'' ns b'"
  shows "value_reads q p p'' (ms @ ns) (b \<or> b')"
  unfolding value_reads_def
proof (intro allI impI)
  fix l assume "value_ok q p l"
  with assms(1) obtain l1 where 1: "value_loop (xml_path q) ms l = Inr l1" "value_ok q p' l1"
    "pathFound l1 \<longleftrightarrow> pathFound l \<or> b" unfolding value_reads_def by blast
  with assms(2) obtain l2 where "value_loop (xml_path q) ns l1 = Inr l2" "value_ok q p'' l2"
    "pathFound l2 \<longleftrightarrow> pathFound l1 \<or> b'" unfolding value_reads_def by blast
  with 1 show "\<exists>l'. value_loop (xml_path q) (ms @ ns) l = Inr l' \<and> value_ok q p'' l' \<and>
      (pathFound l' \<longleftrightarrow> pathFound l \<or> b \<or> b')"
    by (auto simp: value_loop_append)
qed

lemma value_reads_Nil: "value_reads q p p [] False"
  by (simp add: value_reads_def)

lemma value_reads_single:
  assumes "\<And>l. value_ok q p l \<Longrightarrow> \<not> valueFound l \<Longrightarrow> \<exists>l'. value_node (xml_path q) n l = Inr l' \<and> value_ok q p' l' \<and>
      (pathFound l' \<longleftrightarrow> pathFound l \<or> b)"
  shows "value_reads q p p' [n] b"
  unfolding value_reads_def
proof (intro allI impI)
  fix l assume l: "value_ok q p l"
  show "\<exists>l'. value_loop (xml_path q) [n] l = Inr l' \<and> value_ok q p' l' \<and> (pathFound l' \<longleftrightarrow> pathFound l \<or> b)"
  proof (cases "valueFound l")
    case True
    with l have "value_ok q p' l" "pathFound l" by (simp_all add: value_ok_def)
    with True show ?thesis by (intro exI [of _ l]) simp
  next
    case False
    with assms [OF l] show ?thesis by fastforce
  qed
qed

lemma value_reads_open:
  assumes "plain_path q" and "plain_path p" and "backslash \<notin> set (qname pre n)"
  shows "value_reads q p (p @ [qname pre n]) [Element_Node (Inr pre) (Inr n) False] (p @ [qname pre n] = q)"
  using assms by (intro value_reads_single) (auto simp: value_ok_def element_name_def value_open_def Let_def)

lemma value_reads_close: "value_reads q (p @ [name]) p [EndElement_Node (Inr pre) (Inr n)] False"
  by (intro value_reads_single) (simp add: value_ok_def element_name_def)

lemma value_reads_leaf:
  "value_reads q p p [Element_Node (Inr pre) (Inr n) True] False"
  "value_reads q p p [Text_Node (Inr s)] False" "value_reads q p p [Whitespace_Node (Inr s)] False"
  by (rule value_reads_single, auto simp: value_ok_def element_name_def node_text_def value_text_def)+

lemma value_reads_list:
  assumes "\<And>t. t \<in> set ts \<Longrightarrow> value_reads q p p (xml_events t) (elements_at q p t \<noteq> [])"
  shows "value_reads q p p (concat (map xml_events ts)) (concat (map (elements_at q p) ts) \<noteq> [])"
  using assms
proof (induction ts)
  case Nil
  show ?case by (simp add: value_reads_Nil)
next
  case (Cons t ts)
  then have "value_reads q p p (xml_events t @ concat (map xml_events ts))
      (elements_at q p t \<noteq> [] \<or> concat (map (elements_at q p) ts) \<noteq> [])"
    by (intro value_reads_append [where p' = p]) simp_all
  then show ?case by simp
qed

lemma value_reads_events:
  "plain_path q \<Longrightarrow> plain_path p \<Longrightarrow> xml_names_ok t \<Longrightarrow>
     value_reads q p p (xml_events t) (elements_at q p t \<noteq> [])"
proof (induction t arbitrary: p)
  case (XElem pre n ts)
  let ?p = "p @ [qname pre n]"
  have ok: "backslash \<notin> set (qname pre n)" "plain_path ?p" using XElem.prems by simp_all
  have "value_reads q ?p ?p (concat (map xml_events ts)) (concat (map (elements_at q ?p) ts) \<noteq> [])"
    using XElem.prems ok by (intro value_reads_list XElem.IH) (simp_all add: list_all_iff)
  from value_reads_append [OF value_reads_append [OF value_reads_open [OF XElem.prems(1,2) ok(1)] this]
      value_reads_close [of q p "qname pre n" pre n]]
  show ?case by (cases "?p = q") simp_all
qed (simp_all add: value_reads_leaf value_reads_Nil)

lemma struct_loop_items:
  assumes "list_all xml_names_ok doc"
  shows "struct_loop handler (concat (map xml_events doc)) item_locals_new =
    cseq (cfor (\<lambda>(a, b). handler a b) (items_of doc)) (cret item_locals_new)"
proof -
  have "struct_loop handler (concat (map xml_events doc)) item_locals_new =
      track_run handler [] (concat (map xml_events doc) @ []) ([], [], [])"
    by (simp add: item_locals_new_def xml_path_def cbind_ret)
  also have "\<dots> = cseq (cfor (\<lambda>(a, b). handler a b) (items_of doc)) (cret item_locals_new)"
    unfolding track_run_document [OF assms] track_document
    by (simp add: items_of_def item_locals_new_def xml_path_def)
  finally show ?thesis .
qed

section \<open>Properties\<close>

text \<open>
  C31: reading the items of an answer is, on the nodes of any document whose names hold no
  backslash, calling the handler once for every \<open>Item\<close> element of the results, in document
  order, with the last text of its \<open>Source/LocURI\<close> cut at the slashes and the last text of
  its \<open>Data\<close>; an exception of the handler ends the reading there.
\<close>

theorem ReadXmlStructData_items:
  assumes "open_reader xl ''CreateStreamOnHGlobal call failed.'' text = Inr (concat (map xml_events doc))"
    and "list_all xml_names_ok doc"
  shows "ReadXmlStructData xl text handler = cfor (\<lambda>(uriTokens, value). handler uriTokens value) (items_of doc)"
  unfolding ReadXmlStructData_def assms(1) cbind_ret struct_loop_items [OF assms(2)]
  by (simp add: cmd_simps fun_eq_iff split: prod.splits sum.splits)

definition sample_doc :: "xml list" where
  "sample_doc = [XElem [] ''SyncML'' [XElem [] ''SyncBody'' [
     XElem [] ''Status'' [XElem [] ''Data'' [XText False ''200'']],
     XElem [] ''Results'' [
       XElem [] ''Item'' [XElem [] ''Source'' [XElem [] ''LocURI'' [XText False ''./Cert/A'']], XEmpty [] ''Meta'',
         XElem [] ''Data'' [XText False ''one'']],
       XText True '' '',
       XElem [] ''Item'' [XElem [] ''Data'' []]]]]]"

definition sample_xl :: xml_lite where
  "sample_xl = \<lparr>xl_stream = 0, xl_create = 0, xl_property = 0, xl_input = 0,
     xl_nodes = (\<lambda>t. concat (map xml_events sample_doc))\<rparr>"

theorem ReadXmlStructData_items_witness:
  "ReadXmlStructData sample_xl ''answer'' (\<lambda>uri v. cmod (\<lambda>log. log @ [(uri, v)])) [] =
     (Inr (), [([''.'', ''Cert'', ''A''], ''one''), ([], [])])"
proof -
  have items: "items_of sample_doc = [([''.'', ''Cert'', ''A''], ''one''), ([], [])]"
    by (simp add: items_of_def sample_doc_def item_of_def last_text_def qname_def item_names_def uri_names_def
      data_names_def SplitString.simps)
  have "open_reader sample_xl ''CreateStreamOnHGlobal call failed.'' ''answer'' = Inr (concat (map xml_events sample_doc))"
    "list_all xml_names_ok sample_doc"
    by (simp_all add: open_reader_def sample_xl_def FAILED_def sample_doc_def qname_def backslash_def)
  from ReadXmlStructData_items [OF this, of "\<lambda>uri v. cmod (\<lambda>log. log @ [(uri, v)])"]
  show ?thesis unfolding items by (simp add: cmd_simps)
qed

text \<open>
  C32: reading the value at a path fails, with the error that names the path, exactly when the
  document has no element with content at that path; otherwise it succeeds, also when the
  element turns out to hold no text.
\<close>

theorem ReadXmlValue_fails_iff:
  assumes "open_reader xl ''Failed to create stream object'' text = Inr (concat (map xml_events doc))"
    and "list_all xml_names_ok doc" and "\<forall>x \<in> set q. backslash \<notin> set x" and "q \<noteq> []"
  shows "isl (ReadXmlValue xl text (xml_path q)) \<longleftrightarrow> concat (map (elements_at q []) doc) = []"
proof -
  have q: "plain_path q" using assms(3) by (simp add: plain_path_def)
  have reads: "value_reads q [] [] (concat (map xml_events doc)) (concat (map (elements_at q []) doc) \<noteq> [])"
    using assms(2) q by (intro value_reads_list value_reads_events) (simp_all add: list_all_iff plain_path_def)
  have "xml_path q \<noteq> []" using assms(4) by (cases q) (simp_all add: xml_path_def)
  then have "value_ok q [] value_locals_new" by (simp add: value_ok_def value_locals_new_def)
  with reads obtain l' where "value_loop (xml_path q) (concat (map xml_events doc)) value_locals_new = Inr l'"
    "pathFound l' \<longleftrightarrow> concat (map (elements_at q []) doc) \<noteq> []"
    unfolding value_reads_def by (force simp: value_locals_new_def)
  then show ?thesis by (simp add: ReadXmlValue_def assms(1))
qed

theorem ReadXmlValue_fails_iff_witness:
  "isl (ReadXmlValue sample_xl ''answer'' (xml_path [''SyncML'', ''SyncBody'', ''Alert''])) \<and>
   \<not> isl (ReadXmlValue sample_xl ''answer'' (xml_path [''SyncML'', ''SyncBody'', ''Results'']))"
proof -
  have 1: "open_reader sample_xl ''Failed to create stream object'' ''answer'' = Inr (concat (map xml_events sample_doc))"
    and 2: "list_all xml_names_ok sample_doc"
    by (simp_all add: open_reader_def sample_xl_def FAILED_def sample_doc_def qname_def backslash_def)
  have "isl (ReadXmlValue sample_xl ''answer'' (xml_path q)) \<longleftrightarrow> concat (map (elements_at q []) sample_doc) = []"
    if "q \<in> {[''SyncML'', ''SyncBody'', ''Alert''], [''SyncML'', ''SyncBody'', ''Results'']}" for q
    using that by (intro ReadXmlValue_fails_iff [OF 1 2]) (auto simp: backslash_def)
  then show ?thesis by (simp add: sample_doc_def qname_def)
qed

text \<open>
  The value reader does not rebuild its current path when an element ends, so the value
  of an element without text is the next text of the document, here the white space \<open>s\<close>
  that follows it.
\<close>

theorem empty_Data_reads_next_text:
  "value_loop RESULTS_XML_PATH (xml_events
     (XElem [] ''SyncML'' [XElem [] ''SyncBody'' [XElem [] ''Results'' [XElem [] ''Item''
       [XElem [] ''Data'' [], XText True s]]]])) value_locals_new =
   Inr \<lparr>vl_stack = item_names, vl_path = RESULTS_XML_PATH, vl_value = s, valueFound = True, pathFound = True\<rparr>"
  by (simp add: RESULTS_XML_PATH_def data_names_def item_names_def value_locals_new_def element_name_def
    value_open_def Let_def xml_path_def qname_def node_text_def value_text_def backslash_def)

end
