(* ===== verification/Mdm_Proxy.thy ===== *)
theory Mdm_Proxy
  imports Xml_Reader Handler_Base
begin

text \<open>
  The MDM side of the handlers: \<open>MdmServer\<close> (device-agent/agent/Mdm/MdmServer.cpp), which
  runs a SyncML request on the platform and checks the status codes of the answer,
  \<open>MdmProxy\<close> (device-agent/common/CSPs/MdmProxy.cpp), which builds the requests and reads
  the values out of the answers, and \<open>MdmHandlerBase\<close>, the base of the handlers that use
  it.  The local-management calls of the platform are the record \<open>local_mdm\<close>.
\<close>

section \<open>MdmServer\<close>

record 'w local_mdm =
  lm_Register :: "('w, int) cmd"
  lm_Apply :: "string \<Rightarrow> ('w, int \<times> string option) cmd"

definition ProcessInternal :: "'w local_mdm \<Rightarrow> string \<Rightarrow> ('w, string) cmd" where
  "ProcessInternal lm requestSyncML =
     cbind (lm_Register lm) (\<lambda>hr.
       if FAILED hr then cthrow (DMExc MDM hr ''RegisterDeviceWithLocalManagement'')
       else cbind (lm_Apply lm (c_str requestSyncML)) (\<lambda>(hr, output).
         if FAILED hr then cthrow (DMExc MDMOperation hr ''ApplyLocalManagementSyncML'')
         else cret (case output of None \<Rightarrow> [] | Some out \<Rightarrow> c_str out)))"

text \<open>The worker thread runs the task and the caller waits for its future, so a call is its task.\<close>

definition SyncMLServer_Process :: "'w local_mdm \<Rightarrow> string \<Rightarrow> ('w, string) cmd" where
  "SyncMLServer_Process lm requestSyncML = ProcessInternal lm requestSyncML"

definition MdmServer_RunSyncML ::
    "xml_lite \<Rightarrow> 'w local_mdm \<Rightarrow> string \<Rightarrow> string \<Rightarrow> ('w, string) cmd" where
  "MdmServer_RunSyncML xl lm sid syncML =
     cbind (SyncMLServer_Process lm (c_str syncML)) (\<lambda>wideOutSyncML.
     cbind (clift (ReadXmlStatus xl wideOutSyncML STATUS_XML_PATH)) (\<lambda>codes.
       case find (\<lambda>c. c \<ge> 300) codes of
         Some c \<Rightarrow> cthrow (DMExc MDM (sint c) ''Error in processing syncML'')
       | None \<Rightarrow> cret (c_str wideOutSyncML)))"

section \<open>MdmProxy\<close>

text \<open>\<open>_iMdmServer\<close>; \<open>None\<close> is the null pointer.\<close>

type_synonym 'w mdm = "(string \<Rightarrow> string \<Rightarrow> ('w, string) cmd) option"

definition RunSyncML :: "'w mdm \<Rightarrow> string \<Rightarrow> ('w, string) cmd" where
  "RunSyncML mdm inSyncML =
     (case mdm of
        None \<Rightarrow> cthrow (DMExc DeviceAgent DM_MDM_ERROR_UNINITIALIZED_MDMSERVER ''MDM Server is not initialized'')
      | Some run \<Rightarrow> run '''' inSyncML)"

text \<open>A line break of a raw string and the blanks of the line it starts.\<close>

definition br :: "nat \<Rightarrow> string" where
  "br n = CHR 0x0A # replicate n (CHR '' '')"

definition quote :: char where
  "quote = CHR 0x22"

definition metinf :: "string \<Rightarrow> string" where
  "metinf tag = ''<'' @ tag @ '' xmlns='' @ [quote] @ ''syncml:metinf'' @ [quote] @ ''>''"

definition set_head :: "string \<Rightarrow> string" where
  "set_head path =
     br 8 @ ''<SyncBody>'' @ br 12 @ ''<Replace>'' @ br 14 @ ''<CmdID>1</CmdID>'' @ br 14 @ ''<Item>'' @
     br 16 @ ''<Target>'' @ br 18 @ ''<LocURI>'' @ path @ ''</LocURI>'' @ br 16 @ ''</Target>''"

definition set_tail :: "string \<Rightarrow> string" where
  "set_tail value =
     br 16 @ ''<Data>'' @ value @ ''</Data>'' @ br 14 @ ''</Item>'' @ br 12 @ ''</Replace>'' @
     br 8 @ ''</SyncBody>'' @ br 8"

definition RunSet_string :: "'w mdm \<Rightarrow> string \<Rightarrow> string \<Rightarrow> ('w, unit) cmd" where
  "RunSet_string mdm cspPath value =
     cseq (RunSyncML mdm (set_head cspPath @ br 16 @ ''<Meta>'' @ br 20 @ metinf ''Type'' @ ''text/plain</Type>'' @
       br 16 @ ''</Meta>'' @ set_tail value)) (cret ())"

definition set_int_request :: "string \<Rightarrow> int \<Rightarrow> string" where
  "set_int_request cspPath value =
     set_head cspPath @ br 16 @ ''<Meta>'' @ metinf ''Format'' @ ''int</Format></Meta>'' @
     set_tail (valueToString value)"

definition RunSet_int :: "'w mdm \<Rightarrow> string \<Rightarrow> int \<Rightarrow> ('w, unit) cmd" where
  "RunSet_int mdm cspPath value =
     cseq (RunSyncML mdm (set_int_request cspPath value)) (cret ())"

definition RunSet_bool :: "'w mdm \<Rightarrow> string \<Rightarrow> bool \<Rightarrow> ('w, unit) cmd" where
  "RunSet_bool mdm path value =
     cseq (RunSyncML mdm (set_head path @ br 16 @ ''<Meta>'' @ metinf ''Format'' @ ''bool</Format></Meta>'' @
       set_tail (if value then ''True'' else ''False''))) (cret ())"

definition get_request :: "string \<Rightarrow> string \<Rightarrow> string" where
  "get_request path meta =
     br 8 @ ''<SyncBody>'' @ br 12 @ ''<Get>'' @ br 14 @ ''<CmdID>1</CmdID>'' @ br 14 @ ''<Item>'' @
     br 16 @ ''<Target>'' @ br 18 @ ''<LocURI>'' @ path @ ''</LocURI>'' @ br 16 @ ''</Target>'' @
     br 16 @ ''<Meta>'' @ br 20 @ meta @ br 16 @ ''</Meta>'' @ br 14 @ ''</Item>'' @ br 12 @ ''</Get>'' @
     br 8 @ ''</SyncBody>'' @ br 8"

definition RunGetString :: "xml_lite \<Rightarrow> 'w mdm \<Rightarrow> string \<Rightarrow> ('w, string) cmd" where
  "RunGetString xl mdm path =
     cbind (RunSyncML mdm (get_request path (metinf ''Type'' @ ''text/plain</Type>''))) (\<lambda>resultSyncML.
     cbind (clift (ReadXmlValue xl (c_str resultSyncML) RESULTS_XML_PATH)) (\<lambda>value.
     cret (c_str value)))"

definition RunGetBase64 :: "xml_lite \<Rightarrow> 'w mdm \<Rightarrow> string \<Rightarrow> ('w, string) cmd" where
  "RunGetBase64 xl mdm path =
     cbind (RunSyncML mdm (get_request path (metinf ''Type'' @ ''b64</Type>''))) (\<lambda>resultSyncML.
     cbind (clift (ReadXmlValue xl (c_str resultSyncML) RESULTS_XML_PATH)) (\<lambda>value.
     cret (c_str value)))"

definition RunGetUInt :: "xml_lite \<Rightarrow> 'w mdm \<Rightarrow> string \<Rightarrow> ('w, 32 word) cmd" where
  "RunGetUInt xl mdm path =
     cbind (RunSyncML mdm (get_request (c_str path) (metinf ''Format'' @ ''int</Format>''))) (\<lambda>resultSyncML.
     cbind (clift (ReadXmlValue xl (c_str resultSyncML) RESULTS_XML_PATH)) (\<lambda>value.
     cbind (clift (stoi value)) (\<lambda>i.
     cret (word_of_int i))))"

text \<open>
  \<open>RunGetStructData\<close> runs the handler of the caller on every item; the handler works on the
  state \<open>'s\<close> of the caller, the server on the part of it that \<open>lift\<close> gives it.
\<close>

definition RunGetStructData ::
    "xml_lite \<Rightarrow> (('w, string) cmd \<Rightarrow> ('s, string) cmd) \<Rightarrow> 'w mdm \<Rightarrow> string \<Rightarrow>
     (string list \<Rightarrow> string \<Rightarrow> ('s, unit) cmd) \<Rightarrow> ('s, unit) cmd" where
  "RunGetStructData xl lift mdm path handler =
     cbind (lift (RunSyncML mdm (get_request path (metinf ''Type'' @ ''text/plain</Type>'')))) (\<lambda>resultSyncML.
     ReadXmlStructData xl (c_str resultSyncML) handler)"

text \<open>\<open>catch (DMException&)\<close>.\<close>

definition catch_dm :: "('s, 'a) cmd \<Rightarrow> ('s, 'a) cmd \<Rightarrow> ('s, 'a) cmd" where
  "catch_dm m h = (\<lambda>s. case m s of
     (Inl (DMException sub c msg), s') \<Rightarrow> h s'
   | (r, s') \<Rightarrow> (r, s'))"

text \<open>\<open>TryGetNumber(path, value)\<close>: the answer and what \<open>value\<close> holds afterwards.\<close>

definition TryGetNumber :: "xml_lite \<Rightarrow> 'w mdm \<Rightarrow> string \<Rightarrow> 32 word \<Rightarrow> ('w, bool \<times> 32 word) cmd" where
  "TryGetNumber xl mdm path value =
     catch_dm (cbind (RunGetUInt xl mdm path) (\<lambda>v. cret (True, v))) (cret (False, value))"

definition exec_request :: "string \<Rightarrow> string" where
  "exec_request path =
     br 8 @ ''<SyncBody>'' @ br 12 @ ''<Exec>'' @ br 16 @ ''<CmdID>1</CmdID>'' @ br 16 @ ''<Item>'' @
     br 20 @ ''<Target>'' @ br 24 @ ''<LocURI>'' @ path @ ''</LocURI>'' @ br 20 @ ''</Target>'' @
     br 16 @ ''</Item>'' @ br 12 @ ''</Exec>'' @ br 8 @ ''</SyncBody>'' @ br 8"

definition RunExec :: "'w mdm \<Rightarrow> string \<Rightarrow> ('w, unit) cmd" where
  "RunExec mdm path = cseq (RunSyncML mdm (exec_request path)) (cret ())"

definition RunAddTyped :: "'w mdm \<Rightarrow> string \<Rightarrow> string \<Rightarrow> ('w, unit) cmd" where
  "RunAddTyped mdm path ty =
     cseq (RunSyncML mdm (
       br 8 @ ''<SyncBody>'' @ br 12 @ ''<Add>'' @ br 16 @ ''<CmdID>1</CmdID>'' @ br 16 @ ''<Item>'' @
       br 20 @ ''<Target>'' @ br 24 @ ''<LocURI>'' @ path @ ''</LocURI>'' @ br 20 @ ''</Target>'' @
       br 20 @ ''<Meta>'' @ br 24 @ metinf ''Format'' @ ty @ ''</Format>'' @ br 20 @ ''</Meta>'' @
       br 16 @ ''</Item>'' @ br 12 @ ''</Add>'' @ br 8 @ ''</SyncBody>'' @ br 8)) (cret ())"

definition RunAdd :: "'w mdm \<Rightarrow> string \<Rightarrow> string \<Rightarrow> ('w, unit) cmd" where
  "RunAdd mdm path value =
     cseq (RunSyncML mdm (
       br 8 @ ''<SyncBody>'' @ br 12 @ ''<Add>'' @ br 16 @ ''<CmdID>1</CmdID>'' @ br 16 @ ''<Item>'' @
       br 20 @ ''<Target>'' @ br 24 @ ''<LocURI>'' @ path @ ''/'' @ value @ ''</LocURI>'' @ br 20 @ ''</Target>'' @
       br 16 @ ''</Item>'' @ br 12 @ ''</Add>'' @ br 8 @ ''</SyncBody>'' @ br 8)) (cret ())"

definition add_data_request :: "string \<Rightarrow> string \<Rightarrow> string \<Rightarrow> string" where
  "add_data_request path value ty =
     br 8 @ ''<SyncBody>'' @ br 8 @ ''<Add>'' @ br 8 @ ''<CmdID>1</CmdID>'' @ br 8 @ ''<Item>'' @
     br 12 @ ''<Target>'' @ br 16 @ ''<LocURI>'' @ path @ ''</LocURI>'' @ br 12 @ ''</Target>'' @
     br 12 @ ''<Meta>'' @ br 16 @ metinf ''Format'' @ ty @ ''</Format>'' @ br 12 @ ''</Meta>'' @
     br 12 @ ''<Data>'' @ value @ ''</Data>'' @ br 8 @ ''</Item>'' @ br 8 @ ''</Add>'' @
     br 8 @ ''</SyncBody>'' @ br 8"

definition RunAddData :: "'w mdm \<Rightarrow> string \<Rightarrow> string \<Rightarrow> string \<Rightarrow> ('w, unit) cmd" where
  "RunAddData mdm path value ty = cseq (RunSyncML mdm (add_data_request path value ty)) (cret ())"

definition RunAddDataBase64 :: "'w mdm \<Rightarrow> string \<Rightarrow> string \<Rightarrow> ('w, unit) cmd" where
  "RunAddDataBase64 mdm path value = RunAddData mdm path value ''b64''"

definition delete_request :: "string \<Rightarrow> string" where
  "delete_request path =
     br 8 @ ''<SyncBody>'' @ br 8 @ ''<Delete>'' @ br 8 @ ''<CmdID>1</CmdID>'' @ br 8 @ ''<Item>'' @
     br 12 @ ''<Target>'' @ br 16 @ ''<LocURI>'' @ path @ ''</LocURI>'' @ br 12 @ ''</Target>'' @
     br 8 @ ''</Item>'' @ br 8 @ ''</Delete>'' @ br 8 @ ''</SyncBody>'' @ br 8"

definition RunDelete :: "'w mdm \<Rightarrow> string \<Rightarrow> ('w, unit) cmd" where
  "RunDelete mdm path = cseq (RunSyncML mdm (delete_request path)) (cret ())"

definition RunExecWithParameters :: "'w mdm \<Rightarrow> string \<Rightarrow> string \<Rightarrow> ('w, unit) cmd" where
  "RunExecWithParameters mdm path ps =
     cseq (RunSyncML mdm (
       br 4 @ ''<SyncBody>'' @ br 8 @ ''<Exec>'' @ br 12 @ ''<CmdID>1</CmdID>'' @ br 12 @ ''<Item>'' @
       br 16 @ ''<Target>'' @ br 20 @ ''<LocURI>'' @ path @ ''</LocURI>'' @ br 16 @ ''</Target>'' @
       br 16 @ ''<Meta>'' @ br 20 @ metinf ''Format'' @ ''chr</Format>'' @ br 16 @ ''</Meta>'' @
       br 16 @ ''<Data>'' @ ps @ ''</Data>'' @ br 12 @ ''</Item>'' @ br 8 @ ''</Exec>'' @
       br 4 @ ''</SyncBody>'' @ br 8)) (cret ())"

section \<open>MdmHandlerBase\<close>

record 'w MdmHandlerBase = "'w HandlerBase" +
  mdmServer :: "'w mdm"

text \<open>The host of an MDM handler also gives out the MDM server.\<close>

record 'w MdmHandlerHost = "'w IRawHandlerHost" +
  hi_GetMdmServer :: "'w mdm"

definition MdmHandlerBase_new ::
    "string \<Rightarrow> ReportedSchema \<Rightarrow> ('w world_scheme, 'w world_scheme MdmHandlerBase) cmd" where
  "MdmHandlerBase_new i schema =
     cbind (HandlerBase_new i schema) (\<lambda>hb. cret (HandlerBase.extend hb (MdmHandlerBase.fields None)))"

text \<open>Detaching a handler passes the null pointer, through which \<open>GetMdmServer\<close> is then called.\<close>

definition MdmHandlerBase_SetHandlerHost ::
    "'w MdmHandlerHost option \<Rightarrow> ((('w, 'z) MdmHandlerBase_scheme, 'w) ctx, unit) cmd" where
  "MdmHandlerBase_SetHandlerHost host =
     cseq (HandlerBase_SetHandlerHost (map_option IRawHandlerHost.truncate host))
       (case host of
          None \<Rightarrow> cthrow Terminate
        | Some h \<Rightarrow> set_this (mdmServer_update (\<lambda>_. hi_GetMdmServer h)))"

definition mdm_call :: "('w mdm \<Rightarrow> ('w, 'a) cmd) \<Rightarrow> ((('w, 'z) MdmHandlerBase_scheme, 'w) ctx, 'a) cmd" where
  "mdm_call f = cbind (cget (mdmServer \<circ> this)) (\<lambda>m. on_world (f m))"

lemma preserves_mdm_call [preserves_intros]: "preserves (handler_inv i h) (mdm_call f)"
  unfolding mdm_call_def by (intro preserves_intros)

section \<open>The status of an answer\<close>

text \<open>
  The reference, on the tree of the answer.  Of a document only two things matter in order:
  which element opens, by its path, and what is said, white space included; an element without
  content opens nothing.  Everything from the first \<open>Results\<close> on is left aside.  A text is a status
  code when the element that was opened last before it, ended or not, is a \<open>Data\<close> of a \<open>Status\<close>.
\<close>

datatype mark = Opens "string list" | Says string

fun marks :: "string list \<Rightarrow> xml \<Rightarrow> mark list" where
  "marks p (XElem pre n ts) =
     Opens (p @ [qname pre n]) # concat (map (marks (p @ [qname pre n])) ts)"
| "marks p (XText ws s) = [Says s]"
| "marks p (XEmpty pre n) = []"

definition status_names :: "string list" where
  "status_names = [''SyncML'', ''SyncBody'', ''Status'', ''Data'']"

definition results_names :: "string list" where
  "results_names = [''SyncML'', ''SyncBody'', ''Results'']"

fun said_in :: "string list \<Rightarrow> string list \<Rightarrow> mark list \<Rightarrow> string list" where
  "said_in q cur [] = []"
| "said_in q cur (Opens p # ms) = said_in q p ms"
| "said_in q cur (Says s # ms) = (if cur = q then [s] else []) @ said_in q cur ms"

definition before_results :: "xml list \<Rightarrow> mark list" where
  "before_results doc = takeWhile (\<lambda>m. m \<noteq> Opens results_names) (concat (map (marks []) doc))"

definition status_texts :: "xml list \<Rightarrow> string list" where
  "status_texts doc = said_in status_names [] (before_results doc)"

definition has_status :: "xml list \<Rightarrow> bool" where
  "has_status doc \<longleftrightarrow> Opens status_names \<in> set (before_results doc)"

subsection \<open>The loop on the marks of a document\<close>

type_synonym status_track = "string list \<times> bool \<times> 32 word list"

fun mark_run :: "mark list \<Rightarrow> status_track \<Rightarrow> status_track res" where
  "mark_run [] a = Inr a"
| "mark_run (m # ms) (cur, f, cs) =
     (if cur = results_names then Inr (cur, f, cs)
      else case m of
        Opens p \<Rightarrow> mark_run ms (p, f \<or> p = status_names, cs)
      | Says s \<Rightarrow>
          if cur = status_names then rbind (stoi s) (\<lambda>i. mark_run ms (cur, f, cs @ [word_of_int i]))
          else mark_run ms (cur, f, cs))"

lemma plain_status [simp]: "plain_path status_names" "plain_path results_names" "plain_path []"
  by (simp_all add: plain_path_def status_names_def results_names_def backslash_def)

lemma status_not_results [simp]: "status_names \<noteq> results_names" "results_names \<noteq> status_names"
  by (simp_all add: status_names_def results_names_def)

lemma status_paths:
  "STATUS_XML_PATH = xml_path status_names" "resultPath = xml_path results_names"
  by (simp_all add: STATUS_XML_PATH_def resultPath_def status_names_def results_names_def)

lemma status_loop_stop [simp]: "sl_path l = resultPath \<Longrightarrow> status_loop target ns l = Inr l"
  by (cases ns) simp_all

lemma mark_run_stop [simp]: "mark_run ms (results_names, f, cs) = Inr (results_names, f, cs)"
  by (cases ms) simp_all

lemma status_loop_append: "status_loop target (ms @ ns) l = rbind (status_loop target ms l) (status_loop target ns)"
proof (induction ms arbitrary: l)
  case (Cons n ms)
  then show ?case by (cases "status_node target n l") simp_all
qed simp

lemma mark_run_append: "mark_run (ms @ ns) a = rbind (mark_run ms a) (mark_run ns)"
proof (induction ms arbitrary: a)
  case (Cons m ms)
  obtain cur f cs where a: "a = (cur, f, cs)" by (cases a)
  show ?case
  proof (cases m)
    case (Says s)
    then show ?thesis using Cons.IH by (cases "stoi s") (simp_all add: a)
  qed (simp add: a Cons.IH)
qed simp

definition status_at :: "string list \<Rightarrow> status_track \<Rightarrow> status_locals \<Rightarrow> bool" where
  "status_at p a l \<longleftrightarrow>
     plain_path (fst a) \<and> sl_path l = xml_path (fst a) \<and> sl_found l = fst (snd a) \<and> returnCodes l = snd (snd a) \<and>
     (fst a \<noteq> results_names \<longrightarrow> sl_stack l = p)"

text \<open>The nodes \<open>ns\<close>, which lead from path \<open>p\<close> to path \<open>p'\<close>, do to the reader what the marks \<open>ms\<close> say.\<close>

definition status_reads :: "string list \<Rightarrow> string list \<Rightarrow> xml_node list \<Rightarrow> mark list \<Rightarrow> bool" where
  "status_reads p p' ns ms \<longleftrightarrow> (\<forall>a l. status_at p a l \<longrightarrow>
     (case mark_run ms a of
        Inl e \<Rightarrow> status_loop STATUS_XML_PATH ns l = Inl e
      | Inr a' \<Rightarrow> \<exists>l'. status_loop STATUS_XML_PATH ns l = Inr l' \<and> status_at p' a' l'))"

lemma status_reads_cases:
  assumes "status_reads p p' ns ms" and "status_at p a l"
  obtains e where "mark_run ms a = Inl e" "status_loop STATUS_XML_PATH ns l = Inl e"
  | a' l' where "mark_run ms a = Inr a'" "status_loop STATUS_XML_PATH ns l = Inr l'" "status_at p' a' l'"
proof -
  from assms have "case mark_run ms a of
      Inl e \<Rightarrow> status_loop STATUS_XML_PATH ns l = Inl e
    | Inr a' \<Rightarrow> \<exists>l'. status_loop STATUS_XML_PATH ns l = Inr l' \<and> status_at p' a' l'"
    unfolding status_reads_def by blast
  with that show thesis by (cases "mark_run ms a") auto
qed

lemma status_reads_append:
  assumes "status_reads p p' ns ms" and "status_reads p' p'' ns' ms'"
  shows "status_reads p p'' (ns @ ns') (ms @ ms')"
  unfolding status_reads_def
proof (intro allI impI)
  fix a l assume at: "status_at p a l"
  show "case mark_run (ms @ ms') a of
      Inl e \<Rightarrow> status_loop STATUS_XML_PATH (ns @ ns') l = Inl e
    | Inr a' \<Rightarrow> \<exists>l'. status_loop STATUS_XML_PATH (ns @ ns') l = Inr l' \<and> status_at p'' a' l'"
    using assms(1) at
  proof (cases rule: status_reads_cases)
    case (1 e)
    then show ?thesis by (simp add: mark_run_append status_loop_append)
  next
    case (2 a1 l1)
    from assms(2) 2(3) show ?thesis
      by (cases rule: status_reads_cases) (simp_all add: 2(1,2) mark_run_append status_loop_append)
  qed
qed

lemma status_reads_Nil: "status_reads p p [] []"
  by (simp add: status_reads_def)

text \<open>Outside the results a node is one round of the loop; inside nothing is read any more.\<close>

lemma status_reads_single:
  assumes "\<And>cur f cs l. status_at p (cur, f, cs) l \<Longrightarrow> cur \<noteq> results_names \<Longrightarrow>
    case mark_run ms (cur, f, cs) of
      Inl e \<Rightarrow> status_node STATUS_XML_PATH n l = Inl e
    | Inr a' \<Rightarrow> \<exists>l'. status_node STATUS_XML_PATH n l = Inr l' \<and> status_at p' a' l'"
  shows "status_reads p p' [n] ms"
  unfolding status_reads_def
proof (intro allI impI)
  fix a l assume at: "status_at p a l"
  obtain cur f cs where a: "a = (cur, f, cs)" by (cases a)
  show "case mark_run ms a of
      Inl e \<Rightarrow> status_loop STATUS_XML_PATH [n] l = Inl e
    | Inr a' \<Rightarrow> \<exists>l'. status_loop STATUS_XML_PATH [n] l = Inr l' \<and> status_at p' a' l'"
  proof (cases "cur = results_names")
    case True
    with at a have "sl_path l = resultPath" "status_at p' a l" by (simp_all add: status_at_def status_paths)
    with a True show ?thesis by auto
  next
    case False
    with at a have "sl_path l \<noteq> resultPath" by (simp add: status_at_def status_paths)
    with assms [OF at [unfolded a] False] a show ?thesis
      by (cases "status_node STATUS_XML_PATH n l") (auto split: sum.splits)
  qed
qed

lemma status_reads_open:
  assumes "plain_path p" and "backslash \<notin> set (qname pre n)"
  shows "status_reads p (p @ [qname pre n]) [Element_Node (Inr pre) (Inr n) False] [Opens (p @ [qname pre n])]"
  using assms by (intro status_reads_single)
    (auto simp: status_at_def element_name_def status_open_def Let_def status_paths)

lemma status_reads_close: "status_reads (p @ [name]) p [EndElement_Node (Inr pre) (Inr n)] []"
  by (intro status_reads_single) (simp add: status_at_def element_name_def)

lemma status_reads_empty: "status_reads p p [Element_Node (Inr pre) (Inr n) True] []"
  by (intro status_reads_single) (simp add: status_at_def element_name_def)

lemma status_reads_text:
  "status_reads p p [Text_Node (Inr s)] [Says s]" "status_reads p p [Whitespace_Node (Inr s)] [Says s]"
  by (rule status_reads_single, cases "stoi s",
      auto simp: status_at_def node_text_def status_text_def status_paths)+

lemma status_reads_list:
  "(\<And>t. t \<in> set ts \<Longrightarrow> status_reads p p (xml_events t) (marks p t)) \<Longrightarrow>
     status_reads p p (concat (map xml_events ts)) (concat (map (marks p) ts))"
  by (induction ts) (simp_all add: status_reads_Nil status_reads_append [where p' = p])

lemma status_reads_events:
  "plain_path p \<Longrightarrow> xml_names_ok t \<Longrightarrow> status_reads p p (xml_events t) (marks p t)"
proof (induction t arbitrary: p)
  case (XElem pre n ts)
  let ?p = "p @ [qname pre n]"
  have ok: "backslash \<notin> set (qname pre n)" "plain_path ?p" using XElem.prems by simp_all
  have "status_reads ?p ?p (concat (map xml_events ts)) (concat (map (marks ?p) ts))"
    using XElem.prems ok by (intro status_reads_list XElem.IH) (simp_all add: list_all_iff)
  from status_reads_append [OF status_reads_append [OF status_reads_open [OF XElem.prems(1) ok(1)] this]
      status_reads_close [of p "qname pre n" pre n]]
  show ?case by simp
qed (simp_all add: status_reads_empty status_reads_text)

text \<open>What the loop makes of the marks are the codes of the reference.\<close>

lemma mark_run_codes:
  assumes "cur \<noteq> results_names"
  shows "(case mark_run ms (cur, f, cs) of Inl e \<Rightarrow> Inl e | Inr (cur', a) \<Rightarrow> Inr a) =
    rbind (rmap stoi (said_in status_names cur (takeWhile (\<lambda>m. m \<noteq> Opens results_names) ms)))
      (\<lambda>is. Inr (f \<or> Opens status_names \<in> set (takeWhile (\<lambda>m. m \<noteq> Opens results_names) ms), cs @ map word_of_int is))"
  using assms
proof (induction ms arbitrary: cur f cs)
  case (Cons m ms)
  show ?case
  proof (cases m)
    case (Opens p)
    show ?thesis
    proof (cases "p = results_names")
      case True
      then show ?thesis using Cons.prems Opens by simp
    next
      case False
      then show ?thesis using Cons.prems Opens Cons.IH [OF False]
        by (auto simp: rbind_def split: sum.splits)
    qed
  next
    case (Says s)
    let ?texts = "said_in status_names cur (takeWhile (\<lambda>m. m \<noteq> Opens results_names) ms)"
    show ?thesis
    proof (cases "cur = status_names")
      case True
      show ?thesis
      proof (cases "stoi s")
        case (Inl e)
        then show ?thesis by (simp add: Says True)
      next
        case (Inr i)
        then show ?thesis
          using Cons.IH [OF Cons.prems, of f "cs @ [word_of_int i]"]
          by (cases "rmap stoi ?texts") (simp_all add: Says True)
      qed
    next
      case False
      then show ?thesis using Cons.IH [OF Cons.prems, of f cs] Cons.prems by (simp add: Says)
    qed
  qed
qed simp

lemma ReadXmlStatus_codes:
  assumes "open_reader xl ''Failed to create stream object'' text = Inr (concat (map xml_events doc))"
    and "list_all xml_names_ok doc"
  shows "ReadXmlStatus xl text STATUS_XML_PATH =
    rbind (rmap stoi (status_texts doc)) (\<lambda>codes.
      if has_status doc then Inr (map word_of_int codes) else Inl (missing_path STATUS_XML_PATH))"
proof -
  let ?ms = "concat (map (marks []) doc)" and ?a = "([], False, []) :: status_track"
  have "status_reads [] [] (concat (map xml_events doc)) ?ms"
    using assms(2) by (intro status_reads_list status_reads_events) (simp_all add: list_all_iff)
  moreover have "status_at [] ?a status_locals_new"
    by (simp add: status_at_def status_locals_new_def xml_path_def)
  ultimately have run: "case mark_run ?ms ?a of
      Inl e \<Rightarrow> status_loop STATUS_XML_PATH (concat (map xml_events doc)) status_locals_new = Inl e
    | Inr a' \<Rightarrow> \<exists>l'. status_loop STATUS_XML_PATH (concat (map xml_events doc)) status_locals_new = Inr l' \<and>
        status_at [] a' l'"
    unfolding status_reads_def by blast
  have "[] \<noteq> results_names" by (simp add: results_names_def)
  note codes = mark_run_codes [OF this, of ?ms False "[]"]
  show ?thesis
  proof (cases "mark_run ?ms ?a")
    case (Inl e)
    with run codes show ?thesis
      by (auto simp: ReadXmlStatus_def assms(1) status_texts_def before_results_def rbind_def split: sum.splits)
  next
    case (Inr a')
    with run obtain l' where "status_loop STATUS_XML_PATH (concat (map xml_events doc)) status_locals_new = Inr l'"
      "sl_found l' = fst (snd a')" "returnCodes l' = snd (snd a')"
      by (auto simp: status_at_def)
    with Inr codes show ?thesis
      by (cases a') (auto simp: ReadXmlStatus_def assms(1) status_texts_def has_status_def before_results_def rbind_def
        split: sum.splits)
  qed
qed

lemma stoi_range: "stoi s = Inr i \<Longrightarrow> - 2147483648 \<le> i \<and> i < 2147483648"
  by (auto simp: stoi_def int_limits split: option.splits if_splits)

lemma rmap_stoi_range: "rmap stoi ts = Inr is \<Longrightarrow> i \<in> set is \<Longrightarrow> - 2147483648 \<le> i \<and> i < 2147483648"
  by (induction ts arbitrary: "is") (auto simp: rbind_def dest: stoi_range split: sum.splits)

text \<open>A code as the unsigned number it is stored as: a negative one is a large one.\<close>

lemma status_code_word:
  assumes "- 2147483648 \<le> i" and "i < 2147483648"
  shows "sint (word_of_int i :: 32 word) = i" and "(300 :: 32 word) \<le> word_of_int i \<longleftrightarrow> i < 0 \<or> 300 \<le> i"
proof -
  show "sint (word_of_int i :: 32 word) = i"
    using assms by (simp add: signed_of_int signed_take_bit_int_eq_self)
  have "uint (word_of_int i :: 32 word) = (if i < 0 then i + 4294967296 else i)"
  proof (cases "i < 0")
    case True
    have "i mod 4294967296 = (i + 4294967296) mod 4294967296" by simp
    also have "\<dots> = i + 4294967296" using True assms by (intro mod_pos_pos_trivial) simp_all
    finally show ?thesis using True by (simp add: uint_word_of_int)
  qed (use assms in \<open>simp add: uint_word_of_int\<close>)
  then show "(300 :: 32 word) \<le> word_of_int i \<longleftrightarrow> i < 0 \<or> 300 \<le> i"
    using assms by (simp add: word_le_def)
qed

lemma find_code_word:
  assumes "\<forall>i \<in> set is. - 2147483648 \<le> i \<and> i < 2147483648"
  shows "find (\<lambda>c :: 32 word. c \<ge> 300) (map word_of_int is) = map_option word_of_int (find (\<lambda>i. i < 0 \<or> 300 \<le> i) is)"
  using assms by (induction "is") (simp_all add: status_code_word(2))

section \<open>Properties\<close>

lemma find_none_iff: "find P xs = None \<longleftrightarrow> \<not> list_ex P xs"
  by (induction xs) simp_all

text \<open>
  C33: what \<open>MdmServer::RunSyncML\<close> makes of the platform's answer, for any document: the texts
  that stand, before the first \<open>Results\<close>, behind a \<open>Status/Data\<close> that was the last element to
  open are read as numbers in order, white space behind a code included, and the first that is
  none throws; an answer without such an element throws that the path is missing; else the
  platform's text is returned if every code is in 0..299, and the first other code is thrown as an
  MDM error.
\<close>

theorem MdmServer_RunSyncML_status:
  assumes "ProcessInternal lm (c_str syncML) w = (Inr out, w')"
    and "open_reader xl ''Failed to create stream object'' out = Inr (concat (map xml_events doc))"
    and "list_all xml_names_ok doc"
  shows "MdmServer_RunSyncML xl lm sid syncML w =
    (rbind (rmap stoi (status_texts doc)) (\<lambda>codes.
       if \<not> has_status doc then Inl (missing_path STATUS_XML_PATH)
       else case find (\<lambda>c. c < 0 \<or> 300 \<le> c) codes of
           None \<Rightarrow> Inr (c_str out)
         | Some c \<Rightarrow> Inl (DMExc MDM c ''Error in processing syncML'')), w')"
proof (cases "rmap stoi (status_texts doc)")
  case (Inl e)
  then show ?thesis
    using assms(1) ReadXmlStatus_codes [OF assms(2,3)]
    by (simp add: MdmServer_RunSyncML_def SyncMLServer_Process_def cmd_simps)
next
  case (Inr codes)
  note range = rmap_stoi_range [OF Inr]
  have "find (\<lambda>c :: 32 word. c \<ge> 300) (map word_of_int codes) =
      map_option word_of_int (find (\<lambda>c. c < 0 \<or> 300 \<le> c) codes)"
    using range by (intro find_code_word) blast
  moreover have "sint (word_of_int c :: 32 word) = c" if "find (\<lambda>c. c < 0 \<or> 300 \<le> c) codes = Some c" for c
  proof -
    from that have "c \<in> set codes" by (auto simp: find_Some_iff)
    with range show ?thesis by (intro status_code_word(1)) blast+
  qed
  ultimately show ?thesis
    using assms(1) ReadXmlStatus_codes [OF assms(2,3)] Inr
    by (auto simp: MdmServer_RunSyncML_def SyncMLServer_Process_def cmd_simps split: option.splits)
qed

text \<open>Two answers: one that refuses the second command, and a formatted one.\<close>

definition leaf :: "string \<Rightarrow> string \<Rightarrow> xml" where
  "leaf n s = XElem [] n [XText False s]"

definition status_doc :: "xml list \<Rightarrow> xml list" where
  "status_doc ts = [XElem [] ''SyncML'' [XElem [] ''SyncBody'' ts]]"

definition refused_answer :: "xml list" where
  "refused_answer = status_doc [XElem [] ''Status'' [leaf ''CmdID'' ''1'', leaf ''Data'' ''200''],
     XElem [] ''Status'' [leaf ''Data'' ''404''], XElem [] ''Status'' [leaf ''Data'' ''500'']]"

definition sample_lm :: "nat local_mdm" where
  "sample_lm = \<lparr>lm_Register = cret 0, lm_Apply = (\<lambda>t. cseq (cmod Suc) (cret (0, Some t)))\<rparr>"

definition answer_xl :: "xml list \<Rightarrow> xml_lite" where
  "answer_xl doc = \<lparr>xl_stream = 0, xl_create = 0, xl_property = 0, xl_input = 0,
     xl_nodes = (\<lambda>t. concat (map xml_events doc))\<rparr>"

lemma sample_answer:
  "ProcessInternal sample_lm (c_str ''get'') 0 = (Inr ''get'', 1)"
  "open_reader (answer_xl doc) ''Failed to create stream object'' ''get'' = Inr (concat (map xml_events doc))"
  by (simp_all add: ProcessInternal_def sample_lm_def cmd_simps FAILED_def c_str_def open_reader_def answer_xl_def)

lemmas answer_simps = status_doc_def leaf_def status_texts_def has_status_def before_results_def
  status_names_def results_names_def qname_def

theorem MdmServer_RunSyncML_status_witness:
  "MdmServer_RunSyncML (answer_xl refused_answer) sample_lm '''' ''get'' 0 =
     (Inl (DMException ''MDM'' 404 ''Error in processing syncML''), 1)"
proof -
  have "list_all xml_names_ok refused_answer"
    by (simp add: refused_answer_def answer_simps backslash_def)
  note answer = MdmServer_RunSyncML_status [OF sample_answer this, of "''''"]
  have "status_texts refused_answer = [''200'', ''404'', ''500'']" "has_status refused_answer"
    by (simp_all add: refused_answer_def answer_simps)
  moreover have "rmap stoi [''200'', ''404'', ''500''] = Inr [200, 404, 500]" by code_simp
  ultimately show ?thesis using answer by simp
qed

text \<open>White space behind a code, as in a formatted answer, is read as another code and throws.\<close>

theorem formatted_answer_throws:
  "ReadXmlStatus (answer_xl (status_doc [XElem [] ''Status'' [leaf ''Data'' ''200'', XText True [CHR 0x0A]]])) ''get''
     STATUS_XML_PATH = Inl (StdException ''invalid stoi argument'')"
proof -
  let ?doc = "status_doc [XElem [] ''Status'' [leaf ''Data'' ''200'', XText True [CHR 0x0A]]]"
  have "list_all xml_names_ok ?doc" by (simp add: answer_simps backslash_def)
  note codes = ReadXmlStatus_codes [OF sample_answer(2) this]
  have "status_texts ?doc = [''200'', [CHR 0x0A]]" by (simp add: answer_simps)
  moreover have "rmap stoi [''200'', [CHR 0x0A]] = Inl (StdException ''invalid stoi argument'')" by code_simp
  ultimately show ?thesis using codes by simp
qed

end
