(* ===== verification/Os_Services.thy ===== *)
theory Os_Services
  imports Reporting
begin

text \<open>
  The wrappers of code/Utilities over the operating system that the plug-ins call: the
  registry (Registry.cpp), running a program and collecting its output (DMProcess.cpp), the
  TPM operations (TpmSupport.cpp), folders and files (FileSystem.cpp).  The calls of the
  platform, and of the Limpet library below the TPM operations, are the fields of the records
  \<open>registry_api\<close>, \<open>process_api\<close>, \<open>limpet_api\<close> and \<open>fs_api\<close>; each answers its status.
\<close>

section \<open>Registry\<close>

datatype reg_data = REG_SZ string | REG_DWORD "32 word"

record 'w registry_api =
  rg_CreateKey :: "string \<Rightarrow> ('w, int) cmd"
  rg_SetValue :: "string \<Rightarrow> string \<Rightarrow> reg_data \<Rightarrow> ('w, int) cmd"
  rg_GetSize :: "string \<Rightarrow> string \<Rightarrow> ('w, int) cmd"
  rg_GetString :: "string \<Rightarrow> string \<Rightarrow> ('w, int + string) cmd"
  rg_GetDword :: "string \<Rightarrow> string \<Rightarrow> ('w, int + 32 word) cmd"

abbreviation ERROR_SUCCESS :: int where "ERROR_SUCCESS \<equiv> 0"

definition WriteRegistry :: "'w registry_api \<Rightarrow> string \<Rightarrow> string \<Rightarrow> reg_data \<Rightarrow> ('w, unit) cmd" where
  "WriteRegistry rg subKey propName propValue =
     cbind (rg_CreateKey rg subKey) (\<lambda>status.
       if status \<noteq> ERROR_SUCCESS then cthrow (DMExc Windows status ''Failed to open registry key'')
       else cbind (rg_SetValue rg subKey propName propValue) (\<lambda>status.
         if status \<noteq> ERROR_SUCCESS then cthrow (DMExc Windows status ''Failed to set registry key value'')
         else cret ()))"

definition WriteRegistryValue :: "'w registry_api \<Rightarrow> string \<Rightarrow> string \<Rightarrow> string \<Rightarrow> ('w, unit) cmd" where
  "WriteRegistryValue rg subKey propName propValue =
     WriteRegistry rg (c_str subKey) (c_str propName) (REG_SZ propValue)"

definition WriteRegistryNumber :: "'w registry_api \<Rightarrow> string \<Rightarrow> string \<Rightarrow> 32 word \<Rightarrow> ('w, unit) cmd" where
  "WriteRegistryNumber rg subKey propName propValue =
     WriteRegistry rg (c_str subKey) (c_str propName) (REG_DWORD propValue)"

text \<open>The readers answer the status on failure and leave the out parameter as it was.\<close>

definition TryReadRegistryValue :: "'w registry_api \<Rightarrow> string \<Rightarrow> string \<Rightarrow> ('w, int + string) cmd" where
  "TryReadRegistryValue rg subKey propName =
     cbind (rg_GetSize rg (c_str subKey) (c_str propName)) (\<lambda>status.
       if status \<noteq> ERROR_SUCCESS then cret (Inl status)
       else cbind (rg_GetString rg (c_str subKey) (c_str propName)) (\<lambda>r.
         cret (case r of Inl status \<Rightarrow> Inl status | Inr v \<Rightarrow> Inr (c_str v))))"

definition TryReadRegistryNumber :: "'w registry_api \<Rightarrow> string \<Rightarrow> string \<Rightarrow> ('w, int + 32 word) cmd" where
  "TryReadRegistryNumber rg subKey propName = rg_GetDword rg (c_str subKey) (c_str propName)"

definition ReadRegistryValue :: "'w registry_api \<Rightarrow> string \<Rightarrow> string \<Rightarrow> ('w, string) cmd" where
  "ReadRegistryValue rg subKey propName =
     cbind (TryReadRegistryValue rg subKey propName) (\<lambda>r. case r of
       Inl status \<Rightarrow> cthrow (DMExc Windows status ''Failed to read registry value'')
     | Inr v \<Rightarrow> cret v)"

definition ReadRegistryValueDefault :: "'w registry_api \<Rightarrow> string \<Rightarrow> string \<Rightarrow> string \<Rightarrow> ('w, string) cmd" where
  "ReadRegistryValueDefault rg subKey propName propDefaultValue =
     cbind (TryReadRegistryValue rg subKey propName) (\<lambda>r.
     cret (case r of Inl status \<Rightarrow> propDefaultValue | Inr v \<Rightarrow> v))"

definition ReadRegistryBoolValue :: "'w registry_api \<Rightarrow> string \<Rightarrow> string \<Rightarrow> bool \<Rightarrow> ('w, bool) cmd" where
  "ReadRegistryBoolValue rg subKey propName propDefaultValue =
     cbind (TryReadRegistryNumber rg subKey propName) (\<lambda>r.
     let propValue = (case r of Inl status \<Rightarrow> if propDefaultValue then 1 else 0 | Inr v \<Rightarrow> v)
     in cret (propValue \<noteq> 0))"

definition ReadRegistryInt32Value :: "'w registry_api \<Rightarrow> string \<Rightarrow> string \<Rightarrow> int \<Rightarrow> ('w, int) cmd" where
  "ReadRegistryInt32Value rg subKey propName propDefaultValue =
     cbind (TryReadRegistryNumber rg subKey propName) (\<lambda>r.
     let propValue = (case r of Inl status \<Rightarrow> word_of_int propDefaultValue | Inr v \<Rightarrow> v)
     in cret (sint propValue))"

text \<open>
  The documented behaviour of the registry calls that the plug-ins rely on: a value that was
  set is the value that is read, under its key and name and under no other.
\<close>

definition registry_laws ::
    "'w registry_api \<Rightarrow> ('w \<Rightarrow> string \<Rightarrow> string \<Rightarrow> reg_data option) \<Rightarrow> bool" where
  "registry_laws rg stored \<longleftrightarrow>
     (\<forall>k w s w'. rg_CreateKey rg k w = (Inr s, w') \<longrightarrow> stored w' = stored w) \<and>
     (\<forall>k n v w w'. rg_SetValue rg k n v w = (Inr ERROR_SUCCESS, w') \<longrightarrow>
        stored w' = (stored w)(k := (stored w k)(n \<mapsto> v))) \<and>
     (\<forall>k n d w. stored w k n = Some (REG_DWORD d) \<longrightarrow> rg_GetDword rg k n w = (Inr (Inr d), w))"

lemma registry_write_then_read:
  assumes "registry_laws rg stored" and "WriteRegistryNumber rg subKey propName d w = (Inr (), w')"
  shows "TryReadRegistryNumber rg subKey propName w' = (Inr (Inr d), w')"
    and "k \<noteq> c_str subKey \<or> n \<noteq> c_str propName \<Longrightarrow> stored w' k n = stored w k n"
proof -
  from assms(2) obtain w1 where c: "rg_CreateKey rg (c_str subKey) w = (Inr ERROR_SUCCESS, w1)"
    and s: "rg_SetValue rg (c_str subKey) (c_str propName) (REG_DWORD d) w1 = (Inr ERROR_SUCCESS, w')"
    by (auto simp: WriteRegistryNumber_def WriteRegistry_def cmd_simps split: prod.splits sum.splits if_splits)
  have w1: "stored w1 = stored w" using assms(1) c unfolding registry_laws_def by blast
  have w': "stored w' = (stored w1)(c_str subKey := (stored w1 (c_str subKey))(c_str propName \<mapsto> REG_DWORD d))"
    using assms(1) s unfolding registry_laws_def by blast
  have "stored w' (c_str subKey) (c_str propName) = Some (REG_DWORD d)" using w' by simp
  then show "TryReadRegistryNumber rg subKey propName w' = (Inr (Inr d), w')"
    using assms(1) unfolding TryReadRegistryNumber_def registry_laws_def by blast
  show "k \<noteq> c_str subKey \<or> n \<noteq> c_str propName \<Longrightarrow> stored w' k n = stored w k n"
    using w' w1 by auto
qed

section \<open>Running a program\<close>

text \<open>
  The child as the loop sees it: once a second it is still running or has exited, with the
  exit code unless the query for it fails; each time the pipe is then looked at, which fails
  or gives the bytes that are there.  A child that never exits is not described.
\<close>

datatype pipe_peek = PeekFailed | Chunk string

datatype child = Running pipe_peek child | Exited "32 word option" pipe_peek

record 'w process_api =
  pr_CreatePipe :: "('w, int option) cmd"
  pr_SetHandleInformation :: "('w, int option) cmd"
  pr_CreateProcess :: "string \<Rightarrow> ('w, int + child) cmd"

fun peek_output :: "pipe_peek \<Rightarrow> string" where
  "peek_output PeekFailed = []"
| "peek_output (Chunk bytes) = c_str bytes"

fun collect :: "child \<Rightarrow> 32 word \<Rightarrow> string \<Rightarrow> 32 word \<times> string" where
  "collect (Running p k) returnCode acc =
     (if p = PeekFailed then (returnCode, acc) else collect k returnCode (acc @ peek_output p))"
| "collect (Exited ec p) returnCode acc =
     (case ec of None \<Rightarrow> returnCode | Some c \<Rightarrow> c, acc @ peek_output p)"

text \<open>\<open>returnCode\<close> is what the caller's variable holds before the call.\<close>

definition Launch :: "'w process_api \<Rightarrow> string \<Rightarrow> 32 word \<Rightarrow> ('w, 32 word \<times> string) cmd" where
  "Launch pr commandString returnCode =
     cbind (pr_CreatePipe pr) (\<lambda>r. case r of
       Some gle \<Rightarrow> cthrow (DMExc Windows gle
         ''Failed to create anonymous pipe for reading/writing child process stdin|stdout'')
     | None \<Rightarrow> cbind (pr_SetHandleInformation pr) (\<lambda>r. case r of
         Some gle \<Rightarrow> cthrow (DMExc Windows gle ''Failed to set handle information for stdout read handler'')
       | None \<Rightarrow> cbind (pr_CreateProcess pr (c_str commandString)) (\<lambda>r. case r of
           Inl gle \<Rightarrow> cthrow (DMExc Windows gle ''Failed to create process'')
         | Inr k \<Rightarrow> cret (collect k returnCode []))))"

fun child_chunks :: "child \<Rightarrow> string list" where
  "child_chunks (Running p k) = peek_output p # child_chunks k"
| "child_chunks (Exited ec p) = [peek_output p]"

fun child_code :: "child \<Rightarrow> 32 word option" where
  "child_code (Running p k) = child_code k"
| "child_code (Exited ec p) = ec"

fun pipe_holds :: "child \<Rightarrow> bool" where
  "pipe_holds (Running p k) \<longleftrightarrow> p \<noteq> PeekFailed \<and> pipe_holds k"
| "pipe_holds (Exited ec p) \<longleftrightarrow> True"

text \<open>While the pipe can be looked at, everything the child wrote is collected, in order.\<close>

lemma collect_all:
  "pipe_holds k \<Longrightarrow> collect k returnCode acc =
     (case child_code k of None \<Rightarrow> returnCode | Some c \<Rightarrow> c, acc @ concat (child_chunks k))"
  by (induction k arbitrary: acc) simp_all

text \<open>\<open>GetSystemDirectory\<close> is a parameter: the error of the call or the folder.\<close>

definition GetSystemRootFolder :: "('w, int + string) cmd \<Rightarrow> ('w, string) cmd" where
  "GetSystemRootFolder getSystemDirectory =
     cbind getSystemDirectory (\<lambda>r. case r of
       Inl gle \<Rightarrow> cthrow (DMExc Windows gle ''Error: failed to retrieve system folder.'')
     | Inr folder \<Rightarrow> cret (c_str folder))"

section \<open>TPM operations\<close>

record 'w limpet_api =
  lp_ForceClearTpm :: "('w, int) cmd"

definition ClearTpm :: "'w limpet_api \<Rightarrow> ('w, int) cmd" where
  "ClearTpm lp = cseq (lp_ForceClearTpm lp) (cret 0)"

section \<open>Folders and files\<close>

text \<open>
  \<open>fs_directory\<close> is the range of a \<open>directory_iterator\<close> with the type of each entry; it may
  throw.  \<open>fs_WriteFile\<close> opens an \<open>ofstream\<close>, writes and closes it, without a word on failure.
\<close>

datatype file_type = none | not_found | regular | directory | symlink | block | character | fifo | socket | unknown_type

record 'w fs_api =
  fs_CreateDirectory :: "string \<Rightarrow> ('w, bool) cmd"
  fs_GetFileAttributes :: "string \<Rightarrow> ('w, 32 word) cmd"
  fs_directory :: "string \<Rightarrow> ('w, (string \<times> file_type) list) cmd"
  fs_DeleteFile :: "string \<Rightarrow> ('w, bool) cmd"
  fs_WriteFile :: "string \<Rightarrow> string \<Rightarrow> ('w, unit) cmd"

abbreviation ERROR_ALREADY_EXISTS :: int where "ERROR_ALREADY_EXISTS \<equiv> 183"
abbreviation INVALID_FILE_ATTRIBUTES :: "32 word" where "INVALID_FILE_ATTRIBUTES \<equiv> 0xFFFFFFFF"
abbreviation FILE_ATTRIBUTE_DIRECTORY :: "32 word" where "FILE_ATTRIBUTE_DIRECTORY \<equiv> 16"

definition folder_sep :: char where
  "folder_sep = CHR 0x5C"

definition throw_last_error :: "string \<Rightarrow> ('w world_scheme, 'a) cmd" where
  "throw_last_error msg = cbind (cget lastError) (\<lambda>gle. cthrow (DMExc Windows gle msg))"

definition create_folder :: "'w world_scheme fs_api \<Rightarrow> string \<Rightarrow> ('w world_scheme, unit) cmd" where
  "create_folder fs path =
     cbind (fs_CreateDirectory fs (c_str path)) (\<lambda>ok.
       if \<not> ok then cbind (cget lastError) (\<lambda>gle.
         if ERROR_ALREADY_EXISTS \<noteq> gle then throw_last_error ''Failed to create new directory'' else cret ())
       else cret ())"

text \<open>The loop after its first round, which only takes the first token as the path.\<close>

fun ensure_below :: "'w world_scheme fs_api \<Rightarrow> string \<Rightarrow> string list \<Rightarrow> ('w world_scheme, unit) cmd" where
  "ensure_below fs path [] = cret ()"
| "ensure_below fs path (s # tokens) =
     (let path' = path @ [folder_sep] @ s in cseq (create_folder fs path') (ensure_below fs path' tokens))"

definition EnsureFolderExists :: "'w world_scheme fs_api \<Rightarrow> string \<Rightarrow> ('w world_scheme, unit) cmd" where
  "EnsureFolderExists fs folder =
     (case SplitString folder_sep folder of
        [] \<Rightarrow> cret ()
      | s # tokens \<Rightarrow> ensure_below fs s tokens)"

definition GetFileSystemObjectNames ::
    "'w world_scheme fs_api \<Rightarrow> string \<Rightarrow> file_type \<Rightarrow> ('w world_scheme, string list) cmd" where
  "GetFileSystemObjectNames fs path type =
     cbind (fs_GetFileAttributes fs (c_str path)) (\<lambda>pathType.
       if pathType = INVALID_FILE_ATTRIBUTES then throw_last_error ''Incorrect file/folder path.''
       else if pathType = FILE_ATTRIBUTE_DIRECTORY
       then cbind (fs_directory fs path) (\<lambda>entries.
         cret (map (c_str \<circ> fst) (filter (\<lambda>e. snd e = type) entries)))
       else throw_last_error ''Folder path is incorrect.'')"

text \<open>\<open>CryptStringToBinaryA\<close> is a parameter: the value of \<open>GetLastError\<close> or the bytes.\<close>

definition Base64ToBinary :: "(string \<Rightarrow> int + string) \<Rightarrow> string \<Rightarrow> string res" where
  "Base64ToBinary dec base64string =
     (case dec base64string of
        Inl err \<Rightarrow> Inl (DMExc Windows err ''Error: cannot obtain the required size to decode buffer from base64.'')
      | Inr buffer \<Rightarrow> Inr buffer)"

end
