(* ===== verification/Device_Plugins.thy ===== *)
theory Device_Plugins
  imports Static_Handlers Mdm_Proxy Os_Services
begin

text \<open>
  What the handlers of the device plug-ins (device-agent-plugins) share: \<open>Start\<close> with and
  without the test mode, the connection callback that only logs, the result of a direct
  method, and the body of every desired-state \<open>Invoke\<close>.  The locale \<open>state_plugin\<close> is the
  contract of the latter: a handler provides what it applies and what it reports, and gets
  the laws of \<open>raw_handler\<close> and of the common body.
\<close>

section \<open>Start and the connection status\<close>

text \<open>The log file of the configuration is not modelled; reading its entry may throw.\<close>

definition plugin_Start :: "json \<Rightarrow> ((('w, 'z) HandlerBase_scheme, 'w) ctx, bool) cmd" where
  "plugin_Start config =
     cseq (SetConfig config) (cbind (clift (json_at config ''textLogFilesPath'')) (\<lambda>logFilesPath. cret True))"

definition plugin_OnConnectionStatusChanged ::
    "ConnectionStatus \<Rightarrow> ((('w, 'z) HandlerBase_scheme, 'w) ctx, unit) cmd" where
  "plugin_OnConnectionStatusChanged st = cret ()"

record 'w TestModeHandler = "'w MdmHandlerBase" +
  testModeEnabled :: bool

definition TestModeHandler_new ::
    "string \<Rightarrow> ('w world_scheme, 'w world_scheme TestModeHandler) cmd" where
  "TestModeHandler_new i =
     cbind (MdmHandlerBase_new i (ReportedSchema_new ''raw'' ''dm'' InterfaceVersion)) (\<lambda>hb.
     cret (MdmHandlerBase.extend hb (TestModeHandler.fields False)))"

definition test_mode_Start :: "json \<Rightarrow> ((('w, 'z) TestModeHandler_scheme, 'w) ctx, bool) cmd" where
  "test_mode_Start config =
     cbind (plugin_Start config) (\<lambda>active.
     cbind (clift (json_at config ''handlerTestMode'')) (\<lambda>handlerTestMode.
     cseq (if \<not> isNull handlerTestMode \<and> isBool handlerTestMode
           then cbind (clift (asBool handlerTestMode)) (\<lambda>b. set_this (testModeEnabled_update (\<lambda>_. b)))
           else cret ())
       (cret active)))"

definition unless_test_mode ::
    "((('w, 'z) TestModeHandler_scheme, 'w) ctx, unit) cmd \<Rightarrow>
     ((('w, 'z) TestModeHandler_scheme, 'w) ctx, unit) cmd" where
  "unless_test_mode m = cbind (cget (testModeEnabled \<circ> this)) (\<lambda>t. if \<not> t then m else cret ())"

definition direct_method_result ::
    "json \<Rightarrow> (('w world_scheme, 'z) HandlerBase_scheme, 'w world_scheme) ctx \<Rightarrow> InvokeResult" where
  "direct_method_result jsonParameters c =
     (let r = InvokeResult_full eDirectMethod 200 ''{}''
      in if Count (errs c) \<noteq> 0
         then r\<lparr>code := 400,
                payload := styled (wld c) (jget (ReportedErrorList_ToJsonObject (errs c)) (handlerId (this c)))\<rparr>
         else r)"

definition desired_state_result ::
    "json \<Rightarrow> (('w world_scheme, 'z) HandlerBase_scheme, 'w world_scheme) ctx \<Rightarrow> InvokeResult" where
  "desired_state_result desired c = InvokeResult_context eDesiredState"

text \<open>The answer of the methods that return the reported object.\<close>

definition list_method_result ::
    "json \<Rightarrow> (('w world_scheme, 'z) HandlerBase_scheme, 'w world_scheme) ctx \<Rightarrow> InvokeResult" where
  "list_method_result jsonParameters c =
     (if Count (errs c) = 0 then InvokeResult_full eDirectMethod 200 (styled (wld c) (reported c))
      else direct_method_result jsonParameters c)"

text \<open>Some direct methods run their action under \<open>RunOperation\<close> but report nothing to the host.\<close>

definition Invoke_silent ::
    "((('w, 'z) HandlerBase_scheme, 'w) ctx, unit) cmd \<Rightarrow> ((('w, 'z) HandlerBase_scheme, 'w) ctx, 'a) cmd \<Rightarrow>
     ((('w, 'z) HandlerBase_scheme, 'w) ctx, 'a) cmd" where
  "Invoke_silent action result =
     cnoexcept (cseq fresh_locals (
       cbind (cget (handlerId \<circ> this)) (\<lambda>i. cseq (RunOperation i action) result)))"

text \<open>\<open>_stricmp\<close> and \<open>_wcsicmp\<close> on the characters below 128.\<close>

definition same_name :: "string \<Rightarrow> string \<Rightarrow> bool" where
  "same_name a b \<longleftrightarrow> map towlower (c_str a) = map towlower (c_str b)"

text \<open>
  A server that records its requests and may refuse any of them: \<open>log\<close> is the record in the
  world, and the process does not end in it.
\<close>

definition mdm_logs :: "(string \<Rightarrow> string \<Rightarrow> ('w, string) cmd) \<Rightarrow> ('w \<Rightarrow> string list) \<Rightarrow> bool" where
  "mdm_logs run log \<longleftrightarrow>
     (\<forall>sid r w. log (snd (run sid r w)) = log w @ [r] \<and> fst (run sid r w) \<noteq> Inl Terminate)"

lemma asInt_catchable: "asInt v = Inl e \<Longrightarrow> catchable e"
  by (cases v) (auto split: if_splits)

lemma asString_catchable: "asString v = Inl e \<Longrightarrow> catchable e"
proof (cases v)
  case (JReal d)
  then show "asString v = Inl e \<Longrightarrow> catchable e" by (cases d) simp
qed auto

lemma json_at_catchable: "json_at v k = Inl e \<Longrightarrow> catchable e"
  by (cases v) auto

lemma TryGetJsonValue_catchable: "TryGetJsonValue v k = Inl e \<Longrightarrow> catchable e"
  by (auto simp: TryGetJsonValue_def rbind_def json_at_catchable asString_catchable split: if_splits sum.splits)

lemma TryGetIntJsonValue_catchable: "TryGetIntJsonValue v k = Inl e \<Longrightarrow> catchable e"
  by (auto simp: TryGetIntJsonValue_def rbind_def TryGetJsonValue_catchable asInt_catchable
    split: if_splits sum.splits option.splits)

lemma preserves_RunOperation_inv [preserves_intros]:
  "preserves (handler_inv i h) A \<Longrightarrow> preserves (handler_inv i h) (RunOperation g A)"
  by (intro preserves_intros) (simp_all add: handler_inv_def)

lemma preserves_host_call [preserves_intros]: "preserves (handler_inv i h) (host_call f)"
  unfolding host_call_def by (intro preserves_intros) (auto split: option.split intro: preserves_intros)

lemma preserves_ReportRefreshing [preserves_intros]: "preserves (handler_inv i h) ReportRefreshing"
  unfolding ReportRefreshing_def by (intro preserves_intros)

lemma preserves_option [preserves_intros]:
  "(r = None \<Longrightarrow> preserves I m) \<Longrightarrow> (\<And>x. r = Some x \<Longrightarrow> preserves I (n x)) \<Longrightarrow>
     preserves I (case r of None \<Rightarrow> m | Some x \<Rightarrow> n x)"
  by (cases r) simp_all

lemma preserves_unless_test_mode [preserves_intros]:
  "preserves I m \<Longrightarrow> preserves I (unless_test_mode m)"
  unfolding unless_test_mode_def by (intro preserves_intros)

section \<open>The body of a desired-state \<open>Invoke\<close>\<close>

text \<open>
  \<open>before\<close> runs ahead of the metadata and \<open>after\<close> behind it; \<open>bld\<close> or \<open>emp\<close> fills the
  reported object, by the reporting mode.
\<close>

definition state_reach ::
    "(json \<Rightarrow> ((('w world_scheme, 'z) HandlerBase_scheme, 'w world_scheme) ctx, unit) cmd) \<Rightarrow>
     ((('w world_scheme, 'z) HandlerBase_scheme, 'w world_scheme) ctx, unit) cmd \<Rightarrow> json \<Rightarrow>
     ((('w world_scheme, 'z) HandlerBase_scheme, 'w world_scheme) ctx, unit) cmd" where
  "state_reach before after desired =
     cseq (before desired) (cseq (on_meta (FromJsonParentObject desired)) (cseq after ReportRefreshing))"

definition state_apply ::
    "(json \<Rightarrow> ((('w world_scheme, 'z) HandlerBase_scheme, 'w world_scheme) ctx, unit) cmd) \<Rightarrow>
     ((('w world_scheme, 'z) HandlerBase_scheme, 'w world_scheme) ctx, unit) cmd \<Rightarrow>
     ((('w world_scheme, 'z) HandlerBase_scheme, 'w world_scheme) ctx, unit) cmd \<Rightarrow> json \<Rightarrow>
     ((('w world_scheme, 'z) HandlerBase_scheme, 'w world_scheme) ctx, unit) cmd" where
  "state_apply apply_state bld emp desired =
     cseq (apply_state desired) (
     cbind (cget (reportingMode \<circ> metaData \<circ> this)) (\<lambda>mode.
     cseq (if mode = ''detailed'' then bld else emp) (set_device_version InterfaceVersion)))"

definition state_action ::
    "(json \<Rightarrow> ((('w world_scheme, 'z) HandlerBase_scheme, 'w world_scheme) ctx, unit) cmd) \<Rightarrow>
     ((('w world_scheme, 'z) HandlerBase_scheme, 'w world_scheme) ctx, unit) cmd \<Rightarrow>
     (json \<Rightarrow> ((('w world_scheme, 'z) HandlerBase_scheme, 'w world_scheme) ctx, unit) cmd) \<Rightarrow>
     ((('w world_scheme, 'z) HandlerBase_scheme, 'w world_scheme) ctx, unit) cmd \<Rightarrow>
     ((('w world_scheme, 'z) HandlerBase_scheme, 'w world_scheme) ctx, unit) cmd \<Rightarrow> json \<Rightarrow>
     ((('w world_scheme, 'z) HandlerBase_scheme, 'w world_scheme) ctx, unit) cmd" where
  "state_action before after apply_state bld emp desired =
     cbind (clift (IsRefreshing desired)) (\<lambda>refreshing.
       if refreshing then cret ()
       else cseq (state_reach before after desired)
              (check_version InterfaceVersion (state_apply apply_state bld emp desired)))"

definition state_Invoke ::
    "(json \<Rightarrow> ((('w world_scheme, 'z) HandlerBase_scheme, 'w world_scheme) ctx, unit) cmd) \<Rightarrow>
     ((('w world_scheme, 'z) HandlerBase_scheme, 'w world_scheme) ctx, unit) cmd \<Rightarrow>
     (json \<Rightarrow> ((('w world_scheme, 'z) HandlerBase_scheme, 'w world_scheme) ctx, unit) cmd) \<Rightarrow>
     ((('w world_scheme, 'z) HandlerBase_scheme, 'w world_scheme) ctx, unit) cmd \<Rightarrow>
     ((('w world_scheme, 'z) HandlerBase_scheme, 'w world_scheme) ctx, unit) cmd \<Rightarrow> json \<Rightarrow>
     ((('w world_scheme, 'z) HandlerBase_scheme, 'w world_scheme) ctx, InvokeResult) cmd" where
  "state_Invoke before after apply_state bld emp desired =
     Invoke_reporting (state_action before after apply_state bld emp desired)
       (cget (desired_state_result desired))"

definition supported_version :: "(('w world_scheme, 'z) HandlerBase_scheme, 'w world_scheme) ctx \<Rightarrow> bool" where
  "supported_version c \<longleftrightarrow>
     MajorVersionCompare (lastError (wld c)) InterfaceVersion (serviceInterfaceVersion (metaData (this c))) = Inr 0"

lemma check_version_supported: "supported_version c \<Longrightarrow> check_version InterfaceVersion m c = m c"
  by (simp add: supported_version_def check_version_def cmd_simps)

lemma check_version_unsupported:
  "\<not> supported_version c \<Longrightarrow> \<exists>e. check_version InterfaceVersion m c = (Inl e, c)"
  by (auto simp: supported_version_def check_version_def cmd_simps split: sum.splits)

locale state_plugin =
  fixes before :: "json \<Rightarrow> ((('w world_scheme, 'z) HandlerBase_scheme, 'w world_scheme) ctx, unit) cmd"
    and after :: "((('w world_scheme, 'z) HandlerBase_scheme, 'w world_scheme) ctx, unit) cmd"
    and apply_state :: "json \<Rightarrow> ((('w world_scheme, 'z) HandlerBase_scheme, 'w world_scheme) ctx, unit) cmd"
    and bld emp :: "((('w world_scheme, 'z) HandlerBase_scheme, 'w world_scheme) ctx, unit) cmd"
  assumes before_keeps: "preserves (handler_inv i h) (before desired)"
    and after_keeps: "preserves (handler_inv i h) after"
    and apply_keeps: "preserves (handler_inv i h) (apply_state desired)"
    and build_keeps: "preserves (handler_inv i h) bld"
    and empty_keeps: "preserves (handler_inv i h) emp"
begin

lemma action_keeps: "preserves (handler_inv i h) (state_action before after apply_state bld emp desired)"
  unfolding state_action_def state_reach_def state_apply_def
  by (intro preserves_intros before_keeps after_keeps apply_keeps build_keeps empty_keeps)

lemma refreshing_applies_nothing:
  "IsRefreshing desired = Inr True \<Longrightarrow> state_action before after apply_state bld emp desired c = (Inr (), c)"
  by (simp add: state_action_def cmd_simps)

text \<open>Under a version it does not support the handler applies and builds nothing.\<close>

lemma unsupported_applies_nothing:
  assumes "IsRefreshing desired = Inr False" and "state_reach before after desired c = (Inr (), c1)"
    and "\<not> supported_version c1"
  shows "\<exists>e. state_action before after apply_state bld emp desired c = (Inl e, c1)"
  using assms check_version_unsupported [OF assms(3)] by (simp add: state_action_def cmd_simps)

lemma supported_applies:
  assumes "IsRefreshing desired = Inr False" and "state_reach before after desired c = (Inr (), c1)"
    and "supported_version c1"
  shows "state_action before after apply_state bld emp desired c = state_apply apply_state bld emp desired c1"
  using assms by (simp add: state_action_def cmd_simps check_version_supported)

end

sublocale state_plugin \<subseteq> rh: raw_handler
  "state_action before after apply_state bld emp" desired_state_result
  "state_Invoke before after apply_state bld emp"
  by unfold_locales (simp_all add: state_Invoke_def action_keeps)

end
