(* ===== verification/Mdm_Plugins.thy ===== *)
theory Mdm_Plugins
  imports Device_Plugins
begin

text \<open>
  The device plug-ins that work through the MDM server: the reboot command and the reboot
  schedule (RebootPlugin), the Windows Update policies (WindowsUpdatePlugin), the device
  information (DeviceInfoPlugin) and the two destructive commands, remote wipe
  (RemoteWipePlugin) and factory reset (FactoryResetPlugin).  Every handler is an
  interpretation of \<open>raw_handler\<close> or of \<open>state_plugin\<close>.
\<close>

section \<open>RebootCmdHandler\<close>

definition reboot_now :: string where
  "reboot_now = ''./Device/Vendor/MSFT/Reboot/RebootNow''"

definition RebootCmdHandler_new :: "('w world_scheme, 'w world_scheme TestModeHandler) cmd" where
  "RebootCmdHandler_new = TestModeHandler_new ''StartRebootCmd''"

definition RebootCmd_action ::
    "json \<Rightarrow> ((('w world_scheme, 'z) TestModeHandler_scheme, 'w world_scheme) ctx, unit) cmd" where
  "RebootCmd_action jsonParameters =
     cseq (on_meta (FromJsonParentObject jsonParameters)) (
     check_version InterfaceVersion (
       cseq (unless_test_mode (mdm_call (\<lambda>m. RunExec m reboot_now)))
         (set_device_version InterfaceVersion)))"

definition RebootCmd_Invoke ::
    "json \<Rightarrow> ((('w world_scheme, 'z) TestModeHandler_scheme, 'w world_scheme) ctx, InvokeResult) cmd" where
  "RebootCmd_Invoke jsonParameters =
     Invoke_reporting (RebootCmd_action jsonParameters) (cget (direct_method_result jsonParameters))"

interpretation rebootCmd: raw_handler
  "RebootCmd_action :: json \<Rightarrow> ((('w world_scheme, 'z) TestModeHandler_scheme, 'w world_scheme) ctx, unit) cmd"
  direct_method_result RebootCmd_Invoke
  by unfold_locales
    (simp add: RebootCmd_Invoke_def, unfold RebootCmd_action_def, intro preserves_intros)

section \<open>RebootStateHandler\<close>

record 'w RebootStateHandler = "'w MdmHandlerBase" +
  lastRebootTime :: string

definition RebootStateHandler_new :: "('w world_scheme, 'w world_scheme RebootStateHandler) cmd" where
  "RebootStateHandler_new =
     cbind (MdmHandlerBase_new ''rebootInfo'' (ReportedSchema_new ''raw'' ''dm'' InterfaceVersion)) (\<lambda>hb.
     cbind now (\<lambda>t. cret (MdmHandlerBase.extend hb (RebootStateHandler.fields t))))"

definition reboot_schedule :: string where
  "reboot_schedule = ''./Device/Vendor/MSFT/Reboot/Schedule/''"

definition RebootState_SetSubGroup ::
    "json \<Rightarrow> string \<Rightarrow> string \<Rightarrow> ((('w, 'z) MdmHandlerBase_scheme, 'w) ctx, bool) cmd" where
  "RebootState_SetSubGroup desiredConfig cspNodeId operationId =
     RunOperation operationId (
       cbind (clift (TryGetStringJsonValue desiredConfig operationId)) (\<lambda>model. case model of
         None \<Rightarrow> cret ()
       | Some v \<Rightarrow> cseq (mdm_call (\<lambda>m. RunSet_string m (reboot_schedule @ cspNodeId) v))
                    (set_this (\<lambda>h. h\<lparr>isConfigured := True\<rparr>))))"

definition RebootState_GetSubGroup ::
    "xml_lite \<Rightarrow> string \<Rightarrow> string \<Rightarrow> ((('w, 'z) MdmHandlerBase_scheme, 'w) ctx, bool) cmd" where
  "RebootState_GetSubGroup xl cspNodeId operationId =
     RunOperation operationId (
       cbind (mdm_call (\<lambda>m. RunGetString xl m (reboot_schedule @ cspNodeId))) (\<lambda>v.
       report_put operationId (JString v)))"

definition RebootState_apply ::
    "json \<Rightarrow> ((('w, 'z) MdmHandlerBase_scheme, 'w) ctx, unit) cmd" where
  "RebootState_apply desired =
     cseq (RebootState_SetSubGroup desired ''Single'' ''singleRebootTime'') (
     cseq (RebootState_SetSubGroup desired ''DailyRecurrent'' ''dailyRebootTime'') (cret ()))"

definition RebootState_BuildReported ::
    "xml_lite \<Rightarrow> ((('w, 'z) RebootStateHandler_scheme, 'w) ctx, unit) cmd" where
  "RebootState_BuildReported xl =
     cseq (RebootState_GetSubGroup xl ''Single'' ''singleRebootTime'') (
     cseq (RebootState_GetSubGroup xl ''DailyRecurrent'' ''dailyRebootTime'') (
     cbind (cget (lastRebootTime \<circ> this)) (\<lambda>t. report_put ''lastBootTime'' (JString t))))"

definition report_nulls :: "string list \<Rightarrow> (('h, 'w) ctx, unit) cmd" where
  "report_nulls ks = cfor (\<lambda>k. report_put k JNull) ks"

definition RebootState_EmptyReported :: "(('h, 'w) ctx, unit) cmd" where
  "RebootState_EmptyReported = report_nulls [''singleRebootTime'', ''dailyRebootTime'', ''lastBootTime'']"

definition RebootState_Invoke ::
    "xml_lite \<Rightarrow> json \<Rightarrow> ((('w world_scheme, 'z) RebootStateHandler_scheme, 'w world_scheme) ctx, InvokeResult) cmd" where
  "RebootState_Invoke xl =
     state_Invoke (\<lambda>desired. cret ()) (cret ()) RebootState_apply (RebootState_BuildReported xl) RebootState_EmptyReported"

lemma preserves_report_nulls [preserves_intros]: "preserves (handler_inv i h) (report_nulls ks)"
  unfolding report_nulls_def by (intro preserves_intros)

lemma preserves_configured [preserves_intros]:
  "preserves (handler_inv i h) (set_this (\<lambda>h. h\<lparr>isConfigured := True\<rparr>))"
  by (intro preserves_intros) simp

interpretation rebootState: state_plugin "\<lambda>desired. cret ()" "cret ()"
  "RebootState_apply :: json \<Rightarrow> ((('w world_scheme, 'z) RebootStateHandler_scheme, 'w world_scheme) ctx, unit) cmd"
  "RebootState_BuildReported xl" RebootState_EmptyReported for xl
  unfolding RebootState_apply_def RebootState_BuildReported_def RebootState_EmptyReported_def
    RebootState_SetSubGroup_def RebootState_GetSubGroup_def
  by unfold_locales (intro preserves_intros)+

section \<open>WindowsUpdateHandler\<close>

text \<open>The CSP node and the JSON key of every setting, in the order in which the code names them.\<close>

definition update_settings :: "(string \<times> string) list" where
  "update_settings =
     [(''ActiveHoursStart'', ''activeHoursStart''), (''ActiveHoursEnd'', ''activeHoursEnd''),
      (''AllowAutoUpdate'', ''allowAutoUpdate''), (''AllowUpdateService'', ''allowUpdateService''),
      (''BranchReadinessLevel'', ''branchReadinessLevel''),
      (''DeferFeatureUpdatesPeriodInDays'', ''deferFeatureUpdatesPeriodInDays''),
      (''DeferQualityUpdatesPeriodInDays'', ''deferQualityUpdatesPeriodInDays''),
      (''PauseFeatureUpdates'', ''pauseFeatureUpdates''), (''PauseQualityUpdates'', ''pauseQualityUpdates''),
      (''ScheduledInstallDay'', ''scheduledInstallDay''), (''ScheduledInstallTime'', ''scheduledInstallTime'')]"

definition WindowsUpdateHandler_new :: "('w world_scheme, 'w world_scheme MdmHandlerBase) cmd" where
  "WindowsUpdateHandler_new =
     MdmHandlerBase_new ''windowsUpdate'' (ReportedSchema_new ''raw'' ''dm'' InterfaceVersion)"

definition update_write_path :: "string \<Rightarrow> string" where
  "update_write_path cspNodeId = ''./Device/Vendor/MSFT/Policy/Config/Update/'' @ cspNodeId"

definition update_read_path :: "string \<Rightarrow> string" where
  "update_read_path cspNodeId = ''./Device/Vendor/MSFT/Policy/Result/Update/'' @ cspNodeId"

definition WindowsUpdate_SetSubGroup ::
    "json \<Rightarrow> string \<times> string \<Rightarrow> ((('w, 'z) MdmHandlerBase_scheme, 'w) ctx, bool) cmd" where
  "WindowsUpdate_SetSubGroup desired st =
     RunOperation (snd st) (
       cbind (clift (TryGetIntJsonValue desired (snd st))) (\<lambda>model. case model of
         None \<Rightarrow> cret ()
       | Some v \<Rightarrow> cseq (mdm_call (\<lambda>m. RunSet_int m (update_write_path (fst st)) v))
                    (set_this (\<lambda>h. h\<lparr>isConfigured := True\<rparr>))))"

text \<open>
  \<open>readValue\<close> is not initialised and is reported as it is when the number cannot be read;
  \<open>uninit\<close> is what the variable happens to hold.
\<close>

definition WindowsUpdate_GetSubGroup ::
    "xml_lite \<Rightarrow> 32 word \<Rightarrow> string \<times> string \<Rightarrow> ((('w, 'z) MdmHandlerBase_scheme, 'w) ctx, bool) cmd" where
  "WindowsUpdate_GetSubGroup xl uninit st =
     RunOperation (snd st) (
       cbind (mdm_call (\<lambda>m. TryGetNumber xl m (update_read_path (fst st)) uninit)) (\<lambda>(success, readValue).
       report_put (snd st) (JInt (sint readValue))))"

definition WindowsUpdate_apply ::
    "json \<Rightarrow> ((('w, 'z) MdmHandlerBase_scheme, 'w) ctx, unit) cmd" where
  "WindowsUpdate_apply desired = cfor (\<lambda>st. cseq (WindowsUpdate_SetSubGroup desired st) (cret ())) update_settings"

definition WindowsUpdate_BuildReported ::
    "xml_lite \<Rightarrow> 32 word \<Rightarrow> ((('w, 'z) MdmHandlerBase_scheme, 'w) ctx, unit) cmd" where
  "WindowsUpdate_BuildReported xl uninit =
     cfor (\<lambda>st. cseq (WindowsUpdate_GetSubGroup xl uninit st) (cret ())) update_settings"

definition WindowsUpdate_EmptyReported :: "(('h, 'w) ctx, unit) cmd" where
  "WindowsUpdate_EmptyReported = report_nulls (map snd update_settings)"

definition WindowsUpdate_Invoke ::
    "xml_lite \<Rightarrow> 32 word \<Rightarrow> json \<Rightarrow>
     ((('w world_scheme, 'z) MdmHandlerBase_scheme, 'w world_scheme) ctx, InvokeResult) cmd" where
  "WindowsUpdate_Invoke xl uninit =
     state_Invoke (\<lambda>desired. cret ()) (cret ()) WindowsUpdate_apply (WindowsUpdate_BuildReported xl uninit)
       WindowsUpdate_EmptyReported"

lemma preserves_case_prod [preserves_intros]:
  "(\<And>a b. p = (a, b) \<Longrightarrow> preserves I (f a b)) \<Longrightarrow> preserves I (case p of (a, b) \<Rightarrow> f a b)"
  by (cases p) simp

interpretation windowsUpdate: state_plugin "\<lambda>desired. cret ()" "cret ()"
  "WindowsUpdate_apply :: json \<Rightarrow> ((('w world_scheme, 'z) MdmHandlerBase_scheme, 'w world_scheme) ctx, unit) cmd"
  "WindowsUpdate_BuildReported xl uninit" WindowsUpdate_EmptyReported for xl uninit
  unfolding WindowsUpdate_apply_def WindowsUpdate_BuildReported_def WindowsUpdate_EmptyReported_def
    WindowsUpdate_SetSubGroup_def WindowsUpdate_GetSubGroup_def
  by unfold_locales (intro preserves_intros)+

section \<open>DeviceInfoHandler\<close>

definition device_strings :: "(string \<times> string) list" where
  "device_strings =
     [(''./DevInfo/DevId'', ''id''), (''./DevInfo/Man'', ''manufacturer''), (''./DevInfo/Mod'', ''model''),
      (''./DevInfo/DmV'', ''dmVer''), (''./DevInfo/Lang'', ''language''), (''./DevDetail/DevTyp'', ''type''),
      (''./DevDetail/OEM'', ''oem''), (''./DevDetail/HwV'', ''hwVer''), (''./DevDetail/FwV'', ''fwVer''),
      (''./DevDetail/SwV'', ''swVer''), (''./DevDetail/Ext/Microsoft/OSPlatform'', ''osPlatform''),
      (''./DevDetail/Ext/Microsoft/ProcessorType'', ''processorType''),
      (''./DevDetail/Ext/Microsoft/RadioSwV'', ''radioSwVer''),
      (''./DevDetail/Ext/Microsoft/Resolution'', ''displayResolution''),
      (''./DevDetail/Ext/Microsoft/ProcessorArchitecture'', ''processorArchitecture''),
      (''./DevDetail/Ext/Microsoft/DeviceName'', ''name''),
      (''./Vendor/MSFT/DeviceStatus/OS/Edition'', ''osEdition'')]"

text \<open>The number properties with the type they are cast to, as the JSON value of the cast number.\<close>

definition device_numbers :: "(string \<times> string \<times> (32 word \<Rightarrow> json)) list" where
  "device_numbers =
     [(''./DevDetail/Ext/Microsoft/TotalRAM'', ''totalMemory'', \<lambda>v. JUInt (uint v)),
      (''./Vendor/MSFT/DeviceStatus/SecureBootState'', ''secureBootState'', \<lambda>v. JUInt (uint v)),
      (''./Vendor/MSFT/DeviceStatus/Battery/Status'', ''batteryStatus'', \<lambda>v. JUInt (uint v)),
      (''./Vendor/MSFT/DeviceStatus/Battery/EstimatedChargeRemaining'', ''batteryRemaining'',
       \<lambda>v. JInt (sint (ucast v :: 8 word))),
      (''./Vendor/MSFT/DeviceStatus/Battery/EstimatedRuntime'', ''batteryRuntime'', \<lambda>v. JInt (sint v))]"

definition DeviceInfoHandler_new :: "('w world_scheme, 'w world_scheme MdmHandlerBase) cmd" where
  "DeviceInfoHandler_new = MdmHandlerBase_new ''deviceInfo'' (ReportedSchema_new ''raw'' ''dm'' InterfaceVersion)"

definition ReadStringProperty ::
    "xml_lite \<Rightarrow> string \<times> string \<Rightarrow> ((('w, 'z) MdmHandlerBase_scheme, 'w) ctx, bool) cmd" where
  "ReadStringProperty xl p =
     RunOperation (snd p) (
       cbind (mdm_call (\<lambda>m. RunGetString xl m (fst p))) (\<lambda>v. report_put (snd p) (JString v)))"

definition ReadNumberProperty ::
    "xml_lite \<Rightarrow> string \<times> string \<times> (32 word \<Rightarrow> json) \<Rightarrow> ((('w, 'z) MdmHandlerBase_scheme, 'w) ctx, bool) cmd" where
  "ReadNumberProperty xl p =
     (case p of (cspNodePath, operationId, cast) \<Rightarrow>
        RunOperation operationId (
          cbind (mdm_call (\<lambda>m. RunGetUInt xl m cspNodePath)) (\<lambda>v. report_put operationId (cast v))))"

definition DeviceInfo_BuildReported :: "xml_lite \<Rightarrow> ((('w, 'z) MdmHandlerBase_scheme, 'w) ctx, unit) cmd" where
  "DeviceInfo_BuildReported xl =
     cseq (cfor (\<lambda>p. cseq (ReadStringProperty xl p) (cret ())) device_strings)
       (cfor (\<lambda>p. cseq (ReadNumberProperty xl p) (cret ())) device_numbers)"

definition DeviceInfo_EmptyReported :: "(('h, 'w) ctx, unit) cmd" where
  "DeviceInfo_EmptyReported = report_nulls (map snd device_strings @ map (fst \<circ> snd) device_numbers)"

text \<open>Going online reports \<open>Refreshing\<close> first and looks at \<open>reportOnConnect\<close> afterwards.\<close>

definition DeviceInfo_OnConnectionStatusChanged ::
    "xml_lite \<Rightarrow> ConnectionStatus \<Rightarrow>
     ((('w world_scheme, 'z) MdmHandlerBase_scheme, 'w world_scheme) ctx, unit) cmd" where
  "DeviceInfo_OnConnectionStatusChanged xl st =
     (if st = eOffline then cret ()
      else cbind (cget (handlerConfig \<circ> this)) (\<lambda>config.
           cseq ReportRefreshing (
           cbind (clift (json_at config ''reportOnConnect'')) (\<lambda>reportOnConnect.
           if \<not> isNull reportOnConnect \<and> isBool reportOnConnect
           then cbind (clift (asBool reportOnConnect)) (\<lambda>b.
                if b then cseq fresh_locals (cseq (DeviceInfo_BuildReported xl) FinalizeAndReport)
                else cret ())
           else cret ()))))"

definition DeviceInfo_Invoke ::
    "xml_lite \<Rightarrow> json \<Rightarrow> ((('w world_scheme, 'z) MdmHandlerBase_scheme, 'w world_scheme) ctx, InvokeResult) cmd" where
  "DeviceInfo_Invoke xl =
     state_Invoke (\<lambda>desired. cret ()) (set_this (\<lambda>h. h\<lparr>isConfigured := True\<rparr>)) (\<lambda>desired. cret ())
       (DeviceInfo_BuildReported xl) DeviceInfo_EmptyReported"

interpretation deviceInfo: state_plugin "\<lambda>desired. cret ()" "set_this (\<lambda>h. h\<lparr>isConfigured := True\<rparr>)"
  "\<lambda>desired. cret ()"
  "DeviceInfo_BuildReported xl :: ((('w world_scheme, 'z) MdmHandlerBase_scheme, 'w world_scheme) ctx, unit) cmd"
  DeviceInfo_EmptyReported for xl
  unfolding DeviceInfo_BuildReported_def DeviceInfo_EmptyReported_def ReadStringProperty_def ReadNumberProperty_def
  by unfold_locales (intro preserves_intros)+

section \<open>RemoteWipeCmdHandler\<close>

definition remote_wipe :: string where
  "remote_wipe = ''./Vendor/MSFT/RemoteWipe/doWipe''"

definition RemoteWipeCmdHandler_new :: "('w world_scheme, 'w world_scheme TestModeHandler) cmd" where
  "RemoteWipeCmdHandler_new = TestModeHandler_new ''StartRemoteWipeCmd''"

definition clear_tpm_if ::
    "'w limpet_api \<Rightarrow> bool option \<Rightarrow> ((('w, 'z) TestModeHandler_scheme, 'w) ctx, unit) cmd" where
  "clear_tpm_if lp model =
     (if model = Some True then unless_test_mode (cseq (on_world (ClearTpm lp)) (cret ())) else cret ())"

definition RemoteWipe_action ::
    "'w world_scheme limpet_api \<Rightarrow> json \<Rightarrow>
     ((('w world_scheme, 'z) TestModeHandler_scheme, 'w world_scheme) ctx, unit) cmd" where
  "RemoteWipe_action lp desiredConfig =
     cseq (on_meta (FromJsonParentObject desiredConfig)) (
     check_version InterfaceVersion (
       cbind (clift (TryGetBoolJsonValue desiredConfig ''clearTpm'')) (\<lambda>model.
       cseq (clear_tpm_if lp model) (
       cseq (unless_test_mode (
              cseq (mdm_call (\<lambda>m. RunExec m remote_wipe)) (mdm_call (\<lambda>m. RunExec m reboot_now))))
         (set_device_version InterfaceVersion)))))"

definition RemoteWipe_Invoke ::
    "'w world_scheme limpet_api \<Rightarrow> json \<Rightarrow>
     ((('w world_scheme, 'z) TestModeHandler_scheme, 'w world_scheme) ctx, InvokeResult) cmd" where
  "RemoteWipe_Invoke lp desiredConfig =
     Invoke_reporting (RemoteWipe_action lp desiredConfig) (cget (direct_method_result desiredConfig))"

lemma preserves_clear_tpm_if [preserves_intros]: "preserves (handler_inv i h) (clear_tpm_if lp model)"
  unfolding clear_tpm_if_def by (intro preserves_intros)

interpretation remoteWipe: raw_handler
  "RemoteWipe_action lp :: json \<Rightarrow> ((('w world_scheme, 'z) TestModeHandler_scheme, 'w world_scheme) ctx, unit) cmd"
  direct_method_result "RemoteWipe_Invoke lp" for lp
  by unfold_locales
    (simp add: RemoteWipe_Invoke_def, unfold RemoteWipe_action_def, intro preserves_intros)

section \<open>FactoryResetCmdHandler\<close>

definition FactoryResetCmdHandler_new :: "('w world_scheme, 'w world_scheme TestModeHandler) cmd" where
  "FactoryResetCmdHandler_new = TestModeHandler_new ''StartFactoryResetCmd''"

definition boot_command :: "string \<Rightarrow> string \<Rightarrow> string" where
  "boot_command systemRoot partitionGuid =
     systemRoot @ [backslash] @ ''bcdedit.exe  /set {bootmgr} bootsequence {'' @ c_str partitionGuid @ ''}''"

record 'w factory_reset_env =
  fr_limpet :: "'w limpet_api"
  fr_process :: "'w process_api"
  fr_systemFolder :: "('w, int + string) cmd"

definition FactoryReset_boot ::
    "'w factory_reset_env \<Rightarrow> string \<Rightarrow> ((('w, 'z) TestModeHandler_scheme, 'w) ctx, unit) cmd" where
  "FactoryReset_boot env partitionGuid =
     cbind (on_world (GetSystemRootFolder (fr_systemFolder env))) (\<lambda>systemRoot.
     cbind (cget (testModeEnabled \<circ> this)) (\<lambda>test.
     cbind (if \<not> test
            then cbind (on_world (Launch (fr_process env) (boot_command systemRoot partitionGuid) 0))
                   (\<lambda>(returnCode, out). cret returnCode)
            else cret 0) (\<lambda>returnCode.
     if returnCode \<noteq> 0
     then cthrow (DMExc BCDEdit (sint returnCode) ''Error: ApplyUpdate.exe returned an error code.'')
     else cret ())))"

definition FactoryReset_action ::
    "'w world_scheme factory_reset_env \<Rightarrow> json \<Rightarrow>
     ((('w world_scheme, 'z) TestModeHandler_scheme, 'w world_scheme) ctx, unit) cmd" where
  "FactoryReset_action env desiredConfig =
     cseq (on_meta (FromJsonParentObject desiredConfig)) (
     check_version InterfaceVersion (
       cbind (clift (GetStringJsonValue desiredConfig ''partitionGuid'')) (\<lambda>partitionGuid.
       cbind (clift (TryGetBoolJsonValue desiredConfig ''clearTpm'')) (\<lambda>model.
       cseq (clear_tpm_if (fr_limpet env) model) (
       cseq (FactoryReset_boot env partitionGuid) (
       cseq (unless_test_mode (mdm_call (\<lambda>m. RunExec m reboot_now)))
         (set_device_version InterfaceVersion)))))))"

definition FactoryReset_Invoke ::
    "'w world_scheme factory_reset_env \<Rightarrow> json \<Rightarrow>
     ((('w world_scheme, 'z) TestModeHandler_scheme, 'w world_scheme) ctx, InvokeResult) cmd" where
  "FactoryReset_Invoke env desiredConfig =
     Invoke_reporting (FactoryReset_action env desiredConfig) (cget (direct_method_result desiredConfig))"

lemma preserves_FactoryReset_boot [preserves_intros]: "preserves (handler_inv i h) (FactoryReset_boot env g)"
  unfolding FactoryReset_boot_def by (intro preserves_intros)

interpretation factoryReset: raw_handler
  "FactoryReset_action env :: json \<Rightarrow> ((('w world_scheme, 'z) TestModeHandler_scheme, 'w world_scheme) ctx, unit) cmd"
  direct_method_result "FactoryReset_Invoke env" for env
  by unfold_locales
    (simp add: FactoryReset_Invoke_def, unfold FactoryReset_action_def, intro preserves_intros)

section \<open>Settings are applied one by one\<close>

definition update_request :: "json \<Rightarrow> string \<times> string \<Rightarrow> string list" where
  "update_request desired st =
     (case TryGetIntJsonValue desired (snd st) of
        Inr (Some v) \<Rightarrow> [set_int_request (update_write_path (fst st)) v]
      | _ \<Rightarrow> [])"

lemma SetSubGroup_logs:
  assumes "mdm_logs run log" and "mdmServer (this c) = Some run"
  shows "\<exists>b c'. WindowsUpdate_SetSubGroup desired st c = (Inr b, c') \<and> mdmServer (this c') = Some run \<and>
     log (wld c') = log (wld c) @ update_request desired st"
proof (cases "TryGetIntJsonValue desired (snd st)")
  case (Inl e)
  then show ?thesis
    using assms(2) TryGetIntJsonValue_catchable [OF Inl]
    by (intro exI [of _ False]) (simp add: WindowsUpdate_SetSubGroup_def RunOperation_def cmd_simps update_request_def)
next
  case (Inr model)
  show ?thesis
  proof (cases model)
    case None
    with Inr assms(2) show ?thesis
      by (intro exI [of _ True]) (simp add: WindowsUpdate_SetSubGroup_def RunOperation_def cmd_simps update_request_def)
  next
    case (Some v)
    let ?r = "set_int_request (update_write_path (fst st)) v"
    obtain res w' where run: "run '''' ?r (wld c) = (res, w')" by (cases "run '''' ?r (wld c)")
    have "log w' = log (wld c) @ [?r]" "res \<noteq> Inl Terminate"
      using assms(1) run by (simp_all add: mdm_logs_def) (metis fst_conv snd_conv)+
    with Inr Some run assms(2) show ?thesis
      by (cases res) (auto simp: WindowsUpdate_SetSubGroup_def RunOperation_def cmd_simps update_request_def
        mdm_call_def on_world_def RunSet_int_def RunSyncML_def set_this_def catchable_iff)
  qed
qed

lemma update_settings_log:
  assumes "mdm_logs run log"
  shows "mdmServer (this c) = Some run \<Longrightarrow>
    \<exists>c'. cfor (\<lambda>st. cseq (WindowsUpdate_SetSubGroup desired st) (cret ())) sts c = (Inr (), c') \<and>
      mdmServer (this c') = Some run \<and> log (wld c') = log (wld c) @ concat (map (update_request desired) sts)"
proof (induction sts arbitrary: c)
  case Nil
  then show ?case by (simp add: cmd_simps)
next
  case (Cons st sts)
  obtain b c1 where 1: "WindowsUpdate_SetSubGroup desired st c = (Inr b, c1)" "mdmServer (this c1) = Some run"
    "log (wld c1) = log (wld c) @ update_request desired st"
    using SetSubGroup_logs [OF assms Cons.prems] by blast
  from Cons.IH [OF 1(2)] obtain c2 where
    "cfor (\<lambda>st. cseq (WindowsUpdate_SetSubGroup desired st) (cret ())) sts c1 = (Inr (), c2)"
    "mdmServer (this c2) = Some run" "log (wld c2) = log (wld c1) @ concat (map (update_request desired) sts)" by blast
  with 1 show ?case by (simp add: cmd_simps)
qed

section \<open>The test mode\<close>

definition untouched :: "'w \<Rightarrow> (('w, 'z) TestModeHandler_scheme, 'w) ctx \<Rightarrow> bool" where
  "untouched w c \<longleftrightarrow> wld c = w \<and> testModeEnabled (this c)"

lemma untouched_unless_test_mode: "preserves (untouched w) (unless_test_mode m)"
  by (simp add: preserves_def unless_test_mode_def cmd_simps untouched_def)

lemma untouched_on_meta: "preserves (untouched w) (on_meta m)"
  by (auto simp: preserves_def on_meta_def untouched_def split: prod.splits)

lemma untouched_set_device_version: "preserves (untouched w) (set_device_version v)"
  unfolding set_device_version_def by (intro preserves_intros untouched_on_meta)

lemma untouched_check_version: "preserves (untouched w) m \<Longrightarrow> preserves (untouched w) (check_version v m)"
  unfolding check_version_def by (intro preserves_intros)

lemma untouched_clear_tpm: "preserves (untouched w) (clear_tpm_if lp model)"
  unfolding clear_tpm_if_def by (intro preserves_intros untouched_unless_test_mode)

lemmas untouched_intros = preserves_intros untouched_unless_test_mode untouched_on_meta
  untouched_set_device_version untouched_check_version untouched_clear_tpm

lemma untouched_boot:
  assumes "\<And>w'. snd (fr_systemFolder env w') = w'"
  shows "preserves (untouched w) (FactoryReset_boot env g)"
proof -
  have "snd (GetSystemRootFolder (fr_systemFolder env) w') = w'" for w'
    using assms [of w'] by (auto simp: GetSystemRootFolder_def cmd_simps split: prod.splits sum.splits)
  then show ?thesis
    by (auto simp: preserves_def FactoryReset_boot_def untouched_def cmd_simps on_world_def split: prod.splits sum.splits)
      (metis snd_conv)+
qed

section \<open>Properties\<close>

text \<open>
  C34: the Windows Update settings are applied independently of each other: whichever of the
  writes the MDM server refuses, it is asked, in the order of the settings and once each, for
  exactly those that the desired configuration holds as integers, and the handler goes on.
\<close>

theorem update_settings_independent:
  assumes "mdm_logs run log" and "mdmServer (this c) = Some run"
  shows "\<exists>c'. WindowsUpdate_apply desired c = (Inr (), c') \<and>
    log (wld c') = log (wld c) @ concat (map (update_request desired) update_settings)"
  using update_settings_log [OF assms(1), of c desired update_settings] assms(2)
  by (auto simp: WindowsUpdate_apply_def)

definition refusing_server :: "string \<Rightarrow> string \<Rightarrow> (string list, string) cmd" where
  "refusing_server sid r = (\<lambda>log. (Inl (DMException ''MDM'' 500 ''refused''), log @ [r]))"

definition sample_update :: "string list MdmHandlerBase" where
  "sample_update = \<lparr>handlerId = ''windowsUpdate'', isConfigured = False, metaData = MetaData_new,
     iPluginHost = None, deploymentStatusJson = JNull, handlerConfig = JNull,
     reportedSchema = ReportedSchema_new ''raw'' ''dm'' InterfaceVersion, mdmServer = Some refusing_server\<rparr>"

theorem update_settings_independent_witness:
  "\<exists>c'. WindowsUpdate_apply (JObject [(''activeHoursEnd'', JInt 18), (''activeHoursStart'', JInt 8)])
       (ctx_new sample_update []) = (Inr (), c') \<and>
     wld c' = [set_int_request (update_write_path ''ActiveHoursStart'') 8,
               set_int_request (update_write_path ''ActiveHoursEnd'') 18]"
proof -
  let ?d = "JObject [(''activeHoursEnd'', JInt 18), (''activeHoursStart'', JInt 8)]"
  have "mdm_logs refusing_server (\<lambda>l. l)" by (simp add: mdm_logs_def refusing_server_def)
  moreover have "mdmServer (this (ctx_new sample_update [])) = Some refusing_server"
    by (simp add: ctx_new_def sample_update_def)
  ultimately obtain c' where "WindowsUpdate_apply ?d (ctx_new sample_update []) = (Inr (), c')"
    "wld c' = wld (ctx_new sample_update []) @ concat (map (update_request ?d) update_settings)"
    using update_settings_independent by blast
  then show ?thesis
    by (simp add: ctx_new_def update_settings_def update_request_def TryGetIntJsonValue_def TryGetJsonValue_member
      int_limits)
qed

text \<open>
  In test mode the destructive commands do nothing to the device: reboot, remote wipe and
  factory reset leave the world they started in, whatever the request asks for.
\<close>

theorem test_mode_keeps_device:
  assumes "testModeEnabled (this c)" and "\<And>w. snd (fr_systemFolder env w) = w"
  shows "wld (snd (RebootCmd_action p c)) = wld c \<and> wld (snd (RemoteWipe_action lp p c)) = wld c \<and>
    wld (snd (FactoryReset_action env p c)) = wld c"
proof -
  have c: "untouched (wld c) c" using assms(1) by (simp add: untouched_def)
  have "preserves (untouched (wld c)) (RebootCmd_action p)"
    unfolding RebootCmd_action_def by (intro untouched_intros)
  moreover have "preserves (untouched (wld c)) (RemoteWipe_action lp p)"
    unfolding RemoteWipe_action_def by (intro untouched_intros)
  moreover have "preserves (untouched (wld c)) (FactoryReset_action env p)"
    unfolding FactoryReset_action_def by (intro untouched_intros untouched_boot assms(2))
  ultimately show ?thesis
    using preservesD [where I = "untouched (wld c)" and s = c, OF _ c] unfolding untouched_def by blast
qed

definition sample_test_handler :: "bool \<Rightarrow> world TestModeHandler" where
  "sample_test_handler test = \<lparr>handlerId = ''StartFactoryResetCmd'', isConfigured = False,
     metaData = MetaData_new\<lparr>serviceInterfaceVersion := InterfaceVersion\<rparr>,
     iPluginHost = None, deploymentStatusJson = JNull, handlerConfig = JNull,
     reportedSchema = ReportedSchema_new ''raw'' ''dm'' InterfaceVersion, mdmServer = None, testModeEnabled = test\<rparr>"

definition sample_reset_env :: "world factory_reset_env" where
  "sample_reset_env = \<lparr>fr_limpet = \<lparr>lp_ForceClearTpm = cseq (cmod (tick_update Suc)) (cret 0)\<rparr>,
     fr_process = \<lparr>pr_CreatePipe = cret None, pr_SetHandleInformation = cret None,
       pr_CreateProcess = (\<lambda>cmd. cseq (cmod (tick_update Suc)) (cret (Inr (Running (Chunk '''') (Exited (Some 5) (Chunk ''denied''))))))\<rparr>,
     fr_systemFolder = cret (Inr ''C:'')\<rparr>"

definition sample_reset_request :: json where
  "sample_reset_request = JObject [(''clearTpm'', JBool True), (''partitionGuid'', JString ''a1'')]"

theorem test_mode_keeps_device_witness:
  "wld (snd (FactoryReset_action sample_reset_env sample_reset_request (ctx_new (sample_test_handler True) sample_world))) =
     sample_world"
proof -
  have "testModeEnabled (this (ctx_new (sample_test_handler True) sample_world))"
    by (simp add: ctx_new_def sample_test_handler_def)
  moreover have "snd (fr_systemFolder sample_reset_env w) = w" for w
    by (simp add: sample_reset_env_def cret_def)
  ultimately show ?thesis
    using test_mode_keeps_device [of "ctx_new (sample_test_handler True) sample_world" sample_reset_env] by (simp add: ctx_new_def)
qed

lemma FactoryReset_boot_eq:
  assumes "\<not> testModeEnabled (this c)"
    and "GetSystemRootFolder (fr_systemFolder env) (wld c) = (Inr root, w1)"
    and "Launch (fr_process env) (boot_command root g) 0 w1 = (Inr (rc, out), w2)"
  shows "FactoryReset_boot env g c =
     (if rc = 0 then Inr () else Inl (DMExc BCDEdit (sint rc) ''Error: ApplyUpdate.exe returned an error code.''),
      c\<lparr>wld := w2\<rparr>)"
  using assms by (simp add: FactoryReset_boot_def cmd_simps on_world_def)

text \<open>
  A factory reset asks for the reboot only when the program that sets the boot sequence
  has ended with code 0; with any other code it fails with that code and leaves the device in
  the state the program left.
\<close>

theorem factory_reset_reboots_after_boot_sequence:
  assumes "on_meta (FromJsonParentObject p) c = (Inr (), c1)" and "supported_version c1"
    and "GetStringJsonValue p ''partitionGuid'' = Inr g" and "TryGetBoolJsonValue p ''clearTpm'' = Inr model"
    and "clear_tpm_if (fr_limpet env) model c1 = (Inr (), c2)" and "\<not> testModeEnabled (this c2)"
    and "GetSystemRootFolder (fr_systemFolder env) (wld c2) = (Inr root, w1)"
    and "Launch (fr_process env) (boot_command root g) 0 w1 = (Inr (rc, out), w2)"
  shows "FactoryReset_action env p c =
    (if rc = 0
     then cseq (mdm_call (\<lambda>m. RunExec m reboot_now)) (set_device_version InterfaceVersion) (c2\<lparr>wld := w2\<rparr>)
     else (Inl (DMExc BCDEdit (sint rc) ''Error: ApplyUpdate.exe returned an error code.''), c2\<lparr>wld := w2\<rparr>))"
  using FactoryReset_boot_eq [OF assms(6-8)] assms(1-6)
  by (simp add: FactoryReset_action_def cmd_simps check_version_supported unless_test_mode_def)

theorem factory_reset_reboots_after_boot_sequence_witness:
  "fst (FactoryReset_action sample_reset_env sample_reset_request (ctx_new (sample_test_handler False) sample_world)) =
     Inl (DMException ''BCDEdit'' 5 ''Error: ApplyUpdate.exe returned an error code.'')"
proof -
  let ?c = "ctx_new (sample_test_handler False) sample_world"
  let ?w1 = "sample_world\<lparr>tick := Suc (tick sample_world)\<rparr>"
  let ?c2 = "?c\<lparr>wld := ?w1\<rparr>"
  have 1: "on_meta (FromJsonParentObject sample_reset_request) ?c = (Inr (), ?c)"
    by (simp add: on_meta_def FromJsonParentObject_def sample_reset_request_def cmd_simps ctx_new_def)
  have 2: "supported_version ?c"
    by (simp add: supported_version_def ctx_new_def sample_test_handler_def MajorVersionCompare_InterfaceVersion)
  have 3: "GetStringJsonValue sample_reset_request ''partitionGuid'' = Inr ''a1''"
    "TryGetBoolJsonValue sample_reset_request ''clearTpm'' = Inr (Some True)"
    by (simp_all add: GetStringJsonValue_def TryGetStringJsonValue_def TryGetBoolJsonValue_def TryGetJsonValue_member
      sample_reset_request_def)
  have 4: "clear_tpm_if (fr_limpet sample_reset_env) (Some True) ?c = (Inr (), ?c2)"
    by (simp add: clear_tpm_if_def unless_test_mode_def cmd_simps on_world_def ClearTpm_def sample_reset_env_def
      ctx_new_def sample_test_handler_def)
  have 5: "\<not> testModeEnabled (this ?c2)" by (simp add: ctx_new_def sample_test_handler_def)
  have 6: "GetSystemRootFolder (fr_systemFolder sample_reset_env) (wld ?c2) = (Inr ''C:'', ?w1)"
    by (simp add: GetSystemRootFolder_def cmd_simps sample_reset_env_def c_str_def)
  have 7: "Launch (fr_process sample_reset_env) (boot_command ''C:'' ''a1'') 0 ?w1 =
      (Inr (5, ''denied''), ?w1\<lparr>tick := Suc (tick ?w1)\<rparr>)"
    by (simp add: Launch_def cmd_simps sample_reset_env_def c_str_def)
  show ?thesis
    using factory_reset_reboots_after_boot_sequence [OF 1 2 3 4 5 6 7] by simp
qed

text \<open>
  A device that comes online without being configured to report on connect has its device
  information replaced by the \<open>Refreshing\<close> mark, and nothing takes that mark back.
\<close>

theorem connect_leaves_refreshing:
  assumes "iPluginHost (this c) = Some h" and "json_at (handlerConfig (this c)) ''reportOnConnect'' = Inr v"
    and "v \<noteq> JBool True"
  shows "DeviceInfo_OnConnectionStatusChanged xl eOnline c =
    (case hi_Report h (c_str (handlerId (this c))) ePending (JString ''Refreshing'') (wld c) of
       (r, w) \<Rightarrow> (r, c\<lparr>wld := w\<rparr>))"
proof -
  have "isBool v \<Longrightarrow> v = JBool False" using assms(3) by (cases v) auto
  then show ?thesis
    using assms(1,2)
    by (cases "isBool v")
      (auto simp: DeviceInfo_OnConnectionStatusChanged_def ReportRefreshing_def host_call_def on_world_def cmd_simps
        split: prod.splits sum.splits)
qed

definition sample_info :: "world MdmHandlerBase" where
  "sample_info = \<lparr>handlerId = ''deviceInfo'', isConfigured = False, metaData = MetaData_new,
     iPluginHost = Some \<lparr>hi_Report = (\<lambda>i st v. cmod (tick_update Suc)), hi_SendEvent = (\<lambda>i n v. cret ())\<rparr>,
     deploymentStatusJson = JNull, handlerConfig = JObject [],
     reportedSchema = ReportedSchema_new ''raw'' ''dm'' InterfaceVersion, mdmServer = None\<rparr>"

theorem connect_leaves_refreshing_witness:
  "DeviceInfo_OnConnectionStatusChanged sample_xl eOnline (ctx_new sample_info sample_world) =
     (Inr (), ctx_new sample_info (sample_world\<lparr>tick := 1\<rparr>))"
proof -
  let ?c = "ctx_new sample_info sample_world"
  have "iPluginHost (this ?c) = Some \<lparr>hi_Report = (\<lambda>i st v. cmod (tick_update Suc)), hi_SendEvent = (\<lambda>i n v. cret ())\<rparr>"
    "json_at (handlerConfig (this ?c)) ''reportOnConnect'' = Inr JNull"
    by (simp_all add: ctx_new_def sample_info_def)
  from connect_leaves_refreshing [OF this, of sample_xl] show ?thesis
    by (simp add: ctx_new_def cmod_def sample_world_def)
qed

end
