(* ===== verification/Os_Plugins.thy ===== *)
theory Os_Plugins
  imports Mdm_Plugins
begin

text \<open>
  The device plug-ins that set the operating system directly: the telemetry level in the
  registry (WindowsTelemetryPlugin) and the time server and time zone (TimePlugin).
\<close>

section \<open>WindowsTelemetryStateHandler\<close>

definition WindowsTelemetryStateHandler_new :: "('w world_scheme, 'w world_scheme HandlerBase) cmd" where
  "WindowsTelemetryStateHandler_new =
     HandlerBase_new ''windowsTelemetry'' (ReportedSchema_new ''raw'' ''dm'' InterfaceVersion)"

definition StringToLevel :: "string \<Rightarrow> 32 word res" where
  "StringToLevel levelString =
     (if levelString = ''security'' then Inr 0
      else if levelString = ''basic'' then Inr 1
      else if levelString = ''enhanced'' then Inr 2
      else if levelString = ''full'' then Inr 3
      else Inl (DMExc DeviceAgentPlugin DM_ERROR_INVALID_JSON_FORMAT
        ''Failed to get telemetry level from provided Json''))"

text \<open>The two codes are \<open>0xA0008100\<close> and \<open>0xA0008101\<close> as the \<open>long\<close> the exception holds.\<close>

abbreviation ERROR_DM_WINDOWS_TELEMETRY_INVALID_LEVEL :: int
  where "ERROR_DM_WINDOWS_TELEMETRY_INVALID_LEVEL \<equiv> - 1610579712"
abbreviation ERROR_DM_WINDOWS_TELEMETRY_MISSING_LEVEL :: int
  where "ERROR_DM_WINDOWS_TELEMETRY_MISSING_LEVEL \<equiv> - 1610579711"

definition LevelToString :: "32 word \<Rightarrow> string res" where
  "LevelToString level =
     (if level = 0 then Inr ''security''
      else if level = 1 then Inr ''basic''
      else if level = 2 then Inr ''enhanced''
      else if level = 3 then Inr ''full''
      else Inl (DMExc DeviceAgentPlugin ERROR_DM_WINDOWS_TELEMETRY_INVALID_LEVEL
        (''Unknown level: '' @ valueToString (uint level))))"

definition RegWindowsTelemetrySubKey :: string where
  "RegWindowsTelemetrySubKey = ''Software'' @ [backslash] @ ''Microsoft'' @ [backslash] @ ''Windows'' @ [backslash] @
     ''CurrentVersion'' @ [backslash] @ ''Policies'' @ [backslash] @ ''DataCollection''"

definition RegAllowTelemetry :: string where
  "RegAllowTelemetry = ''AllowTelemetry''"

definition GetSubGroupLevel :: "'w registry_api \<Rightarrow> ((('w, 'z) HandlerBase_scheme, 'w) ctx, bool) cmd" where
  "GetSubGroupLevel rg =
     RunOperation ''level'' (
       cbind (on_world (TryReadRegistryNumber rg RegWindowsTelemetrySubKey RegAllowTelemetry)) (\<lambda>r. case r of
         Inl status \<Rightarrow> cthrow (DMExc DeviceAgentPlugin ERROR_DM_WINDOWS_TELEMETRY_MISSING_LEVEL
           ''Error: User setting for Windows telemetry level is not defined.'')
       | Inr level \<Rightarrow> cbind (clift (LevelToString level)) (\<lambda>s. report_put ''level'' (JString s))))"

definition SetSubGroupLevel :: "'w registry_api \<Rightarrow> json \<Rightarrow> ((('w, 'z) HandlerBase_scheme, 'w) ctx, bool) cmd" where
  "SetSubGroupLevel rg desired =
     RunOperation ''level'' (
       cbind (clift (GetStringJsonValue desired ''level'')) (\<lambda>levelString.
       cbind (clift (StringToLevel levelString)) (\<lambda>level.
       cseq (on_world (WriteRegistryNumber rg RegWindowsTelemetrySubKey RegAllowTelemetry level))
         (set_this (\<lambda>h. h\<lparr>isConfigured := True\<rparr>)))))"

definition WindowsTelemetry_apply :: "'w registry_api \<Rightarrow> json \<Rightarrow> ((('w, 'z) HandlerBase_scheme, 'w) ctx, unit) cmd" where
  "WindowsTelemetry_apply rg desired = cseq (SetSubGroupLevel rg desired) (cret ())"

definition WindowsTelemetry_BuildReported :: "'w registry_api \<Rightarrow> ((('w, 'z) HandlerBase_scheme, 'w) ctx, unit) cmd" where
  "WindowsTelemetry_BuildReported rg = cseq (GetSubGroupLevel rg) (cret ())"

definition WindowsTelemetry_EmptyReported :: "(('h, 'w) ctx, unit) cmd" where
  "WindowsTelemetry_EmptyReported = report_nulls [''level'']"

definition WindowsTelemetry_Invoke ::
    "'w world_scheme registry_api \<Rightarrow> json \<Rightarrow>
     ((('w world_scheme, 'z) HandlerBase_scheme, 'w world_scheme) ctx, InvokeResult) cmd" where
  "WindowsTelemetry_Invoke rg =
     state_Invoke (\<lambda>desired. cret ()) (cret ()) (WindowsTelemetry_apply rg) (WindowsTelemetry_BuildReported rg)
       WindowsTelemetry_EmptyReported"

lemma preserves_case_sum [preserves_intros]:
  "(\<And>a. r = Inl a \<Longrightarrow> preserves I (f a)) \<Longrightarrow> (\<And>b. r = Inr b \<Longrightarrow> preserves I (g b)) \<Longrightarrow>
     preserves I (case r of Inl a \<Rightarrow> f a | Inr b \<Rightarrow> g b)"
  by (cases r) simp_all

interpretation windowsTelemetry: state_plugin "\<lambda>desired. cret ()" "cret ()"
  "WindowsTelemetry_apply rg :: json \<Rightarrow> ((('w world_scheme, 'z) HandlerBase_scheme, 'w world_scheme) ctx, unit) cmd"
  "WindowsTelemetry_BuildReported rg" WindowsTelemetry_EmptyReported for rg
  unfolding WindowsTelemetry_apply_def WindowsTelemetry_BuildReported_def WindowsTelemetry_EmptyReported_def
    SetSubGroupLevel_def GetSubGroupLevel_def
  by unfold_locales (intro preserves_intros)+

lemma LevelToString_StringToLevel: "StringToLevel s = Inr l \<Longrightarrow> LevelToString l = Inr s"
  by (auto simp: StringToLevel_def LevelToString_def split: if_splits)

lemma StringToLevel_LevelToString: "LevelToString l = Inr s \<Longrightarrow> StringToLevel s = Inr l"
  by (auto simp: StringToLevel_def LevelToString_def split: if_splits)

section \<open>TimeStateHandler\<close>

record 'w TimeStateHandler = "'w HandlerBase" +
  cachedDesiredConfig :: json

record DYNAMIC_TIME_ZONE_INFORMATION =
  tz_Bias :: int
  tz_StandardName :: string
  tz_StandardDate :: SYSTEMTIME
  tz_StandardBias :: int
  tz_DaylightName :: string
  tz_DaylightDate :: SYSTEMTIME
  tz_DaylightBias :: int
  tz_TimeZoneKeyName :: string
  tz_DynamicDaylightTimeDisabled :: bool

record 'w time_env =
  te_process :: "'w process_api"
  te_GetTimeZone :: "('w, int + DYNAMIC_TIME_ZONE_INFORMATION) cmd"
  te_SetTimeZone :: "DYNAMIC_TIME_ZONE_INFORMATION \<Rightarrow> ('w, int option) cmd"
  te_uninit :: "32 word"

definition TimeStateHandler_new :: "('w world_scheme, 'w world_scheme TimeStateHandler) cmd" where
  "TimeStateHandler_new =
     cbind (HandlerBase_new ''timeInfo'' (ReportedSchema_new ''raw'' ''dm'' InterfaceVersion)) (\<lambda>hb.
     cret (HandlerBase.extend hb (TimeStateHandler.fields (JObject []))))"

subsection \<open>The time server\<close>

definition cut_at :: "string \<Rightarrow> string \<Rightarrow> string" where
  "cut_at needle value = (case find_from needle value of None \<Rightarrow> value | Some pos \<Rightarrow> take pos value)"

text \<open>The value of a line of the query that names the server, without its flags.\<close>

definition ntp_of_line :: "string \<Rightarrow> string option" where
  "ntp_of_line line =
     (let tokens = SplitString (CHR '':'') line
      in if length tokens \<noteq> 2 then None
         else if TrimString (tokens ! 0) '' '' = ''NtpServer''
         then Some (cut_at '','' (cut_at '' (Local)'' (TrimString (tokens ! 1) '' '')))
         else None)"

fun first_ntp :: "string list \<Rightarrow> string" where
  "first_ntp [] = []"
| "first_ntp (line # lines) = (case ntp_of_line line of Some v \<Rightarrow> v | None \<Rightarrow> first_ntp lines)"

definition w32tm_query :: string where
  "w32tm_query = ''C:'' @ [backslash] @ ''windows'' @ [backslash] @ ''system32'' @ [backslash] @
     ''w32tm.exe /query /configuration''"

definition GetNtpServer :: "'w time_env \<Rightarrow> ('w, string) cmd" where
  "GetNtpServer env =
     cbind (Launch (te_process env) w32tm_query (te_uninit env)) (\<lambda>(returnCode, out).
       if returnCode \<noteq> 0
       then cthrow (DMExc W32TM (sint returnCode) ''Error: w32tm.exe returned an error code.'')
       else cret (first_ntp (SplitString (CHR 0x0A) out)))"

definition ntp_command :: "string \<Rightarrow> string" where
  "ntp_command ntpServer =
     ''w32tm /config /manualpeerlist:'' @ c_str ntpServer @ '' /syncfromflags:manual /reliable:yes /update''"

definition SetNtpServer :: "'w time_env \<Rightarrow> string \<Rightarrow> ('w, unit) cmd" where
  "SetNtpServer env ntpServer =
     cbind (Launch (te_process env) (ntp_command ntpServer) 0) (\<lambda>(returnCode, out).
       if returnCode \<noteq> 0 then cthrow (DMExc W32TM (sint returnCode) ''Error: w32tm.exe returned an error.'')
       else cret ())"

definition GetSubGroupNtpServer :: "'w time_env \<Rightarrow> (('h, 'w) ctx, bool) cmd" where
  "GetSubGroupNtpServer env =
     RunOperation ''ntpServer'' (
       cbind (on_world (GetNtpServer env)) (\<lambda>s. report_put ''ntpServer'' (JString s)))"

definition SetSubGroupNtpServer :: "'w time_env \<Rightarrow> json \<Rightarrow> ((('w, 'z) HandlerBase_scheme, 'w) ctx, bool) cmd" where
  "SetSubGroupNtpServer env desired =
     RunOperation ''ntpServer'' (
       cbind (clift (TryGetStringJsonValue desired ''ntpServer'')) (\<lambda>model. case model of
         None \<Rightarrow> cret ()
       | Some v \<Rightarrow> cseq (on_world (SetNtpServer env v)) (set_this (\<lambda>h. h\<lparr>isConfigured := True\<rparr>))))"

subsection \<open>The time zone\<close>

definition GetSubGroupTimeZone :: "'w time_env \<Rightarrow> (('h, 'w) ctx, bool) cmd" where
  "GetSubGroupTimeZone env =
     RunOperation ''timeZoneReportCfgCtx'' (
       cbind (on_world (te_GetTimeZone env)) (\<lambda>r. case r of
         Inl gle \<Rightarrow> cthrow (DMExc Windows gle ''Error: failed to retrieve time zone information.'')
       | Inr tzi \<Rightarrow>
           cfor (\<lambda>(k, v). report_put k v)
             [(''dynamicDaylightTimeDisabled'', JBool (tz_DynamicDaylightTimeDisabled tzi)),
              (''timeZoneKeyName'', JString (c_str (tz_TimeZoneKeyName tzi))),
              (''timeZoneBias'', JInt (tz_Bias tzi)),
              (''timeZoneDaylightBias'', JInt (tz_DaylightBias tzi)),
              (''timeZoneDaylightDate'', JString (ISO8601FromSystemTime (tz_DaylightDate tzi))),
              (''timeZoneDaylightName'', JString (c_str (tz_DaylightName tzi))),
              (''timeZoneDaylightDayOfWeek'', JInt (uint (wDayOfWeek (tz_DaylightDate tzi)))),
              (''timeZoneStandardBias'', JInt (tz_StandardBias tzi)),
              (''timeZoneStandardDate'', JString (ISO8601FromSystemTime (tz_StandardDate tzi))),
              (''timeZoneStandardName'', JString (c_str (tz_StandardName tzi))),
              (''timeZoneStandardDayOfWeek'', JInt (uint (wDayOfWeek (tz_StandardDate tzi))))]))"

record time_zone_model =
  tm_Disabled :: "bool option"
  tm_KeyName :: "string option"
  tm_Bias :: "int option"
  tm_DaylightBias :: "int option"
  tm_DaylightDate :: "string option"
  tm_DaylightName :: "string option"
  tm_DaylightDay :: "int option"
  tm_StandardBias :: "int option"
  tm_StandardDate :: "string option"
  tm_StandardName :: "string option"
  tm_StandardDay :: "int option"

definition time_zone_read :: "json \<Rightarrow> time_zone_model res" where
  "time_zone_read d =
     rbind (TryGetBoolJsonValue d ''dynamicDaylightTimeDisabled'') (\<lambda>disabled.
     rbind (TryGetStringJsonValue d ''timeZoneKeyName'') (\<lambda>keyName.
     rbind (TryGetIntJsonValue d ''timeZoneBias'') (\<lambda>bias.
     rbind (TryGetIntJsonValue d ''timeZoneDaylightBias'') (\<lambda>dBias.
     rbind (TryGetStringJsonValue d ''timeZoneDaylightDate'') (\<lambda>dDate.
     rbind (TryGetStringJsonValue d ''timeZoneDaylightName'') (\<lambda>dName.
     rbind (TryGetIntJsonValue d ''timeZoneDaylightDayOfWeek'') (\<lambda>dDay.
     rbind (TryGetIntJsonValue d ''timeZoneStandardBias'') (\<lambda>sBias.
     rbind (TryGetStringJsonValue d ''timeZoneStandardDate'') (\<lambda>sDate.
     rbind (TryGetStringJsonValue d ''timeZoneStandardName'') (\<lambda>sName.
     rbind (TryGetIntJsonValue d ''timeZoneStandardDayOfWeek'') (\<lambda>sDay.
     Inr \<lparr>tm_Disabled = disabled, tm_KeyName = keyName, tm_Bias = bias, tm_DaylightBias = dBias,
          tm_DaylightDate = dDate, tm_DaylightName = dName, tm_DaylightDay = dDay, tm_StandardBias = sBias,
          tm_StandardDate = sDate, tm_StandardName = sName, tm_StandardDay = sDay\<rparr>)))))))))))"

definition present_count :: "'a option \<Rightarrow> nat" where
  "present_count m = (if m = None then 0 else 1)"

definition fieldCount :: "time_zone_model \<Rightarrow> nat" where
  "fieldCount m =
     present_count (tm_Disabled m) + present_count (tm_KeyName m) + present_count (tm_Bias m) +
     present_count (tm_DaylightBias m) + present_count (tm_DaylightDate m) + present_count (tm_DaylightName m) +
     present_count (tm_DaylightDay m) + present_count (tm_StandardBias m) + present_count (tm_StandardDate m) +
     present_count (tm_StandardName m) + present_count (tm_StandardDay m)"

definition no_date :: SYSTEMTIME where
  "no_date = \<lparr>wYear = 0, wMonth = 0, wDayOfWeek = 0, wDay = 0, wHour = 0, wMinute = 0, wSecond = 0, wMilliseconds = 0\<rparr>"

text \<open>An empty date switches daylight saving off: the month of the zeroed structure stays 0.\<close>

definition transition_date :: "string \<Rightarrow> SYSTEMTIME res" where
  "transition_date s = (if c_str s = [] then Inr no_date else SystemTimeFromISO8601 (c_str s))"

text \<open>\<open>wcsncpy_s\<close> with \<open>_TRUNCATE\<close> into an array of \<open>n\<close> characters.\<close>

definition copy_name :: "nat \<Rightarrow> string \<Rightarrow> string" where
  "copy_name n s = take (n - 1) (c_str s)"

text \<open>
  The structure handed to the system; the date of the daylight transition is taken from the
  field of the standard one.
\<close>

definition time_zone_info :: "time_zone_model \<Rightarrow> DYNAMIC_TIME_ZONE_INFORMATION res" where
  "time_zone_info m =
     rbind (transition_date (the (tm_StandardDate m))) (\<lambda>standardDate.
     rbind (transition_date (the (tm_StandardDate m))) (\<lambda>daylightDate.
     Inr \<lparr>tz_Bias = the (tm_Bias m),
          tz_StandardName = copy_name 32 (the (tm_StandardName m)),
          tz_StandardDate = standardDate\<lparr>wDayOfWeek := word_of_int (the (tm_StandardDay m))\<rparr>,
          tz_StandardBias = the (tm_StandardBias m),
          tz_DaylightName = copy_name 32 (the (tm_DaylightName m)),
          tz_DaylightDate = daylightDate\<lparr>wDayOfWeek := word_of_int (the (tm_DaylightDay m))\<rparr>,
          tz_DaylightBias = the (tm_DaylightBias m),
          tz_TimeZoneKeyName = copy_name 128 (the (tm_KeyName m)),
          tz_DynamicDaylightTimeDisabled = the (tm_Disabled m)\<rparr>))"

definition SetSubGroupTimeZone :: "'w time_env \<Rightarrow> json \<Rightarrow> ((('w, 'z) HandlerBase_scheme, 'w) ctx, bool) cmd" where
  "SetSubGroupTimeZone env desired =
     RunOperation ''timeZoneReadCfgCtx'' (
       cbind (clift (time_zone_read desired)) (\<lambda>m.
       if fieldCount m \<noteq> 11 \<and> fieldCount m \<noteq> 0
       then cthrow (DMExc DeviceAgentPlugin DM_ERROR_INVALID_JSON_FORMAT ''Missing time zone fields'')
       else if fieldCount m = 0 then cret ()
       else cseq (set_this (\<lambda>h. h\<lparr>isConfigured := True\<rparr>)) (
            cbind (clift (time_zone_info m)) (\<lambda>tzi.
            cbind (on_world (te_SetTimeZone env tzi)) (\<lambda>r. case r of
              Some gle \<Rightarrow> cthrow (DMExc Windows gle ''Error: failed to set time zone information.'')
            | None \<Rightarrow> cret ())))))"

subsection \<open>Invoke\<close>

definition Time_merge :: "json \<Rightarrow> ((('w, 'z) TimeStateHandler_scheme, 'w) ctx, unit) cmd" where
  "Time_merge desired =
     cbind (cget (cachedDesiredConfig \<circ> this)) (\<lambda>cached.
     cbind (clift (Merge desired cached)) (\<lambda>merged.
     set_this (cachedDesiredConfig_update (\<lambda>_. merged))))"

definition Time_apply :: "'w time_env \<Rightarrow> json \<Rightarrow> ((('w, 'z) TimeStateHandler_scheme, 'w) ctx, unit) cmd" where
  "Time_apply env desired =
     cbind (cget (cachedDesiredConfig \<circ> this)) (\<lambda>cached.
     cseq (SetSubGroupNtpServer env cached) (cseq (SetSubGroupTimeZone env cached) (cret ())))"

definition Time_BuildReported :: "'w time_env \<Rightarrow> (('h, 'w) ctx, unit) cmd" where
  "Time_BuildReported env = cseq (GetSubGroupNtpServer env) (cseq (GetSubGroupTimeZone env) (cret ()))"

definition Time_EmptyReported :: "(('h, 'w) ctx, unit) cmd" where
  "Time_EmptyReported = report_nulls [''ntpServer'',
     ''dynamicDaylightTimeDisabled'', ''timeZoneKeyName'', ''timeZoneBias'',
     ''timeZoneDaylightBias'', ''timeZoneDaylightDate'', ''timeZoneDaylightName'', ''timeZoneDaylightDayOfWeek'',
     ''timeZoneStandardBias'', ''timeZoneStandardDate'', ''timeZoneStandardName'', ''timeZoneStandardDayOfWeek'']"

definition Time_Invoke ::
    "'w world_scheme time_env \<Rightarrow> json \<Rightarrow>
     ((('w world_scheme, 'z) TimeStateHandler_scheme, 'w world_scheme) ctx, InvokeResult) cmd" where
  "Time_Invoke env = state_Invoke Time_merge (cret ()) (Time_apply env) (Time_BuildReported env) Time_EmptyReported"

lemma preserves_SetSubGroups [preserves_intros]:
  "preserves (handler_inv i h) (SetSubGroupNtpServer env d)"
  "preserves (handler_inv i h) (SetSubGroupTimeZone env d)"
  unfolding SetSubGroupNtpServer_def SetSubGroupTimeZone_def by (intro preserves_intros)+

interpretation timeState: state_plugin
  "Time_merge :: json \<Rightarrow> ((('w world_scheme, 'z) TimeStateHandler_scheme, 'w world_scheme) ctx, unit) cmd"
  "cret ()" "Time_apply env" "Time_BuildReported env" Time_EmptyReported for env
  unfolding Time_merge_def Time_apply_def Time_BuildReported_def Time_EmptyReported_def
    GetSubGroupNtpServer_def GetSubGroupTimeZone_def
  by unfold_locales (intro preserves_intros; simp)+

section \<open>Properties\<close>

text \<open>
  Under the documented behaviour of the registry, a telemetry level that was applied
  without an error is the level the handler then reports, by the same name.
\<close>

theorem applied_level_is_reported:
  assumes "registry_laws rg stored" and "GetStringJsonValue desired ''level'' = Inr s"
    and "SetSubGroupLevel rg desired c = (Inr True, c1)" and "isObject (reported c)"
  shows "\<exists>c2. GetSubGroupLevel rg c1 = (Inr True, c2) \<and> json_at (reported c2) ''level'' = Inr (JString s) \<and>
    isConfigured (this c2)"
proof -
  let ?wr = "WriteRegistryNumber rg RegWindowsTelemetrySubKey RegAllowTelemetry"
  from assms(2,3) obtain level w' where level: "StringToLevel s = Inr level"
    and w: "?wr level (wld c) = (Inr (), w')"
    and c1: "c1 = c\<lparr>wld := w', this := (this c)\<lparr>isConfigured := True\<rparr>\<rparr>"
    by (cases "StringToLevel s"; cases "?wr (projr (StringToLevel s)) (wld c)")
      (auto simp: SetSubGroupLevel_def RunOperation_def cmd_simps on_world_def set_this_def split: sum.splits if_splits)
  have "TryReadRegistryNumber rg RegWindowsTelemetrySubKey RegAllowTelemetry w' = (Inr (Inr level), w')"
    by (rule registry_write_then_read(1) [OF assms(1) w])
  with LevelToString_StringToLevel [OF level] c1 assms(4) show ?thesis
    by (auto simp: GetSubGroupLevel_def RunOperation_def cmd_simps on_world_def report_put_def isObject_iff)
qed

definition map_registry :: "(string \<Rightarrow> string \<Rightarrow> reg_data option) registry_api" where
  "map_registry = \<lparr>rg_CreateKey = (\<lambda>k. cret 0),
     rg_SetValue = (\<lambda>k n v w. (Inr 0, w(k := (w k)(n \<mapsto> v)))),
     rg_GetSize = (\<lambda>k n w. (Inr (if w k n = None then 2 else 0), w)),
     rg_GetString = (\<lambda>k n w. (Inr (case w k n of Some (REG_SZ s) \<Rightarrow> Inr s | _ \<Rightarrow> Inl 2), w)),
     rg_GetDword = (\<lambda>k n w. (Inr (case w k n of Some (REG_DWORD d) \<Rightarrow> Inr d | _ \<Rightarrow> Inl 2), w))\<rparr>"

definition sample_telemetry :: "(string \<Rightarrow> string \<Rightarrow> reg_data option) HandlerBase" where
  "sample_telemetry = \<lparr>handlerId = ''windowsTelemetry'', isConfigured = False, metaData = MetaData_new,
     iPluginHost = None, deploymentStatusJson = JNull, handlerConfig = JNull,
     reportedSchema = ReportedSchema_new ''raw'' ''dm'' InterfaceVersion\<rparr>"

theorem applied_level_is_reported_witness:
  "\<exists>c1 c2. SetSubGroupLevel map_registry (JObject [(''level'', JString ''enhanced'')])
       (ctx_new sample_telemetry (\<lambda>k n. None)) = (Inr True, c1) \<and>
     GetSubGroupLevel map_registry c1 = (Inr True, c2) \<and>
     json_at (reported c2) ''level'' = Inr (JString ''enhanced'')"
proof -
  let ?d = "JObject [(''level'', JString ''enhanced'')]"
  let ?c = "ctx_new sample_telemetry (\<lambda>k n. None)"
  have laws: "registry_laws map_registry (\<lambda>w. w)"
    by (auto simp: registry_laws_def map_registry_def cret_def)
  have get: "GetStringJsonValue ?d ''level'' = Inr ''enhanced''"
    by (simp add: GetStringJsonValue_def TryGetStringJsonValue_def TryGetJsonValue_member)
  obtain c1 where "SetSubGroupLevel map_registry ?d ?c = (Inr True, c1)"
    by (simp add: SetSubGroupLevel_def RunOperation_def cmd_simps get StringToLevel_def on_world_def set_this_def
      WriteRegistryNumber_def WriteRegistry_def map_registry_def)
  with applied_level_is_reported [OF laws get this] show ?thesis by (auto simp: ctx_new_def)
qed

text \<open>
  Whatever date the desired configuration names for the change to daylight time, the
  system is given the date of the change to standard time for it: the two transitions of the
  structure agree in everything but the day of the week.
\<close>

theorem daylight_date_is_the_standard_date:
  assumes "time_zone_info m = Inr tzi"
  shows "(tz_DaylightDate tzi)\<lparr>wDayOfWeek := wDayOfWeek (tz_StandardDate tzi)\<rparr> = tz_StandardDate tzi \<and>
    time_zone_info (m\<lparr>tm_DaylightDate := d\<rparr>) = Inr tzi"
  using assms by (auto simp: time_zone_info_def rbind_def split: sum.splits)

definition sample_zone :: time_zone_model where
  "sample_zone = \<lparr>tm_Disabled = Some False, tm_KeyName = Some ''Pacific Standard Time'', tm_Bias = Some 480,
     tm_DaylightBias = Some (- 60), tm_DaylightDate = Some ''2000-03-02T02:00:00'', tm_DaylightName = Some ''PDT'',
     tm_DaylightDay = Some 0, tm_StandardBias = Some 0, tm_StandardDate = Some [],
     tm_StandardName = Some ''PST'', tm_StandardDay = Some 0\<rparr>"

theorem daylight_date_is_the_standard_date_witness:
  "\<exists>tzi. time_zone_info sample_zone = Inr tzi \<and> wMonth (tz_DaylightDate tzi) = 0"
proof -
  obtain tzi where tzi: "time_zone_info sample_zone = Inr tzi" and s: "wMonth (tz_StandardDate tzi) = 0"
    by (simp add: time_zone_info_def sample_zone_def transition_date_def c_str_def no_date_def)
  from daylight_date_is_the_standard_date [OF tzi]
  have "wMonth ((tz_DaylightDate tzi)\<lparr>wDayOfWeek := wDayOfWeek (tz_StandardDate tzi)\<rparr>) = 0" using s by simp
  with tzi show ?thesis by (intro exI [of _ tzi]) simp
qed

text \<open>
  The time zone is set from all of its eleven fields or not at all: with some of them
  missing the operation records an error under its context and neither configures the handler
  nor calls the system, and with none of them it does nothing.
\<close>

theorem time_zone_all_or_nothing:
  assumes "time_zone_read desired = Inr m" and "fieldCount m \<noteq> 11"
  shows "SetSubGroupTimeZone env desired c =
    (if fieldCount m = 0 then (Inr True, c)
     else (Inr False, c\<lparr>errs := AddError ''timeZoneReadCfgCtx'' \<lparr>subsystem = ''DeviceAgentPlugin'',
       err_context = ''timeZoneReadCfgCtx'', err_code = DM_ERROR_INVALID_JSON_FORMAT,
       message = ''Missing time zone fields'', parameters = []\<rparr> (errs c)\<rparr>))"
  using assms by (simp add: SetSubGroupTimeZone_def RunOperation_def cmd_simps)

theorem time_zone_all_or_nothing_witness:
  "errs (snd (SetSubGroupTimeZone \<lparr>te_process = \<lparr>pr_CreatePipe = cret None, pr_SetHandleInformation = cret None,
       pr_CreateProcess = (\<lambda>cmd. cret (Inl 2))\<rparr>, te_GetTimeZone = cret (Inl 1), te_SetTimeZone = (\<lambda>z. cret None),
       te_uninit = 0\<rparr> (JObject [(''timeZoneBias'', JInt 480)])
       (ctx_new sample_telemetry (\<lambda>k n. None)))) \<noteq> []"
proof -
  let ?env = "\<lparr>te_process = \<lparr>pr_CreatePipe = cret None, pr_SetHandleInformation = cret None,
       pr_CreateProcess = (\<lambda>cmd. cret (Inl 2))\<rparr>, te_GetTimeZone = cret (Inl 1), te_SetTimeZone = (\<lambda>z. cret None),
       te_uninit = 0\<rparr> :: (string \<Rightarrow> string \<Rightarrow> reg_data option) time_env"
  let ?d = "JObject [(''timeZoneBias'', JInt 480)]"
  obtain m where m: "time_zone_read ?d = Inr m" and "tm_Bias m = Some 480" "tm_KeyName m = None" and n: "fieldCount m = 1"
    by (simp add: time_zone_read_def TryGetBoolJsonValue_def TryGetStringJsonValue_def TryGetIntJsonValue_def
      TryGetJsonValue_member int_limits fieldCount_def present_count_def)
  show ?thesis
    using time_zone_all_or_nothing [OF m, of ?env "ctx_new sample_telemetry (\<lambda>k n. None)"] n
    by (simp add: ctx_new_def AddError_def)
qed

lemma first_ntp_skip: "\<forall>l \<in> set before. ntp_of_line l = None \<Longrightarrow> first_ntp (before @ rest) = first_ntp rest"
  by (induction before) simp_all

lemma find_from_first:
  "c \<notin> set x \<Longrightarrow> find_from (c # needle) (x @ (c # needle) @ y) = Some (length x)"
proof (induction x)
  case (Cons a x)
  then have "take (length (c # needle)) ((a # x) @ (c # needle) @ y) \<noteq> c # needle" by auto
  with Cons show ?case by simp
qed simp

lemma cut_at_first: "c \<notin> set x \<Longrightarrow> cut_at (c # needle) (x @ (c # needle) @ y) = x"
  using find_from_first [of c x needle y] by (simp add: cut_at_def)

lemma trim_right_id: "s \<noteq> [] \<Longrightarrow> last s \<notin> set chars \<Longrightarrow> rev (dropWhile (\<lambda>c. c \<in> set chars) (rev s)) = s"
  by (cases s rule: rev_cases) simp_all

definition ntp_line :: "string \<Rightarrow> string \<Rightarrow> string \<Rightarrow> string" where
  "ntp_line host flags cr = ''NtpServer: '' @ host @ '','' @ flags @ '' (Local)'' @ cr"

lemma ntp_of_ntp_line:
  assumes "set host \<inter> {CHR '':'', CHR '','', CHR '' ''} = {}" and "set flags \<inter> {CHR '':'', CHR '' ''} = {}"
    and "host \<noteq> []" and "cr = [] \<or> cr = [CHR 0x0D]"
  shows "ntp_of_line (ntp_line host flags cr) = Some host"
proof -
  let ?v0 = "host @ '','' @ flags @ '' (Local)'' @ cr"
  have v: "CHR '':'' \<notin> set ('' '' @ ?v0)" using assms by auto
  have "SplitString (CHR '':'') (''NtpServer'' @ CHR '':'' # ('' '' @ ?v0)) = [''NtpServer'', '' '' @ ?v0]"
    using SplitString_last [OF v] by (subst SplitString_delim) simp_all
  moreover have "ntp_line host flags cr = ''NtpServer'' @ CHR '':'' # ('' '' @ ?v0)" by (simp add: ntp_line_def)
  ultimately have tokens: "SplitString (CHR '':'') (ntp_line host flags cr) = [''NtpServer'', '' '' @ ?v0]" by simp
  have "last ?v0 \<noteq> CHR '' ''" using assms(4) by auto
  moreover have "dropWhile (\<lambda>c. c \<in> set '' '') ('' '' @ ?v0) = ?v0"
    using assms(1,3) by (cases host) auto
  ultimately have trim: "TrimString ('' '' @ ?v0) '' '' = ?v0"
    using trim_right_id [of ?v0 "'' ''"] by (simp add: TrimString_eq)
  have "CHR '' '' \<notin> set (host @ '','' @ flags)" using assms(1,2) by auto
  from cut_at_first [OF this, of "''(Local)''" cr]
  have cut1: "cut_at '' (Local)'' ?v0 = host @ '','' @ flags" by simp
  have "CHR '','' \<notin> set host" using assms(1) by auto
  from cut_at_first [OF this, of "[]" flags] have cut2: "cut_at '','' (host @ '','' @ flags) = host" by simp
  have name: "TrimString ''NtpServer'' '' '' = ''NtpServer''" by (simp add: TrimString_eq)
  show ?thesis by (simp add: ntp_of_line_def Let_def tokens name trim cut1 cut2 del: append.simps append_assoc)
qed

text \<open>
  The time server reported is the host that the query of the time service names: the line
  of the server is found behind any lines about other settings, and its flags, the mark of
  the local configuration and the carriage return are cut off.
\<close>

theorem reported_time_server:
  assumes "Launch (te_process env) w32tm_query (te_uninit env) w = (Inr (0, out), w')"
    and "SplitString (CHR 0x0A) out = before @ ntp_line host flags cr # rest"
    and "\<forall>l \<in> set before. ntp_of_line l = None"
    and "set host \<inter> {CHR '':'', CHR '','', CHR '' ''} = {}" and "set flags \<inter> {CHR '':'', CHR '' ''} = {}"
    and "host \<noteq> []" and "cr = [] \<or> cr = [CHR 0x0D]"
  shows "GetNtpServer env w = (Inr host, w')"
  using assms(1-3) ntp_of_ntp_line [OF assms(4-7)]
  by (simp add: GetNtpServer_def cmd_simps first_ntp_skip)

definition sample_query :: string where
  "sample_query = ''[TimeProviders]'' @ [CHR 0x0D, CHR 0x0A] @ ''Type: NTP (Local)'' @ [CHR 0x0D, CHR 0x0A] @
     ntp_line ''time.windows.com'' ''0x8'' [CHR 0x0D] @ [CHR 0x0A]"

definition sample_time_env :: "nat time_env" where
  "sample_time_env = \<lparr>te_process = \<lparr>pr_CreatePipe = cret None, pr_SetHandleInformation = cret None,
       pr_CreateProcess = (\<lambda>cmd. cret (Inr (Running (Chunk sample_query) (Exited (Some 0) (Chunk [])))))\<rparr>,
     te_GetTimeZone = cret (Inl 1), te_SetTimeZone = (\<lambda>z. cret None), te_uninit = 7\<rparr>"

theorem reported_time_server_witness:
  "GetNtpServer sample_time_env 0 = (Inr ''time.windows.com'', 0)"
proof -
  have 1: "Launch (te_process sample_time_env) w32tm_query (te_uninit sample_time_env) 0 = (Inr (0, sample_query), 0)"
    by (simp add: Launch_def cmd_simps sample_time_env_def c_str_def sample_query_def ntp_line_def)
  have 2: "SplitString (CHR 0x0A) sample_query =
      [''[TimeProviders]'' @ [CHR 0x0D], ''Type: NTP (Local)'' @ [CHR 0x0D]] @
      ntp_line ''time.windows.com'' ''0x8'' [CHR 0x0D] # []"
    by (simp add: sample_query_def ntp_line_def SplitString.simps)
  have 3: "\<forall>l \<in> set [''[TimeProviders]'' @ [CHR 0x0D], ''Type: NTP (Local)'' @ [CHR 0x0D]]. ntp_of_line l = None"
    by (simp add: ntp_of_line_def Let_def SplitString.simps TrimString_eq)
  show ?thesis by (rule reported_time_server [OF 1 2 3]) simp_all
qed

end
