(* ===== verification/Uwp_Apps.thy ===== *)
theory Uwp_Apps
  imports Os_Plugins "HOL-Library.Multiset"
begin

text \<open>
  UwpAppManagementPlugin: the desired state of the store apps.  UwpHelpers.cpp talks to
  iotstartup.exe about the start-up apps; UwpAppManagementHandler.cpp validates the whole
  desired list, puts the new foreground app first and then installs, removes or queries app
  by app; UwpManageAppLifeCycleHandler.cpp and UwpGetInstalledAppsHandler.cpp are direct
  methods.  The package manager of the platform, the blob storage and the file system are
  the record \<open>uwp_env\<close>.
\<close>

section \<open>The platform\<close>

datatype StartupType = eUndefined | eNone | eForeground | eBackground

datatype AppDesiredAction = eQuery | eInstall | eUninstall | eUpgrade | eDowngrade

datatype AsyncStatus = AsyncCompleted | AsyncStarted | AsyncError int string | AsyncCanceled

record package =
  pk_FamilyName :: string
  pk_Name :: string
  pk_FullName :: string
  pk_Major :: "16 word"
  pk_Minor :: "16 word"
  pk_Build :: "16 word"
  pk_Revision :: "16 word"

record 'w uwp_env =
  ue_process :: "'w process_api"
  ue_ExpandEnvironment :: "('w, int + nat \<times> string) cmd"
  ue_FindPackages :: "('w, package list) cmd"
  ue_CreateEvent :: "('w, int option) cmd"
  ue_Impersonate :: "('w, unit) cmd"
  ue_AddPackage :: "string \<Rightarrow> string list \<Rightarrow> ('w, AsyncStatus) cmd"
  ue_RemovePackage :: "string \<Rightarrow> ('w, AsyncStatus) cmd"
  ue_DownloadBlob :: "string \<Rightarrow> string \<Rightarrow> string \<Rightarrow> ('w, string) cmd"
  ue_DmUserFolder :: "('w, string) cmd"
  ue_WriteFile :: "string \<Rightarrow> string \<Rightarrow> ('w, unit) cmd"
  ue_uninit :: "32 word"

section \<open>UwpHelpers\<close>

definition IotStartupExePath :: "'w uwp_env \<Rightarrow> ('w, string) cmd" where
  "IotStartupExePath env =
     cbind (ue_ExpandEnvironment env) (\<lambda>r. case r of
       Inl gle \<Rightarrow> cthrow (DMExc Windows gle ''Failed to expand environment strings'')
     | Inr (len, expanded) \<Rightarrow>
         if len > 260 then cthrow (DMExc Windows 122 ''Expanded path string longer than MAX_PATH'')
         else cret (c_str expanded))"

definition iotstartup_error :: "32 word \<Rightarrow> exn" where
  "iotstartup_error returnCode =
     DMExc IotStartup (sint returnCode) ''Error: iotstartup.exe returned an error code.''"

definition StartStopApp :: "'w uwp_env \<Rightarrow> string \<Rightarrow> bool \<Rightarrow> ('w, unit) cmd" where
  "StartStopApp env appId start =
     cbind (IotStartupExePath env) (\<lambda>exe.
     cbind (Launch (ue_process env) (exe @ (if start then '' run '' else '' stop '') @ c_str appId) (ue_uninit env))
       (\<lambda>(returnCode, out).
       if returnCode \<noteq> 0 then cthrow (iotstartup_error returnCode) else cret ()))"

definition startup_of_output :: "string \<Rightarrow> StartupType" where
  "startup_of_output out =
     (if length out > 0
      then if take 10 out = ''Headed   :'' then eForeground
           else if take 10 out = ''Headless :'' then eBackground
           else eUndefined
      else eUndefined)"

definition GetAppStartupType :: "'w uwp_env \<Rightarrow> string \<Rightarrow> ('w, StartupType) cmd" where
  "GetAppStartupType env pkgFamilyName =
     cbind (IotStartupExePath env) (\<lambda>exe.
     cbind (Launch (ue_process env) (exe @ '' startup '' @ c_str pkgFamilyName) 0) (\<lambda>(returnCode, out).
       if returnCode \<noteq> 0 then cthrow (iotstartup_error returnCode)
       else cret (startup_of_output out)))"

fun startup_command :: "StartupType \<Rightarrow> string option" where
  "startup_command eForeground = Some ('' add '' @ '' headed '')"
| "startup_command eBackground = Some ('' add '' @ '' headless '')"
| "startup_command eNone = Some ('' remove '' @ '' headless '')"
| "startup_command eUndefined = None"

definition UpdateAppStartup :: "'w uwp_env \<Rightarrow> string \<Rightarrow> StartupType \<Rightarrow> ('w, unit) cmd" where
  "UpdateAppStartup env pkgFamilyName startupType =
     cbind (IotStartupExePath env) (\<lambda>exe.
     cbind (GetAppStartupType env pkgFamilyName) (\<lambda>current.
       if current = startupType then cret ()
       else case startup_command startupType of
         None \<Rightarrow> cret ()
       | Some c \<Rightarrow>
           cbind (Launch (ue_process env) (exe @ c @ c_str pkgFamilyName) 0) (\<lambda>(returnCode, out).
             if returnCode \<noteq> 0
             then if startupType = eNone \<and> returnCode = 0x80070057 then cret ()
                  else cthrow (iotstartup_error returnCode)
             else cret ())))"

text \<open>
  \<open>find\<close> answers \<open>npos\<close>, the largest 64-bit number, when the character is not there, and the
  sum and the difference wrap; \<open>substr\<close> throws when it would start behind the end.
\<close>

definition find_pos :: "char \<Rightarrow> string \<Rightarrow> 64 word" where
  "find_pos c s = (case find_from [c] s of None \<Rightarrow> - 1 | Some n \<Rightarrow> of_nat n)"

definition substr :: "string \<Rightarrow> 64 word \<Rightarrow> 64 word \<Rightarrow> string res" where
  "substr s pos n =
     (if unat pos > length s then Inl (StdException ''invalid string position'')
      else Inr (take (unat n) (drop (unat pos) s)))"

definition startup_app_of_output :: "string \<Rightarrow> string res" where
  "startup_app_of_output out =
     (let startPos = find_pos (CHR '':'') out + 2; endPos = find_pos (CHR ''!'') out
      in substr out startPos (endPos - startPos))"

definition GetStartupApp :: "'w uwp_env \<Rightarrow> ('w, string) cmd" where
  "GetStartupApp env =
     cbind (IotStartupExePath env) (\<lambda>exe.
     cbind (Launch (ue_process env) (exe @ '' startup '' @ '' headed '') 0) (\<lambda>(returnCode, out).
       if returnCode \<noteq> 0
       then if returnCode = 0x80070002 then cret [] else cthrow (iotstartup_error returnCode)
       else clift (startup_app_of_output out)))"

section \<open>Packages\<close>

definition PackageVersion :: "package \<Rightarrow> string" where
  "PackageVersion p =
     string_of_nat (unat (pk_Major p)) @ ''.'' @ string_of_nat (unat (pk_Minor p)) @ ''.'' @
     string_of_nat (unat (pk_Build p)) @ ''.'' @ string_of_nat (unat (pk_Revision p))"

definition FindApp :: "'w uwp_env \<Rightarrow> string \<Rightarrow> ('w, package option) cmd" where
  "FindApp env packageFamilyName =
     cbind (ue_FindPackages env) (\<lambda>packages.
     cret (find (\<lambda>p. same_name packageFamilyName (pk_FamilyName p)) packages))"

definition async_result :: "string \<Rightarrow> int \<Rightarrow> AsyncStatus \<Rightarrow> unit res" where
  "async_result waitMessage waitCode st =
     (case st of
        AsyncCompleted \<Rightarrow> Inr ()
      | AsyncStarted \<Rightarrow> Inl (DMExc DeviceAgent waitCode waitMessage)
      | AsyncError c m \<Rightarrow> Inl (DMExc DeviceAgent c (c_str m))
      | AsyncCanceled \<Rightarrow> Inl (DMExc DeviceAgent DM_SHELL_ERROR_APP_INSTALL_TASK_CANCELLED
          ''Error: application installation task cancelled.''))"

definition InstallApp :: "'w uwp_env \<Rightarrow> string \<Rightarrow> string \<Rightarrow> string list \<Rightarrow> bool \<Rightarrow> ('w, unit) cmd" where
  "InstallApp env packageFamilyName appxLocalPath dependentPackages launchApp =
     cbind (ue_CreateEvent env) (\<lambda>r. case r of
       Some gle \<Rightarrow> cthrow (DMExc Windows gle ''Failed to create event.'')
     | None \<Rightarrow>
         cseq (ue_Impersonate env) (
         cbind (ue_AddPackage env (c_str appxLocalPath) (map c_str dependentPackages)) (\<lambda>st.
         cseq (clift (async_result ''Error: failed to wait for installation to complete.''
                 DM_SHELL_ERROR_APP_INSTALL_FAILED st))
           (if launchApp then StartStopApp env packageFamilyName True else cret ()))))"

definition UninstallApp :: "'w uwp_env \<Rightarrow> string \<Rightarrow> ('w, unit) cmd" where
  "UninstallApp env pkgFamilyName =
     cbind (FindApp env pkgFamilyName) (\<lambda>p. case p of
       None \<Rightarrow> cret ()
     | Some package \<Rightarrow>
         cbind (ue_CreateEvent env) (\<lambda>r. case r of
           Some gle \<Rightarrow> cthrow (DMExc Windows gle ''Failed to create synchronization event'')
         | None \<Rightarrow>
             cseq (ue_Impersonate env) (
             cbind (ue_RemovePackage env (pk_FullName package)) (\<lambda>st.
             clift (async_result ''Error: failed to wait for uninstallation to complete.''
               DM_SHELL_ERROR_APP_UNINSTALL_FAILED st)))))"

definition DownloadAppPackageFromBlob :: "'w uwp_env \<Rightarrow> string \<Rightarrow> string \<Rightarrow> ('w, string) cmd" where
  "DownloadAppPackageFromBlob env connectionString containerAndBlob =
     (let parts = SplitString backslash containerAndBlob
      in if length parts < 2
         then cthrow (DMExc DeviceAgentPlugin DM_ERROR_INVALID_JSON_FORMAT
           (''File Name format is incorrect. It should be <ContainerName>'' @ [backslash] @ ''<BlobName>''))
         else let containerName = c_str (parts ! 0);
                  blobName = c_str (drop (length containerName + 1) containerAndBlob)
              in cbind (ue_DownloadBlob env (c_str connectionString) containerName blobName) (\<lambda>bytes.
                 cbind (ue_DmUserFolder env) (\<lambda>folder.
                 let fullFileName = c_str folder @ last parts
                 in cseq (ue_WriteFile env fullFileName bytes) (cret fullFileName))))"

section \<open>Validating and ordering the desired apps\<close>

record AppDesiredState =
  packageFamilyId :: string
  packageFamilyName :: string
  appVersion :: version
  appAction :: AppDesiredAction
  startupType :: StartupType
  appxSource :: string
  depsSources :: string
  launchAfterInstall :: bool
  appPackage :: "package option"

definition AppDesiredState_new :: "string \<Rightarrow> AppDesiredState" where
  "AppDesiredState_new i = \<lparr>packageFamilyId = i, packageFamilyName = [], appVersion = Version ''0.0.0.0'',
     appAction = eQuery, startupType = eUndefined, appxSource = [], depsSources = [],
     launchAfterInstall = False, appPackage = None\<rparr>"

record validation =
  desiredStates :: "AppDesiredState list"
  foreGroundStartupList :: "string list"
  removeStartupList :: "string list"
  uninstallList :: "string list"

definition validation_new :: validation where
  "validation_new = \<lparr>desiredStates = [], foreGroundStartupList = [], removeStartupList = [], uninstallList = []\<rparr>"

definition invalid_json :: "string \<Rightarrow> exn" where
  "invalid_json m = DMExc DeviceAgent DM_ERROR_INVALID_JSON m"

text \<open>The start-up type of an entry: the new state and the lists it enters.\<close>

definition read_startup :: "json \<Rightarrow> AppDesiredState \<Rightarrow> validation \<Rightarrow> (AppDesiredState \<times> validation) res" where
  "read_startup entry ds acc =
     rbind (TryGetStringJsonValue entry ''startup'') (\<lambda>startup. case startup of
       None \<Rightarrow> Inr (ds, acc)
     | Some v \<Rightarrow>
         if v = ''foreground''
         then Inr (ds\<lparr>startupType := eForeground\<rparr>,
                   acc\<lparr>foreGroundStartupList := foreGroundStartupList acc @ [packageFamilyName ds]\<rparr>)
         else if v = ''background'' then Inr (ds\<lparr>startupType := eBackground\<rparr>, acc)
         else if v = ''none''
         then Inr (ds\<lparr>startupType := eNone\<rparr>,
                   acc\<lparr>removeStartupList := removeStartupList acc @ [packageFamilyName ds]\<rparr>)
         else Inl (invalid_json ''Invalid startup type entry''))"

definition action_for :: "package option \<Rightarrow> version \<Rightarrow> AppDesiredAction" where
  "action_for installed desired =
     (case installed of
        None \<Rightarrow> eInstall
      | Some p \<Rightarrow>
          let installedVersion = Version (PackageVersion p)
          in if version_eq installedVersion desired then eQuery
             else if version_less installedVersion desired then eUpgrade
             else eDowngrade)"

definition read_sources :: "json \<Rightarrow> AppDesiredState \<Rightarrow> AppDesiredState res" where
  "read_sources entry ds =
     (if appAction ds \<in> {eInstall, eUpgrade, eDowngrade}
      then rbind (TryGetStringJsonValue entry ''appxSource'') (\<lambda>source. case source of
             None \<Rightarrow> Inl (invalid_json ''App package source is missing'')
           | Some s \<Rightarrow>
             rbind (TryGetStringJsonValue entry ''depsSources'') (\<lambda>deps.
             rbind (TryGetBoolJsonValue entry ''launchAfterInstall'') (\<lambda>launch.
             Inr (ds\<lparr>appxSource := s,
                    depsSources := (case deps of None \<Rightarrow> depsSources ds | Some d \<Rightarrow> d),
                    launchAfterInstall := (case launch of None \<Rightarrow> launchAfterInstall ds | Some b \<Rightarrow> b)\<rparr>))))
      else Inr ds)"

definition push_state :: "AppDesiredState \<Rightarrow> validation \<Rightarrow> validation" where
  "push_state ds acc = acc\<lparr>desiredStates := desiredStates acc @ [ds]\<rparr>"

definition validate_entry :: "'w uwp_env \<Rightarrow> string \<times> json \<Rightarrow> validation \<Rightarrow> ('w, validation) cmd" where
  "validate_entry env kv acc =
     cbind (clift (GetStringJsonValue (snd kv) ''pkgFamilyName'')) (\<lambda>name.
     cbind (clift (GetStringJsonValue (snd kv) ''version'')) (\<lambda>desiredVersion.
     let ds = (AppDesiredState_new (fst kv))\<lparr>packageFamilyName := name\<rparr>
     in if desiredVersion = ''not installed''
        then cret (push_state (ds\<lparr>appAction := eUninstall\<rparr>)
               (acc\<lparr>uninstallList := uninstallList acc @ [name]\<rparr>))
        else cbind (clift (read_startup (snd kv) (ds\<lparr>appVersion := Version desiredVersion\<rparr>) acc)) (\<lambda>(ds, acc).
             cbind (FindApp env name) (\<lambda>p.
             cbind (clift (read_sources (snd kv)
               (ds\<lparr>appPackage := p, appAction := action_for p (appVersion ds)\<rparr>))) (\<lambda>ds.
             cret (push_state ds acc))))))"

fun validate_entries :: "'w uwp_env \<Rightarrow> (string \<times> json) list \<Rightarrow> validation \<Rightarrow> ('w, validation) cmd" where
  "validate_entries env [] acc = cret acc"
| "validate_entries env (kv # kvs) acc = cbind (validate_entry env kv acc) (validate_entries env kvs)"

definition reorder_step :: "string \<Rightarrow> AppDesiredState list \<Rightarrow> nat \<Rightarrow> AppDesiredState list" where
  "reorder_step foreground rc i =
     (if packageFamilyName (rc ! i) = foreground then rc[0 := rc ! i, i := rc ! 0] else rc)"

definition reorder :: "string \<Rightarrow> AppDesiredState list \<Rightarrow> AppDesiredState list" where
  "reorder foreground rc = foldl (reorder_step foreground) rc [1..<length rc]"

definition check_and_order :: "string \<Rightarrow> validation \<Rightarrow> AppDesiredState list res" where
  "check_and_order currentStartupApp acc =
     (if length (foreGroundStartupList acc) > 1
      then Inl (DMExc DeviceAgent DM_SHELL_ERROR_INVALID_DESIRED_MULTIPLE_FOREGROUND_APPS
        ''Multiple foreground apps specified in desired configuration'')
      else if currentStartupApp \<in> set (uninstallList acc) \<and> length (foreGroundStartupList acc) = 0
      then Inl (DMExc DeviceAgent DM_SHELL_ERROR_CONFLICT_UNINSTALL_FOREGROUND_APP
        ''Uninstalling foreground app without setting a different foreground app'')
      else if currentStartupApp \<in> set (removeStartupList acc) \<and> length (foreGroundStartupList acc) = 0
      then Inl (DMExc DeviceAgent DM_SHEEL_ERROR_INVALID_DESIRED_NO_FOREGROUND_APPS
        ''One foreground app needs to be set.'')
      else if length (foreGroundStartupList acc) = 1
      then if startupType (desiredStates acc ! 0) = eForeground then Inr (desiredStates acc)
           else Inr (reorder (foreGroundStartupList acc ! 0) (desiredStates acc))
      else Inr (desiredStates acc))"

definition ReorderAndValidate :: "'w uwp_env \<Rightarrow> json \<Rightarrow> ('w, AppDesiredState list) cmd" where
  "ReorderAndValidate env desiredConfig =
     cbind (GetStartupApp env) (\<lambda>currentStartupApp.
     cbind (validate_entries env (json_entries desiredConfig) validation_new) (\<lambda>acc.
     clift (check_and_order currentStartupApp acc)))"

section \<open>Applying and reporting\<close>

text \<open>
  The two lists are locals of the action of \<open>Invoke\<close> that the operations it runs share; the
  model keeps them beside the object and empties them at its start.
\<close>

record 'w UwpHandler = "'w MdmHandlerBase" +
  modifiedApps :: "(package option \<times> StartupType) list"
  uninstalledApps :: "string list"

type_synonym ('w, 'z, 'a) uwp_cmd = "((('w, 'z) UwpHandler_scheme, 'w) ctx, 'a) cmd"

definition UwpAppManagementHandler_new :: "('w world_scheme, 'w world_scheme UwpHandler) cmd" where
  "UwpAppManagementHandler_new =
     cbind (MdmHandlerBase_new ''uwpApps'' (ReportedSchema_new ''raw'' ''dm'' InterfaceVersion)) (\<lambda>hb.
     cret (MdmHandlerBase.extend hb (UwpHandler.fields [] [])))"

definition Uwp_Start :: "json \<Rightarrow> ((('w, 'z) HandlerBase_scheme, 'w) ctx, bool) cmd" where
  "Uwp_Start config = cbind (clift (json_at config ''textLogFilesPath'')) (\<lambda>logFilesPath. cret True)"

fun download_all :: "'w uwp_env \<Rightarrow> string \<Rightarrow> string list \<Rightarrow> ('w, string list) cmd" where
  "download_all env cs [] = cret []"
| "download_all env cs (d # ds) =
     cbind (DownloadAppPackageFromBlob env cs d) (\<lambda>p. cbind (download_all env cs ds) (\<lambda>ps. cret (p # ps)))"

definition query_app :: "'w uwp_env \<Rightarrow> AppDesiredState \<Rightarrow> ('w, 'z, unit) uwp_cmd" where
  "query_app env ds =
     cbind (on_world (FindApp env (packageFamilyName ds))) (\<lambda>installedApp.
     cseq (on_world (UpdateAppStartup env (packageFamilyName ds) (startupType ds)))
       (set_this (\<lambda>h. h\<lparr>modifiedApps := modifiedApps h @ [(installedApp, startupType ds)]\<rparr>)))"

definition install_app :: "'w uwp_env \<Rightarrow> string option \<Rightarrow> AppDesiredState \<Rightarrow> ('w, unit) cmd" where
  "install_app env connectionString ds =
     (case connectionString of
        None \<Rightarrow> cthrow (invalid_json ''Connection string for app packages is missing'')
      | Some cs \<Rightarrow>
          cbind (DownloadAppPackageFromBlob env cs (appxSource ds)) (\<lambda>appxPath.
          cbind (if depsSources ds \<noteq> []
                 then download_all env cs (SplitString (CHR '';'') (depsSources ds)) else cret []) (\<lambda>depsPath.
          InstallApp env (packageFamilyName ds) appxPath depsPath (launchAfterInstall ds))))"

fun app_action ::
    "'w uwp_env \<Rightarrow> string option \<Rightarrow> AppDesiredState \<Rightarrow> AppDesiredAction \<Rightarrow> ('w, 'z, unit) uwp_cmd" where
  "app_action env cs ds eUninstall =
     cseq (on_world (UninstallApp env (packageFamilyName ds)))
       (set_this (\<lambda>h. h\<lparr>uninstalledApps := uninstalledApps h @ [packageFamilyName ds]\<rparr>))"
| "app_action env cs ds eDowngrade =
     cseq (on_world (UninstallApp env (packageFamilyName ds)))
       (cseq (on_world (install_app env cs ds)) (query_app env ds))"
| "app_action env cs ds eInstall = cseq (on_world (install_app env cs ds)) (query_app env ds)"
| "app_action env cs ds eUpgrade = cseq (on_world (install_app env cs ds)) (query_app env ds)"
| "app_action env cs ds eQuery = query_app env ds"

definition ModifyApplicationHandler ::
    "'w uwp_env \<Rightarrow> json \<Rightarrow> string option \<Rightarrow> ('w, 'z, bool) uwp_cmd" where
  "ModifyApplicationHandler env desiredConfig connectionString =
     RunOperation ''apps'' (
       cbind (clift (TryGetJsonValue desiredConfig ''apps'')) (\<lambda>apps. case apps of
         None \<Rightarrow> cret ()
       | Some v \<Rightarrow>
           cbind (on_world (ReorderAndValidate env v)) (\<lambda>states.
           cfor (\<lambda>ds. cseq (RunOperation (packageFamilyId ds) (app_action env connectionString ds (appAction ds)))
                       (cret ())) states)))"

fun startup_text :: "StartupType \<Rightarrow> (string \<times> json) list" where
  "startup_text eNone = [(''startup'', JString ''none'')]"
| "startup_text eForeground = [(''startup'', JString ''foreground'')]"
| "startup_text eBackground = [(''startup'', JString ''background'')]"
| "startup_text eUndefined = []"

definition family_id :: "string \<Rightarrow> string" where
  "family_id name = map (\<lambda>c. if c = CHR ''.'' then CHR ''_'' else c) name"

definition app_info :: "package \<times> StartupType \<Rightarrow> string \<times> json" where
  "app_info a =
     (let name = c_str (pk_FamilyName (fst a))
      in (family_id name,
          jobj ([(''pkgFamilyName'', JString name), (''version'', JString (PackageVersion (fst a))),
                 (''name'', JString (c_str (pk_Name (fst a))))] @ startup_text (snd a))))"

definition removed_info :: "string \<Rightarrow> string \<times> json" where
  "removed_info name =
     (family_id name, jobj [(''pkgFamilyName'', JString name), (''version'', JString ''not installed'')])"

text \<open>A package that was not found is a null reference, whose use no handler catches.\<close>

definition Uwp_BuildReported :: "('w, 'z, unit) uwp_cmd" where
  "Uwp_BuildReported =
     cbind (cget this) (\<lambda>h.
       if list_ex (\<lambda>a. fst a = None) (modifiedApps h) then cthrow Terminate
       else report_put ''apps'' (jobj (map (\<lambda>(p, s). app_info (the p, s)) (modifiedApps h) @
              map removed_info (uninstalledApps h))))"

definition Uwp_EmptyReported :: "(('h, 'w) ctx, unit) cmd" where
  "Uwp_EmptyReported = report_nulls [''apps'']"

definition Uwp_apply :: "'w uwp_env \<Rightarrow> json \<Rightarrow> ('w, 'z, unit) uwp_cmd" where
  "Uwp_apply env desiredConfig =
     cbind (clift (TryGetStringJsonValue desiredConfig ''connectionString'')) (\<lambda>connectionString.
     cseq (set_this (\<lambda>h. h\<lparr>modifiedApps := [], uninstalledApps := []\<rparr>))
       (cseq (ModifyApplicationHandler env desiredConfig connectionString) (cret ())))"

definition Uwp_Invoke ::
    "'w world_scheme uwp_env \<Rightarrow> json \<Rightarrow> ('w world_scheme, 'z, InvokeResult) uwp_cmd" where
  "Uwp_Invoke env =
     state_Invoke (\<lambda>desired. cret ()) (cret ()) (Uwp_apply env) Uwp_BuildReported Uwp_EmptyReported"

lemma preserves_query_app [preserves_intros]: "preserves (handler_inv i h) (query_app env ds)"
  unfolding query_app_def by (intro preserves_intros; simp)

lemma preserves_app_action [preserves_intros]: "preserves (handler_inv i h) (app_action env cs ds a)"
  by (cases a) (auto intro!: preserves_intros)

lemma preserves_ModifyApplicationHandler [preserves_intros]:
  "preserves (handler_inv i h) (ModifyApplicationHandler env d cs)"
  unfolding ModifyApplicationHandler_def by (intro preserves_intros)

interpretation uwpApps: state_plugin "\<lambda>desired. cret ()" "cret ()"
  "Uwp_apply env :: json \<Rightarrow> ('w world_scheme, 'z, unit) uwp_cmd" Uwp_BuildReported Uwp_EmptyReported for env
  unfolding Uwp_apply_def Uwp_BuildReported_def Uwp_EmptyReported_def
  by unfold_locales (intro preserves_intros; simp)+

section \<open>The direct methods\<close>

definition UwpManageAppLifeCycleHandler_new :: "('w world_scheme, 'w world_scheme MdmHandlerBase) cmd" where
  "UwpManageAppLifeCycleHandler_new =
     MdmHandlerBase_new ''ManageAppLifeCycleCmd'' (ReportedSchema_new ''raw'' ''dm'' InterfaceVersion)"

definition ManageAppLifeCycle_Invoke ::
    "'w world_scheme uwp_env \<Rightarrow> json \<Rightarrow>
     ((('w world_scheme, 'z) MdmHandlerBase_scheme, 'w world_scheme) ctx, InvokeResult) cmd" where
  "ManageAppLifeCycle_Invoke env jsonParameters =
     Invoke_silent (
       cseq (on_meta (FromJsonParentObject jsonParameters)) (
       check_version InterfaceVersion (
         cbind (clift (GetStringJsonValue jsonParameters ''action'')) (\<lambda>action.
         cbind (if same_name action ''start'' then cret True
                else if same_name action ''stop'' then cret False
                else cthrow (invalid_json ''Invalid action type'')) (\<lambda>start.
         cbind (clift (GetStringJsonValue jsonParameters ''pkgFamilyName'')) (\<lambda>pkgFamilyName.
         cseq (on_world (StartStopApp env pkgFamilyName start)) (set_device_version InterfaceVersion)))))))
       (cget (direct_method_result jsonParameters))"

definition UwpGetInstalledAppsHandler_new :: "('w world_scheme, 'w world_scheme MdmHandlerBase) cmd" where
  "UwpGetInstalledAppsHandler_new =
     MdmHandlerBase_new ''GetInstalledUwpAppsCmd'' (ReportedSchema_new ''raw'' ''dm'' InterfaceVersion)"

definition installed_list :: "package list \<Rightarrow> json" where
  "installed_list packages =
     (if packages = [] then JNull
      else JArray (map (\<lambda>p. jobj [(''pkgFamilyName'', JString (c_str (pk_FamilyName p))),
                                 (''version'', JString (PackageVersion p))]) packages))"

definition GetInstalledApps :: "'w uwp_env \<Rightarrow> (('h, 'w) ctx, unit) cmd" where
  "GetInstalledApps env =
     cbind (on_world (ue_FindPackages env)) (\<lambda>packages. report_put ''installedApps'' (installed_list packages))"

text \<open>\<open>writeString\<close> is the compact writer of the JSON library.\<close>

definition GetInstalledApps_Invoke ::
    "(json \<Rightarrow> string) \<Rightarrow> 'w world_scheme uwp_env \<Rightarrow> json \<Rightarrow>
     ((('w world_scheme, 'z) MdmHandlerBase_scheme, 'w world_scheme) ctx, InvokeResult) cmd" where
  "GetInstalledApps_Invoke writeString env jsonParameters =
     Invoke_silent (
       cseq (on_meta (FromJsonParentObject jsonParameters)) (
       check_version InterfaceVersion (
         cseq (GetInstalledApps env) (set_device_version InterfaceVersion))))
       (cget (\<lambda>c. if Count (errs c) \<noteq> 0 then direct_method_result jsonParameters c
                  else InvokeResult_full eDirectMethod 200 (writeString (reported c))))"

section \<open>The order of the desired apps\<close>

definition foreground :: "AppDesiredState \<Rightarrow> bool" where
  "foreground ds \<longleftrightarrow> startupType ds = eForeground"

definition foreground_listed :: "validation \<Rightarrow> bool" where
  "foreground_listed acc \<longleftrightarrow>
     foreGroundStartupList acc = map packageFamilyName (filter foreground (desiredStates acc))"

lemma read_startup_listed:
  assumes "read_startup entry ds acc = Inr (ds', acc')" and "foreground_listed acc" and "\<not> foreground ds"
  shows "foreground_listed (push_state (ds'\<lparr>appPackage := p, appAction := a\<rparr>) acc')"
    and "packageFamilyName ds' = packageFamilyName ds" and "desiredStates acc' = desiredStates acc"
  using assms by (auto simp: read_startup_def rbind_def foreground_listed_def push_state_def foreground_def
    split: sum.splits option.splits if_splits)

lemma read_sources_keeps:
  assumes "read_sources entry ds = Inr ds'"
  shows "packageFamilyName ds' = packageFamilyName ds" and "foreground ds' = foreground ds"
  using assms by (auto simp: read_sources_def rbind_def foreground_def split: sum.splits option.splits if_splits)

lemma push_state_listed:
  "foreground ds' = foreground ds \<Longrightarrow> packageFamilyName ds' = packageFamilyName ds \<Longrightarrow>
     foreground_listed (push_state ds' acc) = foreground_listed (push_state ds acc)"
  by (simp add: foreground_listed_def push_state_def)

lemma validate_entry_listed:
  assumes "validate_entry env kv acc w = (Inr acc', w')" and "foreground_listed acc"
  shows "foreground_listed acc'"
proof -
  let ?ds0 = "(AppDesiredState_new (fst kv))\<lparr>packageFamilyName := projr (GetStringJsonValue (snd kv) ''pkgFamilyName'')\<rparr>"
  have bg: "\<not> foreground (?ds0\<lparr>appVersion := v\<rparr>)" "\<not> foreground (?ds0\<lparr>appAction := eUninstall\<rparr>)" for v
    by (simp_all add: foreground_def AppDesiredState_new_def)
  from assms(1) show ?thesis
  proof (cases "GetStringJsonValue (snd kv) ''version'' = Inr ''not installed''")
    case True
    with assms bg(2) show ?thesis
      by (auto simp: validate_entry_def cmd_simps foreground_listed_def push_state_def split: sum.splits)
  next
    case False
    with assms(1) obtain v ds1 acc1 p ds2 where 1:
      "read_startup (snd kv) (?ds0\<lparr>appVersion := v\<rparr>) acc = Inr (ds1, acc1)"
      "read_sources (snd kv) (ds1\<lparr>appPackage := p, appAction := action_for p (appVersion ds1)\<rparr>) = Inr ds2"
      "acc' = push_state ds2 acc1"
      by (auto simp: validate_entry_def cmd_simps Let_def split: sum.splits prod.splits if_splits)
    have "foreground_listed (push_state (ds1\<lparr>appPackage := p, appAction := action_for p (appVersion ds1)\<rparr>) acc1)"
      by (rule read_startup_listed(1) [OF 1(1) assms(2) bg(1)])
    then show ?thesis
      using push_state_listed [OF read_sources_keeps(2,1) [OF 1(2)]] 1(3) by simp
  qed
qed

lemma validate_entries_listed:
  "validate_entries env kvs acc w = (Inr acc', w') \<Longrightarrow> foreground_listed acc \<Longrightarrow> foreground_listed acc'"
proof (induction kvs arbitrary: acc w)
  case Nil
  then show ?case by (simp add: cmd_simps)
next
  case (Cons kv kvs)
  from Cons.prems(1) obtain acc1 w1 where "validate_entry env kv acc w = (Inr acc1, w1)"
    "validate_entries env kvs acc1 w1 = (Inr acc', w')"
    by (auto simp: cmd_simps split: prod.splits sum.splits)
  then show ?case using Cons.IH validate_entry_listed [OF _ Cons.prems(2)] by fast
qed

lemma reorder_step_mset:
  "i < length rc \<Longrightarrow> mset (reorder_step f rc i) = mset rc \<and> length (reorder_step f rc i) = length rc"
  unfolding reorder_step_def using mset_swap [of i rc 0] by (cases "rc = []") simp_all

lemma reorder_mset:
  "\<forall>i \<in> set is. i < length rc \<Longrightarrow>
     mset (foldl (reorder_step f) rc is) = mset rc \<and> length (foldl (reorder_step f) rc is) = length rc"
  by (induction "is" arbitrary: rc) (simp_all add: reorder_step_mset)

lemma reorder_nothing:
  "\<forall>i \<in> set is. packageFamilyName (rc ! i) \<noteq> f \<Longrightarrow> foldl (reorder_step f) rc is = rc"
  by (induction "is") (simp_all add: reorder_step_def)

lemma reorder_first:
  assumes "length (filter (\<lambda>a. packageFamilyName a = f) rc) = 1" and "k < length rc"
    and "packageFamilyName (rc ! k) = f"
  shows "hd (reorder f rc) = rc ! k"
proof -
  have "card {i. i < length rc \<and> packageFamilyName (rc ! i) = f} = 1"
    using assms(1) by (simp add: length_filter_conv_card)
  then obtain j where j: "{i. i < length rc \<and> packageFamilyName (rc ! i) = f} = {j}" by (rule card_1_singletonE)
  have unique: "i = j" if "i < length rc" "packageFamilyName (rc ! i) = f" for i
  proof -
    from that have "i \<in> {i. i < length rc \<and> packageFamilyName (rc ! i) = f}" by simp
    with j show ?thesis by simp
  qed
  have other: "packageFamilyName (rc ! i) \<noteq> f" if "i < length rc" "i \<noteq> k" for i
    using unique [OF assms(2,3)] unique [OF that(1)] that(2) by blast
  show ?thesis
  proof (cases k)
    case 0
    then have "reorder f rc = rc"
      unfolding reorder_def using other by (intro reorder_nothing) auto
    with 0 assms(2) show ?thesis by (cases rc) simp_all
  next
    case (Suc k')
    let ?rc = "rc[0 := rc ! k, k := rc ! 0]"
    have split: "[1..<length rc] = [1..<k] @ k # [Suc k..<length rc]"
    proof -
      have "[1..<length rc] = [1..<k] @ [k..<length rc]"
      proof -
        have "length rc = k + (length rc - k)" "1 \<le> k" using Suc assms(2) by simp_all
        then show ?thesis using upt_add_eq_append [of 1 k "length rc - k"] by simp
      qed
      then show ?thesis using assms(2) by (simp add: upt_conv_Cons del: upt_Suc)
    qed
    have "foldl (reorder_step f) rc [1..<k] = rc" using other assms(2) by (intro reorder_nothing) auto
    moreover have "foldl (reorder_step f) ?rc [Suc k..<length rc] = ?rc"
      using other Suc by (intro reorder_nothing) auto
    ultimately have "reorder f rc = ?rc" unfolding reorder_def split by (simp add: reorder_step_def assms(3))
    moreover have "hd ?rc = ?rc ! 0" using assms(2) by (intro hd_conv_nth) (metis length_list_update list.size(3) not_less0)
    moreover have "0 < length rc" using assms(2) by auto
    ultimately show ?thesis using Suc assms(2) by simp
  qed
qed

section \<open>Properties\<close>

lemma check_and_order_mset:
  assumes "check_and_order current acc = Inr states"
  shows "mset states = mset (desiredStates acc) \<and> length (foreGroundStartupList acc) \<le> 1"
  using assms reorder_mset [of "[1..<length (desiredStates acc)]" "desiredStates acc"]
  by (auto simp: check_and_order_def reorder_def split: if_splits)

text \<open>
  What an entry of the configuration asks for, read off its members: the id it stands under, the
  family name, whether the app is to go, and the start-up type of one that is to stay.
\<close>

definition text_member :: "json \<Rightarrow> string \<Rightarrow> string option" where
  "text_member entry k =
     (case entry of
        JObject m \<Rightarrow> (case map_of m k of Some (JString s) \<Rightarrow> Some s | _ \<Rightarrow> None)
      | _ \<Rightarrow> None)"

definition wanted_startup :: "string option \<Rightarrow> StartupType" where
  "wanted_startup t =
     (if t = Some ''foreground'' then eForeground
      else if t = Some ''background'' then eBackground
      else if t = Some ''none'' then eNone else eUndefined)"

definition wanted_app :: "string \<times> json \<Rightarrow> string \<times> string option \<times> bool \<times> StartupType" where
  "wanted_app kv =
     (let gone = text_member (snd kv) ''version'' = Some ''not installed''
      in (fst kv, text_member (snd kv) ''pkgFamilyName'', gone,
          if gone then eUndefined else wanted_startup (text_member (snd kv) ''startup'')))"

definition planned_app :: "AppDesiredState \<Rightarrow> string \<times> string option \<times> bool \<times> StartupType" where
  "planned_app ds = (packageFamilyId ds, Some (packageFamilyName ds), appAction ds = eUninstall, startupType ds)"

lemma TryGetString_member: "TryGetStringJsonValue e k = Inr t \<Longrightarrow> text_member e k = t"
  by (cases e) (auto simp: TryGetStringJsonValue_def TryGetJsonValue_def rbind_def text_member_def
    split: option.splits sum.splits if_splits json.splits)

lemma GetString_member: "GetStringJsonValue e k = Inr t \<Longrightarrow> text_member e k = Some t"
  by (auto simp: GetStringJsonValue_def rbind_def dest!: TryGetString_member split: sum.splits option.splits)

lemma action_for_keeps: "action_for p v \<noteq> eUninstall"
  by (simp add: action_for_def Let_def split: option.splits)

lemma read_startup_wanted:
  assumes "read_startup e ds acc = Inr (ds', acc')" and "startupType ds = eUndefined"
  shows "startupType ds' = wanted_startup (text_member e ''startup'')" and "packageFamilyId ds' = packageFamilyId ds"
  using assms by (auto simp: read_startup_def rbind_def wanted_startup_def dest!: TryGetString_member
    split: sum.splits option.splits if_splits)

lemma read_sources_wanted:
  assumes "read_sources e ds = Inr ds'"
  shows "planned_app ds' = planned_app ds"
  using assms by (auto simp: read_sources_def rbind_def planned_app_def split: sum.splits option.splits if_splits)

text \<open>An entry is put behind the others, as it asks for.\<close>

lemma validate_entry_wanted:
  assumes "validate_entry env kv acc w = (Inr acc', w')"
  shows "map planned_app (desiredStates acc') = map planned_app (desiredStates acc) @ [wanted_app kv]"
proof -
  obtain name v where texts: "GetStringJsonValue (snd kv) ''pkgFamilyName'' = Inr name"
    "GetStringJsonValue (snd kv) ''version'' = Inr v"
    using assms by (auto simp: validate_entry_def cmd_simps split: sum.splits)
  note members = this [THEN GetString_member]
  let ?ds0 = "(AppDesiredState_new (fst kv))\<lparr>packageFamilyName := name\<rparr>"
  show ?thesis
  proof (cases "v = ''not installed''")
    case True
    with assms texts members show ?thesis
      by (auto simp: validate_entry_def cmd_simps push_state_def planned_app_def wanted_app_def AppDesiredState_new_def)
  next
    case False
    with assms texts obtain ds1 acc1 p ds2 where 1:
      "read_startup (snd kv) (?ds0\<lparr>appVersion := Version v\<rparr>) acc = Inr (ds1, acc1)"
      "read_sources (snd kv) (ds1\<lparr>appPackage := p, appAction := action_for p (appVersion ds1)\<rparr>) = Inr ds2"
      "acc' = push_state ds2 acc1"
      by (auto simp: validate_entry_def cmd_simps Let_def split: sum.splits prod.splits)
    have "\<not> foreground (?ds0\<lparr>appVersion := Version v\<rparr>)" by (simp add: foreground_def AppDesiredState_new_def)
    then have kept: "packageFamilyName ds1 = name" "desiredStates acc1 = desiredStates acc"
      using 1(1) by (auto simp: read_startup_def rbind_def split: sum.splits option.splits if_splits)
    have "startupType ds1 = wanted_startup (text_member (snd kv) ''startup'')" "packageFamilyId ds1 = fst kv"
      using read_startup_wanted [OF 1(1)] by (simp_all add: AppDesiredState_new_def)
    then show ?thesis
      using kept False members
      by (simp add: 1(3) push_state_def read_sources_wanted [OF 1(2)])
        (simp add: planned_app_def wanted_app_def action_for_keeps)
  qed
qed

lemma validate_entries_wanted:
  "validate_entries env kvs acc w = (Inr acc', w') \<Longrightarrow>
     map planned_app (desiredStates acc') = map planned_app (desiredStates acc) @ map wanted_app kvs"
proof (induction kvs arbitrary: acc w)
  case Nil
  then show ?case by (simp add: cmd_simps)
next
  case (Cons kv kvs)
  from Cons.prems(1) obtain acc1 w1 where "validate_entry env kv acc w = (Inr acc1, w1)"
    "validate_entries env kvs acc1 w1 = (Inr acc', w')"
    by (auto simp: cmd_simps split: prod.splits sum.splits)
  from Cons.IH [OF this(2)] validate_entry_wanted [OF this(1)] show ?case by simp
qed

lemma ReorderAndValidate_parts:
  assumes "ReorderAndValidate env desired w = (Inr states, w')"
  shows "\<exists>current w1 acc. validate_entries env (json_entries desired) validation_new w1 = (Inr acc, w') \<and>
    check_and_order current acc = Inr states"
proof (cases "GetStartupApp env w")
  case (Pair r w1)
  then show ?thesis
  proof (cases r)
    case (Inr current)
    with Pair assms show ?thesis
      by (cases "validate_entries env (json_entries desired) validation_new w1"; cases "fst (validate_entries env (json_entries desired) validation_new w1)")
        (auto simp: ReorderAndValidate_def cmd_simps)
  qed (use Pair assms in \<open>simp add: ReorderAndValidate_def cmd_simps\<close>)
qed

lemma mset_filter_length: "mset xs = mset ys \<Longrightarrow> length (filter P xs) = length (filter P ys)"
  by (metis mset_filter size_mset)

lemma check_and_order_first:
  assumes "check_and_order current acc = Inr states" and "foreground_listed acc"
    and "ds \<in> set states" "foreground ds"
    and "length (filter (\<lambda>a. packageFamilyName a = packageFamilyName ds) states) = 1"
  shows "hd states = ds"
proof -
  let ?rc = "desiredStates acc"
  note m = check_and_order_mset [OF assms(1)]
  from m assms(3) have in_rc: "ds \<in> set ?rc" by (metis mset_eq_setD)
  then obtain k where k: "k < length ?rc" "?rc ! k = ds" by (auto simp: in_set_conv_nth)
  have "ds \<in> set (filter foreground ?rc)" using in_rc assms(4) by simp
  moreover have "length (filter foreground ?rc) \<le> 1" using m assms(2) by (simp add: foreground_listed_def)
  ultimately have one: "filter foreground ?rc = [ds]" by (cases "filter foreground ?rc") auto
  then have f: "foreGroundStartupList acc = [packageFamilyName ds]" using assms(2) by (simp add: foreground_listed_def)
  have "length (filter (\<lambda>a. packageFamilyName a = packageFamilyName ds) ?rc) = 1"
    using assms(5) m mset_filter_length by metis
  from reorder_first [OF this k(1)] k(2) have head: "hd (reorder (packageFamilyName ds) ?rc) = ds" by simp
  have "hd ?rc = ds" if "startupType (?rc ! 0) = eForeground"
  proof -
    obtain a rest where rc: "?rc = a # rest" using k(1) by (cases ?rc) auto
    with that one show ?thesis by (auto simp: foreground_def)
  qed
  with head f assms(1) show ?thesis by (auto simp: check_and_order_def split: if_splits)
qed

text \<open>
  C35: a desired app list that passes the validation is worked through completely and with the
  new foreground app first: the ordered list holds one app for every entry, with the id, the
  family name, the removal and the start-up type the entry asks for; at most one of them is to be
  the foreground app; and that one, provided no other entry has its family name, is the head.
\<close>

theorem foreground_app_first:
  assumes "ReorderAndValidate env desired w = (Inr states, w')"
  shows "mset (map planned_app states) = mset (map wanted_app (json_entries desired)) \<and>
    length (filter foreground states) \<le> 1 \<and>
    (\<forall>ds \<in> set states. foreground ds \<longrightarrow>
       length (filter (\<lambda>a. packageFamilyName a = packageFamilyName ds) states) = 1 \<longrightarrow> hd states = ds)"
proof -
  obtain current w1 acc where parts: "validate_entries env (json_entries desired) validation_new w1 = (Inr acc, w')"
    "check_and_order current acc = Inr states"
    using ReorderAndValidate_parts [OF assms] by blast
  note m = check_and_order_mset [OF parts(2)]
  have listed: "foreground_listed acc"
    by (rule validate_entries_listed [OF parts(1)]) (simp add: foreground_listed_def validation_new_def)
  have "map planned_app (desiredStates acc) = map wanted_app (json_entries desired)"
    using validate_entries_wanted [OF parts(1)] by (simp add: validation_new_def)
  with m have "mset (map planned_app states) = mset (map wanted_app (json_entries desired))" by (metis mset_map)
  moreover have "length (filter foreground states) \<le> 1"
    using m listed mset_filter_length [of states "desiredStates acc" foreground] by (simp add: foreground_listed_def)
  ultimately show ?thesis using check_and_order_first [OF parts(2) listed] by blast
qed

text \<open>
  A desired app list that is refused changes no app: when the validation throws, nothing
  is installed, removed or switched, the operation \<open>apps\<close> records the error and the handler
  goes on with the state the queries of the validation have left.
\<close>

theorem refused_apps_change_nothing:
  assumes "TryGetJsonValue desired ''apps'' = Inr (Some v)"
    and "ReorderAndValidate env v (wld c) = (Inl e, w')" and "catchable e"
  shows "ModifyApplicationHandler env desired cs c =
    (Inr False, c\<lparr>wld := w', errs := AddError ''apps'' (reported_of ''apps'' e) (errs c)\<rparr>)"
  using assms by (simp add: ModifyApplicationHandler_def RunOperation_def cmd_simps on_world_def)

text \<open>
  The name of the start-up app is read off the answer of iotstartup.exe between the colon
  and the exclamation mark; an answer without a colon and of at least one character gives the
  text after its first character, and an empty answer throws.
\<close>

theorem startup_app_read:
  assumes "CHR '':'' \<notin> set label" and "CHR ''!'' \<notin> set label" and "CHR ''!'' \<notin> set name"
    and "length label + length name < 1000"
  shows "startup_app_of_output (label @ '': '' @ name @ ''!'' @ rest) = Inr name \<and>
    startup_app_of_output [] = Inl (StdException ''invalid string position'')"
proof
  let ?out = "label @ '': '' @ name @ ''!'' @ rest"
  let ?l = "length label" and ?n = "length name"
  have "find_from [CHR '':''] ?out = Some ?l" using find_from_first [OF assms(1), of "[]" "'' '' @ name @ ''!'' @ rest"] by simp
  then have s: "find_pos (CHR '':'') ?out = of_nat ?l" by (simp add: find_pos_def)
  have "CHR ''!'' \<notin> set (label @ '': '' @ name)" using assms(2,3) by auto
  from find_from_first [OF this, of "[]" rest] have "find_from ''!'' ?out = Some (?l + 2 + ?n)" by simp
  then have e: "find_pos (CHR ''!'') ?out = of_nat (?l + 2 + ?n)" by (simp add: find_pos_def)
  have start: "(of_nat ?l + 2 :: 64 word) = of_nat (?l + 2)" by simp
  have len: "(of_nat (?l + 2 + ?n) - of_nat (?l + 2) :: 64 word) = of_nat ?n" by simp
  have "unat (of_nat (?l + 2) :: 64 word) = ?l + 2" "unat (of_nat ?n :: 64 word) = ?n"
    using assms(4) by (simp_all only: unat_of_nat take_bit_nat_eq_self) (simp_all add: take_bit_nat_eq_self)
  then show "startup_app_of_output ?out = Inr name"
    unfolding startup_app_of_output_def Let_def s e start len substr_def by simp
  show "startup_app_of_output [] = Inl (StdException ''invalid string position'')"
    by (simp add: startup_app_of_output_def find_pos_def substr_def)
qed

definition sample_uwp :: "nat uwp_env" where
  "sample_uwp = \<lparr>ue_process = \<lparr>pr_CreatePipe = cret None, pr_SetHandleInformation = cret None,
       pr_CreateProcess = (\<lambda>cmd. cret (Inr (Exited (Some 0) (Chunk ''Headed   : Shell!App''))))\<rparr>,
     ue_ExpandEnvironment = cret (Inr (1, ''x'')), ue_FindPackages = cret [], ue_CreateEvent = cret None,
     ue_Impersonate = cret (), ue_AddPackage = (\<lambda>a ds. cseq (cmod Suc) (cret AsyncCompleted)),
     ue_RemovePackage = (\<lambda>p. cseq (cmod Suc) (cret AsyncCompleted)), ue_DownloadBlob = (\<lambda>c k b. cret []),
     ue_DmUserFolder = cret [], ue_WriteFile = (\<lambda>f d. cret ()), ue_uninit = 0\<rparr>"

definition sample_entry :: "string \<Rightarrow> string \<Rightarrow> json" where
  "sample_entry name startup = JObject [(''appxSource'', JString ''c''), (''pkgFamilyName'', JString name),
     (''startup'', JString startup), (''version'', JString ''1.0.0.0'')]"

lemmas entry_simps = validate_entry_def sample_entry_def GetStringJsonValue_def TryGetStringJsonValue_def
  TryGetBoolJsonValue_def TryGetJsonValue_member read_startup_def read_sources_def FindApp_def action_for_def
  push_state_def AppDesiredState_new_def

definition sample_state :: "string \<Rightarrow> string \<Rightarrow> StartupType \<Rightarrow> AppDesiredState" where
  "sample_state i name st = (AppDesiredState_new i)\<lparr>packageFamilyName := name, appVersion := Version ''1.0.0.0'',
     startupType := st, appAction := eInstall, appxSource := ''c''\<rparr>"

lemma sample_validate:
  "validate_entry sample_uwp (i, sample_entry name ''background'') acc w =
     (Inr (push_state (sample_state i name eBackground) acc), w)"
  "validate_entry sample_uwp (i, sample_entry name ''foreground'') acc w =
     (Inr (push_state (sample_state i name eForeground)
       (acc\<lparr>foreGroundStartupList := foreGroundStartupList acc @ [name]\<rparr>)), w)"
  by (simp_all add: entry_simps sample_state_def cmd_simps Let_def sample_uwp_def)

lemma sample_GetStartupApp: "GetStartupApp sample_uwp w = (Inr ''Shell'', w)"
proof -
  have out: "startup_app_of_output ''Headed   : Shell!App'' = Inr ''Shell''"
    by (simp add: startup_app_of_output_def find_pos_def substr_def Let_def)
  show ?thesis
    by (simp add: GetStartupApp_def IotStartupExePath_def Launch_def cmd_simps sample_uwp_def c_str_def out)
qed

theorem foreground_app_first_witness:
  "\<exists>states. ReorderAndValidate sample_uwp (JObject [(''a'', sample_entry ''A'' ''background''),
       (''b'', sample_entry ''B'' ''foreground'')]) 0 = (Inr states, 0) \<and>
     packageFamilyId (hd states) = ''b'' \<and> length states = 2"
proof -
  let ?d = "JObject [(''a'', sample_entry ''A'' ''background''), (''b'', sample_entry ''B'' ''foreground'')]"
  let ?ds = "sample_state ''b'' ''B'' eForeground"
  obtain states where r: "ReorderAndValidate sample_uwp ?d 0 = (Inr states, 0)"
    and states: "?ds \<in> set states" "length states = 2" "map packageFamilyName states = [''B'', ''A'']"
    by (simp add: ReorderAndValidate_def sample_GetStartupApp cbind_def cret_def clift_def sample_validate
      validation_new_def push_state_def check_and_order_def reorder_def reorder_step_def sample_state_def upt_rec)
  obtain a b where ab: "states = [a, b]" "packageFamilyName a = ''B''" "packageFamilyName b = ''A''"
    using states(3) by (auto simp: map_eq_Cons_conv)
  have "foreground ?ds" "packageFamilyName ?ds = ''B''" by (simp_all add: sample_state_def foreground_def)
  moreover have "length (filter (\<lambda>x. packageFamilyName x = packageFamilyName ?ds) states) = 1"
    using ab calculation(2) by simp
  ultimately have "hd states = ?ds" using foreground_app_first [OF r] states(1) by blast
  then show ?thesis using r states(2) by (simp add: sample_state_def AppDesiredState_new_def)
qed

definition sample_uwp_handler :: "nat UwpHandler" where
  "sample_uwp_handler = \<lparr>handlerId = ''uwpApps'', isConfigured = False, metaData = MetaData_new, iPluginHost = None,
     deploymentStatusJson = JNull, handlerConfig = JNull, reportedSchema = ReportedSchema_new ''raw'' ''dm'' InterfaceVersion,
     mdmServer = None, modifiedApps = [], uninstalledApps = []\<rparr>"

theorem refused_apps_change_nothing_witness:
  "\<exists>c'. ModifyApplicationHandler sample_uwp (JObject [(''apps'', JObject [(''a'', sample_entry ''A'' ''foreground''),
       (''b'', sample_entry ''B'' ''foreground'')])]) None (ctx_new sample_uwp_handler 0) = (Inr False, c') \<and>
     wld c' = 0 \<and> errs c' \<noteq> []"
proof -
  let ?v = "JObject [(''a'', sample_entry ''A'' ''foreground''), (''b'', sample_entry ''B'' ''foreground'')]"
  obtain acc where v: "validate_entries sample_uwp (json_entries ?v) validation_new 0 = (Inr acc, 0)"
    and fg: "length (foreGroundStartupList acc) = 2"
    by (simp add: cbind_def cret_def sample_validate validation_new_def push_state_def)
  have get: "TryGetJsonValue (JObject [(''apps'', ?v)]) ''apps'' = Inr (Some ?v)"
    by (simp add: TryGetJsonValue_member)
  let ?e = "DMExc DeviceAgent DM_SHELL_ERROR_INVALID_DESIRED_MULTIPLE_FOREGROUND_APPS
    ''Multiple foreground apps specified in desired configuration''"
  have refused: "ReorderAndValidate sample_uwp ?v (wld (ctx_new sample_uwp_handler 0)) = (Inl ?e, 0)"
    using v fg by (simp add: ReorderAndValidate_def cmd_simps sample_GetStartupApp check_and_order_def ctx_new_def)
  show ?thesis
    using refused_apps_change_nothing [OF get refused, of None] by (simp add: AddError_def ctx_new_def)
qed

theorem startup_app_read_witness:
  "startup_app_of_output ''Headed   : Shell!App'' = Inr ''Shell''"
  using startup_app_read [of "''Headed   ''" "''Shell''" "''App''"] by simp

end
