(* ===== verification/Diag_Logs.thy ===== *)
theory Diag_Logs
  imports Device_Plugins
begin

text \<open>
  DiagnosticLogsManagementPlugin: the handler of the event-tracing collectors and the direct
  methods on the log files.  The collectors live behind the MDM server, the reporting mode and
  the file names in the registry, the logs in folders below the data folder of the plug-ins.
\<close>

section \<open>Collectors\<close>

record ProviderConfiguration =
  pv_guid :: string
  pv_traceLevel :: string
  pv_keywords :: string
  pv_enabled :: bool

record CollectorCSPConfiguration =
  cc_traceLogFileMode :: string
  cc_logFileSizeLimitMB :: int
  cc_logFileFolderName :: string
  cc_logFileName :: string
  cc_started :: bool
  cc_providers :: "ProviderConfiguration list"

record CollectorConfiguration =
  co_name :: string
  co_subMetaData :: MetaData
  co_csp :: "CollectorCSPConfiguration option"

text \<open>
  What the handler can reach.  \<open>de_int\<close> and \<open>de_bool\<close> are what members hold that no
  constructor initialises.
\<close>

record 'w diag_env =
  de_registry :: "'w registry_api"
  de_fs :: "'w fs_api"
  de_xml :: xml_lite
  de_decode :: "string \<Rightarrow> int + string"
  de_int :: int
  de_bool :: bool

record 'w DiagnosticLogsHandler = "'w MdmHandlerBase" +
  dataFolder :: string

type_synonym ('w, 'z, 'a) diag_cmd = "((('w, 'z) DiagnosticLogsHandler_scheme, 'w) ctx, 'a) cmd"

definition DiagnosticLogsHandler_new :: "('w world_scheme, 'w world_scheme DiagnosticLogsHandler) cmd" where
  "DiagnosticLogsHandler_new =
     cbind (MdmHandlerBase_new ''eventTracingCollectors'' (ReportedSchema_new ''raw'' ''dm'' InterfaceVersion)) (\<lambda>hb.
     cret (MdmHandlerBase.extend hb (DiagnosticLogsHandler.fields [])))"

definition DiagnosticLogs_Start :: "json \<Rightarrow> ('w, 'z, bool) diag_cmd" where
  "DiagnosticLogs_Start config =
     cseq (SetConfig config) (
     cbind (clift (json_at config ''textLogFilesPath'')) (\<lambda>logFilesPath.
     cbind (clift (json_at config ''pluginsDataPath'')) (\<lambda>dataFilesPath.
     cbind (clift (asString dataFilesPath)) (\<lambda>folder.
     cseq (set_this (dataFolder_update (\<lambda>_. folder))) (cret True)))))"

text \<open>\<open>DateTime::GetFormattedCurrentDateTimeString\<close>.\<close>

definition formatted_now :: "('w world_scheme, string) cmd" where
  "formatted_now = (\<lambda>w.
     let t = times w (tick w)
     in (Inr (GetFormattedDateTimeString (unat (wYear t)) (unat (wMonth t)) (unat (wDay t))
          (unat (wHour t)) (unat (wMinute t)) (unat (wSecond t))), w\<lparr>tick := Suc (tick w)\<rparr>))"

definition CollectorsRootPath :: string where
  "CollectorsRootPath = ''./Vendor/MSFT/DiagnosticLog/EtwLog/Collectors''"

definition DataChannel :: string where
  "DataChannel = ''./Vendor/MSFT/DiagnosticLog/FileDownload/DMChannel''"

definition RegEventTracing :: "string \<Rightarrow> string" where
  "RegEventTracing name =
     ''Software'' @ [folder_sep] @ ''Microsoft'' @ [folder_sep] @ ''IoTDeviceAgent'' @ [folder_sep] @
     ''EventTracingConfiguration'' @ [folder_sep] @ name"

section \<open>Reading the collectors\<close>

text \<open>
  The locals of \<open>GetSubGroup\<close> beside the context: the collectors so far.  The map of the
  collectors encountered points to the same objects, one for each name.
\<close>

type_synonym ('w, 'z, 'a) collect_cmd =
  "((('w, 'z) DiagnosticLogsHandler_scheme, 'w) ctx \<times> CollectorConfiguration list, 'a) cmd"

definition on_ctx :: "('s, 'a) cmd \<Rightarrow> ('s \<times> 'l, 'a) cmd" where
  "on_ctx m = (\<lambda>(c, l). case m c of (r, c') \<Rightarrow> (r, (c', l)))"

definition on_collectors :: "('l \<Rightarrow> 'l) \<Rightarrow> ('s \<times> 'l, unit) cmd" where
  "on_collectors f = cmod (\<lambda>(c, l). (c, f l))"

definition new_collector :: "'w diag_env \<Rightarrow> string \<Rightarrow> string \<Rightarrow> ('w, CollectorConfiguration) cmd" where
  "new_collector env time name =
     (let path = RegEventTracing name; rg = de_registry env in
     cbind (ReadRegistryValueDefault rg path ''ReportToDeviceTwin'' ''detailed'') (\<lambda>mode.
     cbind (ReadRegistryValueDefault rg path ''LogFileFolder'' name) (\<lambda>folder.
     cbind (ReadRegistryValueDefault rg path ''LogFileName'' (name @ ''_'' @ time @ ''.etl'')) (\<lambda>file.
     cret \<lparr>co_name = name, co_subMetaData = MetaData_new\<lparr>reportingMode := c_str mode\<rparr>,
           co_csp = Some \<lparr>cc_traceLogFileMode = [], cc_logFileSizeLimitMB = de_int env,
             cc_logFileFolderName = c_str folder, cc_logFileName = c_str file, cc_started = de_bool env,
             cc_providers = []\<rparr>\<rparr>))))"

definition update_collector ::
    "string \<Rightarrow> (CollectorCSPConfiguration \<Rightarrow> CollectorCSPConfiguration) \<Rightarrow>
     CollectorConfiguration list \<Rightarrow> CollectorConfiguration list" where
  "update_collector name f =
     map (\<lambda>co. if co_name co = name then co\<lparr>co_csp := map_option f (co_csp co)\<rparr> else co)"

text \<open>The value of a collector's own setting.\<close>

definition collector_setting ::
    "string \<Rightarrow> string \<Rightarrow> (CollectorCSPConfiguration \<Rightarrow> CollectorCSPConfiguration) res" where
  "collector_setting setting val =
     (if setting = ''TraceStatus''
      then rbind (stoi val) (\<lambda>i. Inr (cc_started_update (\<lambda>_. i = 1)))
      else if setting = ''TraceLogFileMode''
      then rbind (stoi val) (\<lambda>i. Inr (cc_traceLogFileMode_update (\<lambda>_. if i = 1 then ''sequential'' else ''circular'')))
      else if setting = ''LogFileSizeLimitMB''
      then rbind (stoi val) (\<lambda>i. Inr (cc_logFileSizeLimitMB_update (\<lambda>_. i)))
      else Inr id)"

text \<open>The names of the trace levels 1 to 5.\<close>

definition level_of_value :: "string \<Rightarrow> string" where
  "level_of_value val =
     (if val = ''1'' then ''critical'' else if val = ''2'' then ''error'' else if val = ''3'' then ''warning''
      else if val = ''4'' then ''information'' else if val = ''5'' then ''verbose'' else [])"

definition provider_setting :: "string \<Rightarrow> string \<Rightarrow> ProviderConfiguration \<Rightarrow> ProviderConfiguration" where
  "provider_setting setting val =
     (if setting = ''TraceLevel'' then pv_traceLevel_update (\<lambda>_. level_of_value val)
      else if setting = ''Keywords'' then pv_keywords_update (\<lambda>_. c_str val)
      else if setting = ''State'' then pv_enabled_update (\<lambda>_. same_name (c_str val) ''True'')
      else id)"

text \<open>The provider of a guid, the last one that matches, or a new one behind the others.\<close>

definition ensure_provider :: "bool \<Rightarrow> string \<Rightarrow> ProviderConfiguration list \<Rightarrow> ProviderConfiguration list" where
  "ensure_provider uninit guid ps =
     (if \<exists>p \<in> set ps. same_name (pv_guid p) guid then ps
      else ps @ [\<lparr>pv_guid = guid, pv_traceLevel = [], pv_keywords = [], pv_enabled = uninit\<rparr>])"

fun update_last :: "('a \<Rightarrow> bool) \<Rightarrow> ('a \<Rightarrow> 'a) \<Rightarrow> 'a list \<Rightarrow> 'a list" where
  "update_last P f [] = []"
| "update_last P f (x # xs) =
     (if P x \<and> \<not> list_ex P xs then f x # xs else x # update_last P f xs)"

definition update_provider ::
    "bool \<Rightarrow> string \<Rightarrow> (ProviderConfiguration \<Rightarrow> ProviderConfiguration) \<Rightarrow>
     CollectorCSPConfiguration \<Rightarrow> CollectorCSPConfiguration" where
  "update_provider uninit guid f =
     cc_providers_update (\<lambda>ps. update_last (\<lambda>p. same_name (pv_guid p) guid) f (ensure_provider uninit guid ps))"

definition collector_item ::
    "'w diag_env \<Rightarrow> string \<Rightarrow> string list \<Rightarrow> string \<Rightarrow> ('w, 'z, unit) collect_cmd" where
  "collector_item env time uriTokens val =
     (if length uriTokens < 7 then cret () else
      let name = c_str (uriTokens ! 6); n = length uriTokens in
      cseq (cbind (cget snd) (\<lambda>l.
              if \<exists>co \<in> set l. co_name co = name then cret ()
              else cbind (on_ctx (on_world (new_collector env time name))) (\<lambda>co. on_collectors (\<lambda>l. l @ [co])))) (
      cseq (if n \<ge> 8
            then cbind (clift (collector_setting (c_str (uriTokens ! 7)) val)) (\<lambda>f. on_collectors (update_collector name f))
            else cret ())
           (if n \<ge> 9 \<and> c_str (uriTokens ! 7) = ''Providers''
            then on_collectors (update_collector name (update_provider (de_bool env) (c_str (uriTokens ! 8))
                   (if n \<ge> 10 then provider_setting (c_str (uriTokens ! 9)) val else id)))
            else cret ())))"

definition GetSubGroup ::
    "'w world_scheme diag_env \<Rightarrow> ('w world_scheme, 'z, CollectorConfiguration list) diag_cmd" where
  "GetSubGroup env =
     cbind (on_world formatted_now) (\<lambda>time.
     cbind (cget (mdmServer \<circ> this)) (\<lambda>mdm. \<lambda>c.
       case RunGetStructData (de_xml env) (on_ctx \<circ> on_world) mdm (CollectorsRootPath @ ''?list=StructData'')
              (collector_item env time) (c, []) of
         (r, (c', l)) \<Rightarrow> (case r of Inl e \<Rightarrow> (Inl e, c') | Inr u \<Rightarrow> (Inr l, c'))))"

section \<open>Writing the log of a stopped collector\<close>

definition read_block ::
    "'w diag_env \<Rightarrow> string \<Rightarrow> nat \<Rightarrow> ('w, 'z, string) diag_cmd" where
  "read_block env path i =
     cseq (mdm_call (\<lambda>m. RunSet_int m (path @ ''/BlockIndexToRead'') (int i))) (
     cbind (mdm_call (\<lambda>m. RunGetBase64 (de_xml env) m (path @ ''/BlockData''))) (\<lambda>blockData.
     clift (Base64ToBinary (de_decode env) blockData)))"

fun read_blocks ::
    "'w diag_env \<Rightarrow> string \<Rightarrow> nat list \<Rightarrow> ('w, 'z, string) diag_cmd" where
  "read_blocks env path [] = cret []"
| "read_blocks env path (i # is) =
     cbind (read_block env path i) (\<lambda>b. cbind (read_blocks env path is) (\<lambda>bs. cret (b @ bs)))"

definition write_etl ::
    "'w world_scheme diag_env \<Rightarrow> string \<Rightarrow> CollectorCSPConfiguration \<Rightarrow> string \<Rightarrow> ('w world_scheme, 'z, unit) diag_cmd" where
  "write_etl env name csp buffer =
     cbind (cget (dataFolder \<circ> this)) (\<lambda>root.
     let etlFolderName = root @ [folder_sep] @ cc_logFileFolderName csp in
     cseq (on_world (EnsureFolderExists (de_fs env) etlFolderName)) (
     cbind (if length (cc_logFileName csp) = 0
            then cbind (on_world formatted_now) (\<lambda>time. cret (name @ ''_'' @ time @ ''.etl''))
            else cret (cc_logFileName csp)) (\<lambda>etlFileName.
     on_world (fs_WriteFile (de_fs env) (c_str (etlFolderName @ [folder_sep] @ etlFileName)) buffer))))"

definition CreateEtlFile ::
    "'w world_scheme diag_env \<Rightarrow> string \<Rightarrow> CollectorCSPConfiguration \<Rightarrow> ('w world_scheme, 'z, unit) diag_cmd" where
  "CreateEtlFile env name csp =
     (let path = DataChannel @ ''/'' @ name in
     cbind (mdm_call (\<lambda>m. TryGetNumber (de_xml env) m (path @ ''/BlockCount'') 0)) (\<lambda>(found, blockCount).
     cbind (if found then read_blocks env path [0..<nat (sint blockCount)] else cret []) (write_etl env name csp)))"

section \<open>Applying a collector\<close>

definition strstr :: "string \<Rightarrow> string \<Rightarrow> bool" where
  "strstr s needle \<longleftrightarrow> find_from needle (c_str s) \<noteq> None"

definition bad_file_name :: "string \<Rightarrow> bool" where
  "bad_file_name s \<longleftrightarrow> strstr s ''..'' \<or> strstr s [folder_sep] \<or> strstr s ''/''"

definition invalid_diag_json :: "string \<Rightarrow> exn" where
  "invalid_diag_json m = DMExc DeviceAgentPlugin DM_ERROR_INVALID_JSON_FORMAT m"

text \<open>The folder name is filled in before both names are checked.\<close>

definition check_names :: "string \<Rightarrow> CollectorCSPConfiguration \<Rightarrow> CollectorCSPConfiguration res" where
  "check_names name csp =
     (let csp = (if length (cc_logFileFolderName csp) = 0 then csp\<lparr>cc_logFileFolderName := name\<rparr> else csp)
      in if bad_file_name (cc_logFileFolderName csp)
         then Inl (invalid_diag_json (''LogFileFolder cannot contain '' @ [CHR 0x27] @ ''/'' @ [CHR 0x27] @ '', '' @
                [CHR 0x27, folder_sep, CHR 0x27] @ '', or '' @ [CHR 0x27] @ ''..'' @ [CHR 0x27] @ ''.''))
         else if length (cc_logFileName csp) \<noteq> 0 \<and> bad_file_name (cc_logFileName csp)
         then Inl (invalid_diag_json (''LogFileName cannot contain '' @ [CHR 0x27] @ ''/'' @ [CHR 0x27] @ '', '' @
                [CHR 0x27, folder_sep, CHR 0x27] @ '', or '' @ [CHR 0x27] @ ''..'' @ [CHR 0x27] @ ''.''))
         else Inr csp)"

definition level_number :: "string \<Rightarrow> int" where
  "level_number s =
     (if same_name s ''critical'' then 1 else if same_name s ''error'' then 2 else if same_name s ''warning'' then 3
      else if same_name s ''information'' then 4 else if same_name s ''verbose'' then 5 else 0)"

definition apply_provider ::
    "string \<Rightarrow> string \<Rightarrow> ProviderConfiguration \<Rightarrow> ('w, 'z, unit) diag_cmd" where
  "apply_provider collectorCSPPath providersString p =
     (let path = collectorCSPPath @ ''/Providers/'' @ pv_guid p in
     cseq (if find_from (pv_guid p) providersString = None then mdm_call (\<lambda>m. RunAddTyped m path ''node'') else cret ()) (
     cseq (mdm_call (\<lambda>m. RunSet_bool m (path @ ''/State'') (pv_enabled p))) (
     cseq (mdm_call (\<lambda>m. RunSet_string m (path @ ''/Keywords'') (pv_keywords p)))
          (mdm_call (\<lambda>m. RunSet_int m (path @ ''/TraceLevel'') (level_number (pv_traceLevel p)))))))"

definition start_or_stop ::
    "'w world_scheme diag_env \<Rightarrow> string \<Rightarrow> string \<Rightarrow> CollectorCSPConfiguration \<Rightarrow> ('w world_scheme, 'z, unit) diag_cmd" where
  "start_or_stop env collectorCSPPath name csp =
     cbind (mdm_call (\<lambda>m. RunGetUInt (de_xml env) m (collectorCSPPath @ ''/TraceStatus''))) (\<lambda>traceStatus.
     if cc_started csp
     then if traceStatus = 0
          then mdm_call (\<lambda>m. RunExecWithParameters m (collectorCSPPath @ ''/TraceControl'') ''START'')
          else cret ()
     else if traceStatus = 1
          then cseq (mdm_call (\<lambda>m. RunExecWithParameters m (collectorCSPPath @ ''/TraceControl'') ''STOP''))
                    (CreateEtlFile env name csp)
          else cret ())"

definition configure_collector ::
    "'w world_scheme diag_env \<Rightarrow> string \<Rightarrow> CollectorCSPConfiguration \<Rightarrow> ('w world_scheme, 'z, unit) diag_cmd" where
  "configure_collector env name csp =
     (let collectorCSPPath = CollectorsRootPath @ ''/'' @ name; key = RegEventTracing (c_str name); rg = de_registry env in
     cbind (mdm_call (\<lambda>m. RunGetString (de_xml env) m CollectorsRootPath)) (\<lambda>collectorString.
     cseq (if find_from name collectorString = None then mdm_call (\<lambda>m. RunAdd m CollectorsRootPath name) else cret ()) (
     cseq (on_world (WriteRegistryValue rg key ''LogFileFolder'' (c_str (cc_logFileFolderName csp)))) (
     cseq (on_world (WriteRegistryValue rg key ''LogFileName'' (c_str (cc_logFileName csp)))) (
     cseq (mdm_call (\<lambda>m. RunSet_int m (collectorCSPPath @ ''/LogFileSizeLimitMB'') (cc_logFileSizeLimitMB csp))) (
     cseq (mdm_call (\<lambda>m. RunSet_int m (collectorCSPPath @ ''/TraceLogFileMode'')
             (if cc_traceLogFileMode csp = ''sequential'' then 1 else 2))) (
     cbind (mdm_call (\<lambda>m. RunGetString (de_xml env) m (collectorCSPPath @ ''/Providers''))) (\<lambda>providersString.
     cseq (cfor (apply_provider collectorCSPPath providersString) (cc_providers csp))
          (start_or_stop env collectorCSPPath name csp)))))))))"

definition apply_collector ::
    "'w world_scheme diag_env \<Rightarrow> CollectorConfiguration \<Rightarrow> ('w world_scheme, 'z, unit) diag_cmd" where
  "apply_collector env co =
     cseq (on_world (WriteRegistryValue (de_registry env) (RegEventTracing (c_str (co_name co))) ''ReportToDeviceTwin''
             (c_str (reportingMode (co_subMetaData co)))))
       (case co_csp co of
          None \<Rightarrow> cret ()
        | Some csp \<Rightarrow> cbind (clift (check_names (co_name co) csp)) (configure_collector env (co_name co)))"

definition ApplyCollectorConfiguration ::
    "'w world_scheme diag_env \<Rightarrow> CollectorConfiguration \<Rightarrow> ('w world_scheme, 'z, bool) diag_cmd" where
  "ApplyCollectorConfiguration env co =
     cbind (cget (handlerId \<circ> this)) (\<lambda>i. RunOperation i (apply_collector env co))"

section \<open>The desired collectors\<close>

definition read_provider :: "string \<times> json \<Rightarrow> ProviderConfiguration res" where
  "read_provider entry =
     (case entry of (guid, provider) \<Rightarrow>
     rbind (TryGetBoolJsonValue provider ''enabled'') (\<lambda>enabled.
     rbind (TryGetStringJsonValue provider ''traceLevel'') (\<lambda>traceLevel.
     rbind (TryGetStringJsonValue provider ''keywords'') (\<lambda>keywords.
     case (enabled, traceLevel) of
       (Some b, Some t) \<Rightarrow>
         Inr \<lparr>pv_guid = guid, pv_traceLevel = t,
              pv_keywords = (case keywords of None \<Rightarrow> [] | Some k \<Rightarrow> k), pv_enabled = b\<rparr>
     | _ \<Rightarrow> Inl (invalid_diag_json ''Missing provider properties in JSON'')))))"

text \<open>
  The collector of an entry, \<open>None\<close> for the metadata.  Of the required members all or none
  are given; \<open>logFileSizeLimitMB\<close> that is not given is the uninitialised value \<open>uninit\<close>.
\<close>

definition read_collector :: "int \<Rightarrow> string \<times> json \<Rightarrow> CollectorConfiguration option res" where
  "read_collector uninit entry =
     (case entry of (collectorName, v) \<Rightarrow>
     if collectorName = ''__meta'' then Inr None else
     rbind (TryGetStringJsonValue v ''traceLogFileMode'') (\<lambda>traceLogFileMode.
     rbind (TryGetStringJsonValue v ''logFileFolder'') (\<lambda>logFileFolderName.
     rbind (TryGetStringJsonValue v ''logFileName'') (\<lambda>logFileName.
     rbind (TryGetIntJsonValue v ''logFileSizeLimitMB'') (\<lambda>logFileSizeLimitMB.
     rbind (TryGetBoolJsonValue v ''started'') (\<lambda>started.
     rbind (TryGetJsonValue v ''providers'') (\<lambda>providers.
     let submeta = (\<lambda>f. case FromJsonParentObjectSubMeta v MetaData_new of
           (r, md) \<Rightarrow> rbind r (\<lambda>_. f md)) in
     case (logFileFolderName, logFileName, started, providers) of
       (None, None, None, None) \<Rightarrow>
         submeta (\<lambda>md. Inr (Some \<lparr>co_name = collectorName, co_subMetaData = md, co_csp = None\<rparr>))
     | (Some folder, Some file, Some st, Some ps) \<Rightarrow>
         submeta (\<lambda>md. rbind (rmap read_provider (json_entries ps)) (\<lambda>providersConfigList.
           Inr (Some \<lparr>co_name = collectorName, co_subMetaData = md,
             co_csp = Some \<lparr>cc_traceLogFileMode = (case traceLogFileMode of None \<Rightarrow> [] | Some t \<Rightarrow> t),
               cc_logFileSizeLimitMB = (case logFileSizeLimitMB of None \<Rightarrow> uninit | Some i \<Rightarrow> i),
               cc_logFileFolderName = folder, cc_logFileName = file, cc_started = st,
               cc_providers = providersConfigList\<rparr>\<rparr>)))
     | _ \<Rightarrow> Inl (invalid_diag_json ''Missing collector fields''))))))))"

text \<open>
  The first loop of \<open>SetSubGroup\<close>: each entry is read under its own \<open>RunOperation\<close>, so one that
  cannot be read is recorded and left out.
\<close>

fun read_collectors ::
    "int \<Rightarrow> string \<Rightarrow> (string \<times> json) list \<Rightarrow> (('h, 'w) ctx, CollectorConfiguration list) cmd" where
  "read_collectors uninit i [] = cret []"
| "read_collectors uninit i (e # es) =
     (let r = read_collector uninit e in
     cseq (RunOperation i (cseq (clift r) (cret ()))) (
     cbind (read_collectors uninit i es) (\<lambda>cs.
     cret ((case r of Inr (Some co) \<Rightarrow> [co] | _ \<Rightarrow> []) @ cs))))"

definition SetSubGroup ::
    "'w world_scheme diag_env \<Rightarrow> json \<Rightarrow> ('w world_scheme, 'z, string list) diag_cmd" where
  "SetSubGroup env desiredConfig =
     cbind (cget (handlerId \<circ> this)) (\<lambda>i.
     cbind (read_collectors (de_int env) i (json_entries desiredConfig)) (\<lambda>collectorConfigurations.
     cseq (cfor (\<lambda>co. cseq (ApplyCollectorConfiguration env co) (cret ())) collectorConfigurations)
          (cret (map co_name collectorConfigurations))))"

section \<open>The report\<close>

definition provider_object :: "ProviderConfiguration \<Rightarrow> json" where
  "provider_object p =
     jput ''traceLevel'' (JString (pv_traceLevel p)) (jput ''keywords'' (JString (pv_keywords p))
       (jput ''enabled'' (JBool (pv_enabled p)) JNull))"

definition collector_object :: "CollectorCSPConfiguration \<Rightarrow> json" where
  "collector_object csp =
     (let o1 = jput ''traceLogFileMode'' (JString (cc_traceLogFileMode csp)) JNull;
          o2 = jput ''logFileSizeLimitMB'' (JInt (cc_logFileSizeLimitMB csp)) o1;
          o3 = jput ''logFileFolder'' (JString (cc_logFileFolderName csp)) o2;
          o4 = jput ''logFileName'' (JString (cc_logFileName csp)) o3;
          o5 = jput ''started'' (JBool (cc_started csp)) o4
      in if cc_providers csp = [] then o5
         else jput ''providers'' (foldl (\<lambda>acc p. jput (pv_guid p) (provider_object p) acc) JNull (cc_providers csp)) o5)"

definition report_collector :: "string list \<Rightarrow> json \<Rightarrow> CollectorConfiguration \<Rightarrow> json" where
  "report_collector configuredCollectors acc co =
     (if co_name co \<notin> set configuredCollectors then acc
      else if reportingMode (co_subMetaData co) = ''detailed''
      then (case co_csp co of None \<Rightarrow> acc | Some csp \<Rightarrow> jput (co_name co) (collector_object csp) acc)
      else if reportingMode (co_subMetaData co) = ''minimal'' then jput (co_name co) (JString []) acc
      else acc)"

definition DiagnosticLogs_BuildReported ::
    "'w world_scheme diag_env \<Rightarrow> string list \<Rightarrow> ('w world_scheme, 'z, unit) diag_cmd" where
  "DiagnosticLogs_BuildReported env configuredCollectors =
     cbind (GetSubGroup env) (\<lambda>collectorResponseList.
     cmod (reported_update (\<lambda>_. foldl (report_collector configuredCollectors) JNull collectorResponseList)))"

definition DiagnosticLogs_action ::
    "'w world_scheme diag_env \<Rightarrow> json \<Rightarrow> ('w world_scheme, 'z, unit) diag_cmd" where
  "DiagnosticLogs_action env desired =
     cbind (clift (IsRefreshing desired)) (\<lambda>refreshing.
       if refreshing then cret ()
       else cseq (on_meta (FromJsonParentObject desired)) (cseq ReportRefreshing (
         check_version InterfaceVersion (
           cbind (SetSubGroup env desired) (\<lambda>configuredCollectors.
           cseq (DiagnosticLogs_BuildReported env configuredCollectors) (set_device_version InterfaceVersion))))))"

definition DiagnosticLogs_Invoke ::
    "'w world_scheme diag_env \<Rightarrow> json \<Rightarrow> ('w world_scheme, 'z, InvokeResult) diag_cmd" where
  "DiagnosticLogs_Invoke env desired =
     Invoke_reporting (DiagnosticLogs_action env desired) (cget (desired_state_result desired))"

section \<open>The direct methods on log files\<close>

record 'w LogFileHandler = "'w HandlerBase" +
  lf_dataFolder :: string

type_synonym ('w, 'z, 'a) log_cmd = "((('w, 'z) LogFileHandler_scheme, 'w) ctx, 'a) cmd"

definition LogFileHandler_new :: "string \<Rightarrow> ('w world_scheme, 'w world_scheme LogFileHandler) cmd" where
  "LogFileHandler_new i =
     cbind (HandlerBase_new i (ReportedSchema_new ''raw'' ''dm'' InterfaceVersion)) (\<lambda>hb.
     cret (HandlerBase.extend hb (LogFileHandler.fields [])))"

definition LogFile_Start :: "json \<Rightarrow> ('w, 'z, bool) log_cmd" where
  "LogFile_Start config =
     cseq (SetConfig config) (
     cbind (clift (json_at config ''textLogFilesPath'')) (\<lambda>logFilesPath.
     cbind (clift (json_at config ''pluginsDataPath'')) (\<lambda>dataFilesPath.
     cbind (clift (asString dataFilesPath)) (\<lambda>folder.
     cseq (set_this (lf_dataFolder_update (\<lambda>_. folder))) (cret True)))))"

text \<open>The body the four methods share: the metadata, then under a supported version the work.\<close>

definition LogFile_action ::
    "(json \<Rightarrow> ('w world_scheme, 'z, unit) log_cmd) \<Rightarrow> json \<Rightarrow> ('w world_scheme, 'z, unit) log_cmd" where
  "LogFile_action work jsonParameters =
     cseq (on_meta (FromJsonParentObject jsonParameters)) (
     check_version InterfaceVersion (cseq (work jsonParameters) (set_device_version InterfaceVersion)))"

definition DeleteLogFile_work ::
    "'w world_scheme fs_api \<Rightarrow> json \<Rightarrow> ('w world_scheme, 'z, unit) log_cmd" where
  "DeleteLogFile_work fs jsonParameters =
     cbind (clift (GetStringJsonValue jsonParameters ''folderName'')) (\<lambda>folderName.
     cbind (clift (GetStringJsonValue jsonParameters ''fileName'')) (\<lambda>fileName.
     cbind (cget (lf_dataFolder \<circ> this)) (\<lambda>root.
     let fullFileName = root @ [folder_sep] @ folderName @ [folder_sep] @ fileName in
     cbind (on_world (fs_GetFileAttributes fs (c_str fullFileName))) (\<lambda>pathType.
       if pathType = INVALID_FILE_ATTRIBUTES then on_world (throw_last_error ''Incorrect file path.'')
       else cbind (on_world (fs_DeleteFile fs (c_str fullFileName))) (\<lambda>ok. cret ())))))"

definition DeleteLogFile_Invoke ::
    "'w world_scheme fs_api \<Rightarrow> json \<Rightarrow> ('w world_scheme, 'z, InvokeResult) log_cmd" where
  "DeleteLogFile_Invoke fs jsonParameters =
     Invoke_silent (LogFile_action (DeleteLogFile_work fs) jsonParameters) (cget (direct_method_result jsonParameters))"

definition put_list :: "string list \<Rightarrow> (('h, 'w) ctx, unit) cmd" where
  "put_list names = report_put ''list'' (JArray (map JString names))"

definition EnumerateLogFiles_work ::
    "'w world_scheme fs_api \<Rightarrow> json \<Rightarrow> ('w world_scheme, 'z, unit) log_cmd" where
  "EnumerateLogFiles_work fs jsonParameters =
     cbind (clift (GetStringJsonValue jsonParameters ''folderName'')) (\<lambda>folderName.
     cbind (cget (lf_dataFolder \<circ> this)) (\<lambda>root.
     cbind (on_world (GetFileSystemObjectNames fs (c_str (root @ [folder_sep] @ folderName)) regular)) put_list))"

definition EnumerateLogFolders_work ::
    "'w world_scheme fs_api \<Rightarrow> json \<Rightarrow> ('w world_scheme, 'z, unit) log_cmd" where
  "EnumerateLogFolders_work fs jsonParameters =
     cbind (cget (lf_dataFolder \<circ> this)) (\<lambda>root.
     cbind (on_world (GetFileSystemObjectNames fs (c_str (root @ [folder_sep])) directory)) put_list)"

definition EnumerateLogFiles_Invoke ::
    "'w world_scheme fs_api \<Rightarrow> json \<Rightarrow> ('w world_scheme, 'z, InvokeResult) log_cmd" where
  "EnumerateLogFiles_Invoke fs jsonParameters =
     Invoke_silent (LogFile_action (EnumerateLogFiles_work fs) jsonParameters) (cget (list_method_result jsonParameters))"

definition EnumerateLogFolders_Invoke ::
    "'w world_scheme fs_api \<Rightarrow> json \<Rightarrow> ('w world_scheme, 'z, InvokeResult) log_cmd" where
  "EnumerateLogFolders_Invoke fs jsonParameters =
     Invoke_silent (LogFile_action (EnumerateLogFolders_work fs) jsonParameters) (cget (list_method_result jsonParameters))"

text \<open>The calls of the Azure storage library an upload makes; each may throw.\<close>

record ('w, 'a) storage_api =
  st_parse :: "string \<Rightarrow> ('w, 'a) cmd"
  st_create_if_not_exists :: "'a \<Rightarrow> string \<Rightarrow> ('w, unit) cmd"
  st_open_istream :: "string \<Rightarrow> ('w, string) cmd"
  st_upload :: "'a \<Rightarrow> string \<Rightarrow> string \<Rightarrow> string \<Rightarrow> ('w, unit) cmd"

definition UploadLogFile_work ::
    "('w world_scheme, 'a) storage_api \<Rightarrow> json \<Rightarrow> ('w world_scheme, 'z, unit) log_cmd" where
  "UploadLogFile_work st jsonParameters =
     cbind (clift (GetStringJsonValue jsonParameters ''folderName'')) (\<lambda>folderName.
     cbind (clift (GetStringJsonValue jsonParameters ''fileName'')) (\<lambda>fileName.
     cbind (clift (GetStringJsonValue jsonParameters ''connectionString'')) (\<lambda>connectionString.
     cbind (clift (GetStringJsonValue jsonParameters ''container'')) (\<lambda>containerName.
     cbind (cget (lf_dataFolder \<circ> this)) (\<lambda>root.
     cbind (on_world (st_parse st (c_str connectionString))) (\<lambda>storageAccount.
     cseq (on_world (st_create_if_not_exists st storageAccount (c_str containerName))) (
     cbind (on_world (st_open_istream st (c_str (root @ [folder_sep] @ folderName @ [folder_sep] @ fileName)))) (\<lambda>bytes.
     on_world (st_upload st storageAccount (c_str containerName) (c_str fileName) bytes)))))))))"

definition UploadLogFile_Invoke ::
    "('w world_scheme, 'a) storage_api \<Rightarrow> json \<Rightarrow> ('w world_scheme, 'z, InvokeResult) log_cmd" where
  "UploadLogFile_Invoke st jsonParameters =
     Invoke_silent (LogFile_action (UploadLogFile_work st) jsonParameters) (cget (direct_method_result jsonParameters))"

section \<open>The handler keeps the contract of its base class\<close>

lemma preserves_struct_loop:
  assumes "\<And>ts v. preserves I (handler ts v)"
  shows "preserves I (struct_loop handler ns l)"
proof (induction ns arbitrary: l)
  case (Cons n ns)
  have "preserves I (struct_node handler n l)"
    by (cases n) (auto simp: struct_close_def Let_def intro!: preserves_intros assms)
  then show ?case using Cons by (auto intro!: preserves_intros)
qed (auto intro: preserves_intros)

lemma preserves_ReadXmlStructData:
  "(\<And>ts v. preserves I (handler ts v)) \<Longrightarrow> preserves I (ReadXmlStructData xl text handler)"
  unfolding ReadXmlStructData_def by (intro preserves_intros preserves_struct_loop)

text \<open>An invariant that does not look at the world.\<close>

definition world_free :: "(('h, 'w) ctx \<Rightarrow> bool) \<Rightarrow> bool" where
  "world_free I \<longleftrightarrow> (\<forall>c w. I c \<longrightarrow> I (c\<lparr>wld := w\<rparr>))"

lemma preserves_world_free: "world_free I \<Longrightarrow> preserves I (on_world m)"
  by (auto simp: preserves_def world_free_def on_world_def split: prod.splits)

lemma world_free_handler_inv: "world_free (handler_inv i h)"
  by (simp add: world_free_def handler_inv_def)

lemma preserves_on_ctx: "preserves I m \<Longrightarrow> preserves (\<lambda>s. I (fst s)) (on_ctx m)"
  by (auto simp: preserves_def on_ctx_def split: prod.splits)

lemma preserves_on_collectors: "preserves (\<lambda>s. I (fst s)) (on_collectors f)"
  by (auto simp: preserves_def on_collectors_def cmd_simps)

lemma preserves_collector_item:
  assumes "world_free I"
  shows "preserves (\<lambda>s. I (fst s)) (collector_item env time ts v)"
  unfolding collector_item_def Let_def
  by (intro preserves_intros preserves_on_ctx preserves_on_collectors preserves_world_free [OF assms])

lemma preserves_RunGetStructData:
  assumes "world_free I"
  shows "preserves (\<lambda>s. I (fst s)) (RunGetStructData xl (on_ctx \<circ> on_world) mdm path (collector_item env time))"
  unfolding RunGetStructData_def o_def
  by (intro preserves_intros preserves_on_ctx preserves_ReadXmlStructData preserves_collector_item
      preserves_world_free [OF assms] assms)

lemma preserves_GetSubGroup:
  assumes "world_free I"
  shows "preserves I (GetSubGroup env)"
proof -
  have "preserves I (\<lambda>c. case RunGetStructData xl (on_ctx \<circ> on_world) mdm path (collector_item env time) (c, []) of
      (r, (c', l)) \<Rightarrow> (case r of Inl e \<Rightarrow> (Inl e, c') | Inr u \<Rightarrow> (Inr l, c')))" for xl mdm path time
  proof (rule preservesI)
    fix c assume "I c"
    with preservesD [OF preserves_RunGetStructData [OF assms, of xl mdm path env time], of "(c, [])"]
    show "I (snd (case RunGetStructData xl (on_ctx \<circ> on_world) mdm path (collector_item env time) (c, []) of
        (r, (c', l)) \<Rightarrow> (case r of Inl e \<Rightarrow> (Inl e, c') | Inr u \<Rightarrow> (Inr l, c'))))"
      by (auto split: prod.splits sum.splits)
  qed
  then show ?thesis unfolding GetSubGroup_def by (intro preserves_intros preserves_world_free [OF assms])
qed

lemma preserves_mdm_free: "world_free I \<Longrightarrow> preserves I (mdm_call f)"
  unfolding mdm_call_def by (intro preserves_intros preserves_world_free)

lemma preserves_split: "(\<And>a b. preserves I (f a b)) \<Longrightarrow> preserves I (case p of (a, b) \<Rightarrow> f a b)"
  by (cases p) simp

lemmas free_intros = preserves_intros preserves_world_free preserves_mdm_free preserves_split

lemma preserves_read_blocks: "world_free I \<Longrightarrow> preserves I (read_blocks env path is)"
  by (induction "is") (auto simp: read_block_def intro!: free_intros)

lemma preserves_CreateEtlFile: "world_free I \<Longrightarrow> preserves I (CreateEtlFile env name csp)"
  unfolding CreateEtlFile_def write_etl_def Let_def by (intro free_intros preserves_read_blocks)

lemma preserves_apply_provider: "world_free I \<Longrightarrow> preserves I (apply_provider path ps p)"
  unfolding apply_provider_def Let_def by (intro free_intros)

lemma preserves_start_or_stop: "world_free I \<Longrightarrow> preserves I (start_or_stop env path name csp)"
  unfolding start_or_stop_def by (intro free_intros preserves_CreateEtlFile)

lemma preserves_apply_collector: "world_free I \<Longrightarrow> preserves I (apply_collector env co)"
  unfolding apply_collector_def configure_collector_def Let_def
  by (intro free_intros preserves_apply_provider preserves_start_or_stop)

lemma preserves_read_collectors: "preserves (handler_inv i h) (read_collectors uninit g es)"
  by (induction es) (auto simp: Let_def intro!: preserves_intros)

lemma preserves_SetSubGroup: "preserves (handler_inv i h) (SetSubGroup env desired)"
  unfolding SetSubGroup_def ApplyCollectorConfiguration_def
  by (intro preserves_intros preserves_read_collectors preserves_apply_collector world_free_handler_inv)

lemma takes_members_report:
  "takes_members acc \<Longrightarrow> takes_members (report_collector names acc co)"
  by (auto simp: report_collector_def takes_members_def isObject_iff split: option.split)

lemma preserves_DiagnosticLogs_BuildReported:
  "preserves (handler_inv i h) (DiagnosticLogs_BuildReported env names)"
proof -
  have "takes_members (foldl (report_collector names) acc l)" if "takes_members acc" for acc l
    using that by (induction l arbitrary: acc) (simp_all add: takes_members_report)
  then show ?thesis
    unfolding DiagnosticLogs_BuildReported_def
    by (intro preserves_intros preserves_GetSubGroup world_free_handler_inv) (simp add: handler_inv_def)
qed

interpretation diagLogs: raw_handler
  "DiagnosticLogs_action env :: json \<Rightarrow> ('w world_scheme, 'z, unit) diag_cmd"
  desired_state_result "DiagnosticLogs_Invoke env" for env
proof unfold_locales
  show "DiagnosticLogs_Invoke env p = Invoke_reporting (DiagnosticLogs_action env p) (cget (desired_state_result p))"
    for env :: "'w world_scheme diag_env" and p by (simp add: DiagnosticLogs_Invoke_def)
  show "preserves (handler_inv i h) (DiagnosticLogs_action env p :: ('w world_scheme, 'z, unit) diag_cmd)" for i h env p
    unfolding DiagnosticLogs_action_def
    by (intro preserves_intros preserves_SetSubGroup preserves_DiagnosticLogs_BuildReported)
qed

section \<open>Where the logs go\<close>

definition plain_name :: "string \<Rightarrow> bool" where
  "plain_name s \<longleftrightarrow> folder_sep \<notin> set s \<and> CHR ''/'' \<notin> set s \<and> find_from ''..'' s = None"

text \<open>A path of one or two plain names below a folder.\<close>

definition inside :: "string \<Rightarrow> string \<Rightarrow> bool" where
  "inside root p \<longleftrightarrow>
     take (Suc (length root)) p = root @ [folder_sep] \<and>
     (let r = drop (Suc (length root)) p;
          rest = dropWhile (\<lambda>x. x \<noteq> folder_sep) r
      in plain_name (takeWhile (\<lambda>x. x \<noteq> folder_sep) r) \<and> (rest = [] \<or> plain_name (tl rest)))"

text \<open>A file system that ends the process when a file is written elsewhere.\<close>

definition guarded :: "string \<Rightarrow> 'w fs_api \<Rightarrow> 'w fs_api" where
  "guarded root fs = fs\<lparr>fs_WriteFile := \<lambda>p bytes. if inside root p then fs_WriteFile fs p bytes else cthrow Terminate\<rparr>"

lemma find_from_char: "find_from [x] s = None \<longleftrightarrow> x \<notin> set s"
  by (induction s) auto

lemma good_file_name: "\<not> bad_file_name s \<Longrightarrow> plain_name (c_str s)"
  by (auto simp: bad_file_name_def strstr_def plain_name_def find_from_char)

lemma inside_names:
  assumes "plain_name f" and "plain_name g"
  shows "inside root (root @ [folder_sep] @ f @ [folder_sep] @ g)" "inside root (root @ [folder_sep] @ f)"
proof -
  have f: "folder_sep \<notin> set f" using assms(1) by (simp add: plain_name_def)
  then have [simp]: "takeWhile (\<lambda>x. x \<noteq> folder_sep) f = f" by (simp add: takeWhile_eq_all_conv) metis
  from f have "dropWhile (\<lambda>x. x \<noteq> folder_sep) f = []"
    "takeWhile (\<lambda>x. x \<noteq> folder_sep) (f @ [folder_sep] @ g) = f"
    "dropWhile (\<lambda>x. x \<noteq> folder_sep) (f @ [folder_sep] @ g) = [folder_sep] @ g"
    by (auto simp: dropWhile_eq_Nil_conv takeWhile_append dropWhile_append)
  then show "inside root (root @ [folder_sep] @ f @ [folder_sep] @ g)" "inside root (root @ [folder_sep] @ f)"
    using assms by (simp_all add: inside_def Let_def)
qed

lemma inside_c_str:
  assumes "CHR 0x00 \<notin> set root" and "plain_name (c_str f)" and "plain_name (c_str g)"
  shows "inside root (c_str (root @ [folder_sep] @ f @ [folder_sep] @ g))"
proof -
  have [simp]: "c_str [folder_sep] = [folder_sep]" "folder_sep \<noteq> CHR 0x00" "CHR 0x00 \<noteq> folder_sep"
    by (simp_all add: c_str_def folder_sep_def)
  show ?thesis
  proof (cases "CHR 0x00 \<in> set f")
    case True
    then have "c_str (root @ [folder_sep] @ f @ [folder_sep] @ g) = root @ [folder_sep] @ c_str f"
      using assms(1) by (simp add: c_str_append del: append_Cons append_Nil append.simps)
    then show ?thesis using inside_names(2) [OF assms(2,2)] by simp
  next
    case False
    then have f: "c_str f = f" by (rule c_str_clean)
    with False have "c_str (root @ [folder_sep] @ f @ [folder_sep] @ g) = root @ [folder_sep] @ f @ [folder_sep] @ c_str g"
      using assms(1) by (simp add: c_str_append del: append_Cons append_Nil append.simps)
    then show ?thesis using inside_names(1) [of f "c_str g"] assms(2,3) f by simp
  qed
qed

lemma cbind_cong_inv:
  assumes "preserves I m" and "I c" and "\<And>x c'. I c' \<Longrightarrow> f x c' = g x c'"
  shows "cbind m f c = cbind m g c"
  using preservesD [OF assms(1,2)] assms(3) by (auto simp: cbind_def split: prod.splits sum.splits)

lemma cseq_cong_inv:
  "preserves I m \<Longrightarrow> I c \<Longrightarrow> (\<And>c'. I c' \<Longrightarrow> f c' = g c') \<Longrightarrow> cseq m f c = cseq m g c"
  unfolding cseq_def by (rule cbind_cong_inv)

lemma guarded_folders:
  "create_folder (guarded root fs) p = create_folder fs p"
  "ensure_below (guarded root fs) p ts = ensure_below fs p ts"
  "EnsureFolderExists (guarded root fs) p = EnsureFolderExists fs p"
proof -
  show cf: "create_folder (guarded root fs) p = create_folder fs p" for p by (simp add: create_folder_def guarded_def)
  show eb: "ensure_below (guarded root fs) p ts = ensure_below fs p ts" for p ts
    by (induction ts arbitrary: p) (simp_all add: cf)
  show "EnsureFolderExists (guarded root fs) p = EnsureFolderExists fs p"
    by (simp add: EnsureFolderExists_def eb split: list.splits)
qed

lemma read_blocks_fs: "read_blocks (env\<lparr>de_fs := fs\<rparr>) path is = read_blocks env path is"
  by (induction "is") (simp_all add: read_block_def)

text \<open>The handler's data folder stays \<open>root\<close> whatever is asked of the server and the system.\<close>

definition root_is :: "string \<Rightarrow> (('w, 'z) DiagnosticLogsHandler_scheme, 'w) ctx \<Rightarrow> bool" where
  "root_is root c \<longleftrightarrow> dataFolder (this c) = root"

lemma world_free_root: "world_free (root_is root)"
  by (simp add: world_free_def root_is_def)

lemma write_etl_guarded:
  assumes "root_is root c" and "CHR 0x00 \<notin> set root" and "plain_name (c_str (cc_logFileFolderName csp))"
    and "cc_logFileName csp \<noteq> []" and "plain_name (c_str (cc_logFileName csp))"
  shows "write_etl (env\<lparr>de_fs := guarded root (de_fs env)\<rparr>) name csp b c = write_etl env name csp b c"
proof -
  let ?p = "c_str (root @ [folder_sep] @ cc_logFileFolderName csp @ [folder_sep] @ cc_logFileName csp)"
  have "inside root ?p" using assms(2,3,5) by (rule inside_c_str)
  then have "fs_WriteFile (guarded root (de_fs env)) ?p b = fs_WriteFile (de_fs env) ?p b"
    by (simp add: guarded_def)
  then show ?thesis
    using assms(1,4)
    by (simp add: write_etl_def Let_def guarded_folders cmd_simps root_is_def split: prod.split sum.split)
qed

lemma CreateEtlFile_guarded:
  assumes "root_is root c" and "CHR 0x00 \<notin> set root" and "plain_name (c_str (cc_logFileFolderName csp))"
    and "cc_logFileName csp \<noteq> []" and "plain_name (c_str (cc_logFileName csp))"
  shows "CreateEtlFile (env\<lparr>de_fs := guarded root (de_fs env)\<rparr>) name csp c = CreateEtlFile env name csp c"
proof -
  let ?env = "env\<lparr>de_fs := guarded root (de_fs env)\<rparr>"
  have xml: "de_xml ?env = de_xml env" by simp
  show ?thesis
    unfolding CreateEtlFile_def Let_def read_blocks_fs xml
    by (rule cbind_cong_inv [where I = "root_is root"], intro free_intros world_free_root, rule assms(1))
      (auto split: prod.splits intro!: cbind_cong_inv [where I = "root_is root"] free_intros world_free_root
          preserves_read_blocks write_etl_guarded assms(2-5))
qed

lemma check_names_ok:
  assumes "check_names name csp = Inr csp'" and "cc_logFileName csp \<noteq> []"
  shows "plain_name (c_str (cc_logFileFolderName csp')) \<and> cc_logFileName csp' \<noteq> [] \<and>
    plain_name (c_str (cc_logFileName csp'))"
  using assms by (auto simp: check_names_def Let_def good_file_name split: if_splits)

lemma start_or_stop_guarded:
  assumes "root_is root c" and "CHR 0x00 \<notin> set root" and "plain_name (c_str (cc_logFileFolderName csp))"
    and "cc_logFileName csp \<noteq> []" and "plain_name (c_str (cc_logFileName csp))"
  shows "start_or_stop (env\<lparr>de_fs := guarded root (de_fs env)\<rparr>) path name csp c = start_or_stop env path name csp c"
proof -
  have xml: "de_xml (env\<lparr>de_fs := guarded root (de_fs env)\<rparr>) = de_xml env" by simp
  show ?thesis
    unfolding start_or_stop_def xml
    by (rule cbind_cong_inv [where I = "root_is root"], intro free_intros world_free_root, rule assms(1))
      (auto intro!: cseq_cong_inv [where I = "root_is root"] free_intros world_free_root
          CreateEtlFile_guarded assms(2-5))
qed

lemma configure_collector_guarded:
  assumes "root_is root c" and "CHR 0x00 \<notin> set root" and "plain_name (c_str (cc_logFileFolderName csp))"
    and "cc_logFileName csp \<noteq> []" and "plain_name (c_str (cc_logFileName csp))"
  shows "configure_collector (env\<lparr>de_fs := guarded root (de_fs env)\<rparr>) name csp c = configure_collector env name csp c"
proof -
  have env: "de_xml (env\<lparr>de_fs := guarded root (de_fs env)\<rparr>) = de_xml env"
    "de_registry (env\<lparr>de_fs := guarded root (de_fs env)\<rparr>) = de_registry env" by simp_all
  show ?thesis
    unfolding configure_collector_def Let_def env
    by (rule cbind_cong_inv [where I = "root_is root"] cseq_cong_inv [where I = "root_is root"]
          start_or_stop_guarded assms | assumption |
        intro free_intros preserves_apply_provider world_free_root)+
qed

text \<open>
  C36: while the collectors name their log files, the logs stay below the data folder: on a
  file system that ends the process at any write that is not to a file of plain names in the
  data folder or in one of its folders, applying a collector is the same.
\<close>

theorem logs_stay_in_data_folder:
  assumes "dataFolder (this c) = root" and "CHR 0x00 \<notin> set root"
    and "\<forall>csp. co_csp co = Some csp \<longrightarrow> cc_logFileName csp \<noteq> []"
  shows "apply_collector (env\<lparr>de_fs := guarded root (de_fs env)\<rparr>) co c = apply_collector env co c"
proof -
  have registry: "de_registry (env\<lparr>de_fs := guarded root (de_fs env)\<rparr>) = de_registry env" by simp
  have "root_is root c" using assms(1) by (simp add: root_is_def)
  then show ?thesis
    unfolding apply_collector_def registry
  proof (rule cseq_cong_inv [where I = "root_is root", rotated])
    show "preserves (root_is root) (on_world (WriteRegistryValue (de_registry env)
        (RegEventTracing (c_str (co_name co))) ''ReportToDeviceTwin'' (c_str (reportingMode (co_subMetaData co)))))"
      by (intro free_intros world_free_root)
  qed (auto split: option.split simp: clift_def cbind_def assms(2,3) dest!: check_names_ok
      intro!: configure_collector_guarded split: sum.splits)
qed

definition guid_key :: "ProviderConfiguration \<Rightarrow> string" where
  "guid_key p = map towlower (c_str (pv_guid p))"

definition distinct_providers :: "CollectorConfiguration \<Rightarrow> bool" where
  "distinct_providers co \<longleftrightarrow>
     (case co_csp co of None \<Rightarrow> False | Some csp \<Rightarrow> distinct (map guid_key (cc_providers csp)))"

definition distinct_collectors :: "CollectorConfiguration list \<Rightarrow> bool" where
  "distinct_collectors l \<longleftrightarrow> distinct (map co_name l) \<and> list_all distinct_providers l"

lemma map_update_last:
  "(\<And>x. g (f x) = g x) \<Longrightarrow> map g (update_last P f xs) = map g xs"
  by (induction xs) auto

lemma provider_setting_guid: "guid_key (provider_setting setting val p) = guid_key p"
  by (simp add: provider_setting_def guid_key_def)

lemma distinct_ensure_provider:
  "distinct (map guid_key ps) \<Longrightarrow> distinct (map guid_key (ensure_provider u guid ps))"
  by (auto simp: ensure_provider_def guid_key_def same_name_def)

lemma distinct_update_provider:
  assumes "distinct (map guid_key (cc_providers csp))" and "\<And>p. guid_key (f p) = guid_key p"
  shows "distinct (map guid_key (cc_providers (update_provider u guid f csp)))"
  using assms by (simp add: update_provider_def map_update_last distinct_ensure_provider)

lemma collector_setting_providers:
  "collector_setting setting val = Inr f \<Longrightarrow> cc_providers (f csp) = cc_providers csp"
  by (auto simp: collector_setting_def rbind_eq_Inr split: if_splits)

lemma distinct_update_collector:
  assumes "distinct_collectors l"
    and "\<And>csp. distinct (map guid_key (cc_providers csp)) \<Longrightarrow> distinct (map guid_key (cc_providers (f csp)))"
  shows "distinct_collectors (update_collector name f l)"
proof -
  have "map co_name (update_collector name f l) = map co_name l"
    by (simp add: update_collector_def)
  moreover have "list_all distinct_providers (update_collector name f l)"
    using assms by (auto simp: distinct_collectors_def update_collector_def list_all_iff distinct_providers_def
        split: option.splits)
  ultimately show ?thesis using assms(1) by (simp add: distinct_collectors_def)
qed

lemma preserves_on_collectors_if:
  "(\<And>l. distinct_collectors l \<Longrightarrow> distinct_collectors (f l)) \<Longrightarrow>
     preserves (\<lambda>s. distinct_collectors (snd s)) (on_collectors f)"
  by (auto simp: preserves_def on_collectors_def cmd_simps)

lemma preserves_on_ctx_snd: "preserves (\<lambda>s. J (snd s)) (on_ctx m)"
  by (auto simp: preserves_def on_ctx_def split: prod.splits)

lemma new_collector_distinct:
  assumes "on_ctx (on_world (new_collector env time name)) s = (Inr co, s')"
  shows "co_name co = name \<and> distinct_providers co \<and> snd s' = snd s"
  using assms
  by (auto simp: on_ctx_def on_world_def new_collector_def Let_def cmd_simps distinct_providers_def
      split: prod.splits sum.splits)

lemma preserves_clift:
  "(\<And>x. r = Inr x \<Longrightarrow> preserves I (g x)) \<Longrightarrow> preserves I (cbind (clift r) g)"
  by (cases r) (auto simp: preserves_def cmd_simps)

lemma preserves_add_collector:
  "preserves (\<lambda>s. distinct_collectors (snd s)) (cbind (cget snd) (\<lambda>l.
     if \<exists>co \<in> set l. co_name co = name then cret ()
     else cbind (on_ctx (on_world (new_collector env time name))) (\<lambda>co. on_collectors (\<lambda>l. l @ [co]))))"
  (is "preserves ?J ?add")
proof (rule preservesI)
  fix s assume J: "?J s"
  obtain r s' where n: "on_ctx (on_world (new_collector env time name)) s = (r, s')"
    by (cases "on_ctx (on_world (new_collector env time name)) s")
  have "distinct_collectors (snd s @ [co])"
    if "r = Inr co" "\<not> (\<exists>co \<in> set (snd s). co_name co = name)" for co
    using new_collector_distinct [OF n [unfolded that(1)]] that(2) J by (auto simp: distinct_collectors_def)
  moreover have "snd s' = snd s" using n by (auto simp: on_ctx_def split: prod.splits)
  ultimately show "?J (snd (?add s))"
    using J n by (cases s') (auto simp: cmd_simps on_collectors_def split: sum.splits)
qed

lemma preserves_collector_distinct:
  "preserves (\<lambda>s. distinct_collectors (snd s)) (collector_item env time ts v)"
proof -
  let ?J = "\<lambda>s. distinct_collectors (snd s)"
  have setting: "preserves ?J (cbind (clift (collector_setting a v)) (\<lambda>f. on_collectors (update_collector name f)))" for a name
    by (intro preserves_clift preserves_on_collectors_if distinct_update_collector)
      (simp_all add: collector_setting_providers)
  have provider: "preserves ?J (on_collectors (update_collector name (update_provider u guid
      (if b then provider_setting a v else id))))" for name u guid b a
    by (intro preserves_on_collectors_if distinct_update_collector distinct_update_provider)
      (simp_all add: provider_setting_guid)
  show ?thesis
    unfolding collector_item_def Let_def
    by (intro preserves_if preserves_cseq preserves_basic preserves_add_collector setting provider)
qed

text \<open>
  C37: the collectors read from the MDM server are well formed: whatever the server answers,
  each collector is there once, and no two providers of a collector have guids that differ
  only in the case of letters.
\<close>

theorem collectors_are_distinct:
  assumes "GetSubGroup env c = (Inr l, c')"
  shows "distinct (map co_name l) \<and> list_all distinct_providers l"
proof -
  have "preserves (\<lambda>s. distinct_collectors (snd s))
      (RunGetStructData xl (on_ctx \<circ> on_world) mdm path (collector_item env time))" for xl mdm path time
    unfolding RunGetStructData_def o_def
    by (intro preserves_cbind preserves_on_ctx_snd preserves_ReadXmlStructData preserves_collector_distinct)
  note run = preservesD [OF this]
  from assms obtain time mdm c1 where
    "RunGetStructData (de_xml env) (on_ctx \<circ> on_world) mdm (CollectorsRootPath @ ''?list=StructData'')
       (collector_item env time) (c1, []) = (Inr (), (c', l))"
    by (auto simp: GetSubGroup_def cbind_def cget_def split: prod.splits sum.splits)
  with run [where s = "(c1, [])", of "de_xml env" mdm "CollectorsRootPath @ ''?list=StructData''" time]
  have "distinct_collectors l" by (simp add: distinct_collectors_def)
  then show ?thesis by (simp add: distinct_collectors_def)
qed

definition sample_diag_doc :: "xml list" where
  "sample_diag_doc = [XElem [] ''SyncML'' [XElem [] ''SyncBody'' [XElem [] ''Results'' (map (\<lambda>(u, d).
     XElem [] ''Item'' [XElem [] ''Source'' [XElem [] ''LocURI'' [XText False (CollectorsRootPath @ u)]],
       XElem [] ''Data'' [XText False d]])
     [(''/A'', ''''), (''/B'', ''''), (''/A'', '''')])]]]"

lemma sample_diag_items: "items_of sample_diag_doc =
   map (\<lambda>n. ([''.'', ''Vendor'', ''MSFT'', ''DiagnosticLog'', ''EtwLog'', ''Collectors'', n], [])) [''A'', ''B'', ''A'']"
  by (simp add: items_of_def sample_diag_doc_def item_of_def last_text_def qname_def item_names_def uri_names_def
      data_names_def CollectorsRootPath_def SplitString.simps)

definition sample_diag_env :: "world diag_env" where
  "sample_diag_env =
     \<lparr>de_registry = \<lparr>rg_CreateKey = (\<lambda>k. cret 0), rg_SetValue = (\<lambda>k n v. cret 0), rg_GetSize = (\<lambda>k n. cret 2),
        rg_GetString = (\<lambda>k n. cret (Inl 2)), rg_GetDword = (\<lambda>k n. cret (Inl 2))\<rparr>,
      de_fs = \<lparr>fs_CreateDirectory = (\<lambda>p. cret True), fs_GetFileAttributes = (\<lambda>p. cret 16),
        fs_directory = (\<lambda>p. cret []), fs_DeleteFile = (\<lambda>p. cret True), fs_WriteFile = (\<lambda>p b. cret ())\<rparr>,
      de_xml = \<lparr>xl_stream = 0, xl_create = 0, xl_property = 0, xl_input = 0,
        xl_nodes = (\<lambda>t. concat (map xml_events sample_diag_doc))\<rparr>,
      de_decode = Inr, de_int = 0, de_bool = False\<rparr>"

definition sample_diag_handler :: "world DiagnosticLogsHandler" where
  "sample_diag_handler = \<lparr>handlerId = ''eventTracingCollectors'', isConfigured = False, metaData = MetaData_new,
     iPluginHost = None, deploymentStatusJson = JNull, handlerConfig = JNull,
     reportedSchema = ReportedSchema_new ''raw'' ''dm'' InterfaceVersion,
     mdmServer = Some (\<lambda>i t. cret ''answer''), dataFolder = ''C:''\<rparr>"

definition sample_diag_ctx :: "(world DiagnosticLogsHandler, world) ctx" where
  "sample_diag_ctx = ctx_new sample_diag_handler sample_world"

definition sample_collector :: CollectorConfiguration where
  "sample_collector = \<lparr>co_name = ''A'', co_subMetaData = MetaData_new,
     co_csp = Some \<lparr>cc_traceLogFileMode = ''sequential'', cc_logFileSizeLimitMB = 4, cc_logFileFolderName = [],
       cc_logFileName = ''a.etl'', cc_started = False, cc_providers = []\<rparr>\<rparr>"

theorem logs_stay_in_data_folder_witness:
  "apply_collector (sample_diag_env\<lparr>de_fs := guarded ''C:'' (de_fs sample_diag_env)\<rparr>) sample_collector sample_diag_ctx =
     apply_collector sample_diag_env sample_collector sample_diag_ctx"
  by (rule logs_stay_in_data_folder)
    (simp_all add: sample_diag_ctx_def ctx_new_def sample_diag_handler_def sample_collector_def)

theorem collectors_are_distinct_witness:
  "\<exists>l c'. GetSubGroup sample_diag_env sample_diag_ctx = (Inr l, c') \<and> map co_name l = [''A'', ''B''] \<and>
     list_all distinct_providers l"
proof -
  have nodes: "list_all xml_names_ok sample_diag_doc"
    "open_reader (de_xml sample_diag_env) m t = Inr (concat (map xml_events sample_diag_doc))" for m t
    by (simp_all add: sample_diag_env_def open_reader_def FAILED_def sample_diag_doc_def qname_def backslash_def)
  have items: "ReadXmlStructData (de_xml sample_diag_env) t h =
      cseq (cseq (cfor (\<lambda>(a, b). h a b) (items_of sample_diag_doc)) (cret item_locals_new)) (cret ())" for t h
    unfolding ReadXmlStructData_def nodes(2) cbind_ret struct_loop_items [OF nodes(1)] by (rule refl)
  have env: "new_collector sample_diag_env time n w = (Inr \<lparr>co_name = n, co_subMetaData = MetaData_new\<lparr>reportingMode := ''detailed''\<rparr>,
       co_csp = Some \<lparr>cc_traceLogFileMode = [], cc_logFileSizeLimitMB = 0, cc_logFileFolderName = c_str n,
         cc_logFileName = c_str (n @ ''_'' @ time @ ''.etl''), cc_started = False, cc_providers = []\<rparr>\<rparr>, w)" for time n w
    by (simp add: new_collector_def ReadRegistryValueDefault_def TryReadRegistryValue_def sample_diag_env_def cmd_simps
        Let_def c_str_def)
  have item: "collector_item sample_diag_env time ts v (c, l) = (Inr (), (c,
      if \<exists>co \<in> set l. co_name co = c_str (ts ! 6) then l else l @ [projr (fst (new_collector sample_diag_env time (c_str (ts ! 6)) sample_world))]))"
    if "length ts = 7" for time ts v l and c :: "(world DiagnosticLogsHandler, world) ctx"
    using that by (simp add: collector_item_def Let_def cmd_simps env on_ctx_def on_world_def on_collectors_def)
  obtain l c' where r: "GetSubGroup sample_diag_env sample_diag_ctx = (Inr l, c')" and "map co_name l = [''A'', ''B'']"
    by (simp add: GetSubGroup_def RunGetStructData_def items sample_diag_items item env
      cmd_simps sample_diag_ctx_def ctx_new_def sample_diag_handler_def RunSyncML_def on_ctx_def on_world_def
      formatted_now_def Let_def c_str_clean)
  with collectors_are_distinct [OF r] show ?thesis by (intro exI [of _ l] exI [of _ c']) simp
qed

text \<open>
  The file name that is built from the collector's name is not checked: a collector that
  names a proper folder and no file passes the check whatever its own name is, and its log
  goes to that name.
\<close>

theorem unnamed_log_is_unchecked:
  assumes "\<not> bad_file_name (cc_logFileFolderName csp)" and "cc_logFileFolderName csp \<noteq> []" and "cc_logFileName csp = []"
  shows "check_names name csp = Inr csp \<and>
    write_etl env name csp b c =
      cseq (on_world (EnsureFolderExists (de_fs env) (dataFolder (this c) @ [folder_sep] @ cc_logFileFolderName csp)))
       (cbind (on_world formatted_now) (\<lambda>time. on_world (fs_WriteFile (de_fs env)
          (c_str (dataFolder (this c) @ [folder_sep] @ cc_logFileFolderName csp @ [folder_sep] @ name @ ''_'' @ time @ ''.etl'')) b))) c"
  using assms by (auto simp: check_names_def write_etl_def Let_def cmd_simps split: prod.split sum.split)

text \<open>Nor are the names of a deletion: any folder and file name are put behind the data folder.\<close>

theorem deleted_path_is_unchecked:
  assumes "GetStringJsonValue p ''folderName'' = Inr folder" and "GetStringJsonValue p ''fileName'' = Inr file"
    and "fs_GetFileAttributes fs path w = (Inr attrs, w1)" and "attrs \<noteq> INVALID_FILE_ATTRIBUTES"
    and "path = c_str (root @ [folder_sep] @ folder @ [folder_sep] @ file)"
    and "fs_DeleteFile fs path w1 = (Inr ok, w2)" and "lf_dataFolder (this c) = root" and "wld c = w"
  shows "DeleteLogFile_work fs p c = (Inr (), c\<lparr>wld := w2\<rparr>)"
  using assms by (simp add: DeleteLogFile_work_def Let_def cmd_simps on_world_def)

end
