(* ===== verification/Certificates.thy ===== *)
theory Certificates
  imports Device_Plugins
begin

text \<open>
  CertificateManagementPlugin: the handler that brings the certificate stores behind the MDM
  server to the desired state, downloading what is to be installed, and the direct method that
  reads the details of one certificate.  Blob storage, the file system and the certificate
  functions of Windows are the record \<open>cert_env\<close>.
\<close>

section \<open>Certificate files\<close>

text \<open>
  \<open>cv_read\<close>: \<open>None\<close> is a file that cannot be opened, \<open>Some None\<close> one that cannot be read;
  \<open>cv_BinaryToString\<close>: \<open>None\<close> when the size cannot be obtained, \<open>Some None\<close> when the second call
  fails.  The
  Windows calls give \<open>None\<close> on failure, with the reason in \<open>GetLastError\<close>.
\<close>

record 'w cert_env =
  cv_xml :: xml_lite
  cv_DownloadBlob :: "string \<Rightarrow> string \<Rightarrow> string \<Rightarrow> ('w, string) cmd"
  cv_GetTempPath :: "('w, string option) cmd"
  cv_WriteFile :: "string \<Rightarrow> string \<Rightarrow> ('w, unit) cmd"
  cv_read :: "string \<Rightarrow> ('w, string option option) cmd"
  cv_CreateContext :: "string \<Rightarrow> ('w, string option) cmd"
  cv_HashCertificate :: "string \<Rightarrow> ('w, string option) cmd"
  cv_BinaryToString :: "string \<Rightarrow> ('w, string option option) cmd"
  cv_remove :: "string \<Rightarrow> ('w, unit) cmd"

record CertificateFile =
  fullFileName :: string
  thumbPrint :: string

definition or_last_error :: "('w world_scheme, 'a option) cmd \<Rightarrow> string \<Rightarrow> ('w world_scheme, 'a) cmd" where
  "or_last_error m msg = cbind m (\<lambda>r. case r of None \<Rightarrow> throw_last_error msg | Some x \<Rightarrow> cret x)"

definition LoadFile :: "'w world_scheme cert_env \<Rightarrow> string \<Rightarrow> ('w world_scheme, string) cmd" where
  "LoadFile env fileName =
     cbind (or_last_error (cv_read env fileName) ''Error: failed to open binary file!'') (\<lambda>r.
     or_last_error (cret r) ''Error: failed to read file!'')"

definition BinaryToBase64 :: "'w world_scheme cert_env \<Rightarrow> string \<Rightarrow> ('w world_scheme, string) cmd" where
  "BinaryToBase64 env buffer =
     cbind (or_last_error (cv_BinaryToString env buffer)
       ''Error: cannot obtain the required size to encode buffer into base64.'') (\<lambda>r.
     or_last_error (cret r) ''Error: cannot convert binary stream to base64.'')"

definition FileToBase64 :: "'w world_scheme cert_env \<Rightarrow> string \<Rightarrow> ('w world_scheme, string) cmd" where
  "FileToBase64 env fileName = cbind (LoadFile env fileName) (BinaryToBase64 env)"

definition GetTempFolder :: "'w world_scheme cert_env \<Rightarrow> ('w world_scheme, string) cmd" where
  "GetTempFolder env = or_last_error (cv_GetTempPath env) ''GetTempPath failed.''"

text \<open>\<open>std::hex\<close> with a width of two filled by zeros, byte by byte.\<close>

definition hex_byte :: "char \<Rightarrow> string" where
  "hex_byte b = (let digit = (\<lambda>n. ''0123456789abcdef'' ! n); n = of_char b in [digit (n div 16), digit (n mod 16)])"

definition CertificateFile_new :: "'w world_scheme cert_env \<Rightarrow> string \<Rightarrow> ('w world_scheme, CertificateFile) cmd" where
  "CertificateFile_new env certFileName =
     cbind (LoadFile env certFileName) (\<lambda>certEncoded.
     cbind (or_last_error (cv_CreateContext env certEncoded) ''Error: CertCreateCertificateContext() failed.'') (\<lambda>pbCertEncoded.
     cbind (or_last_error (cv_HashCertificate env pbCertEncoded) ''Error: CryptHashCertificate() failed.'') (\<lambda>hash.
     cret \<lparr>fullFileName = certFileName, thumbPrint = concat (map hex_byte hash)\<rparr>)))"

definition cert_format_error :: "string \<Rightarrow> exn" where
  "cert_format_error m = DMExc DeviceAgentPlugin DM_ERROR_INVALID_JSON_FORMAT m"

definition DownloadCertificateFromBlob ::
    "'w world_scheme cert_env \<Rightarrow> string \<Rightarrow> string \<Rightarrow> ('w world_scheme, string) cmd" where
  "DownloadCertificateFromBlob env connectionString containerAndBlob =
     (let parts = SplitString folder_sep containerAndBlob
      in if length parts < 2
         then cthrow (cert_format_error
           (''File Name format is incorrect. It should be <ContainerName>'' @ [folder_sep] @ ''<BlobName>''))
         else let containerName = c_str (parts ! 0);
                  blobName = c_str (drop (length containerName + 1) containerAndBlob)
              in cbind (cv_DownloadBlob env (c_str connectionString) containerName blobName) (\<lambda>bytes.
                 cbind (GetTempFolder env) (\<lambda>folder.
                 let fullFileName = c_str folder @ last parts
                 in cseq (cv_WriteFile env fullFileName bytes) (cret fullFileName))))"

section \<open>One store\<close>

type_synonym ('w, 'z, 'a) cert_cmd = "((('w, 'z) MdmHandlerBase_scheme, 'w) ctx, 'a) cmd"

text \<open>\<open>RunOperation\<close> around a body that leaves a value in a local when it does not throw.\<close>

definition RunOperation_value :: "string \<Rightarrow> (('h, 'w) ctx, 'a) cmd \<Rightarrow> (('h, 'w) ctx, 'a option) cmd" where
  "RunOperation_value g m = (\<lambda>c.
     case RunOperation g (cseq m (cret ())) c of
       (Inl e, c') \<Rightarrow> (Inl e, c')
     | (Inr ok, c') \<Rightarrow> (Inr (if ok then (case fst (m c) of Inl e \<Rightarrow> None | Inr x \<Rightarrow> Some x) else None), c'))"

definition UninstallCertificateHandler :: "string \<Rightarrow> string \<Rightarrow> ('w, 'z, bool) cert_cmd" where
  "UninstallCertificateHandler cspPath hash =
     RunOperation ''uninstallCertificate'' (
       cseq (mdm_call (\<lambda>m. RunDelete m (cspPath @ ''/'' @ hash))) (set_this (isConfigured_update (\<lambda>_. True))))"

definition InstallCertificateHandler :: "string \<Rightarrow> string \<Rightarrow> string \<Rightarrow> ('w, 'z, bool) cert_cmd" where
  "InstallCertificateHandler cspPath hash certificateInBase64 =
     RunOperation ''installCertificate'' (
       cseq (mdm_call (\<lambda>m. RunAddDataBase64 m (cspPath @ ''/'' @ hash @ ''/EncodedCertificate'') certificateInBase64))
         (set_this (isConfigured_update (\<lambda>_. True))))"

text \<open>What one entry of the desired store adds to the three lists.\<close>

datatype cert_decision = LeaveOut | ToInstall CertificateFile | ToUninstall string | AlreadyInstalled string

definition fetch_certificate ::
    "'w world_scheme cert_env \<Rightarrow> string option \<Rightarrow> json \<Rightarrow> ('w world_scheme, cert_decision) cmd" where
  "fetch_certificate env connectionString entry =
     (case connectionString of
        None \<Rightarrow> cthrow (cert_format_error
          ''An Azure Storage connection string is missing. It is required to install certificates.'')
      | Some connection \<Rightarrow>
          cbind (clift (TryGetStringJsonValue entry ''fileName'')) (\<lambda>containerAndBlob.
          case containerAndBlob of
            None \<Rightarrow> cthrow (cert_format_error ''The container/blob string is missing. It is required to install certificates.'')
          | Some name \<Rightarrow>
              if name = [] then cthrow (cert_format_error
                (''File Name is empty. It should be <ContainerName>'' @ [folder_sep] @ ''<BlobName>''))
              else cbind (DownloadCertificateFromBlob env connection name) (\<lambda>file.
                   cbind (CertificateFile_new env file) (\<lambda>cert. cret (ToInstall cert)))))"

definition decide_certificate ::
    "'w world_scheme cert_env \<Rightarrow> string option \<Rightarrow> string list \<Rightarrow> string \<times> json \<Rightarrow>
     ('w world_scheme, cert_decision) cmd" where
  "decide_certificate env connectionString currentHashes itr =
     (case itr of (thumbprint, entry) \<Rightarrow>
     cbind (clift (GetStringJsonValue entry ''state'')) (\<lambda>certDesiredState.
     if \<not> list_ex (\<lambda>currentHash. same_name currentHash thumbprint) currentHashes
     then if certDesiredState = ''installed'' then fetch_certificate env connectionString entry
          else if certDesiredState = ''uninstalled'' then cret LeaveOut
          else cthrow (cert_format_error ''Certificate state should be installed or uninstalled.'')
     else if certDesiredState = ''uninstalled'' then cret (ToUninstall thumbprint)
          else if certDesiredState = ''installed'' then cret (AlreadyInstalled thumbprint)
          else cthrow (cert_format_error ''Certificate state should be installed or uninstalled.'')))"

fun decide_certificates ::
    "'w world_scheme cert_env \<Rightarrow> string option \<Rightarrow> string list \<Rightarrow> (string \<times> json) list \<Rightarrow>
     (('h, 'w world_scheme) ctx, cert_decision list) cmd" where
  "decide_certificates env connectionString currentHashes [] = cret []"
| "decide_certificates env connectionString currentHashes (e # es) =
     cbind (RunOperation_value (fst e) (on_world (decide_certificate env connectionString currentHashes e))) (\<lambda>d.
     cbind (decide_certificates env connectionString currentHashes es) (\<lambda>ds.
     cret ((case d of None \<Rightarrow> LeaveOut | Some x \<Rightarrow> x) # ds)))"

definition plan_store ::
    "'w world_scheme cert_env \<Rightarrow> string \<Rightarrow> string \<Rightarrow> json \<Rightarrow> string option \<Rightarrow>
     ('w world_scheme, 'z, cert_decision list) cert_cmd" where
  "plan_store env subGroupId cspPath desiredConfig connectionString =
     cbind (RunOperation_value subGroupId (
       cbind (mdm_call (\<lambda>m. RunGetString (cv_xml env) m cspPath)) (\<lambda>currentCertInfo.
       cbind (clift (TryGetJsonValue desiredConfig subGroupId)) (\<lambda>store.
       case store of
         None \<Rightarrow> cret []
       | Some v \<Rightarrow> decide_certificates env connectionString (SplitString CHR ''/'' currentCertInfo) (json_entries v)))))
     (\<lambda>r. cret (case r of None \<Rightarrow> [] | Some ds \<Rightarrow> ds))"

text \<open>Installing outside of \<open>RunOperation\<close>: an exception of \<open>FileToBase64\<close> ends the whole apply.\<close>

fun install_certificates ::
    "'w world_scheme cert_env \<Rightarrow> string \<Rightarrow> CertificateFile list \<Rightarrow> ('w world_scheme, 'z, string list) cert_cmd" where
  "install_certificates env cspPath [] = cret []"
| "install_certificates env cspPath (cert # certs) =
     cbind (on_world (FileToBase64 env (fullFileName cert))) (\<lambda>certificateInBase64.
     cbind (InstallCertificateHandler cspPath (thumbPrint cert) certificateInBase64) (\<lambda>ok.
     cseq (on_world (cv_remove env (fullFileName cert))) (
     cbind (install_certificates env cspPath certs) (\<lambda>hashes.
     cret ((if ok then [thumbPrint cert] else []) @ hashes)))))"

fun uninstalls :: "cert_decision list \<Rightarrow> string list" where
  "uninstalls [] = []"
| "uninstalls (ToUninstall t # ds) = t # uninstalls ds"
| "uninstalls (_ # ds) = uninstalls ds"

fun installs :: "cert_decision list \<Rightarrow> CertificateFile list" where
  "installs [] = []"
| "installs (ToInstall f # ds) = f # installs ds"
| "installs (_ # ds) = installs ds"

fun kept :: "cert_decision list \<Rightarrow> string list" where
  "kept [] = []"
| "kept (AlreadyInstalled t # ds) = t # kept ds"
| "kept (_ # ds) = kept ds"

text \<open>The map of the installed certificates, by store; a store it does not hold has none.\<close>

type_synonym installed = "string \<Rightarrow> string list"

definition ModifyCertificatesHandler ::
    "'w world_scheme cert_env \<Rightarrow> json \<Rightarrow> string option \<Rightarrow> string \<times> string \<Rightarrow> installed \<Rightarrow>
     ('w world_scheme, 'z, installed) cert_cmd" where
  "ModifyCertificatesHandler env desiredConfig connectionString store installedCertificates =
     (case store of (subGroupId, cspPath) \<Rightarrow>
     cbind (plan_store env subGroupId cspPath desiredConfig connectionString) (\<lambda>ds.
     cseq (cfor (\<lambda>t. cseq (UninstallCertificateHandler cspPath t) (cret ())) (uninstalls ds)) (
     cbind (install_certificates env cspPath (installs ds)) (\<lambda>hashes.
     cret (installedCertificates(subGroupId := installedCertificates subGroupId @ kept ds @ hashes))))))"

section \<open>The handler\<close>

definition certificate_stores :: "(string \<times> string) list" where
  "certificate_stores =
     [(''rootCATrustedCertificates_Root'', ''./Device/Vendor/MSFT/RootCATrustedCertificates/Root''),
      (''rootCATrustedCertificates_CA'', ''./Device/Vendor/MSFT/RootCATrustedCertificates/CA''),
      (''certificateStore_My_User'', ''./Vendor/MSFT/CertificateStore/My/User''),
      (''certificateStore_My_System'', ''./Vendor/MSFT/CertificateStore/My/System''),
      (''certificateStore_Root_System'', ''./Vendor/MSFT/CertificateStore/Root/System''),
      (''certificateStore_CA_System'', ''./Vendor/MSFT/CertificateStore/CA/System''),
      (''rootCATrustedCertificates_TrustedPublisher'', ''./Device/Vendor/MSFT/RootCATrustedCertificates/TrustedPublisher''),
      (''rootCATrustedCertificates_TrustedPeople'', ''./Device/Vendor/MSFT/RootCATrustedCertificates/TrustedPeople'')]"

fun modify_stores ::
    "'w world_scheme cert_env \<Rightarrow> json \<Rightarrow> string option \<Rightarrow> (string \<times> string) list \<Rightarrow> installed \<Rightarrow>
     ('w world_scheme, 'z, installed) cert_cmd" where
  "modify_stores env desiredConfig connectionString [] inst = cret inst"
| "modify_stores env desiredConfig connectionString (s # ss) inst =
     cbind (ModifyCertificatesHandler env desiredConfig connectionString s inst)
       (modify_stores env desiredConfig connectionString ss)"

definition CreateInstalledCertificateJsonList :: "string list \<Rightarrow> json" where
  "CreateInstalledCertificateJsonList certs = foldl (\<lambda>acc cert. jput cert (JString []) acc) (JObject []) certs"

text \<open>The pairs of a reported member and the store it is filled from.\<close>

definition reported_stores :: "(string \<times> string) list" where
  "reported_stores =
     [(''rootCATrustedCertificates_CA'', ''rootCATrustedCertificates_CA''),
      (''rootCATrustedCertificates_Root'', ''rootCATrustedCertificates_Root''),
      (''certificateStore_My_User'', ''certificateStore_My_User''),
      (''certificateStore_My_System'', ''certificateStore_My_User''),
      (''certificateStore_Root_System'', ''certificateStore_Root_System''),
      (''certificateStore_CA_System'', ''certificateStore_CA_System''),
      (''rootCATrustedCertificates_TrustedPublisher'', ''rootCATrustedCertificates_TrustedPublisher''),
      (''rootCATrustedCertificates_TrustedPeople'', ''rootCATrustedCertificates_TrustedPeople'')]"

definition Certificates_BuildReported :: "installed \<Rightarrow> (('h, 'w) ctx, unit) cmd" where
  "Certificates_BuildReported inst =
     cfor (\<lambda>(member, store). report_put member (CreateInstalledCertificateJsonList (inst store))) reported_stores"

definition Certificates_EmptyReported :: "(('h, 'w) ctx, unit) cmd" where
  "Certificates_EmptyReported = cfor (\<lambda>(member, store). report_put member JNull) reported_stores"

definition Certificates_apply ::
    "'w world_scheme cert_env \<Rightarrow> json \<Rightarrow> ('w world_scheme, 'z, unit) cert_cmd" where
  "Certificates_apply env desired =
     cbind (clift (TryGetStringJsonValue desired ''connectionString'')) (\<lambda>connectionString.
     cbind (modify_stores env desired connectionString certificate_stores (\<lambda>_. [])) (\<lambda>inst.
     cbind (cget (reportingMode \<circ> metaData \<circ> this)) (\<lambda>mode.
     cseq (if mode = ''detailed'' then Certificates_BuildReported inst else Certificates_EmptyReported)
       (set_device_version InterfaceVersion))))"

definition Certificates_action ::
    "'w world_scheme cert_env \<Rightarrow> json \<Rightarrow> ('w world_scheme, 'z, unit) cert_cmd" where
  "Certificates_action env desired =
     cbind (clift (IsRefreshing desired)) (\<lambda>refreshing.
       if refreshing then cret ()
       else cseq (on_meta (FromJsonParentObject desired)) (cseq ReportRefreshing (
         check_version InterfaceVersion (Certificates_apply env desired))))"

definition Certificates_Invoke ::
    "'w world_scheme cert_env \<Rightarrow> json \<Rightarrow> ('w world_scheme, 'z, InvokeResult) cert_cmd" where
  "Certificates_Invoke env desired =
     Invoke_reporting (Certificates_action env desired) (cget (desired_state_result desired))"

definition CertificateManagementHandler_new :: "('w world_scheme, 'w world_scheme MdmHandlerBase) cmd" where
  "CertificateManagementHandler_new =
     MdmHandlerBase_new ''certificates'' (ReportedSchema_new ''raw'' ''dm'' InterfaceVersion)"

definition Certificates_Start :: "json \<Rightarrow> ((('w, 'z) HandlerBase_scheme, 'w) ctx, bool) cmd" where
  "Certificates_Start = plugin_Start"

section \<open>The details of a certificate\<close>

definition CertificateDetailedInfoHandler_new :: "('w world_scheme, 'w world_scheme MdmHandlerBase) cmd" where
  "CertificateDetailedInfoHandler_new =
     MdmHandlerBase_new ''GetDetailedCertificateInfoCmd'' (ReportedSchema_new ''raw'' ''dm'' InterfaceVersion)"

definition certificate_details :: "(string \<times> string) list" where
  "certificate_details =
     [(''issuedBy'', ''/IssuedBy''), (''issuedTo'', ''/IssuedTo''), (''validFrom'', ''/ValidFrom''),
      (''validTo'', ''/ValidTo''), (''base64Encoding'', ''/EncodedCertificate''), (''templateName'', ''/TemplateName'')]"

definition GetCertificateDetailHandler ::
    "xml_lite \<Rightarrow> json \<Rightarrow> ('w, 'z, bool) cert_cmd" where
  "GetCertificateDetailHandler xl desiredConfig =
     RunOperation ''certDetail'' (
       cbind (clift (GetStringJsonValue desiredConfig ''path'')) (\<lambda>cspPath.
       cbind (clift (GetStringJsonValue desiredConfig ''hash'')) (\<lambda>hash.
       cfor (\<lambda>(member, node).
         cbind (mdm_call (\<lambda>m. RunGetString xl m (cspPath @ ''/'' @ hash @ node))) (\<lambda>v.
         report_put member (JString (c_str v)))) certificate_details)))"

definition CertificateDetailedInfo_action ::
    "xml_lite \<Rightarrow> json \<Rightarrow> ('w world_scheme, 'z, unit) cert_cmd" where
  "CertificateDetailedInfo_action xl jsonParameters =
     cseq (on_meta (FromJsonParentObject jsonParameters)) (
     check_version InterfaceVersion (
       cseq (GetCertificateDetailHandler xl jsonParameters) (set_device_version InterfaceVersion)))"

definition CertificateDetailedInfo_Invoke ::
    "xml_lite \<Rightarrow> json \<Rightarrow> ('w world_scheme, 'z, InvokeResult) cert_cmd" where
  "CertificateDetailedInfo_Invoke xl jsonParameters =
     Invoke_silent (CertificateDetailedInfo_action xl jsonParameters) (cget (list_method_result jsonParameters))"

section \<open>The handler keeps the contract of its base class\<close>

lemma preserves_RunOperation_value:
  assumes "preserves I m" and "\<And>c e. I c \<Longrightarrow> I (errs_update (AddError g (reported_of g e)) c)"
  shows "preserves I (RunOperation_value g m)"
proof (rule preservesI)
  fix c assume "I c"
  moreover have "preserves I (RunOperation g (cseq m (cret ())))"
    by (intro preserves_intros assms)
  ultimately have "I (snd (RunOperation g (cseq m (cret ())) c))" by (rule preservesD [rotated])
  then show "I (snd (RunOperation_value g m c))"
    by (auto simp: RunOperation_value_def split: prod.splits sum.splits)
qed

lemma preserves_value_inv [preserves_intros]:
  "preserves (handler_inv i h) m \<Longrightarrow> preserves (handler_inv i h) (RunOperation_value g m)"
  by (intro preserves_RunOperation_value) (simp_all add: handler_inv_def)

lemma preserves_decide_certificates:
  "preserves (handler_inv i h) (decide_certificates env connectionString hashes es)"
  by (induction es) (auto intro!: preserves_intros)

lemma preserves_install_certificates:
  "preserves (handler_inv i h) (install_certificates env cspPath certs)"
  by (induction certs) (auto intro!: preserves_intros simp: InstallCertificateHandler_def)

lemma preserves_ModifyCertificatesHandler:
  "preserves (handler_inv i h) (ModifyCertificatesHandler env desired connectionString store inst)"
proof -
  have "preserves (handler_inv i h) (plan_store env s path desired connectionString)" for s path
    unfolding plan_store_def
    by (intro preserves_intros preserves_decide_certificates preserves_option)
  then show ?thesis
    unfolding ModifyCertificatesHandler_def UninstallCertificateHandler_def
    by (cases store) (auto intro!: preserves_intros preserves_install_certificates)
qed

lemma preserves_modify_stores: "preserves (handler_inv i h) (modify_stores env desired connectionString ss inst)"
  by (induction ss arbitrary: inst) (auto intro!: preserves_intros preserves_ModifyCertificatesHandler)

interpretation certificates: raw_handler
  "Certificates_action env :: json \<Rightarrow> ('w world_scheme, 'z, unit) cert_cmd"
  desired_state_result "Certificates_Invoke env" for env
proof unfold_locales
  show "Certificates_Invoke env p = Invoke_reporting (Certificates_action env p) (cget (desired_state_result p))"
    for env :: "'w world_scheme cert_env" and p by (simp add: Certificates_Invoke_def)
  show "preserves (handler_inv i h) (Certificates_action env p :: ('w world_scheme, 'z, unit) cert_cmd)" for i h env p
    unfolding Certificates_action_def Certificates_apply_def Certificates_BuildReported_def
      Certificates_EmptyReported_def case_prod_beta
    by (intro preserves_intros preserves_modify_stores)
qed

section \<open>What the stores are asked\<close>

text \<open>A command that leaves the log alone and does not end the process.\<close>

definition silent :: "('w \<Rightarrow> 'l) \<Rightarrow> ('w, 'a) cmd \<Rightarrow> bool" where
  "silent log m \<longleftrightarrow> (\<forall>w. log (snd (m w)) = log w \<and> fst (m w) \<noteq> Inl Terminate)"

lemma silent_basic:
  "silent log (cret x)" "silent log (cget f)" "catchable e \<Longrightarrow> silent log (cthrow e)"
  "(\<And>e. r = Inl e \<Longrightarrow> catchable e) \<Longrightarrow> silent log (clift r)"
  by (auto simp: silent_def cmd_simps)

lemma silent_cbind:
  assumes "silent log m" and "\<And>x. silent log (f x)"
  shows "silent log (cbind m f)"
  unfolding silent_def
proof
  fix w
  obtain r w' where m: "m w = (r, w')" by (cases "m w")
  with assms(1) have "log w' = log w" "r \<noteq> Inl Terminate" by (auto simp: silent_def dest: spec [of _ w])
  with m assms(2) show "log (snd (cbind m f w)) = log w \<and> fst (cbind m f w) \<noteq> Inl Terminate"
    by (cases r) (auto simp: cbind_def silent_def)
qed

lemma silent_cases:
  "silent log m \<Longrightarrow> silent log n \<Longrightarrow> silent log (if b then m else n)"
  "silent log m \<Longrightarrow> (\<And>x. silent log (f x)) \<Longrightarrow> silent log (case r of None \<Rightarrow> m | Some x \<Rightarrow> f x)"
  by (auto split: option.split)

lemma silent_cseq: "silent log m \<Longrightarrow> silent log n \<Longrightarrow> silent log (cseq m n)"
  unfolding cseq_def by (rule silent_cbind)

lemmas silent_intros = silent_basic silent_cbind silent_cseq silent_cases

definition silent_env :: "('w \<Rightarrow> 'l) \<Rightarrow> 'w cert_env \<Rightarrow> bool" where
  "silent_env log env \<longleftrightarrow>
     (\<forall>a b c. silent log (cv_DownloadBlob env a b c)) \<and> silent log (cv_GetTempPath env) \<and>
     (\<forall>p b. silent log (cv_WriteFile env p b)) \<and> (\<forall>p. silent log (cv_read env p)) \<and>
     (\<forall>b. silent log (cv_CreateContext env b)) \<and> (\<forall>b. silent log (cv_HashCertificate env b)) \<and>
     (\<forall>b. silent log (cv_BinaryToString env b)) \<and> (\<forall>p. silent log (cv_remove env p))"

lemma silent_or_last_error: "silent log m \<Longrightarrow> silent log (or_last_error m msg)"
  unfolding or_last_error_def throw_last_error_def by (intro silent_intros) simp_all

lemma silent_files:
  assumes "silent_env log env"
  shows "silent log (LoadFile env p)" "silent log (FileToBase64 env p)" "silent log (CertificateFile_new env p)"
    "silent log (DownloadCertificateFromBlob env a b)"
proof -
  note env = assms [unfolded silent_env_def]
  show load: "silent log (LoadFile env p)" for p
    unfolding LoadFile_def by (intro silent_intros silent_or_last_error) (simp_all add: env)
  show "silent log (FileToBase64 env p)"
    unfolding FileToBase64_def BinaryToBase64_def by (intro silent_intros silent_or_last_error load) (simp_all add: env)
  show "silent log (CertificateFile_new env p)"
    unfolding CertificateFile_new_def by (intro silent_intros silent_or_last_error load) (simp_all add: env)
  show "silent log (DownloadCertificateFromBlob env a b)"
    unfolding DownloadCertificateFromBlob_def GetTempFolder_def Let_def
    by (intro silent_intros silent_or_last_error) (simp_all add: env cert_format_error_def)
qed

lemma TryGetStringJsonValue_catchable: "TryGetStringJsonValue v k = Inl e \<Longrightarrow> catchable e"
  by (auto simp: TryGetStringJsonValue_def rbind_def TryGetJsonValue_catchable asString_catchable
    split: if_splits sum.splits option.splits)

lemma GetStringJsonValue_catchable: "GetStringJsonValue v k = Inl e \<Longrightarrow> catchable e"
  by (auto simp: GetStringJsonValue_def rbind_def TryGetStringJsonValue_catchable split: sum.splits option.splits)

lemma silent_decide:
  "silent_env log env \<Longrightarrow> silent log (decide_certificate env connectionString hashes e)"
  unfolding decide_certificate_def fetch_certificate_def case_prod_beta
  by (intro silent_intros silent_files)
    (auto simp: cert_format_error_def dest: GetStringJsonValue_catchable TryGetStringJsonValue_catchable)

text \<open>The certificates of a desired store that are to go: wanted uninstalled and listed.\<close>

definition to_remove :: "string list \<Rightarrow> string \<times> json \<Rightarrow> bool" where
  "to_remove hashes e \<longleftrightarrow>
     GetStringJsonValue (snd e) ''state'' = Inr ''uninstalled'' \<and> list_ex (\<lambda>h. same_name h (fst e)) hashes"

definition removals :: "string list \<Rightarrow> (string \<times> json) list \<Rightarrow> string list" where
  "removals hashes es = map fst (filter (to_remove hashes) es)"

lemma decide_removes:
  "uninstalls [case fst (decide_certificate env connectionString hashes e w) of Inl _ \<Rightarrow> LeaveOut | Inr d \<Rightarrow> d] =
     (if to_remove hashes e then [fst e] else [])"
proof -
  have fetch: "uninstalls [d] = []" if "fst (fetch_certificate env connectionString v w) = Inr d" for v d
    using that by (auto simp: fetch_certificate_def cmd_simps split: option.splits sum.splits prod.splits if_split_asm)
  then show ?thesis
    by (cases e; cases "GetStringJsonValue (snd e) ''state''"; cases "fst (fetch_certificate env connectionString (snd e) w)")
      (simp_all add: decide_certificate_def to_remove_def cmd_simps fetch split: sum.split)
qed

lemma uninstalls_Cons: "uninstalls (d # ds) = uninstalls [d] @ uninstalls ds"
  by (cases d) simp_all

definition at_log ::
    "(string \<Rightarrow> string \<Rightarrow> ('w, string) cmd) \<Rightarrow> ('w \<Rightarrow> string list) \<Rightarrow> string list \<Rightarrow>
     (('w, 'z) MdmHandlerBase_scheme, 'w) ctx \<Rightarrow> bool" where
  "at_log run log l c \<longleftrightarrow> mdmServer (this c) = Some run \<and> log (wld c) = l"

lemma at_log_errs [simp]: "at_log run log l (c\<lparr>errs := es\<rparr>) = at_log run log l c"
  by (simp add: at_log_def)

lemma at_log_world: "at_log run log l c \<Longrightarrow> log w = l' \<Longrightarrow> at_log run log l' (c\<lparr>wld := w\<rparr>)"
  by (simp add: at_log_def)

lemma RunOperation_value_ok: "m c = (Inr x, c') \<Longrightarrow> RunOperation_value g m c = (Inr (Some x), c')"
  by (simp add: RunOperation_value_def RunOperation_def cmd_simps)

lemma RunOperation_value_exn:
  "m c = (Inl e, c') \<Longrightarrow> catchable e \<Longrightarrow>
     RunOperation_value g m c = (Inr None, c'\<lparr>errs := AddError g (reported_of g e) (errs c')\<rparr>)"
  by (simp add: RunOperation_value_def RunOperation_def cmd_simps)

lemma decide_certificates_log:
  assumes env: "silent_env log env"
  shows "at_log run log l c \<Longrightarrow>
     \<exists>ds c'. decide_certificates env connectionString hashes es c = (Inr ds, c') \<and> at_log run log l c' \<and>
       uninstalls ds = removals hashes es"
proof (induction es arbitrary: c)
  case Nil
  then show ?case by (simp add: cmd_simps removals_def)
next
  case (Cons e es)
  let ?m = "decide_certificate env connectionString hashes e"
  let ?d = "case fst (?m (wld c)) of Inl _ \<Rightarrow> LeaveOut | Inr d \<Rightarrow> d"
  obtain r w where m: "?m (wld c) = (r, w)" by (cases "?m (wld c)")
  have w: "log w = l" and r: "r \<noteq> Inl Terminate"
    using silent_decide [OF env, of connectionString hashes e] m Cons.prems
    by (auto simp: silent_def at_log_def dest: spec [of _ "wld c"])
  have "\<exists>v c1. RunOperation_value (fst e) (on_world ?m) c = (Inr v, c1) \<and> at_log run log l c1 \<and>
      (case v of None \<Rightarrow> LeaveOut | Some x \<Rightarrow> x) = ?d"
  proof (cases r)
    case (Inl ex)
    then show ?thesis
      using RunOperation_value_exn [of "on_world ?m" c ex "c\<lparr>wld := w\<rparr>" "fst e"] m r at_log_world [OF Cons.prems, of w l] w
      by (auto simp: on_world_def catchable_iff)
  next
    case (Inr d)
    then show ?thesis
      using RunOperation_value_ok [of "on_world ?m" c d "c\<lparr>wld := w\<rparr>" "fst e"] m at_log_world [OF Cons.prems, of w l] w
      by (auto simp: on_world_def)
  qed
  then obtain v c1 where 1: "RunOperation_value (fst e) (on_world ?m) c = (Inr v, c1)" "at_log run log l c1"
    "(case v of None \<Rightarrow> LeaveOut | Some x \<Rightarrow> x) = ?d" by blast
  from Cons.IH [OF 1(2)] obtain ds c2 where 2:
    "decide_certificates env connectionString hashes es c1 = (Inr ds, c2)" "at_log run log l c2"
    "uninstalls ds = removals hashes es" by blast
  have "uninstalls (?d # ds) = removals hashes (e # es)"
    using decide_removes [of env connectionString hashes e "wld c"] 2(3)
    by (subst uninstalls_Cons) (simp add: removals_def)
  with 1 2(1,2) show ?case by (auto simp: cmd_simps)
qed

text \<open>The read of the store's list, and what it plans to remove.\<close>

definition list_request :: "string \<Rightarrow> string" where
  "list_request cspPath = get_request cspPath (metinf ''Type'' @ ''text/plain</Type>'')"

definition planned_removals ::
    "'w cert_env \<Rightarrow> 'w mdm \<Rightarrow> json \<Rightarrow> string \<times> string \<Rightarrow> 'w \<Rightarrow> string list" where
  "planned_removals env mdm desired store w =
     (case fst (RunGetString (cv_xml env) mdm (snd store) w) of
        Inl _ \<Rightarrow> []
      | Inr info \<Rightarrow> (case TryGetJsonValue desired (fst store) of
          Inr (Some v) \<Rightarrow> removals (SplitString CHR ''/'' info) (json_entries v)
        | _ \<Rightarrow> []))"

lemma open_reader_catchable: "open_reader xl msg s = Inl e \<Longrightarrow> catchable e"
  by (auto simp: open_reader_def xml_error_def split: if_splits)

lemma hr_get_catchable: "hr_get msg r = Inl e \<Longrightarrow> catchable e"
  by (cases r) (auto simp: xml_error_def)

lemma value_loop_catchable: "value_loop target ns l = Inl e \<Longrightarrow> catchable e"
proof (induction ns arbitrary: l)
  case (Cons n ns)
  have "catchable x" if "value_node target n l = Inl x" for x
    using that by (cases n) (auto simp: element_name_def node_text_def rbind_def dest: hr_get_catchable split: sum.splits)
  with Cons show ?case by (auto simp: rbind_def split: if_splits sum.splits)
qed simp

lemma ReadXmlValue_catchable: "ReadXmlValue xl text target = Inl e \<Longrightarrow> catchable e"
  by (auto simp: ReadXmlValue_def rbind_def missing_path_def dest: open_reader_catchable value_loop_catchable
    split: sum.splits if_splits)

text \<open>A request to the server is logged, whatever it answers.\<close>

lemma request_log:
  assumes "mdm_logs run log" and "at_log run log l c"
  obtains r w where "run '''' q (wld c) = (r, w)" "r \<noteq> Inl Terminate" "at_log run log (l @ [q]) (c\<lparr>wld := w\<rparr>)"
proof -
  obtain r w where run: "run '''' q (wld c) = (r, w)" by (cases "run '''' q (wld c)")
  have "log w = l @ [q]" "r \<noteq> Inl Terminate"
    using assms run by (auto simp: mdm_logs_def at_log_def) (metis snd_conv, metis fst_conv)
  then show thesis using that [OF run] at_log_world [OF assms(2)] by blast
qed

lemma change_log:
  assumes logs: "mdm_logs run log" and c: "at_log run log l c"
    and call: "call (Some run) = cseq (RunSyncML (Some run) q) (cret ())"
  shows "\<exists>b c'. RunOperation g (cseq (mdm_call call) (set_this (isConfigured_update (\<lambda>_. True)))) c = (Inr b, c') \<and>
    at_log run log (l @ [q]) c'"
proof -
  obtain r w where run: "run '''' q (wld c) = (r, w)" and r: "r \<noteq> Inl Terminate"
    and c1: "at_log run log (l @ [q]) (c\<lparr>wld := w\<rparr>)" using request_log [OF logs c] .
  have mdm: "mdmServer (this c) = Some run" using c by (simp add: at_log_def)
  show ?thesis
    using run r c1 mdm
    by (cases r) (auto simp: RunOperation_def cmd_simps mdm_call_def on_world_def call RunSyncML_def set_this_def
        catchable_iff at_log_def)
qed

lemma UninstallCertificate_log:
  assumes "mdm_logs run log" and "at_log run log l c"
  shows "\<exists>b c'. UninstallCertificateHandler cspPath t c = (Inr b, c') \<and>
    at_log run log (l @ [delete_request (cspPath @ ''/'' @ t)]) c'"
  unfolding UninstallCertificateHandler_def by (rule change_log [OF assms]) (simp add: RunDelete_def)

lemma InstallCertificate_log:
  assumes "mdm_logs run log" and "at_log run log l c"
  shows "\<exists>b c'. InstallCertificateHandler cspPath t b64 c = (Inr b, c') \<and>
    at_log run log (l @ [add_data_request (cspPath @ ''/'' @ t @ ''/EncodedCertificate'') b64 ''b64'']) c'"
  unfolding InstallCertificateHandler_def
  by (rule change_log [OF assms]) (simp add: RunAddDataBase64_def RunAddData_def)

lemma uninstall_all_log:
  assumes "mdm_logs run log"
  shows "at_log run log l c \<Longrightarrow>
    \<exists>c'. cfor (\<lambda>t. cseq (UninstallCertificateHandler cspPath t) (cret ())) ts c = (Inr (), c') \<and>
      at_log run log (l @ map (\<lambda>t. delete_request (cspPath @ ''/'' @ t)) ts) c'"
proof (induction ts arbitrary: c l)
  case Nil
  then show ?case by (simp add: cmd_simps)
next
  case (Cons t ts)
  obtain b c1 where 1: "UninstallCertificateHandler cspPath t c = (Inr b, c1)"
    "at_log run log (l @ [delete_request (cspPath @ ''/'' @ t)]) c1"
    using UninstallCertificate_log [OF assms Cons.prems] by blast
  from Cons.IH [OF 1(2)] 1(1) show ?case by (auto simp: cmd_simps)
qed

text \<open>A request that adds a certificate to a store.\<close>

definition adds_to :: "string \<Rightarrow> string \<Rightarrow> bool" where
  "adds_to cspPath q \<longleftrightarrow> (\<exists>t b64. q = add_data_request (cspPath @ ''/'' @ t @ ''/EncodedCertificate'') b64 ''b64'')"

lemma on_world_log:
  assumes "silent log m" and "at_log run log l c"
  obtains r c' where "on_world m c = (r, c')" "r \<noteq> Inl Terminate" "at_log run log l c'"
proof -
  obtain r w where m: "m (wld c) = (r, w)" by (cases "m (wld c)")
  with assms have "r \<noteq> Inl Terminate" "log w = l" by (auto simp: silent_def at_log_def dest: spec [of _ "wld c"])
  moreover have "on_world m c = (r, c\<lparr>wld := w\<rparr>)" using m by (simp add: on_world_def)
  ultimately show thesis using that at_log_world [OF assms(2)] by blast
qed

lemma install_all_log:
  assumes logs: "mdm_logs run log" and env: "silent_env log env"
  shows "at_log run log l c \<Longrightarrow>
    \<exists>r c' as. install_certificates env cspPath certs c = (r, c') \<and> at_log run log (l @ as) c' \<and> list_all (adds_to cspPath) as"
proof (induction certs arbitrary: c l)
  case Nil
  then show ?case by (auto simp: cmd_simps intro: exI [of _ "[]"])
next
  case (Cons cert certs)
  obtain r c1 where 1: "on_world (FileToBase64 env (fullFileName cert)) c = (r, c1)" "at_log run log l c1"
    using on_world_log [OF silent_files(2) [OF env] Cons.prems] by metis
  show ?case
  proof (cases r)
    case (Inl e)
    with 1 show ?thesis by (intro exI [of _ "Inl e"] exI [of _ c1] exI [of _ "[]"]) (simp add: cmd_simps)
  next
    case (Inr b64)
    let ?q = "add_data_request (cspPath @ ''/'' @ thumbPrint cert @ ''/EncodedCertificate'') b64 ''b64''"
    obtain b c2 where 2: "InstallCertificateHandler cspPath (thumbPrint cert) b64 c1 = (Inr b, c2)"
      "at_log run log (l @ [?q]) c2"
      using InstallCertificate_log [OF logs 1(2)] by blast
    have q: "adds_to cspPath ?q" by (auto simp: adds_to_def)
    obtain r3 c3 where 3: "on_world (cv_remove env (fullFileName cert)) c2 = (r3, c3)" "at_log run log (l @ [?q]) c3"
      using on_world_log [of log "cv_remove env (fullFileName cert)", OF _ 2(2)] env [unfolded silent_env_def] by metis
    show ?thesis
    proof (cases r3)
      case (Inl e)
      with 1 2 3 Inr q show ?thesis
        by (intro exI [of _ "Inl e"] exI [of _ c3] exI [of _ "[?q]"]) (simp add: cmd_simps)
    next
      case (Inr u)
      obtain r4 c4 as where 4: "install_certificates env cspPath certs c3 = (r4, c4)"
        "at_log run log ((l @ [?q]) @ as) c4" "list_all (adds_to cspPath) as"
        using Cons.IH [OF 3(2)] by blast
      then show ?thesis
        using 1 2 3 Inr \<open>r = Inr b64\<close> q
        by (intro exI [of _ "case r4 of Inl e \<Rightarrow> Inl e | Inr hs \<Rightarrow> Inr ((if b then [thumbPrint cert] else []) @ hs)"]
            exI [of _ c4] exI [of _ "?q # as"]) (cases r4; simp add: cmd_simps)
    qed
  qed
qed

lemma RunGetString_log:
  assumes "mdm_logs run log" and c: "at_log run log l c"
  obtains r c' where "mdm_call (\<lambda>m. RunGetString xl m cspPath) c = (r, c')" "r \<noteq> Inl Terminate"
    "at_log run log (l @ [list_request cspPath]) c'" "fst (RunGetString xl (Some run) cspPath (wld c)) = r"
proof -
  obtain q w where run: "run '''' (list_request cspPath) (wld c) = (q, w)" and q: "q \<noteq> Inl Terminate"
    and w: "at_log run log (l @ [list_request cspPath]) (c\<lparr>wld := w\<rparr>)" using request_log [OF assms] .
  have mdm: "mdmServer (this c) = Some run" using c by (simp add: at_log_def)
  define r where "r = fst (RunGetString xl (Some run) cspPath (wld c))"
  have "mdm_call (\<lambda>m. RunGetString xl m cspPath) c = (r, c\<lparr>wld := w\<rparr>)" and "r \<noteq> Inl Terminate"
    using run q mdm ReadXmlValue_catchable [of xl _ RESULTS_XML_PATH Terminate]
    by (auto simp: r_def mdm_call_def on_world_def RunGetString_def RunSyncML_def cmd_simps list_request_def
        split: sum.splits)
  then show thesis using that w r_def by blast
qed

lemma cret_at: "cret x s = (Inr x, s)"
  by (simp add: cret_def)

lemma plan_store_log:
  assumes logs: "mdm_logs run log" and env: "silent_env log env" and c: "at_log run log l c"
  shows "\<exists>ds c'. plan_store env s p desired conn c = (Inr ds, c') \<and> at_log run log (l @ [list_request p]) c' \<and>
    uninstalls ds = planned_removals env (Some run) desired (s, p) (wld c)"
proof -
  obtain r c1 where 1: "mdm_call (\<lambda>m. RunGetString (cv_xml env) m p) c = (r, c1)" "r \<noteq> Inl Terminate"
    "at_log run log (l @ [list_request p]) c1" "fst (RunGetString (cv_xml env) (Some run) p (wld c)) = r"
    using RunGetString_log [OF logs c] .
  let ?body = "cbind (mdm_call (\<lambda>m. RunGetString (cv_xml env) m p)) (\<lambda>info.
      cbind (clift (TryGetJsonValue desired s)) (\<lambda>store. case store of None \<Rightarrow> cret []
      | Some v \<Rightarrow> decide_certificates env conn (SplitString CHR ''/'' info) (json_entries v)))"
  have "\<exists>r2 c2. ?body c = (r2, c2) \<and> at_log run log (l @ [list_request p]) c2 \<and> r2 \<noteq> Inl Terminate \<and>
      uninstalls (case r2 of Inl _ \<Rightarrow> [] | Inr ds \<Rightarrow> ds) = planned_removals env (Some run) desired (s, p) (wld c)"
  proof (cases r)
    case (Inl e)
    with 1 show ?thesis by (auto simp: cmd_simps planned_removals_def)
  next
    case (Inr info)
    show ?thesis
    proof (cases "TryGetJsonValue desired s")
      case (Inl e)
      with Inr 1 TryGetJsonValue_catchable [OF Inl] show ?thesis by (auto simp: cmd_simps planned_removals_def)
    next
      case (Inr store)
      show ?thesis
      proof (cases store)
        case None
        with \<open>r = Inr info\<close> Inr 1 show ?thesis by (auto simp: cmd_simps planned_removals_def)
      next
        case (Some v)
        obtain ds c2 where "decide_certificates env conn (SplitString CHR ''/'' info) (json_entries v) c1 = (Inr ds, c2)"
          "at_log run log (l @ [list_request p]) c2" "uninstalls ds = removals (SplitString CHR ''/'' info) (json_entries v)"
          using decide_certificates_log [OF env 1(3)] by blast
        with Some \<open>r = Inr info\<close> Inr 1 show ?thesis by (auto simp: cmd_simps planned_removals_def)
      qed
    qed
  qed
  then obtain r2 c2 where body: "?body c = (r2, c2)" "at_log run log (l @ [list_request p]) c2" "r2 \<noteq> Inl Terminate"
    "uninstalls (case r2 of Inl _ \<Rightarrow> [] | Inr ds \<Rightarrow> ds) = planned_removals env (Some run) desired (s, p) (wld c)" by blast
  show ?thesis
  proof (cases r2)
    case (Inl e)
    with body RunOperation_value_exn [of ?body c e c2 s] show ?thesis
      by (auto simp: plan_store_def cbind_def [of "RunOperation_value _ _"] cret_at catchable_iff)
  next
    case (Inr ds)
    with body RunOperation_value_ok [of ?body c ds c2 s] show ?thesis
      by (auto simp: plan_store_def cbind_def [of "RunOperation_value _ _"] cret_at)
  qed
qed

section \<open>Properties\<close>

text \<open>
  C38: for a store the handler asks the server for the list of its certificates, then to delete,
  once each and in order, exactly those the configuration wants uninstalled and the list names,
  whichever of the deletions are refused, and then only to add certificates to that store; when
  the list cannot be read nothing is deleted.
\<close>

theorem only_unwanted_certificates_deleted:
  assumes "mdm_logs run log" and "silent_env log env" and "mdmServer (this c) = Some run"
  shows "\<exists>as. list_all (adds_to (snd store)) as \<and>
    log (wld (snd (ModifyCertificatesHandler env desired conn store inst c))) =
      log (wld c) @ list_request (snd store) #
        map (\<lambda>t. delete_request (snd store @ ''/'' @ t)) (planned_removals env (Some run) desired store (wld c)) @ as"
proof -
  obtain s p where store: "store = (s, p)" by (cases store)
  have c: "at_log run log (log (wld c)) c" using assms(3) by (simp add: at_log_def)
  obtain ds c1 where 1: "plan_store env s p desired conn c = (Inr ds, c1)"
    "at_log run log (log (wld c) @ [list_request p]) c1"
    "uninstalls ds = planned_removals env (Some run) desired (s, p) (wld c)"
    using plan_store_log [OF assms(1,2) c] by blast
  let ?dels = "map (\<lambda>t. delete_request (p @ ''/'' @ t)) (uninstalls ds)"
  obtain c2 where 2: "cfor (\<lambda>t. cseq (UninstallCertificateHandler p t) (cret ())) (uninstalls ds) c1 = (Inr (), c2)"
    "at_log run log ((log (wld c) @ [list_request p]) @ ?dels) c2"
    using uninstall_all_log [OF assms(1) 1(2)] by blast
  obtain r c3 as where 3: "install_certificates env p (installs ds) c2 = (r, c3)"
    "at_log run log (((log (wld c) @ [list_request p]) @ ?dels) @ as) c3" "list_all (adds_to p) as"
    using install_all_log [OF assms(1,2) 2(2)] by blast
  have "snd (ModifyCertificatesHandler env desired conn store inst c) = c3"
    using 1(1) 2(1) 3(1) by (cases r) (simp_all add: ModifyCertificatesHandler_def store cmd_simps)
  with 3 1(3) show ?thesis by (auto simp: at_log_def store)
qed

text \<open>A world with a log of the requests, a server that refuses every deletion, and a store of two.\<close>

definition sample_store_answer :: "xml list" where
  "sample_store_answer = [XElem [] ''SyncML'' [XElem [] ''SyncBody'' [XElem [] ''Results'' [XElem [] ''Item''
     [XElem [] ''Data'' [XText False ''AA/bb'']]]]]]"

definition sample_store_server :: "string \<Rightarrow> string \<Rightarrow> (string list world_scheme, string) cmd" where
  "sample_store_server sid q = (\<lambda>w.
     (if q = list_request ''root'' then Inr ''answer'' else Inl (DMException ''MDM'' 500 ''refused''),
      world.more_update (\<lambda>l. l @ [q]) w))"

definition sample_cert_env :: "string list world_scheme cert_env" where
  "sample_cert_env =
     \<lparr>cv_xml = \<lparr>xl_stream = 0, xl_create = 0, xl_property = 0, xl_input = 0,
        xl_nodes = (\<lambda>t. concat (map xml_events sample_store_answer))\<rparr>,
      cv_DownloadBlob = (\<lambda>a b c. cret ''blob''), cv_GetTempPath = cret (Some ''tmp''), cv_WriteFile = (\<lambda>p b. cret ()),
      cv_read = (\<lambda>p. cret (Some (Some ''bytes''))), cv_CreateContext = (\<lambda>b. cret (Some b)),
      cv_HashCertificate = (\<lambda>b. cret (Some ''AB'')), cv_BinaryToString = (\<lambda>b. cret (Some (Some b))), cv_remove = (\<lambda>p. cret ())\<rparr>"

definition sample_cert_handler :: "string list world_scheme MdmHandlerBase" where
  "sample_cert_handler = \<lparr>handlerId = ''certificates'', isConfigured = False, metaData = MetaData_new,
     iPluginHost = None, deploymentStatusJson = JNull, handlerConfig = JNull,
     reportedSchema = ReportedSchema_new ''raw'' ''dm'' InterfaceVersion, mdmServer = Some sample_store_server\<rparr>"

definition sample_cert_state :: json where
  "sample_cert_state = JObject [(''r'', JObject [
     (''aa'', JObject [(''state'', JString ''uninstalled'')]), (''bb'', JObject [(''state'', JString ''installed'')]),
     (''cc'', JObject [(''state'', JString ''uninstalled'')])])]"

definition sample_cert_ctx :: "(string list world_scheme MdmHandlerBase, string list world_scheme) ctx" where
  "sample_cert_ctx = ctx_new sample_cert_handler (world.extend sample_world [])"

theorem only_unwanted_certificates_deleted_witness:
  "\<exists>as. list_all (adds_to ''root'') as \<and>
     world.more (wld (snd (ModifyCertificatesHandler sample_cert_env sample_cert_state None (''r'', ''root'') (\<lambda>_. []) sample_cert_ctx)))
     = list_request ''root'' # delete_request ''root/aa'' # as"
proof -
  have 1: "mdm_logs sample_store_server world.more"
    by (simp add: mdm_logs_def sample_store_server_def)
  have 2: "silent_env world.more sample_cert_env"
    by (simp add: silent_env_def sample_cert_env_def silent_basic)
  have 3: "mdmServer (this sample_cert_ctx) = Some sample_store_server"
    by (simp add: sample_cert_ctx_def ctx_new_def sample_cert_handler_def)
  have log: "world.more (wld sample_cert_ctx) = []"
    by (simp add: sample_cert_ctx_def ctx_new_def world.defs)
  have read: "ReadXmlValue (cv_xml sample_cert_env) ''answer'' RESULTS_XML_PATH = Inr ''AA/bb''"
    by (simp add: ReadXmlValue_def open_reader_def sample_cert_env_def FAILED_def sample_store_answer_def
        RESULTS_XML_PATH_def data_names_def item_names_def value_locals_new_def element_name_def
        value_open_def Let_def xml_path_def qname_def node_text_def value_text_def backslash_def)
  have lower: "map towlower ''AA'' = ''aa''" "map towlower ''aa'' = ''aa''" "map towlower ''bb'' = ''bb''" "map towlower ''cc'' = ''cc''"
    by code_simp+
  have "planned_removals sample_cert_env (Some sample_store_server) sample_cert_state (''r'', ''root'') (wld sample_cert_ctx) = [''aa'']"
    using read
    by (simp add: planned_removals_def RunGetString_def RunSyncML_def cmd_simps sample_store_server_def list_request_def
        c_str_def sample_cert_state_def TryGetJsonValue_member SplitString.simps removals_def to_remove_def
        GetStringJsonValue_def TryGetStringJsonValue_def same_name_def lower [simplified])
  then show ?thesis
    using only_unwanted_certificates_deleted [OF 1 2 3, of "(''r'', ''root'')" sample_cert_state None "\<lambda>_. []"] log by simp
qed

lemma installed_members:
  "CreateInstalledCertificateJsonList certs = JObject (foldl (\<lambda>m t. sm_put t (JString []) m) [] certs)"
proof -
  have "foldl (\<lambda>acc t. jput t (JString []) acc) (JObject m) certs = JObject (foldl (\<lambda>m t. sm_put t (JString []) m) m certs)" for m
    by (induction certs arbitrary: m) simp_all
  then show ?thesis by (simp add: CreateInstalledCertificateJsonList_def)
qed

lemma installed_entries:
  "sm_wf (foldl (\<lambda>m t. sm_put t v m) [] certs)"
  "map_of (foldl (\<lambda>m t. sm_put t v m) [] certs) t = (if t \<in> set certs then Some v else None)"
proof -
  have "sm_wf m \<Longrightarrow> sm_wf (foldl (\<lambda>m t. sm_put t v m) m certs)" for m
    by (induction certs arbitrary: m) simp_all
  moreover have "map_of (foldl (\<lambda>m t. sm_put t v m) m certs) t = (if t \<in> set certs then Some v else map_of m t)" for m
    by (induction certs arbitrary: m) simp_all
  ultimately show "sm_wf (foldl (\<lambda>m t. sm_put t v m) [] certs)"
    "map_of (foldl (\<lambda>m t. sm_put t v m) [] certs) t = (if t \<in> set certs then Some v else None)" by simp_all
qed

lemma report_put_object:
  "reported c = JObject m \<Longrightarrow> report_put k v c = (Inr (), c\<lparr>reported := JObject (sm_put k v m)\<rparr>)"
  by (simp add: report_put_def cmd_simps)

lemma report_members:
  "reported c = JObject m \<Longrightarrow>
     \<exists>m'. cfor (\<lambda>(member, store). report_put member (f store)) rs c = (Inr (), c\<lparr>reported := JObject m'\<rparr>) \<and>
       map_of m' = map_of m ++ map_of (rev (map (\<lambda>r. (fst r, f (snd r))) rs))"
proof (induction rs arbitrary: c m)
  case Nil
  then show ?case by (auto simp: cmd_simps intro: exI [of _ m])
next
  case (Cons r rs)
  obtain member store where r: "r = (member, store)" by (cases r)
  let ?c = "c\<lparr>reported := JObject (sm_put member (f store) m)\<rparr>"
  have "reported ?c = JObject (sm_put member (f store) m)" by simp
  from Cons.IH [OF this] obtain m' where
    "cfor (\<lambda>(member, store). report_put member (f store)) rs ?c = (Inr (), ?c\<lparr>reported := JObject m'\<rparr>)"
    "map_of m' = map_of (sm_put member (f store) m) ++ map_of (rev (map (\<lambda>r. (fst r, f (snd r))) rs))" by blast
  moreover from this(2) have "map_of m' = map_of m ++ map_of (rev (map (\<lambda>r. (fst r, f (snd r))) (r # rs)))"
    by (simp add: r map_add_assoc)
  ultimately show ?case
    by (intro exI [of _ m']) (simp add: r cmd_simps report_put_object [OF Cons.prems])
qed

text \<open>
  The report lists under every store exactly the certificates found or newly installed in
  it, each once with an empty text; except that under the My store of the system it lists those
  of the My store of the user.
\<close>

theorem certificate_report:
  assumes "reported c = JObject m"
  shows "\<exists>m'. Certificates_BuildReported inst c = (Inr (), c\<lparr>reported := JObject m'\<rparr>) \<and>
    (\<forall>s \<in> fst ` set certificate_stores. \<exists>certs. map_of m' s = Some (JObject certs) \<and> sm_wf certs \<and>
       map_of certs = (\<lambda>t. if t \<in> set (inst (if s = ''certificateStore_My_System'' then ''certificateStore_My_User'' else s))
                           then Some (JString []) else None))"
proof -
  obtain m' where m': "Certificates_BuildReported inst c = (Inr (), c\<lparr>reported := JObject m'\<rparr>)"
    "map_of m' = map_of m ++ map_of (rev (map (\<lambda>r. (fst r, CreateInstalledCertificateJsonList (inst (snd r)))) reported_stores))"
    using report_members [OF assms, of "\<lambda>s. CreateInstalledCertificateJsonList (inst s)" reported_stores]
    unfolding Certificates_BuildReported_def by blast
  have "map_of m' s = Some (CreateInstalledCertificateJsonList
      (inst (if s = ''certificateStore_My_System'' then ''certificateStore_My_User'' else s)))"
    if "s \<in> fst ` set certificate_stores" for s
    using that unfolding m'(2) by (auto simp: certificate_stores_def reported_stores_def map_add_def)
  from this [unfolded installed_members]
  have "\<exists>certs. map_of m' s = Some (JObject certs) \<and> sm_wf certs \<and>
       map_of certs = (\<lambda>t. if t \<in> set (inst (if s = ''certificateStore_My_System'' then ''certificateStore_My_User'' else s))
                           then Some (JString []) else None)"
    if "s \<in> fst ` set certificate_stores" for s
    using that by (intro exI [of _ "foldl (\<lambda>m t. sm_put t (JString []) m) [] (inst
      (if s = ''certificateStore_My_System'' then ''certificateStore_My_User'' else s))"]) (auto simp: installed_entries fun_eq_iff)
  with m'(1) show ?thesis by blast
qed

theorem certificate_report_witness:
  "\<exists>m' certs. Certificates_BuildReported ((\<lambda>_. [])(''certificateStore_My_User'' := [''aa''])) sample_cert_ctx =
       (Inr (), sample_cert_ctx\<lparr>reported := JObject m'\<rparr>) \<and>
     map_of m' ''certificateStore_My_System'' = Some (JObject certs) \<and> map_of certs ''aa'' = Some (JString [])"
proof -
  have "reported sample_cert_ctx = JObject []" by (simp add: sample_cert_ctx_def ctx_new_def)
  from certificate_report [OF this, of "(\<lambda>_. [])(''certificateStore_My_User'' := [''aa''])"] obtain m' where
    m': "Certificates_BuildReported ((\<lambda>_. [])(''certificateStore_My_User'' := [''aa''])) sample_cert_ctx =
      (Inr (), sample_cert_ctx\<lparr>reported := JObject m'\<rparr>)"
    "\<forall>s \<in> fst ` set certificate_stores. \<exists>certs. map_of m' s = Some (JObject certs) \<and> sm_wf certs \<and>
       map_of certs = (\<lambda>t. if t \<in> set (((\<lambda>_. [])(''certificateStore_My_User'' := [''aa'']))
                              (if s = ''certificateStore_My_System'' then ''certificateStore_My_User'' else s))
                           then Some (JString []) else None)" by blast
  have "''certificateStore_My_System'' \<in> fst ` set certificate_stores" by (simp add: certificate_stores_def)
  from bspec [OF m'(2) this] m'(1) show ?thesis by auto
qed

end
