(* ===== verification/Limpet_Text.thy ===== *)
theory Limpet_Text
  imports Json_Value "HOL-Library.Word"
begin

unbundle bit_operations_syntax

text \<open>
  The encodings of LimpetApi.cpp: the percent encoding of signatures and object names
  (\<open>urlEncoding\<close>, \<open>LimpetSanitizeString\<close>) and the base-32 form of the registration id
  (\<open>Azure_EncodeBase32\<close>), each compared with a reference: the decoding of percent escapes to
  UTF-8, and the regrouping of the bits.
\<close>

section \<open>Percent encoding\<close>

definition urlEncoding :: "string list" where
  "urlEncoding = [
    [CHR 0x00], ''%01'', ''%02'', ''%03'', ''%04'', ''%05'', ''%06'', ''%07'',
    ''%08'', ''%09'', ''%0a'', ''%0b'', ''%0c'', ''%0d'', ''%0e'', ''%0f'',
    ''%10'', ''%11'', ''%12'', ''%13'', ''%14'', ''%15'', ''%16'', ''%17'',
    ''%18'', ''%19'', ''%1a'', ''%1b'', ''%1c'', ''%1d'', ''%1e'', ''%1f'',
    ''%20'', ''!'', ''%22'', ''%23'', ''%24'', ''%25'', ''%26'', ''%27'',
    ''('', '')'', ''*'', ''%2b'', ''%2c'', ''-'', ''.'', ''%2f'',
    ''0'', ''1'', ''2'', ''3'', ''4'', ''5'', ''6'', ''7'',
    ''8'', ''9'', ''%3a'', ''%3b'', ''%3c'', ''%3d'', ''%3e'', ''%3f'',
    ''%40'', ''A'', ''B'', ''C'', ''D'', ''E'', ''F'', ''G'',
    ''H'', ''I'', ''J'', ''K'', ''L'', ''M'', ''N'', ''O'',
    ''P'', ''Q'', ''R'', ''S'', ''T'', ''U'', ''V'', ''W'',
    ''X'', ''Y'', ''Z'', ''%5b'', ''%5c'', ''%5d'', ''%5e'', ''_'',
    ''%60'', ''a'', ''b'', ''c'', ''d'', ''e'', ''f'', ''g'',
    ''h'', ''i'', ''j'', ''k'', ''l'', ''m'', ''n'', ''o'',
    ''p'', ''q'', ''r'', ''s'', ''t'', ''u'', ''v'', ''w'',
    ''x'', ''y'', ''z'', ''%7b'', ''%7c'', ''%7d'', ''%7e'', ''%7f'',
    ''%c2%80'', ''%c2%81'', ''%c2%82'', ''%c2%83'', ''%c2%84'', ''%c2%85'', ''%c2%86'', ''%c2%87'',
    ''%c2%88'', ''%c2%89'', ''%c2%8a'', ''%c2%8b'', ''%c2%8c'', ''%c2%8d'', ''%c2%8e'', ''%c2%8f'',
    ''%c2%90'', ''%c2%91'', ''%c2%92'', ''%c2%93'', ''%c2%94'', ''%c2%95'', ''%c2%96'', ''%c2%97'',
    ''%c2%98'', ''%c2%99'', ''%c2%9a'', ''%c2%9b'', ''%c2%9c'', ''%c2%9d'', ''%c2%9e'', ''%c2%9f'',
    ''%c2%a0'', ''%c2%a1'', ''%c2%a2'', ''%c2%a3'', ''%c2%a4'', ''%c2%a5'', ''%c2%a6'', ''%c2%a7'',
    ''%c2%a8'', ''%c2%a9'', ''%c2%aa'', ''%c2%ab'', ''%c2%ac'', ''%c2%ad'', ''%c2%ae'', ''%c2%af'',
    ''%c2%b0'', ''%c2%b1'', ''%c2%b2'', ''%c2%b3'', ''%c2%b4'', ''%c2%b5'', ''%c2%b6'', ''%c2%b7'',
    ''%c2%b8'', ''%c2%b9'', ''%c2%ba'', ''%c2%bb'', ''%c2%bc'', ''%c2%bd'', ''%c2%be'', ''%c2%bf'',
    ''%c3%80'', ''%c3%81'', ''%c3%82'', ''%c3%83'', ''%c3%84'', ''%c3%85'', ''%c3%86'', ''%c3%87'',
    ''%c3%88'', ''%c3%89'', ''%c3%8a'', ''%c3%8b'', ''%c3%8c'', ''%c3%8d'', ''%c3%8e'', ''%c3%8f'',
    ''%c3%90'', ''%c3%91'', ''%c3%92'', ''%c3%93'', ''%c3%94'', ''%c3%95'', ''%c3%96'', ''%c3%97'',
    ''%c3%98'', ''%c3%99'', ''%c3%9a'', ''%c3%9b'', ''%c3%9c'', ''%c3%9d'', ''%c3%9e'', ''%c3%9f'',
    ''%c3%a0'', ''%c3%a1'', ''%c3%a2'', ''%c3%a3'', ''%c3%a4'', ''%c3%a5'', ''%c3%a6'', ''%c3%a7'',
    ''%c3%a8'', ''%c3%a9'', ''%c3%aa'', ''%c3%ab'', ''%c3%ac'', ''%c3%ad'', ''%c3%ae'', ''%c3%af'',
    ''%c3%b0'', ''%c3%b1'', ''%c3%b2'', ''%c3%b3'', ''%c3%b4'', ''%c3%b5'', ''%c3%b6'', ''%c3%b7'',
    ''%c3%b8'', ''%c3%b9'', ''%c3%ba'', ''%c3%bb'', ''%c3%bc'', ''%c3%bd'', ''%c3%be'', ''%c3%bf'']"

abbreviation LIMPET_STRING_SIZE :: nat where
  "LIMPET_STRING_SIZE \<equiv> 512"

text \<open>
  The loop of \<open>LimpetSanitizeString\<close> over the characters before the terminating NUL: \<open>text\<close> is
  what the output holds before \<open>indexOut\<close>; \<open>StringCchCopyW\<close> fails when the entry and its NUL do
  not fit behind it.  \<open>None\<close> is \<open>TPM_RC_FAILURE\<close>.  For an empty input the code writes nothing, not
  even the NUL, into a buffer it did not set; the text is then taken to be empty.
\<close>

fun sanitize_loop :: "nat \<Rightarrow> nat \<Rightarrow> string \<Rightarrow> 16 word list \<Rightarrow> string option" where
  "sanitize_loop indexIn indexOut text [] = Some text"
| "sanitize_loop indexIn indexOut text (c # cs) =
     (if indexIn \<ge> LIMPET_STRING_SIZE \<or> indexOut \<ge> LIMPET_STRING_SIZE \<or> c > 0xff then None
      else let enc = urlEncoding ! unat c
           in if length enc + 1 > LIMPET_STRING_SIZE - indexOut then None
              else sanitize_loop (indexIn + 1) (indexOut + length enc) (take indexOut text @ enc) cs)"

definition LimpetSanitizeString :: "16 word list \<Rightarrow> string option" where
  "LimpetSanitizeString szHmac = sanitize_loop 0 0 [] (takeWhile (\<lambda>c. c \<noteq> 0) szHmac)"

text \<open>Reading percent escapes back, to bytes; and the UTF-8 bytes of a character below 256.\<close>

definition hex_digit :: "char \<Rightarrow> nat" where
  "hex_digit c = (let n = of_char c in if n \<le> 57 then n - 48 else if n \<le> 70 then n - 55 else n - 87)"

fun pct_decode :: "string \<Rightarrow> nat list" where
  "pct_decode [] = []"
| "pct_decode (c # s) =
     (if c = CHR ''%'' \<and> length s \<ge> 2
      then (16 * hex_digit (s ! 0) + hex_digit (s ! 1)) # pct_decode (drop 2 s)
      else of_char c # pct_decode s)"

definition utf8 :: "nat \<Rightarrow> nat list" where
  "utf8 n = (if n < 128 then [n] else [192 + n div 64, 128 + n mod 64])"

text \<open>A text of whole escapes and plain characters.\<close>

fun whole_escapes :: "string \<Rightarrow> bool" where
  "whole_escapes [] \<longleftrightarrow> True"
| "whole_escapes (c # s) \<longleftrightarrow>
     (if c = CHR ''%'' then length s \<ge> 2 \<and> whole_escapes (drop 2 s) else whole_escapes s)"

lemma pct_decode_append:
  "whole_escapes a \<Longrightarrow> pct_decode (a @ b) = pct_decode a @ pct_decode b"
proof (induction a rule: whole_escapes.induct)
  case (2 c s)
  show ?case
  proof (cases "c = CHR ''%''")
    case True
    with 2 have "length s \<ge> 2" "whole_escapes (drop 2 s)" by simp_all
    with 2 True show ?thesis by (auto simp: nth_append)
  qed (use 2 in simp)
qed simp

lemma whole_escapes_append: "whole_escapes a \<Longrightarrow> whole_escapes b \<Longrightarrow> whole_escapes (a @ b)"
  by (induction a rule: whole_escapes.induct) (auto split: if_splits)

lemma urlEncoding_256: "length urlEncoding = 256"
  by (simp add: urlEncoding_def)

fun entries_decode :: "nat \<Rightarrow> string list \<Rightarrow> bool" where
  "entries_decode n [] \<longleftrightarrow> True"
| "entries_decode n (t # ts) \<longleftrightarrow>
     t \<noteq> [] \<and> whole_escapes t \<and> pct_decode t = utf8 n \<and> entries_decode (n + 1) ts"

lemma entries_decode_nth:
  "entries_decode n ts \<Longrightarrow> k < length ts \<Longrightarrow>
     ts ! k \<noteq> [] \<and> whole_escapes (ts ! k) \<and> pct_decode (ts ! k) = utf8 (n + k)"
  by (induction ts arbitrary: n k) (auto simp: nth_Cons' gr0_conv_Suc)

lemma urlEncoding_decodes: "entries_decode 0 urlEncoding"
  by (simp add: urlEncoding_def utf8_def hex_digit_def)

lemmas urlEncoding_entry = entries_decode_nth [OF urlEncoding_decodes, unfolded urlEncoding_256, simplified]

definition encoded_chars :: "16 word list \<Rightarrow> string" where
  "encoded_chars cs = concat (map (\<lambda>c. urlEncoding ! unat c) cs)"

lemma unat_latin1: "\<not> c > (0xff :: 16 word) \<Longrightarrow> unat c < 256"
  by (simp add: word_less_nat_alt not_less word_le_nat_alt)

lemma sanitize_loop_eq:
  "indexIn \<le> length done_text \<Longrightarrow> length done_text < LIMPET_STRING_SIZE \<Longrightarrow>
   sanitize_loop indexIn (length done_text) done_text cs =
     (if list_all (\<lambda>c. c \<le> 0xff) cs \<and> length done_text + length (encoded_chars cs) < LIMPET_STRING_SIZE
      then Some (done_text @ encoded_chars cs) else None)"
proof (induction cs arbitrary: indexIn done_text)
  case Nil
  then show ?case by (simp add: encoded_chars_def)
next
  case (Cons c cs)
  let ?enc = "urlEncoding ! unat c"
  show ?case
  proof (cases "c > 0xff \<or> length ?enc + 1 > LIMPET_STRING_SIZE - length done_text")
    case True
    then have "\<not> (c \<le> 0xff \<and> length done_text + (length ?enc + length (encoded_chars cs)) < LIMPET_STRING_SIZE)"
      by (auto simp: not_le)
    with True Cons.prems show ?thesis by (auto simp: Let_def encoded_chars_def)
  next
    case False
    then have "?enc \<noteq> []" using urlEncoding_entry(1) [of "unat c"] unat_latin1 by simp
    then have "indexIn + 1 \<le> length (done_text @ ?enc)" using Cons.prems by (cases ?enc) simp_all
    moreover have "length (done_text @ ?enc) < LIMPET_STRING_SIZE" using False Cons.prems by auto
    ultimately show ?thesis
      using False Cons.IH [of "indexIn + 1" "done_text @ ?enc"] Cons.prems
      by (simp add: Let_def encoded_chars_def add.assoc not_less)
  qed
qed

lemma pct_decode_encoded:
  "list_all (\<lambda>c. c \<le> 0xff) cs \<Longrightarrow>
     whole_escapes (encoded_chars cs) \<and> pct_decode (encoded_chars cs) = concat (map (utf8 \<circ> unat) cs)"
proof (induction cs)
  case (Cons c cs)
  have "unat c < 256" using Cons.prems unat_latin1 [of c] by (simp add: not_less)
  from urlEncoding_entry [OF this] Cons show ?case
    by (simp add: encoded_chars_def pct_decode_append whole_escapes_append)
qed (simp add: encoded_chars_def)

section \<open>Base 32\<close>

text \<open>
  One block of one to five bytes as eight positions in the alphabet, 32 being the padding;
  the fall-through of the first \<open>switch\<close> is the conditional on the block length.
\<close>

definition encode_block :: "8 word list \<Rightarrow> 8 word list" where
  "encode_block b =
     (let n = length b;
          at = (\<lambda>i. if i < n then b ! i else 0);
          pos1 = drop_bit 3 (at 0 AND 0xf8);
          pos2 = push_bit 2 (at 0 AND 0x07) OR drop_bit 6 (at 1 AND 0xc0);
          pos3 = (if n = 1 then 32 else drop_bit 1 (at 1 AND 0x3e));
          pos4 = (if n = 1 then 32 else push_bit 4 (at 1 AND 0x01) OR drop_bit 4 (at 2 AND 0xf0));
          pos5 = (if n \<le> 2 then 32 else push_bit 1 (at 2 AND 0x0f) OR drop_bit 7 (at 3 AND 0x80));
          pos6 = (if n \<le> 3 then 32 else drop_bit 2 (at 3 AND 0x7c));
          pos7 = (if n \<le> 3 then 32 else push_bit 3 (at 3 AND 0x03) OR drop_bit 5 (at 4 AND 0xe0));
          pos8 = (if n \<le> 4 then 32 else at 4 AND 0x1f)
      in [pos1, pos2, pos3, pos4, pos5, pos6, pos7, pos8])"

definition BASE32_VALUES :: string where
  "BASE32_VALUES = ''abcdefghijklmnopqrstuvwxyz234567=''"

function encode_blocks :: "8 word list \<Rightarrow> string" where
  "encode_blocks bs =
     (if bs = [] then []
      else map (\<lambda>p. BASE32_VALUES ! unat p) (encode_block (take 5 bs)) @ encode_blocks (drop 5 bs))"
  by pat_completeness auto
termination by (relation "measure length") (auto simp: length_greater_0_conv)

declare encode_blocks.simps [simp del]

definition Azure_EncodeBase32 :: "8 word list \<Rightarrow> string" where
  "Azure_EncodeBase32 pData =
     (if length pData = 0 then [] else takeWhile (\<lambda>c. c \<noteq> CHR ''='') (encode_blocks pData))"

text \<open>
  The reference: the bits of the bytes, most significant first, regrouped by fives with zeros
  filled in behind the last, each group a character of the alphabet.
\<close>

definition bits_of :: "8 word \<Rightarrow> bool list" where
  "bits_of w = map (bit w) [7, 6, 5, 4, 3, 2, 1, 0]"

definition value_of :: "bool list \<Rightarrow> nat" where
  "value_of bs = foldl (\<lambda>n b. 2 * n + of_bool b) 0 bs"

function fives :: "bool list \<Rightarrow> bool list list" where
  "fives bs = (if bs = [] then [] else take 5 (bs @ replicate 4 False) # fives (drop 5 bs))"
  by pat_completeness auto
termination by (relation "measure length") (auto simp: length_greater_0_conv)

declare fives.simps [simp del]

definition base32 :: "8 word list \<Rightarrow> string" where
  "base32 bs = map (\<lambda>g. BASE32_VALUES ! value_of g) (fives (concat (map bits_of bs)))"

lemma nths8: "n < 8 \<Longrightarrow> n = 0 \<or> n = 1 \<or> n = 2 \<or> n = 3 \<or> n = 4 \<or> n = 5 \<or> n = 6 \<or> n = (7::nat)"
  by linarith

lemma value_of_five:
  fixes w :: "8 word"
  assumes "\<not> bit w 5" "\<not> bit w 6" "\<not> bit w 7"
  shows "unat w = value_of [bit w 4, bit w 3, bit w 2, bit w 1, bit w 0]"
proof -
  have "n < 5" if "bit w n" for n
    using that assms nths8 [of n] bit_imp_le_length [OF that] by auto
  then have "take_bit 5 w = w" by (intro bit_word_eqI) (auto simp: bit_simps)
  then have "unat w = horner_sum of_bool 2 (map (bit (unat w)) [0..<5])"
    unfolding horner_sum_bit_eq_take_bit by (metis unsigned_take_bit_eq)
  moreover have "[0..<5] = [0::nat, 1, 2, 3, 4]" by (simp add: upt_rec)
  ultimately show ?thesis by (simp add: value_of_def bit_unsigned_iff)
qed

text \<open>The eight positions of a full block, by their bits.\<close>

lemma block_positions:
  fixes a b c d e :: "8 word"
  shows "unat (drop_bit 3 (a AND 0xf8)) = value_of [bit a 7, bit a 6, bit a 5, bit a 4, bit a 3]"
    "unat (push_bit 2 (a AND 0x07) OR drop_bit 6 (b AND 0xc0)) = value_of [bit a 2, bit a 1, bit a 0, bit b 7, bit b 6]"
    "unat (drop_bit 1 (b AND 0x3e)) = value_of [bit b 5, bit b 4, bit b 3, bit b 2, bit b 1]"
    "unat (push_bit 4 (b AND 0x01) OR drop_bit 4 (c AND 0xf0)) = value_of [bit b 0, bit c 7, bit c 6, bit c 5, bit c 4]"
    "unat (push_bit 1 (c AND 0x0f) OR drop_bit 7 (d AND 0x80)) = value_of [bit c 3, bit c 2, bit c 1, bit c 0, bit d 7]"
    "unat (drop_bit 2 (d AND 0x7c)) = value_of [bit d 6, bit d 5, bit d 4, bit d 3, bit d 2]"
    "unat (push_bit 3 (d AND 0x03) OR drop_bit 5 (e AND 0xe0)) = value_of [bit d 1, bit d 0, bit e 7, bit e 6, bit e 5]"
    "unat (e AND 0x1f) = value_of [bit e 4, bit e 3, bit e 2, bit e 1, bit e 0]"
proof -
  have three: "(3::nat) = Suc (Suc (Suc 0))" and two: "(2::nat) = Suc (Suc 0)" by simp_all
  have double: "bit (w * 2) n \<longleftrightarrow> n \<noteq> 0 \<and> n < 8 \<and> bit w (n - 1)" for w :: "8 word" and n
    using bit_double_iff [of w n] by (auto simp: mult.commute possible_bit_word)
  show "unat (drop_bit 3 (a AND 0xf8)) = value_of [bit a 7, bit a 6, bit a 5, bit a 4, bit a 3]" by (subst value_of_five; simp add: bit_simps)
  show "unat (push_bit 2 (a AND 0x07) OR drop_bit 6 (b AND 0xc0)) = value_of [bit a 2, bit a 1, bit a 0, bit b 7, bit b 6]" by (subst value_of_five; simp add: bit_simps)
  show "unat (drop_bit 1 (b AND 0x3e)) = value_of [bit b 5, bit b 4, bit b 3, bit b 2, bit b 1]" by (subst value_of_five; simp add: bit_simps; (simp only: two three)?)
  show "unat (push_bit 4 (b AND 0x01) OR drop_bit 4 (c AND 0xf0)) = value_of [bit b 0, bit c 7, bit c 6, bit c 5, bit c 4]" by (subst value_of_five; simp add: bit_simps)
  show "unat (push_bit 1 (c AND 0x0f) OR drop_bit 7 (d AND 0x80)) = value_of [bit c 3, bit c 2, bit c 1, bit c 0, bit d 7]" by (subst value_of_five; simp add: bit_simps double)
  show "unat (drop_bit 2 (d AND 0x7c)) = value_of [bit d 6, bit d 5, bit d 4, bit d 3, bit d 2]" by (subst value_of_five; simp add: bit_simps)
  show "unat (push_bit 3 (d AND 0x03) OR drop_bit 5 (e AND 0xe0)) = value_of [bit d 1, bit d 0, bit e 7, bit e 6, bit e 5]" by (subst value_of_five; simp add: bit_simps)
  show "unat (e AND 0x1f) = value_of [bit e 4, bit e 3, bit e 2, bit e 1, bit e 0]" by (subst value_of_five; simp add: bit_simps)
qed


lemma fives_nil: "fives [] = []"
  by (simp add: fives.simps)

lemma fives_Cons:
  "fives (a # bs) = take 5 (a # bs @ [False, False, False, False]) # fives (drop 5 (a # bs))"
  by (subst fives.simps) (simp add: numeral_eq_Suc)

lemma fives_short:
  "fives (a # b # c # d # e # bs) = [a, b, c, d, e] # fives bs"
  "fives [a] = [[a, False, False, False, False]]"
  "fives [a, b] = [[a, b, False, False, False]]"
  "fives [a, b, c] = [[a, b, c, False, False]]"
  "fives [a, b, c, d] = [[a, b, c, d, False]]"
  by (simp_all add: fives_Cons fives_nil)

lemma value_bound: "value_of [a, b, c, d, e] < 32"
  by (cases a; cases b; cases c; cases d; cases e; simp add: value_of_def)

lemma alphabet_lookup: "BASE32_VALUES ! value_of [a, b, c, d, e] \<noteq> CHR ''=''" "BASE32_VALUES ! 32 = CHR ''=''"
  by (cases a; cases b; cases c; cases d; cases e; simp add: value_of_def BASE32_VALUES_def)+

text \<open>One block: the characters before the padding are those of the groups.\<close>

lemma block_characters:
  "takeWhile (\<lambda>c. c \<noteq> CHR ''='') (map (\<lambda>p. BASE32_VALUES ! unat p) (encode_block [a])) = base32 [a]"
  "takeWhile (\<lambda>c. c \<noteq> CHR ''='') (map (\<lambda>p. BASE32_VALUES ! unat p) (encode_block [a, b])) = base32 [a, b]"
  "takeWhile (\<lambda>c. c \<noteq> CHR ''='') (map (\<lambda>p. BASE32_VALUES ! unat p) (encode_block [a, b, c])) = base32 [a, b, c]"
  "takeWhile (\<lambda>c. c \<noteq> CHR ''='') (map (\<lambda>p. BASE32_VALUES ! unat p) (encode_block [a, b, c, d])) = base32 [a, b, c, d]"
  using block_positions(1) [of a] block_positions(2) [of a 0] block_positions(2) [of a b]
    block_positions(3) [of b] block_positions(4) [of b 0] block_positions(4) [of b c] block_positions(5) [of c 0]
    block_positions(5) [of c d] block_positions(6) [of d] block_positions(7) [of d 0]
  by (simp_all add: encode_block_def base32_def bits_of_def fives_nil fives_short alphabet_lookup Let_def)

lemma full_block:
  "map (\<lambda>p. BASE32_VALUES ! unat p) (encode_block [a, b, c, d, e]) @ base32 bs = base32 (a # b # c # d # e # bs)"
  using block_positions(1) [of a] block_positions(2) [of a b] block_positions(3) [of b] block_positions(4) [of b c]
    block_positions(5) [of c d] block_positions(6) [of d] block_positions(7) [of d e] block_positions(8) [of e]
  by (simp add: encode_block_def base32_def bits_of_def fives_short Let_def)

text \<open>
  C39: Azure_EncodeBase32, which works on blocks of five bytes with masks and shifts and cuts the
  result at the first padding character, is base 32 without padding: the bits of the data, the
  most significant first, in groups of five, zeros filled in behind the last, each group the
  character of the alphabet it numbers.
\<close>

lemma base32_is_grouping_by_five: "Azure_EncodeBase32 pData = base32 pData"
proof -
  have "takeWhile (\<lambda>c. c \<noteq> CHR ''='') (encode_blocks bs) = base32 bs" for bs
  proof (induction bs rule: encode_blocks.induct)
    case (1 bs)
    consider "bs = []" | a where "bs = [a]" | a b where "bs = [a, b]" | a b c where "bs = [a, b, c]"
      | a b c d where "bs = [a, b, c, d]" | a b c d e ys where "bs = a # b # c # d # e # ys"
      by (metis list.exhaust)
    then show ?case
    proof cases
      case 6
      let ?block = "map (\<lambda>p. BASE32_VALUES ! unat p) (encode_block [a, b, c, d, e])"
      have "list_all (\<lambda>c. c \<noteq> CHR ''='') ?block"
        using full_block [of a b c d e "[]"]
        by (simp add: base32_def bits_of_def fives_nil fives_short alphabet_lookup(1))
      then have "takeWhile (\<lambda>c. c \<noteq> CHR ''='') (?block @ r) = ?block @ takeWhile (\<lambda>c. c \<noteq> CHR ''='') r" for r
        by (intro takeWhile_append2) (blast dest: list_all_iff [THEN iffD1])
      then show ?thesis
        using 6 1 full_block [of a b c d e ys] by (simp add: encode_blocks.simps [of "_ # _"])
    qed (simp_all add: encode_blocks.simps [of "_ # _"] encode_blocks.simps [of "[]"] block_characters
          base32_def fives_nil)
  qed
  then show ?thesis by (simp add: Azure_EncodeBase32_def base32_def fives_nil)
qed

text \<open>
  C40: LimpetSanitizeString succeeds exactly on the texts whose characters are all below 256 and
  whose encoding fits the 512 characters of the output with its end; what it writes are whole
  escapes and plain characters that read back as the UTF-8 bytes of the input, so no two
  signatures get the same text.
\<close>

lemma sanitized_text_is_utf8:
  "LimpetSanitizeString s = Some t \<longleftrightarrow>
     (let cs = takeWhile (\<lambda>c. c \<noteq> 0) s in
        list_all (\<lambda>c. c \<le> 0xff) cs \<and> length t < LIMPET_STRING_SIZE \<and>
        t = concat (map (\<lambda>c. urlEncoding ! unat c) cs) \<and>
        pct_decode t = concat (map (utf8 \<circ> unat) cs))"
  using sanitize_loop_eq [of 0 "[]" "takeWhile (\<lambda>c. c \<noteq> 0) s"]
    pct_decode_encoded [of "takeWhile (\<lambda>c. c \<noteq> 0) s"]
  by (auto simp: LimpetSanitizeString_def Let_def encoded_chars_def)

end
