(* ===== verification/Limpet_Base.thy ===== *)
theory Limpet_Base
  imports Limpet_Text Reporting
begin

text \<open>
  What LimpetApi.cpp rests on: its results and exceptions, the calls of the registry, of the TPM
  and of the cryptographic library as the fields of the record \<open>limpet_env\<close>, its wrappers over
  the registry, the names of TPM objects and the choice between TPM and registry.
\<close>

section \<open>Results and exceptions\<close>

text \<open>
  A Limpet function returns a UINT32 that is 0 on success: \<open>Done\<close> is success with what the
  function hands out, \<open>Failed c\<close> the code \<open>c\<close>, also where a function throws \<open>c\<close> to its own
  \<open>catch\<close>.  An exception that leaves a function is \<open>Raised c\<close> when it is a UINT32 and \<open>Thrown\<close>
  when it is of another type, as the LSTATUS of \<open>UseRegistry\<close> is.
\<close>

datatype 'a outcome = Done 'a | Failed "32 word" | Raised "32 word" | Thrown

type_synonym ('w, 'a) lim = "'w \<Rightarrow> 'a outcome \<times> 'w"

definition ldone :: "'a \<Rightarrow> ('w, 'a) lim" where
  "ldone x = (\<lambda>w. (Done x, w))"

definition lfail :: "32 word \<Rightarrow> ('w, 'a) lim" where
  "lfail c = (\<lambda>w. (Failed c, w))"

definition lraise :: "32 word \<Rightarrow> ('w, 'a) lim" where
  "lraise c = (\<lambda>w. (Raised c, w))"

definition lthrow :: "('w, 'a) lim" where
  "lthrow = (\<lambda>w. (Thrown, w))"

definition lbind :: "('w, 'a) lim \<Rightarrow> ('a \<Rightarrow> ('w, 'b) lim) \<Rightarrow> ('w, 'b) lim" where
  "lbind m f = (\<lambda>w. case m w of
     (Done x, w') \<Rightarrow> f x w' | (Failed c, w') \<Rightarrow> (Failed c, w')
   | (Raised c, w') \<Rightarrow> (Raised c, w') | (Thrown, w') \<Rightarrow> (Thrown, w'))"

definition lthen :: "('w, 'a) lim \<Rightarrow> ('w, 'b) lim \<Rightarrow> ('w, 'b) lim" where
  "lthen m n = lbind m (\<lambda>_. n)"

text \<open>The result code of a call as a value.\<close>

definition lcode :: "('w, 'a) lim \<Rightarrow> ('w, 32 word + 'a) lim" where
  "lcode m = (\<lambda>w. case m w of
     (Done x, w') \<Rightarrow> (Done (Inr x), w') | (Failed c, w') \<Rightarrow> (Done (Inl c), w')
   | (Raised c, w') \<Rightarrow> (Raised c, w') | (Thrown, w') \<Rightarrow> (Thrown, w'))"

text \<open>A call of the platform that answers a code and, when that is 0, a value.\<close>

definition lcall :: "('w \<Rightarrow> (32 word \<times> 'a) \<times> 'w) \<Rightarrow> ('w, 'a) lim" where
  "lcall f = (\<lambda>w. case f w of ((c, x), w') \<Rightarrow> if c = 0 then (Done x, w') else (Failed c, w'))"

definition lstatus :: "('w \<Rightarrow> 32 word \<times> 'w) \<Rightarrow> ('w, unit) lim" where
  "lstatus f = lcall (\<lambda>w. case f w of (c, w') \<Rightarrow> ((c, ()), w'))"

abbreviation TPM_RC_FAILURE :: "32 word" where "TPM_RC_FAILURE \<equiv> 0x101"
abbreviation TPM_RC_SIZE :: "32 word" where "TPM_RC_SIZE \<equiv> 0x95"

text \<open>\<open>catch (UINT32 err)\<close> and \<open>catch (...)\<close> at the end of a function.\<close>

definition lguard :: "('w, 'a) lim \<Rightarrow> ('w, 'a) lim" where
  "lguard m = (\<lambda>w. case m w of
     (Raised c, w') \<Rightarrow> (Failed c, w') | (Thrown, w') \<Rightarrow> (Failed TPM_RC_FAILURE, w') | r \<Rightarrow> r)"

definition lsome :: "'a option \<Rightarrow> ('w, 'a) lim" where
  "lsome r = (case r of None \<Rightarrow> lfail TPM_RC_FAILURE | Some x \<Rightarrow> ldone x)"

lemmas lim_simps = ldone_def lfail_def lraise_def lthrow_def lbind_def lthen_def lcode_def lcall_def lstatus_def lguard_def lsome_def

lemma lbind_assoc: "lbind (lbind m f) g = lbind m (\<lambda>x. lbind (f x) g)"
  by (simp add: lim_simps fun_eq_iff split: outcome.split prod.split)

lemma lbind_done [simp]: "lbind (ldone x) f = f x" "lthen (ldone x) m = m"
  by (simp_all add: lim_simps fun_eq_iff)

lemma lim_run:
  "m w = (Done x, w') \<Longrightarrow> lbind m f w = f x w'"
  "m w = (Done x, w') \<Longrightarrow> lthen m n w = n w'"
  "m w = (Failed c, w') \<Longrightarrow> lbind m f w = (Failed c, w')"
  "m w = (Failed c, w') \<Longrightarrow> lthen m n w = (Failed c, w')"
  "m w = (Thrown, w') \<Longrightarrow> lbind m f w = (Thrown, w')"
  by (simp_all add: lbind_def lthen_def)

section \<open>The environment\<close>

text \<open>A wide text is the list of its code units, without the terminating NUL.\<close>

type_synonym wtext = "16 word list"

definition wide :: "string \<Rightarrow> wtext" where
  "wide s = map (\<lambda>c. word_of_nat (of_char c)) s"

definition w_str :: "wtext \<Rightarrow> wtext" where
  "w_str s = takeWhile (\<lambda>c. c \<noteq> 0) s"

text \<open>
  The data of a registry value.  A text is written with RRF_RT_REG_SZ in the place of the type,
  which is the number of REG_EXPAND_SZ: what \<open>lr_GetString\<close> reads back has its variables expanded.
\<close>

datatype lreg_data = LREG_EXPAND_SZ wtext | LREG_DWORD "32 word" | LREG_BINARY string

text \<open>
  The registry below HKEY_LOCAL_MACHINE (a value is deleted through the handle of an opened key,
  \<open>None\<close> being a handle that was never written), the commands of the TPM with their response
  code, and the conversions.  \<open>'p\<close> are the structures of the TPM library: \<open>lt_unmarshal\<close> reads one
  from the front of a buffer and leaves the rest.  \<open>le_utf8\<close> is the conversion of a wide text,
  empty when it fails, \<open>le_KeyCertificate\<close> the certificate of a key of the platform's storage
  provider, \<open>le_SubjectName\<close> its subject, \<open>le_AesCfb\<close> the decryption with a zero start vector.
  \<open>lt_Permanent\<close> answers whether clearing is disabled and whether a lockout authorization is set;
  \<open>le_widen\<close> and \<open>le_narrow\<close> are what %S does in a wide and in a narrow format and what the
  conversions of DMString do, \<open>le_digest\<close> the calls of BCrypt for SHA-256, \<open>le_hresult\<close> the macro
  HRESULT_FROM_TPM, \<open>le_FileTime\<close> the clock, \<open>le_capacity\<close> and \<open>le_wcapacity\<close> the capacity of a string and of a wide string
  of 512 characters.
\<close>

datatype tpm_kind = ID_OBJECT | ENCRYPTED_SECRET | PRIVATE_AREA | PUBLIC_AREA | MAX_BUFFER

record ('w, 'p) limpet_env =
  lr_Open :: "string \<Rightarrow> 'w \<Rightarrow> 32 word \<times> 'w"
  lr_Create :: "string \<Rightarrow> 'w \<Rightarrow> 32 word \<times> 'w"
  lr_GetSize :: "string \<Rightarrow> string \<Rightarrow> 'w \<Rightarrow> 32 word \<times> 'w"
  lr_GetString :: "string \<Rightarrow> string \<Rightarrow> 'w \<Rightarrow> (32 word \<times> wtext) \<times> 'w"
  lr_QueryDword :: "string \<Rightarrow> string \<Rightarrow> 'w \<Rightarrow> (32 word \<times> 32 word) \<times> 'w"
  lr_QuerySize :: "string \<Rightarrow> string \<Rightarrow> 'w \<Rightarrow> (32 word \<times> 32 word) \<times> 'w"
  lr_QueryData :: "string \<Rightarrow> string \<Rightarrow> 'w \<Rightarrow> (32 word \<times> string) \<times> 'w"
  lr_Set :: "string \<Rightarrow> string \<Rightarrow> lreg_data \<Rightarrow> 'w \<Rightarrow> 32 word \<times> 'w"
  lr_Delete :: "string option \<Rightarrow> string \<Rightarrow> 'w \<Rightarrow> 32 word \<times> 'w"
  lt_ReadPublic :: "32 word \<Rightarrow> 'w \<Rightarrow> (32 word \<times> 'p \<times> string) \<times> 'w"
  lt_NV_ReadPublic :: "32 word \<Rightarrow> 'w \<Rightarrow> (32 word \<times> string \<times> 16 word) \<times> 'w"
  lt_NV_DefineSpace :: "32 word \<Rightarrow> 16 word \<Rightarrow> 'w \<Rightarrow> 32 word \<times> 'w"
  lt_NV_Write :: "32 word \<Rightarrow> string \<Rightarrow> 'w \<Rightarrow> 32 word \<times> 'w"
  lt_NV_Read :: "32 word \<Rightarrow> 16 word \<Rightarrow> 'w \<Rightarrow> (32 word \<times> string) \<times> 'w"
  lt_NV_UndefineSpace :: "32 word \<Rightarrow> 'w \<Rightarrow> 32 word \<times> 'w"
  lt_Create :: "string \<Rightarrow> 'w \<Rightarrow> (32 word \<times> 'p \<times> 'p) \<times> 'w"
  lt_Load :: "'p \<Rightarrow> 'p \<Rightarrow> 'w \<Rightarrow> (32 word \<times> 32 word \<times> string) \<times> 'w"
  lt_EvictControl :: "32 word \<Rightarrow> 32 word \<Rightarrow> 'w \<Rightarrow> 32 word \<times> 'w"
  lt_FlushContext :: "32 word \<Rightarrow> 'w \<Rightarrow> 32 word \<times> 'w"
  lt_HMAC :: "32 word \<Rightarrow> string \<Rightarrow> 'w \<Rightarrow> (32 word \<times> string) \<times> 'w"
  lt_HMAC_Start :: "32 word \<Rightarrow> 'w \<Rightarrow> (32 word \<times> 32 word) \<times> 'w"
  lt_SequenceUpdate :: "32 word \<Rightarrow> string \<Rightarrow> 'w \<Rightarrow> 32 word \<times> 'w"
  lt_SequenceComplete :: "32 word \<Rightarrow> string \<Rightarrow> 'w \<Rightarrow> (32 word \<times> string) \<times> 'w"
  lt_StartAuthSession :: "'w \<Rightarrow> (32 word \<times> 'p) \<times> 'w"
  lt_PolicySecret :: "'p \<Rightarrow> 'w \<Rightarrow> (32 word \<times> 'p) \<times> 'w"
  lt_ActivateCredential :: "'p \<Rightarrow> 'p \<Rightarrow> 'p \<Rightarrow> 'w \<Rightarrow> (32 word \<times> string) \<times> 'w"
  lt_Import :: "string \<Rightarrow> 'p \<Rightarrow> 'p \<Rightarrow> 'p \<Rightarrow> 'w \<Rightarrow> (32 word \<times> 'p) \<times> 'w"
  lt_Permanent :: "'w \<Rightarrow> (32 word \<times> bool \<times> bool) \<times> 'w"
  lt_Clear :: "32 word \<Rightarrow> string \<Rightarrow> 'w \<Rightarrow> 32 word \<times> 'w"
  lt_ClearControl :: "'w \<Rightarrow> 32 word \<times> 'w"
  le_OwnerAuth :: "'w \<Rightarrow> string option \<times> 'w"
  le_PhysicalPresence :: "'w \<Rightarrow> (32 word \<times> 32 word) \<times> 'w"
  lt_marshal :: "tpm_kind \<Rightarrow> 'p \<Rightarrow> string"
  lt_unmarshal :: "tpm_kind \<Rightarrow> string \<Rightarrow> 32 word \<times> 'p \<times> string"
  lt_contents :: "'p \<Rightarrow> string"
  le_sha256 :: "string \<Rightarrow> string"
  le_base64 :: "string \<Rightarrow> string option"
  le_utf8 :: "wtext \<Rightarrow> string"
  le_widen :: "string \<Rightarrow> wtext"
  le_narrow :: "wtext \<Rightarrow> string"
  le_unbase64 :: "wtext \<Rightarrow> string option"
  le_digest :: "string \<Rightarrow> 'w \<Rightarrow> (32 word \<times> string) \<times> 'w"
  le_hresult :: "32 word \<Rightarrow> 32 word"
  le_FileTime :: "'w \<Rightarrow> int \<times> 'w"
  le_capacity :: nat
  le_wcapacity :: nat
  le_AesCfb :: "string \<Rightarrow> string \<Rightarrow> string"
  le_KeyCertificate :: "string \<Rightarrow> 'w \<Rightarrow> string option \<times> 'w"
  le_SubjectName :: "string \<Rightarrow> string option"

section \<open>Names of TPM objects\<close>

definition object_name_text :: "('w, 'p) limpet_env \<Rightarrow> string \<Rightarrow> string option" where
  "object_name_text env name =
     Option.bind (le_base64 env name) (\<lambda>b. LimpetSanitizeString (wide b))"

definition LimpetObjNameToString :: "('w, 'p) limpet_env \<Rightarrow> string \<Rightarrow> ('w, string) lim" where
  "LimpetObjNameToString env name = lsome (object_name_text env name)"

definition LimpetGetTpmKey2BPub :: "('w, 'p) limpet_env \<Rightarrow> 32 word \<Rightarrow> ('w, string \<times> string) lim" where
  "LimpetGetTpmKey2BPub env tpmKeyHandle =
     lguard (lbind (lcall (lt_ReadPublic env tpmKeyHandle)) (\<lambda>(pub, name). ldone (lt_marshal env PUBLIC_AREA pub, name)))"

definition le32 :: "32 word \<Rightarrow> string" where
  "le32 n = map (\<lambda>i. char_of (unat (drop_bit (8 * i) n AND 0xFF))) [0, 1, 2, 3]"

abbreviation MAX_AES_KEY_BYTES :: nat where "MAX_AES_KEY_BYTES \<equiv> 16"
abbreviation SRK_HANDLE :: "32 word" where "SRK_HANDLE \<equiv> 0x81000001"
abbreviation ERK_HANDLE :: "32 word" where "ERK_HANDLE \<equiv> 0x81010001"

definition key_handle :: "32 word \<Rightarrow> 32 word" where
  "key_handle n = 0x81000100 + n"

definition uri_index :: "32 word \<Rightarrow> 32 word" where
  "uri_index n = 0x01400100 + n"

text \<open>The logical device id: the id of SHA-256 (0x000B) and the hash of the number and the SRK's name.\<close>

definition LimpetReadDeviceId :: "('w, 'p) limpet_env \<Rightarrow> 32 word \<Rightarrow> ('w, string) lim" where
  "LimpetReadDeviceId env n =
     lguard (lbind (lcall (lt_ReadPublic env SRK_HANDLE)) (\<lambda>(pub, name).
       LimpetObjNameToString env ([CHR 0x00, CHR 0x0B] @ le_sha256 env (le32 n @ name))))"

section \<open>The registry\<close>

definition params_key :: string where
  "params_key = ''SYSTEM'' @ [CHR 0x5C] @ ''CurrentControlSet'' @ [CHR 0x5C] @ ''Services'' @ [CHR 0x5C] @
     ''AzureDeviceManagementClient'' @ [CHR 0x5C] @ ''Parameters''"

definition slot_key :: "32 word \<Rightarrow> string" where
  "slot_key n = params_key @ [CHR 0x5C] @ string_of_nat (unat n)"

abbreviation ERROR_FILE_NOT_FOUND :: "32 word" where "ERROR_FILE_NOT_FOUND \<equiv> 2"

definition IsRegistryKeyPresent :: "('w, 'p) limpet_env \<Rightarrow> string \<Rightarrow> ('w, bool) lim" where
  "IsRegistryKeyPresent env subKeyPath =
     lbind (lcode (lstatus (lr_Open env subKeyPath))) (\<lambda>r. ldone (case r of Inl c \<Rightarrow> False | Inr u \<Rightarrow> True))"

definition TryReadStringRegistryValue :: "('w, 'p) limpet_env \<Rightarrow> string \<Rightarrow> string \<Rightarrow> ('w, wtext) lim" where
  "TryReadStringRegistryValue env subKeyPath propName =
     lthen (lstatus (lr_GetSize env subKeyPath propName)) (
     lbind (lcall (lr_GetString env subKeyPath propName)) (\<lambda>propValue. ldone (w_str propValue)))"

definition ReadDwordRegistryValue :: "('w, 'p) limpet_env \<Rightarrow> string \<Rightarrow> ('w, 32 word) lim" where
  "ReadDwordRegistryValue env valueName =
     lthen (lstatus (lr_Open env params_key)) (lcall (lr_QueryDword env params_key valueName))"

text \<open>The writers of a number, a text and bytes.\<close>

definition set_registry_value :: "('w, 'p) limpet_env \<Rightarrow> string \<Rightarrow> string \<Rightarrow> lreg_data \<Rightarrow> ('w, unit) lim" where
  "set_registry_value env subKeyPath propName v =
     lthen (lstatus (lr_Create env subKeyPath)) (lstatus (lr_Set env subKeyPath propName v))"

definition SetRegistryValueWithDword :: "('w, 'p) limpet_env \<Rightarrow> string \<Rightarrow> string \<Rightarrow> 32 word \<Rightarrow> ('w, unit) lim" where
  "SetRegistryValueWithDword env subKeyPath propName v = set_registry_value env subKeyPath propName (LREG_DWORD v)"

definition CreateStringRegistryKeyValue :: "('w, 'p) limpet_env \<Rightarrow> string \<Rightarrow> string \<Rightarrow> wtext \<Rightarrow> ('w, unit) lim" where
  "CreateStringRegistryKeyValue env subKeyPath propName v = set_registry_value env subKeyPath propName (LREG_EXPAND_SZ v)"

definition SetRegistryWithBinaryData :: "('w, 'p) limpet_env \<Rightarrow> string \<Rightarrow> string \<Rightarrow> string \<Rightarrow> ('w, unit) lim" where
  "SetRegistryWithBinaryData env subKeyPath propName v = set_registry_value env subKeyPath propName (LREG_BINARY v)"

text \<open>
  \<open>SUCCEEDED\<close> tests the sign, and the codes of the registry are not negative: a key that cannot
  be opened is gone on with, the handle as it happens to be; a value that is not there is
  answered with its code.
\<close>

definition SUCCEEDED :: "32 word \<Rightarrow> bool" where
  "SUCCEEDED c \<longleftrightarrow> sint c \<ge> 0"

definition registry_result :: "32 word \<Rightarrow> ('w, unit) lim" where
  "registry_result lRet = (if lRet = 0 then ldone () else lfail lRet)"

definition DeleteRegistryKeyValue :: "('w, 'p) limpet_env \<Rightarrow> string \<Rightarrow> string \<Rightarrow> ('w, unit) lim" where
  "DeleteRegistryKeyValue env subKey propName = (\<lambda>w.
     case lr_Open env subKey w of (lRet, w1) \<Rightarrow>
       if \<not> SUCCEEDED lRet
       then registry_result (if lRet = ERROR_FILE_NOT_FOUND then 0 else lRet) w1
       else (case lr_Delete env (if lRet = 0 then Some subKey else None) propName w1 of (lRet, w2) \<Rightarrow>
         registry_result (if \<not> SUCCEEDED lRet \<and> lRet = ERROR_FILE_NOT_FOUND then 0 else lRet) w2))"

definition ReadRegistryBinaryData :: "('w, 'p) limpet_env \<Rightarrow> string \<Rightarrow> string \<Rightarrow> 32 word \<Rightarrow> ('w, string) lim" where
  "ReadRegistryBinaryData env subKeyPath propName cbData =
     lthen (lstatus (lr_Open env subKeyPath)) (
     lbind (lcall (lr_QuerySize env subKeyPath propName)) (\<lambda>dataSize.
     if sint cbData < sint dataSize then lfail 8
     else lcall (lr_QueryData env subKeyPath propName)))"

definition IsLazyLoadingEnabled :: "('w, 'p) limpet_env \<Rightarrow> ('w, bool) lim" where
  "IsLazyLoadingEnabled env =
     lbind (lcode (ReadDwordRegistryValue env ''lazyloadingenabled'')) (\<lambda>r.
     ldone (case r of Inl c \<Rightarrow> False | Inr v \<Rightarrow> v = 1))"

text \<open>The size of the blob, \<open>None\<close> when there is none.\<close>

definition IsHostageBlobPresent :: "('w, 'p) limpet_env \<Rightarrow> 32 word \<Rightarrow> ('w, 32 word option) lim" where
  "IsHostageBlobPresent env n =
     lbind (lcode (lthen (lstatus (lr_Open env (slot_key n))) (lcall (lr_QuerySize env (slot_key n) ''hostageblob''))))
       (\<lambda>r. ldone (case r of Inl c \<Rightarrow> None | Inr cb \<Rightarrow> Some cb))"

definition DeleteHostageBlob :: "('w, 'p) limpet_env \<Rightarrow> 32 word \<Rightarrow> ('w, unit) lim" where
  "DeleteHostageBlob env n = DeleteRegistryKeyValue env (slot_key n) ''hostageblob''"

definition WriteHostageBlobInRegistry :: "('w, 'p) limpet_env \<Rightarrow> 32 word \<Rightarrow> string \<Rightarrow> ('w, unit) lim" where
  "WriteHostageBlobInRegistry env n blob = SetRegistryWithBinaryData env (slot_key n) ''hostageblob'' blob"

definition WStringToString :: "('w, 'p) limpet_env \<Rightarrow> wtext \<Rightarrow> ('w, string) lim" where
  "WStringToString env data = (if le_utf8 env data = [] then lraise TPM_RC_FAILURE else ldone (le_utf8 env data))"

end
