(* ===== verification/Limpet_Store.thy ===== *)
theory Limpet_Store
  imports Limpet_Base
begin

text \<open>
  The store of LimpetApi.cpp: the hub's URI and the HMAC key of a logical device, kept in the TPM
  or, on a platform whose TPM cannot hold them, below the service's key in the registry.  Which of
  the two is used is tried out at the first call and remembered in the registry.
\<close>

section \<open>The URI in the TPM\<close>

definition GetLogicalDeviceCert ::
    "('w, 'p) limpet_env \<Rightarrow> 32 word \<Rightarrow> string \<Rightarrow> bool \<Rightarrow> ('w, string \<times> string option) lim" where
  "GetLogicalDeviceCert env n algorithm want =
     lguard (lbind (LimpetReadDeviceId env n) (\<lambda>deviceId.
     let keyName = deviceId @ algorithm in
     lbind (\<lambda>w. case le_KeyCertificate env keyName w of (r, w') \<Rightarrow> lsome r w') (\<lambda>cert.
     if \<not> want then ldone (cert, None)
     else if length keyName < LIMPET_STRING_SIZE then ldone (cert, Some keyName)
     else lfail TPM_RC_FAILURE)))"

text \<open>The name of the NV index; \<open>None\<close> when it is empty, and the caller's buffer stays as it is.\<close>

definition ReadUriNameFromTpm :: "('w, 'p) limpet_env \<Rightarrow> 32 word \<Rightarrow> ('w, string option) lim" where
  "ReadUriNameFromTpm env n =
     lguard (lbind (lcall (lt_NV_ReadPublic env (uri_index n))) (\<lambda>(nvName, dataSize).
     if nvName = [] then ldone None else lbind (LimpetObjNameToString env nvName) (ldone \<circ> Some)))"

text \<open>The name that a function hands out when its caller wants it.\<close>

definition object_name :: "('w, 'p) limpet_env \<Rightarrow> bool \<Rightarrow> string \<Rightarrow> ('w, wtext option) lim" where
  "object_name env want name =
     (if want then lbind (LimpetObjNameToString env name) (ldone \<circ> Some \<circ> wide) else ldone None)"

definition LimpetStoreURIInTpm ::
    "('w, 'p) limpet_env \<Rightarrow> 32 word \<Rightarrow> wtext \<Rightarrow> bool \<Rightarrow> ('w, wtext option) lim" where
  "LimpetStoreURIInTpm env n szURI want =
     lguard (if length szURI \<ge> LIMPET_STRING_SIZE \<or> le_utf8 env szURI = [] then lfail TPM_RC_FAILURE
     else let nvData = le_utf8 env szURI in
       lthen (lstatus (lt_NV_DefineSpace env (uri_index n) (word_of_nat (length nvData)))) (
       lbind (lcall (lt_NV_ReadPublic env (uri_index n))) (\<lambda>nvIndex.
       lthen (lstatus (lt_NV_Write env (uri_index n) nvData)) (
       if want then lbind (lcall (lt_NV_ReadPublic env (uri_index n))) (\<lambda>(name, dataSize). object_name env True name)
       else ldone None))))"

definition LimpetDestroyURIFromTpm ::
    "('w, 'p) limpet_env \<Rightarrow> 32 word \<Rightarrow> bool \<Rightarrow> ('w, wtext option) lim" where
  "LimpetDestroyURIFromTpm env n want =
     lguard (lbind (lcall (lt_NV_ReadPublic env (uri_index n))) (\<lambda>(name, dataSize).
     lthen (lstatus (lt_NV_UndefineSpace env (uri_index n))) (object_name env want name)))"

text \<open>The first place where a text holds a token, as \<open>std::string::find\<close> gives it.\<close>

fun find_text :: "string \<Rightarrow> string \<Rightarrow> nat option" where
  "find_text token [] = (if token = [] then Some 0 else None)"
| "find_text token (c # s) = (if take (length token) (c # s) = token then Some 0 else map_option Suc (find_text token s))"

definition before_comma :: "string \<Rightarrow> string" where
  "before_comma s = takeWhile (\<lambda>c. c \<noteq> CHR '','') s"

text \<open>The URI that the subject name of the device's certificate holds: DC, and OU behind a slash.\<close>

definition uri_of_subject :: "string \<Rightarrow> string option" where
  "uri_of_subject subjectName =
     map_option (\<lambda>cursor. before_comma (drop (cursor + 3) subjectName) @
       (case find_text ''OU='' subjectName of
          None \<Rightarrow> []
        | Some p \<Rightarrow> ''/'' @ before_comma (drop (p + 3) subjectName)))
     (find_text ''DC='' subjectName)"

definition uri_of_cert :: "('w, 'p) limpet_env \<Rightarrow> string \<Rightarrow> ('w, string) lim" where
  "uri_of_cert env cert = lsome (Option.bind (le_SubjectName env cert) uri_of_subject)"

text \<open>
  Reading a URI into a buffer answers the code, the size when it is set, and the bytes when they
  are copied: the caller of a failed read sees the size too.
\<close>

type_synonym uri_answer = "32 word \<times> 32 word option \<times> string option"

definition copy_uri :: "bool \<Rightarrow> 32 word \<Rightarrow> string \<Rightarrow> uri_answer" where
  "copy_uri hasBuffer cbUriData uri =
     (let size = word_of_nat (length uri)
      in if cbUriData \<ge> size \<and> hasBuffer then (0, Some size, Some uri)
         else if cbUriData \<noteq> 0 \<and> hasBuffer then (TPM_RC_SIZE, Some size, None)
         else (0, Some size, None))"

definition find_uri :: "('w, 'p) limpet_env \<Rightarrow> 32 word \<Rightarrow> ('w, string) lim" where
  "find_uri env n =
     lbind (lcode (lcall (lt_NV_ReadPublic env (uri_index n)))) (\<lambda>r. case r of
       Inr (name, nvDataSize) \<Rightarrow> lcall (lt_NV_Read env (uri_index n) nvDataSize)
     | Inl c \<Rightarrow> lbind (lcode (GetLogicalDeviceCert env n ''RSA'' False)) (\<lambda>r. case r of
         Inr (cert, name) \<Rightarrow> uri_of_cert env cert
       | Inl c \<Rightarrow> lbind (lcode (GetLogicalDeviceCert env n ''ECDSA_P256'' False)) (\<lambda>r. case r of
           Inr (cert, name) \<Rightarrow> uri_of_cert env cert
         | Inl c \<Rightarrow> lfail TPM_RC_FAILURE)))"

definition LimpetReadURIFromTpm ::
    "('w, 'p) limpet_env \<Rightarrow> 32 word \<Rightarrow> bool \<Rightarrow> 32 word \<Rightarrow> ('w, uri_answer) lim" where
  "LimpetReadURIFromTpm env n hasBuffer cbUriData =
     lbind (lcode (lguard (find_uri env n))) (\<lambda>r.
     ldone (case r of Inl c \<Rightarrow> (c, None, None) | Inr uri \<Rightarrow> copy_uri hasBuffer cbUriData uri))"

section \<open>TPM or registry\<close>

definition TryTpmNvOperations :: "('w, 'p) limpet_env \<Rightarrow> 32 word \<Rightarrow> ('w, unit) lim" where
  "TryTpmNvOperations env n =
     lguard (lbind (lcode (ReadUriNameFromTpm env n)) (\<lambda>r.
     lthen (case r of Inl c \<Rightarrow> ldone () | Inr name \<Rightarrow> lthen (LimpetDestroyURIFromTpm env n True) (ldone ())) (
     lthen (LimpetStoreURIInTpm env n (wide ''limpettest.org/limpet'') True) (
     lbind (LimpetReadURIFromTpm env n True (word_of_nat LIMPET_STRING_SIZE)) (\<lambda>(c, size, uri).
     if c \<noteq> 0 then lfail c
     else lthen (LimpetDestroyURIFromTpm env n True) (ldone ()))))))"

definition UseRegistry :: "('w, 'p) limpet_env \<Rightarrow> 32 word \<Rightarrow> ('w, bool) lim" where
  "UseRegistry env n =
     lbind (lcode (ReadDwordRegistryValue env ''useregistry'')) (\<lambda>r. case r of
       Inr v \<Rightarrow> ldone (v = 1)
     | Inl c \<Rightarrow> lbind (lcode (TryTpmNvOperations env n)) (\<lambda>t.
         let v = (case t of Inl c \<Rightarrow> 1 | Inr u \<Rightarrow> 0)
         in lbind (lcode (SetRegistryValueWithDword env params_key ''useregistry'' v)) (\<lambda>s. case s of
              Inl c \<Rightarrow> lthrow
            | Inr u \<Rightarrow> ldone (v = 1))))"

section \<open>The URI\<close>

abbreviation NoObjectName :: wtext where
  "NoObjectName \<equiv> wide ''NoObjectName''"

text \<open>The code of \<open>CreateStringRegistryKeyValue\<close> is tested by its sign.\<close>

definition LimpetStoreURIInRegistry ::
    "('w, 'p) limpet_env \<Rightarrow> 32 word \<Rightarrow> wtext \<Rightarrow> bool \<Rightarrow> ('w, wtext option) lim" where
  "LimpetStoreURIInRegistry env n szURI want =
     lbind (lcode (CreateStringRegistryKeyValue env (slot_key n) ''uri'' szURI)) (\<lambda>r.
     let lRet = (case r of Inl c \<Rightarrow> c | Inr u \<Rightarrow> 0)
     in if \<not> SUCCEEDED lRet then lfail lRet else ldone (if want then Some NoObjectName else None))"

definition LimpetStoreURI ::
    "('w, 'p) limpet_env \<Rightarrow> 32 word \<Rightarrow> wtext \<Rightarrow> bool \<Rightarrow> ('w, wtext option) lim" where
  "LimpetStoreURI env n szURI want =
     lbind (UseRegistry env n) (\<lambda>u.
     if u then LimpetStoreURIInRegistry env n szURI want else LimpetStoreURIInTpm env n szURI want)"

definition ReadHmacNameFromRegistry :: "('w, 'p) limpet_env \<Rightarrow> 32 word \<Rightarrow> ('w, wtext) lim" where
  "ReadHmacNameFromRegistry env n = TryReadStringRegistryValue env (slot_key n) ''hmacname''"

definition ReadHmacNameFromTpm :: "('w, 'p) limpet_env \<Rightarrow> 32 word \<Rightarrow> ('w, wtext option) lim" where
  "ReadHmacNameFromTpm env n =
     lguard (lbind (lcall (lt_ReadPublic env (key_handle n))) (\<lambda>(pub, name).
     if name = [] then ldone None else object_name env True name))"

definition LimpetReadHmacName :: "('w, 'p) limpet_env \<Rightarrow> 32 word \<Rightarrow> ('w, wtext option) lim" where
  "LimpetReadHmacName env n =
     lbind (UseRegistry env n) (\<lambda>u.
     if u then lbind (ReadHmacNameFromRegistry env n) (ldone \<circ> Some) else ReadHmacNameFromTpm env n)"

definition ReadUriNameFromRegistry :: "('w, 'p) limpet_env \<Rightarrow> 32 word \<Rightarrow> ('w, wtext) lim" where
  "ReadUriNameFromRegistry env n =
     lthen (TryReadStringRegistryValue env (slot_key n) ''uri'') (ldone NoObjectName)"

definition LimpetReadUriName :: "('w, 'p) limpet_env \<Rightarrow> 32 word \<Rightarrow> ('w, wtext option) lim" where
  "LimpetReadUriName env n =
     lbind (UseRegistry env n) (\<lambda>u.
     if u then lbind (ReadUriNameFromRegistry env n) (ldone \<circ> Some)
     else lbind (ReadUriNameFromTpm env n) (ldone \<circ> map_option wide))"

section \<open>The HMAC key\<close>

text \<open>The key in the registry, protected by the TPM, and the key in the TPM.\<close>

definition store_hmac_key :: "('w, 'p) limpet_env \<Rightarrow> 32 word \<Rightarrow> 'p \<Rightarrow> 'p \<Rightarrow> ('w, unit) lim" where
  "store_hmac_key env n pub priv =
     lthen (SetRegistryWithBinaryData env (slot_key n) ''hmacpublic'' (lt_marshal env PUBLIC_AREA pub)) (
     lthen (SetRegistryWithBinaryData env (slot_key n) ''hmacprivate'' (lt_marshal env PRIVATE_AREA priv))
       (CreateStringRegistryKeyValue env (slot_key n) ''hmacname'' NoObjectName))"

definition persist_hmac_key :: "('w, 'p) limpet_env \<Rightarrow> 32 word \<Rightarrow> 'p \<Rightarrow> 'p \<Rightarrow> bool \<Rightarrow> ('w, wtext option) lim" where
  "persist_hmac_key env n pub priv want =
     lbind (lcall (lt_Load env pub priv)) (\<lambda>(handle, name).
     lthen (lstatus (lt_EvictControl env handle (key_handle n))) (object_name env want name))"

definition keep_hmac_key :: "('w, 'p) limpet_env \<Rightarrow> 32 word \<Rightarrow> 'p \<Rightarrow> 'p \<Rightarrow> bool \<Rightarrow> ('w, wtext option) lim" where
  "keep_hmac_key env n pub priv want =
     lbind (UseRegistry env n) (\<lambda>u.
     if u then lthen (store_hmac_key env n pub priv) (ldone (if want then Some NoObjectName else None))
     else persist_hmac_key env n pub priv want)"

text \<open>A key of more than 65535 bytes makes \<open>SafeInt\<close> throw, which \<open>catch (...)\<close> turns into the code.\<close>

definition LimpetCreateHmacKey ::
    "('w, 'p) limpet_env \<Rightarrow> 32 word \<Rightarrow> string \<Rightarrow> bool \<Rightarrow> ('w, wtext option) lim" where
  "LimpetCreateHmacKey env n key want =
     lguard (if length key > 0xFFFF then lthrow
     else lbind (lcall (lt_Create env key)) (\<lambda>(pub, priv). keep_hmac_key env n pub priv want))"

section \<open>Keys imported later\<close>

definition unmarshal :: "('w, 'p) limpet_env \<Rightarrow> tpm_kind \<Rightarrow> string \<Rightarrow> ('w, 'p \<times> string) lim" where
  "unmarshal env kind buffer = lcall (\<lambda>w. (lt_unmarshal env kind buffer, w))"

text \<open>The blob's six parts.\<close>

definition take_apart ::
    "('w, 'p) limpet_env \<Rightarrow> string \<Rightarrow> ('w, 'p \<times> 'p \<times> 'p \<times> 'p \<times> 'p \<times> 'p) lim" where
  "take_apart env blob =
     lbind (unmarshal env ID_OBJECT blob) (\<lambda>(credentialBlob, b1).
     lbind (unmarshal env ENCRYPTED_SECRET b1) (\<lambda>(secret, b2).
     lbind (unmarshal env PRIVATE_AREA b2) (\<lambda>(privateArea, b3).
     lbind (unmarshal env ENCRYPTED_SECRET b3) (\<lambda>(inSymSeed, b4).
     lbind (unmarshal env PUBLIC_AREA b4) (\<lambda>(publicArea, b5).
     lbind (unmarshal env MAX_BUFFER b5) (\<lambda>(uriContainer, b6).
     ldone (credentialBlob, secret, privateArea, inSymSeed, publicArea, uriContainer)))))))"

text \<open>Bytes taken as the code units of a wide text.\<close>

fun wide_units :: "string \<Rightarrow> wtext" where
  "wide_units (lo # hi # s) = (word_of_nat (of_char lo) OR push_bit 8 (word_of_nat (of_char hi))) # wide_units s"
| "wide_units [lo] = [word_of_nat (of_char lo)]"
| "wide_units [] = []"

definition activate :: "('w, 'p) limpet_env \<Rightarrow> 'p \<Rightarrow> 'p \<Rightarrow> ('w, string) lim" where
  "activate env secret credentialBlob =
     lbind (lcall (lt_StartAuthSession env)) (\<lambda>started.
     lbind (lcall (lt_PolicySecret env started)) (\<lambda>policySessionEk.
     lcall (lt_ActivateCredential env policySessionEk secret credentialBlob)))"

text \<open>The encryption key, the imported key's two areas and the encrypted URI.\<close>

definition domesticate :: "('w, 'p) limpet_env \<Rightarrow> string \<Rightarrow> ('w, string \<times> 'p \<times> 'p \<times> 'p) lim" where
  "domesticate env blob =
     lbind (take_apart env blob) (\<lambda>(credentialBlob, secret, duplicate, inSymSeed, objectPublic, uriContainer).
     lbind (activate env secret credentialBlob) (\<lambda>encryptionKey.
     if length encryptionKey \<noteq> MAX_AES_KEY_BYTES then lfail TPM_RC_FAILURE
     else lbind (lcall (lt_Import env encryptionKey objectPublic duplicate inSymSeed)) (\<lambda>outPrivate.
       ldone (encryptionKey, objectPublic, outPrivate, uriContainer))))"

text \<open>What is handed out: the activation secret and the two names.\<close>

definition LimpetImportHostageKeyEx ::
    "('w, 'p) limpet_env \<Rightarrow> 32 word \<Rightarrow> string \<Rightarrow> bool \<Rightarrow> bool \<Rightarrow>
     ('w, string \<times> wtext option \<times> wtext option) lim" where
  "LimpetImportHostageKeyEx env n blob wantKey wantUri =
     lguard (lbind (domesticate env blob) (\<lambda>(encryptionKey, objectPublic, outPrivate, uriContainer).
     lbind (keep_hmac_key env n objectPublic outPrivate wantKey) (\<lambda>keyName.
     let uriInfo = w_str (wide_units (le_AesCfb env encryptionKey (lt_contents env uriContainer)))
     in lbind (LimpetStoreURI env n uriInfo wantUri) (\<lambda>uriName.
        ldone (encryptionKey, keyName, uriName)))))"

text \<open>Whatever becomes of the import, the blob is deleted, and the result of that is not looked at.\<close>

definition ImportHostageBlobIfPresent :: "('w, 'p) limpet_env \<Rightarrow> 32 word \<Rightarrow> ('w, unit) lim" where
  "ImportHostageBlobIfPresent env n =
     lbind (UseRegistry env n) (\<lambda>u. if \<not> u then ldone () else
     lbind (IsLazyLoadingEnabled env) (\<lambda>lazy. if \<not> lazy then ldone () else
     lbind (IsHostageBlobPresent env n) (\<lambda>p. case p of None \<Rightarrow> ldone () | Some cb \<Rightarrow>
     lbind (lcode (lguard (
       lbind (ReadRegistryBinaryData env (slot_key n) ''hostageblob'' cb) (\<lambda>blob.
       LimpetImportHostageKeyEx env n blob False False)))) (\<lambda>r.
     lthen (lcode (DeleteHostageBlob env n)) (
     case r of Inl c \<Rightarrow> lfail c | Inr x \<Rightarrow> ldone ())))))"

text \<open>\<open>None\<close>: the blob is kept for later, and nothing is handed out.\<close>

definition LimpetImportHostageKey ::
    "('w, 'p) limpet_env \<Rightarrow> 32 word \<Rightarrow> string \<Rightarrow> bool \<Rightarrow> bool \<Rightarrow>
     ('w, (string \<times> wtext option \<times> wtext option) option) lim" where
  "LimpetImportHostageKey env n blob wantKey wantUri =
     lbind (UseRegistry env n) (\<lambda>u.
     lbind (if u then IsLazyLoadingEnabled env else ldone False) (\<lambda>lazy.
     if lazy then lthen (WriteHostageBlobInRegistry env n blob) (ldone None)
     else lbind (LimpetImportHostageKeyEx env n blob wantKey wantUri) (ldone \<circ> Some)))"

definition DestoryHostageBlobIfPresent :: "('w, 'p) limpet_env \<Rightarrow> 32 word \<Rightarrow> ('w, unit) lim" where
  "DestoryHostageBlobIfPresent env n =
     lbind (UseRegistry env n) (\<lambda>u. if \<not> u then ldone () else
     lbind (IsLazyLoadingEnabled env) (\<lambda>lazy. if \<not> lazy then ldone () else
     lbind (IsHostageBlobPresent env n) (\<lambda>p. if p = None then ldone () else DeleteHostageBlob env n)))"

section \<open>Reading and destroying\<close>

abbreviation E_INVALIDARG :: "32 word" where "E_INVALIDARG \<equiv> 0x80070057"

definition LimpetReadURIFromRegistry :: "('w, 'p) limpet_env \<Rightarrow> 32 word \<Rightarrow> 32 word \<Rightarrow> ('w, uri_answer) lim" where
  "LimpetReadURIFromRegistry env n cbUriData =
     lbind (lcode (ImportHostageBlobIfPresent env n)) (\<lambda>r. case r of
       Inl c \<Rightarrow> ldone (c, None, None)
     | Inr u \<Rightarrow> lbind (IsRegistryKeyPresent env (slot_key n)) (\<lambda>present.
       if \<not> present then ldone (TPM_RC_FAILURE, None, None)
       else lbind (lcode (TryReadStringRegistryValue env (slot_key n) ''uri'')) (\<lambda>r. case r of
         Inl c \<Rightarrow> ldone (if c = ERROR_FILE_NOT_FOUND then TPM_RC_FAILURE else c, None, None)
       | Inr propValue \<Rightarrow> lbind (WStringToString env propValue) (\<lambda>uri.
           let size = word_of_nat (length uri)
           in if unat size + 1 > unat cbUriData then ldone (E_INVALIDARG, Some size, None)
              else ldone (0, Some size, Some uri)))))"

definition LimpetReadURI ::
    "('w, 'p) limpet_env \<Rightarrow> 32 word \<Rightarrow> bool \<Rightarrow> 32 word \<Rightarrow> ('w, uri_answer) lim" where
  "LimpetReadURI env n hasBuffer cbUriData =
     lbind (UseRegistry env n) (\<lambda>u.
     if u then LimpetReadURIFromRegistry env n cbUriData else LimpetReadURIFromTpm env n hasBuffer cbUriData)"

definition LimpetDestroyURIFromRegistry ::
    "('w, 'p) limpet_env \<Rightarrow> 32 word \<Rightarrow> bool \<Rightarrow> ('w, wtext option) lim" where
  "LimpetDestroyURIFromRegistry env n want =
     lthen (DestoryHostageBlobIfPresent env n) (
     lbind (IsRegistryKeyPresent env (slot_key n)) (\<lambda>present.
     if \<not> present then lfail TPM_RC_FAILURE
     else lbind (lcode (TryReadStringRegistryValue env (slot_key n) ''uri'')) (\<lambda>r.
       if r = Inl ERROR_FILE_NOT_FOUND then lfail TPM_RC_FAILURE
       else lthen (DeleteRegistryKeyValue env (slot_key n) ''uri'') (
         ldone (if want then Some NoObjectName else None)))))"

definition LimpetDestroyURI ::
    "('w, 'p) limpet_env \<Rightarrow> 32 word \<Rightarrow> bool \<Rightarrow> ('w, wtext option) lim" where
  "LimpetDestroyURI env n want =
     lbind (UseRegistry env n) (\<lambda>u.
     if u then LimpetDestroyURIFromRegistry env n want else LimpetDestroyURIFromTpm env n want)"

text \<open>A name that cannot be read leaves the caller with an empty one.\<close>

definition LimpetEvictHmacKey ::
    "('w, 'p) limpet_env \<Rightarrow> 32 word \<Rightarrow> bool \<Rightarrow> ('w, wtext option) lim" where
  "LimpetEvictHmacKey env n want =
     lguard (lbind (UseRegistry env n) (\<lambda>u.
     if u then
       lthen (DestoryHostageBlobIfPresent env n) (
       lthen (DeleteRegistryKeyValue env (slot_key n) ''hmacpublic'') (
       lthen (DeleteRegistryKeyValue env (slot_key n) ''hmacprivate'') (
       lbind (lcode (TryReadStringRegistryValue env (slot_key n) ''hmacname'')) (\<lambda>r.
       lthen (DeleteRegistryKeyValue env (slot_key n) ''hmacname'') (
       ldone (if want then Some (case r of Inl c \<Rightarrow> [] | Inr name \<Rightarrow> name) else None))))))
     else
       lbind (lcall (lt_ReadPublic env (key_handle n))) (\<lambda>(pub, name).
       lthen (lstatus (lt_EvictControl env (key_handle n) (key_handle n))) (object_name env want name))))"

definition LimpetIsLogicalDevicePresent :: "('w, 'p) limpet_env \<Rightarrow> 32 word \<Rightarrow> ('w, bool) lim" where
  "LimpetIsLogicalDevicePresent env n =
     lbind (lcode (lcall (lt_ReadPublic env (key_handle n)))) (\<lambda>r.
     ldone (case r of Inl c \<Rightarrow> False | Inr x \<Rightarrow> True))"

end
