(* ===== verification/Limpet_Slots.thy ===== *)
theory Limpet_Slots
  imports Limpet_Store
begin

text \<open>
  What the store of Limpet promises: the URIs of the logical devices are a map, whichever of the
  registry and the TPM keeps them.  \<open>platform_laws\<close> is the documented behaviour of the calls on
  the registry and on the NV indices; the locale \<open>uri_store\<close> is the contract of a place that
  keeps URIs, given by the registry, by the TPM and by the functions that choose between the two.
\<close>

section \<open>The platform\<close>

text \<open>
  The keys and values of the registry and the NV indices with their size and, once written, their
  contents, in any larger state.
\<close>

record platform =
  lv_keys :: "string set"
  lv_vals :: "string \<times> string \<Rightarrow> lreg_data option"
  lv_nv :: "32 word \<Rightarrow> (16 word \<times> string option) option"

text \<open>
  What differs between platforms: the name of an index before and after it is written, the largest
  index, and the expansion of variables in texts of the registry.
\<close>

record nv_traits =
  tr_name :: "32 word \<Rightarrow> bool \<Rightarrow> string"
  tr_max :: "16 word"
  tr_expand :: "wtext \<Rightarrow> wtext"

definition registry_calls :: "nv_traits \<Rightarrow> ('z platform_scheme, 'p) limpet_env \<Rightarrow> bool" where
  "registry_calls tr env \<longleftrightarrow>
     (\<forall>k w. lr_Open env k w = (if k \<in> lv_keys w then 0 else 2, w)) \<and>
     (\<forall>k w. lr_Create env k w = (0, w\<lparr>lv_keys := insert k (lv_keys w)\<rparr>)) \<and>
     (\<forall>k p w. lr_GetSize env k p w =
        (case lv_vals w (k, p) of None \<Rightarrow> 2 | Some (LREG_EXPAND_SZ t) \<Rightarrow> 0 | Some d \<Rightarrow> 1630, w)) \<and>
     (\<forall>k p w. lr_GetString env k p w =
        (case lv_vals w (k, p) of None \<Rightarrow> (2, []) | Some (LREG_EXPAND_SZ t) \<Rightarrow> (0, tr_expand tr t) | Some d \<Rightarrow> (1630, []), w)) \<and>
     (\<forall>k p w. lr_QueryDword env k p w =
        (case lv_vals w (k, p) of None \<Rightarrow> (2, 0) | Some (LREG_DWORD d) \<Rightarrow> (0, d) | Some d \<Rightarrow> (234, 0), w)) \<and>
     (\<forall>k p d w. lr_Set env k p d w = (0, w\<lparr>lv_vals := (lv_vals w)((k, p) \<mapsto> d)\<rparr>)) \<and>
     (\<forall>k p w. lr_Delete env (Some k) p w =
        (if lv_vals w (k, p) = None then (2, w) else (0, w\<lparr>lv_vals := (lv_vals w)((k, p) := None)\<rparr>)))"

definition nv_calls :: "nv_traits \<Rightarrow> ('z platform_scheme, 'p) limpet_env \<Rightarrow> bool" where
  "nv_calls tr env \<longleftrightarrow>
     (\<forall>i w. lt_NV_ReadPublic env i w =
        (case lv_nv w i of None \<Rightarrow> (0x18B, [], 0) | Some (sz, c) \<Rightarrow> (0, tr_name tr i (c \<noteq> None), sz), w)) \<and>
     (\<forall>i n w. lt_NV_DefineSpace env i n w =
        (if lv_nv w i \<noteq> None then (0x14C, w) else if n > tr_max tr then (0x2D5, w)
         else (0, w\<lparr>lv_nv := (lv_nv w)(i \<mapsto> (n, None))\<rparr>))) \<and>
     (\<forall>i d w. lt_NV_Write env i d w =
        (case lv_nv w i of None \<Rightarrow> (0x18B, w)
         | Some (sz, c) \<Rightarrow> if length d > unat sz then (0x146, w)
             else (0, w\<lparr>lv_nv := (lv_nv w)(i \<mapsto> (sz,
               Some (d @ drop (length d) (case c of None \<Rightarrow> replicate (unat sz) CHR 0xFF | Some old \<Rightarrow> old))))\<rparr>))) \<and>
     (\<forall>i n w. lt_NV_Read env i n w =
        (case lv_nv w i of None \<Rightarrow> (0x18B, []) | Some (sz, None) \<Rightarrow> (0x14A, [])
         | Some (sz, Some c) \<Rightarrow> if n > sz then (0x146, []) else (0, take (unat n) c), w)) \<and>
     (\<forall>i w. lt_NV_UndefineSpace env i w =
        (if lv_nv w i = None then (0x18B, w) else (0, w\<lparr>lv_nv := (lv_nv w)(i := None)\<rparr>)))"

text \<open>
  Names can be written out, an index has room for 512 bytes, texts without variables are not
  changed, and the device has no certificate of its own.
\<close>

definition traits_ok :: "nv_traits \<Rightarrow> ('z platform_scheme, 'p) limpet_env \<Rightarrow> bool" where
  "traits_ok tr env \<longleftrightarrow>
     (\<forall>i b. tr_name tr i b \<noteq> [] \<and> object_name_text env (tr_name tr i b) \<noteq> None) \<and> tr_max tr \<ge> 512 \<and>
     (\<forall>t. 37 \<notin> set t \<longrightarrow> tr_expand tr t = t) \<and>
     (\<forall>k w. le_KeyCertificate env k w = (None, w)) \<and> (\<forall>h w. snd (lt_ReadPublic env h w) = w)"

definition platform_laws :: "nv_traits \<Rightarrow> ('z platform_scheme, 'p) limpet_env \<Rightarrow> bool" where
  "platform_laws tr env \<longleftrightarrow> registry_calls tr env \<and> nv_calls tr env \<and> traits_ok tr env"

lemma platform_lawsD:
  assumes "platform_laws tr env"
  shows "lr_Open env k w = (if k \<in> lv_keys w then 0 else 2, w)"
    "lr_Create env k w = (0, w\<lparr>lv_keys := insert k (lv_keys w)\<rparr>)"
    "lr_GetSize env k p w =
        (case lv_vals w (k, p) of None \<Rightarrow> 2 | Some (LREG_EXPAND_SZ t) \<Rightarrow> 0 | Some d \<Rightarrow> 1630, w)"
    "lr_GetString env k p w =
        (case lv_vals w (k, p) of None \<Rightarrow> (2, []) | Some (LREG_EXPAND_SZ t) \<Rightarrow> (0, tr_expand tr t) | Some d \<Rightarrow> (1630, []), w)"
    "lr_QueryDword env k p w =
        (case lv_vals w (k, p) of None \<Rightarrow> (2, 0) | Some (LREG_DWORD d) \<Rightarrow> (0, d) | Some d \<Rightarrow> (234, 0), w)"
    "lr_Set env k p d w = (0, w\<lparr>lv_vals := (lv_vals w)((k, p) \<mapsto> d)\<rparr>)"
    "lr_Delete env (Some k) p w =
        (if lv_vals w (k, p) = None then (2, w) else (0, w\<lparr>lv_vals := (lv_vals w)((k, p) := None)\<rparr>))"
    "lt_NV_ReadPublic env i w =
        (case lv_nv w i of None \<Rightarrow> (0x18B, [], 0) | Some (sz, c) \<Rightarrow> (0, tr_name tr i (c \<noteq> None), sz), w)"
    "lt_NV_DefineSpace env i n w =
        (if lv_nv w i \<noteq> None then (0x14C, w) else if n > tr_max tr then (0x2D5, w)
         else (0, w\<lparr>lv_nv := (lv_nv w)(i \<mapsto> (n, None))\<rparr>))"
    "lt_NV_Write env i c w =
        (case lv_nv w i of None \<Rightarrow> (0x18B, w)
         | Some (sz, c0) \<Rightarrow> if length c > unat sz then (0x146, w)
             else (0, w\<lparr>lv_nv := (lv_nv w)(i \<mapsto> (sz,
               Some (c @ drop (length c) (case c0 of None \<Rightarrow> replicate (unat sz) CHR 0xFF | Some old \<Rightarrow> old))))\<rparr>))"
    "lt_NV_Read env i n w =
        (case lv_nv w i of None \<Rightarrow> (0x18B, []) | Some (sz, None) \<Rightarrow> (0x14A, [])
         | Some (sz, Some c) \<Rightarrow> if n > sz then (0x146, []) else (0, take (unat n) c), w)"
    "lt_NV_UndefineSpace env i w =
        (if lv_nv w i = None then (0x18B, w) else (0, w\<lparr>lv_nv := (lv_nv w)(i := None)\<rparr>))"
  using assms by (simp_all add: platform_laws_def registry_calls_def nv_calls_def)

lemma traitsD:
  assumes "platform_laws tr env"
  shows "tr_name tr i b \<noteq> []" "\<exists>s. object_name_text env (tr_name tr i b) = Some s" "tr_max tr \<ge> 512"
    "37 \<notin> set t \<Longrightarrow> tr_expand tr t = t" "le_KeyCertificate env k w = (None, w)"
    "snd (lt_ReadPublic env h w) = w"
  using assms unfolding platform_laws_def traits_ok_def by auto

section \<open>A place that keeps URIs\<close>

text \<open>
  A store with requests, and the map that it stands for.  Some places replace a URI that is there,
  others refuse.
\<close>

datatype uri_request = StoreURI "32 word" wtext | ReadURI "32 word" | DestroyURI "32 word"

datatype uri_reply = Accepted bool | Answered "uri_answer outcome"

definition accepted :: "'a outcome \<Rightarrow> bool" where
  "accepted r \<longleftrightarrow> (case r of Done x \<Rightarrow> True | _ \<Rightarrow> False)"

definition serve_uri ::
    "(32 word \<Rightarrow> wtext \<Rightarrow> ('w, 'a) lim) \<Rightarrow> (32 word \<Rightarrow> ('w, uri_answer) lim) \<Rightarrow> (32 word \<Rightarrow> ('w, 'a) lim) \<Rightarrow>
     uri_request \<Rightarrow> 'w \<Rightarrow> uri_reply \<times> 'w" where
  "serve_uri store read destroy q w = (case q of
     StoreURI n t \<Rightarrow> map_prod (Accepted \<circ> accepted) id (store n t w)
   | ReadURI n \<Rightarrow> map_prod Answered id (read n w)
   | DestroyURI n \<Rightarrow> map_prod (Accepted \<circ> accepted) id (destroy n w))"

fun serve_uris :: "('q \<Rightarrow> 'w \<Rightarrow> 'r \<times> 'w) \<Rightarrow> 'q list \<Rightarrow> 'w \<Rightarrow> 'r list \<times> 'w" where
  "serve_uris serve [] w = ([], w)"
| "serve_uris serve (q # qs) w = (case serve q w of (r, w') \<Rightarrow> apfst (Cons r) (serve_uris serve qs w'))"

text \<open>The map: what a read of it answers, and what a request makes of it.\<close>

type_synonym uri_map = "32 word \<Rightarrow> string option"

definition map_answer :: "string option \<Rightarrow> uri_answer" where
  "map_answer r = (case r of
     None \<Rightarrow> (TPM_RC_FAILURE, None, None) | Some u \<Rightarrow> (0, Some (word_of_nat (length u)), Some u))"

definition serve_map :: "bool \<Rightarrow> (wtext \<Rightarrow> string) \<Rightarrow> uri_request \<Rightarrow> uri_map \<Rightarrow> uri_reply \<times> uri_map" where
  "serve_map replaces uri_bytes q m = (case q of
     StoreURI n t \<Rightarrow> if replaces \<or> m n = None then (Accepted True, m(n \<mapsto> uri_bytes t)) else (Accepted False, m)
   | ReadURI n \<Rightarrow> (Answered (Done (map_answer (m n))), m)
   | DestroyURI n \<Rightarrow> (Accepted (m n \<noteq> None), m(n := None)))"

text \<open>The contract: \<open>lawful\<close> is the platform, \<open>ready\<close> the state, \<open>fits\<close> the texts that can be kept.\<close>

locale uri_store =
  fixes lawful :: "'e \<Rightarrow> bool"
    and ready :: "'e \<Rightarrow> 'w \<Rightarrow> bool"
    and fits :: "'e \<Rightarrow> wtext \<Rightarrow> bool"
    and uri_bytes :: "'e \<Rightarrow> wtext \<Rightarrow> string"
    and replaces :: "'e \<Rightarrow> bool"
    and slots :: "'e \<Rightarrow> 'w \<Rightarrow> uri_map"
    and store :: "'e \<Rightarrow> 32 word \<Rightarrow> wtext \<Rightarrow> ('w, 'a) lim"
    and read :: "'e \<Rightarrow> 32 word \<Rightarrow> ('w, uri_answer) lim"
    and destroy :: "'e \<Rightarrow> 32 word \<Rightarrow> ('w, 'a) lim"
  assumes store_law: "\<lbrakk>lawful e; ready e w; fits e t; store e n t w = (r, w')\<rbrakk> \<Longrightarrow>
      ready e w' \<and> (accepted r \<longleftrightarrow> replaces e \<or> slots e w n = None) \<and>
      slots e w' = (if accepted r then (slots e w)(n \<mapsto> uri_bytes e t) else slots e w)"
    and read_law: "\<lbrakk>lawful e; ready e w; read e n w = (a, w')\<rbrakk> \<Longrightarrow>
      ready e w' \<and> a = Done (map_answer (slots e w n)) \<and> slots e w' = slots e w"
    and destroy_law: "\<lbrakk>lawful e; ready e w; destroy e n w = (r, w')\<rbrakk> \<Longrightarrow>
      ready e w' \<and> (accepted r \<longleftrightarrow> slots e w n \<noteq> None) \<and> slots e w' = (slots e w)(n := None)"
begin

lemma serve_refines:
  assumes "lawful e" and "ready e w" and "\<And>n t. q = StoreURI n t \<Longrightarrow> fits e t"
    and "serve_uri (store e) (read e) (destroy e) q w = (r, w')"
  shows "ready e w' \<and> serve_map (replaces e) (uri_bytes e) q (slots e w) = (r, slots e w')"
proof (cases q)
  case (StoreURI n t)
  with assms(4) obtain s where "store e n t w = (s, w')" "r = Accepted (accepted s)"
    by (cases "store e n t w") (auto simp: serve_uri_def)
  moreover have "fits e t" using assms(3) StoreURI by simp
  ultimately show ?thesis
    using store_law [OF assms(1, 2)] StoreURI by (fastforce simp: serve_map_def)
next
  case (ReadURI n)
  with assms(4) obtain s where "read e n w = (s, w')" "r = Answered s"
    by (cases "read e n w") (auto simp: serve_uri_def)
  then show ?thesis using read_law [OF assms(1, 2)] ReadURI by (fastforce simp: serve_map_def)
next
  case (DestroyURI n)
  with assms(4) obtain s where "destroy e n w = (s, w')" "r = Accepted (accepted s)"
    by (cases "destroy e n w") (auto simp: serve_uri_def)
  then show ?thesis using destroy_law [OF assms(1, 2)] DestroyURI by (fastforce simp: serve_map_def)
qed

theorem serves_refine:
  assumes "lawful e" and "ready e w" and "\<forall>n t. StoreURI n t \<in> set qs \<longrightarrow> fits e t"
    and "serve_uris (serve_uri (store e) (read e) (destroy e)) qs w = (rs, w')"
  shows "ready e w' \<and> serve_uris (serve_map (replaces e) (uri_bytes e)) qs (slots e w) = (rs, slots e w')"
  using assms(2-)
proof (induction qs arbitrary: w rs)
  case (Cons q qs)
  obtain r w1 where q: "serve_uri (store e) (read e) (destroy e) q w = (r, w1)" by fastforce
  with Cons.prems obtain rs' where qs: "serve_uris (serve_uri (store e) (read e) (destroy e)) qs w1 = (rs', w')"
      and rs: "rs = r # rs'"
    by (cases "serve_uris (serve_uri (store e) (read e) (destroy e)) qs w1") auto
  have step: "ready e w1 \<and> serve_map (replaces e) (uri_bytes e) q (slots e w) = (r, slots e w1)"
    by (rule serve_refines [OF assms(1) Cons.prems(1) _ q]) (use Cons.prems(2) in auto)
  with Cons.IH [of w1 rs'] Cons.prems(2) qs rs show ?case by auto
qed simp

end

section \<open>The two places\<close>

lemma slot_key_inj [simp]: "slot_key n = slot_key m \<longleftrightarrow> n = m"
proof
  assume "slot_key n = slot_key m"
  then have "digits_value (string_of_nat (unat n)) = digits_value (string_of_nat (unat m))"
    by (simp add: slot_key_def)
  then show "n = m" by (simp add: word_unat_eq_iff)
qed simp

lemma slot_key_other [simp]: "slot_key n \<noteq> params_key" "params_key \<noteq> slot_key n"
proof -
  have "length (slot_key n) \<noteq> length params_key" by (simp add: slot_key_def)
  then show "slot_key n \<noteq> params_key" "params_key \<noteq> slot_key n" by metis+
qed

lemma uri_index_inj [simp]: "uri_index n = uri_index m \<longleftrightarrow> n = m"
  by (simp add: uri_index_def)

type_synonym ('z, 'p) site = "nv_traits \<times> ('z platform_scheme, 'p) limpet_env"

definition site_lawful :: "('z, 'p) site \<Rightarrow> bool" where
  "site_lawful e = platform_laws (fst e) (snd e)"

text \<open>A text the store can keep: short, without NUL and variables, with UTF-8 bytes.\<close>

definition fits_slot :: "('z, 'p) site \<Rightarrow> wtext \<Rightarrow> bool" where
  "fits_slot e t \<longleftrightarrow> length t < 512 \<and> 0 \<notin> set t \<and> 37 \<notin> set t \<and> le_utf8 (snd e) t \<noteq> [] \<and>
     length (le_utf8 (snd e) t) \<le> 512"

definition site_bytes :: "('z, 'p) site \<Rightarrow> wtext \<Rightarrow> string" where
  "site_bytes e = le_utf8 (snd e)"

text \<open>The choice is made, and blobs are not kept for later.\<close>

definition decided :: "bool \<Rightarrow> 'z platform_scheme \<Rightarrow> bool" where
  "decided d w \<longleftrightarrow> params_key \<in> lv_keys w \<and>
     (\<exists>v. lv_vals w (params_key, ''useregistry'') = Some (LREG_DWORD v) \<and> (v = 1) = d)"

definition not_lazy :: "'z platform_scheme \<Rightarrow> bool" where
  "not_lazy w \<longleftrightarrow> lv_vals w (params_key, ''lazyloadingenabled'') \<noteq> Some (LREG_DWORD 1)"

definition registry_ready :: "('z, 'p) site \<Rightarrow> 'z platform_scheme \<Rightarrow> bool" where
  "registry_ready e w \<longleftrightarrow> decided True w \<and> not_lazy w \<and>
     (\<forall>n. lv_vals w (slot_key n, ''uri'') = None \<or>
        slot_key n \<in> lv_keys w \<and> (\<exists>t. lv_vals w (slot_key n, ''uri'') = Some (LREG_EXPAND_SZ t) \<and> fits_slot e t))"

definition registry_slots :: "('z, 'p) site \<Rightarrow> 'z platform_scheme \<Rightarrow> uri_map" where
  "registry_slots e w = (\<lambda>n. case lv_vals w (slot_key n, ''uri'') of
     Some (LREG_EXPAND_SZ t) \<Rightarrow> Some (site_bytes e t) | _ \<Rightarrow> None)"

definition kept_bytes :: "string \<Rightarrow> bool" where
  "kept_bytes c \<longleftrightarrow> c \<noteq> [] \<and> length c \<le> 512"

definition tpm_ready :: "('z, 'p) site \<Rightarrow> 'z platform_scheme \<Rightarrow> bool" where
  "tpm_ready e w \<longleftrightarrow> decided False w \<and>
     (\<forall>n. lv_nv w (uri_index n) = None \<or>
        (\<exists>c. lv_nv w (uri_index n) = Some (word_of_nat (length c), Some c) \<and> kept_bytes c))"

definition tpm_slots :: "('z, 'p) site \<Rightarrow> 'z platform_scheme \<Rightarrow> uri_map" where
  "tpm_slots e w = (\<lambda>n. case lv_nv w (uri_index n) of Some (sz, Some c) \<Rightarrow> Some c | _ \<Rightarrow> None)"

abbreviation read_buffer :: "32 word" where "read_buffer \<equiv> 1024"

lemma UseRegistry_decided:
  assumes "platform_laws tr env" and "decided d w"
  shows "UseRegistry env n w = (Done d, w)"
  using assms(2) by (auto simp: UseRegistry_def ReadDwordRegistryValue_def decided_def lim_simps platform_lawsD [OF assms(1)])

lemma IsLazyLoadingEnabled_off:
  assumes "platform_laws tr env" and "not_lazy w"
  shows "IsLazyLoadingEnabled env w = (Done False, w)"
  using assms(2) by (auto simp: IsLazyLoadingEnabled_def ReadDwordRegistryValue_def not_lazy_def lim_simps
      platform_lawsD [OF assms(1)] split: option.split lreg_data.split)

lemma no_blob:
  assumes "platform_laws tr env" and "decided d w" and "not_lazy w"
  shows "ImportHostageBlobIfPresent env n w = (Done (), w)" "DestoryHostageBlobIfPresent env n w = (Done (), w)"
  using UseRegistry_decided [OF assms(1, 2), of n] IsLazyLoadingEnabled_off [OF assms(1, 3)]
  by (simp_all add: ImportHostageBlobIfPresent_def DestoryHostageBlobIfPresent_def lim_simps)

lemma takeWhile_all_set: "x \<notin> set t \<Longrightarrow> takeWhile (\<lambda>c. c \<noteq> x) t = t"
  by (induction t) auto

lemma registry_text:
  assumes "platform_laws tr env" and "registry_ready (tr, env) w"
  shows "TryReadStringRegistryValue env (slot_key n) ''uri'' w =
     (case lv_vals w (slot_key n, ''uri'') of Some (LREG_EXPAND_SZ t) \<Rightarrow> Done t | _ \<Rightarrow> Failed 2, w)"
proof -
  have "lv_vals w (slot_key n, ''uri'') = None \<or>
      (\<exists>t. lv_vals w (slot_key n, ''uri'') = Some (LREG_EXPAND_SZ t) \<and> fits_slot (tr, env) t)"
    using assms(2) unfolding registry_ready_def by blast
  then show ?thesis
    by (auto simp: TryReadStringRegistryValue_def lim_simps platform_lawsD [OF assms(1)] traitsD [OF assms(1)]
        fits_slot_def w_str_def takeWhile_all_set)
qed

lemma registry_cases:
  assumes "registry_ready e w"
  obtains (1) "lv_vals w (slot_key n, ''uri'') = None"
    | (2) t where "lv_vals w (slot_key n, ''uri'') = Some (LREG_EXPAND_SZ t)" "slot_key n \<in> lv_keys w" "fits_slot e t"
proof -
  have "lv_vals w (slot_key n, ''uri'') = None \<or>
      slot_key n \<in> lv_keys w \<and> (\<exists>t. lv_vals w (slot_key n, ''uri'') = Some (LREG_EXPAND_SZ t) \<and> fits_slot e t)"
    using assms unfolding registry_ready_def by (elim conjE) (erule spec)
  then show ?thesis
  proof (elim disjE conjE exE)
    assume "lv_vals w (slot_key n, ''uri'') = None"
    then show ?thesis by (rule 1)
  next
    fix t
    assume "slot_key n \<in> lv_keys w" "lv_vals w (slot_key n, ''uri'') = Some (LREG_EXPAND_SZ t)" "fits_slot e t"
    then show ?thesis by (intro 2)
  qed
qed

lemma registry_store:
  assumes "platform_laws tr env" and "registry_ready (tr, env) w" and "fits_slot (tr, env) t"
    and "LimpetStoreURIInRegistry env n t False w = (r, w')"
  shows "registry_ready (tr, env) w' \<and> accepted r \<and>
     registry_slots (tr, env) w' = (registry_slots (tr, env) w)(n \<mapsto> le_utf8 env t)"
proof -
  from assms(4) have r: "r = Done None" and w': "w' = w\<lparr>lv_keys := insert (slot_key n) (lv_keys w),
      lv_vals := (lv_vals w)((slot_key n, ''uri'') \<mapsto> LREG_EXPAND_SZ t)\<rparr>"
    by (simp_all add: LimpetStoreURIInRegistry_def CreateStringRegistryKeyValue_def set_registry_value_def
        SUCCEEDED_def lim_simps platform_lawsD [OF assms(1)])
  have "registry_ready (tr, env) w'"
    using assms(2, 3) by (simp add: w' registry_ready_def decided_def not_lazy_def)
  moreover have "registry_slots (tr, env) w' = (registry_slots (tr, env) w)(n \<mapsto> le_utf8 env t)"
    by (auto simp: w' registry_slots_def site_bytes_def fun_eq_iff)
  ultimately show ?thesis by (simp add: r accepted_def)
qed

lemma short_bytes: "length c \<le> 512 \<Longrightarrow> unat (word_of_nat (length c) :: 32 word) = length c"
  "length c \<le> 512 \<Longrightarrow> unat (word_of_nat (length c) :: 16 word) = length c"
  by (simp_all add: unsigned_of_nat take_bit_nat_eq_self)

lemma registry_read:
  assumes "platform_laws tr env" and "registry_ready (tr, env) w"
  shows "LimpetReadURIFromRegistry env n read_buffer w = (Done (map_answer (registry_slots (tr, env) w n)), w)"
proof -
  have d: "decided True w" "not_lazy w" using assms(2) by (simp_all add: registry_ready_def)
  from assms(2) show ?thesis
  proof (cases rule: registry_cases [where n = n])
    case 1
    then show ?thesis
      by (simp add: LimpetReadURIFromRegistry_def IsRegistryKeyPresent_def no_blob [OF assms(1) d] lim_simps
          platform_lawsD [OF assms(1)] registry_text [OF assms] registry_slots_def map_answer_def)
  next
    case 2
    then show ?thesis
      by (simp add: LimpetReadURIFromRegistry_def IsRegistryKeyPresent_def no_blob [OF assms(1) d] lim_simps
          platform_lawsD [OF assms(1)] registry_text [OF assms] registry_slots_def map_answer_def
          WStringToString_def fits_slot_def site_bytes_def short_bytes Let_def)
  qed
qed

lemma registry_destroy:
  assumes "platform_laws tr env" and "registry_ready (tr, env) w"
    and "LimpetDestroyURIFromRegistry env n False w = (r, w')"
  shows "registry_ready (tr, env) w' \<and> (accepted r \<longleftrightarrow> registry_slots (tr, env) w n \<noteq> None) \<and>
     registry_slots (tr, env) w' = (registry_slots (tr, env) w)(n := None)"
proof -
  have d: "decided True w" "not_lazy w" using assms(2) by (simp_all add: registry_ready_def)
  from assms(2) show ?thesis
  proof (cases rule: registry_cases [where n = n])
    case 1
    then have "w' = w" "\<not> accepted r"
      using assms(3) by (auto simp: LimpetDestroyURIFromRegistry_def IsRegistryKeyPresent_def accepted_def
          no_blob [OF assms(1) d] lim_simps platform_lawsD [OF assms(1)] registry_text [OF assms(1, 2)] split: if_splits)
    with 1 assms(2) show ?thesis by (auto simp: registry_slots_def)
  next
    case 2
    then have "r = Done None" "w' = w\<lparr>lv_vals := (lv_vals w)((slot_key n, ''uri'') := None)\<rparr>"
      using assms(3) by (simp_all add: LimpetDestroyURIFromRegistry_def IsRegistryKeyPresent_def
          no_blob [OF assms(1) d] lim_simps platform_lawsD [OF assms(1)] registry_text [OF assms(1, 2)]
          DeleteRegistryKeyValue_def SUCCEEDED_def registry_result_def)
    moreover have "registry_slots (tr, env) w n \<noteq> None" using 2 by (simp add: registry_slots_def)
    ultimately show ?thesis
      using assms(2) by (auto simp: registry_ready_def decided_def not_lazy_def registry_slots_def accepted_def)
  qed
qed

interpretation registry_uris: uri_store site_lawful registry_ready fits_slot site_bytes "\<lambda>_. True" registry_slots
  "\<lambda>e n t. LimpetStoreURIInRegistry (snd e) n t False" "\<lambda>e n. LimpetReadURIFromRegistry (snd e) n read_buffer"
  "\<lambda>e n. LimpetDestroyURIFromRegistry (snd e) n False"
proof
  fix e :: "('z, 'p) site" and w n t r w'
  assume "site_lawful e" "registry_ready e w" "fits_slot e t" "LimpetStoreURIInRegistry (snd e) n t False w = (r, w')"
  then show "registry_ready e w' \<and> (accepted r \<longleftrightarrow> True \<or> registry_slots e w n = None) \<and>
      registry_slots e w' = (if accepted r then (registry_slots e w)(n \<mapsto> site_bytes e t) else registry_slots e w)"
    using registry_store [of "fst e" "snd e" w t n r w'] by (simp add: site_lawful_def site_bytes_def)
next
  fix e :: "('z, 'p) site" and w n a w'
  assume law: "site_lawful e" "registry_ready e w" and eq: "LimpetReadURIFromRegistry (snd e) n read_buffer w = (a, w')"
  have "(a, w') = (Done (map_answer (registry_slots e w n)), w)"
    using registry_read [of "fst e" "snd e" w n] law by (simp add: site_lawful_def flip: eq)
  with law show "registry_ready e w' \<and> a = Done (map_answer (registry_slots e w n)) \<and> registry_slots e w' = registry_slots e w"
    by simp
next
  fix e :: "('z, 'p) site" and w n r w'
  assume "site_lawful e" "registry_ready e w" "LimpetDestroyURIFromRegistry (snd e) n False w = (r, w')"
  then show "registry_ready e w' \<and> (accepted r \<longleftrightarrow> registry_slots e w n \<noteq> None) \<and>
      registry_slots e w' = (registry_slots e w)(n := None)"
    using registry_destroy [of "fst e" "snd e" w n r w'] by (simp add: site_lawful_def)
qed

lemma tpm_cases:
  assumes "tpm_ready e w"
  obtains (1) "lv_nv w (uri_index n) = None"
    | (2) c where "lv_nv w (uri_index n) = Some (word_of_nat (length c), Some c)" "c \<noteq> []" "length c \<le> 512"
proof -
  have "lv_nv w (uri_index n) = None \<or>
      (\<exists>c. lv_nv w (uri_index n) = Some (word_of_nat (length c), Some c) \<and> kept_bytes c)"
    using assms unfolding tpm_ready_def by (elim conjE) (erule spec)
  then show ?thesis
  proof (elim disjE conjE exE)
    assume "lv_nv w (uri_index n) = None"
    then show ?thesis by (rule 1)
  next
    fix c
    assume "lv_nv w (uri_index n) = Some (word_of_nat (length c), Some c)" "kept_bytes c"
    then show ?thesis using 2 [of c] by (simp add: kept_bytes_def)
  qed
qed

lemma no_device_cert:
  assumes "platform_laws tr env"
  shows "\<exists>c. GetLogicalDeviceCert env n alg want w = (Failed c, w)"
proof -
  obtain c pub name where "lt_ReadPublic env SRK_HANDLE w = ((c, pub, name), w)"
    using traitsD(6) [OF assms, of SRK_HANDLE w] by (metis prod.exhaust_sel)
  then show ?thesis
    by (auto simp: GetLogicalDeviceCert_def LimpetReadDeviceId_def LimpetObjNameToString_def lim_simps
        traitsD(5) [OF assms] Let_def split: option.split)
qed

lemma no_device_cert_uri:
  assumes "platform_laws tr env" and "lv_nv w (uri_index n) = None"
  shows "find_uri env n w = (Failed TPM_RC_FAILURE, w)"
proof -
  obtain c1 c2 where "GetLogicalDeviceCert env n ''RSA'' False w = (Failed c1, w)"
    and "GetLogicalDeviceCert env n ''ECDSA_P256'' False w = (Failed c2, w)"
    using no_device_cert [OF assms(1)] by metis
  then show ?thesis by (simp add: find_uri_def lim_simps platform_lawsD [OF assms(1)] assms(2))
qed

text \<open>Storing in an index that is defined is refused; otherwise it holds the bytes afterwards.\<close>

lemma tpm_store_defined:
  assumes "platform_laws tr env" and "fits_slot (tr, env) t" and "lv_nv w (uri_index n) \<noteq> None"
  shows "LimpetStoreURIInTpm env n t want w = (Failed 0x14C, w)"
  using assms(2, 3) by (simp add: LimpetStoreURIInTpm_def fits_slot_def Let_def lim_simps platform_lawsD [OF assms(1)])

lemma word_of_short: "n \<le> 512 \<Longrightarrow> tr_max tr \<ge> 512 \<Longrightarrow> \<not> word_of_nat n > tr_max tr"
proof -
  assume n: "n \<le> 512" and m: "tr_max tr \<ge> 512"
  have "unat (word_of_nat n :: 16 word) = n" using n by (simp add: unsigned_of_nat take_bit_nat_eq_self)
  moreover have "512 \<le> unat (tr_max tr)" using m by (simp add: word_le_nat_alt)
  ultimately show ?thesis using n by (simp add: word_le_nat_alt not_less)
qed

lemma tpm_store_free:
  assumes "platform_laws tr env" and "fits_slot (tr, env) t" and "lv_nv w (uri_index n) = None"
  shows "LimpetStoreURIInTpm env n t want w =
     (Done (if want then Some (wide (the (object_name_text env (tr_name tr (uri_index n) True)))) else None),
      w\<lparr>lv_nv := (lv_nv w)(uri_index n \<mapsto> (word_of_nat (length (le_utf8 env t)), Some (le_utf8 env t)))\<rparr>)"
proof -
  let ?d = "le_utf8 env t"
  have d: "\<not> 512 \<le> length t" "?d \<noteq> []" "length ?d \<le> 512" using assms(2) by (simp_all add: fits_slot_def)
  have room: "\<not> word_of_nat (length ?d) > tr_max tr"
    by (rule word_of_short [OF d(3) traitsD(3) [OF assms(1)]])
  obtain s where s: "object_name_text env (tr_name tr (uri_index n) True) = Some s"
    using traitsD(2) [OF assms(1)] by blast
  show ?thesis
    using d room assms(3) s
    by (simp add: LimpetStoreURIInTpm_def object_name_def LimpetObjNameToString_def Let_def lim_simps
        platform_lawsD [OF assms(1)] short_bytes)
qed

lemma tpm_destroy_defined:
  assumes "platform_laws tr env" and "lv_nv w (uri_index n) = Some (sz, c)"
  shows "\<exists>nm. LimpetDestroyURIFromTpm env n want w = (Done nm, w\<lparr>lv_nv := (lv_nv w)(uri_index n := None)\<rparr>)"
proof -
  obtain s where "object_name_text env (tr_name tr (uri_index n) (c \<noteq> None)) = Some s"
    using traitsD(2) [OF assms(1)] by blast
  then show ?thesis
    using assms(2) by (auto simp: LimpetDestroyURIFromTpm_def object_name_def LimpetObjNameToString_def lim_simps
        platform_lawsD [OF assms(1)])
qed

lemma tpm_destroy_free:
  assumes "platform_laws tr env" and "lv_nv w (uri_index n) = None"
  shows "LimpetDestroyURIFromTpm env n want w = (Failed 0x18B, w)"
  using assms(2) by (simp add: LimpetDestroyURIFromTpm_def lim_simps platform_lawsD [OF assms(1)])

lemma copy_whole:
  assumes "length c \<le> 512" and "unat cb \<ge> 512"
  shows "copy_uri True cb c = (0, Some (word_of_nat (length c)), Some c)"
  using assms by (simp add: copy_uri_def word_le_nat_alt short_bytes Let_def)

lemma find_uri_kept:
  assumes "platform_laws tr env" and "lv_nv w (uri_index n) = Some (word_of_nat (length c), Some c)" and "length c \<le> 512"
  shows "find_uri env n w = (Done c, w)"
  using assms(2, 3) by (simp add: find_uri_def lim_simps platform_lawsD [OF assms(1)] short_bytes)

lemma tpm_store:
  assumes "platform_laws tr env" and "tpm_ready (tr, env) w" and "fits_slot (tr, env) t"
    and "LimpetStoreURIInTpm env n t False w = (r, w')"
  shows "tpm_ready (tr, env) w' \<and> (accepted r \<longleftrightarrow> tpm_slots (tr, env) w n = None) \<and>
     tpm_slots (tr, env) w' = (if accepted r then (tpm_slots (tr, env) w)(n \<mapsto> le_utf8 env t) else tpm_slots (tr, env) w)"
  using assms(2)
proof (cases rule: tpm_cases [where n = n])
  case 1
  let ?d = "le_utf8 env t"
  have d: "kept_bytes ?d" using assms(3) by (simp add: kept_bytes_def fits_slot_def)
  have r: "r = Done None" and w': "w' = w\<lparr>lv_nv := (lv_nv w)(uri_index n \<mapsto> (word_of_nat (length ?d), Some ?d))\<rparr>"
    using assms(4) tpm_store_free [OF assms(1, 3) 1, of False] by simp_all
  have "tpm_ready (tr, env) w'" using assms(2) d by (simp add: w' tpm_ready_def decided_def)
  moreover have "tpm_slots (tr, env) w' = (tpm_slots (tr, env) w)(n \<mapsto> ?d)"
    by (auto simp: w' tpm_slots_def fun_eq_iff)
  moreover have "tpm_slots (tr, env) w n = None" using 1 by (simp add: tpm_slots_def)
  ultimately show ?thesis by (simp add: r accepted_def)
next
  case (2 c)
  then have "r = Failed 0x14C" "w' = w"
    using assms(4) tpm_store_defined [OF assms(1, 3), of w n False] by simp_all
  with 2 assms(2) show ?thesis by (simp add: accepted_def tpm_slots_def)
qed

lemma tpm_read:
  assumes "platform_laws tr env" and "tpm_ready (tr, env) w"
  shows "LimpetReadURIFromTpm env n True read_buffer w = (Done (map_answer (tpm_slots (tr, env) w n)), w)"
  using assms(2)
proof (cases rule: tpm_cases [where n = n])
  case 1
  then show ?thesis
    using no_device_cert_uri [OF assms(1) 1]
    by (simp add: LimpetReadURIFromTpm_def lim_simps tpm_slots_def map_answer_def)
next
  case (2 c)
  with find_uri_kept [OF assms(1) 2(1, 3)] show ?thesis
    by (simp add: LimpetReadURIFromTpm_def lim_simps tpm_slots_def map_answer_def copy_whole)
qed

lemma tpm_destroy:
  assumes "platform_laws tr env" and "tpm_ready (tr, env) w"
    and "LimpetDestroyURIFromTpm env n False w = (r, w')"
  shows "tpm_ready (tr, env) w' \<and> (accepted r \<longleftrightarrow> tpm_slots (tr, env) w n \<noteq> None) \<and>
     tpm_slots (tr, env) w' = (tpm_slots (tr, env) w)(n := None)"
  using assms(2)
proof (cases rule: tpm_cases [where n = n])
  case 1
  then have "r = Failed 0x18B" "w' = w" using assms(3) tpm_destroy_free [OF assms(1) 1, of False] by simp_all
  with 1 assms(2) show ?thesis by (auto simp: accepted_def tpm_slots_def)
next
  case (2 c)
  obtain nm where "r = Done nm" "w' = w\<lparr>lv_nv := (lv_nv w)(uri_index n := None)\<rparr>"
    using assms(3) tpm_destroy_defined [OF assms(1) 2(1), of False] by auto
  with 2 assms(2) show ?thesis by (auto simp: accepted_def tpm_slots_def tpm_ready_def decided_def)
qed

interpretation tpm_uris: uri_store site_lawful tpm_ready fits_slot site_bytes "\<lambda>_. False" tpm_slots
  "\<lambda>e n t. LimpetStoreURIInTpm (snd e) n t False" "\<lambda>e n. LimpetReadURIFromTpm (snd e) n True read_buffer"
  "\<lambda>e n. LimpetDestroyURIFromTpm (snd e) n False"
proof
  fix e :: "('z, 'p) site" and w n t r w'
  assume "site_lawful e" "tpm_ready e w" "fits_slot e t" "LimpetStoreURIInTpm (snd e) n t False w = (r, w')"
  then show "tpm_ready e w' \<and> (accepted r \<longleftrightarrow> False \<or> tpm_slots e w n = None) \<and>
      tpm_slots e w' = (if accepted r then (tpm_slots e w)(n \<mapsto> site_bytes e t) else tpm_slots e w)"
    using tpm_store [of "fst e" "snd e" w t n r w'] by (simp add: site_lawful_def site_bytes_def)
next
  fix e :: "('z, 'p) site" and w n a w'
  assume law: "site_lawful e" "tpm_ready e w" and eq: "LimpetReadURIFromTpm (snd e) n True read_buffer w = (a, w')"
  have "(a, w') = (Done (map_answer (tpm_slots e w n)), w)"
    using tpm_read [of "fst e" "snd e" w n] law by (simp add: site_lawful_def flip: eq)
  with law show "tpm_ready e w' \<and> a = Done (map_answer (tpm_slots e w n)) \<and> tpm_slots e w' = tpm_slots e w"
    by simp
next
  fix e :: "('z, 'p) site" and w n r w'
  assume "site_lawful e" "tpm_ready e w" "LimpetDestroyURIFromTpm (snd e) n False w = (r, w')"
  then show "tpm_ready e w' \<and> (accepted r \<longleftrightarrow> tpm_slots e w n \<noteq> None) \<and> tpm_slots e w' = (tpm_slots e w)(n := None)"
    using tpm_destroy [of "fst e" "snd e" w n r w'] by (simp add: site_lawful_def)
qed

section \<open>The choice\<close>

text \<open>A site with the choice its registry holds.\<close>

type_synonym ('z, 'p) chosen = "('z, 'p) site \<times> bool"

definition uris_ready :: "('z, 'p) chosen \<Rightarrow> 'z platform_scheme \<Rightarrow> bool" where
  "uris_ready c w \<longleftrightarrow> (if snd c then registry_ready (fst c) w else tpm_ready (fst c) w)"

definition uri_slots :: "('z, 'p) chosen \<Rightarrow> 'z platform_scheme \<Rightarrow> uri_map" where
  "uri_slots c = (if snd c then registry_slots (fst c) else tpm_slots (fst c))"

abbreviation chosen_env :: "('z, 'p) chosen \<Rightarrow> ('z platform_scheme, 'p) limpet_env" where
  "chosen_env c \<equiv> snd (fst c)"

lemma chosen_UseRegistry:
  assumes "site_lawful (fst c)" and "uris_ready c w"
  shows "UseRegistry (chosen_env c) n w = (Done (snd c), w)"
proof -
  have "decided (snd c) w"
    using assms(2) by (auto simp: uris_ready_def registry_ready_def tpm_ready_def split: if_splits)
  with assms(1) show ?thesis unfolding site_lawful_def by (rule UseRegistry_decided)
qed

lemma chosen_calls:
  assumes "site_lawful (fst c)" and "uris_ready c w"
  shows "LimpetStoreURI (chosen_env c) n t want w =
      (if snd c then LimpetStoreURIInRegistry (chosen_env c) n t want w else LimpetStoreURIInTpm (chosen_env c) n t want w)"
    "LimpetReadURI (chosen_env c) n hasBuffer cb w =
      (if snd c then LimpetReadURIFromRegistry (chosen_env c) n cb w else LimpetReadURIFromTpm (chosen_env c) n hasBuffer cb w)"
    "LimpetDestroyURI (chosen_env c) n want w =
      (if snd c then LimpetDestroyURIFromRegistry (chosen_env c) n want w else LimpetDestroyURIFromTpm (chosen_env c) n want w)"
  using chosen_UseRegistry [OF assms, of n]
  by (simp_all add: LimpetStoreURI_def LimpetReadURI_def LimpetDestroyURI_def lbind_def)

interpretation limpet_uris: uri_store "\<lambda>c. site_lawful (fst c)" uris_ready "\<lambda>c. fits_slot (fst c)" "\<lambda>c. site_bytes (fst c)"
  snd uri_slots "\<lambda>c n t. LimpetStoreURI (chosen_env c) n t False" "\<lambda>c n. LimpetReadURI (chosen_env c) n True read_buffer"
  "\<lambda>c n. LimpetDestroyURI (chosen_env c) n False"
proof
  fix c :: "('z, 'p) chosen" and w n t r w'
  assume c: "site_lawful (fst c)" "uris_ready c w" "fits_slot (fst c) t" "LimpetStoreURI (chosen_env c) n t False w = (r, w')"
  show "uris_ready c w' \<and> (accepted r \<longleftrightarrow> snd c \<or> uri_slots c w n = None) \<and>
      uri_slots c w' = (if accepted r then (uri_slots c w)(n \<mapsto> site_bytes (fst c) t) else uri_slots c w)"
    using registry_uris.store_law [OF c(1) _ c(3), of w n r w'] tpm_uris.store_law [OF c(1) _ c(3), of w n r w'] c(2, 4)
    by (cases "snd c") (simp_all add: chosen_calls [OF c(1, 2)] uris_ready_def uri_slots_def)
next
  fix c :: "('z, 'p) chosen" and w n a w'
  assume c: "site_lawful (fst c)" "uris_ready c w" "LimpetReadURI (chosen_env c) n True read_buffer w = (a, w')"
  show "uris_ready c w' \<and> a = Done (map_answer (uri_slots c w n)) \<and> uri_slots c w' = uri_slots c w"
    using registry_uris.read_law [OF c(1), of w n a w'] tpm_uris.read_law [OF c(1), of w n a w'] c(2, 3)
    by (cases "snd c") (simp_all add: chosen_calls [OF c(1, 2)] uris_ready_def uri_slots_def)
next
  fix c :: "('z, 'p) chosen" and w n r w'
  assume c: "site_lawful (fst c)" "uris_ready c w" "LimpetDestroyURI (chosen_env c) n False w = (r, w')"
  show "uris_ready c w' \<and> (accepted r \<longleftrightarrow> uri_slots c w n \<noteq> None) \<and> uri_slots c w' = (uri_slots c w)(n := None)"
    using registry_uris.destroy_law [OF c(1), of w n r w'] tpm_uris.destroy_law [OF c(1), of w n r w'] c(2, 3)
    by (cases "snd c") (simp_all add: chosen_calls [OF c(1, 2)] uris_ready_def uri_slots_def)
qed

lemma read_name_kept:
  assumes "platform_laws tr env"
  shows "\<exists>r. ReadUriNameFromTpm env n w = (r, w) \<and> (lv_nv w (uri_index n) = None \<longleftrightarrow> (\<exists>c. r = Failed c)) \<and>
    (lv_nv w (uri_index n) \<noteq> None \<longleftrightarrow> (\<exists>nm. r = Done nm))"
proof (cases "lv_nv w (uri_index n)")
  case (Some s)
  obtain sz c where s: "s = (sz, c)" by (cases s)
  obtain t where "object_name_text env (tr_name tr (uri_index n) (c \<noteq> None)) = Some t"
    using traitsD(2) [OF assms] by blast
  with Some s show ?thesis
    by (simp add: ReadUriNameFromTpm_def LimpetObjNameToString_def lim_simps platform_lawsD [OF assms] traitsD(1) [OF assms])
qed (simp add: ReadUriNameFromTpm_def lim_simps platform_lawsD [OF assms])

text \<open>The trial: whatever the slot holds is gone, and the TPM passes.\<close>

lemma TryTpmNvOperations_passes:
  assumes laws: "platform_laws tr env" and fits: "fits_slot (tr, env) (wide ''limpettest.org/limpet'')"
  shows "TryTpmNvOperations env n w = (Done (), w\<lparr>lv_nv := (lv_nv w)(uri_index n := None)\<rparr>)"
proof -
  let ?t = "wide ''limpettest.org/limpet''" and ?i = "uri_index n"
  let ?w1 = "w\<lparr>lv_nv := (lv_nv w)(?i := None)\<rparr>"
  let ?d = "le_utf8 env ?t"
  define w2 where "w2 = w\<lparr>lv_nv := (lv_nv w)(?i \<mapsto> (word_of_nat (length ?d), Some ?d))\<rparr>"
  have clean: "(case r of Inl c \<Rightarrow> ldone () | Inr nm \<Rightarrow> lthen (LimpetDestroyURIFromTpm env n True) (ldone ())) w = (Done (), ?w1)"
    if "lcode (ReadUriNameFromTpm env n) w = (Done r, w)" for r :: "32 word + string option"
  proof (cases "lv_nv w ?i")
    case None
    then have "?w1 = w" by (simp add: fun_upd_idem)
    moreover obtain c where "ReadUriNameFromTpm env n w = (Failed c, w)" using read_name_kept [OF laws, of n w] None by blast
    ultimately show ?thesis using that by (auto simp: lim_simps)
  next
    case (Some s)
    then obtain nm where "ReadUriNameFromTpm env n w = (Done nm, w)" using read_name_kept [OF laws, of n w] by auto
    then have "r = Inr nm" using that by (simp add: lcode_def)
    moreover obtain x where "LimpetDestroyURIFromTpm env n True w = (Done x, ?w1)"
      using tpm_destroy_defined [OF laws] Some by (metis prod.exhaust)
    ultimately show ?thesis by (simp add: lim_simps)
  qed
  obtain r where r: "lcode (ReadUriNameFromTpm env n) w = (Done r, w)"
    using read_name_kept [OF laws, of n w] by (cases "lv_nv w ?i") (auto simp: lcode_def)
  obtain x where store: "LimpetStoreURIInTpm env n ?t True ?w1 = (Done x, w2)"
    using tpm_store_free [OF laws fits, of ?w1 n True] by (simp add: w2_def)
  have "find_uri env n w2 = (Done ?d, w2)"
    by (rule find_uri_kept [OF laws]) (use fits in \<open>simp_all add: fits_slot_def w2_def\<close>)
  then have rd: "LimpetReadURIFromTpm env n True 512 w2 = (Done (0, Some (word_of_nat (length ?d)), Some ?d), w2)"
    using fits by (simp add: LimpetReadURIFromTpm_def lim_simps copy_whole fits_slot_def)
  obtain y where destroy: "LimpetDestroyURIFromTpm env n True w2 = (Done y, ?w1)"
    using tpm_destroy_defined [OF laws, of w2 n "word_of_nat (length ?d)" "Some ?d" True] by (auto simp: w2_def)
  show ?thesis
    unfolding TryTpmNvOperations_def lguard_def
    by (simp add: lim_run(1) [where m = "lcode (ReadUriNameFromTpm env n)", OF r]
        lim_run(2) [where m = "case r of Inl c \<Rightarrow> ldone () | Inr nm \<Rightarrow> lthen (LimpetDestroyURIFromTpm env n True) (ldone ())", OF clean [OF r]]
        lim_run(2) [where m = "LimpetStoreURIInTpm env n ?t True", OF store]
        lim_run(1) [where m = "LimpetReadURIFromTpm env n True 512", OF rd]
        lim_run(2) [where m = "LimpetDestroyURIFromTpm env n True", OF destroy] ldone_def)
qed

section \<open>What the store promises\<close>

definition undecided :: "'z platform_scheme \<Rightarrow> bool" where
  "undecided w \<longleftrightarrow> lv_vals w (params_key, ''useregistry'') = None"

text \<open>The state after the choice fell on the TPM.\<close>

definition tpm_chosen :: "32 word \<Rightarrow> 'z platform_scheme \<Rightarrow> 'z platform_scheme" where
  "tpm_chosen n w = w\<lparr>lv_keys := insert params_key (lv_keys w),
     lv_vals := (lv_vals w)((params_key, ''useregistry'') \<mapsto> LREG_DWORD 0),
     lv_nv := (lv_nv w)(uri_index n := None)\<rparr>"

lemma UseRegistry_undecided:
  assumes laws: "platform_laws tr env" and "fits_slot (tr, env) (wide ''limpettest.org/limpet'')" and "undecided w"
  shows "UseRegistry env n w = (Done False, tpm_chosen n w)"
proof -
  have "\<exists>c. ReadDwordRegistryValue env ''useregistry'' w = (Failed c, w)"
    using assms(3) by (simp add: ReadDwordRegistryValue_def undecided_def lim_simps platform_lawsD [OF laws])
  then obtain c where "ReadDwordRegistryValue env ''useregistry'' w = (Failed c, w)" by blast
  then show ?thesis
    by (simp add: UseRegistry_def lim_simps TryTpmNvOperations_passes [OF assms(1, 2)] SetRegistryValueWithDword_def
        set_registry_value_def platform_lawsD [OF laws] tpm_chosen_def)
qed

text \<open>
  C16: for a device without a certificate of its own, on a platform that keeps its documented
  behaviour, has made its choice and keeps no imported keys for later, and for texts that fit a
  slot (fewer than 512 characters, at most 512 and at least one byte of UTF-8, no NUL and no
  percent sign, since the registry expands variables): any sequence of calls of LimpetStoreURI,
  LimpetReadURI and LimpetDestroyURI answers as the map from the devices to their URIs does, and
  leaves the slots as that map.  Where the registry was chosen the map replaces a URI that is
  there, where the TPM was chosen it refuses.
\<close>

theorem limpet_keeps_uris:
  assumes "platform_laws tr env" and "uris_ready ((tr, env), d) w"
    and "\<forall>n t. StoreURI n t \<in> set qs \<longrightarrow> fits_slot (tr, env) t"
    and "serve_uris (serve_uri (\<lambda>n t. LimpetStoreURI env n t False) (\<lambda>n. LimpetReadURI env n True 1024)
      (\<lambda>n. LimpetDestroyURI env n False)) qs w = (rs, w')"
  shows "serve_uris (serve_map d (le_utf8 env)) qs (uri_slots ((tr, env), d) w) = (rs, uri_slots ((tr, env), d) w')"
  using limpet_uris.serves_refine [of "((tr, env), d)" w qs rs w'] assms
  by (simp add: site_lawful_def site_bytes_def)

text \<open>
  C20: the first call that has to choose between the TPM and the registry answers the TPM when the
  TPM works, and on the way destroys whatever URI the slot held: a URI stored before the choice
  was recorded cannot be read.
\<close>

theorem choice_destroys_uri:
  assumes "platform_laws tr env" and "fits_slot (tr, env) (wide ''limpettest.org/limpet'')" and "undecided w"
  shows "UseRegistry env n w = (Done False, tpm_chosen n w) \<and>
    LimpetReadURI env n True cb w = (Done (TPM_RC_FAILURE, None, None), tpm_chosen n w)"
proof -
  have "find_uri env n (tpm_chosen n w) = (Failed TPM_RC_FAILURE, tpm_chosen n w)"
    by (rule no_device_cert_uri [OF assms(1)]) (simp add: tpm_chosen_def)
  with UseRegistry_undecided [OF assms, of n] show ?thesis
    by (simp add: LimpetReadURI_def LimpetReadURIFromTpm_def lim_simps)
qed

section \<open>A platform\<close>

definition sample_traits :: nv_traits where
  "sample_traits = \<lparr>tr_name = (\<lambda>i b. ''n''), tr_max = 1024, tr_expand = (\<lambda>t. t)\<rparr>"

definition sample_calls :: "('z platform_scheme, string) limpet_env" where
  "sample_calls = \<lparr>
     lr_Open = (\<lambda>k w. (if k \<in> lv_keys w then 0 else 2, w)),
     lr_Create = (\<lambda>k w. (0, w\<lparr>lv_keys := insert k (lv_keys w)\<rparr>)),
     lr_GetSize = (\<lambda>k p w. (case lv_vals w (k, p) of None \<Rightarrow> 2 | Some (LREG_EXPAND_SZ t) \<Rightarrow> 0 | Some d \<Rightarrow> 1630, w)),
     lr_GetString = (\<lambda>k p w.
       (case lv_vals w (k, p) of None \<Rightarrow> (2, []) | Some (LREG_EXPAND_SZ t) \<Rightarrow> (0, t) | Some d \<Rightarrow> (1630, []), w)),
     lr_QueryDword = (\<lambda>k p w.
       (case lv_vals w (k, p) of None \<Rightarrow> (2, 0) | Some (LREG_DWORD d) \<Rightarrow> (0, d) | Some d \<Rightarrow> (234, 0), w)),
     lr_QuerySize = (\<lambda>k p w. ((2, 0), w)), lr_QueryData = (\<lambda>k p w. ((2, []), w)),
     lr_Set = (\<lambda>k p d w. (0, w\<lparr>lv_vals := (lv_vals w)((k, p) \<mapsto> d)\<rparr>)),
     lr_Delete = (\<lambda>k p w. case k of None \<Rightarrow> (6, w) | Some k \<Rightarrow>
       (if lv_vals w (k, p) = None then (2, w) else (0, w\<lparr>lv_vals := (lv_vals w)((k, p) := None)\<rparr>))),
     lt_ReadPublic = (\<lambda>h w. ((0x18B, [], []), w)),
     lt_NV_ReadPublic = (\<lambda>i w. (case lv_nv w i of None \<Rightarrow> (0x18B, [], 0) | Some (sz, c) \<Rightarrow> (0, ''n'', sz), w)),
     lt_NV_DefineSpace = (\<lambda>i n w. (if lv_nv w i \<noteq> None then (0x14C, w) else if n > 1024 then (0x2D5, w)
       else (0, w\<lparr>lv_nv := (lv_nv w)(i \<mapsto> (n, None))\<rparr>))),
     lt_NV_Write = (\<lambda>i d w. (case lv_nv w i of None \<Rightarrow> (0x18B, w)
       | Some (sz, c) \<Rightarrow> if length d > unat sz then (0x146, w)
           else (0, w\<lparr>lv_nv := (lv_nv w)(i \<mapsto> (sz,
             Some (d @ drop (length d) (case c of None \<Rightarrow> replicate (unat sz) CHR 0xFF | Some old \<Rightarrow> old))))\<rparr>))),
     lt_NV_Read = (\<lambda>i n w. (case lv_nv w i of None \<Rightarrow> (0x18B, []) | Some (sz, None) \<Rightarrow> (0x14A, [])
       | Some (sz, Some c) \<Rightarrow> if n > sz then (0x146, []) else (0, take (unat n) c), w)),
     lt_NV_UndefineSpace = (\<lambda>i w.
       if lv_nv w i = None then (0x18B, w) else (0, w\<lparr>lv_nv := (lv_nv w)(i := None)\<rparr>)),
     lt_Create = (\<lambda>k w. ((0, ''pub'', k), w)), lt_Load = (\<lambda>a b w. ((0, 1, ''k''), w)),
     lt_EvictControl = (\<lambda>h p w. (0, w)), lt_FlushContext = (\<lambda>h w. (0, w)),
     lt_HMAC = (\<lambda>h d w. ((0, ''mac''), w)), lt_HMAC_Start = (\<lambda>h w. ((0, 2), w)),
     lt_SequenceUpdate = (\<lambda>h d w. (0, w)), lt_SequenceComplete = (\<lambda>h d w. ((0, ''mac''), w)),
     lt_StartAuthSession = (\<lambda>w. ((0, ''s''), w)), lt_PolicySecret = (\<lambda>s w. ((0, s), w)),
     lt_ActivateCredential = (\<lambda>s a b w. ((0, ''0123456789abcdef''), w)),
     lt_Import = (\<lambda>k a b c w. ((0, b), w)),
     lt_Permanent = (\<lambda>w. ((0, False, False), w)), lt_Clear = (\<lambda>h a w. (0, w)), lt_ClearControl = (\<lambda>w. (0, w)),
     le_OwnerAuth = (\<lambda>w. (None, w)), le_PhysicalPresence = (\<lambda>w. ((0, 0), w)),
     lt_marshal = (\<lambda>k p. p), lt_unmarshal = (\<lambda>k b. (0, b, [])), lt_contents = (\<lambda>p. p),
     le_sha256 = (\<lambda>b. b), le_base64 = (\<lambda>b. Some b), le_utf8 = map (\<lambda>c. char_of (unat c)),
     le_widen = wide, le_narrow = map (\<lambda>c. char_of (unat c)), le_unbase64 = (\<lambda>t. Some (map (\<lambda>c. char_of (unat c)) t)),
     le_digest = (\<lambda>b w. ((0, b), w)), le_hresult = (\<lambda>c. c), le_FileTime = (\<lambda>w. (116444736000000000, w)), le_capacity = 527, le_wcapacity = 519,
     le_AesCfb = (\<lambda>k b. b),
     le_KeyCertificate = (\<lambda>k w. (None, w)), le_SubjectName = (\<lambda>c. None)\<rparr>"

abbreviation sample_limpet :: "(platform, string) limpet_env" where
  "sample_limpet \<equiv> sample_calls"

lemma sample_calls_laws: "platform_laws sample_traits (sample_calls :: ('z platform_scheme, string) limpet_env)"
proof -
  have "object_name_text (sample_calls :: ('z platform_scheme, string) limpet_env) ''n'' = Some ''n''" by code_simp
  then have "traits_ok sample_traits (sample_calls :: ('z platform_scheme, string) limpet_env)"
    by (simp add: traits_ok_def sample_traits_def) (simp add: sample_calls_def)
  moreover have "registry_calls sample_traits (sample_calls :: ('z platform_scheme, string) limpet_env)"
    "nv_calls sample_traits (sample_calls :: ('z platform_scheme, string) limpet_env)"
    by (simp_all add: registry_calls_def nv_calls_def sample_traits_def sample_calls_def
        split: option.split lreg_data.split prod.split)
  ultimately show ?thesis by (simp add: platform_laws_def)
qed

lemmas sample_platform_laws = sample_calls_laws [where 'z = unit]

text \<open>A fresh state: no choice yet, and one slot of the TPM filled; and one with the registry chosen.\<close>

definition fresh_platform :: platform where
  "fresh_platform = \<lparr>lv_keys = {}, lv_vals = (\<lambda>_. None),
     lv_nv = (\<lambda>i. if i = uri_index 0 then Some (3, Some ''h/d'') else None)\<rparr>"

definition registry_platform :: platform where
  "registry_platform = \<lparr>lv_keys = {params_key},
     lv_vals = (\<lambda>kp. if kp = (params_key, ''useregistry'') then Some (LREG_DWORD 1) else None), lv_nv = (\<lambda>_. None)\<rparr>"

lemma sample_fits:
  "fits_slot (sample_traits, sample_limpet) (wide ''limpettest.org/limpet'')"
  "fits_slot (sample_traits, sample_limpet) (wide ''h/d'')"
  by (simp_all add: fits_slot_def sample_calls_def wide_def)

text \<open>Stored, read, destroyed and read again.\<close>

theorem limpet_keeps_uris_witness:
  "fst (serve_uris (serve_uri (\<lambda>n t. LimpetStoreURI sample_limpet n t False)
      (\<lambda>n. LimpetReadURI sample_limpet n True 1024) (\<lambda>n. LimpetDestroyURI sample_limpet n False))
      [StoreURI 1 (wide ''h/d''), ReadURI 1, DestroyURI 1, ReadURI 1] registry_platform) =
    [Accepted True, Answered (Done (0, Some 3, Some ''h/d'')), Accepted True, Answered (Done (TPM_RC_FAILURE, None, None))]"
  (is "fst (?run registry_platform) = _")
proof -
  have ready: "uris_ready ((sample_traits, sample_limpet), True) registry_platform"
    by (simp add: uris_ready_def registry_ready_def decided_def not_lazy_def registry_platform_def)
  have bytes: "le_utf8 sample_limpet (wide ''h/d'') = ''h/d''"
    by (simp add: sample_calls_def wide_def char_of_eq_iff)
  have empty: "uri_slots ((sample_traits, sample_limpet), True) registry_platform = (\<lambda>_. None)"
    by (simp add: uri_slots_def registry_slots_def registry_platform_def fun_eq_iff)
  have fits: "\<forall>n t. StoreURI n t \<in> set [StoreURI 1 (wide ''h/d''), ReadURI 1, DestroyURI 1, ReadURI 1] \<longrightarrow>
      fits_slot (sample_traits, sample_limpet) t"
    by (simp add: sample_fits)
  obtain rs w' where run: "?run registry_platform = (rs, w')" by fastforce
  have "serve_uris (serve_map True (le_utf8 sample_limpet))
      [StoreURI 1 (wide ''h/d''), ReadURI 1, DestroyURI 1, ReadURI 1] (\<lambda>_. None) =
      (rs, uri_slots ((sample_traits, sample_limpet), True) w')"
    using limpet_keeps_uris [OF sample_platform_laws ready fits run] by (simp only: empty)
  then have "rs = [Accepted True, Answered (Done (0, Some 3, Some ''h/d'')), Accepted True,
      Answered (Done (TPM_RC_FAILURE, None, None))]"
    by (auto simp: serve_map_def map_answer_def bytes)
  with run show ?thesis by simp
qed

theorem choice_destroys_uri_witness:
  "lv_nv fresh_platform (uri_index 0) = Some (3, Some ''h/d'') \<and>
   UseRegistry sample_limpet 0 fresh_platform = (Done False, tpm_chosen 0 fresh_platform) \<and>
   LimpetReadURI sample_limpet 0 True 1024 fresh_platform =
     (Done (TPM_RC_FAILURE, None, None), tpm_chosen 0 fresh_platform)"
  using choice_destroys_uri [OF sample_platform_laws sample_fits(1), of fresh_platform 0 1024]
  by (simp add: undecided_def fresh_platform_def)

end
