(* ===== verification/Limpet_Sign.thy ===== *)
theory Limpet_Sign
  imports Limpet_Slots
begin

text \<open>
  What LimpetApi.cpp does with the key of a logical device: the HMAC of data of any length, in one
  command of the TPM or in a sequence of them, and the connection string with its shared access
  signature; the registration id of the device, and clearing the TPM.
\<close>

section \<open>Signing\<close>

text \<open>
  The key of the registry, loaded into the TPM.  When it cannot be loaded, the key is deleted.
\<close>

definition load_hmac_key :: "('w, 'p) limpet_env \<Rightarrow> 32 word \<Rightarrow> ('w, 32 word) lim" where
  "load_hmac_key env n =
     lbind (ReadRegistryBinaryData env (slot_key n) ''hmacpublic'' 2048) (\<lambda>publicBytes.
     lbind (unmarshal env PUBLIC_AREA publicBytes) (\<lambda>(publicArea, b1).
     lbind (ReadRegistryBinaryData env (slot_key n) ''hmacprivate'' 2048) (\<lambda>privateBytes.
     lbind (unmarshal env PRIVATE_AREA privateBytes) (\<lambda>(privateArea, b2).
     lbind (lcode (lcall (lt_Load env publicArea privateArea))) (\<lambda>r. case r of
       Inr (handle, name) \<Rightarrow> ldone handle
     | Inl c \<Rightarrow> lthen (lcode (LimpetEvictHmacKey env n False)) (lfail c))))))"

text \<open>The loop over the data: whole updates while more than 1024 bytes are left, then the rest.\<close>

function sign_loop :: "('w, 'p) limpet_env \<Rightarrow> 32 word \<Rightarrow> string \<Rightarrow> ('w, string) lim" where
  "sign_loop env sequence data =
     (if length data > 1024
      then lthen (lstatus (lt_SequenceUpdate env sequence (take 1024 data))) (sign_loop env sequence (drop 1024 data))
      else lcall (lt_SequenceComplete env sequence data))"
  by pat_completeness auto
termination by (relation "measure (\<lambda>(env, sequence, data). length data)") auto

declare sign_loop.simps [simp del]

definition sign_data :: "('w, 'p) limpet_env \<Rightarrow> 32 word \<Rightarrow> 32 word \<Rightarrow> string \<Rightarrow> ('w, string) lim" where
  "sign_data env n loaded data =
     lbind (UseRegistry env n) (\<lambda>u.
     let key = (if u then loaded else key_handle n)
     in if length data \<le> 1024 then lcall (lt_HMAC env key data)
        else lbind (lcall (lt_HMAC_Start env key)) (\<lambda>sequence. sign_loop env sequence data))"

definition LimpetSignWithIdentityHmacKeyEx :: "('w, 'p) limpet_env \<Rightarrow> 32 word \<Rightarrow> string \<Rightarrow> ('w, string) lim" where
  "LimpetSignWithIdentityHmacKeyEx env n data =
     lguard (lbind (UseRegistry env n) (\<lambda>u.
     lbind (if u then load_hmac_key env n else ldone 0) (\<lambda>loaded.
     lbind (sign_data env n loaded data) (\<lambda>signature.
     lbind (UseRegistry env n) (\<lambda>u.
     if u then lthen (lstatus (lt_FlushContext env loaded)) (ldone signature) else ldone signature)))))"

definition LimpetSignWithIdentityHmacKey :: "('w, 'p) limpet_env \<Rightarrow> 32 word \<Rightarrow> string \<Rightarrow> ('w, string) lim" where
  "LimpetSignWithIdentityHmacKey env n data =
     lthen (ImportHostageBlobIfPresent env n) (LimpetSignWithIdentityHmacKeyEx env n data)"

section \<open>The connection string\<close>

text \<open>
  The URI is host/device or host/device/module, or a host that is its device's name too.  The
  separators are overwritten by NULs.
\<close>

definition split_uri :: "string \<Rightarrow> string \<times> string \<times> string option" where
  "split_uri uriData =
     (let host = takeWhile (\<lambda>c. c \<noteq> CHR ''/'') uriData
      in if CHR ''/'' \<notin> set uriData then (c_str uriData, c_str uriData, None)
         else let rest = drop (length host + 1) uriData; device = takeWhile (\<lambda>c. c \<noteq> CHR ''/'') rest
              in (c_str host, c_str device,
                  if CHR ''/'' \<in> set rest then Some (c_str (drop (length device + 1) rest)) else None))"

definition lld :: "int \<Rightarrow> string" where
  "lld e = (if e < 0 then ''-'' @ string_of_nat (nat (- e)) else string_of_nat (nat e))"

text \<open>Printing into a buffer of a capacity fails when the text and its NUL do not fit.\<close>

definition printed :: "nat \<Rightarrow> 'c list \<Rightarrow> ('w, 'c list) lim" where
  "printed capacity s = (if length s < capacity then ldone s else lfail TPM_RC_FAILURE)"

definition printed_with :: "nat \<Rightarrow> wtext \<Rightarrow> wtext option \<Rightarrow> ('w, wtext) lim" where
  "printed_with capacity s module =
     lbind (printed capacity s) (\<lambda>s. case module of None \<Rightarrow> ldone s | Some m \<Rightarrow> printed capacity (s @ m))"

definition resource_uri :: "('w, 'p) limpet_env \<Rightarrow> string \<times> string \<times> string option \<Rightarrow> ('w, wtext) lim" where
  "resource_uri env parts = (case parts of (host, device, module) \<Rightarrow>
     printed_with (le_wcapacity env) (le_widen env host @ wide ''/devices/'' @ le_widen env device)
       (map_option (\<lambda>m. wide ''/modules/'' @ le_widen env m) module))"

definition token_context :: "('w, 'p) limpet_env \<Rightarrow> string \<times> string \<times> string option \<Rightarrow> ('w, wtext) lim" where
  "token_context env parts = (case parts of (host, device, module) \<Rightarrow>
     printed_with (le_wcapacity env) (wide ''HostName='' @ le_widen env host @ wide '';DeviceId='' @ le_widen env device)
       (map_option (\<lambda>m. wide '';ModuleId='' @ le_widen env m) module))"

definition printable_signature :: "('w, 'p) limpet_env \<Rightarrow> string \<Rightarrow> ('w, string) lim" where
  "printable_signature env hmac =
     lbind (lsome (le_base64 env hmac)) (\<lambda>printableHmac. lsome (LimpetSanitizeString (wide printableHmac)))"

abbreviation STRSAFE_E_INSUFFICIENT_BUFFER :: "32 word" where
  "STRSAFE_E_INSUFFICIENT_BUFFER \<equiv> 0x8007007A"

definition sas_token :: "('w, 'p) limpet_env \<Rightarrow> 32 word \<Rightarrow> int \<Rightarrow> nat \<Rightarrow> ('w, wtext) lim" where
  "sas_token env n expiration capacity =
     lthen (ImportHostageBlobIfPresent env n) (
     lbind (LimpetReadURI env n True (word_of_nat (le_capacity env))) (\<lambda>(c, sz, uri).
     if c \<noteq> 0 then lfail c
     else let parts = split_uri (case uri of None \<Rightarrow> [] | Some u \<Rightarrow> u) in
       lbind (resource_uri env parts) (\<lambda>uri.
       lbind (printed (le_capacity env) (le_narrow env uri @ [CHR 0x0A] @ lld expiration)) (\<lambda>message.
       lbind (LimpetSignWithIdentityHmacKey env n message) (\<lambda>hmac.
       lbind (printable_signature env hmac) (\<lambda>printableHmacClean.
       lbind (token_context env parts) (\<lambda>ctext.
       let token = ctext @ wide '';SharedAccessSignature=SharedAccessSignature sr='' @ uri @ wide ''&sig='' @
         wide printableHmacClean @ wide ''&se='' @ wide (lld expiration)
       in if length token < capacity then ldone token else lfail STRSAFE_E_INSUFFICIENT_BUFFER)))))))"

text \<open>\<open>None\<close> is a null pointer for the capacity.\<close>

definition LimpetGenerateSASToken ::
    "('w, 'p) limpet_env \<Rightarrow> 32 word \<Rightarrow> int \<Rightarrow> nat option \<Rightarrow> ('w, wtext) lim" where
  "LimpetGenerateSASToken env n expiration capacity =
     (case capacity of None \<Rightarrow> lfail E_INVALIDARG | Some cch \<Rightarrow> lguard (sas_token env n expiration cch))"

section \<open>The device\<close>

definition LimpetGetRegistrationId :: "('w, 'p) limpet_env \<Rightarrow> ('w, string) lim" where
  "LimpetGetRegistrationId env =
     lbind (lcode (lbind (LimpetGetTpmKey2BPub env ERK_HANDLE) (\<lambda>(ek, name). lcall (le_digest env ek)))) (\<lambda>r. case r of
       Inl c \<Rightarrow> lfail (le_hresult env c)
     | Inr digest \<Rightarrow> ldone (Azure_EncodeBase32 (map (\<lambda>c. word_of_nat (of_char c)) digest)))"

text \<open>A call whose failure leaves the function as an exception, for want of a \<open>try\<close>.\<close>

definition lescape :: "('w, 'a) lim \<Rightarrow> ('w, 'a) lim" where
  "lescape m = (\<lambda>w. case m w of (Failed c, w') \<Rightarrow> (Raised c, w') | r \<Rightarrow> r)"

abbreviation TPM_RH_LOCKOUT :: "32 word" where "TPM_RH_LOCKOUT \<equiv> 0x4000000A"
abbreviation TPM_RH_PLATFORM :: "32 word" where "TPM_RH_PLATFORM \<equiv> 0x4000000C"

definition platform_clear :: "('w, 'p) limpet_env \<Rightarrow> ('w, unit) lim" where
  "platform_clear env =
     lthen (lescape (lstatus (lt_ClearControl env))) (lescape (lstatus (lt_Clear env TPM_RH_PLATFORM [])))"

text \<open>
  The authorization to clear with, \<open>None\<close> when the first attempt is not made.  Where no
  authorization is set the code sends a buffer of zeros, which a TPM takes as the empty one.
\<close>

definition lockout_auth :: "('w, 'p) limpet_env \<Rightarrow> bool \<times> bool \<Rightarrow> ('w, string option) lim" where
  "lockout_auth env permanent = (case permanent of (disableClear, lockoutAuthSet) \<Rightarrow>
     if disableClear then ldone None
     else if \<not> lockoutAuthSet then ldone (Some [])
     else (\<lambda>w. case le_OwnerAuth env w of (r, w') \<Rightarrow> (Done r, w')))"

definition LimpetForceClearTpm :: "('w, 'p) limpet_env \<Rightarrow> ('w, unit) lim" where
  "LimpetForceClearTpm env =
     lbind (lescape (lcall (lt_Permanent env))) (\<lambda>permanent.
     lbind (lockout_auth env permanent) (\<lambda>auth.
     lbind (case auth of None \<Rightarrow> ldone (Inr ()) | Some a \<Rightarrow> lcode (lstatus (lt_Clear env TPM_RH_LOCKOUT a))) (\<lambda>r. case r of
       Inr u \<Rightarrow> ldone ()
     | Inl c \<Rightarrow> lbind (lcode (lcall (le_PhysicalPresence env))) (\<lambda>p.
         if p = Inr 0 then ldone () else platform_clear env))))"

section \<open>Data of any length\<close>

definition same_store :: "'z platform_scheme \<Rightarrow> 'z platform_scheme \<Rightarrow> bool" where
  "same_store w w' \<longleftrightarrow> lv_keys w' = lv_keys w \<and> lv_vals w' = lv_vals w \<and> lv_nv w' = lv_nv w"

lemma same_store_trans: "same_store w w1 \<Longrightarrow> same_store w1 w2 \<Longrightarrow> same_store w w2"
  by (simp add: same_store_def)

lemma same_store_refl [simp]: "same_store w w"
  by (simp add: same_store_def)

lemma same_store_decided: "same_store w w' \<Longrightarrow> decided d w' = decided d w"
  by (simp add: same_store_def decided_def)

text \<open>
  What is seen of the TPM: the HMAC of a key, the key under each handle, the sequences that are
  open with their key and the data so far, how many objects still find room, and the key a public
  and a private area make up.
\<close>

record ('w, 'p, 'k) hmac_view =
  hv_mac :: "'k \<Rightarrow> string \<Rightarrow> string"
  hv_key :: "'w \<Rightarrow> 32 word \<Rightarrow> 'k option"
  hv_pending :: "'w \<Rightarrow> 32 word \<Rightarrow> ('k \<times> string) option"
  hv_room :: "'w \<Rightarrow> nat"
  hv_areas :: "'p \<Rightarrow> 'p \<Rightarrow> 'k option"

text \<open>The store is as before, and so are the keys of the TPM.\<close>

definition all_kept :: "('z platform_scheme, 'p, 'k) hmac_view \<Rightarrow> 'z platform_scheme \<Rightarrow> 'z platform_scheme \<Rightarrow> bool" where
  "all_kept v w w' \<longleftrightarrow> same_store w w' \<and> hv_key v w' = hv_key v w"

text \<open>
  The documented behaviour of the HMAC commands, on a handle that holds a key, for buffers of at
  most 1024 bytes, a sequence being started only where there is room for it.
\<close>

definition hmac_laws ::
    "('z platform_scheme, 'p, 'k) hmac_view \<Rightarrow> ('z platform_scheme, 'p) limpet_env \<Rightarrow> bool" where
  "hmac_laws v env \<longleftrightarrow>
     (\<forall>h k d w. hv_key v w h = Some k \<longrightarrow> length d \<le> 1024 \<longrightarrow> lt_HMAC env h d w = ((0, hv_mac v k d), w)) \<and>
     (\<forall>h k w. hv_key v w h = Some k \<longrightarrow> 0 < hv_room v w \<longrightarrow>
        (\<exists>s w'. lt_HMAC_Start env h w = ((0, s), w') \<and> all_kept v w w' \<and> hv_pending v w' s = Some (k, []))) \<and>
     (\<forall>s d w k acc. hv_pending v w s = Some (k, acc) \<longrightarrow> length d \<le> 1024 \<longrightarrow>
        (\<exists>w'. lt_SequenceUpdate env s d w = (0, w') \<and> all_kept v w w' \<and> hv_pending v w' s = Some (k, acc @ d))) \<and>
     (\<forall>s d w k acc. hv_pending v w s = Some (k, acc) \<longrightarrow> length d \<le> 1024 \<longrightarrow>
        (\<exists>w'. lt_SequenceComplete env s d w = ((0, hv_mac v k (acc @ d)), w') \<and> all_kept v w w'))"

text \<open>
  The documented behaviour of loading and flushing a key: where there is room it comes under a
  handle that was free; and of reading bytes from the registry.
\<close>

definition key_laws ::
    "('z platform_scheme, 'p, 'k) hmac_view \<Rightarrow> ('z platform_scheme, 'p) limpet_env \<Rightarrow> bool" where
  "key_laws v env \<longleftrightarrow>
     (\<forall>pub priv k w. hv_areas v pub priv = Some k \<longrightarrow> 0 < hv_room v w \<longrightarrow>
        (\<exists>h name w'. lt_Load env pub priv w = ((0, h, name), w') \<and> same_store w w' \<and> hv_key v w h = None \<and>
           hv_key v w' = (hv_key v w)(h \<mapsto> k) \<and> hv_room v w \<le> Suc (hv_room v w'))) \<and>
     (\<forall>h k w. hv_key v w h = Some k \<longrightarrow>
        (\<exists>w'. lt_FlushContext env h w = (0, w') \<and> same_store w w' \<and> hv_key v w' = (hv_key v w)(h := None))) \<and>
     (\<forall>key p b w. lv_vals w (key, p) = Some (LREG_BINARY b) \<longrightarrow>
        lr_QuerySize env key p w = ((0, word_of_nat (length b)), w) \<and> lr_QueryData env key p w = ((0, b), w))"

text \<open>The key of a logical device: under its handle of the TPM, or as two areas in the registry.\<close>

definition registry_bytes :: "'z platform_scheme \<Rightarrow> 32 word \<Rightarrow> string \<Rightarrow> string \<Rightarrow> bool" where
  "registry_bytes w n p b \<longleftrightarrow> lv_vals w (slot_key n, p) = Some (LREG_BINARY b) \<and> length b \<le> 2048"

definition signing_key ::
    "('z platform_scheme, 'p, 'k) hmac_view \<Rightarrow> ('z platform_scheme, 'p) limpet_env \<Rightarrow> bool \<Rightarrow> 32 word \<Rightarrow> 'k \<Rightarrow>
     'z platform_scheme \<Rightarrow> bool" where
  "signing_key v env d n k w \<longleftrightarrow>
     (if d
      then slot_key n \<in> lv_keys w \<and> 2 \<le> hv_room v w \<and>
        (\<exists>pb pr pub priv r1 r2. registry_bytes w n ''hmacpublic'' pb \<and> registry_bytes w n ''hmacprivate'' pr \<and>
           lt_unmarshal env PUBLIC_AREA pb = (0, pub, r1) \<and> lt_unmarshal env PRIVATE_AREA pr = (0, priv, r2) \<and>
           hv_areas v pub priv = Some k)
      else hv_key v w (key_handle n) = Some k \<and> 1 \<le> hv_room v w)"

lemma all_kept_trans: "all_kept v w w1 \<Longrightarrow> all_kept v w1 w2 \<Longrightarrow> all_kept v w w2"
  by (auto simp: all_kept_def intro: same_store_trans)

lemma all_kept_refl [simp]: "all_kept v w w"
  by (simp add: all_kept_def)

lemma all_kept_decided: "all_kept v w w' \<Longrightarrow> decided d w' = decided d w"
  by (simp add: all_kept_def same_store_decided)

lemma sign_loop_mac:
  assumes laws: "hmac_laws v env" and "hv_pending v w s = Some (k, acc)"
  shows "\<exists>w'. sign_loop env s data w = (Done (hv_mac v k (acc @ data)), w') \<and> all_kept v w w'"
  using assms
proof (induction env s data arbitrary: acc w rule: sign_loop.induct)
  case (1 env s data)
  note env = 1(2)
  show ?case
  proof (cases "length data > 1024")
    case True
    obtain w1 where u: "lt_SequenceUpdate env s (take 1024 data) w = (0, w1)" "all_kept v w w1"
      and p: "hv_pending v w1 s = Some (k, acc @ take 1024 data)"
      using env 1(3) unfolding hmac_laws_def by (metis length_take min.cobounded2)
    obtain w2 where "sign_loop env s (drop 1024 data) w1 = (Done (hv_mac v k ((acc @ take 1024 data) @ drop 1024 data)), w2)"
      and "all_kept v w1 w2"
      using 1(1) [OF True env p] by blast
    with u True show ?thesis
      by (subst sign_loop.simps) (auto simp: lim_simps intro: all_kept_trans)
  next
    case False
    then obtain w1 where "lt_SequenceComplete env s data w = ((0, hv_mac v k (acc @ data)), w1)" "all_kept v w w1"
      using env 1(3) unfolding hmac_laws_def by (metis not_less)
    with False show ?thesis by (subst sign_loop.simps) (simp add: lim_simps)
  qed
qed

lemma sign_data_mac:
  assumes "platform_laws tr env" and laws: "hmac_laws v env" and "decided d w"
    and key: "hv_key v w (if d then loaded else key_handle n) = Some k" and room: "0 < hv_room v w"
  shows "\<exists>w'. sign_data env n loaded data w = (Done (hv_mac v k data), w') \<and> all_kept v w w'"
proof -
  let ?h = "if d then loaded else key_handle n"
  note u = UseRegistry_decided [OF assms(1, 3), of n]
  show ?thesis
  proof (cases "length data \<le> 1024")
    case True
    with laws key have "lt_HMAC env ?h data w = ((0, hv_mac v k data), w)" unfolding hmac_laws_def by blast
    with u True show ?thesis by (auto simp: sign_data_def lim_simps Let_def)
  next
    case False
    obtain s w1 where s: "lt_HMAC_Start env ?h w = ((0, s), w1)" "all_kept v w w1" "hv_pending v w1 s = Some (k, [])"
      using laws key room unfolding hmac_laws_def by blast
    obtain w2 where "sign_loop env s data w1 = (Done (hv_mac v k ([] @ data)), w2)" "all_kept v w1 w2"
      using sign_loop_mac [OF laws s(3)] by blast
    with u False s(1, 2) show ?thesis
      by (auto simp: sign_data_def lim_simps Let_def intro: all_kept_trans)
  qed
qed

lemma small_size: "n \<le> 2048 \<Longrightarrow> sint (word_of_nat n :: 32 word) = int n"
  by (simp add: signed_of_nat signed_take_bit_int_eq_self)

lemma registry_bytes_read:
  assumes "platform_laws tr env" and "key_laws v env" and "slot_key n \<in> lv_keys w" and "registry_bytes w n p b"
  shows "ReadRegistryBinaryData env (slot_key n) p 2048 w = (Done b, w)"
proof -
  have "lr_QuerySize env (slot_key n) p w = ((0, word_of_nat (length b)), w)" "lr_QueryData env (slot_key n) p w = ((0, b), w)"
    using assms(2,4) by (simp_all add: key_laws_def registry_bytes_def)
  then show ?thesis
    using assms(3,4) small_size [of "length b"]
    by (simp add: ReadRegistryBinaryData_def lim_simps platform_lawsD [OF assms(1)] registry_bytes_def)
qed

lemma load_hmac_key_loads:
  assumes "platform_laws tr env" and "key_laws v env" and "signing_key v env True n k w"
  shows "\<exists>h w'. load_hmac_key env n w = (Done h, w') \<and> same_store w w' \<and> hv_key v w h = None \<and>
    hv_key v w' = (hv_key v w)(h \<mapsto> k) \<and> 0 < hv_room v w'"
proof -
  obtain pb pr pub priv r1 r2 where slot: "slot_key n \<in> lv_keys w" "2 \<le> hv_room v w"
    and bytes: "registry_bytes w n ''hmacpublic'' pb" "registry_bytes w n ''hmacprivate'' pr"
    and areas: "lt_unmarshal env PUBLIC_AREA pb = (0, pub, r1)" "lt_unmarshal env PRIVATE_AREA pr = (0, priv, r2)"
      "hv_areas v pub priv = Some k"
    using assms(3) by (auto simp: signing_key_def)
  obtain h name w' where load: "lt_Load env pub priv w = ((0, h, name), w')" "same_store w w'" "hv_key v w h = None"
    "hv_key v w' = (hv_key v w)(h \<mapsto> k)" "hv_room v w \<le> Suc (hv_room v w')"
  proof -
    have "0 < hv_room v w" using slot(2) by simp
    with assms(2) areas(3) that show thesis unfolding key_laws_def by blast
  qed
  have "load_hmac_key env n w = (Done h, w')"
    using registry_bytes_read [OF assms(1,2) slot(1) bytes(1)] registry_bytes_read [OF assms(1,2) slot(1) bytes(2)]
    by (simp add: load_hmac_key_def unmarshal_def lim_simps areas load(1))
  with load slot(2) show ?thesis by auto
qed

lemma signs_any_length_core:
  assumes "platform_laws tr env" and "hmac_laws v env" and "key_laws v env" and "decided d w" and "signing_key v env d n k w"
  shows "\<exists>w'. LimpetSignWithIdentityHmacKeyEx env n data w = (Done (hv_mac v k data), w') \<and> all_kept v w w'"
proof (cases d)
  case False
  obtain w' where w': "sign_data env n 0 data w = (Done (hv_mac v k data), w')" "all_kept v w w'"
    using sign_data_mac [OF assms(1, 2, 4), of 0 n k data] assms(5) False by (auto simp: signing_key_def)
  note u = UseRegistry_decided [OF assms(1, 4)] UseRegistry_decided [OF assms(1), of d w']
  show ?thesis
    using u w' assms(4) all_kept_decided [OF w'(2), of d] False
    by (simp add: LimpetSignWithIdentityHmacKeyEx_def lim_simps)
next
  case True
  then have True_eq: "d = True" by simp
  obtain h w1 where load: "load_hmac_key env n w = (Done h, w1)" "same_store w w1" "hv_key v w h = None"
    "hv_key v w1 = (hv_key v w)(h \<mapsto> k)" "0 < hv_room v w1"
    using load_hmac_key_loads [OF assms(1,3) assms(5) [unfolded True_eq]] by blast
  have d1: "decided d w1" using load(2) assms(4) by (simp add: same_store_decided)
  obtain w2 where sign: "sign_data env n h data w1 = (Done (hv_mac v k data), w2)" "all_kept v w1 w2"
    using sign_data_mac [OF assms(1, 2) d1, of h n k data] load(4,5) True by auto
  have d2: "decided d w2" using sign(2) d1 by (simp add: all_kept_decided)
  have "hv_key v w2 h = Some k" using sign(2) load(4) by (simp add: all_kept_def)
  then obtain w3 where flush: "lt_FlushContext env h w2 = (0, w3)" "same_store w2 w3"
    "hv_key v w3 = (hv_key v w2)(h := None)"
    using assms(3) unfolding key_laws_def by blast
  have "hv_key v w3 = hv_key v w" using flush(3) sign(2) load(3,4) by (auto simp: all_kept_def)
  moreover have "same_store w w3"
    using load(2) sign(2) flush(2) by (auto simp: all_kept_def intro: same_store_trans)
  ultimately show ?thesis
    using load(1) sign(1) flush(1) True
    by (simp add: LimpetSignWithIdentityHmacKeyEx_def lim_simps UseRegistry_decided [OF assms(1, 4)]
        UseRegistry_decided [OF assms(1) d2] all_kept_def)
qed


section \<open>The connection string of a slot\<close>

lemma before_slash: "CHR ''/'' \<notin> set h \<Longrightarrow> takeWhile (\<lambda>c. c \<noteq> CHR ''/'') (h @ CHR ''/'' # s) = h"
  by (induction h) auto

lemma split_uri_parts:
  assumes "CHR ''/'' \<notin> set h" and "CHR ''/'' \<notin> set d"
  shows "split_uri (h @ ''/'' @ d) = (c_str h, c_str d, None)"
    "split_uri (h @ ''/'' @ d @ ''/'' @ m) = (c_str h, c_str d, Some (c_str m))"
  using assms by (simp_all add: split_uri_def Let_def before_slash takeWhile_all_set)

text \<open>Texts of ASCII characters, which the conversions between narrow and wide keep.\<close>

definition plain_text :: "string \<Rightarrow> bool" where
  "plain_text s \<longleftrightarrow> (\<forall>c \<in> set s. 0 < (of_char c :: nat) \<and> (of_char c :: nat) < 128)"

definition keeps_plain_text :: "('w, 'p) limpet_env \<Rightarrow> bool" where
  "keeps_plain_text env \<longleftrightarrow> (\<forall>s. plain_text s \<longrightarrow> le_widen env s = wide s \<and> le_narrow env (wide s) = s)"

lemma plain_text_append [simp]: "plain_text (s @ t) \<longleftrightarrow> plain_text s \<and> plain_text t"
  by (auto simp: plain_text_def)

lemma wide_append [simp]: "wide (s @ t) = wide s @ wide t" "length (wide s) = length s"
  by (simp_all add: wide_def)

lemma plain_c_str: "plain_text s \<Longrightarrow> c_str s = s"
proof -
  assume "plain_text s"
  then have "\<forall>c \<in> set s. c \<noteq> CHR 0x00" by (force simp: plain_text_def)
  then show ?thesis by (simp add: c_str_def takeWhile_eq_all_conv)
qed

text \<open>
  The URI a slot holds, the resource that is signed, and the device as a connection string names
  it; \<open>[]\<close> or one module.
\<close>

definition slot_uri :: "string \<Rightarrow> string \<Rightarrow> string option \<Rightarrow> string" where
  "slot_uri host device module =
     host @ ''/'' @ device @ (case module of None \<Rightarrow> [] | Some m \<Rightarrow> ''/'' @ m)"

definition resource_text :: "string \<Rightarrow> string \<Rightarrow> string option \<Rightarrow> string" where
  "resource_text host device module =
     host @ ''/devices/'' @ device @ (case module of None \<Rightarrow> [] | Some m \<Rightarrow> ''/modules/'' @ m)"

definition identity_text :: "string \<Rightarrow> string \<Rightarrow> string option \<Rightarrow> string" where
  "identity_text host device module =
     ''HostName='' @ host @ '';DeviceId='' @ device @ (case module of None \<Rightarrow> [] | Some m \<Rightarrow> '';ModuleId='' @ m)"

definition connection_text :: "string \<Rightarrow> string \<Rightarrow> string option \<Rightarrow> string \<Rightarrow> int \<Rightarrow> string" where
  "connection_text host device module signature e =
     identity_text host device module @ '';SharedAccessSignature=SharedAccessSignature sr='' @
     resource_text host device module @ ''&sig='' @ signature @ ''&se='' @ lld e"

text \<open>What is signed: the resource and the expiration on a line each.\<close>

definition signed_text :: "string \<Rightarrow> string \<Rightarrow> string option \<Rightarrow> int \<Rightarrow> string" where
  "signed_text host device module e = resource_text host device module @ [CHR 0x0A] @ lld e"

definition plain_device :: "string \<Rightarrow> string \<Rightarrow> string option \<Rightarrow> bool" where
  "plain_device host device module \<longleftrightarrow>
     plain_text host \<and> plain_text device \<and> CHR ''/'' \<notin> set host \<and> CHR ''/'' \<notin> set device \<and>
     (case module of None \<Rightarrow> True | Some m \<Rightarrow> plain_text m)"

lemma split_slot_uri:
  assumes "plain_device host device module"
  shows "split_uri (slot_uri host device module) = (host, device, module)"
  using assms split_uri_parts [of host device]
  by (cases module) (auto simp: plain_device_def slot_uri_def plain_c_str)

text \<open>The parts of the token in wide characters, cut as the code prints them.\<close>

lemma wide_texts:
  "wide (resource_text h d None) = wide h @ wide ''/devices/'' @ wide d"
  "wide (resource_text h d (Some m)) = (wide h @ wide ''/devices/'' @ wide d) @ wide ''/modules/'' @ wide m"
  "wide (identity_text h d None) = wide ''HostName='' @ wide h @ wide '';DeviceId='' @ wide d"
  "wide (identity_text h d (Some m)) =
     (wide ''HostName='' @ wide h @ wide '';DeviceId='' @ wide d) @ wide '';ModuleId='' @ wide m"
  "wide (connection_text h d mo sig e) =
     wide (identity_text h d mo) @ wide '';SharedAccessSignature=SharedAccessSignature sr='' @
     wide (resource_text h d mo) @ wide ''&sig='' @ wide sig @ wide ''&se='' @ wide (lld e)"
  by (simp_all only: resource_text_def identity_text_def connection_text_def wide_append option.case append_Nil2 append_assoc)

lemma printed_parts:
  assumes "length (s @ (case m of None \<Rightarrow> [] | Some x \<Rightarrow> x)) < capacity"
  shows "printed_with capacity s m w = (Done (s @ (case m of None \<Rightarrow> [] | Some x \<Rightarrow> x)), w)"
  using assms by (cases m) (simp_all add: printed_with_def printed_def lim_simps)

lemma plain_device_wide:
  assumes "plain_device host device module" and "keeps_plain_text env"
  shows "le_widen env host = wide host" "le_widen env device = wide device"
    "module = Some m \<Longrightarrow> le_widen env m = wide m"
  using assms by (auto simp: plain_device_def keeps_plain_text_def)

lemma resource_uri_text:
  assumes "plain_device host device module" and "keeps_plain_text env"
    and "length (resource_text host device module) < le_wcapacity env"
  shows "resource_uri env (host, device, module) w = (Done (wide (resource_text host device module)), w)"
    and "le_narrow env (wide (resource_text host device module)) = resource_text host device module"
proof -
  have "plain_text (resource_text host device module)"
    using assms(1) by (cases module) (auto simp: plain_device_def resource_text_def plain_text_def)
  then show "le_narrow env (wide (resource_text host device module)) = resource_text host device module"
    using assms(2) by (simp add: keeps_plain_text_def)
  let ?tail = "map_option (\<lambda>m. wide ''/modules/'' @ le_widen env m) module"
  have "wide (resource_text host device module) =
      (le_widen env host @ wide ''/devices/'' @ le_widen env device) @ (case ?tail of None \<Rightarrow> [] | Some x \<Rightarrow> x)"
    using plain_device_wide [OF assms(1,2)] by (cases module) (simp_all only: wide_texts option.map option.case append_Nil2)
  moreover have "length (wide (resource_text host device module)) < le_wcapacity env" using assms(3) by simp
  ultimately show "resource_uri env (host, device, module) w = (Done (wide (resource_text host device module)), w)"
    by (simp only: resource_uri_def prod.case printed_parts)
qed

lemma token_context_text:
  assumes "plain_device host device module" and "keeps_plain_text env"
    and "length (identity_text host device module) < le_wcapacity env"
  shows "token_context env (host, device, module) w = (Done (wide (identity_text host device module)), w)"
proof -
  let ?tail = "map_option (\<lambda>m. wide '';ModuleId='' @ le_widen env m) module"
  have "wide (identity_text host device module) =
      (wide ''HostName='' @ le_widen env host @ wide '';DeviceId='' @ le_widen env device) @
      (case ?tail of None \<Rightarrow> [] | Some x \<Rightarrow> x)"
    using plain_device_wide [OF assms(1,2)] by (cases module) (simp_all only: wide_texts option.map option.case append_Nil2)
  moreover have "length (wide (identity_text host device module)) < le_wcapacity env" using assms(3) by simp
  ultimately show ?thesis by (simp only: token_context_def prod.case printed_parts)
qed

lemma tpm_import:
  assumes "platform_laws tr env" and "decided False w"
  shows "ImportHostageBlobIfPresent env n w = (Done (), w)"
  by (simp add: ImportHostageBlobIfPresent_def lim_simps UseRegistry_decided [OF assms])

lemma tpm_reads_slot:
  assumes "platform_laws tr env" and "tpm_ready (tr, env) w" and "tpm_slots (tr, env) w n = Some u"
    and "le_capacity env \<ge> 512" and "le_capacity env < 2 ^ 32"
  shows "LimpetReadURI env n True (word_of_nat (le_capacity env)) w = (Done (0, Some (word_of_nat (length u)), Some u), w)"
proof -
  have d: "decided False w" using assms(2) by (simp add: tpm_ready_def)
  from assms(2) show ?thesis
  proof (cases rule: tpm_cases [where n = n])
    case 1
    with assms(3) show ?thesis by (simp add: tpm_slots_def)
  next
    case (2 c)
    then have "u = c" using assms(3) by (simp add: tpm_slots_def)
    moreover have "unat (word_of_nat (le_capacity env) :: 32 word) \<ge> 512"
      using assms(4, 5) by (simp add: unsigned_of_nat take_bit_nat_eq_self)
    ultimately show ?thesis
      using find_uri_kept [OF assms(1) 2(1, 3)] 2(3)
      by (simp add: LimpetReadURI_def LimpetReadURIFromTpm_def lim_simps UseRegistry_decided [OF assms(1) d] copy_whole)
  qed
qed

text \<open>The buffers of the token have room for its parts.\<close>

definition token_fits :: "('w, 'p) limpet_env \<Rightarrow> string \<Rightarrow> string \<Rightarrow> string option \<Rightarrow> int \<Rightarrow> bool" where
  "token_fits env host device module e \<longleftrightarrow>
     512 \<le> le_capacity env \<and> le_capacity env < 2 ^ 32 \<and>
     length (signed_text host device module e) < le_capacity env \<and>
     length (resource_text host device module) < le_wcapacity env \<and>
     length (identity_text host device module) < le_wcapacity env"


section \<open>A platform that signs\<close>

text \<open>
  The keys under their handles and the one sequence that is open are the rest of the state; two
  handles are for keys that are loaded, and the HMAC is the key before the data.
\<close>

type_synonym signing_platform = "((32 word \<Rightarrow> string option) \<times> (string \<times> string) option) platform_scheme"

abbreviation loaded_keys :: "signing_platform \<Rightarrow> 32 word \<Rightarrow> string option" where
  "loaded_keys w \<equiv> fst (platform.more w)"

abbreviation free_handle :: "signing_platform \<Rightarrow> 32 word" where
  "free_handle w \<equiv> (if loaded_keys w 1 = None then 1 else 3)"

definition sample_signer :: "(signing_platform, string) limpet_env" where
  "sample_signer = sample_calls\<lparr>
     lr_QuerySize := (\<lambda>k p w. (case lv_vals w (k, p) of Some (LREG_BINARY b) \<Rightarrow> (0, word_of_nat (length b)) | _ \<Rightarrow> (2, 0), w)),
     lr_QueryData := (\<lambda>k p w. (case lv_vals w (k, p) of Some (LREG_BINARY b) \<Rightarrow> (0, b) | _ \<Rightarrow> (2, []), w)),
     lt_Load := (\<lambda>pub priv w. ((0, free_handle w, ''k''),
       platform.more_update (apfst (\<lambda>keys. keys(free_handle w \<mapsto> priv))) w)),
     lt_FlushContext := (\<lambda>h w. (0, platform.more_update (apfst (\<lambda>keys. keys(h := None))) w)),
     lt_HMAC := (\<lambda>h d w. case loaded_keys w h of None \<Rightarrow> ((0x18B, []), w) | Some k \<Rightarrow> ((0, k @ d), w)),
     lt_HMAC_Start := (\<lambda>h w. case loaded_keys w h of None \<Rightarrow> ((0x18B, 0), w)
       | Some k \<Rightarrow> ((0, 2), platform.more_update (apsnd (\<lambda>_. Some (k, []))) w)),
     lt_SequenceUpdate := (\<lambda>s d w. case snd (platform.more w) of None \<Rightarrow> (1, w)
       | Some (k, acc) \<Rightarrow> (0, platform.more_update (apsnd (\<lambda>_. Some (k, acc @ d))) w)),
     lt_SequenceComplete := (\<lambda>s d w. case snd (platform.more w) of None \<Rightarrow> ((1, []), w)
       | Some (k, acc) \<Rightarrow> ((0, k @ acc @ d), platform.more_update (apsnd (\<lambda>_. None)) w))\<rparr>"

definition sample_view :: "(signing_platform, string, string) hmac_view" where
  "sample_view = \<lparr>hv_mac = (\<lambda>k d. k @ d), hv_key = loaded_keys,
     hv_pending = (\<lambda>w s. if s = 2 then snd (platform.more w) else None),
     hv_room = (\<lambda>w. (if loaded_keys w 1 = None then 1 else 0) + (if loaded_keys w 3 = None then 1 else 0)),
     hv_areas = (\<lambda>pub priv. Some priv)\<rparr>"

text \<open>The first slot of the TPM filled and its key there; and a slot of the registry with its key.\<close>

definition tpm_platform :: signing_platform where
  "tpm_platform = \<lparr>lv_keys = {params_key},
     lv_vals = (\<lambda>kp. if kp = (params_key, ''useregistry'') then Some (LREG_DWORD 0) else None),
     lv_nv = (\<lambda>i. if i = uri_index 0 then Some (5, Some ''h/d/m'') else None),
     \<dots> = ([key_handle 0 \<mapsto> ''k''], None)\<rparr>"

definition registry_key_platform :: signing_platform where
  "registry_key_platform = \<lparr>lv_keys = {params_key, slot_key 1},
     lv_vals = [(params_key, ''useregistry'') \<mapsto> LREG_DWORD 1, (slot_key 1, ''hmacpublic'') \<mapsto> LREG_BINARY ''p'',
       (slot_key 1, ''hmacprivate'') \<mapsto> LREG_BINARY ''r''],
     lv_nv = (\<lambda>i. None), \<dots> = (Map.empty, None)\<rparr>"

lemma sample_signer_laws: "platform_laws sample_traits sample_signer"
proof -
  have "object_name_text sample_signer = object_name_text (sample_calls :: (signing_platform, string) limpet_env)"
    by (simp add: object_name_text_def sample_signer_def fun_eq_iff)
  then show ?thesis
    using sample_calls_laws [where 'z = "(32 word \<Rightarrow> string option) \<times> (string \<times> string) option"]
    by (simp add: platform_laws_def traits_ok_def registry_calls_def nv_calls_def) (simp add: sample_signer_def)
qed

lemma sample_hmac_laws: "hmac_laws sample_view sample_signer"
  by (auto simp: hmac_laws_def sample_signer_def sample_view_def all_kept_def same_store_def)

lemma sample_key_laws: "key_laws sample_view sample_signer"
  by (auto simp: key_laws_def sample_signer_def sample_view_def same_store_def)

lemma tpm_platform_key: "signing_key sample_view sample_signer False 0 ''k'' tpm_platform"
  by (simp add: signing_key_def sample_view_def tpm_platform_def key_handle_def)


lemma tpm_platform_ready:
  "tpm_ready (sample_traits, sample_signer) tpm_platform" "tpm_slots (sample_traits, sample_signer) tpm_platform 0 = Some ''h/d/m''"
proof -
  have "kept_bytes ''h/d/m''" by (simp add: kept_bytes_def)
  then have "\<exists>c. Some (5, Some ''h/d/m'') = Some (word_of_nat (length c) :: 16 word, Some c) \<and> kept_bytes c" by simp
  then show "tpm_ready (sample_traits, sample_signer) tpm_platform"
    by (simp add: tpm_ready_def decided_def tpm_platform_def)
  show "tpm_slots (sample_traits, sample_signer) tpm_platform 0 = Some ''h/d/m''"
    by (simp add: tpm_slots_def tpm_platform_def)
qed

lemma sample_plain_text: "keeps_plain_text sample_signer"
proof -
  have "map (\<lambda>c. char_of (unat c)) (wide s) = s" if "plain_text s" for s
    using that
    by (induction s) (simp_all add: wide_def plain_text_def unat_of_nat take_bit_nat_eq_self)
  then show ?thesis by (simp add: keeps_plain_text_def sample_signer_def sample_calls_def)
qed


text \<open>Where clearing is disabled nothing is cleared, and the answer is success.\<close>

theorem disabled_clear_reports_success:
  assumes "lt_Permanent env w = ((0, True, lockoutAuthSet), w')"
  shows "LimpetForceClearTpm env w = (Done (), w')"
  using assms by (simp add: LimpetForceClearTpm_def lockout_auth_def lescape_def lim_simps)

text \<open>A URI that the registry did not take is reported as stored.\<close>

theorem refused_store_reports_success:
  assumes "lr_Create env (slot_key n) w = (5, w')"
  shows "LimpetStoreURIInRegistry env n uri False w = (Done None, w')"
  using assms by (simp add: LimpetStoreURIInRegistry_def CreateStringRegistryKeyValue_def set_registry_value_def
      SUCCEEDED_def lim_simps)

text \<open>Deleting a value that is not there is answered with the code of that.\<close>

theorem missing_value_is_an_error:
  assumes "lr_Open env k w = (0, w1)" and "lr_Delete env (Some k) p w1 = (2, w2)"
  shows "DeleteRegistryKeyValue env k p w = (Failed 2, w2)"
  using assms by (simp add: DeleteRegistryKeyValue_def SUCCEEDED_def registry_result_def lim_simps)

end
