(* ===== verification/Tpm_Support.thy ===== *)
theory Tpm_Support
  imports Limpet_Sign
begin

text \<open>
  Utilities/TpmSupport.cpp: what the agent and the provisioning client see of Limpet.  The
  functions answer an HRESULT; what they hand out beside it is there when Limpet gives it.
\<close>

section \<open>Operations\<close>

definition ImportKeyToTpm :: "('w, 'p) limpet_env \<Rightarrow> 32 word \<Rightarrow> string \<Rightarrow> ('w, unit) lim" where
  "ImportKeyToTpm env n keyBlob = lthen (LimpetImportHostageKey env n keyBlob True True) (ldone ())"

definition GetEndorsementKeyPub :: "('w, 'p) limpet_env \<Rightarrow> ('w, string) lim" where
  "GetEndorsementKeyPub env = lbind (LimpetGetTpmKey2BPub env ERK_HANDLE) (ldone \<circ> fst)"

definition GetStorageRootKeyPub :: "('w, 'p) limpet_env \<Rightarrow> ('w, string) lim" where
  "GetStorageRootKeyPub env = lbind (LimpetGetTpmKey2BPub env SRK_HANDLE) (ldone \<circ> fst)"

text \<open>
  The code and whether a size was set, also by a read that fails; a UINT32 that is thrown becomes
  the code, an exception of another type goes on.
\<close>

definition provisioned_answer :: "('w, 'p) limpet_env \<Rightarrow> uri_answer \<Rightarrow> 32 word \<times> bool" where
  "provisioned_answer env a = (case a of (result, cbNvData, uri) \<Rightarrow>
     (le_hresult env (if result = TPM_RC_FAILURE then 0 else result),
      case cbNvData of None \<Rightarrow> False | Some cb \<Rightarrow> cb \<noteq> 0))"

definition IsDeviceProvisioned :: "('w, 'p) limpet_env \<Rightarrow> 32 word \<Rightarrow> ('w, 32 word \<times> bool) lim" where
  "IsDeviceProvisioned env n = (\<lambda>w. case LimpetReadURI env n True 1024 w of
     (Done a, w') \<Rightarrow> (Done (provisioned_answer env a), w')
   | (Failed c, w') \<Rightarrow> (Done (provisioned_answer env (c, None, None)), w')
   | (Raised c, w') \<Rightarrow> (Done (le_hresult env c, False), w')
   | (Thrown, w') \<Rightarrow> (Thrown, w'))"

text \<open>The results are not looked at.\<close>

definition EmptyTpmSlot :: "('w, 'p) limpet_env \<Rightarrow> 32 word \<Rightarrow> ('w, unit) lim" where
  "EmptyTpmSlot env n =
     lthen (lcode (LimpetDestroyURI env n True)) (lthen (lcode (LimpetEvictHmacKey env n True)) (ldone ()))"

definition TpmSupport_ClearTpm :: "('w, 'p) limpet_env \<Rightarrow> ('w, unit) lim" where
  "TpmSupport_ClearTpm env = lthen (lcode (LimpetForceClearTpm env)) (ldone ())"

definition GetRegistrationId :: "('w, 'p) limpet_env \<Rightarrow> ('w, string) lim" where
  "GetRegistrationId env = LimpetGetRegistrationId env"

abbreviation E_FAIL :: "32 word" where "E_FAIL \<equiv> 0x80004005"

text \<open>Seconds since 1970, from ticks of 100 ns since 1601.\<close>

definition unix_time :: "int \<Rightarrow> int" where
  "unix_time ticks = ticks div 10000000 - 11644473600"

text \<open>\<open>capacity\<close> is that of the caller's string.\<close>

definition GetAzureConnectionString ::
    "('w, 'p) limpet_env \<Rightarrow> 32 word \<Rightarrow> 32 word \<Rightarrow> nat \<Rightarrow> ('w, wtext) lim" where
  "GetAzureConnectionString env n expiryDurationInSeconds capacity =
     lbind (\<lambda>w. case le_FileTime env w of (t, w') \<Rightarrow> (Done t, w')) (\<lambda>utcTime.
     lbind (lcode (LimpetGenerateSASToken env n (unix_time utcTime + uint expiryDurationInSeconds)
       (Some (max capacity LIMPET_STRING_SIZE)))) (\<lambda>r. case r of
         Inl c \<Rightarrow> lfail E_FAIL
       | Inr token \<Rightarrow> ldone token))"

definition StoreIothubUri :: "('w, 'p) limpet_env \<Rightarrow> 32 word \<Rightarrow> wtext \<Rightarrow> ('w, wtext option) lim" where
  "StoreIothubUri env n uri = LimpetStoreURI env n (w_str uri) True"

text \<open>The caller's string of 512 characters holds the bytes in front and is not cut to them.\<close>

definition GetIothubUri :: "('w, 'p) limpet_env \<Rightarrow> 32 word \<Rightarrow> ('w, string) lim" where
  "GetIothubUri env n =
     lbind (LimpetReadURI env n True (word_of_nat (le_capacity env))) (\<lambda>(result, cb, uri).
     if result \<noteq> 0 then lfail result
     else ldone (take LIMPET_STRING_SIZE ((case uri of None \<Rightarrow> [] | Some u \<Rightarrow> u) @ replicate LIMPET_STRING_SIZE CHR 0x00)))"

text \<open>A key is between half a digest and two digests long once it is decoded.\<close>

definition StoreHmacKey :: "('w, 'p) limpet_env \<Rightarrow> 32 word \<Rightarrow> string \<Rightarrow> ('w, unit) lim" where
  "StoreHmacKey env n key = (case le_unbase64 env (le_widen env (c_str key)) of
     None \<Rightarrow> lfail TPM_RC_FAILURE
   | Some hmacKey \<Rightarrow>
       if length hmacKey < 16 \<or> length hmacKey > 64 then lfail TPM_RC_FAILURE
       else lthen (LimpetCreateHmacKey env n hmacKey False) (ldone ()))"

section \<open>What they do to the slots\<close>

lemma tpm_store_named:
  assumes "platform_laws tr env" and "tpm_ready (tr, env) w" and "fits_slot (tr, env) t"
    and "LimpetStoreURIInTpm env n t want w = (r, w')"
  shows "tpm_ready (tr, env) w' \<and> (accepted r \<longleftrightarrow> tpm_slots (tr, env) w n = None) \<and>
     tpm_slots (tr, env) w' = (if accepted r then (tpm_slots (tr, env) w)(n \<mapsto> le_utf8 env t) else tpm_slots (tr, env) w)"
proof -
  obtain r0 w0 where plain: "LimpetStoreURIInTpm env n t False w = (r0, w0)" by fastforce
  from assms(2) have "accepted r = accepted r0 \<and> w' = w0"
  proof (cases rule: tpm_cases [where n = n])
    case 1
    then show ?thesis
      using assms(4) plain tpm_store_free [OF assms(1, 3) 1, of want] tpm_store_free [OF assms(1, 3) 1, of False]
      by (auto simp: accepted_def)
  next
    case (2 c)
    then show ?thesis
      using assms(4) plain tpm_store_defined [OF assms(1, 3), of w n] by auto
  qed
  with tpm_store [OF assms(1-3) plain] show ?thesis by simp
qed

lemma tpm_destroy_named:
  assumes "platform_laws tr env" and "tpm_ready (tr, env) w"
    and "LimpetDestroyURIFromTpm env n want w = (r, w')"
  shows "tpm_ready (tr, env) w' \<and> tpm_slots (tr, env) w' = (tpm_slots (tr, env) w)(n := None) \<and> (\<exists>x c. r = Done x \<or> r = Failed c)"
proof -
  obtain r0 w0 where plain: "LimpetDestroyURIFromTpm env n False w = (r0, w0)" by fastforce
  from assms(2) have "w' = w0 \<and> (\<exists>x c. r = Done x \<or> r = Failed c)"
  proof (cases rule: tpm_cases [where n = n])
    case 1
    then show ?thesis using assms(3) plain tpm_destroy_free [OF assms(1) 1] by auto
  next
    case (2 c)
    then show ?thesis
      using assms(3) plain tpm_destroy_defined [OF assms(1) 2(1), of want] tpm_destroy_defined [OF assms(1) 2(1), of False]
      by auto
  qed
  with tpm_destroy [OF assms(1, 2) plain] show ?thesis by simp
qed

text \<open>The commands on keys leave the registry and the NV indices alone.\<close>

definition keys_apart :: "('z platform_scheme, 'p) limpet_env \<Rightarrow> bool" where
  "keys_apart env \<longleftrightarrow> (\<forall>h p w. same_store w (snd (lt_EvictControl env h p w)))"

lemma same_store_tpm: "same_store w w' \<Longrightarrow> tpm_ready e w' = tpm_ready e w" "same_store w w' \<Longrightarrow> tpm_slots e w' = tpm_slots e w"
  by (simp_all add: same_store_def tpm_ready_def tpm_slots_def decided_def)

lemma tpm_decided: "tpm_ready e w \<Longrightarrow> decided False w"
  by (simp add: tpm_ready_def)

lemma tpm_evict:
  assumes "platform_laws tr env" and "keys_apart env" and "decided False w"
  shows "\<exists>r w'. LimpetEvictHmacKey env n want w = (r, w') \<and> same_store w w' \<and> (\<exists>x c. r = Done x \<or> r = Failed c)"
proof -
  obtain c pub name where p: "lt_ReadPublic env (key_handle n) w = ((c, pub, name), w)"
    using traitsD(6) [OF assms(1), of "key_handle n" w] by (metis prod.exhaust_sel)
  obtain c' w1 where e: "lt_EvictControl env (key_handle n) (key_handle n) w = (c', w1)" by fastforce
  with assms(2) have "same_store w w1" unfolding keys_apart_def by (metis snd_conv)
  with p e show ?thesis
    by (auto simp: LimpetEvictHmacKey_def lim_simps UseRegistry_decided [OF assms(1, 3)] object_name_def
        LimpetObjNameToString_def same_store_def split: option.split)
qed

lemma w_str_fits: "fits_slot e t \<Longrightarrow> w_str t = t"
  by (simp add: fits_slot_def w_str_def takeWhile_all_set)

lemma EmptyTpmSlot_empties:
  assumes "platform_laws tr env" and "keys_apart env" and "tpm_ready (tr, env) w"
  shows "\<exists>w'. EmptyTpmSlot env n w = (Done (), w') \<and> tpm_ready (tr, env) w' \<and>
     tpm_slots (tr, env) w' = (tpm_slots (tr, env) w)(n := None)"
proof -
  obtain r w1 where d: "LimpetDestroyURIFromTpm env n True w = (r, w1)" by fastforce
  note w1 = tpm_destroy_named [OF assms(1, 3) d]
  obtain r2 w2 where e: "LimpetEvictHmacKey env n True w1 = (r2, w2)" "same_store w1 w2" "\<exists>x c. r2 = Done x \<or> r2 = Failed c"
    using tpm_evict [OF assms(1, 2) tpm_decided, of "(tr, env)" w1 n True] w1 by blast
  have "EmptyTpmSlot env n w = (Done (), w2)"
    using d e w1 by (auto simp: EmptyTpmSlot_def LimpetDestroyURI_def lim_simps
        UseRegistry_decided [OF assms(1) tpm_decided [OF assms(3)]])
  then show ?thesis using same_store_tpm [OF e(2), of "(tr, env)"] w1 by simp
qed

lemma StoreIothubUri_fills:
  assumes "platform_laws tr env" and "tpm_ready (tr, env) w" and "fits_slot (tr, env) t" and "tpm_slots (tr, env) w n = None"
  shows "\<exists>x w'. StoreIothubUri env n t w = (Done x, w') \<and> tpm_ready (tr, env) w' \<and>
     tpm_slots (tr, env) w' = (tpm_slots (tr, env) w)(n \<mapsto> le_utf8 env t)"
proof -
  obtain r w' where s: "LimpetStoreURIInTpm env n t True w = (r, w')" by fastforce
  note w' = tpm_store_named [OF assms(1-3) s]
  with assms(4) obtain x where "r = Done x" by (cases r) (auto simp: accepted_def)
  moreover have "StoreIothubUri env n t w = (r, w')"
    using s by (simp add: StoreIothubUri_def LimpetStoreURI_def lim_simps w_str_fits [OF assms(3)]
        UseRegistry_decided [OF assms(1) tpm_decided [OF assms(2)]])
  ultimately show ?thesis using w' assms(4) by auto
qed

lemma slots_kept:
  assumes "uris_ready c w" and "uri_slots c w n = Some u"
  shows "u \<noteq> [] \<and> length u \<le> 512"
proof (cases "snd c")
  case True
  with assms have "registry_ready (fst c) w" "registry_slots (fst c) w n = Some u"
    by (simp_all add: uris_ready_def uri_slots_def)
  then show ?thesis
    by (cases rule: registry_cases [where n = n]) (auto simp: registry_slots_def fits_slot_def site_bytes_def)
next
  case False
  with assms have "tpm_ready (fst c) w" "tpm_slots (fst c) w n = Some u"
    by (simp_all add: uris_ready_def uri_slots_def)
  then show ?thesis by (cases rule: tpm_cases [where n = n]) (auto simp: tpm_slots_def)
qed

lemma provisioned_iff:
  assumes "platform_laws tr env" and "uris_ready ((tr, env), d) w"
  shows "IsDeviceProvisioned env n w = (Done (le_hresult env 0, uri_slots ((tr, env), d) w n \<noteq> None), w)"
proof -
  let ?c = "((tr, env), d)"
  have l: "site_lawful (fst ?c)" using assms(1) by (simp add: site_lawful_def)
  have "LimpetReadURI env n True 1024 w = (Done (map_answer (uri_slots ?c w n)), w)"
    using chosen_calls(2) [OF l assms(2), of n True 1024] registry_read [OF assms(1), of w n] tpm_read [OF assms(1), of w n]
      assms(2) by (cases d) (simp_all add: uris_ready_def uri_slots_def)
  moreover have "(word_of_nat (length u) :: 32 word) \<noteq> 0" if "uri_slots ?c w n = Some u" for u
  proof -
    have "unat (word_of_nat (length u) :: 32 word) = length u" "length u > 0"
      using slots_kept [OF assms(2) that] by (simp_all add: short_bytes)
    then show ?thesis by (metis unat_0 less_irrefl)
  qed
  ultimately show ?thesis
    by (cases "uri_slots ?c w n") (simp_all add: IsDeviceProvisioned_def provisioned_answer_def map_answer_def)
qed

lemma provisioned_iff_tpm:
  assumes "platform_laws tr env" and "tpm_ready (tr, env) w"
  shows "IsDeviceProvisioned env n w = (Done (le_hresult env 0, tpm_slots (tr, env) w n \<noteq> None), w)"
  using provisioned_iff [OF assms(1), of False w n] assms(2) by (simp add: uris_ready_def uri_slots_def)

text \<open>
  On a TPM that works and is chosen, emptying a slot succeeds and leaves it not provisioned,
  storing a URI then succeeds and makes it provisioned, and no other slot changes on the way.
\<close>

theorem slot_is_provisioned_by_storing:
  assumes "platform_laws tr env" and "keys_apart env" and "tpm_ready (tr, env) w" and "fits_slot (tr, env) uri"
  shows "\<exists>w1 name w2. EmptyTpmSlot env n w = (Done (), w1) \<and>
    IsDeviceProvisioned env n w1 = (Done (le_hresult env 0, False), w1) \<and>
    StoreIothubUri env n uri w1 = (Done name, w2) \<and>
    IsDeviceProvisioned env n w2 = (Done (le_hresult env 0, True), w2) \<and>
    tpm_slots (tr, env) w2 = (tpm_slots (tr, env) w)(n \<mapsto> le_utf8 env uri)"
proof -
  obtain w1 where w1: "EmptyTpmSlot env n w = (Done (), w1)" "tpm_ready (tr, env) w1"
      "tpm_slots (tr, env) w1 = (tpm_slots (tr, env) w)(n := None)"
    using EmptyTpmSlot_empties [OF assms(1-3)] by blast
  then have "tpm_slots (tr, env) w1 n = None" by simp
  from StoreIothubUri_fills [OF assms(1) w1(2) assms(4) this]
  obtain name w2 where w2: "StoreIothubUri env n uri w1 = (Done name, w2)" "tpm_ready (tr, env) w2"
      "tpm_slots (tr, env) w2 = (tpm_slots (tr, env) w1)(n \<mapsto> le_utf8 env uri)"
    by blast
  with w1 show ?thesis
    using provisioned_iff_tpm [OF assms(1) w1(2), of n] provisioned_iff_tpm [OF assms(1) w2(2), of n] by simp
qed

theorem slot_is_provisioned_by_storing_witness:
  "\<exists>w1 name w2. EmptyTpmSlot sample_signer 0 tpm_platform = (Done (), w1) \<and>
    IsDeviceProvisioned sample_signer 0 w1 = (Done (0, False), w1) \<and>
    StoreIothubUri sample_signer 0 (wide ''h/d'') w1 = (Done name, w2) \<and>
    IsDeviceProvisioned sample_signer 0 w2 = (Done (0, True), w2)"
proof -
  have "keys_apart sample_signer"
    by (simp add: keys_apart_def same_store_def sample_signer_def sample_calls_def)
  moreover have "fits_slot (sample_traits, sample_signer) (wide ''h/d'')"
    by (simp add: fits_slot_def sample_signer_def sample_calls_def wide_def)
  moreover have "le_hresult sample_signer 0 = 0" by (simp add: sample_signer_def sample_calls_def)
  ultimately show ?thesis
    using slot_is_provisioned_by_storing [OF sample_signer_laws _ tpm_platform_ready(1), of "wide ''h/d''" 0] by auto
qed

text \<open>The first query of a slot answers that it is not provisioned, whatever it held.\<close>

theorem first_query_finds_nothing:
  assumes "platform_laws tr env" and "fits_slot (tr, env) (wide ''limpettest.org/limpet'')" and "undecided w"
  shows "IsDeviceProvisioned env n w = (Done (le_hresult env 0, False), tpm_chosen n w)"
proof -
  have "find_uri env n (tpm_chosen n w) = (Failed TPM_RC_FAILURE, tpm_chosen n w)"
    by (rule no_device_cert_uri [OF assms(1)]) (simp add: tpm_chosen_def)
  with UseRegistry_undecided [OF assms, of n] show ?thesis
    by (simp add: IsDeviceProvisioned_def LimpetReadURI_def LimpetReadURIFromTpm_def lim_simps provisioned_answer_def)
qed

end
