(* ===== verification/Dps_Registration.thy ===== *)
theory Dps_Registration
  imports Tpm_Support
begin

text \<open>
  AzureDeviceProvisioningClient: registering the device with the provisioning service until that
  succeeds (DpsDeviceRegistration.cpp), creating its modules at the hub, the checks of the
  exported functions (DpsClientApi.cpp) and the wait for the network (NetConnection.cpp).  The
  provisioning and service SDKs, COM and the network list manager are the record \<open>dps_env\<close>.
\<close>

section \<open>The service's callbacks\<close>

text \<open>
  What one call of \<open>Prov_Device_LL_DoWork\<close> calls back: the registration status, or the end of the
  registration with the hub's URI and the device's id.
\<close>

datatype dps_event = Status int | Registered bool string string

record module_info =
  mi_primaryKey :: string
  mi_deviceId :: string
  mi_moduleId :: string

text \<open>\<open>de_Network\<close> is the creation of the network state, \<open>de_Wait\<close> the wait for its event.\<close>

record 'w dps_env =
  de_Com :: "'w \<Rightarrow> 32 word \<times> 'w"
  de_Network :: "'w \<Rightarrow> 32 word \<times> 'w"
  de_Wait :: "'w \<Rightarrow> 32 word \<times> 'w"
  de_LastError :: "'w \<Rightarrow> 32 word"
  de_platform_init :: "'w \<Rightarrow> 32 word \<times> 'w"
  de_security_init :: "'w \<Rightarrow> 32 word \<times> 'w"
  de_Create :: "string \<Rightarrow> string \<Rightarrow> 'w \<Rightarrow> nat option \<times> 'w"
  de_Register :: "nat \<Rightarrow> 'w \<Rightarrow> bool \<times> 'w"
  de_DoWork :: "nat \<Rightarrow> 'w \<Rightarrow> dps_event list \<times> 'w"
  de_Sleep :: "nat \<Rightarrow> 'w \<Rightarrow> 'w"
  de_Destroy :: "nat \<Rightarrow> 'w \<Rightarrow> 'w"
  de_Auth :: "string \<Rightarrow> 'w \<Rightarrow> nat option \<times> 'w"
  de_Manager :: "nat \<Rightarrow> 'w \<Rightarrow> nat option \<times> 'w"
  de_GetModule :: "nat \<Rightarrow> string \<Rightarrow> string \<Rightarrow> 'w \<Rightarrow> module_info option \<times> 'w"
  de_CreateModule :: "nat \<Rightarrow> string \<Rightarrow> string \<Rightarrow> 'w \<Rightarrow> module_info option \<times> 'w"
  de_FreeModule :: "'w \<Rightarrow> 'w"
  de_DestroyManager :: "nat \<Rightarrow> 'w \<Rightarrow> 'w"
  de_DestroyAuth :: "nat \<Rightarrow> 'w \<Rightarrow> 'w"

abbreviation DPS_SUCCESS :: int where "DPS_SUCCESS \<equiv> 1"
abbreviation DPS_FAILURE :: int where "DPS_FAILURE \<equiv> -1"
abbreviation DPS_RUNNING :: int where "DPS_RUNNING \<equiv> 0"

record CLIENT_SAMPLE_INFO =
  sleep_time :: nat
  registration_complete :: int
  slot :: "32 word"

text \<open>The statuses: 0 is connected, 1 registering, 2 assigning.\<close>

definition registation_status_callback :: "int \<Rightarrow> CLIENT_SAMPLE_INFO \<Rightarrow> CLIENT_SAMPLE_INFO" where
  "registation_status_callback reg_status info =
     (if reg_status = 0 then info\<lparr>sleep_time := 600\<rparr>
      else if reg_status = 1 then info\<lparr>sleep_time := 900\<rparr>
      else if reg_status = 2 then info\<lparr>sleep_time := 1200\<rparr>
      else info)"

text \<open>The result of storing the URI is not looked at.\<close>

definition register_device_callback ::
    "('w, 'p) limpet_env \<Rightarrow> bool \<Rightarrow> string \<Rightarrow> string \<Rightarrow> CLIENT_SAMPLE_INFO \<Rightarrow> ('w, CLIENT_SAMPLE_INFO) lim" where
  "register_device_callback env ok iothub_uri device_id info =
     (if ok then lthen (lcode (StoreIothubUri env (slot info) (le_widen env (iothub_uri @ ''/'' @ device_id))))
        (ldone (info\<lparr>registration_complete := DPS_SUCCESS\<rparr>))
      else ldone (info\<lparr>registration_complete := DPS_FAILURE\<rparr>))"

fun call_back :: "('w, 'p) limpet_env \<Rightarrow> dps_event list \<Rightarrow> CLIENT_SAMPLE_INFO \<Rightarrow> ('w, CLIENT_SAMPLE_INFO) lim" where
  "call_back env [] info = ldone info"
| "call_back env (Status s # es) info = call_back env es (registation_status_callback s info)"
| "call_back env (Registered ok uri device # es) info =
     lbind (register_device_callback env ok uri device info) (call_back env es)"

section \<open>Registering the device\<close>

definition FAILED_hr :: "32 word \<Rightarrow> bool" where
  "FAILED_hr hr \<longleftrightarrow> sint hr < 0"

text \<open>\<open>HRESULT_FROM_WIN32\<close>: 0 and what is negative stay.\<close>

definition HRESULT_FROM_WIN32 :: "32 word \<Rightarrow> 32 word" where
  "HRESULT_FROM_WIN32 x = (if sint x \<le> 0 then x else (x AND 0xFFFF) OR 0x80070000)"

definition WaitForConnection :: "'w dps_env \<Rightarrow> ('w, 32 word) lim" where
  "WaitForConnection denv = (\<lambda>w. case de_Wait denv w of (dwRc, w') \<Rightarrow>
     (Done (if dwRc \<noteq> 258 then (if dwRc \<noteq> 0 then HRESULT_FROM_WIN32 (de_LastError denv w') else 0)
            else HRESULT_FROM_WIN32 1222), w'))"

definition hr_call :: "('w \<Rightarrow> 32 word \<times> 'w) \<Rightarrow> ('w, 32 word) lim" where
  "hr_call f = (\<lambda>w. case f w of (hr, w') \<Rightarrow> (Done hr, w'))"

definition unless_failed :: "('w, 32 word) lim \<Rightarrow> (32 word \<Rightarrow> ('w, 'a) lim) \<Rightarrow> ('w, 'a) lim" where
  "unless_failed m f = lbind m (\<lambda>hr. if FAILED_hr hr then lfail hr else f hr)"

definition sdk_ask :: "('w \<Rightarrow> 'a \<times> 'w) \<Rightarrow> ('w, 'a) lim" where
  "sdk_ask f = (\<lambda>w. case f w of (x, w') \<Rightarrow> (Done x, w'))"

definition sdk_act :: "('w \<Rightarrow> 'w) \<Rightarrow> ('w, unit) lim" where
  "sdk_act f = (\<lambda>w. (Done (), f w))"

text \<open>
  What one attempt does before its loop: \<open>Failed hr\<close> is a return of \<open>hr\<close> from the whole function,
  an HRESULT other than S_OK of the network state is thrown.  The handle of the client, and the
  last code.
\<close>

definition start_registration :: "'w dps_env \<Rightarrow> string \<Rightarrow> string \<Rightarrow> ('w, nat \<times> 32 word) lim" where
  "start_registration denv dpsUri dpsScopeId =
     unless_failed (hr_call (de_Com denv)) (\<lambda>hr.
     lbind (hr_call (de_Network denv)) (\<lambda>hr. if hr \<noteq> 0 then lthrow else
     unless_failed (WaitForConnection denv) (\<lambda>hr.
     unless_failed (hr_call (de_platform_init denv)) (\<lambda>hr.
     unless_failed (hr_call (de_security_init denv)) (\<lambda>hr.
     lbind (sdk_ask (de_Create denv (c_str dpsUri) (c_str dpsScopeId))) (\<lambda>handle. case handle of
       None \<Rightarrow> lfail E_FAIL
     | Some h \<Rightarrow> lbind (sdk_ask (de_Register denv h)) (\<lambda>ok.
         if \<not> ok then lfail E_FAIL else ldone (h, hr))))))))"

text \<open>\<open>None\<close> is a loop that does not end.\<close>

partial_function (option) work_loop ::
    "('w, 'p) limpet_env \<Rightarrow> 'w dps_env \<Rightarrow> nat \<Rightarrow> CLIENT_SAMPLE_INFO \<Rightarrow> 'w \<Rightarrow> (CLIENT_SAMPLE_INFO outcome \<times> 'w) option" where
  "work_loop env denv h info w =
     (case de_DoWork denv h w of (es, w1) \<Rightarrow>
      case call_back env es info w1 of
        (Done info', w2) \<Rightarrow>
          if registration_complete info' = DPS_RUNNING
          then work_loop env denv h info' (de_Sleep denv (sleep_time info') w2)
          else Some (Done info', de_Sleep denv (sleep_time info') w2)
      | (Failed c, w2) \<Rightarrow> Some (Failed c, w2)
      | (Raised c, w2) \<Rightarrow> Some (Raised c, w2)
      | (Thrown, w2) \<Rightarrow> Some (Thrown, w2))"

definition register_attempt ::
    "('w, 'p) limpet_env \<Rightarrow> 'w dps_env \<Rightarrow> string \<Rightarrow> string \<Rightarrow> 32 word \<Rightarrow> 'w \<Rightarrow> ((32 word \<times> bool) outcome \<times> 'w) option" where
  "register_attempt env denv dpsUri dpsScopeId tpmSlot w =
     (case start_registration denv dpsUri dpsScopeId w of
        (Done (h, hr), w1) \<Rightarrow>
          (case work_loop env denv h \<lparr>sleep_time = 10, registration_complete = DPS_RUNNING, slot = tpmSlot\<rparr> w1 of
             None \<Rightarrow> None
           | Some (Done info, w2) \<Rightarrow> Some (Done (hr, registration_complete info = DPS_SUCCESS), de_Destroy denv h w2)
           | Some (Failed c, w2) \<Rightarrow> Some (Failed c, w2)
           | Some (Raised c, w2) \<Rightarrow> Some (Raised c, w2)
           | Some (Thrown, w2) \<Rightarrow> Some (Thrown, w2))
      | (Failed hr, w1) \<Rightarrow> Some (Failed hr, w1)
      | (Raised c, w1) \<Rightarrow> Some (Raised c, w1)
      | (Thrown, w1) \<Rightarrow> Some (Thrown, w1))"

text \<open>The attempts, five seconds apart; the HRESULT that is returned is \<open>Done\<close>.\<close>

partial_function (option) register_loop ::
    "('w, 'p) limpet_env \<Rightarrow> 'w dps_env \<Rightarrow> string \<Rightarrow> string \<Rightarrow> 32 word \<Rightarrow> 'w \<Rightarrow> (32 word outcome \<times> 'w) option" where
  "register_loop env denv dpsUri dpsScopeId tpmSlot w =
     (case register_attempt env denv dpsUri dpsScopeId tpmSlot w of
        None \<Rightarrow> None
      | Some (Done (hr, ok), w1) \<Rightarrow>
          if ok then Some (Done hr, w1)
          else register_loop env denv dpsUri dpsScopeId tpmSlot (de_Sleep denv 5000 w1)
      | Some (Failed hr, w1) \<Rightarrow> Some (Done hr, w1)
      | Some (Raised c, w1) \<Rightarrow> Some (Raised c, w1)
      | Some (Thrown, w1) \<Rightarrow> Some (Thrown, w1))"

definition DpsRegisterDevice ::
    "('w, 'p) limpet_env \<Rightarrow> 'w dps_env \<Rightarrow> 32 word \<Rightarrow> string \<Rightarrow> string \<Rightarrow> 'w \<Rightarrow> (32 word outcome \<times> 'w) option" where
  "DpsRegisterDevice env denv tpmSlot dpsUri dpsScopeId w =
     (case IsDeviceProvisioned env tpmSlot w of
        (Done (hr, provisioned), w1) \<Rightarrow>
          if FAILED_hr hr \<or> \<not> provisioned then
            (case EmptyTpmSlot env tpmSlot w1 of
               (Done u, w2) \<Rightarrow> register_loop env denv dpsUri dpsScopeId tpmSlot w2
             | (Failed c, w2) \<Rightarrow> Some (Failed c, w2)
             | (Raised c, w2) \<Rightarrow> Some (Raised c, w2)
             | (Thrown, w2) \<Rightarrow> Some (Thrown, w2))
          else Some (Done hr, w1)
      | (Failed c, w1) \<Rightarrow> Some (Failed c, w1)
      | (Raised c, w1) \<Rightarrow> Some (Raised c, w1)
      | (Thrown, w1) \<Rightarrow> Some (Thrown, w1))"

section \<open>The modules\<close>

definition store_module_info_in_tpm ::
    "('w, 'p) limpet_env \<Rightarrow> module_info \<Rightarrow> string \<Rightarrow> 32 word \<Rightarrow> ('w, 32 word) lim" where
  "store_module_info_in_tpm env info hostName moduleSlot =
     lbind (lcode (lthen (StoreHmacKey env moduleSlot (mi_primaryKey info)) (
       lbind (printed (le_wcapacity env) (le_widen env (c_str hostName) @ wide ''/'' @ le_widen env (mi_deviceId info) @
         wide ''/'' @ le_widen env (mi_moduleId info))) (\<lambda>fullUri.
       StoreIothubUri env moduleSlot fullUri))))
     (\<lambda>r. ldone (case r of Inl c \<Rightarrow> E_FAIL | Inr name \<Rightarrow> 0))"

text \<open>The module of the hub: an existing one, or a new one.\<close>

definition hub_module :: "'w dps_env \<Rightarrow> nat \<Rightarrow> string \<Rightarrow> string \<Rightarrow> ('w, module_info option) lim" where
  "hub_module denv manager deviceId moduleName =
     lbind (sdk_ask (de_GetModule denv manager deviceId moduleName)) (\<lambda>r. case r of
       Some info \<Rightarrow> ldone (Some info)
     | None \<Rightarrow> sdk_ask (de_CreateModule denv manager deviceId moduleName))"

definition create_at_hub ::
    "('w, 'p) limpet_env \<Rightarrow> 'w dps_env \<Rightarrow> 32 word \<Rightarrow> string \<Rightarrow> string \<Rightarrow> string \<Rightarrow> nat \<Rightarrow> ('w, 32 word) lim" where
  "create_at_hub env denv moduleSlot hostUri deviceId moduleName manager =
     lbind (hub_module denv manager (c_str deviceId) (c_str moduleName)) (\<lambda>r. case r of
       None \<Rightarrow> ldone E_FAIL
     | Some info \<Rightarrow>
         if mi_moduleId info \<noteq> c_str moduleName \<or> mi_deviceId info \<noteq> c_str deviceId then ldone E_FAIL
         else store_module_info_in_tpm env info hostUri moduleSlot)"

text \<open>What was opened is closed at the end, the module's members first.\<close>

definition with_hub_manager ::
    "'w dps_env \<Rightarrow> string \<Rightarrow> (nat \<Rightarrow> ('w, 32 word) lim) \<Rightarrow> ('w, 32 word) lim" where
  "with_hub_manager denv connection m =
     lbind (sdk_ask (de_Auth denv connection)) (\<lambda>auth. case auth of
       None \<Rightarrow> lthen (sdk_act (de_FreeModule denv)) (ldone E_FAIL)
     | Some a \<Rightarrow> lbind (sdk_ask (de_Manager denv a)) (\<lambda>manager. case manager of
         None \<Rightarrow> lthen (sdk_act (de_FreeModule denv)) (lthen (sdk_act (de_DestroyAuth denv a)) (ldone E_FAIL))
       | Some b \<Rightarrow> lbind (m b) (\<lambda>hr.
           lthen (sdk_act (de_FreeModule denv)) (lthen (sdk_act (de_DestroyManager denv b)) (
           lthen (sdk_act (de_DestroyAuth denv a)) (ldone hr))))))"

definition create_module ::
    "('w, 'p) limpet_env \<Rightarrow> 'w dps_env \<Rightarrow> 32 word \<Rightarrow> string \<Rightarrow> string \<Rightarrow> string \<Rightarrow> string \<Rightarrow> ('w, 32 word) lim" where
  "create_module env denv moduleSlot hostUri deviceId moduleName deviceConnectionString =
     lbind (IsDeviceProvisioned env moduleSlot) (\<lambda>(result, provisioned).
     if result = 0 \<and> provisioned then ldone 0
     else with_hub_manager denv (c_str deviceConnectionString) (create_at_hub env denv moduleSlot hostUri deviceId moduleName))"

text \<open>The loop over the map; the first failure ends it.\<close>

fun create_each ::
    "('w, 'p) limpet_env \<Rightarrow> 'w dps_env \<Rightarrow> string \<Rightarrow> string \<Rightarrow> string \<Rightarrow> 32 word \<Rightarrow> (string \<times> 32 word) list \<Rightarrow> ('w, 32 word) lim" where
  "create_each env denv hostUri deviceId conn hr [] = ldone hr"
| "create_each env denv hostUri deviceId conn hr0 ((moduleName, moduleSlot) # ms) =
     lbind (create_module env denv moduleSlot hostUri deviceId moduleName conn) (\<lambda>hr.
     if FAILED_hr hr then ldone hr else create_each env denv hostUri deviceId conn hr ms)"

text \<open>The device's URI must be host/device: one slash, and no second one.\<close>

definition create_modules ::
    "('w, 'p) limpet_env \<Rightarrow> 'w dps_env \<Rightarrow> 32 word \<Rightarrow> (string \<times> 32 word) list \<Rightarrow> ('w, 32 word) lim" where
  "create_modules env denv deviceSlot modules =
     lbind (lcode (GetIothubUri env deviceSlot)) (\<lambda>r. case r of
       Inl c \<Rightarrow> ldone E_FAIL
     | Inr uriData \<Rightarrow>
         let host = takeWhile (\<lambda>c. c \<noteq> CHR ''/'') uriData; deviceId = drop (length host + 1) uriData
         in if CHR ''/'' \<notin> set uriData \<or> CHR ''/'' \<in> set deviceId then ldone E_FAIL
            else lbind (lcode (GetAzureConnectionString env deviceSlot 3600 (le_wcapacity env))) (\<lambda>r. case r of
              Inl c \<Rightarrow> ldone E_FAIL
            | Inr connection \<Rightarrow> create_each env denv host deviceId (le_narrow env connection) 0 modules))"

section \<open>The exported functions\<close>

definition DpsRegisterDeviceAndModules ::
    "('w, 'p) limpet_env \<Rightarrow> 'w dps_env \<Rightarrow> 32 word \<Rightarrow> string \<Rightarrow> string \<Rightarrow> 32 word \<Rightarrow> string \<Rightarrow> (string \<times> 32 word) list \<Rightarrow>
     'w \<Rightarrow> (32 word outcome \<times> 'w) option" where
  "DpsRegisterDeviceAndModules env denv deviceSlot dpsUri dpsScopeId dmSlot dmModuleId otherModules w =
     (case DpsRegisterDevice env denv deviceSlot dpsUri dpsScopeId w of
        Some (Done hr, w1) \<Rightarrow>
          if FAILED_hr hr then Some (Done hr, w1)
          else Some (create_modules env denv deviceSlot (sm_put dmModuleId dmSlot otherModules) w1)
      | r \<Rightarrow> r)"

definition DpsRegisterDeviceWithoutModules ::
    "('w, 'p) limpet_env \<Rightarrow> 'w dps_env \<Rightarrow> 32 word \<Rightarrow> wtext \<Rightarrow> wtext \<Rightarrow> 'w \<Rightarrow> (32 word outcome \<times> 'w) option" where
  "DpsRegisterDeviceWithoutModules env denv deviceSlot wdpsUri wdpsScopeId =
     DpsRegisterDevice env denv deviceSlot (le_narrow env (w_str wdpsUri)) (le_narrow env (w_str wdpsScopeId))"

abbreviation TPM20_MAX_SLOT_NUMBER :: "32 word" where "TPM20_MAX_SLOT_NUMBER \<equiv> 9"

definition AzureDpsRegisterDeviceWithoutModules ::
    "('w, 'p) limpet_env \<Rightarrow> 'w dps_env \<Rightarrow> 32 word \<Rightarrow> wtext \<Rightarrow> wtext \<Rightarrow> 'w \<Rightarrow> (32 word outcome \<times> 'w) option" where
  "AzureDpsRegisterDeviceWithoutModules env denv tpmSlot wdpsUri wdpsScopeId w =
     (if tpmSlot > TPM20_MAX_SLOT_NUMBER then Some (Done E_INVALIDARG, w)
      else if wdpsUri = [] then Some (Done E_INVALIDARG, w)
      else if wdpsScopeId = [] then Some (Done E_INVALIDARG, w)
      else DpsRegisterDeviceWithoutModules env denv tpmSlot wdpsUri wdpsScopeId w)"

definition bad_module :: "32 word \<Rightarrow> 32 word \<Rightarrow> string \<times> 32 word \<Rightarrow> bool" where
  "bad_module tpmSlot dmSlot m =
     (fst m = [] \<or> snd m > TPM20_MAX_SLOT_NUMBER \<or> snd m = tpmSlot \<or> snd m = dmSlot)"

definition AzureDpsRegisterDevice ::
    "('w, 'p) limpet_env \<Rightarrow> 'w dps_env \<Rightarrow> 32 word \<Rightarrow> string \<Rightarrow> string \<Rightarrow> 32 word \<Rightarrow> string \<Rightarrow> (string \<times> 32 word) list \<Rightarrow>
     'w \<Rightarrow> (32 word outcome \<times> 'w) option" where
  "AzureDpsRegisterDevice env denv tpmSlot dpsUri dpsScopeId dmSlot dmModuleId otherModules w =
     (if tpmSlot > TPM20_MAX_SLOT_NUMBER \<or> dpsUri = [] \<or> dpsScopeId = [] \<or> dmSlot > TPM20_MAX_SLOT_NUMBER
        \<or> (tpmSlot \<noteq> dmSlot \<and> dmModuleId = []) \<or> list_ex (bad_module tpmSlot dmSlot) otherModules
      then Some (Done E_INVALIDARG, w)
      else DpsRegisterDeviceAndModules env denv tpmSlot dpsUri dpsScopeId dmSlot dmModuleId otherModules w)"

text \<open>
  The exported query of the registration id: a buffer that is too small is answered with the
  length 0 and the code of success.
\<close>

definition ExportedRegistrationId ::
    "('w, 'p) limpet_env \<Rightarrow> nat option \<Rightarrow> ('w, 32 word \<times> nat \<times> string option) lim" where
  "ExportedRegistrationId env capacity = (case capacity of
     None \<Rightarrow> lfail E_INVALIDARG
   | Some cch \<Rightarrow> lbind (lcode (GetRegistrationId env)) (\<lambda>r. ldone (case r of
       Inl hr \<Rightarrow> (hr, if SUCCEEDED hr \<and> cch > 1 then (0, Some []) else (0, None))
     | Inr registrationId \<Rightarrow>
         (0, if cch > length registrationId + 1 then (length registrationId, Some registrationId) else (0, None)))))"

section \<open>The registration ends and provisions the slot\<close>

text \<open>
  The services of the operating system and the SDK when they work: \<open>rank\<close> bounds how often the
  registration may still be looked at without coming to a good end.
\<close>

definition works :: "('z \<Rightarrow> nat) \<Rightarrow> ('z platform_scheme \<Rightarrow> 'a \<times> 'z platform_scheme) \<Rightarrow> 'a \<Rightarrow> bool" where
  "works rank f x \<longleftrightarrow> (\<forall>w. \<exists>w'. f w = (x, w') \<and> same_store w w' \<and> rank (platform.more w') \<le> rank (platform.more w))"

definition ends_well :: "dps_event list \<Rightarrow> bool" where
  "ends_well es \<longleftrightarrow> (\<exists>es' uri device. es = es' @ [Registered True uri device])"

definition hub_uris_fit :: "('z, 'p) site \<Rightarrow> dps_event list \<Rightarrow> bool" where
  "hub_uris_fit e es \<longleftrightarrow>
     (\<forall>uri device. Registered True uri device \<in> set es \<longrightarrow> fits_slot e (le_widen (snd e) (uri @ ''/'' @ device)))"

definition sdk_works :: "('z, 'p) site \<Rightarrow> ('z \<Rightarrow> nat) \<Rightarrow> 'z platform_scheme dps_env \<Rightarrow> bool" where
  "sdk_works e rank denv \<longleftrightarrow>
     works rank (de_Com denv) 0 \<and> works rank (de_Network denv) 0 \<and> works rank (de_Wait denv) 0 \<and>
     works rank (de_platform_init denv) 0 \<and> works rank (de_security_init denv) 0 \<and>
     (\<forall>uri scope. \<exists>h. works rank (de_Create denv uri scope) (Some h)) \<and>
     (\<forall>h. works rank (de_Register denv h) True) \<and>
     (\<forall>h w es w'. de_DoWork denv h w = (es, w') \<longrightarrow> same_store w w' \<and> hub_uris_fit e es \<and>
        rank (platform.more w') \<le> rank (platform.more w) \<and>
        (ends_well es \<or> rank (platform.more w') < rank (platform.more w))) \<and>
     (\<forall>t w. same_store w (de_Sleep denv t w) \<and> rank (platform.more (de_Sleep denv t w)) \<le> rank (platform.more w)) \<and>
     (\<forall>h w. same_store w (de_Destroy denv h w) \<and> rank (platform.more (de_Destroy denv h w)) \<le> rank (platform.more w))"

lemma store_keeps_more:
  assumes "platform_laws tr env" and "tpm_ready (tr, env) w" and "fits_slot (tr, env) t"
  shows "\<exists>r w'. StoreIothubUri env n t w = (r, w') \<and> (\<exists>x c. r = Done x \<or> r = Failed c) \<and> platform.more w' = platform.more w \<and>
     tpm_ready (tr, env) w' \<and> tpm_slots (tr, env) w' n \<noteq> None \<and>
     (\<forall>m. m \<noteq> n \<longrightarrow> tpm_slots (tr, env) w' m = tpm_slots (tr, env) w m)"
proof -
  obtain r w' where s: "LimpetStoreURIInTpm env n t True w = (r, w')" by fastforce
  note w' = tpm_store_named [OF assms s]
  have "(\<exists>x c. r = Done x \<or> r = Failed c) \<and> platform.more w' = platform.more w"
  proof (cases "lv_nv w (uri_index n)")
    case None
    with s tpm_store_free [OF assms(1, 3), of w n True] show ?thesis by auto
  next
    case (Some x)
    with s tpm_store_defined [OF assms(1, 3), of w n True] show ?thesis by auto
  qed
  moreover have "StoreIothubUri env n t w = (r, w')"
    using s by (simp add: StoreIothubUri_def LimpetStoreURI_def lim_simps w_str_fits [OF assms(3)]
        UseRegistry_decided [OF assms(1) tpm_decided [OF assms(2)]])
  moreover have "tpm_slots (tr, env) w' n \<noteq> None"
    using w' by (cases "accepted r") auto
  ultimately show ?thesis using w' by auto
qed

definition slot_kept :: "('z, 'p) site \<Rightarrow> 32 word \<Rightarrow> 'z platform_scheme \<Rightarrow> 'z platform_scheme \<Rightarrow> bool" where
  "slot_kept e n w w' \<longleftrightarrow> tpm_ready e w' \<and> (\<forall>m. m \<noteq> n \<longrightarrow> tpm_slots e w' m = tpm_slots e w m) \<and>
     (tpm_slots e w n \<noteq> None \<longrightarrow> tpm_slots e w' n \<noteq> None)"

lemma slot_kept_trans: "slot_kept e n w w1 \<Longrightarrow> slot_kept e n w1 w2 \<Longrightarrow> slot_kept e n w w2"
  by (simp add: slot_kept_def)

lemma slot_kept_same: "tpm_ready e w \<Longrightarrow> same_store w w' \<Longrightarrow> slot_kept e n w w'"
  by (simp add: slot_kept_def same_store_tpm)

lemma slot_kept_ready: "slot_kept e n w w' \<Longrightarrow> tpm_ready e w'"
  by (simp add: slot_kept_def)

definition info_ok :: "('z, 'p) site \<Rightarrow> 32 word \<Rightarrow> CLIENT_SAMPLE_INFO \<Rightarrow> 'z platform_scheme \<Rightarrow> bool" where
  "info_ok e n info w \<longleftrightarrow> slot info = n \<and> (registration_complete info = DPS_SUCCESS \<longrightarrow> tpm_slots e w n \<noteq> None)"

lemma callback_step:
  assumes "platform_laws tr env" and "tpm_ready (tr, env) w" and "slot info = n"
    and "ok \<longrightarrow> fits_slot (tr, env) (le_widen env (uri @ ''/'' @ device))"
  shows "\<exists>info' w'. register_device_callback env ok uri device info w = (Done info', w') \<and>
     slot_kept (tr, env) n w w' \<and> info_ok (tr, env) n info' w' \<and> platform.more w' = platform.more w \<and>
     registration_complete info' = (if ok then DPS_SUCCESS else DPS_FAILURE)"
proof (cases ok)
  case True
  with assms store_keeps_more [OF assms(1, 2), of "le_widen env (uri @ ''/'' @ device)" n]
  obtain r w' where "StoreIothubUri env n (le_widen env (uri @ ''/'' @ device)) w = (r, w')" "\<exists>x c. r = Done x \<or> r = Failed c"
    "platform.more w' = platform.more w" "tpm_ready (tr, env) w'" "tpm_slots (tr, env) w' n \<noteq> None"
    "\<forall>m. m \<noteq> n \<longrightarrow> tpm_slots (tr, env) w' m = tpm_slots (tr, env) w m"
    by blast
  with True assms(3) show ?thesis
    by (auto simp: register_device_callback_def lim_simps slot_kept_def info_ok_def)
next
  case False
  with assms(2, 3) show ?thesis
    by (simp add: register_device_callback_def lim_simps slot_kept_def info_ok_def)
qed

lemma ends_well_Cons: "es \<noteq> [] \<Longrightarrow> ends_well (e # es) \<longleftrightarrow> ends_well es"
  by (cases es rule: rev_cases) (auto simp: ends_well_def)

lemma ends_well_single [simp]: "ends_well [Registered ok uri device] \<longleftrightarrow> ok" "\<not> ends_well [Status s]" "\<not> ends_well []"
  by (auto simp: ends_well_def)

lemma call_back_keeps:
  assumes laws: "platform_laws tr env" and "tpm_ready (tr, env) w" and "info_ok (tr, env) n info w"
    and "hub_uris_fit (tr, env) es"
  shows "\<exists>info' w'. call_back env es info w = (Done info', w') \<and> slot_kept (tr, env) n w w' \<and>
     info_ok (tr, env) n info' w' \<and> platform.more w' = platform.more w \<and>
     (ends_well es \<longrightarrow> registration_complete info' = DPS_SUCCESS)"
  using assms(2-)
proof (induction es arbitrary: info w)
  case Nil
  then show ?case by (simp add: ldone_def slot_kept_def)
next
  case (Cons e es)
  have fit: "hub_uris_fit (tr, env) es" using Cons.prems(3) by (simp add: hub_uris_fit_def)
  show ?case
  proof (cases e)
    case (Status s)
    have "info_ok (tr, env) n (registation_status_callback s info) w"
      using Cons.prems(2) by (simp add: info_ok_def registation_status_callback_def)
    with Cons.IH [OF Cons.prems(1) _ fit] Status show ?thesis
      by (cases "es = []") (auto simp: ends_well_Cons)
  next
    case (Registered ok uri device)
    with Cons.prems(3) have "ok \<longrightarrow> fits_slot (tr, env) (le_widen env (uri @ ''/'' @ device))"
      by (auto simp: hub_uris_fit_def)
    then obtain info1 w1 where 1: "register_device_callback env ok uri device info w = (Done info1, w1)"
        "slot_kept (tr, env) n w w1" "info_ok (tr, env) n info1 w1" "platform.more w1 = platform.more w"
        "registration_complete info1 = (if ok then DPS_SUCCESS else DPS_FAILURE)"
      using callback_step [OF laws Cons.prems(1), of info n ok uri device] Cons.prems(2) unfolding info_ok_def by blast
    obtain info' w' where 2: "call_back env es info1 w1 = (Done info', w')" "slot_kept (tr, env) n w1 w'"
        "info_ok (tr, env) n info' w'" "platform.more w' = platform.more w1"
        "ends_well es \<longrightarrow> registration_complete info' = DPS_SUCCESS"
      using Cons.IH [OF slot_kept_ready [OF 1(2)] 1(3) fit] by blast
    have "registration_complete info' = DPS_SUCCESS" if "ends_well (e # es)"
    proof (cases "es = []")
      case True
      with that Registered 1(5) 2(1) show ?thesis by (simp add: ldone_def)
    next
      case False
      with that 2(5) show ?thesis by (simp add: ends_well_Cons)
    qed
    with Registered 1 2 slot_kept_trans [OF 1(2) 2(2)] show ?thesis by (auto simp: lbind_def)
  qed
qed

abbreviation fuel :: "('z \<Rightarrow> nat) \<Rightarrow> 'z platform_scheme \<Rightarrow> nat" where
  "fuel rank w \<equiv> rank (platform.more w)"

lemma sdk_DoWork:
  assumes "sdk_works e rank denv" and "de_DoWork denv h w = (es, w')"
  shows "same_store w w'" "hub_uris_fit e es" "fuel rank w' \<le> fuel rank w" "ends_well es \<or> fuel rank w' < fuel rank w"
  using assms unfolding sdk_works_def by blast+

lemma sdk_Sleep:
  assumes "sdk_works e rank denv"
  shows "same_store w (de_Sleep denv t w)" "fuel rank (de_Sleep denv t w) \<le> fuel rank w"
  using assms unfolding sdk_works_def by blast+

lemma sdk_Destroy:
  assumes "sdk_works e rank denv"
  shows "same_store w (de_Destroy denv h w)" "fuel rank (de_Destroy denv h w) \<le> fuel rank w"
  using assms unfolding sdk_works_def by blast+

lemma info_ok_same: "same_store w w' \<Longrightarrow> info_ok e n info w' = info_ok e n info w"
  by (simp add: info_ok_def same_store_tpm)

text \<open>The inner loop ends; without success it has used up some of the rank.\<close>

lemma work_loop_ends:
  assumes laws: "platform_laws tr env" and sdk: "sdk_works (tr, env) rank denv"
    and "tpm_ready (tr, env) w" and "info_ok (tr, env) n info w"
  shows "\<exists>info' w'. work_loop env denv h info w = Some (Done info', w') \<and> slot_kept (tr, env) n w w' \<and>
     info_ok (tr, env) n info' w' \<and> fuel rank w' \<le> fuel rank w \<and>
     (registration_complete info' = DPS_SUCCESS \<or> fuel rank w' < fuel rank w)"
  using assms(3, 4)
proof (induction "fuel rank w" arbitrary: w info rule: less_induct)
  case less
  obtain es w1 where dw: "de_DoWork denv h w = (es, w1)" by fastforce
  note s1 = sdk_DoWork [OF sdk dw]
  have k1: "slot_kept (tr, env) n w w1" by (rule slot_kept_same [OF less.prems(1) s1(1)])
  obtain info2 w2 where cb: "call_back env es info w1 = (Done info2, w2)" "slot_kept (tr, env) n w1 w2"
      "info_ok (tr, env) n info2 w2" "platform.more w2 = platform.more w1"
      "ends_well es \<longrightarrow> registration_complete info2 = DPS_SUCCESS"
    using call_back_keeps [OF laws slot_kept_ready [OF k1] _ s1(2), of n info] less.prems(2) info_ok_same [OF s1(1)]
    by blast
  let ?w3 = "de_Sleep denv (sleep_time info2) w2"
  have k3: "slot_kept (tr, env) n w ?w3" and i3: "info_ok (tr, env) n info2 ?w3"
    using slot_kept_trans [OF slot_kept_trans [OF k1 cb(2)] slot_kept_same [OF slot_kept_ready [OF cb(2)] sdk_Sleep(1) [OF sdk]]]
      cb(3) info_ok_same [OF sdk_Sleep(1) [OF sdk]] by blast+
  have f3: "fuel rank ?w3 \<le> fuel rank w1" using sdk_Sleep(2) [OF sdk, of "sleep_time info2" w2] cb(4) by simp
  show ?case
  proof (cases "registration_complete info2 = DPS_RUNNING")
    case True
    then have "\<not> ends_well es" using cb(5) by auto
    then have "fuel rank ?w3 < fuel rank w" using s1(4) f3 by auto
    from less.hyps [OF this slot_kept_ready [OF k3] i3] obtain info' w' where
      "work_loop env denv h info2 ?w3 = Some (Done info', w')" "slot_kept (tr, env) n ?w3 w'"
      "info_ok (tr, env) n info' w'" "fuel rank w' \<le> fuel rank ?w3"
      by blast
    with dw cb(1) True k3 \<open>fuel rank ?w3 < fuel rank w\<close> show ?thesis
      by (subst work_loop.simps) (auto intro: slot_kept_trans)
  next
    case False
    then have "work_loop env denv h info w = Some (Done info2, ?w3)"
      using dw cb(1) by (subst work_loop.simps) simp
    moreover have "registration_complete info2 = DPS_SUCCESS \<or> fuel rank ?w3 < fuel rank w"
      using s1(4) cb(5) f3 by auto
    ultimately show ?thesis using k3 i3 f3 s1(3) by auto
  qed
qed

lemma works_run:
  assumes "works rank f x"
  obtains w' where "f w = (x, w')" "same_store w w'" "fuel rank w' \<le> fuel rank w"
  using assms unfolding works_def by blast

lemma works_hr: "works rank f 0 \<Longrightarrow> \<exists>w'. hr_call f w = (Done 0, w') \<and> same_store w w' \<and> fuel rank w' \<le> fuel rank w"
  by (elim works_run [where w = w]) (simp add: hr_call_def)

lemma not_FAILED_hr_0 [simp]: "\<not> FAILED_hr 0"
  by (simp add: FAILED_hr_def)

lemma start_works:
  assumes "sdk_works e rank denv"
  shows "\<exists>h w'. start_registration denv dpsUri dpsScopeId w = (Done (h, 0), w') \<and> same_store w w' \<and> fuel rank w' \<le> fuel rank w"
proof -
  have "\<forall>uri scope. \<exists>h. works rank (de_Create denv uri scope) (Some h)" and all: "\<forall>h. works rank (de_Register denv h) True"
    using assms by (simp_all add: sdk_works_def)
  then obtain h where "works rank (de_Create denv (c_str dpsUri) (c_str dpsScopeId)) (Some h)" by blast
  with assms all have sdk: "works rank (de_Com denv) 0" "works rank (de_Network denv) 0" "works rank (de_Wait denv) 0"
      "works rank (de_platform_init denv) 0" "works rank (de_security_init denv) 0"
      "works rank (de_Create denv (c_str dpsUri) (c_str dpsScopeId)) (Some h)" "works rank (de_Register denv h) True"
    by (simp_all add: sdk_works_def)
  obtain w1 where w1: "hr_call (de_Com denv) w = (Done 0, w1)" "same_store w w1" "fuel rank w1 \<le> fuel rank w"
    using works_hr [OF sdk(1)] by blast
  obtain w2 where w2: "hr_call (de_Network denv) w1 = (Done 0, w2)" "same_store w1 w2" "fuel rank w2 \<le> fuel rank w1"
    using works_hr [OF sdk(2)] by blast
  obtain w3 where w3: "de_Wait denv w2 = (0, w3)" "same_store w2 w3" "fuel rank w3 \<le> fuel rank w2"
    using works_run [OF sdk(3)] by blast
  obtain w4 where w4: "hr_call (de_platform_init denv) w3 = (Done 0, w4)" "same_store w3 w4" "fuel rank w4 \<le> fuel rank w3"
    using works_hr [OF sdk(4)] by blast
  obtain w5 where w5: "hr_call (de_security_init denv) w4 = (Done 0, w5)" "same_store w4 w5" "fuel rank w5 \<le> fuel rank w4"
    using works_hr [OF sdk(5)] by blast
  obtain w6 where w6: "de_Create denv (c_str dpsUri) (c_str dpsScopeId) w5 = (Some h, w6)" "same_store w5 w6" "fuel rank w6 \<le> fuel rank w5"
    using works_run [OF sdk(6)] by blast
  obtain w7 where w7: "de_Register denv h w6 = (True, w7)" "same_store w6 w7" "fuel rank w7 \<le> fuel rank w6"
    using works_run [OF sdk(7)] by blast
  have wait: "WaitForConnection denv w2 = (Done 0, w3)" using w3(1) by (simp add: WaitForConnection_def)
  have "start_registration denv dpsUri dpsScopeId w = (Done (h, 0), w7)"
    by (simp add: start_registration_def unless_failed_def sdk_ask_def lim_simps w1(1) w2(1) wait w4(1) w5(1) w6(1) w7(1))
  moreover have "same_store w w7"
    using w1(2) w2(2) w3(2) w4(2) w5(2) w6(2) w7(2) by (simp add: same_store_def)
  ultimately show ?thesis
    using w1(3) w2(3) w3(3) w4(3) w5(3) w6(3) w7(3) by auto
qed

lemma register_loop_ends:
  assumes laws: "platform_laws tr env" and sdk: "sdk_works (tr, env) rank denv" and "tpm_ready (tr, env) w"
  shows "\<exists>w'. register_loop env denv dpsUri dpsScopeId n w = Some (Done 0, w') \<and> slot_kept (tr, env) n w w' \<and>
     tpm_slots (tr, env) w' n \<noteq> None"
  using assms(3)
proof (induction "fuel rank w" arbitrary: w rule: less_induct)
  case less
  let ?info = "\<lparr>sleep_time = 10, registration_complete = DPS_RUNNING, slot = n\<rparr>"
  obtain h w1 where st: "start_registration denv dpsUri dpsScopeId w = (Done (h, 0), w1)" "same_store w w1" "fuel rank w1 \<le> fuel rank w"
    using start_works [OF sdk] by blast
  have k1: "slot_kept (tr, env) n w w1" by (rule slot_kept_same [OF less.prems st(2)])
  have "info_ok (tr, env) n ?info w1" by (simp add: info_ok_def)
  from work_loop_ends [OF laws sdk slot_kept_ready [OF k1] this]
  obtain info w2 where wl: "work_loop env denv h ?info w1 = Some (Done info, w2)" "slot_kept (tr, env) n w1 w2"
      "info_ok (tr, env) n info w2" "fuel rank w2 \<le> fuel rank w1"
      "registration_complete info = DPS_SUCCESS \<or> fuel rank w2 < fuel rank w1"
    by blast
  let ?w3 = "de_Destroy denv h w2"
  have k3: "slot_kept (tr, env) n w ?w3"
    using slot_kept_trans [OF slot_kept_trans [OF k1 wl(2)] slot_kept_same [OF slot_kept_ready [OF wl(2)] sdk_Destroy(1) [OF sdk]]] .
  have attempt: "register_attempt env denv dpsUri dpsScopeId n w = Some (Done (0, registration_complete info = DPS_SUCCESS), ?w3)"
    using st(1) wl(1) by (simp add: register_attempt_def)
  show ?case
  proof (cases "registration_complete info = DPS_SUCCESS")
    case True
    then have "tpm_slots (tr, env) ?w3 n \<noteq> None"
      using wl(3) same_store_tpm(2) [OF sdk_Destroy(1) [OF sdk, of w2 h], of "(tr, env)"] by (simp add: info_ok_def)
    with attempt True k3 show ?thesis by (subst register_loop.simps) auto
  next
    case False
    let ?w4 = "de_Sleep denv 5000 ?w3"
    have k4: "slot_kept (tr, env) n w ?w4"
      using slot_kept_trans [OF k3 slot_kept_same [OF slot_kept_ready [OF k3] sdk_Sleep(1) [OF sdk]]] .
    have "fuel rank ?w4 < fuel rank w"
      using False wl(5) st(3) sdk_Sleep(2) [OF sdk, of 5000 ?w3] sdk_Destroy(2) [OF sdk, of h w2] by auto
    from less.hyps [OF this slot_kept_ready [OF k4]] obtain w' where
      "register_loop env denv dpsUri dpsScopeId n ?w4 = Some (Done 0, w')" "slot_kept (tr, env) n ?w4 w'"
      "tpm_slots (tr, env) w' n \<noteq> None" by blast
    with attempt False k4 show ?thesis
      by (subst register_loop.simps) (auto intro: slot_kept_trans)
  qed
qed

text \<open>
  C17: where the TPM was chosen and keeps the devices' keys apart from its slots, the platform and the
  SDK work, the URIs the hub gives out fit a slot, and the registration can be looked at only so
  often before it ends well, DpsRegisterDevice returns, whatever failures and retries come
  before, with a code of success; the device's slot then holds a URI, every other slot is as
  it was, and a device whose slot held a URI already is not registered again.
\<close>

theorem registration_provisions:
  assumes "platform_laws tr env" and "keys_apart env" and "sdk_works (tr, env) rank denv" and "tpm_ready (tr, env) w"
    and "le_hresult env 0 = 0"
  shows "\<exists>w'. DpsRegisterDevice env denv n dpsUri dpsScopeId w = Some (Done 0, w') \<and>
    tpm_slots (tr, env) w' n \<noteq> None \<and> (\<forall>m. m \<noteq> n \<longrightarrow> tpm_slots (tr, env) w' m = tpm_slots (tr, env) w m) \<and>
    (tpm_slots (tr, env) w n \<noteq> None \<longrightarrow> w' = w)"
proof (cases "tpm_slots (tr, env) w n = None")
  case True
  obtain w1 where w1: "EmptyTpmSlot env n w = (Done (), w1)" "tpm_ready (tr, env) w1"
      "tpm_slots (tr, env) w1 = (tpm_slots (tr, env) w)(n := None)"
    using EmptyTpmSlot_empties [OF assms(1, 2, 4)] by blast
  obtain w' where "register_loop env denv dpsUri dpsScopeId n w1 = Some (Done 0, w')" "slot_kept (tr, env) n w1 w'"
      "tpm_slots (tr, env) w' n \<noteq> None"
    using register_loop_ends [OF assms(1, 3) w1(2)] by blast
  with w1 True show ?thesis
    using provisioned_iff_tpm [OF assms(1, 4), of n] assms(5) by (auto simp: DpsRegisterDevice_def slot_kept_def)
next
  case False
  then show ?thesis
    using provisioned_iff_tpm [OF assms(1, 4), of n] assms(5) by (simp add: DpsRegisterDevice_def)
qed

text \<open>A service that refuses the registration as often as the rest of the state says.\<close>

definition sample_dps :: "nat platform_scheme dps_env" where
  "sample_dps = \<lparr>de_Com = (\<lambda>w. (0, w)), de_Network = (\<lambda>w. (0, w)), de_Wait = (\<lambda>w. (0, w)), de_LastError = (\<lambda>w. 0),
     de_platform_init = (\<lambda>w. (0, w)), de_security_init = (\<lambda>w. (0, w)),
     de_Create = (\<lambda>u s w. (Some 1, w)), de_Register = (\<lambda>h w. (True, w)),
     de_DoWork = (\<lambda>h w. if platform.more w = 0 then ([Status 2, Registered True ''h'' ''d''], w)
       else ([Registered False [] []], platform.more_update (\<lambda>k. k - 1) w)),
     de_Sleep = (\<lambda>t w. w), de_Destroy = (\<lambda>h w. w),
     de_Auth = (\<lambda>c w. (None, w)), de_Manager = (\<lambda>a w. (None, w)), de_GetModule = (\<lambda>m d k w. (None, w)),
     de_CreateModule = (\<lambda>m d k w. (None, w)), de_FreeModule = (\<lambda>w. w), de_DestroyManager = (\<lambda>m w. w),
     de_DestroyAuth = (\<lambda>a w. w)\<rparr>"

definition dps_platform :: "nat platform_scheme" where
  "dps_platform = \<lparr>lv_keys = {params_key},
     lv_vals = (\<lambda>kp. if kp = (params_key, ''useregistry'') then Some (LREG_DWORD 0) else None),
     lv_nv = (\<lambda>i. None), \<dots> = 2\<rparr>"

theorem registration_provisions_witness:
  "\<exists>w'. DpsRegisterDevice (sample_calls :: (nat platform_scheme, string) limpet_env) sample_dps 1 ''u'' ''s'' dps_platform =
      Some (Done 0, w') \<and> tpm_slots (sample_traits, sample_calls :: (nat platform_scheme, string) limpet_env) w' 1 \<noteq> None"
proof -
  let ?env = "sample_calls :: (nat platform_scheme, string) limpet_env"
  have fits: "fits_slot (sample_traits, ?env) (le_widen ?env (''h'' @ ''/'' @ ''d''))"
    by (simp add: fits_slot_def sample_calls_def wide_def)
  have "keys_apart ?env" by (simp add: keys_apart_def same_store_def sample_calls_def)
  moreover have "sdk_works (sample_traits, ?env) (\<lambda>k. k) sample_dps"
    using fits by (auto simp: sdk_works_def works_def same_store_def sample_dps_def hub_uris_fit_def
        ends_well_Cons split: if_splits)
  moreover have "tpm_ready (sample_traits, ?env) dps_platform"
    by (simp add: tpm_ready_def decided_def dps_platform_def)
  moreover have "le_hresult ?env 0 = 0" by (simp add: sample_calls_def)
  ultimately show ?thesis
    using registration_provisions [OF sample_calls_laws [where 'z = nat], of "\<lambda>k. k" sample_dps dps_platform 1] by blast
qed

text \<open>Arguments that are refused reach neither the TPM nor the service, and the device's slot is kept apart from the modules'.\<close>

theorem refused_arguments:
  assumes "AzureDpsRegisterDevice env denv tpmSlot dpsUri dpsScopeId dmSlot dmModuleId otherModules w \<noteq> Some (Done E_INVALIDARG, w)"
  shows "tpmSlot \<le> 9 \<and> dmSlot \<le> 9 \<and> dpsUri \<noteq> [] \<and> dpsScopeId \<noteq> [] \<and>
    (\<forall>(name, s) \<in> set otherModules. name \<noteq> [] \<and> s \<le> 9 \<and> s \<noteq> tpmSlot \<and> s \<noteq> dmSlot)"
  using assms by (auto simp: AzureDpsRegisterDevice_def bad_module_def list_ex_iff split: if_splits)

end
