(* ===== verification/Spec2Isabelle.thy ===== *)
theory Spec2Isabelle
  imports Agent_Prelude Errors Json_Value Text_Utils Date_Time Dependency_Sort Reporting Handler_Base
    Static_Handlers Service_Params Raw_Host Host_Dispatch Ipc_Transport Ipc_Pipe Ipc_Dispatch
    Cross_Binary Plugin_Handlers Plugin_Host Out_Of_Proc Pipe_Calls
    Service_Control DM_Client Client_Life
    Xml_Reader Mdm_Proxy Os_Services Device_Plugins Mdm_Plugins Os_Plugins Uwp_Apps
    Diag_Logs Certificates
    Limpet_Text Limpet_Base Limpet_Store Limpet_Slots Limpet_Sign Tpm_Support Dps_Registration
begin

text \<open>
  The Azure device-management agent for Windows IoT: a verification library.

  The agent is a Windows service that connects a device to an IoT Hub.  It loads plug-ins,
  each with handlers for one group of settings; the hub sends desired settings (the device
  twin) and direct methods, the agent's host passes them to the handlers in the order of
  their dependencies, and the handlers report what they did.  A plug-in is linked directly,
  loaded into the process behind a JSON envelope, or run in a process of its own behind a
  named pipe that carries the same envelope.

  Parts, theories and sources (all under src/code):

  Agent_Prelude: exceptions as values (\<open>exn\<close>), commands that keep their state when they throw
  (\<open>cmd\<close>: a C++ member function is a command over its object), invariants of commands
  (\<open>preserves\<close>, \<open>quiet\<close>) and \<open>std::map\<close> as a sorted association list (\<open>sm_put\<close>, \<open>sm_del\<close>;
  locale \<open>ordered_map\<close>).
  Errors: Utilities/DMException, the error codes.
  Json_Value: the values of Utilities/jsoncpp.cpp and device-agent/common/JsonHelpers.cpp.
  Text_Utils, Date_Time, Dependency_Sort: Utilities/DMString, Version, DateTime, DependencySort
  (the Kahn loop of \<open>SortDependency\<close> is a recursion on the work list; its invariant \<open>kahn_inv\<close>
  relates counters, dependents and the emitted order).
  Reporting: device-agent/common/ReportedError, ReportedErrorList, MetaData, ReportedSchema,
  ReportedSummary.  The clock, \<open>GetLastError\<close> and the reader and writer of JSON text are
  fields of the record \<open>world\<close> that every command over the world can reach.
  Handler_Base: device-agent/common/HandlerBase and Operation.  A handler call is a command
  over \<open>ctx\<close>: the handler object, the world, the reported object and the error list.  The
  locale \<open>raw_handler\<close> is the contract of every \<open>Invoke\<close>.
  Static_Handlers: device-agent/agent/Handlers, two interpretations of \<open>raw_handler\<close>.
  Service_Params: device-agent/agent/ServiceParameters and PluginManifest.  Saving takes the text
  that is written to be read back as the same value.
  Raw_Host, Host_Dispatch: device-agent/agent/Raw/AzureRawHost.  The host's handlers are the
  two static ones or a dynamic one whose virtual functions are a record of commands; the IoT
  Hub client is a stream of result codes and a log of what was sent; the two assertions of the
  dispatch end the process unless the build leaves them out (\<open>ndebug\<close>).  Host_Dispatch proves
  the frame and dispatch lemmas and the properties of the host: a twin update is an equation with
  the marking of the desired sections and the calls of the named active handlers.
  Ipc_Transport, Ipc_Pipe, Ipc_Dispatch: device-agent/common/Plugins, Message,
  PluginNamedPipeBaseTransport, MessageQueue.  Sizes are 64-bit words and wrap as \<open>size_t\<close>
  does; \<open>ReadFile\<close> and \<open>WriteFile\<close> are parameters with the documented behaviour of a
  message-mode pipe (\<open>message_pipe\<close>); reading is a partial function whose result proves that
  it ends; the threads are an inductive step relation, and \<open>work_left\<close> bounds every run; a
  transport that is initialized again starts with empty queues.
  Cross_Binary: device-agent/common/Plugins/CrossBinaryRequest, CrossBinaryResponse,
  PluginHelpers, and the two ends PluginBinaryProxy and AgentBinaryProxy.
  Plugin_Handlers: device-agent/plugin-common/RawHandlersStub and PluginStub against
  device-agent/agent/Plugins/RawHandlerProxy and PluginProxy.  The locale \<open>binary_channel\<close> is
  the contract of \<open>IPluginBinaryProxy::Invoke\<close> (a call is the call served at the other end),
  \<open>marshalled\<close> the refinement of a handler by its proxy over any such channel; both are
  interpreted for the in-process envelope here and for the pipe in Out_Of_Proc.
  Plugin_Host: device-agent/agent/Plugins/AgentStub against RawHandlerHostProxy and
  MdmServerProxy (locale \<open>reverse_channel\<close>).
  Out_Of_Proc: device-agent/agent/Plugins/OutOfProcPluginBinaryProxy and the request
  processing of both transports; \<open>remember\<close> is the abstract history the cache implements.
  Pipe_Calls: one call all the way over the two pipes, \<open>SendAndGetResponse\<close> against the turn of
  the plug-in's threads (\<open>plugin_turn\<close>); a wait that does not end is \<open>None\<close>.

  DM_Client, Client_Life: device-agent/agent/AzureDMClient and LocalDMClient.  The client is a
  record with its host (and a flag for the null pointer), the two client handles and the plug-ins;
  the SDK, the TPM, the provisioning client, the clock and the plug-ins are the record
  \<open>client_env\<close>.  What may run for ever (waiting for a connection string, the run loop) is a
  partial function into option, \<open>None\<close> being that it does not return; DM_Client shows what the
  wait for a connection string amounts to, Client_Life how a run ends, what becomes of the hub
  handles, when the connection is renewed and that plug-ins only add handlers.
  Service_Control: device-agent/agent/ServiceManager and DMService.  The service control manager
  is the record \<open>scm_api\<close>; the service keeps the list of the reports it made; its worker
  is a partial function over the client's run.

  Xml_Reader: device-agent/common/CSPs/SyncMLHelpers.  XmlLite is a parameter that turns a text
  into a stream of nodes or an error; the three readers are loops over that stream with the
  locals of the C++ functions as records.  A tree of elements (\<open>xml\<close>) and its node stream
  (\<open>xml_events\<close>) give the reference the loops are compared with.
  Mdm_Proxy: device-agent/common/CSPs/MdmProxy, MdmHandlerBase and device-agent/agent/Mdm/MdmServer,
  over a record for the local management call of the platform; the marks of a document (\<open>marks\<close>:
  what opens and what is said) are the reference for the status codes of an answer.
  Os_Services: Utilities/Registry, the launching of a child process of Utilities/DMProcess (reading
  its pipe is a recursion over what the pipe holds at each look), the system folder and the
  clearing of the TPM.  \<open>registry_laws\<close> is the documented behaviour of the registry.
  Device_Plugins: what the handlers of device-agent-plugins share: starting, the test mode, the
  answer of a command and the frame of a desired-state \<open>Invoke\<close> (locale \<open>state_plugin\<close>, which
  gives \<open>raw_handler\<close>).
  Mdm_Plugins: RebootPlugin, WindowsUpdatePlugin, DeviceInfoPlugin, RemoteWipePlugin,
  FactoryResetPlugin.  Os_Plugins: WindowsTelemetryPlugin, TimePlugin.  Uwp_Apps:
  UwpAppManagementPlugin.  Diag_Logs: DiagnosticLogsManagementPlugin, its collectors over the MDM
  server, the registry and the file system, and the four commands on log files; \<open>guarded\<close> is a file
  system that ends the process at a write outside the data folder.  Certificates:
  CertificateManagementPlugin, Utilities/File.cpp.  Every handler is its record, its operations as commands over \<open>ctx\<close> and
  an interpretation of the locales above.

  Limpet_Text: the encodings of LimpetApi/LimpetApi.cpp, percent escapes and base 32, with the
  references they are compared with.
  Limpet_Base, Limpet_Store: the store of LimpetApi/LimpetApi.cpp, the hub's URI and the HMAC key
  of a logical device in the TPM or in the registry.  A function is a command whose outcome tells
  a code that is returned from a UINT32 that is thrown and from any other exception; the commands
  of the TPM, the registry, cryptography and conversions are the record \<open>limpet_env\<close>; wide texts
  are lists of code units.
  Limpet_Slots: what that store promises.  \<open>platform_laws\<close> is the documented behaviour of the
  registry and of NV indices; the locale \<open>uri_store\<close> is the contract of a place that keeps URIs,
  interpreted for the registry, for the TPM and for the functions that choose; its theorem is the
  refinement of a map by any sequence of requests.
  Limpet_Sign: the HMAC over TPM commands of bounded size (a recursion on the data that is left),
  the connection string, the registration id and the clearing of the TPM.  \<open>hmac_laws\<close> and
  \<open>key_laws\<close> are the documented behaviour of the commands on handles that hold a key, in terms of
  what is seen of the TPM (\<open>hmac_view\<close>: keys, open sequences, room).
  Tpm_Support: Utilities/TpmSupport.
  Dps_Registration: AzureDeviceProvisioningClient (DpsDeviceRegistration, DpsClientApi,
  NetConnection).  The two loops of the registration are partial functions into option; with a
  service that ends well after a bounded number of looks (\<open>rank\<close>) they return.

  Hypotheses that recur: \<open>carried\<close> says of one JSON value that the JSON library writes a text
  that reads back as the value and holds no NUL, \<open>portable\<close> that an outcome fits the envelope
  (an error code in the range of int, a message without NUL), \<open>sm_wf\<close> and \<open>json_wf\<close> that maps
  are sorted and numbers in the range of their C++ type.

  Not modelled: the text reader and the writers of jsoncpp, tracing and event logging, the
  handles and threads that start and stop the pipes, the keep-alive monitor, the local client's
  queries and the bridge's thread, the command line, the identity certificates, challenges and
  service-side keys of LimpetApi.cpp and its command line tool (sequences of calls of a TPM
  library that is not in the repository), HttpConnection.cpp of the provisioning client (it
  includes a header that is not in the repository and no project lists it), the UWP bridge,
  samples and tools.
\<close>

end
